(* ===== verification/Prelude.thy ===== *)
theory Prelude
  imports
    Main
    "HOL-Library.AList"
    "HOL-Library.Char_ord"
    "HOL-Library.List_Lexorder"
    "HOL-Library.Product_Lexorder"
begin

text \<open>
  Shared vocabulary of the development: identifiers and clock values, Go error trees
  with \<open>errors.Is\<close> and \<open>errors.As\<close>, the JSON values kept in \<open>jsonb\<close> columns,
  the SQL statements the queries use (on tables as lists of rows), transactions, and the
  generic lemmas the component theories rely on.
\<close>

named_theorems go_simps \<open>unfolding rules of the small helpers every component uses\<close>
named_theorems sql_simps \<open>rewrite rules for SQL statements on row lists\<close>

section \<open>Identifiers, time, integers\<close>

text \<open>
  A UUID is a number; \<open>uuid.Nil\<close> is 0. The textual form of a UUID is fixed-width
  lower-case hexadecimal, so ordering the strings is ordering the numbers.
  A \<open>time.Time\<close> or \<open>time.Duration\<close> is a number of nanoseconds; the zero time is 0.
\<close>

type_synonym uuid = nat
type_synonym go_time = int
type_synonym moref = string

abbreviation (input) uuid_Nil :: uuid where
  "uuid_Nil \<equiv> 0"

definition seconds :: "int \<Rightarrow> go_time" where
  "seconds n = n * 1000000000"

text \<open>Go integer division truncates towards zero.\<close>

definition go_div :: "int \<Rightarrow> int \<Rightarrow> int" where
  "go_div a b = sgn a * sgn b * (\<bar>a\<bar> div \<bar>b\<bar>)"

lemma go_div_nonneg [go_simps]: "0 \<le> a \<Longrightarrow> 0 < b \<Longrightarrow> go_div a b = a div b"
  by (cases "a = 0") (auto simp: go_div_def)

lemma seconds_mono [simp]: "seconds a \<le> seconds b \<longleftrightarrow> a \<le> b"
  by (simp add: seconds_def)

section \<open>JSON values\<close>

text \<open>
  The value of a \<open>jsonb\<close> column. An object is an association list in canonical key order,
  so structural equality is \<open>jsonb\<close> equality.
\<close>

datatype json = JNull | JBool bool | JNum int | JStr string | JArr "json list"
  | JObj "(string \<times> json) list"

type_synonym payload = "(string \<times> json) list"

definition pget :: "payload \<Rightarrow> string \<Rightarrow> json option" where
  "pget p k = map_of p k"

definition pset :: "string \<Rightarrow> json \<Rightarrow> payload \<Rightarrow> payload" where
  "pset k v p = AList.update k v p"

definition pdel :: "string \<Rightarrow> payload \<Rightarrow> payload" where
  "pdel k p = AList.delete k p"

text \<open>\<open>payload->>'key' = 'true'\<close>: the text of a JSON true and of a string "true" agree.\<close>

definition ptrue :: "payload \<Rightarrow> string \<Rightarrow> bool" where
  "ptrue p k \<longleftrightarrow> pget p k = Some (JBool True) \<or> pget p k = Some (JStr ''true'')"

lemma pget_pset [simp]: "pget (pset k v p) k' = (if k' = k then Some v else pget p k')"
  by (simp add: pget_def pset_def update_conv')

lemma pget_pdel [simp]: "pget (pdel k p) k' = (if k' = k then None else pget p k')"
  by (simp add: pget_def pdel_def delete_conv')

lemma ptrue_pset [simp]: "ptrue (pset k (JBool True) p) k' \<longleftrightarrow> k' = k \<or> ptrue p k'"
  by (auto simp: ptrue_def)

lemma ptrue_pset_other [simp]: "k' \<noteq> k \<Longrightarrow> ptrue (pset k v p) k' = ptrue p k'"
  by (simp add: ptrue_def)

lemma ptrue_pdel [simp]: "ptrue (pdel k p) k' \<longleftrightarrow> k' \<noteq> k \<and> ptrue p k'"
  by (auto simp: ptrue_def)

section \<open>Errors\<close>

text \<open>The sentinel variables (\<open>errors.New\<close> at package level) of the packages modelled here.\<close>

datatype sentinel =
    ErrHostNotAllowed | ErrAmbiguousHostIdentity | ErrPlacementUnavailable | ErrReservedHeadroom
  | ErrPlacementDrift | ErrPlacementValidationUnavailable | ErrDRSControlDrift
  | ErrDRSControlMissing | ErrDRSControlFailure | ErrAmbiguousVMOwnership
  | ErrHostCapacityAdmission | ErrJobLeaseLost | ErrTemplateReplicaBuildConflict
  | ErrTemplateReplicaBuildJobObsolete | ErrTemplateReplicaBuildLeaseLost | ErrReplicaBuildAmbiguous
  | errTemplateReplicaBuildTaskFailed | ErrTemplateStale | ErrTemplateNotFound
  | ErrUnsafePodCreateCleanupState
  | ErrPodJobRequiresSerialization | ErrPodNotFound | ErrPodVMNotFound | ErrPodJobRejected
  | ErrPodDestroyNotNeeded | ErrPodExtensionRejected | ErrPodExtensionsExhausted
  | ErrPodAlreadyDestroyed | ErrPodDestroyJobObsolete | ErrPodDestroyOwnershipLost
  | ErrPodDestroyBlockedByMutator | ErrPodDestroyExclusionInvalid | ErrPodDestroyRecoveryPrecondition
  | ErrPortGroupReceiptNotFound | ErrPortGroupReceiptConflict
  | ErrSharedNetworksNotReady | ErrSharedNetworksFull
  | ErrVMCloneAlreadyDestroyed | ErrCloneTaskFailed | ErrRunnerPoolExhausted | ErrRunnerAtCapacity
  | ErrOwnershipLost | ErrNotClaimed | ErrLeaseLost | errLeaseFinished
  | ErrInvalidStateTransition | ErrUnknownState
  | errVMPlacementCapacityRelease
  | pgx_ErrNoRows | context_Canceled

text \<open>
  An error value is a tree: \<open>Sentinel\<close> is a package variable, \<open>Errorf text ws\<close> is
  \<open>fmt.Errorf\<close> with the errors its \<open>%w\<close> verbs wrap (\<open>errors.New\<close> when there are none),
  and \<open>Typed\<close> is a value of one of the wrapper types with the error it unwraps to (for a
  \<open>PlacementDriftError\<close> without a cause, an \<open>Errorf\<close> with an empty text).
  The text of an \<open>Errorf\<close> is what \<open>Error()\<close> returns; where a definition of this
  development raises an error itself, the text is the constant part of the format.
\<close>

datatype drift_kind = PlacementDriftHost | PlacementDriftCompute | PlacementDriftDRS
  | PlacementDriftIdentity

datatype err_type =
    compensatedJobError
  | compensationRetryError "json option"
  | cloneForwardRetryError "json option"
  | manualCleanupRequiredError
  | podCreateCleanupRetryError
  | PlacementDriftError drift_kind string

datatype go_error =
    Sentinel sentinel
  | Errorf string "go_error list"
  | Typed err_type go_error

abbreviation errorsNew :: "string \<Rightarrow> go_error" where
  "errorsNew s \<equiv> Errorf s []"

text \<open>
  \<open>errors.Is(err, target)\<close> for a sentinel target. A \<open>PlacementDriftError\<close> has an \<open>Is\<close>
  method of its own: its kind answers for the two drift sentinels, its cause for the rest.
\<close>

fun driftIs :: "drift_kind \<Rightarrow> sentinel \<Rightarrow> bool" where
  "driftIs k ErrPlacementDrift = (k \<in> {PlacementDriftHost, PlacementDriftCompute, PlacementDriftIdentity})"
| "driftIs k ErrDRSControlDrift = (k = PlacementDriftDRS)"
| "driftIs k _ = False"

fun errorsIs :: "go_error \<Rightarrow> sentinel \<Rightarrow> bool" where
  "errorsIs (Sentinel s) t = (s = t)"
| "errorsIs (Errorf _ ws) t = list_ex (\<lambda>w. errorsIs w t) ws"
| "errorsIs (Typed (PlacementDriftError k _) e) t = (driftIs k t \<or> errorsIs e t)"
| "errorsIs (Typed _ e) t = errorsIs e t"

text \<open>\<open>errors.As(err, &v)\<close> for a wrapper type: the first value of that type in the tree.\<close>

fun errorsAs :: "(err_type \<Rightarrow> bool) \<Rightarrow> go_error \<Rightarrow> bool" where
  "errorsAs p (Sentinel _) = False"
| "errorsAs p (Errorf _ ws) = list_ex (\<lambda>w. errorsAs p w) ws"
| "errorsAs p (Typed ty e) = (p ty \<or> errorsAs p e)"

text \<open>The value itself, of which the caller wants a part.\<close>

fun errorsFind :: "(err_type \<Rightarrow> 'a option) \<Rightarrow> go_error \<Rightarrow> 'a option" where
  "errorsFind p (Sentinel _) = None"
| "errorsFind p (Errorf _ ws) =
     (case List.map_filter id (map (errorsFind p) ws) of [] \<Rightarrow> None | x # _ \<Rightarrow> Some x)"
| "errorsFind p (Typed ty e) = (case p ty of Some x \<Rightarrow> Some x | None \<Rightarrow> errorsFind p e)"

type_synonym 'a result = "go_error + 'a"

fun sentinelText :: "sentinel \<Rightarrow> string" where
  "sentinelText ErrHostNotAllowed = ''vCenter host is outside VCENTER_HOSTS''"
| "sentinelText ErrAmbiguousHostIdentity = ''vCenter host identity is ambiguous''"
| "sentinelText ErrPlacementUnavailable = ''no eligible allowlisted vCenter placement''"
| "sentinelText ErrReservedHeadroom = ''vCenter host reserved headroom would be violated''"
| "sentinelText ErrPlacementDrift = ''VM placement drift detected''"
| "sentinelText ErrPlacementValidationUnavailable = ''VM placement validation unavailable''"
| "sentinelText ErrDRSControlDrift = ''VM DRS control drift detected''"
| "sentinelText ErrDRSControlMissing = ''VM DRS control is missing''"
| "sentinelText ErrDRSControlFailure = ''VM DRS control could not be enforced''"
| "sentinelText ErrAmbiguousVMOwnership = ''VM ownership cannot be proven''"
| "sentinelText ErrHostCapacityAdmission = ''host capacity admission rejected''"
| "sentinelText ErrJobLeaseLost = ''job lease ownership lost''"
| "sentinelText ErrTemplateReplicaBuildConflict = ''template replica build conflicts with an existing operation''"
| "sentinelText ErrTemplateReplicaBuildJobObsolete = ''template replica build job is no longer linked to its operation''"
| "sentinelText ErrTemplateReplicaBuildLeaseLost = ''template replica build worker lease lost''"
| "sentinelText ErrReplicaBuildAmbiguous = ''template replica build ownership is ambiguous''"
| "sentinelText errTemplateReplicaBuildTaskFailed = ''template replica build vCenter task failed''"
| "sentinelText ErrTemplateStale = ''template was modified by another user''"
| "sentinelText ErrTemplateNotFound = ''template not found''"
| "sentinelText ErrUnsafePodCreateCleanupState = ''pod state is unsafe for pod-create cleanup''"
| "sentinelText ErrPodJobRequiresSerialization = ''pod and VM jobs require serialized enqueue''"
| "sentinelText ErrPodNotFound = ''pod not found''"
| "sentinelText ErrPodVMNotFound = ''pod VM not found''"
| "sentinelText ErrPodJobRejected = ''pod does not accept new mutator jobs''"
| "sentinelText ErrPodDestroyNotNeeded = ''pod destroy is no longer needed''"
| "sentinelText ErrPodExtensionRejected = ''pod cannot be extended''"
| "sentinelText ErrPodExtensionsExhausted = ''pod extension limit reached''"
| "sentinelText ErrPodAlreadyDestroyed = ''pod is already destroyed''"
| "sentinelText ErrPodDestroyJobObsolete = ''pod destroy job is not authoritative''"
| "sentinelText ErrPodDestroyOwnershipLost = ''pod no longer owns its exact VLAN''"
| "sentinelText ErrPodDestroyBlockedByMutator = ''pod destroy is blocked by nonterminal mutator work''"
| "sentinelText ErrPodDestroyExclusionInvalid = ''pod destroy mutator exclusion is invalid''"
| "sentinelText ErrPodDestroyRecoveryPrecondition = ''pod destroy recovery precondition failed''"
| "sentinelText ErrPortGroupReceiptNotFound = ''durable port group receipt not found''"
| "sentinelText ErrPortGroupReceiptConflict = ''durable port group receipt conflicts with existing ownership''"
| "sentinelText ErrSharedNetworksNotReady = ''shared networks are not ready''"
| "sentinelText ErrSharedNetworksFull = ''shared networks are full''"
| "sentinelText ErrVMCloneAlreadyDestroyed = ''exact VM clone was already destroyed''"
| "sentinelText ErrCloneTaskFailed = ''vCenter clone task failed''"
| "sentinelText ErrRunnerPoolExhausted = ''runner address pool is exhausted''"
| "sentinelText ErrRunnerAtCapacity = ''assessment runner capacity reached''"
| "sentinelText ErrOwnershipLost = ''rollback persistence ownership lost''"
| "sentinelText ErrNotClaimed = ''work lease not claimed''"
| "sentinelText ErrLeaseLost = ''work lease ownership lost''"
| "sentinelText errLeaseFinished = ''work lease run finished''"
| "sentinelText ErrInvalidStateTransition = ''invalid template state transition''"
| "sentinelText ErrUnknownState = ''unknown template state''"
| "sentinelText errVMPlacementCapacityRelease = ''VM placement capacity release unavailable''"
| "sentinelText pgx_ErrNoRows = ''no rows in result set''"
| "sentinelText context_Canceled = ''context canceled''"

text \<open>\<open>err.Error()\<close>.\<close>

fun driftKindText :: "drift_kind \<Rightarrow> string" where
  "driftKindText PlacementDriftHost = ''host''"
| "driftKindText PlacementDriftCompute = ''compute''"
| "driftKindText PlacementDriftDRS = ''drs''"
| "driftKindText PlacementDriftIdentity = ''identity''"

fun errorText :: "go_error \<Rightarrow> string" where
  "errorText (Sentinel s) = sentinelText s"
| "errorText (Errorf s _) = s"
| "errorText (Typed (PlacementDriftError k d) e) =
     (if e = Errorf [] [] then driftKindText k @ '' placement drift: '' @ d
      else driftKindText k @ '' placement drift: '' @ d @ '': '' @ errorText e)"
| "errorText (Typed _ e) = errorText e"

lemma errorsIs_wrap [go_simps]: "errorsIs (Errorf s [e]) t = errorsIs e t"
  by simp

lemma errorsAs_wrap [go_simps]: "errorsAs p (Errorf s [e]) = errorsAs p e"
  by simp

section \<open>Strings\<close>

definition ascii_lower :: "char \<Rightarrow> char" where
  "ascii_lower c = (if 65 \<le> (of_char c :: nat) \<and> (of_char c :: nat) \<le> 90 then char_of ((of_char c :: nat) + 32) else c)"

definition toLower :: "string \<Rightarrow> string" where
  "toLower = map ascii_lower"

definition equalFold :: "string \<Rightarrow> string \<Rightarrow> bool" where
  "equalFold a b \<longleftrightarrow> toLower a = toLower b"

fun hasPrefix :: "string \<Rightarrow> string \<Rightarrow> bool" where
  "hasPrefix _ [] = True"
| "hasPrefix [] (_ # _) = False"
| "hasPrefix (c # s) (d # p) = (c = d \<and> hasPrefix s p)"

fun containsStr :: "string \<Rightarrow> string \<Rightarrow> bool" where
  "containsStr [] p = (p = [])"
| "containsStr (c # s) p = (hasPrefix (c # s) p \<or> containsStr s p)"

lemma hasPrefix_iff: "hasPrefix s p \<longleftrightarrow> (\<exists>r. s = p @ r)"
  by (induction s p rule: hasPrefix.induct) auto

lemma containsStr_iff: "containsStr s p \<longleftrightarrow> (\<exists>l r. s = l @ p @ r)"
proof (induction s p rule: containsStr.induct)
  case (1 p)
  show ?case by auto
next
  case (2 c s p)
  have "(\<exists>l r. c # s = l @ p @ r) \<longleftrightarrow> (\<exists>r. c # s = p @ r) \<or> (\<exists>l r. s = l @ p @ r)"
    by (metis (no_types, opaque_lifting) Cons_eq_append_conv append_Cons append_Nil)
  with 2 show ?case by (simp add: hasPrefix_iff)
qed

lemma containsStr_append: "containsStr s p \<Longrightarrow> containsStr (a @ s @ b) p"
  unfolding containsStr_iff by (metis append.assoc)

lemma toLower_append [simp]: "toLower (a @ b) = toLower a @ toLower b"
  by (simp add: toLower_def)

section \<open>SQL statements on row lists\<close>

text \<open>
  A table is the list of its rows in insertion order. \<open>UPDATE t SET .. WHERE P\<close> is
  \<open>sql_update P f\<close>, and the number of rows a statement affects is \<open>sql_count P\<close>.
\<close>

definition sql_update :: "('r \<Rightarrow> bool) \<Rightarrow> ('r \<Rightarrow> 'r) \<Rightarrow> 'r list \<Rightarrow> 'r list" where
  "sql_update P f rs = map (\<lambda>r. if P r then f r else r) rs"

definition sql_count :: "('r \<Rightarrow> bool) \<Rightarrow> 'r list \<Rightarrow> nat" where
  "sql_count P rs = length (filter P rs)"

definition sql_delete :: "('r \<Rightarrow> bool) \<Rightarrow> 'r list \<Rightarrow> 'r list" where
  "sql_delete P rs = filter (\<lambda>r. \<not> P r) rs"

lemma length_sql_update [simp]: "length (sql_update P f rs) = length rs"
  by (simp add: sql_update_def)

lemma sql_update_Nil [simp]: "sql_update P f [] = []"
  by (simp add: sql_update_def)

lemma sql_update_Cons [simp]:
  "sql_update P f (r # rs) = (if P r then f r else r) # sql_update P f rs"
  by (simp add: sql_update_def)

lemma sql_count_Nil [simp]: "sql_count P [] = 0"
  by (simp add: sql_count_def)

lemma sql_count_Cons [simp]: "sql_count P (r # rs) = (if P r then 1 else 0) + sql_count P rs"
  by (simp add: sql_count_def)

lemma set_sql_update: "set (sql_update P f rs) = (\<lambda>r. if P r then f r else r) ` set rs"
  by (simp add: sql_update_def)

lemma sql_update_in:
  "r' \<in> set (sql_update P f rs) \<longleftrightarrow> (\<exists>r \<in> set rs. r' = (if P r then f r else r))"
  by (auto simp: set_sql_update)

lemma sql_count_0_iff: "sql_count P rs = 0 \<longleftrightarrow> (\<forall>r \<in> set rs. \<not> P r)"
  by (simp add: sql_count_def filter_empty_conv)

lemma sql_count_pos_iff: "0 < sql_count P rs \<longleftrightarrow> (\<exists>r \<in> set rs. P r)"
  using sql_count_0_iff [of P rs] by auto

lemma sql_count_oneD: "sql_count P rs = 1 \<Longrightarrow> \<exists>r \<in> set rs. P r"
  by (simp add: sql_count_pos_iff [symmetric])

lemma sql_update_none [sql_simps]: "(\<forall>r \<in> set rs. \<not> P r) \<Longrightarrow> sql_update P f rs = rs"
  by (induction rs) (auto simp: sql_update_def)

lemma sql_update_count_0: "sql_count P rs = 0 \<Longrightarrow> sql_update P f rs = rs"
  by (simp add: sql_count_0_iff sql_update_none)

text \<open>An update whose result no longer matches its own guard leaves no matching row.\<close>

lemma sql_update_escapes:
  assumes "\<And>r. P r \<Longrightarrow> \<not> P (f r)"
  shows "sql_count P (sql_update P f rs) = 0"
  using assms by (induction rs) auto

lemma map_key_sql_update:
  "(\<And>r. key (f r) = key r) \<Longrightarrow> map key (sql_update P f rs) = map key rs"
  by (induction rs) auto

text \<open>
  With a key that no two rows share, an update guarded by that key touches at most one row.
\<close>

lemma sql_count_unique_key:
  assumes "distinct (map key rs)" and "\<And>r. P r \<Longrightarrow> key r = k"
  shows "sql_count P rs \<le> 1"
  using assms(1)
proof (induction rs)
  case Nil
  show ?case by simp
next
  case (Cons r rs)
  show ?case
  proof (cases "P r")
    case True
    with assms(2) have "key r = k" by blast
    with Cons.prems have "\<forall>r' \<in> set rs. \<not> P r'"
      using assms(2) by (auto simp: image_iff)
    then have "sql_count P rs = 0" by (simp add: sql_count_0_iff)
    then show ?thesis by simp
  next
    case False
    with Cons show ?thesis by simp
  qed
qed

lemma distinct_key_eq:
  assumes "distinct (map key rs)" "r \<in> set rs" "r' \<in> set rs" "key r = key r'"
  shows "r = r'"
  using assms by (meson distinct_map inj_on_eq_iff)

lemma find_unique_key:
  assumes "distinct (map key rs)" "r \<in> set rs"
  shows "find (\<lambda>x. key x = key r) rs = Some r"
  using assms by (induction rs) (auto simp: image_iff)

lemma find_SomeD: "find P xs = Some x \<Longrightarrow> x \<in> set xs \<and> P x"
  by (induction xs) (auto split: if_splits)

lemma find_NoneD: "find P xs = None \<Longrightarrow> x \<in> set xs \<Longrightarrow> \<not> P x"
  by (simp add: find_None_iff)

section \<open>Transactions\<close>

text \<open>
  A query runs either as one statement or between \<open>Begin\<close> and \<open>Commit\<close> with a deferred
  \<open>Rollback\<close>. \<open>run_tx flt body db\<close> is that frame: \<open>flt\<close> is the error the database driver
  reports for one of the calls (\<open>None\<close> when all of them get through), \<open>body\<close> the
  statements with the query's own checks. Every error leaves the database as it was.
\<close>

definition run_tx ::
  "go_error option \<Rightarrow> ('db \<Rightarrow> ('a \<times> 'db) result) \<Rightarrow> 'db \<Rightarrow> 'a result \<times> 'db" where
  "run_tx flt body db =
     (case flt of
        Some e \<Rightarrow> (Inl e, db)
      | None \<Rightarrow> (case body db of Inl e \<Rightarrow> (Inl e, db) | Inr (x, db') \<Rightarrow> (Inr x, db')))"

lemma run_tx_fault [simp]: "run_tx (Some e) body db = (Inl e, db)"
  by (simp add: run_tx_def)

lemma run_tx_err [simp]: "body db = Inl e \<Longrightarrow> run_tx None body db = (Inl e, db)"
  by (simp add: run_tx_def)

lemma run_tx_ok [simp]: "body db = Inr (x, db') \<Longrightarrow> run_tx None body db = (Inr x, db')"
  by (simp add: run_tx_def)

lemma run_tx_atomic: "run_tx flt body db = (Inl e, db') \<Longrightarrow> db' = db"
  by (auto simp: run_tx_def split: option.splits sum.splits prod.splits)

lemma run_tx_InrD: "run_tx flt body db = (Inr x, db') \<Longrightarrow> flt = None \<and> body db = Inr (x, db')"
  by (auto simp: run_tx_def split: option.splits sum.splits prod.splits)

lemma run_tx_snd_cases:
  "snd (run_tx flt body db) = db \<or> (\<exists>x. body db = Inr (x, snd (run_tx flt body db)))"
  by (auto simp: run_tx_def split: option.splits sum.splits prod.splits)

text \<open>
  What a transaction keeps: when the statements keep a predicate of the database, so does the
  transaction, whatever the driver does.
\<close>

lemma run_tx_preserves:
  assumes "I db" and "\<And>x db'. body db = Inr (x, db') \<Longrightarrow> I db'"
  shows "I (snd (run_tx flt body db))"
  using assms run_tx_snd_cases [of flt body db] by metis

section \<open>State machines\<close>

text \<open>
  A component with state is a set of start states and a labelled step relation. An invariant
  holds at the start and is kept by every step, hence holds wherever the steps lead.
\<close>

locale state_machine =
  fixes start :: "'s \<Rightarrow> bool"
    and step :: "'s \<Rightarrow> 'e \<Rightarrow> 's \<Rightarrow> bool"
    and inv :: "'s \<Rightarrow> bool"
  assumes inv_start: "start s \<Longrightarrow> inv s"
    and inv_step: "inv s \<Longrightarrow> step s e s' \<Longrightarrow> inv s'"
begin

inductive reach :: "'s \<Rightarrow> bool" where
  reach_start: "start s \<Longrightarrow> reach s"
| reach_step: "reach s \<Longrightarrow> step s e s' \<Longrightarrow> reach s'"

lemma reach_inv: "reach s \<Longrightarrow> inv s"
  by (induction rule: reach.induct) (auto intro: inv_start inv_step)

end

text \<open>
  A component refines an abstract machine when every step from a state that satisfies the
  invariant is a step of the abstract machine on the abstractions, or invisible there.
\<close>

locale simulation = state_machine start step inv
  for start :: "'s \<Rightarrow> bool" and step :: "'s \<Rightarrow> 'e \<Rightarrow> 's \<Rightarrow> bool" and inv :: "'s \<Rightarrow> bool" +
  fixes abstr :: "'s \<Rightarrow> 'a"
    and astep :: "'a \<Rightarrow> 'a \<Rightarrow> bool"
  assumes simulates: "inv s \<Longrightarrow> step s e s' \<Longrightarrow> abstr s' = abstr s \<or> astep (abstr s) (abstr s')"
begin

lemma step_sim: "inv s \<Longrightarrow> step s e s' \<Longrightarrow> astep\<^sup>*\<^sup>* (abstr s) (abstr s')"
  using simulates by (metis r_into_rtranclp rtranclp.rtrancl_refl)

lemma steps_sim:
  assumes "(\<lambda>s s'. \<exists>e. step s e s')\<^sup>*\<^sup>* s s'" "inv s"
  shows "astep\<^sup>*\<^sup>* (abstr s) (abstr s') \<and> inv s'"
  using assms
proof (induction rule: rtranclp_induct)
  case base
  then show ?case by simp
next
  case (step s' s'')
  then obtain e where e: "step s' e s''" and "inv s'" "astep\<^sup>*\<^sup>* (abstr s) (abstr s')" by blast
  then show ?case using step_sim [OF \<open>inv s'\<close> e] inv_step [OF \<open>inv s'\<close> e] by (meson rtranclp_trans)
qed

lemma fold_sim:
  assumes "\<And>e s. step s e (f e s)"
  shows "inv s \<Longrightarrow> astep\<^sup>*\<^sup>* (abstr s) (abstr (fold f es s))"
proof (induction es arbitrary: s)
  case Nil
  show ?case by simp
next
  case (Cons e es)
  have "astep\<^sup>*\<^sup>* (abstr s) (abstr (f e s))" by (rule step_sim [OF Cons.prems assms])
  moreover have "astep\<^sup>*\<^sup>* (abstr (f e s)) (abstr (fold f es (f e s)))"
    by (rule Cons.IH) (rule inv_step [OF Cons.prems assms])
  ultimately show ?case by simp
qed

lemma fold_inv: "(\<And>e s. step s e (f e s)) \<Longrightarrow> inv s \<Longrightarrow> inv (fold f es s)"
  by (induction es arbitrary: s) (simp, metis fold_simps(2) inv_step)

end

section \<open>Folding a fallible step over a list\<close>

fun fold_err :: "('a \<Rightarrow> 's \<Rightarrow> 's result) \<Rightarrow> 'a list \<Rightarrow> 's \<Rightarrow> 's result" where
  "fold_err f [] s = Inr s"
| "fold_err f (x # xs) s = (case f x s of Inl e \<Rightarrow> Inl e | Inr s' \<Rightarrow> fold_err f xs s')"

lemma fold_err_append:
  "fold_err f (xs @ ys) s = (case fold_err f xs s of Inl e \<Rightarrow> Inl e | Inr s' \<Rightarrow> fold_err f ys s')"
  by (induction xs arbitrary: s) (auto split: sum.splits)

lemma fold_err_invariant:
  assumes "fold_err f xs s = Inr s'" and "I s"
    and "\<And>x t t'. x \<in> set xs \<Longrightarrow> I t \<Longrightarrow> f x t = Inr t' \<Longrightarrow> I t'"
  shows "I s'"
  using assms
proof (induction xs arbitrary: s)
  case Nil
  then show ?case by simp
next
  case (Cons x xs)
  from Cons.prems(1) obtain t where t: "f x s = Inr t" "fold_err f xs t = Inr s'"
    by (auto split: sum.splits)
  with Cons.prems have "I t" by (meson list.set_intros(1))
  with t Cons show ?case by (meson list.set_intros(2))
qed

end
