(* ===== verification/Lifecycle.thy ===== *)
theory Lifecycle
  imports Prelude
begin

text \<open>
  The template lifecycle: the transition table and its queries
  (\<open>internal/templates/lifecycle.go\<close>), the guarded persistence of a transition
  (\<open>UpdateTemplateLifecycleState\<close>, \<open>SetTemplateVCenterVM\<close>, \<open>SetTemplateActive\<close> and the
  credential markers of \<open>internal/database/queries.go\<close>) and the worker's two wrappers
  (\<open>transitionTemplate\<close>, \<open>markTemplateError\<close> of \<open>internal/provisioner/template_jobs.go\<close>).
\<close>

section \<open>The transition table\<close>

abbreviation TemplateStateDraft :: string where "TemplateStateDraft \<equiv> ''draft''"
abbreviation TemplateStateProvisioning :: string where "TemplateStateProvisioning \<equiv> ''provisioning''"
abbreviation TemplateStateConfiguring :: string where "TemplateStateConfiguring \<equiv> ''configuring''"
abbreviation TemplateStateGeneralizing :: string where "TemplateStateGeneralizing \<equiv> ''generalizing''"
abbreviation TemplateStateReady :: string where "TemplateStateReady \<equiv> ''ready''"
abbreviation TemplateStateVerifying :: string where "TemplateStateVerifying \<equiv> ''verifying''"
abbreviation TemplateStateActive :: string where "TemplateStateActive \<equiv> ''active''"
abbreviation TemplateStateError :: string where "TemplateStateError \<equiv> ''error''"

definition AllTemplateStates :: "string list" where
  "AllTemplateStates =
     [TemplateStateDraft, TemplateStateProvisioning, TemplateStateConfiguring,
      TemplateStateGeneralizing, TemplateStateReady, TemplateStateVerifying,
      TemplateStateActive, TemplateStateError]"

definition allowedTransitions :: "(string \<times> string list) list" where
  "allowedTransitions =
     [(TemplateStateDraft, [TemplateStateProvisioning]),
      (TemplateStateProvisioning, [TemplateStateConfiguring, TemplateStateError]),
      (TemplateStateConfiguring, [TemplateStateGeneralizing, TemplateStateDraft]),
      (TemplateStateGeneralizing, [TemplateStateReady, TemplateStateError]),
      (TemplateStateReady, [TemplateStateVerifying, TemplateStateConfiguring, TemplateStateDraft]),
      (TemplateStateVerifying, [TemplateStateActive, TemplateStateReady, TemplateStateError]),
      (TemplateStateActive, [TemplateStateReady]),
      (TemplateStateError, [TemplateStateDraft])]"

definition CanTransition :: "string \<Rightarrow> string \<Rightarrow> go_error option" where
  "CanTransition frm to =
     (case map_of allowedTransitions frm of
        None \<Rightarrow> Some (Errorf ''unknown template state: from'' [Sentinel ErrUnknownState])
      | Some out \<Rightarrow>
          (case map_of allowedTransitions to of
             None \<Rightarrow> Some (Errorf ''unknown template state: to'' [Sentinel ErrUnknownState])
           | Some _ \<Rightarrow>
               (if to \<notin> set out
                then Some (Errorf ''invalid template state transition'' [Sentinel ErrInvalidStateTransition])
                else None)))"

definition AllowedNextStates :: "string \<Rightarrow> string list result" where
  "AllowedNextStates frm =
     (case map_of allowedTransitions frm of
        None \<Rightarrow> Inl (Errorf ''unknown template state'' [Sentinel ErrUnknownState])
      | Some out \<Rightarrow> Inr (sort out))"

definition IsTerminal :: "string \<Rightarrow> bool" where
  "IsTerminal state =
     (case map_of allowedTransitions state of None \<Rightarrow> False | Some out \<Rightarrow> length out = 0)"

definition IsKnownState :: "string \<Rightarrow> bool" where
  "IsKnownState state \<longleftrightarrow> map_of allowedTransitions state \<noteq> None"

section \<open>Persisting a transition\<close>

text \<open>The columns of a \<open>templates\<close> row that the lifecycle operations read and write.\<close>

record template_row =
  tr_id :: uuid
  tr_template_state :: string
  tr_is_active :: bool
  tr_vcenter_vm_id :: string
  tr_vcenter_template :: string
  tr_guest_credentials_verified_at :: "go_time option"
  tr_updated_at :: go_time

type_synonym templates_table = "template_row list"

text \<open>
  \<open>UpdateTemplateLifecycleState\<close>: a compare-and-set on the state column, then a second
  statement that tells a deleted row from a moved one. \<open>now\<close> is the value of \<open>NOW()\<close>.
\<close>

definition UpdateTemplateLifecycleState ::
  "go_error option \<Rightarrow> go_time \<Rightarrow> uuid \<Rightarrow> string \<Rightarrow> string \<Rightarrow> templates_table
     \<Rightarrow> unit result \<times> templates_table" where
  "UpdateTemplateLifecycleState flt now i frm to =
     run_tx flt (\<lambda>ts.
       let P = (\<lambda>r. tr_id r = i \<and> tr_template_state r = frm);
           ts' = sql_update P (\<lambda>r. r\<lparr>tr_template_state := to, tr_updated_at := now\<rparr>) ts
       in if sql_count P ts = 0
          then (if \<not> (\<exists>r \<in> set ts. tr_id r = i)
                then Inl (Sentinel pgx_ErrNoRows)
                else Inl (Sentinel ErrTemplateStale))
          else Inr ((), ts'))"

definition SetTemplateVCenterVM ::
  "go_error option \<Rightarrow> go_time \<Rightarrow> uuid \<Rightarrow> string \<Rightarrow> templates_table
     \<Rightarrow> unit result \<times> templates_table" where
  "SetTemplateVCenterVM flt now i vm =
     run_tx flt (\<lambda>ts. Inr ((),
       sql_update (\<lambda>r. tr_id r = i)
         (\<lambda>r. r\<lparr>tr_vcenter_vm_id := vm, tr_guest_credentials_verified_at := None,
                tr_updated_at := now\<rparr>) ts))"

definition SetTemplateActive ::
  "go_error option \<Rightarrow> go_time \<Rightarrow> uuid \<Rightarrow> bool \<Rightarrow> templates_table
     \<Rightarrow> unit result \<times> templates_table" where
  "SetTemplateActive flt now i active =
     run_tx flt (\<lambda>ts. Inr ((),
       sql_update (\<lambda>r. tr_id r = i) (\<lambda>r. r\<lparr>tr_is_active := active, tr_updated_at := now\<rparr>) ts))"

definition ClearTemplateGuestCredentialVerification ::
  "go_error option \<Rightarrow> go_time \<Rightarrow> uuid \<Rightarrow> templates_table \<Rightarrow> unit result \<times> templates_table" where
  "ClearTemplateGuestCredentialVerification flt now i =
     run_tx flt (\<lambda>ts. Inr ((),
       sql_update (\<lambda>r. tr_id r = i)
         (\<lambda>r. r\<lparr>tr_guest_credentials_verified_at := None, tr_updated_at := now\<rparr>) ts))"

definition MarkTemplateGuestCredentialsVerified ::
  "go_error option \<Rightarrow> go_time \<Rightarrow> uuid \<Rightarrow> templates_table \<Rightarrow> unit result \<times> templates_table" where
  "MarkTemplateGuestCredentialsVerified flt now i =
     run_tx flt (\<lambda>ts. Inr ((),
       sql_update (\<lambda>r. tr_id r = i)
         (\<lambda>r. r\<lparr>tr_guest_credentials_verified_at := Some now, tr_updated_at := now\<rparr>) ts))"

section \<open>The worker's wrappers\<close>

definition transitionTemplate ::
  "go_error option \<Rightarrow> go_time \<Rightarrow> uuid \<Rightarrow> string \<Rightarrow> string \<Rightarrow> templates_table
     \<Rightarrow> unit result \<times> templates_table" where
  "transitionTemplate flt now i frm to ts =
     (case CanTransition frm to of
        Some e \<Rightarrow> (Inl (Errorf ''state machine rejected'' [e]), ts)
      | None \<Rightarrow> UpdateTemplateLifecycleState flt now i frm to ts)"

text \<open>
  \<open>markTemplateError\<close> loads the row (\<open>lflt\<close> is a driver error of that read), checks the move
  to \<open>error\<close>, persists it best-effort and always hands back the cause.
\<close>

definition markTemplateError ::
  "go_error option \<Rightarrow> go_error option \<Rightarrow> go_time \<Rightarrow> uuid \<Rightarrow> go_error \<Rightarrow> templates_table
     \<Rightarrow> go_error \<times> templates_table" where
  "markTemplateError lflt uflt now i cause ts =
     (case (lflt, find (\<lambda>r. tr_id r = i) ts) of
        (None, Some tmpl) \<Rightarrow>
          (case CanTransition (tr_template_state tmpl) TemplateStateError of
             Some _ \<Rightarrow> (cause, ts)
           | None \<Rightarrow>
               (cause, snd (UpdateTemplateLifecycleState uflt now i (tr_template_state tmpl)
                              TemplateStateError ts)))
      | _ \<Rightarrow> (cause, ts))"

section \<open>Facts about the table\<close>

lemma map_of_allowed_iff:
  "map_of allowedTransitions s = Some out \<longleftrightarrow> (s, out) \<in> set allowedTransitions"
proof -
  have "distinct (map fst allowedTransitions)"
    by (simp add: allowedTransitions_def)
  then show ?thesis by simp
qed

lemma CanTransition_None_iff:
  "CanTransition frm to = None \<longleftrightarrow>
     (\<exists>out. (frm, out) \<in> set allowedTransitions \<and> to \<in> set out \<and> IsKnownState to)"
  unfolding IsKnownState_def
  by (auto simp: CanTransition_def map_of_allowed_iff [symmetric] split: option.splits if_splits)

lemma IsKnownState_iff: "IsKnownState s \<longleftrightarrow> s \<in> set AllTemplateStates"
proof -
  have "IsKnownState s \<longleftrightarrow> s \<in> fst ` set allowedTransitions"
    by (simp add: IsKnownState_def map_of_eq_None_iff)
  also have "fst ` set allowedTransitions = set AllTemplateStates"
    by (simp add: allowedTransitions_def AllTemplateStates_def)
  finally show ?thesis .
qed

definition lifecycle_edges :: "(string \<times> string) list" where
  "lifecycle_edges = concat (map (\<lambda>(s, out). map (Pair s) out) allowedTransitions)"

lemma allowed_targets_known:
  "(s, out) \<in> set allowedTransitions \<Longrightarrow> t \<in> set out \<Longrightarrow> IsKnownState t"
proof -
  have "\<forall>(s, out) \<in> set allowedTransitions. \<forall>t \<in> set out. map_of allowedTransitions t \<noteq> None"
    by (simp add: allowedTransitions_def)
  then show "(s, out) \<in> set allowedTransitions \<Longrightarrow> t \<in> set out \<Longrightarrow> IsKnownState t"
    unfolding IsKnownState_def by blast
qed

lemma CanTransition_edges: "CanTransition frm to = None \<longleftrightarrow> (frm, to) \<in> set lifecycle_edges"
  unfolding CanTransition_None_iff lifecycle_edges_def
  using allowed_targets_known by (fastforce simp: image_iff)

lemma set_lifecycle_edges:
  "set lifecycle_edges =
       {(TemplateStateDraft, TemplateStateProvisioning),
        (TemplateStateProvisioning, TemplateStateConfiguring),
        (TemplateStateProvisioning, TemplateStateError),
        (TemplateStateConfiguring, TemplateStateGeneralizing),
        (TemplateStateConfiguring, TemplateStateDraft),
        (TemplateStateGeneralizing, TemplateStateReady),
        (TemplateStateGeneralizing, TemplateStateError),
        (TemplateStateReady, TemplateStateVerifying),
        (TemplateStateReady, TemplateStateConfiguring),
        (TemplateStateReady, TemplateStateDraft),
        (TemplateStateVerifying, TemplateStateActive),
        (TemplateStateVerifying, TemplateStateReady),
        (TemplateStateVerifying, TemplateStateError),
        (TemplateStateActive, TemplateStateReady),
        (TemplateStateError, TemplateStateDraft)}"
  by (simp add: lifecycle_edges_def allowedTransitions_def)

lemma CanTransition_to_active: "CanTransition frm TemplateStateActive = None \<Longrightarrow> frm = TemplateStateVerifying"
  by (simp add: CanTransition_edges set_lifecycle_edges)

lemma CanTransition_known:
  "CanTransition frm to = None \<Longrightarrow> IsKnownState frm \<and> IsKnownState to"
  by (auto simp: CanTransition_def IsKnownState_def split: option.splits)

section \<open>Facts about persistence\<close>

lemma UpdateTemplateLifecycleState_ok:
  "UpdateTemplateLifecycleState flt now i frm to ts = (Inr u, ts') \<Longrightarrow>
     (\<exists>r \<in> set ts. tr_id r = i \<and> tr_template_state r = frm) \<and>
     ts' = sql_update (\<lambda>r. tr_id r = i \<and> tr_template_state r = frm)
             (\<lambda>r. r\<lparr>tr_template_state := to, tr_updated_at := now\<rparr>) ts"
  unfolding UpdateTemplateLifecycleState_def
  by (drule run_tx_InrD) (auto simp: Let_def sql_count_0_iff split: if_splits)

lemma UpdateTemplateLifecycleState_rows:
  "r' \<in> set (snd (UpdateTemplateLifecycleState flt now i frm to ts)) \<Longrightarrow>
     r' \<in> set ts \<or>
     (\<exists>r \<in> set ts. tr_id r = i \<and> tr_template_state r = frm \<and>
                   r' = r\<lparr>tr_template_state := to, tr_updated_at := now\<rparr>)"
  using run_tx_snd_cases [of flt _ ts]
  unfolding UpdateTemplateLifecycleState_def run_tx_def
  by (auto simp: Let_def sql_update_in split: option.splits if_splits)

text \<open>
  One operation of the template store. Labels carry the operation's arguments, so a run is the
  interleaving of the store's callers in commit order.
\<close>

datatype template_op =
    OpTransition "go_error option" go_time uuid string string
  | OpMarkError "go_error option" "go_error option" go_time uuid go_error
  | OpSetVM "go_error option" go_time uuid string
  | OpSetActive "go_error option" go_time uuid bool
  | OpClearCreds "go_error option" go_time uuid
  | OpMarkCreds "go_error option" go_time uuid

fun template_step :: "template_op \<Rightarrow> templates_table \<Rightarrow> templates_table" where
  "template_step (OpTransition flt now i frm to) ts = snd (transitionTemplate flt now i frm to ts)"
| "template_step (OpMarkError lflt uflt now i cause) ts = snd (markTemplateError lflt uflt now i cause ts)"
| "template_step (OpSetVM flt now i vm) ts = snd (SetTemplateVCenterVM flt now i vm ts)"
| "template_step (OpSetActive flt now i a) ts = snd (SetTemplateActive flt now i a ts)"
| "template_step (OpClearCreds flt now i) ts = snd (ClearTemplateGuestCredentialVerification flt now i ts)"
| "template_step (OpMarkCreds flt now i) ts = snd (MarkTemplateGuestCredentialsVerified flt now i ts)"

text \<open>
  How a row can look after one operation: its state is what it was, or it took one edge of the
  diagram. Every row after the operation comes from a row before it.
\<close>

definition lifecycle_move :: "template_row \<Rightarrow> template_row \<Rightarrow> bool" where
  "lifecycle_move r r' \<longleftrightarrow> tr_id r' = tr_id r \<and>
     (tr_template_state r' = tr_template_state r \<or>
      CanTransition (tr_template_state r) (tr_template_state r') = None)"

lemma lifecycle_move_refl [simp]: "lifecycle_move r r"
  by (simp add: lifecycle_move_def)

lemma lifecycle_move_same: "r \<in> set ts \<Longrightarrow> \<exists>r0 \<in> set ts. lifecycle_move r0 r"
  using lifecycle_move_refl by blast

lemma lifecycle_move_update:
  assumes "CanTransition frm to = None"
    and "r' \<in> set (snd (UpdateTemplateLifecycleState flt now i frm to ts))"
  shows "\<exists>r \<in> set ts. lifecycle_move r r'"
  using UpdateTemplateLifecycleState_rows [OF assms(2)] assms(1)
  by (auto simp: lifecycle_move_def intro: bexI)

lemma run_tx_column_update:
  assumes "r' \<in> set (snd (run_tx flt (\<lambda>ts. Inr ((), sql_update P f ts)) ts))"
    and "\<And>r. tr_id (f r) = tr_id r \<and> tr_template_state (f r) = tr_template_state r"
  shows "\<exists>r \<in> set ts. lifecycle_move r r'"
  using assms
  by (auto simp: run_tx_def sql_update_in lifecycle_move_def split: option.splits if_splits
      intro: bexI)

lemma template_step_moves:
  assumes "r' \<in> set (template_step op ts)"
  shows "\<exists>r \<in> set ts. lifecycle_move r r'"
proof (cases op)
  case (OpTransition flt now i frm to)
  then show ?thesis
    using assms lifecycle_move_update lifecycle_move_same
    by (auto simp: transitionTemplate_def split: option.splits)
next
  case (OpMarkError lflt uflt now i cause)
  then show ?thesis
    using assms lifecycle_move_update lifecycle_move_same
    by (auto simp: markTemplateError_def split: option.splits)
qed (use assms in \<open>auto simp: SetTemplateVCenterVM_def SetTemplateActive_def
       ClearTemplateGuestCredentialVerification_def MarkTemplateGuestCredentialsVerified_def
       elim!: run_tx_column_update\<close>)

definition templates_wf :: "templates_table \<Rightarrow> bool" where
  "templates_wf ts \<longleftrightarrow> (\<forall>r \<in> set ts. IsKnownState (tr_template_state r))"

lemma template_step_wf: "templates_wf ts \<Longrightarrow> templates_wf (template_step op ts)"
  unfolding templates_wf_def
  by (metis CanTransition_known lifecycle_move_def template_step_moves)

interpretation lifecycle: state_machine
  "\<lambda>ts. \<forall>r \<in> set ts. tr_template_state r = TemplateStateDraft"
  "\<lambda>ts op ts'. ts' = template_step op ts"
  templates_wf
proof unfold_locales
  show "templates_wf ts" if "\<forall>r \<in> set ts. tr_template_state r = TemplateStateDraft" for ts
    using that by (auto simp: templates_wf_def IsKnownState_iff AllTemplateStates_def)
  show "templates_wf ts'" if "templates_wf ts" "ts' = template_step op ts" for ts op ts'
    using that template_step_wf by simp
qed

section \<open>Properties\<close>

text \<open>A run of the store: its operations in commit order.\<close>

fun template_run :: "template_op list \<Rightarrow> templates_table \<Rightarrow> templates_table" where
  "template_run [] ts = ts"
| "template_run (op # ops) ts = template_run ops (template_step op ts)"

lemma template_run_append: "template_run (xs @ ys) ts = template_run ys (template_run xs ts)"
  by (induction xs arbitrary: ts) auto

lemma active_needs_verifying_step:
  assumes "r' \<in> set (template_step op ts)" and "tr_template_state r' = TemplateStateActive"
  shows "\<exists>r \<in> set ts. tr_id r = tr_id r' \<and>
           tr_template_state r \<in> {TemplateStateVerifying, TemplateStateActive}"
proof -
  obtain r where "r \<in> set ts" "lifecycle_move r r'"
    using template_step_moves [OF assms(1)] by blast
  with assms(2) show ?thesis
    unfolding lifecycle_move_def using CanTransition_to_active by fastforce
qed

text \<open>
  C12. The smoke gate cannot be skipped: whatever sequence of store operations runs, with
  whatever arguments and driver failures, a template that ends up \<open>active\<close> and was not
  active at the start was in \<open>verifying\<close> at some point before.
\<close>

theorem active_only_through_verifying:
  assumes "r' \<in> set (template_run ops ts)" and "tr_template_state r' = TemplateStateActive"
    and "\<forall>r \<in> set ts. tr_id r = tr_id r' \<longrightarrow> tr_template_state r \<noteq> TemplateStateActive"
  shows "\<exists>done rest r. ops = done @ rest \<and> rest \<noteq> [] \<and> r \<in> set (template_run done ts) \<and>
           tr_id r = tr_id r' \<and> tr_template_state r = TemplateStateVerifying"
  using assms
proof (induction ops arbitrary: r' rule: rev_induct)
  case Nil
  then show ?case by simp
next
  case (snoc op ops)
  from snoc.prems(1) have "r' \<in> set (template_step op (template_run ops ts))"
    by (simp add: template_run_append)
  from active_needs_verifying_step [OF this snoc.prems(2)]
  obtain r where r: "r \<in> set (template_run ops ts)" "tr_id r = tr_id r'"
    and "tr_template_state r = TemplateStateVerifying \<or> tr_template_state r = TemplateStateActive"
    by auto
  then show ?case
  proof (elim disjE)
    assume "tr_template_state r = TemplateStateVerifying"
    with r show ?thesis by (intro exI [of _ ops] exI [of _ "[op]"]) auto
  next
    assume "tr_template_state r = TemplateStateActive"
    from snoc.IH [OF r(1) this] snoc.prems(3) r(2)
    obtain dn rest r0 where "ops = dn @ rest" "rest \<noteq> []" "r0 \<in> set (template_run dn ts)"
      "tr_id r0 = tr_id r'" "tr_template_state r0 = TemplateStateVerifying" by metis
    then show ?thesis by (intro exI [of _ dn] exI [of _ "rest @ [op]"]) auto
  qed
qed

text \<open>One verifying row, promoted by the worker.\<close>

definition example_row :: template_row where
  "example_row = \<lparr>tr_id = 7, tr_template_state = TemplateStateVerifying, tr_is_active = False,
     tr_vcenter_vm_id = ''vm-1'', tr_vcenter_template = [], tr_guest_credentials_verified_at = None, tr_updated_at = 0\<rparr>"

lemma CanTransition_verify_active: "CanTransition TemplateStateVerifying TemplateStateActive = None"
  by (simp add: CanTransition_edges set_lifecycle_edges)

theorem active_only_through_verifying_witness:
  "\<exists>done rest r.
     [OpTransition None 1 7 TemplateStateVerifying TemplateStateActive] = done @ rest \<and> rest \<noteq> [] \<and>
     r \<in> set (template_run done [example_row]) \<and> tr_id r = 7 \<and>
     tr_template_state r = TemplateStateVerifying"
proof -
  let ?ops = "[OpTransition None 1 7 TemplateStateVerifying TemplateStateActive]"
  let ?r' = "example_row\<lparr>tr_template_state := TemplateStateActive, tr_updated_at := 1\<rparr>"
  have "?r' \<in> set (template_run ?ops [example_row])"
    using CanTransition_verify_active
    by (simp add: transitionTemplate_def UpdateTemplateLifecycleState_def example_row_def run_tx_def)
  from active_only_through_verifying [OF this] show ?thesis
    by (simp add: example_row_def)
qed

text \<open>
  \<open>CanTransition\<close> reports an unknown state exactly when one of the two is not a lifecycle
  state, accepts exactly the fifteen edges of the diagram (no state to itself, and no edge
  from \<open>ready\<close> to \<open>active\<close>), and rejects every other pair of known states.
\<close>

theorem CanTransition_spec:
  "((\<exists>e. CanTransition frm to = Some e \<and> errorsIs e ErrUnknownState) \<longleftrightarrow>
      \<not> (frm \<in> set AllTemplateStates \<and> to \<in> set AllTemplateStates)) \<and>
   (CanTransition frm to = None \<longleftrightarrow> (frm, to) \<in> set lifecycle_edges) \<and>
   ((\<exists>e. CanTransition frm to = Some e \<and> errorsIs e ErrInvalidStateTransition) \<longleftrightarrow>
      frm \<in> set AllTemplateStates \<and> to \<in> set AllTemplateStates \<and> (frm, to) \<notin> set lifecycle_edges) \<and>
   length lifecycle_edges = 15 \<and> (s, s) \<notin> set lifecycle_edges \<and>
   (TemplateStateReady, TemplateStateActive) \<notin> set lifecycle_edges"
proof (intro conjI)
  note known = IsKnownState_iff [symmetric] IsKnownState_def
  show "(\<exists>e. CanTransition frm to = Some e \<and> errorsIs e ErrUnknownState) \<longleftrightarrow>
      \<not> (frm \<in> set AllTemplateStates \<and> to \<in> set AllTemplateStates)"
    unfolding known by (auto simp: CanTransition_def split: option.splits)
  show "CanTransition frm to = None \<longleftrightarrow> (frm, to) \<in> set lifecycle_edges"
    by (rule CanTransition_edges)
  show "(\<exists>e. CanTransition frm to = Some e \<and> errorsIs e ErrInvalidStateTransition) \<longleftrightarrow>
      frm \<in> set AllTemplateStates \<and> to \<in> set AllTemplateStates \<and> (frm, to) \<notin> set lifecycle_edges"
    unfolding known CanTransition_edges [symmetric]
    by (auto simp: CanTransition_def split: option.splits)
  show "length lifecycle_edges = 15"
    by (simp add: lifecycle_edges_def allowedTransitions_def)
  have "\<forall>(a, b) \<in> set lifecycle_edges. a \<noteq> b"
    by (simp add: set_lifecycle_edges)
  then show "(s, s) \<notin> set lifecycle_edges" by blast
  show "(TemplateStateReady, TemplateStateActive) \<notin> set lifecycle_edges"
    by (simp add: set_lifecycle_edges)
qed

lemma AllowedNextStates_complete:
  assumes "map_of allowedTransitions frm = Some out"
  shows "to \<in> set out \<longleftrightarrow> CanTransition frm to = None"
proof -
  have "map_of allowedTransitions to \<noteq> None" if "to \<in> set out"
    using allowed_targets_known [of frm out to] that assms
    by (simp add: map_of_allowed_iff IsKnownState_def)
  with assms show ?thesis
    by (auto simp: CanTransition_def split: option.splits)
qed

lemma known_state_reaches_draft:
  assumes "IsKnownState s"
  shows "(s, TemplateStateDraft) \<in> {(a, b). CanTransition a b = None}\<^sup>*"
proof -
  let ?E = "{(a, b). CanTransition a b = None}"
  have E: "?E = set lifecycle_edges" by (auto simp: CanTransition_edges)
  have "(TemplateStateReady, TemplateStateDraft) \<in> ?E"
    "(TemplateStateConfiguring, TemplateStateDraft) \<in> ?E"
    "(TemplateStateError, TemplateStateDraft) \<in> ?E"
    "(TemplateStateVerifying, TemplateStateReady) \<in> ?E"
    "(TemplateStateActive, TemplateStateReady) \<in> ?E"
    "(TemplateStateGeneralizing, TemplateStateReady) \<in> ?E"
    "(TemplateStateProvisioning, TemplateStateConfiguring) \<in> ?E"
    unfolding E by (simp_all add: set_lifecycle_edges)
  then have "\<forall>s \<in> set AllTemplateStates. (s, TemplateStateDraft) \<in> ?E\<^sup>*"
    unfolding AllTemplateStates_def
    by (auto intro: converse_rtrancl_into_rtrancl)
  then show ?thesis using assms by (auto simp: IsKnownState_iff)
qed

text \<open>
  The states \<open>AllowedNextStates\<close> offers are exactly those \<open>CanTransition\<close> then accepts, in
  alphabetical order and without repetition; no known state is terminal, and from every known
  state a sequence of accepted transitions leads back to \<open>draft\<close>.
\<close>

theorem AllowedNextStates_spec:
  assumes "IsKnownState frm"
  shows "(\<exists>out. AllowedNextStates frm = Inr out \<and> sorted out \<and> distinct out \<and>
            (\<forall>to. to \<in> set out \<longleftrightarrow> CanTransition frm to = None)) \<and>
         \<not> IsTerminal frm \<and>
         (frm, TemplateStateDraft) \<in> {(a, b). CanTransition a b = None}\<^sup>*"
proof -
  from assms obtain out where out: "map_of allowedTransitions frm = Some out"
    by (auto simp: IsKnownState_def)
  have "\<forall>(s, out) \<in> set allowedTransitions. distinct out \<and> out \<noteq> []"
    by (simp add: allowedTransitions_def)
  with out have "distinct out" "out \<noteq> []"
    by (auto simp: map_of_allowed_iff)
  with out show ?thesis
    using AllowedNextStates_complete [OF out] known_state_reaches_draft [OF assms]
    by (auto simp: AllowedNextStates_def IsTerminal_def)
qed

theorem AllowedNextStates_spec_witness:
  "AllowedNextStates TemplateStateReady = Inr [''configuring'', ''draft'', ''verifying''] \<and>
   \<not> IsTerminal TemplateStateReady"
proof -
  have k: "IsKnownState TemplateStateReady"
    by (simp add: IsKnownState_iff AllTemplateStates_def)
  have "AllowedNextStates TemplateStateReady = Inr [''configuring'', ''draft'', ''verifying'']"
    by code_simp
  with AllowedNextStates_spec [OF k] show ?thesis by simp
qed

lemma cas_wins:
  fixes now :: go_time
  assumes "r \<in> set ts" and "frm \<noteq> to" and "tr_template_state r = frm"
  defines "ts' \<equiv> sql_update (\<lambda>x. tr_id x = tr_id r \<and> tr_template_state x = frm)
                   (\<lambda>x. x\<lparr>tr_template_state := to, tr_updated_at := now\<rparr>) ts"
  shows "UpdateTemplateLifecycleState None now (tr_id r) frm to ts = (Inr (), ts')"
    and "r\<lparr>tr_template_state := to, tr_updated_at := now\<rparr> \<in> set ts'"
    and "filter (\<lambda>x. tr_id x \<noteq> tr_id r) ts' = filter (\<lambda>x. tr_id x \<noteq> tr_id r) ts"
    and "UpdateTemplateLifecycleState None now' (tr_id r) frm to' ts' = (Inl (Sentinel ErrTemplateStale), ts')"
proof -
  let ?P = "\<lambda>x. tr_id x = tr_id r \<and> tr_template_state x = frm"
  let ?f = "\<lambda>x. x\<lparr>tr_template_state := to, tr_updated_at := now\<rparr>"
  have "sql_count ?P ts \<noteq> 0"
    using assms(1,3) by (auto simp: sql_count_0_iff)
  then show "UpdateTemplateLifecycleState None now (tr_id r) frm to ts = (Inr (), ts')"
    by (simp add: UpdateTemplateLifecycleState_def run_tx_def Let_def ts'_def)
  show mem: "?f r \<in> set ts'"
    using assms(1,3) by (force simp: sql_update_in ts'_def)
  show "filter (\<lambda>x. tr_id x \<noteq> tr_id r) ts' = filter (\<lambda>x. tr_id x \<noteq> tr_id r) ts"
    unfolding ts'_def by (induction ts) auto
  have "sql_count ?P ts' = 0"
    unfolding ts'_def using assms(2) by (intro sql_update_escapes) auto
  with mem show "UpdateTemplateLifecycleState None now' (tr_id r) frm to' ts' = (Inl (Sentinel ErrTemplateStale), ts')"
    by (auto simp: UpdateTemplateLifecycleState_def run_tx_def Let_def intro: bexI [of _ "?f r"])
qed

lemma cas_loses:
  assumes "\<forall>x \<in> set ts. tr_id x = i \<longrightarrow> tr_template_state x \<noteq> frm"
  shows "UpdateTemplateLifecycleState None now i frm to ts =
           (Inl (Sentinel (if i \<in> tr_id ` set ts then ErrTemplateStale else pgx_ErrNoRows)), ts)"
proof -
  have "sql_count (\<lambda>x. tr_id x = i \<and> tr_template_state x = frm) ts = 0"
    using assms by (auto simp: sql_count_0_iff)
  then show ?thesis
    by (auto simp: UpdateTemplateLifecycleState_def run_tx_def Let_def image_iff)
qed

text \<open>
  The compare-and-set of a transition: with unique row ids it succeeds exactly when the row
  is still in \<open>from\<close> (and the driver reports nothing), then only that row moves; otherwise the
  table is untouched, and the error tells a vanished row from one another worker moved on.
  Of two workers racing on the same \<open>from\<close>, the second always loses.
\<close>

theorem UpdateTemplateLifecycleState_cas:
  assumes "distinct (map tr_id ts)" and "r \<in> set ts" and "frm \<noteq> to"
  shows "(tr_template_state r = frm \<longrightarrow>
           (\<exists>ts'. UpdateTemplateLifecycleState None now (tr_id r) frm to ts = (Inr (), ts') \<and>
             r\<lparr>tr_template_state := to, tr_updated_at := now\<rparr> \<in> set ts' \<and>
             filter (\<lambda>x. tr_id x \<noteq> tr_id r) ts' = filter (\<lambda>x. tr_id x \<noteq> tr_id r) ts \<and>
             UpdateTemplateLifecycleState None now' (tr_id r) frm to' ts'
               = (Inl (Sentinel ErrTemplateStale), ts'))) \<and>
         (tr_template_state r \<noteq> frm \<longrightarrow>
           UpdateTemplateLifecycleState None now (tr_id r) frm to ts = (Inl (Sentinel ErrTemplateStale), ts)) \<and>
         (i \<notin> tr_id ` set ts \<longrightarrow>
           UpdateTemplateLifecycleState None now i frm to ts = (Inl (Sentinel pgx_ErrNoRows), ts)) \<and>
         UpdateTemplateLifecycleState (Some e) now i frm to ts = (Inl e, ts)"
proof (intro conjI impI)
  have uniq: "x = r" if "x \<in> set ts" "tr_id x = tr_id r" for x
    using distinct_key_eq [OF assms(1) that(1) assms(2) that(2)] .
  show "\<exists>ts'. UpdateTemplateLifecycleState None now (tr_id r) frm to ts = (Inr (), ts') \<and>
      r\<lparr>tr_template_state := to, tr_updated_at := now\<rparr> \<in> set ts' \<and>
      filter (\<lambda>x. tr_id x \<noteq> tr_id r) ts' = filter (\<lambda>x. tr_id x \<noteq> tr_id r) ts \<and>
      UpdateTemplateLifecycleState None now' (tr_id r) frm to' ts'
        = (Inl (Sentinel ErrTemplateStale), ts')" if "tr_template_state r = frm"
    using cas_wins [OF assms(2,3) that] by blast
  show "UpdateTemplateLifecycleState None now (tr_id r) frm to ts = (Inl (Sentinel ErrTemplateStale), ts)"
    if "tr_template_state r \<noteq> frm"
  proof -
    have "\<forall>x \<in> set ts. tr_id x = tr_id r \<longrightarrow> tr_template_state x \<noteq> frm"
      using uniq that by blast
    from cas_loses [OF this] assms(2) show ?thesis by simp
  qed
  show "UpdateTemplateLifecycleState None now i frm to ts = (Inl (Sentinel pgx_ErrNoRows), ts)"
    if "i \<notin> tr_id ` set ts"
  proof -
    have "\<forall>x \<in> set ts. tr_id x = i \<longrightarrow> tr_template_state x \<noteq> frm"
      using that by (auto simp: image_iff)
    from cas_loses [OF this] that show ?thesis by simp
  qed
  show "UpdateTemplateLifecycleState (Some e) now i frm to ts = (Inl e, ts)"
    by (simp add: UpdateTemplateLifecycleState_def)
qed

theorem UpdateTemplateLifecycleState_cas_witness:
  "\<exists>ts'. UpdateTemplateLifecycleState None 5 7 TemplateStateVerifying TemplateStateActive [example_row]
           = (Inr (), ts') \<and>
         UpdateTemplateLifecycleState None 6 7 TemplateStateVerifying TemplateStateError ts'
           = (Inl (Sentinel ErrTemplateStale), ts')"
proof -
  have h: "distinct (map tr_id [example_row])" "example_row \<in> set [example_row]"
    "TemplateStateVerifying \<noteq> TemplateStateActive" by simp_all
  from UpdateTemplateLifecycleState_cas [OF h, of 5 6 TemplateStateError]
  show ?thesis by (simp add: example_row_def) blast
qed

end
