(* ===== verification/Rollback.thy ===== *)
theory Rollback
  imports Prelude
begin

text \<open>
  The rollback engine (\<open>internal/rollback/engine.go\<close>): completed provisioning steps are
  recorded and persisted one by one, and undone in reverse order after a failure, with the
  ownership of the receipts re-checked before every undo and the remaining receipts saved after it.
  The world \<open>'w\<close> is everything the undo functions and the persister read and write: the
  database, vCenter, the firewall.
\<close>

section \<open>Data\<close>

record rb_step =
  step_Name :: string
  step_Data :: json

type_synonym 'w undo_func = "json \<Rightarrow> 'w \<Rightarrow> go_error option \<times> 'w"

text \<open>
  The persister interface; \<open>HandoffRollbackStep\<close> is present when the value also implements
  \<open>ownershipHandoffPersister\<close>.
\<close>

record 'w persister =
  SaveRollbackSteps :: "uuid \<Rightarrow> rb_step list \<Rightarrow> 'w \<Rightarrow> go_error option \<times> 'w"
  HandoffRollbackStep :: "(uuid \<Rightarrow> rb_step \<Rightarrow> 'w \<Rightarrow> go_error option \<times> 'w) option"

record 'w engine =
  e_jobID :: uuid
  e_steps :: "rb_step list"
  e_undoFuncs :: "string \<Rightarrow> 'w undo_func option"
  e_persister :: "'w persister option"

definition new_engine :: "uuid \<Rightarrow> 'w persister option \<Rightarrow> 'w engine" where
  "new_engine jobID p = \<lparr>e_jobID = jobID, e_steps = [], e_undoFuncs = Map.empty, e_persister = p\<rparr>"

definition RegisterUndo :: "string \<Rightarrow> 'w undo_func \<Rightarrow> 'w engine \<Rightarrow> 'w engine" where
  "RegisterUndo name f e = e\<lparr>e_undoFuncs := (e_undoFuncs e)(name \<mapsto> f)\<rparr>"

definition LoadSteps :: "rb_step list \<Rightarrow> 'w engine \<Rightarrow> 'w engine" where
  "LoadSteps ss e = e\<lparr>e_steps := ss\<rparr>"

section \<open>Recording a step\<close>

abbreviation recordCleanupTimeout :: go_time where
  "recordCleanupTimeout \<equiv> seconds 90"

text \<open>The pause before the next handoff attempt: \<open>time.Second << min(attempt, 4)\<close>.\<close>

definition handoff_delay :: "nat \<Rightarrow> go_time" where
  "handoff_delay attempt = seconds (2 ^ min attempt 4)"

lemma handoff_delay_pos: "0 < handoff_delay n"
  by (simp add: handoff_delay_def seconds_def)

lemma handoff_progress:
  "t + int d + handoff_delay n < b \<Longrightarrow> t < b" "- int d < handoff_delay n"
  using handoff_delay_pos [of n] by linarith+

text \<open>
  The handoff loop. \<open>dur n\<close> is how long attempt \<open>n\<close> takes; \<open>elapsed\<close> is the time used up
  when it starts. The loop returns on the first success, and gives up when the pause would run
  past the deadline. The result is \<open>None\<close> for a handed-over receipt, else the last error.
\<close>

function handoff_loop ::
  "('w \<Rightarrow> go_error option \<times> 'w) \<Rightarrow> (nat \<Rightarrow> nat) \<Rightarrow> nat \<Rightarrow> go_time \<Rightarrow> 'w \<Rightarrow> go_error option \<times> 'w"
where
  "handoff_loop h dur attempt elapsed w =
     (case h w of
        (None, w') \<Rightarrow> (None, w')
      | (Some err, w') \<Rightarrow>
          (let t = elapsed + int (dur attempt) + handoff_delay attempt
           in if t < recordCleanupTimeout then handoff_loop h dur (Suc attempt) t w'
              else (Some err, w')))"
  by pat_completeness auto
termination
  by (relation "measure (\<lambda>(h, dur, attempt, elapsed, w). nat (recordCleanupTimeout - elapsed))")
     (auto simp: Let_def intro: handoff_progress)

declare handoff_loop.simps [simp del]

text \<open>\<open>Record\<close>; \<open>data\<close> is the marshalled step data, or the error of marshalling it.\<close>

definition Record ::
  "(nat \<Rightarrow> nat) \<Rightarrow> string \<Rightarrow> json result \<Rightarrow> 'w engine \<Rightarrow> 'w \<Rightarrow> go_error option \<times> 'w engine \<times> 'w"
where
  "Record dur name data e w =
     (case data of
        Inl err \<Rightarrow> (Some (Errorf ''marshal step data'' [err]), e, w)
      | Inr raw \<Rightarrow>
          (let step = \<lparr>step_Name = name, step_Data = raw\<rparr> in
           if step \<in> set (e_steps e) then (None, e, w)
           else
             let e' = e\<lparr>e_steps := e_steps e @ [step]\<rparr> in
             case e_persister e of
               None \<Rightarrow> (None, e', w)
             | Some p \<Rightarrow>
                 (case SaveRollbackSteps p (e_jobID e) (e_steps e') w of
                    (None, w') \<Rightarrow> (None, e', w')
                  | (Some err, w') \<Rightarrow>
                      (case HandoffRollbackStep p of
                         None \<Rightarrow> (Some (Errorf ''persist rollback step with uncertain ownership'' [err]), e', w')
                       | Some h \<Rightarrow>
                           (case handoff_loop (h (e_jobID e) step) dur 0 0 w' of
                              (None, w'') \<Rightarrow>
                                (Some (Errorf ''persist rollback step after handing receipt to successor'' [err]), e', w'')
                            | (Some herr, w'') \<Rightarrow>
                                (Some (Errorf ''persist rollback step: successor handoff failed'' [err]), e', w''))))))"

section \<open>Rolling back\<close>

text \<open>Saving through an optional persister: with none, nothing happens.\<close>

definition save_steps :: "'w engine \<Rightarrow> rb_step list \<Rightarrow> 'w \<Rightarrow> go_error option \<times> 'w" where
  "save_steps e ss w =
     (case e_persister e of None \<Rightarrow> (None, w) | Some p \<Rightarrow> SaveRollbackSteps p (e_jobID e) ss w)"

text \<open>
  The loop of \<open>Rollback\<close>; the number counts down over the index \<open>i\<close>, and \<open>remaining\<close> always
  has more than \<open>i\<close> elements. The result is the error slice, the new \<open>e.steps\<close> and the world.
\<close>

fun rollback_loop ::
  "'w engine \<Rightarrow> nat \<Rightarrow> rb_step list \<Rightarrow> go_error list \<Rightarrow> 'w \<Rightarrow> go_error list \<times> rb_step list \<times> 'w"
where
  "rollback_loop e 0 remaining errs w = (errs, remaining, w)"
| "rollback_loop e (Suc i) remaining errs w =
     (let step = remaining ! i in
      case save_steps e remaining w of
        (Some err, w1) \<Rightarrow> ([Errorf ''fence rollback before undo'' [err]], remaining, w1)
      | (None, w1) \<Rightarrow>
          (case e_undoFuncs e (step_Name step) of
             None \<Rightarrow>
               rollback_loop e i remaining (errs @ [errorsNew ''rollback: no undo function registered'']) w1
           | Some undoFn \<Rightarrow>
               (case undoFn (step_Data step) w1 of
                  (Some err, w2) \<Rightarrow> rollback_loop e i remaining (errs @ [Errorf ''rollback'' [err]]) w2
                | (None, w2) \<Rightarrow>
                    (let remaining' = take i remaining @ drop (Suc i) remaining in
                     case save_steps e remaining' w2 of
                       (Some err, w3) \<Rightarrow>
                         (errs @ [Errorf ''checkpoint rollback after undo'' [err]], remaining, w3)
                     | (None, w3) \<Rightarrow> rollback_loop e i remaining' errs w3))))"

definition Rollback :: "'w engine \<Rightarrow> 'w \<Rightarrow> go_error list \<times> 'w engine \<times> 'w" where
  "Rollback e w =
     (case rollback_loop e (length (e_steps e)) (e_steps e) [] w of
        (errs, remaining, w') \<Rightarrow> (errs, e\<lparr>e_steps := remaining\<rparr>, w'))"

section \<open>Reference behaviour\<close>

text \<open>
  What a rollback is meant to do, with no persistence in the way: go through the steps from the
  last to the first, undo each one, report one error per step that could not be undone and keep
  exactly those steps.
\<close>

fun rollback_ref ::
  "(string \<Rightarrow> 'w undo_func option) \<Rightarrow> rb_step list \<Rightarrow> 'w \<Rightarrow> go_error list \<times> rb_step list \<times> 'w"
where
  "rollback_ref u [] w = ([], [], w)"
| "rollback_ref u (s # ss) w =
     (case u (step_Name s) of
        None \<Rightarrow>
          (case rollback_ref u ss w of (es, ks, w') \<Rightarrow>
             (errorsNew ''rollback: no undo function registered'' # es, s # ks, w'))
      | Some f \<Rightarrow>
          (case f (step_Data s) w of
             (Some err, w1) \<Rightarrow>
               (case rollback_ref u ss w1 of (es, ks, w') \<Rightarrow> (Errorf ''rollback'' [err] # es, s # ks, w'))
           | (None, w1) \<Rightarrow> rollback_ref u ss w1))"

lemma rollback_loop_ref:
  assumes "\<And>ss w. save_steps e ss w = (None, w)"
  shows "rollback_loop e (length xs) (xs @ ys) errs w =
           (case rollback_ref (e_undoFuncs e) (rev xs) w of
              (es, ks, w') \<Rightarrow> (errs @ es, rev ks @ ys, w'))"
proof (induction xs arbitrary: ys errs w rule: rev_induct)
  case Nil
  show ?case by simp
next
  case (snoc x xs)
  have nth: "(xs @ x # ys) ! length xs = x" and
    rest: "take (length xs) (xs @ x # ys) @ drop (Suc (length xs)) (xs @ x # ys) = xs @ ys"
    by simp_all
  show ?case
    using snoc.IH [of "x # ys"] snoc.IH [of ys]
    by (auto simp: assms nth rest Let_def split: option.splits prod.splits)
qed

section \<open>Durable receipts\<close>

text \<open>
  The contract a persister offers in a well-formed world: a successful save makes exactly these
  steps the stored ones, a failed save leaves what was stored.
\<close>

locale receipt_store =
  fixes save :: "rb_step list \<Rightarrow> 'w \<Rightarrow> go_error option \<times> 'w"
    and stored :: "'w \<Rightarrow> rb_step list"
    and good :: "'w \<Rightarrow> bool"
  assumes save_ok: "good w \<Longrightarrow> save ss w = (None, w') \<Longrightarrow> stored w' = ss"
    and save_err: "save ss w = (Some err, w') \<Longrightarrow> stored w' = stored w"
    and save_good: "good w \<Longrightarrow> save ss w = (r, w') \<Longrightarrow> good w'"
begin

text \<open>
  Undone steps, as a predicate of the world: an undo function that reports success establishes
  it for its step; no save and no other undo takes it back; undo functions leave the stored
  receipts alone.
\<close>

definition undo_contract ::
  "(rb_step \<Rightarrow> 'w \<Rightarrow> bool) \<Rightarrow> (string \<Rightarrow> 'w undo_func option) \<Rightarrow> bool" where
  "undo_contract gone u \<longleftrightarrow>
     (\<forall>s f w. u (step_Name s) = Some f \<longrightarrow>
        (fst (f (step_Data s) w) = None \<longrightarrow> gone s (snd (f (step_Data s) w))) \<and>
        (\<forall>t. gone t w \<longrightarrow> gone t (snd (f (step_Data s) w))) \<and>
        stored (snd (f (step_Data s) w)) = stored w \<and>
        (good w \<longrightarrow> good (snd (f (step_Data s) w)))) \<and>
     (\<forall>t ss w. gone t w \<longrightarrow> gone t (snd (save ss w)))"

lemma undo_contractD:
  fixes s t :: rb_step
  assumes "undo_contract gone u"
  shows "u (step_Name s) = Some f \<Longrightarrow> f (step_Data s) w = (None, w') \<Longrightarrow> gone s w'"
    and "u (step_Name s) = Some f \<Longrightarrow> f (step_Data s) w = (r, w') \<Longrightarrow> gone t w \<Longrightarrow> gone t w'"
    and "u (step_Name s) = Some f \<Longrightarrow> f (step_Data s) w = (r, w') \<Longrightarrow> stored w' = stored w"
    and "u (step_Name s) = Some f \<Longrightarrow> f (step_Data s) w = (r, w') \<Longrightarrow> good w \<Longrightarrow> good w'"
    and "save ss w = (r, w') \<Longrightarrow> gone t w \<Longrightarrow> gone t w'"
  using assms unfolding undo_contract_def by (metis fst_conv snd_conv)+

text \<open>
  The loop invariant: every receipt that is not among the remaining ones has been undone, and
  the stored receipts still name every step that has not.
\<close>

definition receipts_safe :: "(rb_step \<Rightarrow> 'w \<Rightarrow> bool) \<Rightarrow> rb_step set \<Rightarrow> rb_step list \<Rightarrow> 'w \<Rightarrow> bool" where
  "receipts_safe gone S remaining w \<longleftrightarrow>
     good w \<and> set remaining \<subseteq> S \<and> (\<forall>s \<in> S. s \<in> set remaining \<or> gone s w) \<and>
     (\<forall>s \<in> S. s \<in> set (stored w) \<or> gone s w)"

lemma safe_save:
  assumes "undo_contract gone u" "receipts_safe gone S remaining w" "save remaining w = (r, w')"
  shows "receipts_safe gone S remaining w'"
  using assms undo_contractD(5) [OF assms(1,3)] save_ok [of w remaining w'] save_err [of remaining w _ w']
    save_good [of w remaining r w']
  unfolding receipts_safe_def by (cases r) (auto 4 3)

lemma safe_undo:
  fixes s :: rb_step
  assumes "undo_contract gone u" "receipts_safe gone S remaining w"
    and "u (step_Name s) = Some f" "f (step_Data s) w = (r, w')"
  shows "receipts_safe gone S remaining w'"
  using assms(2) undo_contractD(2,3,4) [OF assms(1,3,4)]
  unfolding receipts_safe_def by auto

lemma safe_drop:
  assumes "receipts_safe gone S remaining w" "gone (remaining ! i) w" "i < length remaining"
  shows "receipts_safe gone S (take i remaining @ drop (Suc i) remaining) w"
proof -
  have "set remaining = insert (remaining ! i) (set (take i remaining @ drop (Suc i) remaining))"
    using assms(3) id_take_nth_drop [OF assms(3)]
    by (metis list.simps(15) set_append Un_insert_right)
  with assms(1,2) show ?thesis unfolding receipts_safe_def by auto
qed

lemma rollback_loop_safe:
  assumes "\<And>ss w. save_steps e ss w = save ss w" and "undo_contract gone (e_undoFuncs e)"
    and "receipts_safe gone S remaining w" and "i \<le> length remaining"
    and "rollback_loop e i remaining errs w = (errs', remaining', w')"
  shows "receipts_safe gone S remaining' w'"
  using assms(3-5)
proof (induction i arbitrary: remaining errs w)
  case 0
  then show ?case by simp
next
  case (Suc i)
  obtain r1 w1 where s1: "save remaining w = (r1, w1)" by force
  have safe1: "receipts_safe gone S remaining w1"
    using safe_save [OF assms(2) Suc.prems(1) s1] .
  note loop = Suc.prems(3) [unfolded rollback_loop.simps(2) assms(1) Let_def s1 prod.case]
  show ?case
  proof (cases r1)
    case (Some err)
    then show ?thesis using loop safe1 by simp
  next
    case None
    show ?thesis
    proof (cases "e_undoFuncs e (step_Name (remaining ! i))")
      case noundo: None
      then show ?thesis using loop None safe1 Suc.IH Suc.prems(2) by simp
    next
      case f: (Some f)
      obtain r2 w2 where s2: "f (step_Data (remaining ! i)) w1 = (r2, w2)" by force
      have safe2: "receipts_safe gone S remaining w2"
        using safe_undo [OF assms(2) safe1 f s2] .
      show ?thesis
      proof (cases r2)
        case (Some err)
        then show ?thesis using loop None f s2 safe2 Suc.IH Suc.prems(2) by simp
      next
        case r2: None
        let ?rem = "take i remaining @ drop (Suc i) remaining"
        from undo_contractD(1) [OF assms(2) f] s2 r2 have "gone (remaining ! i) w2" by simp
        then have safe3: "receipts_safe gone S ?rem w2"
          using safe_drop [OF safe2] Suc.prems(2) by simp
        obtain r3 w3 where s3: "save ?rem w2 = (r3, w3)" by force
        have safe4: "receipts_safe gone S ?rem w3"
          using safe_save [OF assms(2) safe3 s3] .
        show ?thesis
        proof (cases r3)
          case (Some err)
          have "receipts_safe gone S remaining w3"
            using safe2 safe4 undo_contractD(5) [OF assms(2) s3] unfolding receipts_safe_def by blast
          then show ?thesis using loop None f s2 r2 s3 Some by simp
        next
          case r3: None
          then show ?thesis
            using loop None f s2 r2 s3 safe4 Suc.IH [of ?rem] Suc.prems(2) by simp
        qed
      qed
    qed
  qed
qed

end

text \<open>
  A store that can also hand a receipt to whoever works on the job next.
\<close>

locale receipt_handoff = receipt_store save stored good
  for save :: "rb_step list \<Rightarrow> 'w \<Rightarrow> go_error option \<times> 'w"
    and stored :: "'w \<Rightarrow> rb_step list"
    and good :: "'w \<Rightarrow> bool" +
  fixes handoff :: "rb_step \<Rightarrow> 'w \<Rightarrow> go_error option \<times> 'w"
  assumes handoff_ok: "good w \<Longrightarrow> handoff s w = (None, w') \<Longrightarrow>
      s \<in> set (stored w') \<and> set (stored w) \<subseteq> set (stored w')"
    and handoff_err: "handoff s w = (Some err, w') \<Longrightarrow> stored w' = stored w"
    and handoff_good: "good w \<Longrightarrow> handoff s w = (r, w') \<Longrightarrow> good w'"
begin

lemma handoff_loop_durable:
  assumes "handoff_loop (handoff s) dur n t w = (r, w')" "good w"
  shows "set (stored w) \<subseteq> set (stored w') \<and> (r = None \<longrightarrow> s \<in> set (stored w'))"
  using assms
proof (induction "handoff s" dur n t w arbitrary: r w' rule: handoff_loop.induct)
  case (1 dur n t w)
  obtain r1 w1 where h: "handoff s w = (r1, w1)" by force
  show ?case
  proof (cases r1)
    case None
    with h 1 handoff_ok [of w s w1] show ?thesis by (auto simp: handoff_loop.simps)
  next
    case (Some err)
    note st = handoff_err [OF h [unfolded Some]]
    show ?thesis
    proof (cases "t + int (dur n) + handoff_delay n < recordCleanupTimeout")
      case True
      have "handoff_loop (handoff s) dur (Suc n) (t + int (dur n) + handoff_delay n) w1 = (r, w')"
        using "1.prems"(1) h Some True by (simp add: handoff_loop.simps [of _ _ n t w] Let_def)
      from "1.hyps" [OF h [symmetric] Some refl True this handoff_good [OF "1.prems"(2) h]]
      show ?thesis by (simp add: st)
    next
      case False
      with h Some 1 st show ?thesis by (auto simp: handoff_loop.simps [of _ _ n t w] Let_def)
    qed
  qed
qed

text \<open>
  Recording through such a store: success means all receipts are stored; the error that
  announces the handoff means the new receipt is stored and no older one is lost.
\<close>

lemma Record_durable:
  assumes "e_persister e = Some p" "SaveRollbackSteps p (e_jobID e) = save"
    and "HandoffRollbackStep p = Some (\<lambda>_. handoff)" "good w"
    and "step = \<lparr>step_Name = name, step_Data = raw\<rparr>" "step \<notin> set (e_steps e)"
    and "Record dur name (Inr raw) e w = (r, e', w')"
  shows "e_steps e' = e_steps e @ [step] \<and>
         (r = None \<longrightarrow> stored w' = e_steps e') \<and>
         ((\<exists>err. r = Some (Errorf ''persist rollback step after handing receipt to successor'' [err])) \<longrightarrow>
            step \<in> set (stored w') \<and> set (stored w) \<subseteq> set (stored w'))"
proof -
  obtain r1 w1 where s1: "save (e_steps e @ [step]) w = (r1, w1)" by force
  note rec = assms(7) [unfolded Record_def sum.case Let_def assms(5) [symmetric]]
  show ?thesis
  proof (cases r1)
    case None
    then show ?thesis using rec s1 assms save_ok [OF assms(4) s1 [unfolded None]] by auto
  next
    case (Some err)
    obtain r2 w2 where h: "handoff_loop (handoff step) dur 0 0 w1 = (r2, w2)" by force
    show ?thesis
      using rec s1 Some h assms(1-3,6) handoff_loop_durable [OF h save_good [OF assms(4) s1]]
        save_err [OF s1 [unfolded Some]]
      by (auto split: option.splits)
  qed
qed

end

section \<open>Properties\<close>

text \<open>
  C19. Without a persister, \<open>Rollback\<close> undoes the recorded steps in reverse order, reports
  one error per step that has no undo function or whose undo fails, goes on after each, and keeps
  exactly the steps that were not undone, in their recorded order.
\<close>

theorem Rollback_reverse_order:
  assumes "e_persister e = None"
  shows "Rollback e w =
           (case rollback_ref (e_undoFuncs e) (rev (e_steps e)) w of
              (errs, kept, w') \<Rightarrow> (errs, e\<lparr>e_steps := rev kept\<rparr>, w'))"
proof -
  have "save_steps e ss w = (None, w)" for ss w using assms by (simp add: save_steps_def)
  from rollback_loop_ref [OF this, of "e_steps e" "[]" "[]" w] show ?thesis
    by (simp add: Rollback_def split: prod.splits)
qed

definition logging_engine :: "string list engine" where
  "logging_engine = (new_engine 1 None)
     \<lparr>e_steps := [\<lparr>step_Name = ''vlan'', step_Data = JNull\<rparr>, \<lparr>step_Name = ''vm'', step_Data = JNull\<rparr>],
      e_undoFuncs := [''vlan'' \<mapsto> (\<lambda>_ w. (None, w @ [''vlan''])), ''vm'' \<mapsto> (\<lambda>_ w. (Some (errorsNew ''x''), w @ [''vm'']))]\<rparr>"

theorem Rollback_reverse_order_witness:
  "snd (snd (Rollback logging_engine [])) = [''vm'', ''vlan'']"
  by (subst Rollback_reverse_order) (simp_all add: logging_engine_def new_engine_def)

text \<open>The time used up by the pauses before attempt \<open>n\<close>.\<close>

definition handoff_wait :: "nat \<Rightarrow> go_time" where
  "handoff_wait n = (\<Sum>k<n. handoff_delay k)"

definition counted :: "('w \<Rightarrow> go_error option \<times> 'w) \<Rightarrow> nat \<times> 'w \<Rightarrow> go_error option \<times> nat \<times> 'w" where
  "counted h s = (case s of (n, w) \<Rightarrow> case h w of (r, w') \<Rightarrow> (r, Suc n, w'))"

lemma handoff_wait_9: "recordCleanupTimeout \<le> handoff_wait 9"
  by (simp add: handoff_wait_def handoff_delay_def seconds_def eval_nat_numeral)

lemma handoff_loop_count:
  assumes "n \<le> 8" "handoff_wait n \<le> t"
  shows "c < fst (snd (handoff_loop (counted h) dur n t (c, w))) \<and>
         fst (snd (handoff_loop (counted h) dur n t (c, w))) \<le> c + (9 - n)"
  using assms
proof (induction "counted h" dur n t "(c, w)" arbitrary: c w rule: handoff_loop.induct)
  case (1 dur n t c w)
  obtain r1 w1 where h: "h w = (r1, w1)" by force
  then have ch: "counted h (c, w) = (r1, Suc c, w1)" by (simp add: counted_def)
  let ?t = "t + int (dur n) + handoff_delay n"
  show ?case
  proof (cases "r1 \<noteq> None \<and> ?t < recordCleanupTimeout")
    case True
    then obtain err where err: "r1 = Some err" by auto
    have wait: "handoff_wait (Suc n) \<le> ?t" using "1.prems"(2) by (simp add: handoff_wait_def)
    have "n \<noteq> 8" using wait True handoff_wait_9 by auto
    with "1.prems"(1) have n: "Suc n \<le> 8" by simp
    let ?rest = "handoff_loop (counted h) dur (Suc n) ?t (Suc c, w1)"
    have "Suc c < fst (snd ?rest) \<and> fst (snd ?rest) \<le> Suc c + (9 - Suc n)"
      by (rule "1.hyps" [OF ch [symmetric] err refl _ n wait]) (use True in simp)
    moreover have "handoff_loop (counted h) dur n t (c, w) = ?rest"
      using ch err True by (simp add: handoff_loop.simps [of _ _ n t "(c, w)"] Let_def)
    ultimately show ?thesis using n by auto
  next
    case False
    with ch "1.prems" show ?thesis
      by (auto simp: handoff_loop.simps [of _ _ n t "(c, w)"] Let_def split: option.splits)
  qed
qed

text \<open>
  Handing a receipt over is attempted at least once and at most nine times, however long
  the attempts take: the pauses of 1, 2, 4, 8 and then 16 seconds use up the 90 second budget.
\<close>

theorem handoff_at_most_nine:
  "fst (snd (handoff_loop (counted h) dur 0 0 (0, w))) \<in> {1..9}"
  using handoff_loop_count [of 0 0 0 h dur w] by (simp add: handoff_wait_def)

end
