(* ===== verification/Store.thy ===== *)
theory Store
  imports Lifecycle Rollback
begin

text \<open>
  The rows of the Postgres tables the modelled queries read and write, with the columns those
  queries use, and the database as the record of its tables.
\<close>

section \<open>Rows\<close>

text \<open>
  The values of \<open>jobs.status\<close>: the \<open>JobStatus\<close> constants, and any other text the column could
  hold.
\<close>

datatype job_status = JobStatusPending | JobStatusClaimed | JobStatusInProgress
  | JobStatusCompleted | JobStatusFailed | JobStatusRollback | JobStatusOther string

text \<open>\<open>models.Job\<close>; the rollback receipts are the decoded \<open>rollback_steps\<close> array.\<close>

record job =
  j_ID :: uuid
  j_Type :: string
  j_Payload :: payload
  j_Status :: job_status
  j_ClaimedBy :: "string option"
  j_ClaimedAt :: "go_time option"
  j_StartedAt :: "go_time option"
  j_CompletedAt :: "go_time option"
  j_Result :: "json option"
  j_RetryCount :: int
  j_MaxRetries :: int
  j_NextAttemptAt :: "go_time option"
  j_RollbackSteps :: "rb_step list"
  j_CreatedAt :: go_time

record pod_row =
  pd_id :: uuid
  pd_status :: string
  pd_user_id :: uuid
  pd_vlan_id :: int
  pd_subnet :: string
  pd_network_mode :: string
  pd_shared_network_id :: "uuid option"
  pd_expires_at :: "go_time option"
  pd_error_message :: "string option"
  pd_updated_at :: go_time

record pod_vm =
  pv_ID :: uuid
  pv_PodID :: uuid
  pv_TemplateID :: uuid
  pv_DisplayName :: string
  pv_Status :: string
  pv_CreatedAt :: go_time
  pv_LastActivityAt :: "go_time option"
  pv_SuspendedAt :: "go_time option"
  pv_SuspendReason :: "string option"
  pv_VCenterVMID :: "string option"
  pv_VCenterVMName :: "string option"
  pv_IPAddress :: "string option"
  pv_VCPUs :: int
  pv_RAMMB :: int
  pv_GeneratedUsername :: string
  pv_GeneratedPassword :: string
  pv_GuestCredentialsVerifiedAt :: "go_time option"
  pv_GuestCredentialsVerifiedVMID :: "string option"

text \<open>\<open>models.TemplateSourceReplica\<close>.\<close>

record replica =
  sr_ID :: uuid
  sr_TemplateID :: uuid
  sr_SourceVMMoref :: moref
  sr_ComputeResourceType :: string
  sr_ComputeResourceMoref :: moref
  sr_ComputeResourcePath :: string
  sr_Status :: string
  sr_LastValidatedAt :: "go_time option"
  sr_LastValidationError :: "string option"

text \<open>
  The values of \<open>status\<close> and \<open>phase\<close> of a replica build, as the \<open>CHECK\<close> constraints of the columns list
  them; the constants of the source are \<open>TemplateReplicaBuild...\<close> and \<open>TemplateReplicaBuildPhase...\<close>.
\<close>

datatype build_status =
    BuildPending | BuildRunning | BuildReady | BuildFailed | BuildCleanupRequired | BuildRetiring | BuildRetired

datatype build_phase =
    PhasePending | PhaseCloneSubmitting | PhaseCloneSubmitted | PhaseValidating | PhaseSnapshotSubmitting
  | PhaseSnapshotSubmitted | PhaseCanaryPrepared | PhaseCanarySubmitting | PhaseCanarySubmitted
  | PhaseCleanupPrepared | PhaseCleanupSubmitting | PhaseCleanupSubmitted
  | PhaseResiduePrepared | PhaseResidueSubmitting | PhaseResidueSubmitted | PhaseResidueCleaned
  | PhaseFinalizing | PhaseReady | PhaseFailed | PhaseCleanupRequired | PhaseRetired

text \<open>
  \<open>models.TemplateReplicaBuild\<close>. The inventory destination of a build (compute resource, host, pool,
  datastore and folder) never changes; beside the compute resource it is one value,
  \<open>rbd_Target\<close>.
\<close>

record replica_build =
  rbd_ID :: uuid
  rbd_TemplateID :: uuid
  rbd_SourceReplicaID :: "uuid option"
  rbd_ResultReplicaID :: "uuid option"
  rbd_JobID :: "uuid option"
  rbd_IdempotencyKey :: string
  rbd_OperationID :: string
  rbd_CanaryOperationID :: string
  rbd_SourceVMMoref :: moref
  rbd_SourceSnapshotName :: string
  rbd_SourceSnapshotMoref :: moref
  rbd_DestinationName :: string
  rbd_ComputeResourceType :: string
  rbd_ComputeResourceMoref :: moref
  rbd_ComputeResourcePath :: string
  rbd_Target :: "string list"
  rbd_Status :: build_status
  rbd_Phase :: build_phase
  rbd_ResumePhase :: build_phase
  rbd_CloneTaskRef :: string
  rbd_DestinationVMMoref :: moref
  rbd_SnapshotTaskRef :: string
  rbd_DestinationSnapshot :: moref
  rbd_CanaryTaskRef :: string
  rbd_CanaryVMMoref :: moref
  rbd_CleanupTaskRef :: string
  rbd_CleanupCompletedAt :: "go_time option"
  rbd_ResidueCleanupTaskRef :: string
  rbd_ResidueCleanedAt :: "go_time option"
  rbd_LastErrorCode :: string
  rbd_LastError :: string
  rbd_StartedAt :: "go_time option"
  rbd_SubmissionStartedAt :: "go_time option"
  rbd_CompletedAt :: "go_time option"

text \<open>\<open>models.VMPlacement\<close>.\<close>

record vm_placement =
  vp_PodVMID :: uuid
  vp_JobID :: uuid
  vp_TemplateID :: uuid
  vp_SourceReplicaID :: "uuid option"
  vp_SourceRef :: string
  vp_ComputeResourceType :: string
  vp_ComputeResourceMoref :: moref
  vp_ResourcePoolMoref :: moref
  vp_HostMoref :: moref
  vp_HostName :: string
  vp_DRSControl :: string
  vp_ObservedFreeMemoryMB :: int
  vp_ReservedMemoryMB :: int
  vp_CapacityReservationMB :: int
  vp_CapacityObservedAt :: go_time
  vp_CapacityReleasedAt :: "go_time option"
  vp_AdmittedHeadroomMB :: int
  vp_LegacyAdoptionPending :: bool

text \<open>A row of \<open>vlan_pool\<close>, and \<open>models.PodAttestation\<close>, the record of one extension.\<close>

record vlan_row =
  vl_vlan_tag :: int
  vl_subnet :: string
  vl_pod_id :: "uuid option"
  vl_host_scope :: string

record attestation =
  at_ID :: uuid
  at_PodID :: uuid
  at_UserID :: uuid
  at_PreviousExpiresAt :: "go_time option"
  at_NewExpiresAt :: go_time

text \<open>A row of \<open>pod_portgroup_receipts\<close>, of \<open>shared_networks\<close> and of \<open>pod_destroy_recovery_audit\<close>.\<close>

record portgroup_receipt_row =
  pgr_pod_id :: uuid
  pgr_create_job_id :: uuid
  pgr_receipt :: json
  pgr_portgroup_keys :: "(string \<times> string) list"
  pgr_state :: string
  pgr_removed_at :: "go_time option"

record shared_network_row =
  sn_id :: uuid
  sn_vlan_tag :: int
  sn_cidr :: string
  sn_gateway :: string
  sn_portgroup_name :: string
  sn_dhcp_start :: string
  sn_dhcp_end :: string
  sn_runner_first :: string
  sn_runner_last :: string
  sn_status :: string
  sn_error_message :: string

record recovery_audit_row =
  ra_pod_id :: uuid
  ra_job_id :: uuid
  ra_actor_user_id :: uuid
  ra_attestation :: "int \<times> string \<times> string"
  ra_before_state :: "string \<times> string \<times> int \<times> string"
  ra_after_state :: "string \<times> int \<times> string"

record work_lease_row =
  wl_name :: string
  wl_claimed_by :: "string option"
  wl_claim_token :: "uuid option"
  wl_claimed_at :: "go_time option"
  wl_generation :: int

text \<open>The columns of \<open>models.User\<close> that limit what a user may provision.\<close>

record user_row =
  us_ID :: uuid
  us_Role :: string
  us_MaxVCPUs :: int
  us_MaxRAMMB :: int
  us_MaxPods :: int
  us_MaxSingleVMs :: int

section \<open>The database\<close>

record database =
  db_jobs :: "job list"
  db_templates :: templates_table
  db_pods :: "pod_row list"
  db_pod_vms :: "pod_vm list"
  db_replicas :: "replica list"
  db_replica_policies :: "uuid list"
  db_replica_builds :: "replica_build list"
  db_placements :: "vm_placement list"
  db_leases :: "work_lease_row list"
  db_vlan_pool :: "vlan_row list"
  db_attestations :: "attestation list"
  db_portgroup_receipts :: "portgroup_receipt_row list"
  db_shared_networks :: "shared_network_row list"
  db_shared_policy_ready :: "bool option"
  db_recovery_audit :: "recovery_audit_row list"
  db_users :: "user_row list"

definition empty_db :: database where
  "empty_db = \<lparr>db_jobs = [], db_templates = [], db_pods = [], db_pod_vms = [], db_replicas = [],
     db_replica_policies = [], db_replica_builds = [], db_placements = [], db_leases = [],
     db_vlan_pool = [], db_attestations = [],
     db_portgroup_receipts = [], db_shared_networks = [], db_shared_policy_ready = None, db_recovery_audit = [],
     db_users = []\<rparr>"

end
