(* ===== verification/Jobs.thy ===== *)
theory Jobs
  imports Store
begin

text \<open>
  The durable job queue: the job queries of \<open>internal/database/queries.go\<close>, the receipt
  handoff of \<open>internal/database/clone_operations.go\<close> and the rollback persister of
  \<open>internal/provisioner/create.go\<close>. A job is claimed under a token that is fresh for every
  claim; every later write of the claimant is guarded by that token, so a worker whose lease was
  recovered can no longer change the row.
\<close>

section \<open>Job types and states\<close>


definition activeStatus :: "job_status \<Rightarrow> bool" where
  "activeStatus s \<longleftrightarrow> s = JobStatusClaimed \<or> s = JobStatusInProgress"

definition terminalStatus :: "job_status \<Rightarrow> bool" where
  "terminalStatus s \<longleftrightarrow> s = JobStatusCompleted \<or> s = JobStatusFailed \<or> s = JobStatusRollback"

text \<open>The jobs whose payload targets a pod or one of its VMs.\<close>

definition serializedPodJobTypes :: "string list" where
  "serializedPodJobTypes =
     [''pod_create'', ''pod_destroy'', ''vm_add'', ''vm_destroy'', ''vm_start'', ''vm_stop'',
      ''vm_restart'', ''vm_reset'', ''vm_snapshot'', ''vm_revert'', ''vm_snapshot_delete'',
      ''vm_suspend'']"

definition isSerializedPodJobType :: "string \<Rightarrow> bool" where
  "isSerializedPodJobType jobType \<longleftrightarrow> jobType \<in> set serializedPodJobTypes"

section \<open>Creating jobs\<close>

text \<open>
  \<open>INSERT INTO jobs (type, payload)\<close>: the other columns get their defaults. \<open>newID\<close> is the
  value of \<open>gen_random_uuid()\<close>, \<open>now\<close> of \<open>now()\<close>; a repeated id violates the primary key.
\<close>

definition new_job :: "uuid \<Rightarrow> go_time \<Rightarrow> string \<Rightarrow> payload \<Rightarrow> job" where
  "new_job newID now jobType payload =
     \<lparr>j_ID = newID, j_Type = jobType, j_Payload = payload, j_Status = JobStatusPending,
      j_ClaimedBy = None, j_ClaimedAt = None, j_StartedAt = None, j_CompletedAt = None,
      j_Result = None, j_RetryCount = 0, j_MaxRetries = 3, j_NextAttemptAt = None,
      j_RollbackSteps = [], j_CreatedAt = now\<rparr>"

definition createJob ::
  "uuid \<Rightarrow> go_time \<Rightarrow> string \<Rightarrow> payload \<Rightarrow> database \<Rightarrow> (job \<times> database) result" where
  "createJob newID now jobType payload db =
     (if newID \<in> j_ID ` set (db_jobs db) then Inl (errorsNew ''duplicate key value'')
      else let j = new_job newID now jobType payload
           in Inr (j, db\<lparr>db_jobs := db_jobs db @ [j]\<rparr>))"

definition CreateJob ::
  "go_error option \<Rightarrow> uuid \<Rightarrow> go_time \<Rightarrow> string \<Rightarrow> payload \<Rightarrow> database \<Rightarrow> job result \<times> database" where
  "CreateJob flt newID now jobType payload db =
     (if isSerializedPodJobType jobType
      then (Inl (Errorf jobType [Sentinel ErrPodJobRequiresSerialization]), db)
      else run_tx flt (createJob newID now jobType payload) db)"

text \<open>
  \<open>CreateTemplateRevalidateJobIfAbsent\<close>; \<open>ustr\<close> is \<open>uuid.UUID.String\<close>. The row lock on the
  template makes the check and the insert one step.
\<close>

definition activeRevalidation :: "(uuid \<Rightarrow> string) \<Rightarrow> uuid \<Rightarrow> job \<Rightarrow> bool" where
  "activeRevalidation ustr templateID j \<longleftrightarrow>
     j_Type j = ''template_revalidate'' \<and>
     j_Status j \<in> {JobStatusPending, JobStatusClaimed, JobStatusInProgress} \<and>
     pget (j_Payload j) ''template_id'' = Some (JStr (ustr templateID))"

definition CreateTemplateRevalidateJobIfAbsent ::
  "(uuid \<Rightarrow> string) \<Rightarrow> go_error option \<Rightarrow> uuid \<Rightarrow> go_time \<Rightarrow> uuid \<Rightarrow> payload \<Rightarrow> database
     \<Rightarrow> job option result \<times> database" where
  "CreateTemplateRevalidateJobIfAbsent ustr flt newID now templateID payload =
     run_tx flt (\<lambda>db.
       if templateID \<notin> tr_id ` set (db_templates db)
       then Inl (Errorf ''lock template for revalidation enqueue'' [Sentinel ErrTemplateNotFound])
       else if \<exists>j \<in> set (db_jobs db). activeRevalidation ustr templateID j
       then Inr (None, db)
       else case createJob newID now ''template_revalidate'' payload db of
              Inl e \<Rightarrow> Inl (Errorf ''insert template revalidation job'' [e])
            | Inr (j, db') \<Rightarrow> Inr (Some j, db'))"

section \<open>Claiming\<close>

text \<open>The types a worker with provisioning claims disabled must leave alone.\<close>

definition provisioningClaimTypes :: "string list" where
  "provisioningClaimTypes =
     [''pod_create'', ''vm_add'', ''template_provision'', ''template_generalize'',
      ''template_verify'', ''template_revalidate'', ''template_health_confirm'',
      ''template_replica_build'', ''image_import'', ''shared_network_provision'']"

text \<open>The \<open>WHERE\<close> clause of the selecting statement; \<open>locked\<close> are rows other transactions hold.\<close>

definition claimable :: "go_time \<Rightarrow> (uuid \<Rightarrow> bool) \<Rightarrow> bool \<Rightarrow> job \<Rightarrow> bool" where
  "claimable now locked enabled j \<longleftrightarrow>
     j_Status j = JobStatusPending \<and>
     (enabled \<or>
      j_Type j \<notin> set provisioningClaimTypes \<or>
      (j_Type j \<in> set provisioningClaimTypes \<and> ptrue (j_Payload j) ''cleanup_only'')) \<and>
     (case j_NextAttemptAt j of None \<Rightarrow> True | Some t \<Rightarrow> t \<le> now) \<and>
     \<not> locked (j_ID j)"

definition ClaimJob ::
  "go_error option \<Rightarrow> go_time \<Rightarrow> (uuid \<Rightarrow> bool) \<Rightarrow> string \<Rightarrow> bool \<Rightarrow> database
     \<Rightarrow> job option result \<times> database" where
  "ClaimJob flt now locked workerID enabled =
     run_tx flt (\<lambda>db.
       case sort_key j_CreatedAt (filter (claimable now locked enabled) (db_jobs db)) of
         [] \<Rightarrow> Inr (None, db)
       | j # _ \<Rightarrow>
           let f = (\<lambda>r. r\<lparr>j_Status := JobStatusClaimed, j_ClaimedBy := Some workerID,
                         j_ClaimedAt := Some now\<rparr>)
           in Inr (Some (f j), db\<lparr>db_jobs := sql_update (\<lambda>r. j_ID r = j_ID j) f (db_jobs db)\<rparr>))"

section \<open>Writes of the claimant\<close>

text \<open>The guard all of them share: the row is active and claimed under this token.\<close>

definition ownedBy :: "uuid \<Rightarrow> string \<Rightarrow> job \<Rightarrow> bool" where
  "ownedBy i workerID j \<longleftrightarrow> j_ID j = i \<and> j_ClaimedBy j = Some workerID \<and> activeStatus (j_Status j)"

text \<open>A guarded \<open>UPDATE\<close> that reports the lost lease when it does not hit exactly one row.\<close>

definition exec_owned ::
  "(job \<Rightarrow> bool) \<Rightarrow> (job \<Rightarrow> job) \<Rightarrow> string \<Rightarrow> database \<Rightarrow> (unit \<times> database) result" where
  "exec_owned P f msg db =
     (if sql_count P (db_jobs db) \<noteq> 1 then Inl (Errorf msg [Sentinel ErrJobLeaseLost])
      else Inr ((), db\<lparr>db_jobs := sql_update P f (db_jobs db)\<rparr>))"

definition UpdateJobStatus ::
  "go_error option \<Rightarrow> go_time \<Rightarrow> uuid \<Rightarrow> string \<Rightarrow> job_status \<Rightarrow> json option \<Rightarrow> database
     \<Rightarrow> unit result \<times> database" where
  "UpdateJobStatus flt now i workerID status result =
     run_tx flt (exec_owned
       (\<lambda>j. j_ID j = i \<and> j_ClaimedBy j = Some workerID \<and>
            \<not> (status = JobStatusCompleted \<and> ptrue (j_Payload j) ''cleanup_only'' \<and>
               j_Type j \<noteq> ''template_replica_build'') \<and>
            (status = JobStatusInProgress \<and> j_Status j = JobStatusClaimed \<or>
             terminalStatus status \<and> j_Status j = JobStatusInProgress))
       (\<lambda>j. j\<lparr>j_Status := status,
              j_Result := (if status = JobStatusInProgress \<and> j_Type j = ''template_provision'' \<and>
                              result = None then j_Result j else result),
              j_StartedAt := (if status = JobStatusInProgress \<and> j_StartedAt j = None
                              then Some now else j_StartedAt j),
              j_CompletedAt := (if terminalStatus status then Some now else j_CompletedAt j),
              j_ClaimedAt := (if status = JobStatusInProgress then Some now else j_ClaimedAt j)\<rparr>)
       ''job is not owned for status'')"

definition RetryTemplateProvisionJob ::
  "go_error option \<Rightarrow> uuid \<Rightarrow> go_time \<Rightarrow> json option \<Rightarrow> string \<Rightarrow> database \<Rightarrow> unit result \<times> database" where
  "RetryTemplateProvisionJob flt i nextAt result workerID =
     run_tx flt (exec_owned
       (\<lambda>j. j_ID j = i \<and> j_Type j = ''template_provision'' \<and> j_ClaimedBy j = Some workerID \<and>
            j_Status j = JobStatusInProgress)
       (\<lambda>j. j\<lparr>j_Status := JobStatusPending, j_Result := result, j_RetryCount := j_RetryCount j + 1,
              j_ClaimedBy := None, j_ClaimedAt := None, j_StartedAt := None, j_CompletedAt := None,
              j_NextAttemptAt := Some nextAt\<rparr>)
       ''template_provision job is not owned for retry scheduling'')"

text \<open>Decoding a UUID field of a payload; \<open>uparse\<close> is \<open>uuid.Parse\<close>.\<close>

definition payload_uuid :: "(string \<Rightarrow> uuid option) \<Rightarrow> payload \<Rightarrow> string \<Rightarrow> uuid result" where
  "payload_uuid uparse p k =
     (case pget p k of
        None \<Rightarrow> Inr uuid_Nil
      | Some JNull \<Rightarrow> Inr uuid_Nil
      | Some (JStr s) \<Rightarrow>
          (case uparse s of None \<Rightarrow> Inl (errorsNew ''invalid UUID'') | Some u \<Rightarrow> Inr u)
      | Some _ \<Rightarrow> Inl (errorsNew ''cannot unmarshal into uuid''))"

text \<open>
  \<open>FailTemplateProvisionJob\<close>: one transaction that moves the template named by the job's own
  payload from \<open>provisioning\<close> to \<open>error\<close> and the job to \<open>failed\<close>.
\<close>

definition FailTemplateProvisionJob ::
  "(string \<Rightarrow> uuid option) \<Rightarrow> go_error option \<Rightarrow> go_time \<Rightarrow> uuid \<Rightarrow> string \<Rightarrow> json option \<Rightarrow> database
     \<Rightarrow> bool result \<times> database" where
  "FailTemplateProvisionJob uparse flt now i workerID result =
     run_tx flt (\<lambda>db.
       let P = (\<lambda>j. j_ID j = i \<and> j_Type j = ''template_provision'' \<and> j_ClaimedBy j = Some workerID \<and>
                    j_Status j = JobStatusInProgress) in
       case find P (db_jobs db) of
         None \<Rightarrow> Inl (Errorf ''template_provision job is not owned for terminal failure'' [Sentinel ErrJobLeaseLost])
       | Some owned \<Rightarrow>
           (case payload_uuid uparse (j_Payload owned) ''template_id'' of
              Inl e \<Rightarrow> Inl (Errorf ''parse owned template_provision payload'' [e])
            | Inr templateID \<Rightarrow>
                if templateID = uuid_Nil
                then Inl (errorsNew ''owned template_provision job has no template_id'')
                else
                  let Q = (\<lambda>t. tr_id t = templateID \<and> tr_template_state t = TemplateStateProvisioning) in
                  if sql_count Q (db_templates db) \<noteq> 1
                  then Inl (Errorf ''template is no longer provisioning for owned job'' [Sentinel ErrJobLeaseLost])
                  else
                    let db1 = db\<lparr>db_templates := sql_update Q
                                (\<lambda>t. t\<lparr>tr_template_state := TemplateStateError, tr_updated_at := now\<rparr>)
                                (db_templates db)\<rparr> in
                    (case exec_owned P
                            (\<lambda>j. j\<lparr>j_Status := JobStatusFailed, j_Result := result,
                                   j_CompletedAt := Some now, j_NextAttemptAt := None\<rparr>)
                            ''template_provision job lost ownership before terminal failure'' db1 of
                       Inl e \<Rightarrow> Inl e
                     | Inr (_, db2) \<Rightarrow> Inr (True, db2))))"

definition RenewJobLease ::
  "go_error option \<Rightarrow> go_time \<Rightarrow> uuid \<Rightarrow> string \<Rightarrow> database \<Rightarrow> bool result \<times> database" where
  "RenewJobLease flt now i claimToken =
     run_tx flt (\<lambda>db.
       Inr (sql_count (ownedBy i claimToken) (db_jobs db) = 1,
            db\<lparr>db_jobs := sql_update (ownedBy i claimToken) (\<lambda>j. j\<lparr>j_ClaimedAt := Some now\<rparr>)
                            (db_jobs db)\<rparr>))"

definition UpdateJobRollbackSteps ::
  "go_error option \<Rightarrow> go_time \<Rightarrow> uuid \<Rightarrow> string \<Rightarrow> rb_step list \<Rightarrow> database \<Rightarrow> unit result \<times> database" where
  "UpdateJobRollbackSteps flt now i workerID steps =
     run_tx flt (exec_owned (ownedBy i workerID)
       (\<lambda>j. j\<lparr>j_RollbackSteps := steps, j_ClaimedAt := Some now\<rparr>)
       ''job cannot update rollback steps'')"

definition podCreateCleanupStatusSafe :: "string \<Rightarrow> bool" where
  "podCreateCleanupStatusSafe status \<longleftrightarrow>
     status \<in> {''error'', ''destroying'', ''destroy_failed'', ''destroyed''}"

text \<open>The switch on the locked pod's status: the pod to compensate for, made safe.\<close>

definition cleanup_pod_status ::
  "go_time \<Rightarrow> uuid \<Rightarrow> bool \<Rightarrow> database \<Rightarrow> (string \<times> database) result" where
  "cleanup_pod_status now podID allowProvisioningTransition db =
     (case find (\<lambda>p. pd_id p = podID) (db_pods db) of
        None \<Rightarrow> Inr ([], db)
      | Some p \<Rightarrow>
          if pd_status p = ''provisioning'' \<and> allowProvisioningTransition
          then
            let P = (\<lambda>p. pd_id p = podID \<and> pd_status p = ''provisioning'') in
            if sql_count P (db_pods db) \<noteq> 1
            then Inl (errorsNew ''pod changed state before cleanup could start'')
            else Inr (''error'',
                   db\<lparr>db_pods := sql_update P
                      (\<lambda>p. p\<lparr>pd_status := ''error'',
                             pd_error_message := Some ''Provisioning stopped; cleanup is in progress.'',
                             pd_updated_at := now\<rparr>) (db_pods db)\<rparr>)
          else if podCreateCleanupStatusSafe (pd_status p) then Inr (pd_status p, db)
          else Inl (Errorf ''cleanup-only pod_create refused'' [Sentinel ErrUnsafePodCreateCleanupState]))"

text \<open>
  \<open>BeginPodCreateCleanup\<close>. The ownership column is \<open>claimed_by = $2 AND status IN (..)\<close>: on a
  row without a claim it is NULL for an active status (which the scan into a \<open>bool\<close> refuses) and
  false otherwise.
\<close>

definition BeginPodCreateCleanup ::
  "go_error option \<Rightarrow> go_time \<Rightarrow> uuid \<Rightarrow> string \<Rightarrow> uuid \<Rightarrow> bool \<Rightarrow> database
     \<Rightarrow> (string \<times> bool) result \<times> database" where
  "BeginPodCreateCleanup flt now jobID workerID podID allowProvisioningTransition =
     run_tx flt (\<lambda>db.
       case find (\<lambda>j. j_ID j = jobID) (db_jobs db) of
         None \<Rightarrow> Inl (Errorf ''lock pod-create cleanup job'' [Sentinel pgx_ErrNoRows])
       | Some j \<Rightarrow>
           if j_ClaimedBy j = None \<and> activeStatus (j_Status j)
           then Inl (Errorf ''lock pod-create cleanup job'' [errorsNew ''cannot scan NULL into bool''])
           else if \<not> (j_ClaimedBy j = Some workerID \<and> activeStatus (j_Status j))
           then Inl (Errorf ''job cannot begin pod-create cleanup'' [Sentinel ErrJobLeaseLost])
           else
             (case cleanup_pod_status now podID allowProvisioningTransition db of
                Inl e \<Rightarrow> Inl e
              | Inr (status, db1) \<Rightarrow>
                  let M = (\<lambda>j. j_ID j = jobID \<and> j_Type j = ''pod_create'') in
                  if sql_count M (db_jobs db1) \<noteq> 1
                  then Inl (errorsNew ''pod_create job was not marked cleanup-only'')
                  else Inr ((status, status \<noteq> []),
                         db1\<lparr>db_jobs := sql_update M
                            (\<lambda>j. j\<lparr>j_Payload := pset ''cleanup_only'' (JBool True) (j_Payload j)\<rparr>)
                            (db_jobs db1)\<rparr>)))"

section \<open>Retrying and recovering\<close>

text \<open>
  \<open>RetryJob\<close>. Both \<open>EXISTS\<close> of the statement see the table as it was before the update in the
  common table expression.
\<close>

definition retry_payload :: "bool \<Rightarrow> json option \<Rightarrow> payload \<Rightarrow> payload" where
  "retry_payload cleanupOnly cleanupTarget p =
     (case (cleanupOnly, cleanupTarget) of
        (True, Some t) \<Rightarrow>
          pset ''cleanup_target'' t (pset ''cleanup_only'' (JBool True) (pdel ''cleanup_completed'' p))
      | (True, None) \<Rightarrow> pset ''cleanup_only'' (JBool True) p
      | (False, _) \<Rightarrow> pdel ''cleanup_completed'' (pdel ''cleanup_only'' p))"

definition RetryJob ::
  "go_error option \<Rightarrow> uuid \<Rightarrow> go_time \<Rightarrow> bool \<Rightarrow> json option \<Rightarrow> string \<Rightarrow> database
     \<Rightarrow> unit result \<times> database" where
  "RetryJob flt i nextAt cleanupOnly cleanupTarget workerID =
     run_tx flt (\<lambda>db.
       let updated = (\<exists>j \<in> set (db_jobs db). ownedBy i workerID j);
           alreadyScheduled =
             (\<exists>j \<in> set (db_jobs db). j_ID j = i \<and> j_Status j = JobStatusPending \<and> cleanupOnly \<and>
                ptrue (j_Payload j) ''cleanup_only'' \<and>
                (cleanupTarget = None \<or> pget (j_Payload j) ''cleanup_target'' = cleanupTarget));
           db' = db\<lparr>db_jobs := sql_update (ownedBy i workerID)
                   (\<lambda>j. j\<lparr>j_Status := JobStatusPending, j_RetryCount := j_RetryCount j + 1,
                          j_ClaimedBy := None, j_ClaimedAt := None, j_StartedAt := None,
                          j_CompletedAt := None, j_NextAttemptAt := Some nextAt,
                          j_Payload := retry_payload cleanupOnly cleanupTarget (j_Payload j)\<rparr>)
                   (db_jobs db)\<rparr>
       in if \<not> updated \<and> \<not> alreadyScheduled
          then Inl (Errorf ''job is not owned for retry scheduling'' [Sentinel ErrJobLeaseLost])
          else Inr ((), db'))"

definition CountRetryPendingJobs :: "go_time \<Rightarrow> database \<Rightarrow> nat" where
  "CountRetryPendingJobs now db =
     sql_count (\<lambda>j. j_Status j = JobStatusPending \<and>
                    (case j_NextAttemptAt j of None \<Rightarrow> False | Some t \<Rightarrow> now < t)) (db_jobs db)"

definition staleClaim :: "go_time \<Rightarrow> go_time \<Rightarrow> job \<Rightarrow> bool" where
  "staleClaim now leaseDuration j \<longleftrightarrow>
     activeStatus (j_Status j) \<and> j_CompletedAt j = None \<and>
     (case j_ClaimedAt j of None \<Rightarrow> True | Some t \<Rightarrow> t < now - leaseDuration)"

definition RecoverStaleJobs ::
  "go_error option \<Rightarrow> go_time \<Rightarrow> go_time \<Rightarrow> database \<Rightarrow> nat result \<times> database" where
  "RecoverStaleJobs flt now leaseDuration =
     run_tx flt (\<lambda>db.
       Inr (sql_count (staleClaim now leaseDuration) (db_jobs db),
            db\<lparr>db_jobs := sql_update (staleClaim now leaseDuration)
                 (\<lambda>j. j\<lparr>j_Status := JobStatusPending, j_ClaimedBy := None, j_ClaimedAt := None,
                        j_StartedAt := None\<rparr>) (db_jobs db)\<rparr>))"

definition GetJob :: "uuid \<Rightarrow> database \<Rightarrow> job option" where
  "GetJob i db = find (\<lambda>j. j_ID j = i) (db_jobs db)"

section \<open>Compensation records\<close>

text \<open>
  \<open>jsonb_array_length(COALESCE(v, '[]'))\<close>; on a value that is no array the statement fails, and
  the guard below, which asks for 0, fails too.
\<close>

definition json_array_length :: "json option \<Rightarrow> nat" where
  "json_array_length v = (case v of None \<Rightarrow> 0 | Some (JArr xs) \<Rightarrow> length xs | Some _ \<Rightarrow> 1)"

definition MarkJobCompensationCompleted ::
  "go_error option \<Rightarrow> uuid \<Rightarrow> string \<Rightarrow> database \<Rightarrow> unit result \<times> database" where
  "MarkJobCompensationCompleted flt jobID workerID =
     run_tx flt (exec_owned
       (\<lambda>j. ownedBy jobID workerID j \<and> ptrue (j_Payload j) ''cleanup_only'' \<and>
            pget (j_Payload j) ''cleanup_target'' = None \<and>
            json_array_length (pget (j_Payload j) ''cleanup_handoff_targets'') = 0)
       (\<lambda>j. j\<lparr>j_Payload := pset ''cleanup_completed'' (JBool True) (j_Payload j)\<rparr>)
       ''job could not record completed compensation'')"

text \<open>Appending a receipt unless an equal one is already there.\<close>

definition appendRollbackReceipt :: "rb_step list \<Rightarrow> rb_step \<Rightarrow> rb_step list \<times> bool" where
  "appendRollbackReceipt steps step =
     (if step \<in> set steps then (steps, True) else (steps @ [step], False))"

definition AdoptJobRollbackStep ::
  "go_error option \<Rightarrow> go_time \<Rightarrow> uuid \<Rightarrow> rb_step \<Rightarrow> database \<Rightarrow> unit result \<times> database" where
  "AdoptJobRollbackStep flt now jobID step =
     run_tx flt (\<lambda>db.
       case find (\<lambda>j. j_ID j = jobID \<and> j_Type j = ''pod_create'' \<and>
                      j_Status j \<in> {JobStatusPending, JobStatusClaimed, JobStatusInProgress,
                                    JobStatusRollback, JobStatusFailed}) (db_jobs db) of
         None \<Rightarrow> Inl (Errorf ''lock rollback receipt handoff'' [Sentinel pgx_ErrNoRows])
       | Some j \<Rightarrow>
           let updatedSteps = fst (appendRollbackReceipt (j_RollbackSteps j) step);
               updatedPayload = pdel ''cleanup_completed'' (pset ''cleanup_only'' (JBool True) (j_Payload j))
           in Inr ((), db\<lparr>db_jobs := sql_update (\<lambda>r. j_ID r = jobID)
                (\<lambda>r. r\<lparr>j_RollbackSteps := updatedSteps, j_Payload := updatedPayload,
                       j_Status := JobStatusPending, j_ClaimedBy := None, j_ClaimedAt := None,
                       j_StartedAt := None, j_CompletedAt := None, j_Result := None,
                       j_NextAttemptAt := Some now\<rparr>) (db_jobs db)\<rparr>))"

section \<open>What an operation does to a row\<close>

lemma run_tx_rows:
  assumes "r' \<in> set (T (snd (run_tx flt body db)))"
    and "\<And>x db'. body db = Inr (x, db') \<Longrightarrow> r' \<in> set (T db') \<Longrightarrow> Q"
    and "r' \<in> set (T db) \<Longrightarrow> Q"
  shows Q
  using assms run_tx_snd_cases [of flt body db] by metis

lemma exec_owned_InrD:
  "exec_owned P f msg db = Inr (x, db') \<Longrightarrow>
     sql_count P (db_jobs db) = 1 \<and> db' = db\<lparr>db_jobs := sql_update P f (db_jobs db)\<rparr>"
  by (simp add: exec_owned_def split: if_splits)

lemma exec_owned_no_row:
  "\<forall>r \<in> set (db_jobs db). \<not> P r \<Longrightarrow>
     exec_owned P f msg db = Inl (Errorf msg [Sentinel ErrJobLeaseLost])"
  by (simp add: exec_owned_def sql_count_def)

text \<open>The operations of the queue, with their arguments as labels.\<close>

datatype job_op =
    OpCreateJob "go_error option" uuid go_time string payload
  | OpRevalidate "uuid \<Rightarrow> string" "go_error option" uuid go_time uuid payload
  | OpClaim "go_error option" go_time "uuid \<Rightarrow> bool" string bool
  | OpStatus "go_error option" go_time uuid string job_status "json option"
  | OpRetryProvision "go_error option" uuid go_time "json option" string
  | OpFailProvision "string \<Rightarrow> uuid option" "go_error option" go_time uuid string "json option"
  | OpRenew "go_error option" go_time uuid string
  | OpSteps "go_error option" go_time uuid string "rb_step list"
  | OpBeginCleanup "go_error option" go_time uuid string uuid bool
  | OpRetry "go_error option" uuid go_time bool "json option" string
  | OpRecover "go_error option" go_time go_time
  | OpCompensated "go_error option" uuid string
  | OpAdopt "go_error option" go_time uuid rb_step

fun job_step :: "job_op \<Rightarrow> database \<Rightarrow> database" where
  "job_step (OpCreateJob flt i now ty p) db = snd (CreateJob flt i now ty p db)"
| "job_step (OpRevalidate ustr flt i now t p) db =
     snd (CreateTemplateRevalidateJobIfAbsent ustr flt i now t p db)"
| "job_step (OpClaim flt now locked w en) db = snd (ClaimJob flt now locked w en db)"
| "job_step (OpStatus flt now i w st r) db = snd (UpdateJobStatus flt now i w st r db)"
| "job_step (OpRetryProvision flt i nextAt r w) db = snd (RetryTemplateProvisionJob flt i nextAt r w db)"
| "job_step (OpFailProvision up flt now i w r) db = snd (FailTemplateProvisionJob up flt now i w r db)"
| "job_step (OpRenew flt now i w) db = snd (RenewJobLease flt now i w db)"
| "job_step (OpSteps flt now i w ss) db = snd (UpdateJobRollbackSteps flt now i w ss db)"
| "job_step (OpBeginCleanup flt now i w pod b) db = snd (BeginPodCreateCleanup flt now i w pod b db)"
| "job_step (OpRetry flt i nextAt c t w) db = snd (RetryJob flt i nextAt c t w db)"
| "job_step (OpRecover flt now d) db = snd (RecoverStaleJobs flt now d db)"
| "job_step (OpCompensated flt i w) db = snd (MarkJobCompensationCompleted flt i w db)"
| "job_step (OpAdopt flt now i s) db = snd (AdoptJobRollbackStep flt now i s db)"

text \<open>The claim token an operation writes under.\<close>

fun op_token :: "job_op \<Rightarrow> string option" where
  "op_token (OpStatus _ _ _ w _ _) = Some w"
| "op_token (OpRetryProvision _ _ _ _ w) = Some w"
| "op_token (OpFailProvision _ _ _ _ w _) = Some w"
| "op_token (OpRenew _ _ _ w) = Some w"
| "op_token (OpSteps _ _ _ w _) = Some w"
| "op_token (OpBeginCleanup _ _ _ w _ _) = Some w"
| "op_token (OpRetry _ _ _ _ _ w) = Some w"
| "op_token (OpCompensated _ _ w) = Some w"
| "op_token _ = None"

text \<open>
  The abstract life of a job row. A row is fresh, claimed, worked on under the claim, put
  back, or adopted by the receipt handoff; its identity never changes.
\<close>

definition same_job :: "job \<Rightarrow> job \<Rightarrow> bool" where
  "same_job r r' \<longleftrightarrow> j_ID r' = j_ID r \<and> j_Type r' = j_Type r \<and> j_CreatedAt r' = j_CreatedAt r \<and>
     j_MaxRetries r' = j_MaxRetries r"

inductive job_next :: "job \<Rightarrow> job \<Rightarrow> bool" where
  claim: "same_job r r' \<Longrightarrow> j_Status r = JobStatusPending \<Longrightarrow> j_Status r' = JobStatusClaimed \<Longrightarrow>
     j_ClaimedBy r' \<noteq> None \<Longrightarrow> j_ClaimedAt r' \<noteq> None \<Longrightarrow> j_RetryCount r' = j_RetryCount r \<Longrightarrow>
     j_CompletedAt r' = j_CompletedAt r \<Longrightarrow> job_next r r'"
| work: "same_job r r' \<Longrightarrow> activeStatus (j_Status r) \<Longrightarrow>
     j_Status r' = j_Status r \<or> j_Status r' = JobStatusInProgress \<Longrightarrow>
     j_ClaimedBy r' = j_ClaimedBy r \<Longrightarrow> j_ClaimedAt r' = j_ClaimedAt r \<or> j_ClaimedAt r' \<noteq> None \<Longrightarrow>
     j_RetryCount r' = j_RetryCount r \<Longrightarrow> j_CompletedAt r' = j_CompletedAt r \<Longrightarrow> job_next r r'"
| finish: "same_job r r' \<Longrightarrow> j_Status r = JobStatusInProgress \<Longrightarrow> terminalStatus (j_Status r') \<Longrightarrow>
     j_ClaimedBy r' = j_ClaimedBy r \<Longrightarrow> j_RetryCount r' = j_RetryCount r \<Longrightarrow>
     j_CompletedAt r' \<noteq> None \<Longrightarrow> job_next r r'"
| requeue: "same_job r r' \<Longrightarrow> activeStatus (j_Status r) \<Longrightarrow> j_Status r' = JobStatusPending \<Longrightarrow>
     j_ClaimedBy r' = None \<Longrightarrow> j_ClaimedAt r' = None \<Longrightarrow>
     j_CompletedAt r' = j_CompletedAt r \<or> j_CompletedAt r' = None \<Longrightarrow>
     j_RetryCount r \<le> j_RetryCount r' \<Longrightarrow> job_next r r'"
| adopt: "same_job r r' \<Longrightarrow> j_Type r = ''pod_create'' \<Longrightarrow> j_Status r \<noteq> JobStatusCompleted \<Longrightarrow>
     j_Status r' = JobStatusPending \<Longrightarrow> j_ClaimedBy r' = None \<Longrightarrow> j_ClaimedAt r' = None \<Longrightarrow>
     j_CompletedAt r' = None \<Longrightarrow> j_RetryCount r' = j_RetryCount r \<Longrightarrow>
     ptrue (j_Payload r') ''cleanup_only'' \<Longrightarrow> set (j_RollbackSteps r) \<subseteq> set (j_RollbackSteps r') \<Longrightarrow>
     job_next r r'"

inductive_simps job_next_from: "job_next r r'"

lemmas status_defs = activeStatus_def terminalStatus_def same_job_def

text \<open>What the table looks like after one operation, row by row.\<close>

definition job_row_step :: "job list \<Rightarrow> job \<Rightarrow> bool" where
  "job_row_step js r' \<longleftrightarrow> r' \<in> set js \<or> (\<exists>r \<in> set js. job_next r r') \<or>
     (\<exists>i now ty p. i \<notin> j_ID ` set js \<and> r' = new_job i now ty p)"

lemma job_row_step_keep: "r' \<in> set js \<Longrightarrow> job_row_step js r'"
  by (simp add: job_row_step_def)

lemma job_row_step_update:
  assumes "r' \<in> set (sql_update P f js)"
    and "\<And>r. r \<in> set js \<Longrightarrow> P r \<Longrightarrow> job_next r (f r)"
  shows "job_row_step js r'"
proof -
  from assms(1) obtain r where "r \<in> set js" "r' = (if P r then f r else r)"
    by (auto simp: sql_update_in)
  with assms(2) show ?thesis
    by (cases "P r") (auto simp: job_row_step_def)
qed

lemma job_row_step_exec:
  assumes "r' \<in> set (db_jobs (snd (run_tx flt (exec_owned P f msg) db)))"
    and "\<And>r. P r \<Longrightarrow> job_next r (f r)"
  shows "job_row_step (db_jobs db) r'"
  using assms(1)
  by (rule run_tx_rows)
     (auto dest!: exec_owned_InrD intro: job_row_step_update job_row_step_keep assms(2))

lemma job_row_step_create:
  "createJob i now ty p db = Inr (j, db') \<Longrightarrow> r' \<in> set (db_jobs db') \<Longrightarrow> job_row_step (db_jobs db) r'"
  unfolding createJob_def Let_def job_row_step_def by (fastforce split: if_splits)

lemma claim_head:
  "sort_key k (filter P js) = j # rest \<Longrightarrow> j \<in> set js \<and> P j"
  by (metis filter_is_subset list.set_intros(1) mem_Collect_eq set_filter set_sort subset_code(1))


section \<open>The queue invariant\<close>

definition job_wf :: "job \<Rightarrow> bool" where
  "job_wf j \<longleftrightarrow> 0 \<le> j_RetryCount j \<and>
     (case j_Status j of
        JobStatusPending \<Rightarrow> j_ClaimedBy j = None \<and> j_ClaimedAt j = None \<and> j_CompletedAt j = None
      | JobStatusClaimed \<Rightarrow> j_ClaimedBy j \<noteq> None \<and> j_ClaimedAt j \<noteq> None \<and> j_CompletedAt j = None
      | JobStatusInProgress \<Rightarrow> j_ClaimedBy j \<noteq> None \<and> j_ClaimedAt j \<noteq> None \<and> j_CompletedAt j = None
      | JobStatusCompleted \<Rightarrow> j_ClaimedBy j \<noteq> None \<and> j_CompletedAt j \<noteq> None
      | JobStatusFailed \<Rightarrow> j_ClaimedBy j \<noteq> None \<and> j_CompletedAt j \<noteq> None
      | JobStatusRollback \<Rightarrow> j_ClaimedBy j \<noteq> None \<and> j_CompletedAt j \<noteq> None
      | JobStatusOther _ \<Rightarrow> False)"

definition queue_wf :: "database \<Rightarrow> bool" where
  "queue_wf db \<longleftrightarrow> distinct (map j_ID (db_jobs db)) \<and> (\<forall>j \<in> set (db_jobs db). job_wf j)"

lemma job_next_wf: "job_next r r' \<Longrightarrow> job_wf r \<Longrightarrow> job_wf r'"
proof (induction rule: job_next.induct)
  case (work r r')
  then show ?case by (auto simp: job_wf_def status_defs)
next
  case (finish r r')
  then show ?case by (auto simp: job_wf_def status_defs)
next
  case (requeue r r')
  then show ?case by (auto simp: job_wf_def status_defs)
qed (simp_all add: job_wf_def status_defs)

lemma new_job_wf: "job_wf (new_job i now ty p)"
  by (simp add: job_wf_def new_job_def)

lemma job_row_step_wf: "job_row_step js r' \<Longrightarrow> \<forall>j \<in> set js. job_wf j \<Longrightarrow> job_wf r'"
  unfolding job_row_step_def using job_next_wf new_job_wf by blast

lemma owned_unique:
  assumes "distinct (map j_ID js)" "find (\<lambda>j. j_ID j = i \<and> P j) js = Some j" "r \<in> set js" "j_ID r = i"
  shows "r = j"
  using assms find_SomeD [OF assms(2)] distinct_key_eq [OF assms(1)] by blast

text \<open>One lemma per operation: the rows it leaves behind.\<close>

lemma rows_CreateJob:
  "r' \<in> set (db_jobs (snd (CreateJob flt i now ty p db))) \<Longrightarrow> job_row_step (db_jobs db) r'"
  unfolding CreateJob_def
  by (cases "isSerializedPodJobType ty", simp add: job_row_step_keep, simp only: if_False)
     (erule run_tx_rows, erule (1) job_row_step_create, erule job_row_step_keep)

lemma rows_Revalidate:
  "r' \<in> set (db_jobs (snd (CreateTemplateRevalidateJobIfAbsent ustr flt i now t p db))) \<Longrightarrow>
     job_row_step (db_jobs db) r'"
  unfolding CreateTemplateRevalidateJobIfAbsent_def
  by (erule run_tx_rows)
     (auto split: if_splits sum.splits intro: job_row_step_create job_row_step_keep)

lemma rows_ClaimJob:
  assumes "queue_wf db" "r' \<in> set (db_jobs (snd (ClaimJob flt now locked w en db)))"
  shows "job_row_step (db_jobs db) r'"
  using assms(2) unfolding ClaimJob_def
proof (rule run_tx_rows)
  fix x db'
  assume body: "(case sort_key j_CreatedAt (filter (claimable now locked en) (db_jobs db)) of
         [] \<Rightarrow> Inr (None, db)
       | j # _ \<Rightarrow>
           let f = (\<lambda>r. r\<lparr>j_Status := JobStatusClaimed, j_ClaimedBy := Some w, j_ClaimedAt := Some now\<rparr>)
           in Inr (Some (f j), db\<lparr>db_jobs := sql_update (\<lambda>r. j_ID r = j_ID j) f (db_jobs db)\<rparr>))
       = Inr (x, db')" and r': "r' \<in> set (db_jobs db')"
  show "job_row_step (db_jobs db) r'"
  proof (cases "sort_key j_CreatedAt (filter (claimable now locked en) (db_jobs db))")
    case Nil
    with body r' show ?thesis by (simp add: job_row_step_keep)
  next
    case (Cons j rest)
    from claim_head [OF Cons] have j: "j \<in> set (db_jobs db)" "claimable now locked en j" by auto
    have "job_next r (r\<lparr>j_Status := JobStatusClaimed, j_ClaimedBy := Some w, j_ClaimedAt := Some now\<rparr>)"
      if "r \<in> set (db_jobs db)" "j_ID r = j_ID j" for r
    proof -
      have "r = j" using assms(1) that j(1) distinct_key_eq by (auto simp: queue_wf_def)
      with j(2) show ?thesis by (auto simp: claimable_def status_defs intro!: job_next.claim)
    qed
    with body r' Cons show ?thesis
      by (auto simp: Let_def intro: job_row_step_update)
  qed
qed (rule job_row_step_keep)

lemma rows_UpdateJobStatus:
  "r' \<in> set (db_jobs (snd (UpdateJobStatus flt now i w st res db))) \<Longrightarrow> job_row_step (db_jobs db) r'"
  unfolding UpdateJobStatus_def
  by (erule job_row_step_exec, elim conjE disjE)
     (auto simp: status_defs intro: job_next.work job_next.finish)

lemma rows_RetryTemplateProvisionJob:
  "r' \<in> set (db_jobs (snd (RetryTemplateProvisionJob flt i nextAt res w db))) \<Longrightarrow> job_row_step (db_jobs db) r'"
  unfolding RetryTemplateProvisionJob_def
  by (erule job_row_step_exec) (auto simp: status_defs intro!: job_next.requeue)

lemma rows_FailTemplateProvisionJob:
  "r' \<in> set (db_jobs (snd (FailTemplateProvisionJob up flt now i w res db))) \<Longrightarrow> job_row_step (db_jobs db) r'"
  unfolding FailTemplateProvisionJob_def
  by (erule run_tx_rows)
     (auto simp: Let_def status_defs split: option.splits sum.splits if_splits
       dest!: exec_owned_InrD elim!: job_row_step_update intro!: job_next.finish intro: job_row_step_keep)

lemma rows_RenewJobLease:
  "r' \<in> set (db_jobs (snd (RenewJobLease flt now i w db))) \<Longrightarrow> job_row_step (db_jobs db) r'"
  unfolding RenewJobLease_def
  by (erule run_tx_rows)
     (auto simp: ownedBy_def status_defs elim!: job_row_step_update intro!: job_next.work
       intro: job_row_step_keep)

lemma rows_UpdateJobRollbackSteps:
  "r' \<in> set (db_jobs (snd (UpdateJobRollbackSteps flt now i w ss db))) \<Longrightarrow> job_row_step (db_jobs db) r'"
  unfolding UpdateJobRollbackSteps_def
  by (erule job_row_step_exec) (auto simp: ownedBy_def status_defs intro!: job_next.work)

lemma rows_RetryJob:
  "r' \<in> set (db_jobs (snd (RetryJob flt i nextAt c t w db))) \<Longrightarrow> job_row_step (db_jobs db) r'"
  unfolding RetryJob_def
  by (erule run_tx_rows)
     (auto simp: Let_def ownedBy_def status_defs split: if_splits elim!: job_row_step_update
       intro!: job_next.requeue intro: job_row_step_keep)

lemma rows_RecoverStaleJobs:
  "r' \<in> set (db_jobs (snd (RecoverStaleJobs flt now d db))) \<Longrightarrow> job_row_step (db_jobs db) r'"
  unfolding RecoverStaleJobs_def
  by (erule run_tx_rows)
     (auto simp: staleClaim_def status_defs elim!: job_row_step_update
       intro!: job_next.requeue intro: job_row_step_keep)

lemma rows_MarkJobCompensationCompleted:
  "r' \<in> set (db_jobs (snd (MarkJobCompensationCompleted flt i w db))) \<Longrightarrow> job_row_step (db_jobs db) r'"
  unfolding MarkJobCompensationCompleted_def
  by (erule job_row_step_exec) (auto simp: ownedBy_def status_defs intro!: job_next.work)


lemma cleanup_pod_status_jobs:
  "cleanup_pod_status now podID b db = Inr (st, db1) \<Longrightarrow> db_jobs db1 = db_jobs db"
  by (auto simp: cleanup_pod_status_def Let_def split: option.splits if_splits)

lemma BeginPodCreateCleanup_bodyD:
  assumes "BeginPodCreateCleanup flt now jobID w podID b db = (Inr (st, ex), db')"
  obtains j db1 where "find (\<lambda>j. j_ID j = jobID) (db_jobs db) = Some j" "ownedBy jobID w j"
    "cleanup_pod_status now podID b db = Inr (st, db1)"
    "db' = db1\<lparr>db_jobs := sql_update (\<lambda>j. j_ID j = jobID \<and> j_Type j = ''pod_create'')
                 (\<lambda>j. j\<lparr>j_Payload := pset ''cleanup_only'' (JBool True) (j_Payload j)\<rparr>) (db_jobs db)\<rparr>"
    "ex = (st \<noteq> [])"
proof -
  note body = run_tx_InrD [OF assms [unfolded BeginPodCreateCleanup_def], THEN conjunct2]
  obtain j where j: "find (\<lambda>j. j_ID j = jobID) (db_jobs db) = Some j"
    using body by (auto split: option.splits)
  have own: "ownedBy jobID w j"
    using body j find_SomeD [OF j] by (auto simp: ownedBy_def split: if_splits)
  then have c: "j_ClaimedBy j = Some w" "activeStatus (j_Status j)"
    by (simp_all add: ownedBy_def)
  obtain st' db1 where s: "cleanup_pod_status now podID b db = Inr (st', db1)"
    using body j c by (cases "cleanup_pod_status now podID b db") auto
  from body show ?thesis
    using that [OF j own] s cleanup_pod_status_jobs [OF s]
    by (auto simp: j c Let_def split: if_splits)
qed

text \<open>An operation either fails and leaves the tables, or returns.\<close>

lemma atomic_rows:
  assumes "r' \<in> set (db_jobs (snd (op db)))"
    and "\<And>e db'. op db = (Inl e, db') \<Longrightarrow> db' = db"
  obtains "r' \<in> set (db_jobs db)" | x db' where "op db = (Inr x, db')" "r' \<in> set (db_jobs db')"
  using assms by (cases "op db"; cases "fst (op db)") auto

lemma rows_BeginPodCreateCleanup:
  assumes "queue_wf db" "r' \<in> set (db_jobs (snd (BeginPodCreateCleanup flt now i w pod b db)))"
  shows "job_row_step (db_jobs db) r'"
  using assms(2)
proof (rule atomic_rows)
  show "db' = db" if "BeginPodCreateCleanup flt now i w pod b db = (Inl e, db')" for e db'
    using that unfolding BeginPodCreateCleanup_def by (rule run_tx_atomic)
next
  fix x db'
  assume ok: "BeginPodCreateCleanup flt now i w pod b db = (Inr x, db')" and r': "r' \<in> set (db_jobs db')"
  obtain st ex where x: "x = (st, ex)" by force
  from ok obtain j db1 where j: "find (\<lambda>j. j_ID j = i) (db_jobs db) = Some j" "ownedBy i w j"
    and db': "db' = db1\<lparr>db_jobs := sql_update (\<lambda>j. j_ID j = i \<and> j_Type j = ''pod_create'')
               (\<lambda>j. j\<lparr>j_Payload := pset ''cleanup_only'' (JBool True) (j_Payload j)\<rparr>) (db_jobs db)\<rparr>"
    unfolding x by (rule BeginPodCreateCleanup_bodyD)
  have "r = j" if "r \<in> set (db_jobs db)" "j_ID r = i" for r
    using owned_unique [of "db_jobs db" i "\<lambda>_. True"] assms(1) j(1) that by (simp add: queue_wf_def)
  with r' j(2) db' show "job_row_step (db_jobs db) r'"
    by (auto simp: ownedBy_def same_job_def elim!: job_row_step_update intro!: job_next.work)
qed (rule job_row_step_keep)

definition adopted :: "go_time \<Rightarrow> rb_step \<Rightarrow> job \<Rightarrow> job \<Rightarrow> job" where
  "adopted now step j r =
     r\<lparr>j_RollbackSteps := fst (appendRollbackReceipt (j_RollbackSteps j) step),
       j_Payload := pdel ''cleanup_completed'' (pset ''cleanup_only'' (JBool True) (j_Payload j)),
       j_Status := JobStatusPending, j_ClaimedBy := None, j_ClaimedAt := None, j_StartedAt := None,
       j_CompletedAt := None, j_Result := None, j_NextAttemptAt := Some now\<rparr>"

lemma AdoptJobRollbackStep_ok:
  assumes "AdoptJobRollbackStep flt now i step db = (Inr u, db')"
  obtains j where "find (\<lambda>j. j_ID j = i \<and> j_Type j = ''pod_create'' \<and>
      j_Status j \<in> {JobStatusPending, JobStatusClaimed, JobStatusInProgress, JobStatusRollback,
                    JobStatusFailed}) (db_jobs db) = Some j"
    "db' = db\<lparr>db_jobs := sql_update (\<lambda>r. j_ID r = i) (adopted now step j) (db_jobs db)\<rparr>"
  using run_tx_InrD [OF assms [unfolded AdoptJobRollbackStep_def], THEN conjunct2] that
  by (auto simp: Let_def adopted_def [abs_def] split: option.splits)

lemma rows_AdoptJobRollbackStep:
  assumes "queue_wf db" "r' \<in> set (db_jobs (snd (AdoptJobRollbackStep flt now i step db)))"
  shows "job_row_step (db_jobs db) r'"
  using assms(2)
proof (rule atomic_rows)
  show "db' = db" if "AdoptJobRollbackStep flt now i step db = (Inl e, db')" for e db'
    using that unfolding AdoptJobRollbackStep_def by (rule run_tx_atomic)
next
  fix x db'
  assume ok: "AdoptJobRollbackStep flt now i step db = (Inr x, db')" and r': "r' \<in> set (db_jobs db')"
  from ok obtain j where j: "find (\<lambda>j. j_ID j = i \<and> j_Type j = ''pod_create'' \<and>
      j_Status j \<in> {JobStatusPending, JobStatusClaimed, JobStatusInProgress, JobStatusRollback,
                    JobStatusFailed}) (db_jobs db) = Some j"
    and db': "db' = db\<lparr>db_jobs := sql_update (\<lambda>r. j_ID r = i) (adopted now step j) (db_jobs db)\<rparr>"
    by (rule AdoptJobRollbackStep_ok)
  have "job_next r (adopted now step j r)" if "r \<in> set (db_jobs db)" "j_ID r = i" for r
  proof -
    have "r = j" using owned_unique [OF _ j] assms(1) that by (simp add: queue_wf_def)
    with find_SomeD [OF j] show ?thesis
      by (auto simp: adopted_def same_job_def appendRollbackReceipt_def intro!: job_next.adopt)
  qed
  with r' db' show "job_row_step (db_jobs db) r'"
    by (auto elim!: job_row_step_update)
qed (rule job_row_step_keep)

lemmas job_rows = rows_CreateJob rows_Revalidate rows_ClaimJob rows_UpdateJobStatus
  rows_RetryTemplateProvisionJob rows_FailTemplateProvisionJob rows_RenewJobLease
  rows_UpdateJobRollbackSteps rows_RetryJob rows_RecoverStaleJobs rows_MarkJobCompensationCompleted
  rows_BeginPodCreateCleanup rows_AdoptJobRollbackStep

lemma job_step_rows:
  "queue_wf db \<Longrightarrow> r' \<in> set (db_jobs (job_step op db)) \<Longrightarrow> job_row_step (db_jobs db) r'"
  by (cases op) (auto intro: job_rows)

section \<open>Which rows an operation may touch\<close>

text \<open>The rows in reach of an operation, as the documentation of the queries describes them.\<close>

fun op_touches :: "job_op \<Rightarrow> job \<Rightarrow> bool" where
  "op_touches (OpCreateJob _ _ _ _ _) r = False"
| "op_touches (OpRevalidate _ _ _ _ _ _) r = False"
| "op_touches (OpClaim _ _ _ _ _) r = (j_Status r = JobStatusPending)"
| "op_touches (OpRecover _ now d) r = staleClaim now d r"
| "op_touches (OpAdopt _ _ i _) r = (j_ID r = i \<and> j_Type r = ''pod_create'' \<and> j_Status r \<noteq> JobStatusCompleted)"
| "op_touches op r = (op_token op = j_ClaimedBy r \<and> activeStatus (j_Status r))"

lemma run_tx_keep:
  assumes "r \<in> set (db_jobs db)" and "\<And>x db'. body db = Inr (x, db') \<Longrightarrow> r \<in> set (db_jobs db')"
  shows "r \<in> set (db_jobs (snd (run_tx flt body db)))"
  using assms run_tx_snd_cases [of flt body db] by metis

lemma sql_update_keep: "r \<in> set rs \<Longrightarrow> \<not> P r \<Longrightarrow> r \<in> set (sql_update P f rs)"
  by (force simp: sql_update_in)

lemma exec_owned_keep:
  assumes "r \<in> set (db_jobs db)" "\<not> P r"
  shows "r \<in> set (db_jobs (snd (run_tx flt (exec_owned P f msg) db)))"
  using assms(1) by (rule run_tx_keep) (auto dest!: exec_owned_InrD simp: assms sql_update_keep)

text \<open>A row outside the claim of \<open>w\<close>.\<close>

abbreviation not_held :: "string \<Rightarrow> job \<Rightarrow> bool" where
  "not_held w r \<equiv> \<not> (j_ClaimedBy r = Some w \<and> activeStatus (j_Status r))"

lemma keep_UpdateJobStatus:
  "r \<in> set (db_jobs db) \<Longrightarrow> not_held w r \<Longrightarrow> r \<in> set (db_jobs (snd (UpdateJobStatus flt now i w st res db)))"
  unfolding UpdateJobStatus_def by (rule exec_owned_keep) (auto simp: activeStatus_def)

lemma keep_RetryTemplateProvisionJob:
  "r \<in> set (db_jobs db) \<Longrightarrow> not_held w r \<Longrightarrow>
     r \<in> set (db_jobs (snd (RetryTemplateProvisionJob flt i nextAt res w db)))"
  unfolding RetryTemplateProvisionJob_def by (rule exec_owned_keep) (auto simp: activeStatus_def)

lemma keep_UpdateJobRollbackSteps:
  "r \<in> set (db_jobs db) \<Longrightarrow> not_held w r \<Longrightarrow> r \<in> set (db_jobs (snd (UpdateJobRollbackSteps flt now i w ss db)))"
  unfolding UpdateJobRollbackSteps_def by (rule exec_owned_keep) (auto simp: ownedBy_def)

lemma keep_MarkJobCompensationCompleted:
  "r \<in> set (db_jobs db) \<Longrightarrow> not_held w r \<Longrightarrow> r \<in> set (db_jobs (snd (MarkJobCompensationCompleted flt i w db)))"
  unfolding MarkJobCompensationCompleted_def by (rule exec_owned_keep) (auto simp: ownedBy_def)

lemma keep_RenewJobLease:
  "r \<in> set (db_jobs db) \<Longrightarrow> not_held w r \<Longrightarrow> r \<in> set (db_jobs (snd (RenewJobLease flt now i w db)))"
  unfolding RenewJobLease_def by (rule run_tx_keep) (auto simp: ownedBy_def sql_update_keep)

lemma keep_RetryJob:
  "r \<in> set (db_jobs db) \<Longrightarrow> not_held w r \<Longrightarrow> r \<in> set (db_jobs (snd (RetryJob flt i nextAt c t w db)))"
  unfolding RetryJob_def
  by (rule run_tx_keep) (auto simp: ownedBy_def Let_def sql_update_keep split: if_splits)

lemma keep_FailTemplateProvisionJob:
  "r \<in> set (db_jobs db) \<Longrightarrow> not_held w r \<Longrightarrow>
     r \<in> set (db_jobs (snd (FailTemplateProvisionJob up flt now i w res db)))"
  unfolding FailTemplateProvisionJob_def
  by (rule run_tx_keep)
     (auto simp: Let_def activeStatus_def sql_update_keep dest!: exec_owned_InrD
       split: option.splits sum.splits if_splits)

lemmas keep_owned_ops = keep_UpdateJobStatus keep_RetryTemplateProvisionJob keep_UpdateJobRollbackSteps
  keep_MarkJobCompensationCompleted keep_RenewJobLease keep_RetryJob keep_FailTemplateProvisionJob

lemma keep_BeginPodCreateCleanup:
  assumes "queue_wf db" "r \<in> set (db_jobs db)" "\<not> (j_ClaimedBy r = Some w \<and> activeStatus (j_Status r))"
  shows "r \<in> set (db_jobs (snd (BeginPodCreateCleanup flt now i w pod b db)))"
proof (cases "BeginPodCreateCleanup flt now i w pod b db")
  case (Pair res db')
  show ?thesis
  proof (cases res)
    case (Inl e)
    with Pair have "db' = db" unfolding BeginPodCreateCleanup_def by (auto dest: run_tx_atomic)
    with Pair assms(2) show ?thesis by simp
  next
    case (Inr x)
    obtain st ex where "x = (st, ex)" by force
    with Pair Inr have "BeginPodCreateCleanup flt now i w pod b db = (Inr (st, ex), db')" by simp
    then obtain j db1 where j: "find (\<lambda>j. j_ID j = i) (db_jobs db) = Some j" "ownedBy i w j"
      and db': "db' = db1\<lparr>db_jobs := sql_update (\<lambda>j. j_ID j = i \<and> j_Type j = ''pod_create'')
               (\<lambda>j. j\<lparr>j_Payload := pset ''cleanup_only'' (JBool True) (j_Payload j)\<rparr>) (db_jobs db)\<rparr>"
      by (rule BeginPodCreateCleanup_bodyD)
    have "j_ID r \<noteq> i"
      using owned_unique [of "db_jobs db" i "\<lambda>_. True"] assms j by (auto simp: queue_wf_def ownedBy_def)
    with Pair db' assms(2) show ?thesis by (simp add: sql_update_keep)
  qed
qed

lemma keep_ClaimJob:
  assumes "queue_wf db" "r \<in> set (db_jobs db)" "j_Status r \<noteq> JobStatusPending"
  shows "r \<in> set (db_jobs (snd (ClaimJob flt now locked w en db)))"
  using assms(2) unfolding ClaimJob_def
proof (rule run_tx_keep)
  fix x db'
  assume body: "(case sort_key j_CreatedAt (filter (claimable now locked en) (db_jobs db)) of
         [] \<Rightarrow> Inr (None, db)
       | j # _ \<Rightarrow>
           let f = (\<lambda>r. r\<lparr>j_Status := JobStatusClaimed, j_ClaimedBy := Some w, j_ClaimedAt := Some now\<rparr>)
           in Inr (Some (f j), db\<lparr>db_jobs := sql_update (\<lambda>r. j_ID r = j_ID j) f (db_jobs db)\<rparr>))
       = Inr (x, db')"
  show "r \<in> set (db_jobs db')"
  proof (cases "sort_key j_CreatedAt (filter (claimable now locked en) (db_jobs db))")
    case Nil
    with body assms(2) show ?thesis by simp
  next
    case (Cons j rest)
    from claim_head [OF Cons] have "j \<in> set (db_jobs db)" "j_Status j = JobStatusPending"
      by (auto simp: claimable_def)
    then have "j_ID r \<noteq> j_ID j"
      using assms distinct_key_eq [of j_ID "db_jobs db" r j] by (auto simp: queue_wf_def)
    with body Cons assms(2) show ?thesis by (auto simp: Let_def sql_update_keep)
  qed
qed

lemma keep_RecoverStaleJobs:
  assumes "r \<in> set (db_jobs db)" "\<not> staleClaim now d r"
  shows "r \<in> set (db_jobs (snd (RecoverStaleJobs flt now d db)))"
  using assms unfolding RecoverStaleJobs_def by (intro run_tx_keep) (auto simp: sql_update_keep)

lemma keep_AdoptJobRollbackStep:
  assumes "queue_wf db" "r \<in> set (db_jobs db)"
    and "\<not> (j_ID r = i \<and> j_Type r = ''pod_create'' \<and> j_Status r \<noteq> JobStatusCompleted)"
  shows "r \<in> set (db_jobs (snd (AdoptJobRollbackStep flt now i step db)))"
proof (cases "AdoptJobRollbackStep flt now i step db")
  case (Pair res db')
  show ?thesis
  proof (cases res)
    case (Inl e)
    with Pair have "db' = db" unfolding AdoptJobRollbackStep_def by (auto dest: run_tx_atomic)
    with Pair assms(2) show ?thesis by simp
  next
    case (Inr x)
    with Pair have "AdoptJobRollbackStep flt now i step db = (Inr x, db')" by simp
    then obtain j where j: "find (\<lambda>j. j_ID j = i \<and> j_Type j = ''pod_create'' \<and>
        j_Status j \<in> {JobStatusPending, JobStatusClaimed, JobStatusInProgress, JobStatusRollback,
                      JobStatusFailed}) (db_jobs db) = Some j"
      and db': "db' = db\<lparr>db_jobs := sql_update (\<lambda>r. j_ID r = i) (adopted now step j) (db_jobs db)\<rparr>"
      by (rule AdoptJobRollbackStep_ok)
    have "j_ID r \<noteq> i"
    proof
      assume "j_ID r = i"
      then have "r = j" using owned_unique [OF _ j] assms by (simp add: queue_wf_def)
      with find_SomeD [OF j] assms(3) show False by auto
    qed
    with Pair db' assms(2) show ?thesis by (simp add: sql_update_keep)
  qed
qed

lemma keep_createJob:
  "createJob i now ty p db = Inr (j, db') \<Longrightarrow> r \<in> set (db_jobs db) \<Longrightarrow> r \<in> set (db_jobs db')"
  by (auto simp: createJob_def Let_def split: if_splits)

lemma keep_CreateJob:
  "r \<in> set (db_jobs db) \<Longrightarrow> r \<in> set (db_jobs (snd (CreateJob flt i now ty p db)))"
  unfolding CreateJob_def
  by (cases "isSerializedPodJobType ty")
     (simp_all add: run_tx_keep [OF _ keep_createJob])

lemma keep_Revalidate:
  "r \<in> set (db_jobs db) \<Longrightarrow>
     r \<in> set (db_jobs (snd (CreateTemplateRevalidateJobIfAbsent ustr flt i now t p db)))"
  unfolding CreateTemplateRevalidateJobIfAbsent_def
  by (rule run_tx_keep) (auto split: if_splits sum.splits intro: keep_createJob)

lemma untouched_row_kept:
  assumes "queue_wf db" "r \<in> set (db_jobs db)" "\<not> op_touches op r"
  shows "r \<in> set (db_jobs (job_step op db))"
  using assms
  by (cases op)
     (simp_all add: keep_CreateJob keep_Revalidate keep_ClaimJob keep_owned_ops
       keep_BeginPodCreateCleanup keep_RecoverStaleJobs keep_AdoptJobRollbackStep)

section \<open>Identities\<close>

lemma run_tx_map:
  assumes "\<And>x db'. body db = Inr (x, db') \<Longrightarrow> g db' = g db"
  shows "g (snd (run_tx flt body db)) = g db"
  using assms run_tx_snd_cases [of flt body db] by metis

lemma ids_update [simp]:
  "(\<And>r. j_ID (f r) = j_ID r) \<Longrightarrow> map j_ID (sql_update P f js) = map j_ID js"
  by (rule map_key_sql_update)

lemma ids_exec_owned:
  "(\<And>r. j_ID (f r) = j_ID r) \<Longrightarrow>
     map j_ID (db_jobs (snd (run_tx flt (exec_owned P f msg) db))) = map j_ID (db_jobs db)"
  by (rule run_tx_map) (auto dest!: exec_owned_InrD)

lemma ids_CreateJob:
  "distinct (map j_ID (db_jobs db)) \<Longrightarrow> distinct (map j_ID (db_jobs (snd (CreateJob flt i now ty p db))))"
  unfolding CreateJob_def
  by (auto simp: run_tx_def createJob_def Let_def new_job_def split: option.splits)

lemma ids_Revalidate:
  "distinct (map j_ID (db_jobs db)) \<Longrightarrow>
     distinct (map j_ID (db_jobs (snd (CreateTemplateRevalidateJobIfAbsent ustr flt i now t p db))))"
  unfolding CreateTemplateRevalidateJobIfAbsent_def
  by (auto simp: run_tx_def createJob_def Let_def new_job_def split: option.splits)

lemma ids_ClaimJob:
  "map j_ID (db_jobs (snd (ClaimJob flt now locked w en db))) = map j_ID (db_jobs db)"
  unfolding ClaimJob_def by (rule run_tx_map) (auto simp: Let_def split: list.splits)

lemma ids_FailTemplateProvisionJob:
  "map j_ID (db_jobs (snd (FailTemplateProvisionJob up flt now i w res db))) = map j_ID (db_jobs db)"
  unfolding FailTemplateProvisionJob_def
  by (rule run_tx_map)
     (auto simp: Let_def split: option.splits sum.splits if_splits dest!: exec_owned_InrD)

lemma ids_BeginPodCreateCleanup:
  "map j_ID (db_jobs (snd (BeginPodCreateCleanup flt now i w pod b db))) = map j_ID (db_jobs db)"
  unfolding BeginPodCreateCleanup_def
  by (rule run_tx_map)
     (auto simp: Let_def split: option.splits sum.splits if_splits prod.splits
       dest!: cleanup_pod_status_jobs)

lemma ids_simple:
  "map j_ID (db_jobs (snd (RenewJobLease flt now i w db))) = map j_ID (db_jobs db)"
  "map j_ID (db_jobs (snd (RetryJob flt i nextAt c t w db))) = map j_ID (db_jobs db)"
  "map j_ID (db_jobs (snd (RecoverStaleJobs flt now d db))) = map j_ID (db_jobs db)"
  "map j_ID (db_jobs (snd (AdoptJobRollbackStep flt now i step db))) = map j_ID (db_jobs db)"
  unfolding RenewJobLease_def RetryJob_def RecoverStaleJobs_def AdoptJobRollbackStep_def
  by (rule run_tx_map; auto simp: Let_def split: if_splits option.splits)+

lemma job_step_ids:
  "distinct (map j_ID (db_jobs db)) \<Longrightarrow> distinct (map j_ID (db_jobs (job_step op db)))"
  by (cases op)
     (simp_all add: ids_CreateJob ids_Revalidate ids_ClaimJob ids_FailTemplateProvisionJob
       ids_BeginPodCreateCleanup ids_simple ids_exec_owned UpdateJobStatus_def
       RetryTemplateProvisionJob_def UpdateJobRollbackSteps_def MarkJobCompensationCompleted_def
       del: distinct_map)

lemma job_step_wf: "queue_wf db \<Longrightarrow> queue_wf (job_step op db)"
  unfolding queue_wf_def
  by (metis job_row_step_wf job_step_ids job_step_rows queue_wf_def)

interpretation queue: state_machine
  "\<lambda>db. db_jobs db = []" "\<lambda>db op db'. db' = job_step op db" queue_wf
proof unfold_locales
  show "queue_wf db" if "db_jobs db = []" for db
    using that by (simp add: queue_wf_def)
next
  show "queue_wf db'" if "queue_wf db" "db' = job_step op db" for db op db'
    using that by (simp add: job_step_wf)
qed

section \<open>Properties of the queue\<close>

lemma op_token_touches:
  "op_token op = Some w \<Longrightarrow> op_touches op r \<Longrightarrow> j_ClaimedBy r = Some w \<and> activeStatus (j_Status r)"
  by (cases op) simp_all

lemma job_run_reach: "queue.reach db \<Longrightarrow> queue.reach (fold job_step ops db)"
  by (induction ops arbitrary: db) (auto intro: queue.reach_step)

lemma job_run_wf: "queue_wf db \<Longrightarrow> queue_wf (fold job_step ops db)"
  by (induction ops arbitrary: db) (auto simp: job_step_wf)




definition done_job :: job where
  "done_job = (new_job 7 0 ''image_import'' [])
     \<lparr>j_Status := JobStatusCompleted, j_ClaimedBy := Some ''w'', j_CompletedAt := Some 5\<rparr>"


lemma claim_head_oldest:
  assumes "sort_key k (filter P js) = j # rest" "r \<in> set js" "P r"
  shows "k j \<le> k r"
proof -
  have "sorted (map k (j # rest))" using sorted_sort_key [of k "filter P js"] assms(1) by simp
  moreover have "r \<in> set (j # rest)" using assms by (metis (mono_tags, lifting) mem_Collect_eq set_filter set_sort)
  ultimately show ?thesis by auto
qed

lemma find_update_other:
  assumes "i \<noteq> i'" "\<And>r. j_ID (f r) = j_ID r"
  shows "find (\<lambda>j. j_ID j = i) (sql_update (\<lambda>r. j_ID r = i') f js) = find (\<lambda>j. j_ID j = i) js"
  using assms by (induction js) auto

lemma find_update_same:
  assumes "distinct (map j_ID js)" "r \<in> set js" "j_ID (f r) = j_ID r"
  shows "find (\<lambda>j. j_ID j = j_ID r) (sql_update (\<lambda>x. j_ID x = j_ID r) f js) = Some (f r)"
  using assms by (induction js) (auto simp: image_iff)

text \<open>
  C20. A claim takes the oldest job that is due, unlocked and admitted to this worker, hands it
  out under the worker's token and changes no other job; it comes back empty exactly when there is
  no such job; with provisioning switched off, a provisioning job is only ever handed out for cleanup.
\<close>

theorem ClaimJob_spec:
  assumes "queue_wf db"
  shows "case ClaimJob None now locked w enabled db of
           (Inl e, _) \<Rightarrow> False
         | (Inr None, db') \<Rightarrow> db' = db \<and> (\<forall>r \<in> set (db_jobs db). \<not> claimable now locked enabled r)
         | (Inr (Some j), db') \<Rightarrow>
             (\<exists>r \<in> set (db_jobs db). claimable now locked enabled r \<and>
                (\<forall>r' \<in> set (db_jobs db). claimable now locked enabled r' \<longrightarrow> j_CreatedAt r \<le> j_CreatedAt r') \<and>
                j = r\<lparr>j_Status := JobStatusClaimed, j_ClaimedBy := Some w, j_ClaimedAt := Some now\<rparr>) \<and>
             (enabled \<or> j_Type j \<notin> set provisioningClaimTypes \<or> ptrue (j_Payload j) ''cleanup_only'') \<and>
             (\<forall>t. j_NextAttemptAt j = Some t \<longrightarrow> t \<le> now) \<and> \<not> locked (j_ID j) \<and>
             GetJob (j_ID j) db' = Some j \<and>
             (\<forall>i. i \<noteq> j_ID j \<longrightarrow> GetJob i db' = GetJob i db)"
proof (cases "sort_key j_CreatedAt (filter (claimable now locked enabled) (db_jobs db))")
  case Nil
  then have "filter (claimable now locked enabled) (db_jobs db) = []"
    by (metis length_0_conv length_sort)
  with Nil show ?thesis by (simp add: ClaimJob_def run_tx_def filter_empty_conv)
next
  case (Cons r rest)
  note r = claim_head [OF Cons]
  let ?f = "\<lambda>r. r\<lparr>j_Status := JobStatusClaimed, j_ClaimedBy := Some w, j_ClaimedAt := Some now\<rparr>"
  let ?db' = "db\<lparr>db_jobs := sql_update (\<lambda>x. j_ID x = j_ID r) ?f (db_jobs db)\<rparr>"
  have "ClaimJob None now locked w enabled db = (Inr (Some (?f r)), ?db')"
    by (simp add: ClaimJob_def run_tx_def Cons Let_def)
  moreover have "GetJob (j_ID r) ?db' = Some (?f r)"
    using find_update_same [of "db_jobs db" r ?f] r assms by (simp add: GetJob_def queue_wf_def)
  moreover have "GetJob i ?db' = GetJob i db" if "i \<noteq> j_ID r" for i
    using find_update_other [OF that, of ?f "db_jobs db"] by (simp add: GetJob_def)
  moreover have "j_CreatedAt r \<le> j_CreatedAt r'"
    if "r' \<in> set (db_jobs db)" "claimable now locked enabled r'" for r'
    using claim_head_oldest [OF Cons that] .
  moreover have "enabled \<or> j_Type r \<notin> set provisioningClaimTypes \<or> ptrue (j_Payload r) ''cleanup_only''"
    using r by (auto simp: claimable_def)
  moreover have "t \<le> now" if "j_NextAttemptAt r = Some t" for t
    using r that by (simp add: claimable_def)
  moreover have "\<not> locked (j_ID r)"
    using r by (simp add: claimable_def)
  ultimately show ?thesis using r by (auto intro!: bexI [of _ r])
qed

theorem ClaimJob_spec_witness:
  "fst (ClaimJob None 20 (\<lambda>_. False) ''w'' False
     (empty_db\<lparr>db_jobs := [new_job 7 10 ''vm_add'' []]\<rparr>)) = Inr None"
  using ClaimJob_spec 
    [where db = "empty_db\<lparr>db_jobs := [new_job 7 10 ''vm_add'' []]\<rparr>" and now = 20 and
      locked = "\<lambda>_. False" and w = "''w''" and enabled = False]
  by (auto simp: queue_wf_def job_wf_def new_job_def empty_db_def provisioningClaimTypes_def ptrue_def
      pget_def GetJob_def split: prod.splits sum.splits option.splits)

lemma recovered_rows:
  assumes "RecoverStaleJobs None now d db = (Inr n, db')" "r \<in> set (db_jobs db')" "staleClaim now d r0"
    "r0 \<in> set (db_jobs db)" "j_ID r = j_ID r0" "distinct (map j_ID (db_jobs db))"
  shows "j_Status r = JobStatusPending"
proof -
  let ?f = "\<lambda>j. j\<lparr>j_Status := JobStatusPending, j_ClaimedBy := None, j_ClaimedAt := None, j_StartedAt := None\<rparr>"
  from assms(1) have "db_jobs db' = sql_update (staleClaim now d) ?f (db_jobs db)"
    by (auto simp: RecoverStaleJobs_def run_tx_def)
  with assms(2) obtain q where q: "q \<in> set (db_jobs db)" "r = (if staleClaim now d q then ?f q else q)"
    by (auto simp: sql_update_in)
  with assms(5) have "j_ID q = j_ID r0" by (simp split: if_splits)
  with assms(4,6) q(1) have "q = r0" by (metis distinct_key_eq)
  with assms(3) q(2) show ?thesis by simp
qed

lemma not_active_refused:
  assumes "\<forall>r \<in> set (db_jobs db). j_ID r = i \<longrightarrow> \<not> activeStatus (j_Status r)"
  shows "fst (UpdateJobStatus None now i w st res db) = Inl (Errorf ''job is not owned for status'' [Sentinel ErrJobLeaseLost])"
    and "fst (UpdateJobRollbackSteps None now i w ss db) = Inl (Errorf ''job cannot update rollback steps'' [Sentinel ErrJobLeaseLost])"
    and "fst (RenewJobLease None now i w db) = Inr False"
proof -
  show "fst (UpdateJobStatus None now i w st res db) = Inl (Errorf ''job is not owned for status'' [Sentinel ErrJobLeaseLost])"
    unfolding UpdateJobStatus_def
    by (subst run_tx_err [OF exec_owned_no_row]) (use assms in \<open>auto simp: activeStatus_def\<close>)
  show "fst (UpdateJobRollbackSteps None now i w ss db) = Inl (Errorf ''job cannot update rollback steps'' [Sentinel ErrJobLeaseLost])"
    unfolding UpdateJobRollbackSteps_def
    by (subst run_tx_err [OF exec_owned_no_row]) (use assms in \<open>auto simp: ownedBy_def\<close>)
  have "sql_count (ownedBy i w) (db_jobs db) = 0"
    using assms by (auto simp: sql_count_0_iff ownedBy_def)
  then show "fst (RenewJobLease None now i w db) = Inr False"
    by (simp add: RenewJobLease_def run_tx_def)
qed


definition running_job :: job where
  "running_job = (new_job 7 0 ''image_import'' [])
     \<lparr>j_Status := JobStatusInProgress, j_ClaimedBy := Some ''w'', j_ClaimedAt := Some 5\<rparr>"

definition running_db :: database where
  "running_db = empty_db\<lparr>db_jobs := [running_job]\<rparr>"

lemmas running_defs = running_db_def running_job_def new_job_def empty_db_def

lemma running_db_wf: "queue_wf running_db"
  by (simp add: queue_wf_def job_wf_def running_defs)


lemma FailTemplateProvisionJob_ok:
  assumes "FailTemplateProvisionJob uparse flt now i w result db = (Inr b, db')"
  obtains j t where
    "find (\<lambda>j. j_ID j = i \<and> j_Type j = ''template_provision'' \<and> j_ClaimedBy j = Some w \<and>
               j_Status j = JobStatusInProgress) (db_jobs db) = Some j" b
    "payload_uuid uparse (j_Payload j) ''template_id'' = Inr t"
    "sql_count (\<lambda>r. tr_id r = t \<and> tr_template_state r = TemplateStateProvisioning) (db_templates db) = 1"
    "db_jobs db' = sql_update (\<lambda>j. j_ID j = i \<and> j_Type j = ''template_provision'' \<and>
         j_ClaimedBy j = Some w \<and> j_Status j = JobStatusInProgress)
       (\<lambda>j. j\<lparr>j_Status := JobStatusFailed, j_Result := result, j_CompletedAt := Some now, j_NextAttemptAt := None\<rparr>)
       (db_jobs db)"
    "db_templates db' = sql_update (\<lambda>r. tr_id r = t \<and> tr_template_state r = TemplateStateProvisioning)
       (\<lambda>t. t\<lparr>tr_template_state := TemplateStateError, tr_updated_at := now\<rparr>) (db_templates db)"
proof -
  let ?P = "\<lambda>j. j_ID j = i \<and> j_Type j = ''template_provision'' \<and> j_ClaimedBy j = Some w \<and> j_Status j = JobStatusInProgress"
  note body = run_tx_InrD [OF assms [unfolded FailTemplateProvisionJob_def Let_def], THEN conjunct2]
  from body obtain j where j: "find ?P (db_jobs db) = Some j"
    by (cases "find ?P (db_jobs db)") simp_all
  note body = body [unfolded j option.case]
  from body obtain t where t: "payload_uuid uparse (j_Payload j) ''template_id'' = Inr t"
    by (cases "payload_uuid uparse (j_Payload j) ''template_id''") simp_all
  note body = body [unfolded t sum.case]
  from body have n: "sql_count (\<lambda>r. tr_id r = t \<and> tr_template_state r = TemplateStateProvisioning) (db_templates db) = 1"
    by (rule_tac ccontr) (simp split: if_splits)
  let ?db1 = "db\<lparr>db_templates := sql_update (\<lambda>r. tr_id r = t \<and> tr_template_state r = TemplateStateProvisioning)
       (\<lambda>t. t\<lparr>tr_template_state := TemplateStateError, tr_updated_at := now\<rparr>) (db_templates db)\<rparr>"
  from body n obtain x where b: b and x: "exec_owned ?P
       (\<lambda>j. j\<lparr>j_Status := JobStatusFailed, j_Result := result, j_CompletedAt := Some now, j_NextAttemptAt := None\<rparr>)
       ''template_provision job lost ownership before terminal failure'' ?db1 = Inr (x, db')"
    by (simp split: if_splits sum.splits prod.splits)
  from exec_owned_InrD [OF x] show thesis by (intro that [OF j b t n]) simp_all
qed

text \<open>
  A terminal failure of a template provision is all or nothing: either the job is failed
  and the template its payload names goes from provisioning to error, both in one commit, or an
  error is returned and the database is as before.
\<close>

theorem FailTemplateProvisionJob_atomic:
  assumes "queue_wf db" "distinct (map tr_id (db_templates db))"
  shows "case FailTemplateProvisionJob uparse flt now i w result db of
           (Inl e, db') \<Rightarrow> db' = db
         | (Inr b, db') \<Rightarrow> b \<and>
             (\<exists>j t. GetJob i db = Some j \<and> ownedBy i w j \<and> j_Type j = ''template_provision'' \<and>
                GetJob i db' = Some (j\<lparr>j_Status := JobStatusFailed, j_Result := result,
                                       j_CompletedAt := Some now, j_NextAttemptAt := None\<rparr>) \<and>
                payload_uuid uparse (j_Payload j) ''template_id'' = Inr t \<and>
                (\<exists>r \<in> set (db_templates db). tr_id r = t \<and> tr_template_state r = TemplateStateProvisioning \<and>
                   r\<lparr>tr_template_state := TemplateStateError, tr_updated_at := now\<rparr> \<in> set (db_templates db')))"
proof (cases "FailTemplateProvisionJob uparse flt now i w result db")
  case (Pair res db')
  show ?thesis
  proof (cases res)
    case (Inl e)
    with Pair show ?thesis by (auto simp: FailTemplateProvisionJob_def dest: run_tx_atomic)
  next
    case (Inr b)
    let ?P = "\<lambda>j. j_ID j = i \<and> j_Type j = ''template_provision'' \<and> j_ClaimedBy j = Some w \<and> j_Status j = JobStatusInProgress"
    let ?f = "\<lambda>j. j\<lparr>j_Status := JobStatusFailed, j_Result := result, j_CompletedAt := Some now, j_NextAttemptAt := None\<rparr>"
    let ?g = "\<lambda>t. t\<lparr>tr_template_state := TemplateStateError, tr_updated_at := now\<rparr>"
    from Pair Inr have "FailTemplateProvisionJob uparse flt now i w result db = (Inr b, db')" by simp
    then obtain j t where j: "find ?P (db_jobs db) = Some j" and b
      and t: "payload_uuid uparse (j_Payload j) ''template_id'' = Inr t"
      and n: "sql_count (\<lambda>r. tr_id r = t \<and> tr_template_state r = TemplateStateProvisioning) (db_templates db) = 1"
      and db': "db_jobs db' = sql_update ?P ?f (db_jobs db)"
        "db_templates db' = sql_update (\<lambda>r. tr_id r = t \<and> tr_template_state r = TemplateStateProvisioning) ?g (db_templates db)"
      by (rule FailTemplateProvisionJob_ok)
    note jD = find_SomeD [OF j]
    have "?P x \<longleftrightarrow> j_ID x = j_ID j" if "x \<in> set (db_jobs db)" for x
      using jD assms(1) that by (metis distinct_key_eq queue_wf_def)
    then have upd: "sql_update ?P ?f (db_jobs db) = sql_update (\<lambda>x. j_ID x = j_ID j) ?f (db_jobs db)"
      unfolding sql_update_def by (intro map_cong) simp_all
    have "GetJob i db = Some j"
      using find_unique_key [of j_ID "db_jobs db" j] jD assms(1) by (simp add: GetJob_def queue_wf_def)
    moreover have "GetJob i db' = Some (?f j)"
      using find_update_same [of "db_jobs db" j ?f] jD assms(1) by (simp add: GetJob_def queue_wf_def db' upd)
    moreover from n obtain r where "r \<in> set (db_templates db)" "tr_id r = t" "tr_template_state r = TemplateStateProvisioning"
      using sql_count_oneD [OF n] by auto
    moreover from this have "?g r \<in> set (db_templates db')" by (force simp: db' sql_update_in)
    ultimately show ?thesis using Pair Inr \<open>b\<close> jD t by (auto simp: ownedBy_def activeStatus_def)
  qed
qed

text \<open>
  A job marked cleanup-only (other than a replica build) cannot be completed: whatever
  worker tries, the write is refused and the database is unchanged.
\<close>

theorem cleanup_only_never_completes:
  assumes "\<forall>j \<in> set (db_jobs db). j_ID j = i \<longrightarrow>
             ptrue (j_Payload j) ''cleanup_only'' \<and> j_Type j \<noteq> ''template_replica_build''"
  shows "UpdateJobStatus None now i w JobStatusCompleted result db =
           (Inl (Errorf ''job is not owned for status'' [Sentinel ErrJobLeaseLost]), db)"
  unfolding UpdateJobStatus_def
  by (rule run_tx_err, rule exec_owned_no_row) (use assms in auto)

definition provision_db :: database where
  "provision_db = empty_db\<lparr>
     db_jobs := [(new_job 7 0 ''template_provision'' [(''template_id'', JStr ''t'')])
        \<lparr>j_Status := JobStatusInProgress, j_ClaimedBy := Some ''w'', j_ClaimedAt := Some 5\<rparr>],
     db_templates := [example_row\<lparr>tr_id := 3, tr_template_state := TemplateStateProvisioning\<rparr>]\<rparr>"

theorem FailTemplateProvisionJob_atomic_witness:
  "\<exists>db'. FailTemplateProvisionJob (\<lambda>_. Some 3) None 50 7 ''w'' None provision_db = (Inr True, db') \<and>
     (\<exists>r \<in> set (db_templates db'). tr_template_state r = TemplateStateError)"
proof -
  let ?res = "FailTemplateProvisionJob (\<lambda>_. Some 3) None 50 7 ''w'' None provision_db"
  have "queue_wf provision_db" "distinct (map tr_id (db_templates provision_db))"
    by (simp_all add: provision_db_def queue_wf_def job_wf_def new_job_def empty_db_def)
  note spec = FailTemplateProvisionJob_atomic [OF this, where uparse = "\<lambda>_. Some 3" and flt = None and
      now = 50 and i = 7 and w = "''w''" and result = None]
  have "fst ?res = Inr True"
    by (simp add: FailTemplateProvisionJob_def run_tx_def provision_db_def new_job_def empty_db_def
        payload_uuid_def pget_def exec_owned_def example_row_def)
  with spec show ?thesis by (cases ?res) (force split: sum.splits)
qed

theorem cleanup_only_never_completes_witness:
  "snd (UpdateJobStatus None 9 7 ''w'' JobStatusCompleted None
      (empty_db\<lparr>db_jobs := [running_job\<lparr>j_Payload := [(''cleanup_only'', JBool True)]\<rparr>]\<rparr>)) =
     empty_db\<lparr>db_jobs := [running_job\<lparr>j_Payload := [(''cleanup_only'', JBool True)]\<rparr>]\<rparr>"
  by (subst cleanup_only_never_completes) (simp_all add: ptrue_def pget_def running_job_def new_job_def)

text \<open>What a successful cleanup retry writes into the row.\<close>

definition requeued :: "go_time \<Rightarrow> bool \<Rightarrow> json option \<Rightarrow> job \<Rightarrow> job" where
  "requeued nextAt cleanupOnly cleanupTarget j =
     j\<lparr>j_Status := JobStatusPending, j_RetryCount := j_RetryCount j + 1,
       j_ClaimedBy := None, j_ClaimedAt := None, j_StartedAt := None,
       j_CompletedAt := None, j_NextAttemptAt := Some nextAt,
       j_Payload := retry_payload cleanupOnly cleanupTarget (j_Payload j)\<rparr>"

lemma RetryJob_owned:
  assumes "r \<in> set (db_jobs db)" "ownedBy i w r"
  shows "RetryJob None i nextAt c t w db =
           (Inr (), db\<lparr>db_jobs := sql_update (ownedBy i w) (requeued nextAt c t) (db_jobs db)\<rparr>)"
  using assms by (auto simp: RetryJob_def run_tx_def Let_def requeued_def [abs_def])

lemma requeued_not_owned: "\<not> ownedBy i w (requeued nextAt c t j)"
  by (simp add: ownedBy_def requeued_def)

text \<open>
  Scheduling a cleanup retry is safe to repeat: the owner's call puts the job back
  with the cleanup marker and the target and one more retry counted, and the same call again (the
  first answer having been lost) succeeds without changing anything, while any call for a
  job that is neither owned nor already scheduled reports the lost lease.
\<close>

theorem RetryJob_idempotent:
  assumes "queue_wf db" "r \<in> set (db_jobs db)" "ownedBy i w r"
    and "RetryJob None i nextAt True t w db = (res, db')"
  shows "res = Inr () \<and> GetJob i db' = Some (requeued nextAt True t r) \<and>
         ptrue (j_Payload (requeued nextAt True t r)) ''cleanup_only'' \<and>
         RetryJob None i nextAt' True t w' db' = (Inr (), db') \<and>
         (t \<noteq> None \<longrightarrow> pget (j_Payload (requeued nextAt True t r)) ''cleanup_target'' = t) \<and>
         fst (RetryJob None i nextAt' False t w' db') =
           Inl (Errorf ''job is not owned for retry scheduling'' [Sentinel ErrJobLeaseLost])"
proof -
  let ?f = "requeued nextAt True t"
  note d = assms(1) [unfolded queue_wf_def, THEN conjunct1]
  have r: "j_ID r = i" using assms(3) by (simp add: ownedBy_def)
  have own: "ownedBy i w x \<longleftrightarrow> j_ID x = i" if "x \<in> set (db_jobs db)" for x
    using that assms(2,3) r distinct_key_eq [OF d that assms(2)] by (auto simp: ownedBy_def)
  have upd: "sql_update (ownedBy i w) ?f (db_jobs db) = sql_update (\<lambda>x. j_ID x = j_ID r) ?f (db_jobs db)"
    unfolding sql_update_def r by (intro map_cong) (simp_all add: own)
  from assms(4) have res: "res = Inr ()" and db': "db_jobs db' = sql_update (\<lambda>x. j_ID x = j_ID r) ?f (db_jobs db)"
    by (auto simp: RetryJob_owned [OF assms(2,3)] upd)
  have get: "GetJob i db' = Some (?f r)"
    using find_update_same [OF d assms(2), of ?f] by (simp add: GetJob_def db' r [symmetric] requeued_def)
  then have "?f r \<in> set (db_jobs db')" using find_SomeD by (fastforce simp: GetJob_def)
  have only: "x = ?f r" if "x \<in> set (db_jobs db')" "j_ID x = i" for x
  proof -
    from that obtain q where q: "q \<in> set (db_jobs db)" "x = (if j_ID q = j_ID r then ?f q else q)"
      by (auto simp: db' sql_update_in)
    with that(2) r have "j_ID q = j_ID r" by (simp add: requeued_def split: if_splits)
    then have "q = r" using distinct_key_eq [OF d q(1) assms(2)] by simp
    with q show ?thesis by simp
  qed
  have none: "\<not> ownedBy i w' x" if "x \<in> set (db_jobs db')" for x
    using only [OF that] requeued_not_owned [of i w'] by (auto simp: ownedBy_def)
  have marked: "ptrue (j_Payload (?f r)) ''cleanup_only''"
    "t \<noteq> None \<longrightarrow> pget (j_Payload (?f r)) ''cleanup_target'' = t"
    by (auto simp: requeued_def retry_payload_def split: option.splits)
  have again: "\<exists>j \<in> set (db_jobs db'). j_ID j = i \<and> j_Status j = JobStatusPending \<and>
      ptrue (j_Payload j) ''cleanup_only'' \<and> (t = None \<or> pget (j_Payload j) ''cleanup_target'' = t)"
    by (rule bexI [OF _ \<open>?f r \<in> set (db_jobs db')\<close>]) (use marked r in \<open>auto simp: requeued_def\<close>)
  have "db'\<lparr>db_jobs := sql_update (ownedBy i w') (requeued nextAt' True t) (db_jobs db')\<rparr> = db'"
    using none by (simp add: sql_update_none)
  then have "RetryJob None i nextAt' True t w' db' = (Inr (), db')"
    using again by (simp add: RetryJob_def run_tx_def Let_def requeued_def [abs_def]) blast
  moreover have "fst (RetryJob None i nextAt' False t w' db') =
      Inl (Errorf ''job is not owned for retry scheduling'' [Sentinel ErrJobLeaseLost])"
    using none by (simp add: RetryJob_def run_tx_def Let_def)
  ultimately show ?thesis using res get marked by simp
qed

theorem RetryJob_idempotent_witness:
  "fst (RetryJob None 7 300 True None ''other'' (snd (RetryJob None 7 200 True None ''w'' running_db))) = Inr ()"
  using RetryJob_idempotent [OF running_db_wf, of running_job 7 "''w''" 200 None
      "fst (RetryJob None 7 200 True None ''w'' running_db)" "snd (RetryJob None 7 200 True None ''w'' running_db)"
      300 "''other''"]
  by (simp add: running_defs ownedBy_def activeStatus_def)

section \<open>The database persister\<close>

text \<open>
  \<open>dbPersister\<close>. The world of the rollback engine is the database together with what the next
  calls of the driver will bring: a fault or not, and the time. An error of the driver is taken to
  leave the row as it was.
\<close>

record pworld =
  pw_db :: database
  pw_calls :: "(go_error option \<times> go_time) list"

definition next_call :: "pworld \<Rightarrow> (go_error option \<times> go_time) \<times> pworld" where
  "next_call w = (case pw_calls w of [] \<Rightarrow> ((None, 0), w) | c # cs \<Rightarrow> (c, w\<lparr>pw_calls := cs\<rparr>))"

definition dbSaveRollbackSteps ::
  "string \<Rightarrow> uuid \<Rightarrow> rb_step list \<Rightarrow> pworld \<Rightarrow> go_error option \<times> pworld" where
  "dbSaveRollbackSteps workerID jobID steps w =
     (case next_call w of
        ((flt, now), w1) \<Rightarrow>
          (case UpdateJobRollbackSteps flt now jobID workerID steps (pw_db w1) of
             (Inr _, db') \<Rightarrow> (None, w1\<lparr>pw_db := db'\<rparr>)
           | (Inl e, db') \<Rightarrow>
               (Some (if errorsIs e ErrJobLeaseLost then Errorf ''ownership lost'' [Sentinel ErrOwnershipLost] else e),
                w1\<lparr>pw_db := db'\<rparr>)))"

definition dbHandoffRollbackStep :: "uuid \<Rightarrow> rb_step \<Rightarrow> pworld \<Rightarrow> go_error option \<times> pworld" where
  "dbHandoffRollbackStep jobID step w =
     (case next_call w of
        ((flt, now), w1) \<Rightarrow>
          (case AdoptJobRollbackStep flt now jobID step (pw_db w1) of
             (Inr _, db') \<Rightarrow> (None, w1\<lparr>pw_db := db'\<rparr>)
           | (Inl e, db') \<Rightarrow> (Some e, w1\<lparr>pw_db := db'\<rparr>)))"

definition dbPersister :: "string \<Rightarrow> pworld persister" where
  "dbPersister workerID = \<lparr>SaveRollbackSteps = dbSaveRollbackSteps workerID,
                           HandoffRollbackStep = Some dbHandoffRollbackStep\<rparr>"

text \<open>The receipts the job row holds.\<close>

definition stored_steps :: "uuid \<Rightarrow> pworld \<Rightarrow> rb_step list" where
  "stored_steps i w = (case GetJob i (pw_db w) of None \<Rightarrow> [] | Some j \<Rightarrow> j_RollbackSteps j)"

abbreviation pworld_wf :: "pworld \<Rightarrow> bool" where
  "pworld_wf w \<equiv> queue_wf (pw_db w)"

lemma next_call_db: "next_call w = (c, w1) \<Longrightarrow> pw_db w1 = pw_db w"
  by (auto simp: next_call_def split: list.splits)

lemma owned_update_get:
  assumes "queue_wf db" "sql_count P (db_jobs db) = 1" "\<And>j. P j \<Longrightarrow> j_ID j = i" "\<And>j. j_ID (f j) = j_ID j"
  shows "\<exists>j. GetJob i db = Some j \<and> P j \<and>
             GetJob i (db\<lparr>db_jobs := sql_update P f (db_jobs db)\<rparr>) = Some (f j)"
proof -
  obtain j where j: "j \<in> set (db_jobs db)" "P j" using sql_count_oneD [OF assms(2)] by blast
  have d: "distinct (map j_ID (db_jobs db))" using assms(1) by (simp add: queue_wf_def)
  have "P x \<longleftrightarrow> j_ID x = j_ID j" if "x \<in> set (db_jobs db)" for x
    using that j assms(3) distinct_key_eq [OF d that j(1)] by auto
  then have "sql_update P f (db_jobs db) = sql_update (\<lambda>x. j_ID x = j_ID j) f (db_jobs db)"
    unfolding sql_update_def by (intro map_cong) simp_all
  with find_update_same [OF d j(1), of f] find_unique_key [OF d j(1)] assms(3) [OF j(2)] assms(4) j(2)
  show ?thesis by (auto simp: GetJob_def)
qed

lemma UpdateJobRollbackSteps_ok:
  assumes "UpdateJobRollbackSteps flt now i w ss db = (Inr u, db')" "queue_wf db"
  shows "\<exists>j. GetJob i db' = Some j \<and> j_RollbackSteps j = ss"
proof -
  from exec_owned_InrD [OF run_tx_InrD [OF assms(1) [unfolded UpdateJobRollbackSteps_def], THEN conjunct2]]
  have n: "sql_count (ownedBy i w) (db_jobs db) = 1"
    and db': "db' = db\<lparr>db_jobs := sql_update (ownedBy i w) (\<lambda>j. j\<lparr>j_RollbackSteps := ss, j_ClaimedAt := Some now\<rparr>) (db_jobs db)\<rparr>"
    by simp_all
  show ?thesis
    using owned_update_get [OF assms(2) n, of i "\<lambda>j. j\<lparr>j_RollbackSteps := ss, j_ClaimedAt := Some now\<rparr>"]
    by (auto simp: db' ownedBy_def)
qed

lemma AdoptJobRollbackStep_get:
  assumes "AdoptJobRollbackStep flt now i step db = (Inr u, db')" "queue_wf db"
  shows "\<exists>j. GetJob i db = Some j \<and> j_Type j = ''pod_create'' \<and> j_Status j \<noteq> JobStatusCompleted \<and>
             GetJob i db' = Some (adopted now step j j)"
proof -
  from assms(1) obtain j where j: "find (\<lambda>j. j_ID j = i \<and> j_Type j = ''pod_create'' \<and>
      j_Status j \<in> {JobStatusPending, JobStatusClaimed, JobStatusInProgress, JobStatusRollback,
                    JobStatusFailed}) (db_jobs db) = Some j"
    and db': "db' = db\<lparr>db_jobs := sql_update (\<lambda>r. j_ID r = i) (adopted now step j) (db_jobs db)\<rparr>"
    by (rule AdoptJobRollbackStep_ok)
  have d: "distinct (map j_ID (db_jobs db))" using assms(2) by (simp add: queue_wf_def)
  from find_SomeD [OF j] have jD: "j \<in> set (db_jobs db)" "j_ID j = i" "j_Type j = ''pod_create''"
    "j_Status j \<noteq> JobStatusCompleted" by auto
  with find_update_same [OF d jD(1), of "adopted now step j"] find_unique_key [OF d jD(1)] show ?thesis
    by (simp add: GetJob_def db' adopted_def)
qed

lemma adopted_receipts:
  "step \<in> set (j_RollbackSteps (adopted now step j r)) \<and>
   set (j_RollbackSteps j) \<subseteq> set (j_RollbackSteps (adopted now step j r))"
  by (auto simp: adopted_def appendRollbackReceipt_def)

lemma persister_wf:
  assumes "queue_wf db"
  shows "queue_wf (snd (UpdateJobRollbackSteps flt now i w ss db))"
    and "queue_wf (snd (AdoptJobRollbackStep flt now i s db))"
  using job_step_wf [OF assms, of "OpSteps flt now i w ss"] job_step_wf [OF assms, of "OpAdopt flt now i s"]
  by simp_all

interpretation job_receipts: receipt_handoff
  "dbSaveRollbackSteps w i" "stored_steps i" pworld_wf "dbHandoffRollbackStep i" for w i
proof unfold_locales
  fix ss s and x x' :: pworld and r err
  obtain flt now x1 where c: "next_call x = ((flt, now), x1)" by (metis surj_pair)
  note db = next_call_db [OF c]
  obtain u db1 where u: "UpdateJobRollbackSteps flt now i w ss (pw_db x) = (u, db1)" by force
  obtain v db2 where v: "AdoptJobRollbackStep flt now i s (pw_db x) = (v, db2)" by force
  have keep: "db1 = pw_db x" if "u = Inl e" for e
    using u that unfolding UpdateJobRollbackSteps_def by (auto dest: run_tx_atomic)
  have keep': "db2 = pw_db x" if "v = Inl e" for e
    using v that unfolding AdoptJobRollbackStep_def by (auto dest: run_tx_atomic)
  show "stored_steps i x' = ss" if "pworld_wf x" "dbSaveRollbackSteps w i ss x = (None, x')"
    using that u c db UpdateJobRollbackSteps_ok [of flt now i w ss "pw_db x" _ db1]
    by (auto simp: dbSaveRollbackSteps_def stored_steps_def split: sum.splits)
  show "stored_steps i x' = stored_steps i x" if "dbSaveRollbackSteps w i ss x = (Some err, x')"
    using that u c db keep by (auto simp: dbSaveRollbackSteps_def stored_steps_def split: sum.splits)
  show "pworld_wf x'" if "pworld_wf x" "dbSaveRollbackSteps w i ss x = (r, x')"
    using that u c db persister_wf(1) [of "pw_db x" flt now i w ss]
    by (auto simp: dbSaveRollbackSteps_def split: sum.splits)
  show "s \<in> set (stored_steps i x') \<and> set (stored_steps i x) \<subseteq> set (stored_steps i x')"
    if "pworld_wf x" "dbHandoffRollbackStep i s x = (None, x')"
    using that v c db AdoptJobRollbackStep_get [of flt now i s "pw_db x" _ db2] adopted_receipts [of s]
    by (fastforce simp: dbHandoffRollbackStep_def stored_steps_def split: sum.splits)
  show "stored_steps i x' = stored_steps i x" if "dbHandoffRollbackStep i s x = (Some err, x')"
    using that v c db keep' by (auto simp: dbHandoffRollbackStep_def stored_steps_def split: sum.splits)
  show "pworld_wf x'" if "pworld_wf x" "dbHandoffRollbackStep i s x = (r, x')"
    using that v c db persister_wf(2) [of "pw_db x" flt now i s]
    by (auto simp: dbHandoffRollbackStep_def split: sum.splits)
qed

text \<open>
  C13. A receipt is never lost by a rollback over the jobs table: for undo functions that
  keep the contract (success means the resource is gone, and gone it stays; the receipts of the job
  are not their business), every step the job row listed before the rollback is afterwards either
  gone or still listed both by the engine and by the job row, however the driver behaves.
\<close>

theorem Rollback_keeps_receipts:
  assumes "pworld_wf x" "e_persister e = Some (dbPersister w)" "e_jobID e = i"
    and "stored_steps i x = e_steps e"
    and "job_receipts.undo_contract w i gone (e_undoFuncs e)"
    and "Rollback e x = (errs, e', x')"
  shows "\<forall>s \<in> set (e_steps e). gone s x' \<or> s \<in> set (e_steps e') \<and> s \<in> set (stored_steps i x')"
proof -
  obtain rem where loop: "rollback_loop e (length (e_steps e)) (e_steps e) [] x = (errs, rem, x')"
    and e': "e_steps e' = rem"
    using assms(6) by (auto simp: Rollback_def split: prod.splits)
  have save: "save_steps e ss y = dbSaveRollbackSteps w i ss y" for ss y
    using assms(2,3) by (simp add: save_steps_def dbPersister_def)
  have "job_receipts.receipts_safe i gone (set (e_steps e)) (e_steps e) x"
    using assms(1,4) by (simp add: job_receipts.receipts_safe_def)
  from job_receipts.rollback_loop_safe [OF save assms(5) this le_refl loop] show ?thesis
    by (auto simp: job_receipts.receipts_safe_def e')
qed

text \<open>An undo function that removes the pods, on a job with one receipt.\<close>

definition drop_pods :: "pworld undo_func" where
  "drop_pods _ x = (None, x\<lparr>pw_db := (pw_db x)\<lparr>db_pods := []\<rparr>\<rparr>)"

definition receipt_db :: database where
  "receipt_db = running_db\<lparr>db_jobs := [running_job\<lparr>j_Type := ''pod_create'',
      j_RollbackSteps := [\<lparr>step_Name = ''vm'', step_Data = JNull\<rparr>]\<rparr>]\<rparr>"

definition receipt_engine :: "pworld engine" where
  "receipt_engine = (new_engine 7 (Some (dbPersister ''w'')))
     \<lparr>e_steps := [\<lparr>step_Name = ''vm'', step_Data = JNull\<rparr>], e_undoFuncs := [''vm'' \<mapsto> drop_pods]\<rparr>"

lemma receipt_db_wf: "queue_wf receipt_db"
  by (simp add: receipt_db_def queue_wf_def job_wf_def running_defs)

lemma save_pods: "db_pods (pw_db (snd (dbSaveRollbackSteps w i ss x))) = db_pods (pw_db x)"
  by (auto simp: dbSaveRollbackSteps_def UpdateJobRollbackSteps_def run_tx_def exec_owned_def next_call_def
      split: prod.splits sum.splits option.splits list.splits if_splits)

lemma drop_pods_contract:
  "job_receipts.undo_contract w i (\<lambda>_ x. db_pods (pw_db x) = []) (e_undoFuncs receipt_engine)"
  unfolding job_receipts.undo_contract_def
  by (auto simp: receipt_engine_def drop_pods_def stored_steps_def GetJob_def
      queue_wf_def save_pods split: if_splits)

theorem Rollback_keeps_receipts_witness:
  "case Rollback receipt_engine \<lparr>pw_db = receipt_db, pw_calls = [(None, 5), (Some (errorsNew ''down''), 6)]\<rparr> of
     (errs, e', x') \<Rightarrow> db_pods (pw_db x') = [] \<or> \<lparr>step_Name = ''vm'', step_Data = JNull\<rparr> \<in> set (stored_steps 7 x')"
proof -
  let ?x = "\<lparr>pw_db = receipt_db, pw_calls = [(None, 5), (Some (errorsNew ''down''), 6)]\<rparr>"
  obtain errs e' x' where run: "Rollback receipt_engine ?x = (errs, e', x')" by (metis surj_pair)
  have "stored_steps 7 ?x = e_steps receipt_engine"
    by (simp add: stored_steps_def GetJob_def receipt_db_def receipt_engine_def running_defs)
  from Rollback_keeps_receipts [OF _ _ _ this drop_pods_contract [of "''w''" 7] run]
  have "db_pods (pw_db x') = [] \<or> \<lparr>step_Name = ''vm'', step_Data = JNull\<rparr> \<in> set (stored_steps 7 x')"
    by (auto simp: receipt_engine_def new_engine_def receipt_db_wf)
  with run show ?thesis by simp
qed



text \<open>
  Handing a receipt to the successor: the pod_create job ends up pending, unclaimed and
  cleanup-only with the receipt added and none lost, a worker that may not provision can claim it at
  once, and the worker that held it is refused from then on.
\<close>

theorem AdoptJobRollbackStep_spec:
  assumes "queue_wf db" "AdoptJobRollbackStep flt now i step db = (Inr u, db')"
  shows "\<exists>j j'. GetJob i db = Some j \<and> GetJob i db' = Some j' \<and>
           j_RollbackSteps j' = (if step \<in> set (j_RollbackSteps j) then j_RollbackSteps j else j_RollbackSteps j @ [step]) \<and>
           claimable now (\<lambda>_. False) False j' \<and> \<not> ptrue (j_Payload j') ''cleanup_completed'' \<and>
           fst (UpdateJobStatus None now' i w st res db') =
             Inl (Errorf ''job is not owned for status'' [Sentinel ErrJobLeaseLost])"
proof -
  from AdoptJobRollbackStep_get [OF assms(2,1)] obtain j where
    j: "GetJob i db = Some j" "j_Type j = ''pod_create''" "GetJob i db' = Some (adopted now step j j)"
    by auto
  have wf: "queue_wf db'" using persister_wf(2) [OF assms(1), of flt now i step] assms(2) by simp
  have "claimable now (\<lambda>_. False) False (adopted now step j j)"
    using j(2) by (simp add: claimable_def adopted_def)
  moreover have "\<not> activeStatus (j_Status (adopted now step j j))"
    by (simp add: adopted_def activeStatus_def)
  moreover have "r = adopted now step j j" if "r \<in> set (db_jobs db')" "j_ID r = i" for r
    using owned_unique [of "db_jobs db'" i "\<lambda>_. True" "adopted now step j j" r] wf j(3) that
    by (simp add: queue_wf_def GetJob_def)
  ultimately have "\<forall>r \<in> set (db_jobs db'). j_ID r = i \<longrightarrow> \<not> activeStatus (j_Status r)"
    "claimable now (\<lambda>_. False) False (adopted now step j j)"
    by metis+
  with j not_active_refused(1) [of db' i] show ?thesis
    by (auto simp: adopted_def appendRollbackReceipt_def)
qed

theorem AdoptJobRollbackStep_spec_witness:
  "fst (UpdateJobStatus None 9 7 ''w'' JobStatusFailed None
     (snd (AdoptJobRollbackStep None 8 7 \<lparr>step_Name = ''vlan'', step_Data = JNull\<rparr> receipt_db))) =
   Inl (Errorf ''job is not owned for status'' [Sentinel ErrJobLeaseLost])"
  using AdoptJobRollbackStep_spec [OF receipt_db_wf, of None 8 7 "\<lparr>step_Name = ''vlan'', step_Data = JNull\<rparr>" "()"
      "snd (AdoptJobRollbackStep None 8 7 \<lparr>step_Name = ''vlan'', step_Data = JNull\<rparr> receipt_db)" 9 "''w''" JobStatusFailed None]
  by (auto simp: AdoptJobRollbackStep_def run_tx_def receipt_db_def running_defs Let_def)

end
