(* ===== verification/Leases.thy ===== *)
theory Leases
  imports Jobs
begin

text \<open>
  Leases: the heartbeat that keeps a job claim alive (\<open>internal/provisioner/job_lease.go\<close>), the
  named work leases of the reconcilers (\<open>internal/worklease/lease.go\<close>) and their queries
  (\<open>internal/database/queries.go\<close>). Both heartbeats are one loop with different errors; the
  locale \<open>heartbeat\<close> states what they share.
\<close>

section \<open>Heartbeats\<close>

text \<open>
  One tick of a heartbeat as the loop sees it: the time when the renewal came back and what it
  returned. The list of ticks is the run up to the moment the context is done; the result is the
  cause the loop cancels with, if it does.
\<close>

type_synonym beat = "go_time \<times> bool result"

definition claimedJobLease :: "job option \<Rightarrow> (string \<times> go_time) result" where
  "claimedJobLease job =
     (case job of
        None \<Rightarrow> Inl (Errorf ''job has no claim owner'' [Sentinel ErrJobLeaseLost])
      | Some j \<Rightarrow>
          (case j_ClaimedBy j of
             None \<Rightarrow> Inl (Errorf ''job has no claim owner'' [Sentinel ErrJobLeaseLost])
           | Some owner \<Rightarrow>
               if owner = [] then Inl (Errorf ''job has no claim owner'' [Sentinel ErrJobLeaseLost])
               else (case j_ClaimedAt j of
                       None \<Rightarrow> Inl (Errorf ''job has no claim timestamp'' [Sentinel ErrJobLeaseLost])
                     | Some t \<Rightarrow> Inr (owner, t))))"

fun maintainJobLease :: "go_time \<Rightarrow> go_time \<Rightarrow> beat list \<Rightarrow> go_error option" where
  "maintainJobLease leaseDuration lastRenewed [] = None"
| "maintainJobLease leaseDuration lastRenewed ((now, r) # beats) =
     (case r of
        Inr True \<Rightarrow> maintainJobLease leaseDuration now beats
      | Inr False \<Rightarrow> Some (Errorf ''job is no longer owned'' [Sentinel ErrJobLeaseLost])
      | Inl _ \<Rightarrow>
          if now - lastRenewed \<ge> leaseDuration
          then Some (Errorf ''job heartbeat expired'' [Sentinel ErrJobLeaseLost])
          else maintainJobLease leaseDuration lastRenewed beats)"

abbreviation leaseDuration90 :: go_time where
  "leaseDuration90 \<equiv> seconds 90"

fun maintain :: "go_time \<Rightarrow> beat list \<Rightarrow> go_error option" where
  "maintain lastOK [] = None"
| "maintain lastOK ((now, r) # beats) =
     (case r of
        Inr True \<Rightarrow> maintain now beats
      | Inr False \<Rightarrow> Some (Errorf ''work lease lost'' [Sentinel ErrLeaseLost])
      | Inl _ \<Rightarrow>
          if now - lastOK \<ge> leaseDuration90
          then Some (Errorf ''renew expired'' [Sentinel ErrLeaseLost])
          else maintain lastOK beats)"

text \<open>The last successful renewal before a tick.\<close>

definition last_ok :: "go_time \<Rightarrow> beat list \<Rightarrow> go_time" where
  "last_ok t bs = foldl (\<lambda>t b. if snd b = Inr True then fst b else t) t bs"

text \<open>
  What the two loops promise: go on after a renewal, stop at the first answer that the lease is
  gone, and stop at a failed renewal exactly when the last success is a lease duration away.
\<close>

locale heartbeat =
  fixes loop :: "go_time \<Rightarrow> beat list \<Rightarrow> go_error option"
    and dur :: go_time
    and lost :: sentinel
  assumes loop_end: "loop prev [] = None"
    and loop_owned: "loop prev ((now, Inr True) # bs) = loop now bs"
    and loop_lost: "\<exists>err. loop prev ((now, Inr False) # bs) = Some err \<and> errorsIs err lost"
    and loop_expired: "dur \<le> now - prev \<Longrightarrow> \<exists>err. loop prev ((now, Inl e) # bs) = Some err \<and> errorsIs err lost"
    and loop_retry: "now - prev < dur \<Longrightarrow> loop prev ((now, Inl e) # bs) = loop prev bs"
begin

definition fatal :: "go_time \<Rightarrow> beat \<Rightarrow> bool" where
  "fatal t b \<longleftrightarrow> snd b = Inr False \<or> (\<exists>e. snd b = Inl e) \<and> dur \<le> fst b - t"

lemma loop_cancels_iff:
  "loop t bs = None \<longleftrightarrow> (\<forall>n < length bs. \<not> fatal (last_ok t (take n bs)) (bs ! n))"
proof (induction bs arbitrary: t)
  case Nil
  show ?case by (simp add: loop_end)
next
  case (Cons b bs)
  obtain now r where b: "b = (now, r)" by force
  have all: "(\<forall>n < length (b # bs). \<not> fatal (last_ok t (take n (b # bs))) ((b # bs) ! n)) \<longleftrightarrow>
      \<not> fatal t b \<and> (\<forall>n < length bs. \<not> fatal (last_ok (last_ok t [b]) (take n bs)) (bs ! n))"
    by (auto simp: last_ok_def nth_Cons take_Cons' less_Suc_eq_0_disj split: nat.splits)
  show ?case
  proof (cases r)
    case (Inr v)
    then show ?thesis
      using loop_lost [of t now bs] Cons.IH unfolding all
      by (cases v) (auto simp: b fatal_def last_ok_def loop_owned)
  next
    case (Inl e)
    then show ?thesis
      using loop_expired [of now t e bs] loop_retry [of now t e bs] Cons.IH unfolding all
      by (cases "dur \<le> now - t") (auto simp: b fatal_def last_ok_def)
  qed
qed

lemma loop_cause: "loop t bs = Some err \<Longrightarrow> errorsIs err lost"
proof (induction bs arbitrary: t)
  case (Cons b bs)
  obtain now r where b: "b = (now, r)" by force
  show ?case
  proof (cases r)
    case (Inr v)
    with Cons loop_lost [of t now bs] show ?thesis by (cases v) (auto simp: b loop_owned)
  next
    case (Inl e)
    with Cons loop_expired [of now t e bs] loop_retry [of now t e bs] show ?thesis
      by (cases "dur \<le> now - t") (auto simp: b)
  qed
qed (simp add: loop_end)

end

interpretation job_beat: heartbeat "maintainJobLease d" d ErrJobLeaseLost for d
  by unfold_locales auto

interpretation work_beat: heartbeat maintain leaseDuration90 ErrLeaseLost
  by unfold_locales auto

section \<open>The lease rows\<close>

definition leaseFree :: "go_time \<Rightarrow> go_time \<Rightarrow> string \<Rightarrow> work_lease_row \<Rightarrow> bool" where
  "leaseFree now leaseDuration name r \<longleftrightarrow>
     wl_name r = name \<and>
     (wl_claim_token r = None \<or>
      (case wl_claimed_at r of None \<Rightarrow> True | Some t \<Rightarrow> t < now - leaseDuration))"

text \<open>
  \<open>TryClaimWorkLease\<close>: the names are the primary key, so the update hits at most one row.
  The result is the token, the generation and whether the claim succeeded.
\<close>

definition TryClaimWorkLease ::
  "go_error option \<Rightarrow> go_time \<Rightarrow> uuid \<Rightarrow> string \<Rightarrow> string \<Rightarrow> go_time \<Rightarrow> database
     \<Rightarrow> (uuid \<times> int \<times> bool) result \<times> database" where
  "TryClaimWorkLease flt now token name workerID leaseDuration =
     run_tx flt (\<lambda>db.
       case find (leaseFree now leaseDuration name) (db_leases db) of
         None \<Rightarrow> Inr ((uuid_Nil, 0, False), db)
       | Some r \<Rightarrow>
           Inr ((token, wl_generation r + 1, True),
                db\<lparr>db_leases := sql_update (leaseFree now leaseDuration name)
                    (\<lambda>r. r\<lparr>wl_claimed_by := Some workerID, wl_claim_token := Some token,
                           wl_claimed_at := Some now, wl_generation := wl_generation r + 1\<rparr>)
                    (db_leases db)\<rparr>))"

definition leaseHeld :: "string \<Rightarrow> string \<Rightarrow> uuid \<Rightarrow> work_lease_row \<Rightarrow> bool" where
  "leaseHeld name workerID token r \<longleftrightarrow>
     wl_name r = name \<and> wl_claimed_by r = Some workerID \<and> wl_claim_token r = Some token"

definition RenewWorkLease ::
  "go_error option \<Rightarrow> go_time \<Rightarrow> string \<Rightarrow> string \<Rightarrow> uuid \<Rightarrow> database \<Rightarrow> bool result \<times> database" where
  "RenewWorkLease flt now name workerID claimToken =
     run_tx flt (\<lambda>db.
       Inr (sql_count (leaseHeld name workerID claimToken) (db_leases db) = 1,
            db\<lparr>db_leases := sql_update (leaseHeld name workerID claimToken)
                 (\<lambda>r. r\<lparr>wl_claimed_at := Some now\<rparr>) (db_leases db)\<rparr>))"

definition ReleaseWorkLease ::
  "go_error option \<Rightarrow> string \<Rightarrow> string \<Rightarrow> uuid \<Rightarrow> database \<Rightarrow> unit result \<times> database" where
  "ReleaseWorkLease flt name workerID claimToken =
     run_tx flt (\<lambda>db.
       Inr ((), db\<lparr>db_leases := sql_update (leaseHeld name workerID claimToken)
                 (\<lambda>r. r\<lparr>wl_claimed_by := None, wl_claim_token := None, wl_claimed_at := None\<rparr>)
                 (db_leases db)\<rparr>))"

section \<open>Running under a lease\<close>

text \<open>
  \<open>RunExclusive\<close>. The run \<open>fn\<close> is everything that happens to the database between claim and
  release; \<open>beats\<close> are the ticks of the heartbeat in that time, starting at \<open>t0\<close>; \<open>parent\<close> is
  the cause of the caller's context when that was cancelled first. A context keeps its first
  cause, so the heartbeat's cause counts unless the caller's came before it.
\<close>

definition RunExclusive ::
  "go_error option \<Rightarrow> go_error option \<Rightarrow> go_time \<Rightarrow> uuid \<Rightarrow> string \<Rightarrow> string \<Rightarrow> beat list \<Rightarrow> go_error option
     \<Rightarrow> (uuid \<Rightarrow> int \<Rightarrow> database \<Rightarrow> go_error option \<times> database) \<Rightarrow> database
     \<Rightarrow> go_error option \<times> database" where
  "RunExclusive fltClaim fltRelease t0 newToken name workerID beats parent fn db =
     (case TryClaimWorkLease fltClaim t0 newToken name workerID leaseDuration90 db of
        (Inl e, db1) \<Rightarrow> (Some (Errorf ''claim'' [e]), db1)
      | (Inr (token, generation, ok), db1) \<Rightarrow>
          if \<not> ok then (Some (Sentinel ErrNotClaimed), db1)
          else
            (case fn token generation db1 of
               (runErr, db2) \<Rightarrow>
                 let cause = (case parent of
                                Some c \<Rightarrow> c
                              | None \<Rightarrow> (case maintain t0 beats of
                                           Some c \<Rightarrow> c
                                         | None \<Rightarrow> Sentinel errLeaseFinished));
                     db3 = snd (ReleaseWorkLease fltRelease name workerID token db2)
                 in (if runErr \<noteq> None then runErr
                     else if \<not> errorsIs cause errLeaseFinished \<and> \<not> errorsIs cause context_Canceled
                     then Some cause else None,
                     db3)))"

definition TryRun ::
  "go_error option \<Rightarrow> go_error option \<Rightarrow> go_time \<Rightarrow> uuid \<Rightarrow> string \<Rightarrow> string \<Rightarrow> beat list \<Rightarrow> go_error option
     \<Rightarrow> (uuid \<Rightarrow> int \<Rightarrow> database \<Rightarrow> go_error option \<times> database) \<Rightarrow> database
     \<Rightarrow> go_error option \<times> database" where
  "TryRun fltClaim fltRelease t0 newToken name workerID beats parent fn db =
     (case RunExclusive fltClaim fltRelease t0 newToken name workerID beats parent fn db of
        (Some e, db') \<Rightarrow> (if errorsIs e ErrNotClaimed then None else Some e, db')
      | (None, db') \<Rightarrow> (None, db'))"

section \<open>The lease table as a state machine\<close>

datatype lease_op =
    LClaim "go_error option" go_time uuid string string go_time
  | LRenew "go_error option" go_time string string uuid
  | LRelease "go_error option" string string uuid

fun lease_step :: "lease_op \<Rightarrow> database \<Rightarrow> database" where
  "lease_step (LClaim flt now t n w d) db = snd (TryClaimWorkLease flt now t n w d db)"
| "lease_step (LRenew flt now n w t) db = snd (RenewWorkLease flt now n w t db)"
| "lease_step (LRelease flt n w t) db = snd (ReleaseWorkLease flt n w t db)"

text \<open>A row is either free or has an owner, a token and a claim time.\<close>

definition lease_wf :: "work_lease_row \<Rightarrow> bool" where
  "lease_wf r \<longleftrightarrow> 0 \<le> wl_generation r \<and>
     (wl_claimed_by r = None \<longleftrightarrow> wl_claim_token r = None) \<and>
     (wl_claimed_at r = None \<longleftrightarrow> wl_claim_token r = None)"

definition leases_wf :: "database \<Rightarrow> bool" where
  "leases_wf db \<longleftrightarrow> distinct (map wl_name (db_leases db)) \<and> (\<forall>r \<in> set (db_leases db). lease_wf r)"

lemma leases_update_wf:
  assumes "leases_wf db" "\<And>r. P r \<Longrightarrow> lease_wf r \<Longrightarrow> lease_wf (f r)" "\<And>r. wl_name (f r) = wl_name r"
  shows "leases_wf (db\<lparr>db_leases := sql_update P f (db_leases db)\<rparr>)"
  using assms map_key_sql_update [of wl_name f P "db_leases db"]
  by (auto simp: leases_wf_def sql_update_in)

lemma lease_step_wf: "leases_wf db \<Longrightarrow> leases_wf (lease_step op db)"
proof (cases op)
  case (LClaim flt now t n w d)
  assume "leases_wf db"
  then show ?thesis
    unfolding LClaim lease_step.simps TryClaimWorkLease_def
    by (rule run_tx_preserves)
       (use \<open>leases_wf db\<close> in \<open>auto split: option.splits intro!: leases_update_wf simp: lease_wf_def\<close>)
next
  case (LRenew flt now n w t)
  assume "leases_wf db"
  then show ?thesis
    unfolding LRenew lease_step.simps RenewWorkLease_def
    by (rule run_tx_preserves)
       (use \<open>leases_wf db\<close> in \<open>auto intro!: leases_update_wf simp: lease_wf_def leaseHeld_def\<close>)
next
  case (LRelease flt n w t)
  assume "leases_wf db"
  then show ?thesis
    unfolding LRelease lease_step.simps ReleaseWorkLease_def
    by (rule run_tx_preserves)
       (use \<open>leases_wf db\<close> in \<open>auto intro!: leases_update_wf simp: lease_wf_def leaseHeld_def\<close>)
qed

text \<open>The rows the migration inserts: every name once, free, generation 0.\<close>

definition leases_fresh :: "database \<Rightarrow> bool" where
  "leases_fresh db \<longleftrightarrow> distinct (map wl_name (db_leases db)) \<and>
     (\<forall>r \<in> set (db_leases db). wl_claimed_by r = None \<and> wl_claim_token r = None \<and>
        wl_claimed_at r = None \<and> wl_generation r = 0)"

interpretation leases: state_machine
  leases_fresh "\<lambda>db op db'. db' = lease_step op db" leases_wf
proof unfold_locales
  show "leases_wf db" if "leases_fresh db" for db
    using that by (auto simp: leases_fresh_def leases_wf_def lease_wf_def)
qed (simp add: lease_step_wf)

section \<open>Properties\<close>

definition GetLease :: "string \<Rightarrow> database \<Rightarrow> work_lease_row option" where
  "GetLease name db = find (\<lambda>r. wl_name r = name) (db_leases db)"

lemma lease_rows_unique:
  assumes "leases_wf db" "r \<in> set (db_leases db)" "wl_name r = name"
  shows "GetLease name db = Some r"
  using assms find_unique_key [of wl_name "db_leases db" r] by (simp add: GetLease_def leases_wf_def)

lemma GetLeaseD: "GetLease name db = Some r \<Longrightarrow> r \<in> set (db_leases db) \<and> wl_name r = name"
  using find_SomeD by (fastforce simp: GetLease_def)

lemma lease_row_cong:
  assumes "leases_wf db" "GetLease name db = Some r" "\<And>x. P x \<Longrightarrow> wl_name x = name" "x \<in> set (db_leases db)"
  shows "P x \<longleftrightarrow> x = r \<and> P r"
  using assms lease_rows_unique [OF assms(1,4)] by auto

lemma lease_count:
  assumes "leases_wf db" "GetLease name db = Some r" "\<And>x. P x \<Longrightarrow> wl_name x = name"
  shows "sql_count P (db_leases db) = (if P r then 1 else 0)"
proof (cases "P r")
  case True
  have "sql_count P (db_leases db) \<le> 1"
    using assms(1,3) sql_count_unique_key [of wl_name "db_leases db" P name] by (auto simp: leases_wf_def)
  moreover have "0 < sql_count P (db_leases db)"
    using True GetLeaseD [OF assms(2)] by (auto simp: sql_count_pos_iff)
  ultimately show ?thesis using True by simp
next
  case False
  then show ?thesis using lease_row_cong [OF assms] by (auto simp: sql_count_0_iff)
qed

lemma TryClaim_refused:
  assumes "leases_wf db" "GetLease name db = Some r" "\<not> leaseFree now d name r"
  shows "TryClaimWorkLease None now token name w d db = (Inr (0, 0, False), db)"
proof -
  have "\<forall>x \<in> set (db_leases db). \<not> leaseFree now d name x"
    using lease_row_cong [OF assms(1,2), of "leaseFree now d name"] assms(3) by (auto simp: leaseFree_def)
  then have "find (leaseFree now d name) (db_leases db) = None" by (simp add: find_None_iff)
  then show ?thesis by (simp add: TryClaimWorkLease_def run_tx_def)
qed

lemma TryClaim_ok:
  assumes "leases_wf db" "GetLease name db = Some r" "leaseFree now d name r"
  obtains db' where "TryClaimWorkLease None now token name w d db = (Inr (token, wl_generation r + 1, True), db')"
    "GetLease name db' = Some (r\<lparr>wl_claimed_by := Some w, wl_claim_token := Some token,
        wl_claimed_at := Some now, wl_generation := wl_generation r + 1\<rparr>)"
    "leases_wf db'"
proof -
  let ?f = "\<lambda>r. r\<lparr>wl_claimed_by := Some w, wl_claim_token := Some token, wl_claimed_at := Some now,
    wl_generation := wl_generation r + 1\<rparr>"
  let ?db' = "db\<lparr>db_leases := sql_update (leaseFree now d name) ?f (db_leases db)\<rparr>"
  have find: "find (leaseFree now d name) (db_leases db) = Some r"
  proof -
    obtain x where x: "find (leaseFree now d name) (db_leases db) = Some x"
      using GetLeaseD [OF assms(2)] assms(3) by (metis find_None_iff not_None_eq)
    from find_SomeD [OF this] have "x \<in> set (db_leases db)" "wl_name x = name" by (auto simp: leaseFree_def)
    with assms(2) lease_rows_unique [OF assms(1)] have "x = r" by force
    with x show ?thesis by simp
  qed
  have claim: "TryClaimWorkLease None now token name w d db = (Inr (token, wl_generation r + 1, True), ?db')"
    by (simp add: TryClaimWorkLease_def run_tx_def find)
  have wf: "leases_wf ?db'"
    using lease_step_wf [OF assms(1), of "LClaim None now token name w d"] claim by simp
  have "?f r \<in> set (db_leases ?db')"
    using GetLeaseD [OF assms(2)] assms(3) by (force simp: sql_update_in)
  then have "GetLease name ?db' = Some (?f r)"
    using lease_rows_unique [OF wf] GetLeaseD [OF assms(2)] by simp
  with claim wf that show thesis by blast
qed

text \<open>
  C15. A work lease has one holder. A claim succeeds exactly when the row is free or its last
  renewal is older than the lease, and raises the generation by one. From then on, until the lease
  runs out, no other claim succeeds; a token from an earlier claim can no longer renew the
  lease, and releasing with it changes nothing.
\<close>

theorem work_lease_exclusive:
  assumes "leases_wf db" "GetLease name db = Some r"
    and "TryClaimWorkLease None now token name w d db = (Inr (t, g, ok), db')"
  shows "(ok \<longleftrightarrow> leaseFree now d name r) \<and>
         (ok \<longrightarrow> t = token \<and> g = wl_generation r + 1 \<and>
            (\<forall>now' token' w'. now' - d \<le> now \<longrightarrow>
               TryClaimWorkLease None now' token' name w' d db' = (Inr (0, 0, False), db')) \<and>
            (\<forall>now' w'. fst (RenewWorkLease None now' name w' token db') = Inr (w' = w)) \<and>
            (\<forall>now' old w'. old \<noteq> token \<longrightarrow> fst (RenewWorkLease None now' name w' old db') = Inr False \<and>
               ReleaseWorkLease None name w' old db' = (Inr (), db')))"
proof (cases "leaseFree now d name r")
  case False
  with TryClaim_refused [OF assms(1,2) False, of token w] assms(3) show ?thesis by auto
next
  case True
  obtain db1 where c: "TryClaimWorkLease None now token name w d db = (Inr (token, wl_generation r + 1, True), db1)"
    and get: "GetLease name db1 = Some (r\<lparr>wl_claimed_by := Some w, wl_claim_token := Some token,
        wl_claimed_at := Some now, wl_generation := wl_generation r + 1\<rparr>)" and wf: "leases_wf db1"
    by (rule TryClaim_ok [OF assms(1,2) True])
  have held: "sql_count (leaseHeld name w' t') (db_leases db1) = (if w' = w \<and> t' = token then 1 else 0)" for w' t'
    using lease_count [OF wf get, of "leaseHeld name w' t'"] GetLeaseD [OF assms(2)] by (auto simp: leaseHeld_def)
  have "TryClaimWorkLease None now' token' name w' d db1 = (Inr (0, 0, False), db1)" if "now' - d \<le> now" for now' token' w'
    by (rule TryClaim_refused [OF wf get]) (use that in \<open>simp add: leaseFree_def\<close>)
  moreover have "ReleaseWorkLease None name w' old db1 = (Inr (), db1)" if "old \<noteq> token" for old w'
    using held [of w' old] that by (simp add: ReleaseWorkLease_def run_tx_def sql_update_count_0)
  ultimately show ?thesis
    using assms(3) c True held by (auto simp: RenewWorkLease_def run_tx_def)
qed

definition lease_db :: database where
  "lease_db = empty_db\<lparr>db_leases := [\<lparr>wl_name = ''expire_stale'', wl_claimed_by = None,
     wl_claim_token = None, wl_claimed_at = None, wl_generation = 0\<rparr>]\<rparr>"

lemma lease_db_wf: "leases_wf lease_db"
  by (simp add: lease_db_def leases_wf_def lease_wf_def)

theorem work_lease_exclusive_witness:
  "fst (RenewWorkLease None 20 ''expire_stale'' ''a'' 1
     (snd (TryClaimWorkLease None 10 2 ''expire_stale'' ''b'' 90 lease_db))) = Inr False"
  using work_lease_exclusive [OF lease_db_wf, of "''expire_stale''" _ 10 2 "''b''" 90 2 1 True
      "snd (TryClaimWorkLease None 10 2 ''expire_stale'' ''b'' 90 lease_db)"]
  by (simp add: GetLease_def lease_db_def TryClaimWorkLease_def run_tx_def leaseFree_def)

text \<open>
  The heartbeat of a job: it cancels the job exactly at the first tick that answers "not
  owned", or that fails a lease duration or more after the last renewal that succeeded; shorter
  outages of the database are ridden out, and the cause of the cancellation is always the lost lease.
\<close>

theorem maintainJobLease_spec:
  "(maintainJobLease d t beats = None \<longleftrightarrow>
      (\<forall>n < length beats. case beats ! n of
         (now, Inr owned) \<Rightarrow> owned
       | (now, Inl e) \<Rightarrow> now - last_ok t (take n beats) < d)) \<and>
   (\<forall>err. maintainJobLease d t beats = Some err \<longrightarrow> errorsIs err ErrJobLeaseLost)"
proof -
  have "\<not> job_beat.fatal d s b \<longleftrightarrow> (case b of (now, Inr owned) \<Rightarrow> owned | (now, Inl e) \<Rightarrow> now - s < d)" for s b
    by (auto simp: job_beat.fatal_def split: prod.splits sum.splits)
  then show ?thesis
    using job_beat.loop_cancels_iff [of d t beats] job_beat.loop_cause [of d t beats] by simp
qed

theorem maintainJobLease_spec_witness:
  "\<exists>err. maintainJobLease 90 0 [(15, Inr True), (30, Inl (errorsNew ''dns'')), (45, Inr False)] = Some err \<and>
     errorsIs err ErrJobLeaseLost"
  using maintainJobLease_spec [of 90 0 "[(15, Inr True), (30, Inl (errorsNew ''dns'')), (45, Inr False)]"]
  by auto

lemma RunExclusive_unclaimed:
  assumes "leases_wf db" "GetLease name db = Some r" "\<not> leaseFree t0 leaseDuration90 name r"
  shows "RunExclusive None fltRelease t0 token name w beats parent fn db = (Some (Sentinel ErrNotClaimed), db)"
  by (simp add: RunExclusive_def TryClaim_refused [OF assms])

text \<open>
  Running under a work lease: while another worker holds the lease the run does not start
  and nothing is written, which \<open>TryRun\<close> reports as success; a run that is reported as a success
  really ran under its own lease with the body succeeding and the heartbeat never losing it, and
  its last act is the release with the token of that claim.
\<close>

theorem RunExclusive_spec:
  assumes "leases_wf db" "GetLease name db = Some r"
  shows "(\<not> leaseFree t0 leaseDuration90 name r \<longrightarrow>
            RunExclusive None fltRelease t0 token name w beats parent fn db = (Some (Sentinel ErrNotClaimed), db) \<and>
            TryRun None fltRelease t0 token name w beats parent fn db = (None, db)) \<and>
         (\<forall>db'. RunExclusive None fltRelease t0 token name w beats None fn db = (None, db') \<longrightarrow>
            leaseFree t0 leaseDuration90 name r \<and> maintain t0 beats = None \<and>
            (\<exists>db1. TryClaimWorkLease None t0 token name w leaseDuration90 db = (Inr (token, wl_generation r + 1, True), db1) \<and>
                   fst (fn token (wl_generation r + 1) db1) = None \<and>
                   db' = snd (ReleaseWorkLease fltRelease name w token (snd (fn token (wl_generation r + 1) db1)))))"
proof (cases "leaseFree t0 leaseDuration90 name r")
  case False
  then show ?thesis using RunExclusive_unclaimed [OF assms False] by (simp add: TryRun_def)
next
  case True
  obtain db1 where c: "TryClaimWorkLease None t0 token name w leaseDuration90 db = (Inr (token, wl_generation r + 1, True), db1)"
    by (rule TryClaim_ok [OF assms True])
  obtain e db2 where fn: "fn token (wl_generation r + 1) db1 = (e, db2)" by force
  have "RunExclusive None fltRelease t0 token name w beats None fn db = (None, db') \<Longrightarrow>
      maintain t0 beats = None \<and> e = None \<and> db' = snd (ReleaseWorkLease fltRelease name w token db2)" for db'
  proof (cases "maintain t0 beats")
    case (Some err)
    note cause = work_beat.loop_cause [OF Some]
    assume run: "RunExclusive None fltRelease t0 token name w beats None fn db = (None, db')"
    with c fn Some have "errorsIs err errLeaseFinished \<or> errorsIs err context_Canceled"
      by (auto simp: RunExclusive_def Let_def split: if_splits)
    moreover have "err = Errorf ''work lease lost'' [Sentinel ErrLeaseLost] \<or> err = Errorf ''renew expired'' [Sentinel ErrLeaseLost]"
      using Some by (induction t0 beats rule: maintain.induct) (auto split: sum.splits bool.splits if_splits)
    ultimately show ?thesis by auto
  qed (use c fn in \<open>auto simp: RunExclusive_def Let_def split: if_splits\<close>)
  then show ?thesis using True c fn by auto
qed

theorem RunExclusive_spec_witness:
  "RunExclusive None None 20 5 ''expire_stale'' ''a'' [] None (\<lambda>_ _ d. (None, d\<lparr>db_pods := []\<rparr>))
     (snd (TryClaimWorkLease None 10 2 ''expire_stale'' ''b'' 90 lease_db)) =
   (Some (Sentinel ErrNotClaimed), snd (TryClaimWorkLease None 10 2 ''expire_stale'' ''b'' 90 lease_db))"
proof -
  let ?db = "snd (TryClaimWorkLease None 10 2 ''expire_stale'' ''b'' 90 lease_db)"
  have wf: "leases_wf ?db" using lease_step_wf [OF lease_db_wf, of "LClaim None 10 2 ''expire_stale'' ''b'' 90"] by simp
  have get: "GetLease ''expire_stale'' ?db = Some \<lparr>wl_name = ''expire_stale'', wl_claimed_by = Some ''b'',
      wl_claim_token = Some 2, wl_claimed_at = Some 10, wl_generation = 1\<rparr>"
    by (simp add: GetLease_def lease_db_def TryClaimWorkLease_def run_tx_def leaseFree_def)
  show ?thesis
    by (rule RunExclusive_spec [OF wf get, THEN conjunct1, rule_format, THEN conjunct1])
       (simp add: leaseFree_def seconds_def)
qed

end
