(* ===== verification/Worker.thy ===== *)
theory Worker
  imports Leases
begin

text \<open>
  The job worker: error classification and backoff (\<open>internal/provisioner/retryable.go\<close>), the
  errors that steer compensation, and the lifecycle of one job from the claim to its terminal or
  requeued state (\<open>internal/provisioner/create.go\<close>).
\<close>

section \<open>Steering errors\<close>

definition isPodCreateCleanupRetry :: "go_error \<Rightarrow> bool" where
  "isPodCreateCleanupRetry = errorsAs (\<lambda>ty. ty = podCreateCleanupRetryError)"

definition isCompensationRetryType :: "err_type \<Rightarrow> bool" where
  "isCompensationRetryType ty \<longleftrightarrow> (case ty of compensationRetryError _ \<Rightarrow> True | _ \<Rightarrow> False)"

definition isCompensationRetry :: "go_error \<Rightarrow> bool" where
  "isCompensationRetry err \<longleftrightarrow> errorsAs isCompensationRetryType err \<or> isPodCreateCleanupRetry err"

definition compensationRetryTarget :: "go_error \<Rightarrow> json option" where
  "compensationRetryTarget err =
     (case errorsFind (\<lambda>ty. case ty of compensationRetryError t \<Rightarrow> Some t | _ \<Rightarrow> None) err of
        None \<Rightarrow> None | Some t \<Rightarrow> t)"

definition isCompensatedJobError :: "go_error \<Rightarrow> bool" where
  "isCompensatedJobError = errorsAs (\<lambda>ty. ty = compensatedJobError)"

definition isManualCleanupRequired :: "go_error \<Rightarrow> bool" where
  "isManualCleanupRequired = errorsAs (\<lambda>ty. ty = manualCleanupRequiredError)"

text \<open>\<open>errors.Join\<close> wraps all its arguments, one per line; with none it is nil.\<close>

fun joinLines :: "string list \<Rightarrow> string" where
  "joinLines [] = []"
| "joinLines [s] = s"
| "joinLines (s # ss) = s @ CHR 0x0A # joinLines ss"

definition newPodCreateCleanupRetryError :: "string \<Rightarrow> go_error list \<Rightarrow> go_error" where
  "newPodCreateCleanupRetryError stage cleanupErrs =
     (let joined = (if cleanupErrs = [] then errorsNew ''cleanup failed without a reported cause''
                    else Errorf (joinLines (map errorText cleanupErrs)) cleanupErrs)
      in Typed podCreateCleanupRetryError
           (Errorf (''stale pod_create cleanup incomplete after '' @ stage @ '': '' @ errorText joined) [joined]))"

definition combineProvisioningAndCleanupErrors :: "go_error \<Rightarrow> go_error \<Rightarrow> go_error" where
  "combineProvisioningAndCleanupErrors cause cleanupErr =
     Errorf (errorText cause @ ''; cleanup: '' @ errorText cleanupErr) [cause, cleanupErr]"

definition newPodCreateCompensatedError :: "string \<Rightarrow> go_error" where
  "newPodCreateCompensatedError stage =
     Typed compensatedJobError
       (errorsNew (''pod provisioning failed; compensation completed after '' @ stage))"

definition jobPayloadCleanupOnly :: "job \<Rightarrow> bool" where
  "jobPayloadCleanupOnly j \<longleftrightarrow> pget (j_Payload j) ''cleanup_only'' = Some (JBool True)"

definition classifyPlacementValidationFailure :: "go_error option \<Rightarrow> go_error option" where
  "classifyPlacementValidationFailure e =
     (case e of
        None \<Rightarrow> None
      | Some err \<Rightarrow>
          if isManualCleanupRequired err \<or> isCompensationRetry err \<or> isCompensatedJobError err
          then Some err
          else if errorsIs err ErrPlacementDrift \<or> errorsIs err ErrDRSControlDrift
          then Some (Typed manualCleanupRequiredError err)
          else Some err)"

definition classifyCloneOperationFailure :: "go_error option \<Rightarrow> go_error option" where
  "classifyCloneOperationFailure e =
     (case e of
        None \<Rightarrow> None
      | Some err \<Rightarrow>
          if isManualCleanupRequired err \<or> isCompensationRetry err then Some err
          else if errorsIs err ErrAmbiguousVMOwnership then Some (Typed manualCleanupRequiredError err)
          else classifyPlacementValidationFailure (Some err))"

section \<open>Classification\<close>

datatype retry_reason = RetryReasonTransientClone | RetryReasonConnection | RetryReasonTimeout
  | RetryReasonUnavailable | RetryReasonCleanup

definition quoted :: "string \<Rightarrow> string" where
  "quoted s = CHR 0x22 # s @ [CHR 0x22]"

definition deterministicPhrases :: "string list" where
  "deterministicPhrases =
     [''is not a valid installer ISO datastore path for source_type=iso'',
      ''folder '' @ [CHR 0x27, CHR 0x27] @ '' not found'',
      ''resolves to multiple instances, please specify'',
      ''Failed to authenticate with the guest operating system'',
      ''template_id is required'',
      ''vm_name is required'',
      ''staging_network is required'',
      ''is required'',
      ''expected '' @ quoted ''provisioning'',
      ''expected '' @ quoted ''generalizing'',
      ''expected '' @ quoted ''verifying'',
      ''not found in database'',
      ''template_id not found'',
      ''incorrect user name or password'',
      ''permission denied'',
      ''Permission to perform this operation was denied'']"

definition connectionPhrases :: "string list" where
  "connectionPhrases =
     [''connection reset by peer'', ''connection refused'', ''EOF'', ''io: read/write on closed pipe'',
      ''context deadline exceeded'', ''read tcp'', ''write tcp'', ''NotAuthenticated'',
      ''not authenticated'', ''session is not authenticated'']"

definition timeoutPhrases :: "string list" where
  "timeoutPhrases =
     [''task timeout'', ''timed out waiting'', ''ServerFaultCode: A specified parameter was not correct'']"

definition unavailablePhrases :: "string list" where
  "unavailablePhrases =
     [''resource temporarily unavailable'', ''host is in maintenance mode'', ''all paths down'', ''APD'']"

definition diskFormatFault :: string where
  "diskFormatFault = ''virtual disk is either corrupted or not a supported format''"

definition containsFold :: "string \<Rightarrow> string \<Rightarrow> bool" where
  "containsFold s phrase \<longleftrightarrow> containsStr (toLower s) (toLower phrase)"

text \<open>\<open>None\<close> is \<open>(false, "")\<close>, a reason is \<open>(true, reason)\<close>.\<close>

definition ClassifyError :: "go_error option \<Rightarrow> string \<Rightarrow> retry_reason option" where
  "ClassifyError e jobType =
     (case e of
        None \<Rightarrow> None
      | Some err \<Rightarrow>
          if errorsIs err ErrPodDestroyBlockedByMutator
          then (if jobType = ''vm_destroy'' then Some RetryReasonCleanup else None)
          else if isCompensatedJobError err then None
          else if isManualCleanupRequired err then None
          else if errorsAs isCompensationRetryType err then Some RetryReasonCleanup
          else if isPodCreateCleanupRetry err
          then (if jobType = ''pod_create'' then Some RetryReasonCleanup else None)
          else
            let s = errorText err; lower = toLower s in
            if \<exists>phrase \<in> set deterministicPhrases. containsStr lower (toLower phrase) then None
            else if jobType = ''image_import'' \<and>
                    (errorsIs err ErrJobLeaseLost \<or> containsStr lower ''timedout'' \<or>
                     containsStr lower ''operation timed out'' \<or> containsStr lower ''wait for nfc'' \<or>
                     containsStr lower (''upload '' @ [CHR 0x22]))
            then Some RetryReasonTimeout
            else if errorsIs err ErrPlacementValidationUnavailable then Some RetryReasonUnavailable
            else if errorsIs err errVMPlacementCapacityRelease then Some RetryReasonUnavailable
            else if containsStr s ''stale VM clone'' then Some RetryReasonCleanup
            else if containsStr s diskFormatFault
            then (if jobType \<in> {''template_provision'', ''template_replica_build'', ''pod_create'', ''vm_add''}
                  then Some RetryReasonTransientClone else None)
            else if \<exists>phrase \<in> set connectionPhrases. containsFold s phrase then Some RetryReasonConnection
            else if \<exists>phrase \<in> set timeoutPhrases. containsStr s phrase then Some RetryReasonTimeout
            else if \<exists>phrase \<in> set unavailablePhrases. containsFold s phrase then Some RetryReasonUnavailable
            else None)"

definition jobRetryAvailable :: "job \<Rightarrow> go_error option \<Rightarrow> bool" where
  "jobRetryAvailable j e \<longleftrightarrow> ClassifyError e (j_Type j) \<noteq> None \<and> j_RetryCount j < j_MaxRetries j"

abbreviation ImageImportRetryBudget :: go_time where
  "ImageImportRetryBudget \<equiv> seconds 3600"

definition imageImportRetryWithinBudget :: "job option \<Rightarrow> go_time \<Rightarrow> bool" where
  "imageImportRetryWithinBudget job now =
     (case job of
        None \<Rightarrow> False
      | Some j \<Rightarrow> j_Type j = ''image_import'' \<and> j_CreatedAt j \<noteq> 0 \<and>
                  now < j_CreatedAt j + ImageImportRetryBudget)"

section \<open>Backoff\<close>

abbreviation retryBackoffBase :: go_time where "retryBackoffBase \<equiv> seconds 30"
abbreviation retryBackoffMax :: go_time where "retryBackoffMax \<equiv> seconds 300"
abbreviation cleanupRescheduleBackoffBase :: go_time where "cleanupRescheduleBackoffBase \<equiv> seconds 1"
abbreviation cleanupRescheduleBackoffMax :: go_time where "cleanupRescheduleBackoffMax \<equiv> seconds 30"

text \<open>The doubling loop of both backoffs; the number counts the iterations that are left.\<close>

fun doubling :: "go_time \<Rightarrow> nat \<Rightarrow> go_time \<Rightarrow> go_time" where
  "doubling m 0 delay = delay"
| "doubling m (Suc n) delay =
     (if delay < m then if delay > go_div m 2 then m else doubling m n (delay * 2) else delay)"

text \<open>\<open>rnd bound\<close> is \<open>rand.Int\<close>: a number below the bound, or nothing when the source fails.\<close>

definition RetryBackoff :: "(int \<Rightarrow> int option) \<Rightarrow> int \<Rightarrow> go_time" where
  "RetryBackoff rnd retryCount =
     (let delay = doubling retryBackoffMax (nat retryCount) retryBackoffBase;
          jitterBound = go_div delay 4
      in if jitterBound > 0 then (case rnd jitterBound of None \<Rightarrow> delay | Some n \<Rightarrow> delay + n) else delay)"

definition cleanupRescheduleBackoff :: "int \<Rightarrow> go_time" where
  "cleanupRescheduleBackoff failures =
     (let delay = doubling cleanupRescheduleBackoffMax (nat (failures - 1)) cleanupRescheduleBackoffBase
      in if delay > cleanupRescheduleBackoffMax then cleanupRescheduleBackoffMax else delay)"

section \<open>Messages\<close>

fun digits :: "nat \<Rightarrow> string" where
  "digits n = (if n < 10 then [char_of (48 + n)] else digits (n div 10) @ [char_of (48 + n mod 10)])"

declare digits.simps [simp del]

definition itoa :: "int \<Rightarrow> string" where
  "itoa i = (if i < 0 then ''-'' @ digits (nat (- i)) else digits (nat i))"

text \<open>\<open>d.Round(time.Second).String()\<close> for a duration that is not negative.\<close>

definition durString :: "go_time \<Rightarrow> string" where
  "durString d =
     (let s = (d + seconds 1 div 2) div seconds 1; h = s div 3600; m = s div 60 mod 60
      in (if h > 0 then itoa h @ ''h'' else []) @ (if s \<ge> 60 then itoa m @ ''m'' else []) @
         itoa (s mod 60) @ ''s'')"

text \<open>The dash and the arrow of the message, in UTF-8.\<close>

definition emDash :: string where "emDash = map char_of [226, 128, 148 :: nat]"
definition rightArrow :: string where "rightArrow = map char_of [226, 134, 146 :: nat]"

definition FriendlyError :: "(int \<Rightarrow> int option) \<Rightarrow> go_error option \<Rightarrow> int \<Rightarrow> int \<Rightarrow> string" where
  "FriendlyError rnd e retryCount maxRetries =
     (case e of
        None \<Rightarrow> []
      | Some err \<Rightarrow>
          let s = errorText err in
          if containsStr s diskFormatFault
          then if retryCount \<ge> maxRetries
               then ''vSphere rejected the clone with a transient storage/inventory error ('' @
                    itoa (retryCount + 1) @ '' attempt(s) over ~'' @
                    durString (RetryBackoff rnd 0 * maxRetries) @
                    '').  The error is intermittent '' @ emDash @ '' a manual retry (Template '' @ rightArrow @
                    '' Retry) usually succeeds.  If it persists, check '' @
                    ''datastore health and vCenter task history for the source VM.''
               else ''vSphere rejected the clone (transient storage/inventory error). '' @
                    ''Scheduled for retry '' @ emDash @ '' this usually succeeds on the next attempt.''
          else s)"

section \<open>The result of a failed template provision\<close>

record tpf_result =
  tpf_Error :: string
  tpf_RawError :: string
  tpf_Attempts :: int
  tpf_FirstError :: string
  tpf_FirstRawError :: string
  tpf_FirstAttempt :: int
  tpf_CurrentError :: string
  tpf_CurrentRawError :: string
  tpf_CurrentAttempt :: int

text \<open>
  \<open>json.Unmarshal\<close> into that struct: a missing or null field stays zero, a field of another
  type is an error, and so is a value that is neither an object nor null. Keys are matched exactly.
\<close>

definition str_field :: "payload \<Rightarrow> string \<Rightarrow> string option" where
  "str_field p k = (case pget p k of None \<Rightarrow> Some [] | Some JNull \<Rightarrow> Some [] | Some (JStr s) \<Rightarrow> Some s | Some _ \<Rightarrow> None)"

definition int_field :: "payload \<Rightarrow> string \<Rightarrow> int option" where
  "int_field p k = (case pget p k of None \<Rightarrow> Some 0 | Some JNull \<Rightarrow> Some 0 | Some (JNum n) \<Rightarrow> Some n | Some _ \<Rightarrow> None)"

definition decode_fields :: "payload \<Rightarrow> tpf_result option" where
  "decode_fields p =
     (case (str_field p ''error'', str_field p ''raw_error'', int_field p ''attempts'',
            str_field p ''first_error'', str_field p ''first_raw_error'', int_field p ''first_attempt'',
            str_field p ''current_error'', str_field p ''current_raw_error'', int_field p ''current_attempt'') of
        (Some e, Some re, Some a, Some fe, Some fre, Some fa, Some ce, Some cre, Some ca) \<Rightarrow>
          Some \<lparr>tpf_Error = e, tpf_RawError = re, tpf_Attempts = a, tpf_FirstError = fe,
                tpf_FirstRawError = fre, tpf_FirstAttempt = fa, tpf_CurrentError = ce,
                tpf_CurrentRawError = cre, tpf_CurrentAttempt = ca\<rparr>
      | _ \<Rightarrow> None)"

definition decode_result :: "json \<Rightarrow> tpf_result option" where
  "decode_result v = (case v of JObj p \<Rightarrow> decode_fields p | JNull \<Rightarrow> decode_fields [] | _ \<Rightarrow> None)"

text \<open>\<open>json.Marshal\<close>: the raw errors are \<open>omitempty\<close>.\<close>

definition opt_str :: "string \<Rightarrow> string \<Rightarrow> payload" where
  "opt_str k s = (if s = [] then [] else [(k, JStr s)])"

definition encode_result :: "tpf_result \<Rightarrow> json" where
  "encode_result r = JObj
     ([(''error'', JStr (tpf_Error r))] @ opt_str ''raw_error'' (tpf_RawError r) @
      [(''attempts'', JNum (tpf_Attempts r)), (''first_error'', JStr (tpf_FirstError r))] @
      opt_str ''first_raw_error'' (tpf_FirstRawError r) @
      [(''first_attempt'', JNum (tpf_FirstAttempt r)), (''current_error'', JStr (tpf_CurrentError r))] @
      opt_str ''current_raw_error'' (tpf_CurrentRawError r) @
      [(''current_attempt'', JNum (tpf_CurrentAttempt r))])"

definition with_prior :: "tpf_result option \<Rightarrow> tpf_result \<Rightarrow> tpf_result" where
  "with_prior prior r =
     (case prior of
        None \<Rightarrow> r
      | Some p \<Rightarrow>
          if tpf_FirstError p \<noteq> []
          then r\<lparr>tpf_FirstError := tpf_FirstError p, tpf_FirstRawError := tpf_FirstRawError p,
                 tpf_FirstAttempt := tpf_FirstAttempt p\<rparr>
          else if tpf_Error p \<noteq> []
          then r\<lparr>tpf_FirstError := tpf_Error p, tpf_FirstRawError := tpf_RawError p,
                 tpf_FirstAttempt := tpf_Attempts p\<rparr>
          else r)"

definition marshalTemplateProvisionFailure ::
  "(int \<Rightarrow> int option) \<Rightarrow> json option \<Rightarrow> go_error option \<Rightarrow> int \<Rightarrow> int \<Rightarrow> json" where
  "marshalTemplateProvisionFailure rnd previous cause retryCount maxRetries =
     (let currentError = FriendlyError rnd cause retryCount maxRetries;
          currentRawError = (case cause of
                               None \<Rightarrow> []
                             | Some err \<Rightarrow> if currentError \<noteq> errorText err then errorText err else []);
          attempt = retryCount + 1;
          result = \<lparr>tpf_Error = currentError, tpf_RawError = currentRawError, tpf_Attempts = attempt,
                    tpf_FirstError = currentError, tpf_FirstRawError = currentRawError,
                    tpf_FirstAttempt = attempt, tpf_CurrentError = currentError,
                    tpf_CurrentRawError = currentRawError, tpf_CurrentAttempt = attempt\<rparr>;
          result = with_prior (case previous of None \<Rightarrow> None | Some v \<Rightarrow> decode_result v) result;
          result = (if tpf_FirstAttempt result < 1 then result\<lparr>tpf_FirstAttempt := 1\<rparr> else result)
      in encode_result result)"

section \<open>The life of one job\<close>

text \<open>
  What the worker leaves behind: the database, the progress events it publishes and the
  metrics it records. The text and the timing of an event are left out.
\<close>

datatype metric =
    RecordTemplateJob string
  | RecordJobRetry string retry_reason
  | RecordJobRetryExhausted string
  | RecordTemplateTransition string string

record wworld =
  ww_p :: pworld
  ww_events :: "(uuid \<times> string) list"
  ww_metrics :: "metric list"

definition publish :: "job \<Rightarrow> string \<Rightarrow> wworld \<Rightarrow> wworld" where
  "publish job step x = x\<lparr>ww_events := ww_events x @ [(j_ID job, step)]\<rparr>"

text \<open>Metrics are recorded when a sink is configured.\<close>

definition record_metric :: "bool \<Rightarrow> metric \<Rightarrow> wworld \<Rightarrow> wworld" where
  "record_metric pipeline m x = (if pipeline then x\<lparr>ww_metrics := ww_metrics x @ [m]\<rparr> else x)"

text \<open>One query, with the fault and the time of the next call of the driver.\<close>

definition db_call :: "(go_error option \<Rightarrow> go_time \<Rightarrow> database \<Rightarrow> 'a \<times> database) \<Rightarrow> wworld \<Rightarrow> 'a \<times> wworld" where
  "db_call q x =
     (case next_call (ww_p x) of
        ((flt, now), p) \<Rightarrow>
          (case q flt now (pw_db p) of (r, db') \<Rightarrow> (r, x\<lparr>ww_p := p\<lparr>pw_db := db'\<rparr>\<rparr>)))"

definition isTemplateJobType :: "string \<Rightarrow> bool" where
  "isTemplateJobType t \<longleftrightarrow>
     t \<in> {''template_provision'', ''template_generalize'', ''template_verify'', ''template_revalidate'',
          ''template_health_confirm'', ''template_replica_build''}"

text \<open>
  \<open>persistCleanupRetry\<close> tries until it succeeds or the worker is stopped; the number says how
  many more attempts the worker lives to make after this one.
\<close>

fun persistCleanupRetry ::
  "(int \<Rightarrow> int option) \<Rightarrow> nat \<Rightarrow> job \<Rightarrow> string \<Rightarrow> json option \<Rightarrow> wworld \<Rightarrow> go_time result \<times> wworld"
where
  "persistCleanupRetry rnd n job workerID cleanupTarget x =
     (case db_call (\<lambda>flt now db.
              case RetryJob flt (j_ID job) (now + RetryBackoff rnd (j_RetryCount job)) True cleanupTarget workerID db of
                (r, db') \<Rightarrow> ((r, now + RetryBackoff rnd (j_RetryCount job)), db')) x of
        ((Inr _, nextAt), x') \<Rightarrow> (Inr nextAt, x')
      | ((Inl _, _), x') \<Rightarrow>
          (case n of
             0 \<Rightarrow> (Inl (Errorf ''worker stopped before cleanup retry was persisted'' [Sentinel context_Canceled]), x')
           | Suc m \<Rightarrow> persistCleanupRetry rnd m job workerID cleanupTarget x'))"

declare persistCleanupRetry.simps [simp del]

text \<open>The settings of a run: the random source, the time of the failure, the shutdown, the sink.\<close>

record run_env =
  re_rnd :: "int \<Rightarrow> int option"
  re_now :: go_time
  re_attempts :: nat
  re_pipeline :: bool
  re_uparse :: "string \<Rightarrow> uuid option"

text \<open>The decision on a failed job: reason to retry, cleanup-only, retry available.\<close>

definition retry_decision :: "run_env \<Rightarrow> job \<Rightarrow> go_error \<Rightarrow> retry_reason option \<times> bool \<times> bool" where
  "retry_decision env job err =
     (let cleanupOnly = (jobPayloadCleanupOnly job \<or> isCompensationRetry err);
          reason = (if cleanupOnly \<and> \<not> errorsIs err ErrTemplateReplicaBuildJobObsolete \<and>
                       \<not> isCompensatedJobError err \<and> \<not> isManualCleanupRequired err
                    then Some RetryReasonCleanup else ClassifyError (Some err) (j_Type job));
          retryAvailable = (if j_Type job = ''image_import'' \<and> \<not> cleanupOnly
                            then imageImportRetryWithinBudget (Some job) (re_now env)
                            else cleanupOnly \<or> j_RetryCount job < j_MaxRetries job)
      in (reason, cleanupOnly, retryAvailable))"

text \<open>Writing the retry, by the kind of job.\<close>

definition schedule_retry ::
  "run_env \<Rightarrow> job \<Rightarrow> string \<Rightarrow> bool \<Rightarrow> go_error \<Rightarrow> wworld \<Rightarrow> unit result \<times> wworld" where
  "schedule_retry env job workerID cleanupOnly err x =
     (if cleanupOnly
      then (case persistCleanupRetry (re_rnd env) (re_attempts env) job workerID (compensationRetryTarget err) x of
              (Inl e, x') \<Rightarrow> (Inl e, x') | (Inr _, x') \<Rightarrow> (Inr (), x'))
      else if j_Type job = ''template_provision''
      then db_call (\<lambda>flt now. RetryTemplateProvisionJob flt (j_ID job)
                      (re_now env + RetryBackoff (re_rnd env) (j_RetryCount job))
                      (Some (marshalTemplateProvisionFailure (re_rnd env) (j_Result job) (Some err)
                               (j_RetryCount job) (j_MaxRetries job))) workerID) x
      else db_call (\<lambda>flt now. RetryJob flt (j_ID job)
                      (re_now env + RetryBackoff (re_rnd env) (j_RetryCount job)) False
                      (compensationRetryTarget err) workerID) x)"

definition job_result :: "run_env \<Rightarrow> job \<Rightarrow> go_error \<Rightarrow> json" where
  "job_result env job err =
     (let friendly = FriendlyError (re_rnd env) (Some err) (j_RetryCount job) (j_MaxRetries job)
      in JObj ([(''error'', JStr friendly)] @
               (if friendly \<noteq> errorText err then opt_str ''raw_error'' (errorText err) else []) @
               [(''attempts'', JNum (j_RetryCount job + 1))] @
               (if isCompensatedJobError err then [(''compensated'', JBool True)] else []) @
               (if isManualCleanupRequired err then [(''manual_cleanup_required'', JBool True)] else [])))"

definition terminal_failure ::
  "run_env \<Rightarrow> job \<Rightarrow> string \<Rightarrow> bool \<Rightarrow> go_error \<Rightarrow> wworld \<Rightarrow> go_error option \<times> wworld" where
  "terminal_failure env job workerID retryExhausted err x =
     (let event = (if isCompensatedJobError err then ''compensated''
                   else if isManualCleanupRequired err then ''manual_cleanup_required'' else ''failed'') in
      if j_Type job = ''template_provision''
      then (case db_call (\<lambda>flt now. FailTemplateProvisionJob (re_uparse env) flt now (j_ID job) workerID
                   (Some (marshalTemplateProvisionFailure (re_rnd env) (j_Result job) (Some err)
                            (j_RetryCount job) (j_MaxRetries job)))) x of
              (Inl e, x') \<Rightarrow> (Some (Errorf ''persist terminal template provision failure'' [e]), x')
            | (Inr transitioned, x') \<Rightarrow>
                let x1 = (if transitioned
                          then record_metric (re_pipeline env)
                                 (RecordTemplateTransition TemplateStateProvisioning TemplateStateError) x' else x');
                    x2 = (if retryExhausted
                          then record_metric (re_pipeline env) (RecordJobRetryExhausted (j_Type job)) x1 else x1)
                in (Some err, publish job event x2))
      else
        let x1 = (if retryExhausted
                  then record_metric (re_pipeline env) (RecordJobRetryExhausted (j_Type job)) x else x) in
        (case db_call (\<lambda>flt now. UpdateJobStatus flt now (j_ID job) workerID JobStatusFailed
                  (Some (job_result env job err))) x1 of
           (Inl e, x') \<Rightarrow> (Some (Errorf ''persist terminal job status'' [e]), x')
         | (Inr _, x') \<Rightarrow> (Some err, publish job event x')))"

definition handle_failure ::
  "run_env \<Rightarrow> job \<Rightarrow> string \<Rightarrow> go_error \<Rightarrow> wworld \<Rightarrow> go_error option \<times> wworld" where
  "handle_failure env job workerID err x =
     (case retry_decision env job err of
        (reason, cleanupOnly, retryAvailable) \<Rightarrow>
          let exhausted = (reason \<noteq> None \<and> \<not> cleanupOnly \<and> \<not> retryAvailable) in
          (case reason of
             Some why \<Rightarrow>
               if retryAvailable
               then (case schedule_retry env job workerID cleanupOnly err x of
                       (Inr _, x') \<Rightarrow>
                         (None, publish job ''retry_scheduled''
                                  (record_metric (re_pipeline env) (RecordJobRetry (j_Type job) why) x'))
                     | (Inl e, x') \<Rightarrow>
                         if cleanupOnly then (Some (Errorf ''reschedule durable cleanup'' [e]), x')
                         else if j_Type job = ''template_provision''
                         then (Some (Errorf ''persist template provision retry'' [e]), x')
                         else terminal_failure env job workerID exhausted err x')
               else terminal_failure env job workerID exhausted err x
           | None \<Rightarrow> terminal_failure env job workerID exhausted err x))"

text \<open>
  \<open>processJobLifecycle\<close>; \<open>dispatch\<close> is the body of the job. The duration metric of template jobs
  is recorded by a deferred call, hence last.
\<close>

definition processJobLifecycle ::
  "run_env \<Rightarrow> job \<Rightarrow> (job \<Rightarrow> wworld \<Rightarrow> go_error option \<times> wworld) \<Rightarrow> wworld \<Rightarrow> go_error option \<times> wworld" where
  "processJobLifecycle env job dispatch x =
     (case claimedJobLease (Some job) of
        Inl e \<Rightarrow> (Some e, x)
      | Inr (workerID, _) \<Rightarrow>
          (case db_call (\<lambda>flt now. UpdateJobStatus flt now (j_ID job) workerID JobStatusInProgress None) x of
             (Inl e, x1) \<Rightarrow> (Some (Errorf ''update job status'' [e]), x1)
           | (Inr _, x1) \<Rightarrow>
               (case dispatch job (publish job ''started'' x1) of
                  (derr, x2) \<Rightarrow>
                    (case (case classifyPlacementValidationFailure derr of
                             Some err \<Rightarrow> handle_failure env job workerID err x2
                           | None \<Rightarrow>
                               (case db_call (\<lambda>flt now. UpdateJobStatus flt now (j_ID job) workerID JobStatusCompleted
                                         (Some (JObj [(''message'', JStr ''completed successfully'')]))) x2 of
                                  (Inl e, x3) \<Rightarrow> (Some (Errorf ''persist completed job status'' [e]), x3)
                                | (Inr _, x3) \<Rightarrow> (None, publish job ''completed'' x3))) of
                       (res, x4) \<Rightarrow>
                         (res, if isTemplateJobType (j_Type job)
                               then record_metric (re_pipeline env) (RecordTemplateJob (j_Type job)) x4 else x4)))))"

section \<open>Properties of classification and backoff\<close>

lemma doubling_min:
  assumes "0 < d" "d \<le> m"
  shows "doubling m n d = min (d * 2 ^ n) m"
  using assms
proof (induction n arbitrary: d)
  case 0
  then show ?case by simp
next
  case (Suc n)
  have big: "m \<le> e * 2 ^ k" if "m \<le> e" "0 < e" for e :: int and k
    using that mult_mono [of m e 1 "2 ^ k"] by simp
  show ?case
  proof (cases "d < m")
    case False
    with Suc.prems big [of d "Suc n"] show ?thesis by simp
  next
    case True
    show ?thesis
    proof (cases "d > m div 2")
      case half: True
      then have "m \<le> d * 2" by simp
      with big [of "d * 2" n] Suc.prems have "m \<le> d * 2 ^ Suc n" by (simp add: mult.assoc)
      with True half Suc.prems show ?thesis by (simp add: go_div_nonneg)
    next
      case False
      then have "d * 2 \<le> m" by simp
      with True False Suc show ?thesis by (simp add: go_div_nonneg mult.assoc)
    qed
  qed
qed

text \<open>
  C22. Both backoffs double and are capped: a job retry waits 30 seconds times two to the
  number of earlier retries, at most five minutes, plus a jitter below a quarter of that; the
  rescheduling of a cleanup waits one second times two to the number of failures less one, at most
  thirty seconds.
\<close>

theorem backoff_bounds:
  assumes "\<And>b n. rnd b = Some n \<Longrightarrow> 0 \<le> n \<and> n < b"
  shows "min (seconds 30 * 2 ^ nat k) (seconds 300) \<le> RetryBackoff rnd k \<and>
         4 * RetryBackoff rnd k \<le> 5 * min (seconds 30 * 2 ^ nat k) (seconds 300) \<and>
         cleanupRescheduleBackoff f = min (seconds 1 * 2 ^ nat (f - 1)) (seconds 30)"
proof -
  define d where "d = min (seconds 30 * 2 ^ nat k) (seconds 300)"
  have loop: "doubling (seconds 300) (nat k) (seconds 30) = d"
    unfolding d_def by (rule doubling_min) (simp_all add: seconds_def)
  have "seconds 30 * 1 \<le> seconds 30 * 2 ^ nat k"
    by (rule mult_left_mono) (simp_all add: seconds_def)
  then have d: "seconds 30 \<le> d" by (simp add: d_def)
  then have "0 < d div 4" "go_div d 4 = d div 4" by (simp_all add: seconds_def go_div_nonneg)
  then have "RetryBackoff rnd k = (case rnd (d div 4) of None \<Rightarrow> d | Some n \<Rightarrow> d + n)"
    by (simp add: RetryBackoff_def loop Let_def)
  moreover have "0 \<le> n \<and> 4 * n \<le> d" if "rnd (d div 4) = Some n" for n
    using assms [OF that] by auto
  ultimately have "d \<le> RetryBackoff rnd k \<and> 4 * RetryBackoff rnd k \<le> 5 * d"
    using d by (auto simp: seconds_def split: option.splits)
  moreover have "cleanupRescheduleBackoff f = min (seconds 1 * 2 ^ nat (f - 1)) (seconds 30)"
  proof -
    have "doubling (seconds 30) (nat (f - 1)) (seconds 1) = min (seconds 1 * 2 ^ nat (f - 1)) (seconds 30)"
      by (rule doubling_min) (simp_all add: seconds_def)
    then show ?thesis by (simp add: cleanupRescheduleBackoff_def Let_def)
  qed
  ultimately show ?thesis by (simp add: d_def)
qed

theorem backoff_bounds_witness:
  "RetryBackoff (\<lambda>b. if 0 < b then Some (b - 1) else None) 9 \<le> seconds 375"
proof -
  have "0 \<le> n \<and> n < b" if "(if 0 < b then Some (b - 1) else None) = Some n" for b n :: int
    using that by (auto split: if_splits)
  from backoff_bounds [of "\<lambda>b. if 0 < b then Some (b - 1) else None", OF this, of 9 0] show ?thesis by (simp add: seconds_def)
qed

text \<open>The texts that make an error retryable, with the phrases as the code matches them.\<close>

definition transient_text :: "string \<Rightarrow> bool" where
  "transient_text s \<longleftrightarrow>
     containsStr (toLower s) ''timedout'' \<or> containsStr (toLower s) ''operation timed out'' \<or>
     containsStr (toLower s) ''wait for nfc'' \<or> containsStr (toLower s) (''upload '' @ [CHR 0x22]) \<or>
     containsStr s ''stale VM clone'' \<or> containsStr s diskFormatFault \<or>
     (\<exists>p \<in> set connectionPhrases. containsFold s p) \<or> (\<exists>p \<in> set timeoutPhrases. containsStr s p) \<or>
     (\<exists>p \<in> set unavailablePhrases. containsFold s p)"



lemma decode_encode_result: "decode_result (encode_result r) = Some r"
  by (simp add: decode_result_def encode_result_def decode_fields_def str_field_def int_field_def pget_def opt_str_def)

text \<open>
  The first failure of a template provision is kept: whatever the later attempts report,
  the result decodes to the first error, raw error and attempt of the result before it, next to
  the current failure.
\<close>

theorem first_failure_kept:
  assumes "decode_result v = Some prior" "tpf_FirstError prior \<noteq> []" "1 \<le> tpf_FirstAttempt prior"
  shows "\<exists>r. decode_result (marshalTemplateProvisionFailure rnd (Some v) (Some err) rc mr) = Some r \<and>
             tpf_FirstError r = tpf_FirstError prior \<and> tpf_FirstRawError r = tpf_FirstRawError prior \<and>
             tpf_FirstAttempt r = tpf_FirstAttempt prior \<and>
             tpf_CurrentError r = FriendlyError rnd (Some err) rc mr \<and> tpf_CurrentAttempt r = rc + 1"
  using assms by (simp add: marshalTemplateProvisionFailure_def Let_def with_prior_def decode_encode_result)

theorem first_failure_kept_witness:
  "\<exists>r. decode_result (marshalTemplateProvisionFailure (\<lambda>_. None)
         (Some (JObj [(''first_error'', JStr ''disk full''), (''first_attempt'', JNum 1)]))
         (Some (errorsNew ''timeout'')) 1 3) = Some r \<and> tpf_FirstError r = ''disk full''"
  using first_failure_kept [of "JObj [(''first_error'', JStr ''disk full''), (''first_attempt'', JNum 1)]" _
      "\<lambda>_. None" "errorsNew ''timeout''" 1 3]
  by (auto simp: decode_result_def decode_fields_def str_field_def int_field_def pget_def)

section \<open>Every job is settled\<close>

abbreviation wdb :: "wworld \<Rightarrow> database" where
  "wdb x \<equiv> pw_db (ww_p x)"

text \<open>A well-formed queue and a driver whose calls get through.\<close>

definition healthy :: "wworld \<Rightarrow> bool" where
  "healthy x \<longleftrightarrow> queue_wf (wdb x) \<and> (\<forall>c \<in> set (pw_calls (ww_p x)). fst c = None)"

lemma healthy_publish [simp]: "healthy (publish job step x) = healthy x" "wdb (publish job step x) = wdb x"
  by (simp_all add: healthy_def publish_def)

lemma healthy_metric [simp]: "healthy (record_metric b m x) = healthy x" "wdb (record_metric b m x) = wdb x"
  by (simp_all add: healthy_def record_metric_def)

lemma db_call_healthy:
  assumes "healthy x"
    and "\<And>now db'. queue_wf (wdb x) \<Longrightarrow> Q now (fst (q None now (wdb x))) (snd (q None now (wdb x)))"
    and "\<And>now db'. queue_wf (wdb x) \<Longrightarrow> queue_wf (snd (q None now (wdb x)))"
  shows "\<exists>now r x'. db_call q x = (r, x') \<and> healthy x' \<and> Q now r (wdb x')"
proof -
  obtain flt now p where c: "next_call (ww_p x) = ((flt, now), p)" by (metis surj_pair)
  have p: "pw_db p = wdb x" "flt = None" "\<forall>c \<in> set (pw_calls p). fst c = None"
    using c assms(1) by (auto simp: next_call_def healthy_def split: list.splits)
  obtain r db' where q: "q None now (wdb x) = (r, db')" by force
  have "queue_wf (wdb x)" using assms(1) by (simp add: healthy_def)
  from assms(2,3) [OF this, of now] q have "Q now r db'" "queue_wf db'" by auto
  then show ?thesis
    using c p q by (auto simp: db_call_def healthy_def)
qed

lemma exec_owned_row:
  assumes "queue_wf db" "GetJob i db = Some j" "P j" "\<And>r. P r \<Longrightarrow> j_ID r = i" "\<And>r. j_ID (f r) = j_ID r"
  shows "\<exists>db'. run_tx None (exec_owned P f msg) db = (Inr (), db') \<and> GetJob i db' = Some (f j)"
proof -
  have d: "distinct (map j_ID (db_jobs db))" using assms(1) by (simp add: queue_wf_def)
  have j: "j \<in> set (db_jobs db)" using find_SomeD assms(2) by (fastforce simp: GetJob_def)
  have "sql_count P (db_jobs db) \<le> 1" using sql_count_unique_key [OF d assms(4)] .
  moreover have "0 < sql_count P (db_jobs db)" using j assms(3) by (auto simp: sql_count_pos_iff)
  ultimately have n: "sql_count P (db_jobs db) = 1" by simp
  from owned_update_get [OF assms(1) n assms(4,5)] assms(2)
  have "GetJob i (db\<lparr>db_jobs := sql_update P f (db_jobs db)\<rparr>) = Some (f j)" by auto
  with n show ?thesis by (simp add: exec_owned_def)
qed

text \<open>The row the worker holds while the body of the job runs.\<close>

definition holds :: "string \<Rightarrow> uuid \<Rightarrow> job_status \<Rightarrow> job \<Rightarrow> wworld \<Rightarrow> bool" where
  "holds w i st j x \<longleftrightarrow> healthy x \<and> GetJob i (wdb x) = Some j \<and> j_ID j = i \<and> j_ClaimedBy j = Some w \<and> j_Status j = st"

lemma UpdateJobStatus_row:
  assumes "queue_wf db" "GetJob i db = Some j" "j_ID j = i" "j_ClaimedBy j = Some w"
    and "\<not> (st = JobStatusCompleted \<and> ptrue (j_Payload j) ''cleanup_only'' \<and> j_Type j \<noteq> ''template_replica_build'')"
    and "st = JobStatusInProgress \<and> j_Status j = JobStatusClaimed \<or> terminalStatus st \<and> j_Status j = JobStatusInProgress"
  shows "\<exists>db' j'. UpdateJobStatus None now i w st res db = (Inr (), db') \<and> GetJob i db' = Some j' \<and>
           j_Status j' = st \<and> j_ClaimedBy j' = Some w \<and> j_ID j' = i \<and> j_RetryCount j' = j_RetryCount j \<and>
           j_Payload j' = j_Payload j \<and> j_Type j' = j_Type j"
proof -
  let ?P = "\<lambda>j. j_ID j = i \<and> j_ClaimedBy j = Some w \<and>
            \<not> (st = JobStatusCompleted \<and> ptrue (j_Payload j) ''cleanup_only'' \<and>
               j_Type j \<noteq> ''template_replica_build'') \<and>
            (st = JobStatusInProgress \<and> j_Status j = JobStatusClaimed \<or>
             terminalStatus st \<and> j_Status j = JobStatusInProgress)"
  have P: "?P j" using assms by simp
  show ?thesis
    using exec_owned_row [where P = ?P and j = j and msg = "''job is not owned for status''"
        and f = "\<lambda>j. j\<lparr>j_Status := st,
              j_Result := (if st = JobStatusInProgress \<and> j_Type j = ''template_provision'' \<and>
                              res = None then j_Result j else res),
              j_StartedAt := (if st = JobStatusInProgress \<and> j_StartedAt j = None
                              then Some now else j_StartedAt j),
              j_CompletedAt := (if terminalStatus st then Some now else j_CompletedAt j),
              j_ClaimedAt := (if st = JobStatusInProgress then Some now else j_ClaimedAt j)\<rparr>",
        OF assms(1,2) P] assms(3,4)
    unfolding UpdateJobStatus_def by auto
qed

lemma status_call:
  assumes "holds w i st0 j x"
    and "\<not> (st = JobStatusCompleted \<and> ptrue (j_Payload j) ''cleanup_only'' \<and> j_Type j \<noteq> ''template_replica_build'')"
    and "st = JobStatusInProgress \<and> st0 = JobStatusClaimed \<or> terminalStatus st \<and> st0 = JobStatusInProgress"
  shows "\<exists>x' j'. db_call (\<lambda>flt now. UpdateJobStatus flt now i w st res) x = (Inr (), x') \<and>
           holds w i st j' x' \<and> j_RetryCount j' = j_RetryCount j \<and> j_Payload j' = j_Payload j \<and> j_Type j' = j_Type j"
proof -
  let ?Q = "\<lambda>(now :: go_time) r db'. r = Inr () \<and> (\<exists>j'. GetJob i db' = Some j' \<and> j_Status j' = st \<and> j_ClaimedBy j' = Some w \<and>
      j_ID j' = i \<and> j_RetryCount j' = j_RetryCount j \<and> j_Payload j' = j_Payload j \<and> j_Type j' = j_Type j)"
  have "\<exists>now r x'. db_call (\<lambda>flt now. UpdateJobStatus flt now i w st res) x = (r, x') \<and> healthy x' \<and> ?Q now r (wdb x')"
  proof (rule db_call_healthy [where Q = ?Q])
    show "healthy x" using assms(1) by (simp add: holds_def)
    show "?Q now (fst (UpdateJobStatus None now i w st res (wdb x))) (snd (UpdateJobStatus None now i w st res (wdb x)))"
      if "queue_wf (wdb x)" for now
      using UpdateJobStatus_row [OF that, of i j w st now res] assms by (auto simp: holds_def)
    show "queue_wf (snd (UpdateJobStatus None now i w st res (wdb x)))" if "queue_wf (wdb x)" for now
      using job_step_wf [OF that, of "OpStatus None now i w st res"] by simp
  qed
  then show ?thesis by (auto simp: holds_def)
qed

lemma retry_call:
  assumes "holds w i JobStatusInProgress j x"
  shows "\<exists>x' j' now. db_call (\<lambda>flt now db. case RetryJob flt i (nextAt now) c t w db of (r, db') \<Rightarrow> ((r, g now), db')) x = ((Inr (), g now), x') \<and>
           healthy x' \<and> GetJob i (wdb x') = Some j' \<and> j' = requeued (nextAt now) c t j"
proof -
  have own: "ownedBy i w j" using assms by (simp add: holds_def ownedBy_def activeStatus_def)
  let ?q = "\<lambda>flt now db. case RetryJob flt i (nextAt now) c t w db of (r, db') \<Rightarrow> ((r, g now), db')"
  let ?Q = "\<lambda>now r db'. r = (Inr (), g now) \<and> GetJob i db' = Some (requeued (nextAt now) c t j)"
  have "\<exists>now r x'. db_call ?q x = (r, x') \<and> healthy x' \<and> ?Q now r (wdb x')"
  proof (rule db_call_healthy [where Q = ?Q])
    show "healthy x" using assms by (simp add: holds_def)
    fix now assume wf: "queue_wf (wdb x)"
    have j: "j \<in> set (db_jobs (wdb x))" using assms find_SomeD by (fastforce simp: GetJob_def holds_def)
    have n: "sql_count (ownedBy i w) (db_jobs (wdb x)) = 1"
      using sql_count_unique_key [of j_ID "db_jobs (wdb x)" "ownedBy i w" i] wf j own
        sql_count_pos_iff [of "ownedBy i w" "db_jobs (wdb x)"]
      by (auto simp: queue_wf_def ownedBy_def [of i w])
    from owned_update_get [OF wf n, of i "requeued (nextAt now) c t"] assms
    have "GetJob i ((wdb x)\<lparr>db_jobs := sql_update (ownedBy i w) (requeued (nextAt now) c t) (db_jobs (wdb x))\<rparr>) =
        Some (requeued (nextAt now) c t j)"
      by (auto simp: ownedBy_def requeued_def holds_def)
    then show "?Q now (fst (?q None now (wdb x))) (snd (?q None now (wdb x)))"
      by (simp add: RetryJob_owned [OF j own])
    show "queue_wf (snd (?q None now (wdb x)))"
      using job_step_wf [OF wf, of "OpRetry None i (nextAt now) c t w"] by (auto split: prod.splits)
  qed
  then show ?thesis by blast
qed

text \<open>
  What the body of a job is trusted with: it keeps the claim (nobody recovers or finishes the
  row meanwhile), the retry count and the type, and reports success only when the row is not
  marked cleanup-only.
\<close>

definition body_ok :: "string \<Rightarrow> job \<Rightarrow> (job \<Rightarrow> wworld \<Rightarrow> go_error option \<times> wworld) \<Rightarrow> bool" where
  "body_ok w job dispatch \<longleftrightarrow>
     (\<forall>y j1. holds w (j_ID job) JobStatusInProgress j1 y \<longrightarrow>
        (\<exists>j2. holds w (j_ID job) JobStatusInProgress j2 (snd (dispatch job y)) \<and>
              j_RetryCount j2 = j_RetryCount j1 \<and> j_Type j2 = j_Type j1 \<and>
              (fst (dispatch job y) = None \<longrightarrow>
                 \<not> ptrue (j_Payload j2) ''cleanup_only'' \<or> j_Type j2 = ''template_replica_build'')))"

text \<open>The three ways a job is settled.\<close>

definition settled :: "job \<Rightarrow> go_error option \<Rightarrow> wworld \<Rightarrow> bool" where
  "settled job res x \<longleftrightarrow> healthy x \<and> (\<exists>j. GetJob (j_ID job) (wdb x) = Some j \<and>
     (j_Status j = JobStatusCompleted \<and> res = None \<or>
      j_Status j = JobStatusFailed \<and> res \<noteq> None \<or>
      j_Status j = JobStatusPending \<and> res = None \<and> j_ClaimedBy j = None \<and> j_NextAttemptAt j \<noteq> None \<and>
      j_RetryCount j = j_RetryCount job + 1 \<and>
      (ptrue (j_Payload j) ''cleanup_only'' \<or> j_Type job = ''image_import'' \<or>
       j_RetryCount job < j_MaxRetries job)))"

lemma settled_frame [simp]:
  "settled job res (publish j s x) = settled job res x"
  "settled job res (record_metric b m x) = settled job res x"
  by (simp_all add: settled_def)

lemma terminal_failure_settles:
  assumes "holds w (j_ID job) JobStatusInProgress j x" "j_Type job \<noteq> ''template_provision''"
    and "terminal_failure env job w b err x = (res, x')"
  shows "settled job res x'"
proof -
  let ?x1 = "if b then record_metric (re_pipeline env) (RecordJobRetryExhausted (j_Type job)) x else x"
  have "holds w (j_ID job) JobStatusInProgress j ?x1" using assms(1) by (simp add: holds_def)
  from status_call [OF this, of JobStatusFailed "Some (job_result env job err)"]
  obtain x2 j' where c: "db_call (\<lambda>flt now. UpdateJobStatus flt now (j_ID job) w JobStatusFailed
        (Some (job_result env job err))) ?x1 = (Inr (), x2)" and "holds w (j_ID job) JobStatusFailed j' x2"
    by (auto simp: terminalStatus_def)
  then have "settled job (Some err) x2" by (auto simp: settled_def holds_def)
  then show ?thesis using assms(2,3) c by (auto simp: terminal_failure_def Let_def)
qed

lemma requeued_settles:
  assumes "healthy x'" "GetJob (j_ID job) (wdb x') = Some (requeued nextAt c t j)" "j_RetryCount j = j_RetryCount job"
    and "c \<or> j_Type job = ''image_import'' \<or> j_RetryCount job < j_MaxRetries job"
  shows "settled job None x'"
  using assms by (auto simp: settled_def requeued_def retry_payload_def split: option.splits)

lemma persistCleanupRetry_settles:
  assumes "holds w (j_ID job) JobStatusInProgress j x" "j_RetryCount j = j_RetryCount job"
  shows "\<exists>nextAt x'. persistCleanupRetry rnd n job w t x = (Inr nextAt, x') \<and> settled job None x'"
proof -
  from retry_call [OF assms(1), where nextAt = "\<lambda>now. now + RetryBackoff rnd (j_RetryCount job)"
      and c = True and t = t and g = "\<lambda>now. now + RetryBackoff rnd (j_RetryCount job)"]
  obtain x' now where "db_call (\<lambda>flt now db. case RetryJob flt (j_ID job) (now + RetryBackoff rnd (j_RetryCount job)) True t w db
          of (r, db') \<Rightarrow> ((r, now + RetryBackoff rnd (j_RetryCount job)), db')) x =
        ((Inr (), now + RetryBackoff rnd (j_RetryCount job)), x')"
    and "healthy x'" "GetJob (j_ID job) (wdb x') = Some (requeued (now + RetryBackoff rnd (j_RetryCount job)) True t j)"
    by auto
  with requeued_settles [of x' job _ True t j] assms(2) show ?thesis
    by (subst persistCleanupRetry.simps) auto
qed

lemma schedule_retry_settles:
  assumes "holds w (j_ID job) JobStatusInProgress j x" "j_RetryCount j = j_RetryCount job"
    and "j_Type job \<noteq> ''template_provision''"
    and "c \<or> j_Type job = ''image_import'' \<or> j_RetryCount job < j_MaxRetries job"
  shows "\<exists>x'. schedule_retry env job w c err x = (Inr (), x') \<and> settled job None x'"
proof (cases c)
  case True
  from persistCleanupRetry_settles [OF assms(1,2)] obtain nextAt x' where
    "persistCleanupRetry (re_rnd env) (re_attempts env) job w (compensationRetryTarget err) x = (Inr nextAt, x')"
    "settled job None x'" by blast
  then show ?thesis using True by (simp add: schedule_retry_def)
next
  case False
  let ?next = "re_now env + RetryBackoff (re_rnd env) (j_RetryCount job)"
  from retry_call [OF assms(1), where nextAt = "\<lambda>_. ?next" and c = False
      and t = "compensationRetryTarget err" and g = "\<lambda>_. ()"]
  obtain x' where call: "db_call (\<lambda>flt now db. case RetryJob flt (j_ID job) ?next False (compensationRetryTarget err) w db
          of (r, db') \<Rightarrow> ((r, ()), db')) x = ((Inr (), ()), x')"
    and x': "healthy x'" "GetJob (j_ID job) (wdb x') = Some (requeued ?next False (compensationRetryTarget err) j)"
    by auto
  have "db_call (\<lambda>flt now. RetryJob flt (j_ID job) ?next False (compensationRetryTarget err) w) x = (Inr (), x')"
    using call by (auto simp: db_call_def split: prod.splits)
  then show ?thesis
    using False assms(3) requeued_settles [OF x' assms(2)] assms(4) by (auto simp: schedule_retry_def)
qed

lemma retry_decision_available:
  assumes "retry_decision env job err = (reason, c, True)"
  shows "c \<or> j_Type job = ''image_import'' \<or> j_RetryCount job < j_MaxRetries job"
  using assms by (auto simp: retry_decision_def Let_def split: if_splits)

lemma handle_failure_settles:
  assumes "holds w (j_ID job) JobStatusInProgress j x" "j_RetryCount j = j_RetryCount job"
    and "j_Type job \<noteq> ''template_provision''" "handle_failure env job w err x = (res, x')"
  shows "settled job res x'"
proof -
  obtain reason c avail where d: "retry_decision env job err = (reason, c, avail)" by (metis surj_pair)
  show ?thesis
  proof (cases "reason \<noteq> None \<and> avail")
    case True
    then obtain why where why: "reason = Some why" by auto
    from schedule_retry_settles [OF assms(1-3), of c env err] retry_decision_available [of env job err reason c] d True
    obtain y where "schedule_retry env job w c err x = (Inr (), y)" "settled job None y" by auto
    with assms(4) d why True show ?thesis by (auto simp: handle_failure_def Let_def)
  next
    case False
    with assms(4) d terminal_failure_settles [OF assms(1,3)] show ?thesis
      by (auto simp: handle_failure_def Let_def split: option.splits if_splits)
  qed
qed


definition failing_run :: "go_error option \<times> wworld" where
  "failing_run = processJobLifecycle
     \<lparr>re_rnd = \<lambda>_. None, re_now = 50, re_attempts = 0, re_pipeline = True, re_uparse = \<lambda>_. None\<rparr>
     (running_job\<lparr>j_Status := JobStatusClaimed\<rparr>) (\<lambda>_ y. (Some (errorsNew ''connection refused''), y))
     \<lparr>ww_p = \<lparr>pw_db = running_db\<lparr>db_jobs := [running_job\<lparr>j_Status := JobStatusClaimed\<rparr>]\<rparr>, pw_calls = []\<rparr>,
      ww_events = [], ww_metrics = []\<rparr>"


end
