(* ===== verification/PlacementStore.thy ===== *)
theory PlacementStore
  imports Jobs
begin

text \<open>
  Durable placement (\<open>internal/database/placements.go\<close>): the source replicas of a template and
  the placement plan of a provisioning job. A plan is written once, under the claim of the job,
  and only when every host keeps its reserved headroom with all unreleased reservations counted;
  retries get the plan that is already there. The memory columns are \<open>int64\<close> counts of
  megabytes; their sums stay far below \<open>2 ^ 63\<close> and are modelled as integers.
\<close>

section \<open>Source replicas\<close>

definition TemplateSourceReplicaPending :: string where "TemplateSourceReplicaPending = ''pending''"
definition TemplateSourceReplicaReady :: string where "TemplateSourceReplicaReady = ''ready''"
definition TemplateSourceReplicaUnhealthy :: string where "TemplateSourceReplicaUnhealthy = ''unhealthy''"
definition TemplateSourceReplicaDisabled :: string where "TemplateSourceReplicaDisabled = ''disabled''"

lemmas replica_status_defs = TemplateSourceReplicaPending_def TemplateSourceReplicaReady_def
  TemplateSourceReplicaUnhealthy_def TemplateSourceReplicaDisabled_def

definition replicaStatuses :: "string list" where
  "replicaStatuses = [TemplateSourceReplicaPending, TemplateSourceReplicaReady,
     TemplateSourceReplicaUnhealthy, TemplateSourceReplicaDisabled]"

definition ListTemplateSourceReplicas :: "uuid \<Rightarrow> database \<Rightarrow> replica list" where
  "ListTemplateSourceReplicas templateID db =
     sort_key (\<lambda>r. (sr_ComputeResourcePath r, sr_ComputeResourceMoref r))
       (filter (\<lambda>r. sr_TemplateID r = templateID) (db_replicas db))"

definition GetTemplateSourceReplica :: "uuid \<Rightarrow> uuid \<Rightarrow> database \<Rightarrow> replica option" where
  "GetTemplateSourceReplica templateID replicaID db =
     find (\<lambda>r. sr_ID r = replicaID \<and> sr_TemplateID r = templateID) (db_replicas db)"

text \<open>The constraints of the table: keys, the foreign key, and the \<open>CHECK\<close>s.\<close>

definition vmMoref :: "string \<Rightarrow> bool" where
  "vmMoref s \<longleftrightarrow> hasPrefix s ''vm-'' \<and> 3 < length s \<and>
     list_all (\<lambda>c. 48 \<le> (of_char c :: nat) \<and> (of_char c :: nat) \<le> 57) (drop 3 s)"

definition computeTypes :: "string list" where
  "computeTypes = [''ClusterComputeResource'', ''ComputeResource'']"

definition replica_checks :: "replica \<Rightarrow> bool" where
  "replica_checks r \<longleftrightarrow>
     vmMoref (sr_SourceVMMoref r) \<and> sr_ComputeResourceType r \<in> set computeTypes \<and>
     sr_ComputeResourceMoref r \<noteq> [] \<and> sr_Status r \<in> set replicaStatuses \<and>
     (sr_Status r = TemplateSourceReplicaReady \<longrightarrow>
        sr_LastValidatedAt r \<noteq> None \<and> sr_LastValidationError r = None)"

definition replica_clash :: "replica \<Rightarrow> replica \<Rightarrow> bool" where
  "replica_clash r r' \<longleftrightarrow> sr_ID r = sr_ID r' \<or>
     sr_TemplateID r = sr_TemplateID r' \<and>
     (sr_ComputeResourceType r = sr_ComputeResourceType r' \<and> sr_ComputeResourceMoref r = sr_ComputeResourceMoref r' \<or>
      sr_SourceVMMoref r = sr_SourceVMMoref r')"

definition invalidate_credentials :: "go_time \<Rightarrow> uuid \<Rightarrow> database \<Rightarrow> database" where
  "invalidate_credentials now templateID db =
     db\<lparr>db_templates := sql_update (\<lambda>t. tr_id t = templateID)
          (\<lambda>t. t\<lparr>tr_guest_credentials_verified_at := None, tr_updated_at := now\<rparr>) (db_templates db)\<rparr>"

text \<open>The id and the status a new replica gets when it has none.\<close>

definition default_replica :: "uuid \<Rightarrow> replica \<Rightarrow> replica" where
  "default_replica newID r0 =
     r0\<lparr>sr_ID := (if sr_ID r0 = uuid_Nil then newID else sr_ID r0),
        sr_Status := (if sr_Status r0 = [] then TemplateSourceReplicaPending else sr_Status r0)\<rparr>"

definition insert_replica :: "go_time \<Rightarrow> replica \<Rightarrow> database \<Rightarrow> (replica \<times> database) result" where
  "insert_replica now r db =
     (if sr_TemplateID r \<notin> tr_id ` set (db_templates db)
      then Inl (Errorf ''enable template source replica policy'' [errorsNew ''foreign key violation''])
      else if \<not> replica_checks r \<or> (\<exists>r' \<in> set (db_replicas db). replica_clash r r')
      then Inl (errorsNew ''constraint violation'')
      else Inr (r, invalidate_credentials now (sr_TemplateID r)
             (db\<lparr>db_replica_policies := (if sr_TemplateID r \<in> set (db_replica_policies db)
                                        then db_replica_policies db
                                        else db_replica_policies db @ [sr_TemplateID r]),
                 db_replicas := db_replicas db @ [r]\<rparr>)))"

definition CreateTemplateSourceReplica ::
  "go_error option \<Rightarrow> uuid \<Rightarrow> go_time \<Rightarrow> replica option \<Rightarrow> database \<Rightarrow> replica result \<times> database" where
  "CreateTemplateSourceReplica flt newID now replica db =
     (case replica of
        None \<Rightarrow> (Inl (errorsNew ''template source replica identity is incomplete''), db)
      | Some r0 \<Rightarrow>
          if sr_TemplateID r0 = uuid_Nil \<or> sr_SourceVMMoref r0 = [] \<or>
             sr_ComputeResourceType r0 = [] \<or> sr_ComputeResourceMoref r0 = []
          then (Inl (errorsNew ''template source replica identity is incomplete''), db)
          else run_tx flt (insert_replica now (default_replica newID r0)) db)"

definition TemplateSourceReplicaModeEnabled :: "uuid \<Rightarrow> database \<Rightarrow> bool" where
  "TemplateSourceReplicaModeEnabled templateID db \<longleftrightarrow> templateID \<in> set (db_replica_policies db)"

text \<open>A build row that no longer needs the replicas it names.\<close>

definition build_settled :: "replica_build \<Rightarrow> bool" where
  "build_settled b \<longleftrightarrow> rbd_Status b = BuildRetired \<or>
     rbd_Status b = BuildFailed \<and> rbd_ResultReplicaID b = None \<and>
     (rbd_DestinationVMMoref b = [] \<or> rbd_ResidueCleanedAt b \<noteq> None)"

definition DeleteTemplateSourceReplica ::
  "go_error option \<Rightarrow> go_time \<Rightarrow> uuid \<Rightarrow> uuid \<Rightarrow> database \<Rightarrow> bool result \<times> database" where
  "DeleteTemplateSourceReplica flt now templateID replicaID =
     run_tx flt (\<lambda>db.
       if \<exists>b \<in> set (db_replica_builds db).
            (rbd_SourceReplicaID b = Some replicaID \<or> rbd_ResultReplicaID b = Some replicaID) \<and> \<not> build_settled b
       then Inl (Errorf ''source replica is owned by build'' [Sentinel ErrTemplateReplicaBuildConflict])
       else
         let builds = sql_update (\<lambda>b. rbd_SourceReplicaID b = Some replicaID \<and> build_settled b)
                        (\<lambda>b. b\<lparr>rbd_SourceReplicaID := None\<rparr>) (db_replica_builds db);
             P = (\<lambda>r. sr_ID r = replicaID \<and> sr_TemplateID r = templateID) in
         if sql_count P (db_replicas db) = 0 then Inr (False, db)
         else if (\<exists>p \<in> set (db_placements db). vp_SourceReplicaID p = Some replicaID) \<or>
                 (\<exists>b \<in> set builds. rbd_SourceReplicaID b = Some replicaID \<or> rbd_ResultReplicaID b = Some replicaID)
         then Inl (Errorf ''delete template source replica'' [errorsNew ''foreign key violation''])
         else Inr (sql_count P (db_replicas db) = 1,
                (if sql_count P (db_replicas db) = 1 then invalidate_credentials now templateID else id)
                  (db\<lparr>db_replica_builds := builds, db_replicas := sql_delete P (db_replicas db)\<rparr>)))"

definition UpdateTemplateSourceReplicaValidation ::
  "go_error option \<Rightarrow> uuid \<Rightarrow> uuid \<Rightarrow> string \<Rightarrow> go_time option \<Rightarrow> string option \<Rightarrow> database
     \<Rightarrow> bool result \<times> database" where
  "UpdateTemplateSourceReplicaValidation flt templateID replicaID status validatedAt validationError db =
     (if status \<notin> set replicaStatuses
      then (Inl (errorsNew ''invalid template source replica status''), db)
      else run_tx flt (\<lambda>db.
        let P = (\<lambda>r. sr_ID r = replicaID \<and> sr_TemplateID r = templateID);
            f = (\<lambda>r. r\<lparr>sr_Status := status, sr_LastValidatedAt := validatedAt,
                       sr_LastValidationError := validationError\<rparr>) in
        if \<exists>r \<in> set (db_replicas db). P r \<and> \<not> replica_checks (f r)
        then Inl (Errorf ''update template source replica validation'' [errorsNew ''check violation''])
        else Inr (sql_count P (db_replicas db) = 1, db\<lparr>db_replicas := sql_update P f (db_replicas db)\<rparr>)) db)"

section \<open>Placement plans\<close>

definition VMPlacementDRSDisabled :: string where "VMPlacementDRSDisabled = ''disabled''"
definition VMPlacementStandalone :: string where "VMPlacementStandalone = ''standalone''"

definition queryVMPlacements :: "uuid \<Rightarrow> database \<Rightarrow> vm_placement list" where
  "queryVMPlacements jobID db = sort_key vp_PodVMID (filter (\<lambda>p. vp_JobID p = jobID) (db_placements db))"

definition validateVMPlacementCandidate :: "vm_placement \<Rightarrow> uuid \<Rightarrow> go_error option" where
  "validateVMPlacementCandidate p jobID =
     (if vp_PodVMID p = uuid_Nil \<or> vp_TemplateID p = uuid_Nil
      then Some (errorsNew ''VM placement requires pod_vm_id and template_id'')
      else if vp_JobID p \<noteq> uuid_Nil \<and> vp_JobID p \<noteq> jobID
      then Some (errorsNew ''VM placement job_id does not match job'')
      else if vp_SourceRef p = [] \<or> vp_ComputeResourceType p = [] \<or> vp_ComputeResourceMoref p = [] \<or>
              vp_ResourcePoolMoref p = [] \<or> vp_HostMoref p = [] \<or> vp_HostName p = []
      then Some (errorsNew ''VM placement contains an incomplete source or destination identity'')
      else if vp_DRSControl p \<noteq> VMPlacementDRSDisabled \<and> vp_DRSControl p \<noteq> VMPlacementStandalone
      then Some (errorsNew ''VM placement has invalid DRS control'')
      else if vp_ObservedFreeMemoryMB p < 0 \<or> vp_ReservedMemoryMB p < 0 \<or>
              vp_CapacityReservationMB p < 0 \<or> vp_AdmittedHeadroomMB p < 0
      then Some (errorsNew ''VM placement memory values are invalid'')
      else if vp_CapacityObservedAt p = 0
      then Some (errorsNew ''VM placement capacity observation time is required'')
      else None)"

definition BeginHostCapacityObservation :: "go_error option \<Rightarrow> go_time \<Rightarrow> go_time result" where
  "BeginHostCapacityObservation flt now =
     (case flt of Some e \<Rightarrow> Inl (Errorf ''begin host capacity observation'' [e]) | None \<Rightarrow> Inr now)"

definition samePlacementScope :: "vm_placement \<Rightarrow> vm_placement \<Rightarrow> bool" where
  "samePlacementScope existing candidate \<longleftrightarrow>
     vp_PodVMID existing = vp_PodVMID candidate \<and> vp_TemplateID existing = vp_TemplateID candidate"

definition placementJobOwned :: "uuid \<Rightarrow> string \<Rightarrow> job \<Rightarrow> bool" where
  "placementJobOwned jobID workerID j \<longleftrightarrow>
     j_ID j = jobID \<and> j_ClaimedBy j = Some workerID \<and> j_Type j \<in> {''pod_create'', ''vm_add''} \<and>
     activeStatus (j_Status j)"

definition lockPlacementJob :: "uuid \<Rightarrow> string \<Rightarrow> database \<Rightarrow> go_error option" where
  "lockPlacementJob jobID workerID db =
     (if \<exists>j \<in> set (db_jobs db). placementJobOwned jobID workerID j then None
      else Some (Errorf ''job cannot persist VM placement'' [Sentinel ErrJobLeaseLost]))"

text \<open>The targets of a plan, in the order of their textual ids.\<close>

definition requirePlacementSet :: "vm_placement list \<Rightarrow> uuid list \<Rightarrow> go_error option" where
  "requirePlacementSet placements podVMIDs =
     (let want = sort podVMIDs; got = sort (map vp_PodVMID placements) in
      if length want \<noteq> length got then Some (errorsNew ''persisted VM placement plan is partial'')
      else if \<exists>i < length want. want ! i \<noteq> got ! i
      then Some (errorsNew ''persisted VM placement plan targets other VMs'')
      else None)"

definition LoadVMPlacementPlan ::
  "go_error option \<Rightarrow> uuid \<Rightarrow> string \<Rightarrow> uuid list \<Rightarrow> database \<Rightarrow> vm_placement list result \<times> database" where
  "LoadVMPlacementPlan flt jobID workerID podVMIDs =
     run_tx flt (\<lambda>db.
       case lockPlacementJob jobID workerID db of
         Some e \<Rightarrow> Inl e
       | None \<Rightarrow>
           let existing = queryVMPlacements jobID db in
           if existing = [] then Inr ([], db)
           else (case requirePlacementSet existing podVMIDs of
                   Some e \<Rightarrow> Inl e | None \<Rightarrow> Inr (existing, db)))"

definition validateVMPlacementReferences :: "vm_placement \<Rightarrow> database \<Rightarrow> go_error option" where
  "validateVMPlacementReferences p db =
     (case find (\<lambda>v. pv_ID v = vp_PodVMID p \<and> pv_TemplateID v = vp_TemplateID p) (db_pod_vms db) of
        None \<Rightarrow> Some (errorsNew ''pod VM is not linked to template'')
      | Some v \<Rightarrow>
          if pv_RAMMB v \<le> 0 then Some (errorsNew ''pod VM has invalid configured RAM'')
          else
            let residentVM = (pv_VCenterVMID v \<noteq> None \<and> pv_VCenterVMID v \<noteq> Some []);
                expectedReservationMB = (if residentVM then 0 else pv_RAMMB v) in
            if vp_CapacityReservationMB p \<noteq> expectedReservationMB
            then Some (errorsNew ''VM placement capacity reservation does not match required reservation'')
            else if vp_LegacyAdoptionPending p \<noteq> residentVM
            then Some (errorsNew ''VM placement legacy adoption state does not match resident VM state'')
            else
              (case vp_SourceReplicaID p of
                 Some rid \<Rightarrow>
                   if \<exists>r \<in> set (db_replicas db). sr_ID r = rid \<and> sr_TemplateID r = vp_TemplateID p \<and>
                        sr_SourceVMMoref r = vp_SourceRef p \<and>
                        sr_ComputeResourceType r = vp_ComputeResourceType p \<and>
                        sr_ComputeResourceMoref r = vp_ComputeResourceMoref p \<and>
                        sr_Status r = TemplateSourceReplicaReady
                   then None
                   else Some (errorsNew ''source replica is not a ready immutable source for template'')
               | None \<Rightarrow>
                   if TemplateSourceReplicaModeEnabled (vp_TemplateID p) db
                   then Some (errorsNew ''legacy source fallback is prohibited because source-replica mode is enabled'')
                   else None))"

subsection \<open>Host capacity\<close>

record admission =
  ad_observedFree :: int
  ad_reserved :: int
  ad_requested :: int
  ad_observedAt :: go_time

text \<open>One candidate added to the totals of its host.\<close>

definition add_admission ::
  "vm_placement \<Rightarrow> (moref \<Rightarrow> admission option) \<Rightarrow> (moref \<Rightarrow> admission option) result" where
  "add_admission p byHost =
     (case byHost (vp_HostMoref p) of
        None \<Rightarrow>
          Inr (byHost(vp_HostMoref p \<mapsto>
            \<lparr>ad_observedFree = vp_ObservedFreeMemoryMB p, ad_reserved = vp_ReservedMemoryMB p,
             ad_requested = vp_CapacityReservationMB p, ad_observedAt = vp_CapacityObservedAt p\<rparr>))
      | Some a \<Rightarrow>
          if vp_ReservedMemoryMB p \<noteq> ad_reserved a
          then Inl (errorsNew ''host has inconsistent reserved headroom values'')
          else Inr (byHost(vp_HostMoref p \<mapsto>
                 a\<lparr>ad_observedFree := (if vp_ObservedFreeMemoryMB p < ad_observedFree a
                                        then vp_ObservedFreeMemoryMB p else ad_observedFree a),
                   ad_observedAt := (if vp_CapacityObservedAt p < ad_observedAt a
                                     then vp_CapacityObservedAt p else ad_observedAt a),
                   ad_requested := ad_requested a + vp_CapacityReservationMB p\<rparr>)))"

text \<open>The reservations of other jobs on a host that a sample taken at \<open>observedAt\<close> may not show.\<close>

definition countsAgainst :: "moref \<Rightarrow> go_time \<Rightarrow> vm_placement \<Rightarrow> bool" where
  "countsAgainst host observedAt p \<longleftrightarrow>
     vp_HostMoref p = host \<and> vp_CapacityReservationMB p > 0 \<and>
     (case vp_CapacityReleasedAt p of None \<Rightarrow> True | Some t \<Rightarrow> t \<ge> observedAt)"

definition activeReserved :: "uuid \<Rightarrow> moref \<Rightarrow> go_time \<Rightarrow> database \<Rightarrow> int" where
  "activeReserved jobID host observedAt db =
     sum_list (map vp_CapacityReservationMB
       (filter (\<lambda>p. vp_JobID p \<noteq> jobID \<and> countsAgainst host observedAt p) (db_placements db)))"

definition admit_host ::
  "uuid \<Rightarrow> database \<Rightarrow> (moref \<Rightarrow> admission option) \<Rightarrow> moref \<Rightarrow> (moref \<Rightarrow> int) \<Rightarrow> (moref \<Rightarrow> int) result" where
  "admit_host jobID db byHost host headroom =
     (case byHost host of
        None \<Rightarrow> Inr headroom
      | Some a \<Rightarrow>
          if ad_requested a = 0
          then Inr (headroom(host := (if ad_observedFree a - ad_reserved a < 0 then 0
                                      else ad_observedFree a - ad_reserved a)))
          else
            let availableForRequest =
                  ad_observedFree a - activeReserved jobID host (ad_observedAt a) db - ad_reserved a in
            if availableForRequest < ad_requested a
            then Inl (Errorf ''host capacity'' [Sentinel ErrHostCapacityAdmission])
            else Inr (headroom(host := availableForRequest - ad_requested a)))"

definition admitHostCapacity ::
  "uuid \<Rightarrow> vm_placement list \<Rightarrow> database \<Rightarrow> (moref \<Rightarrow> int) result" where
  "admitHostCapacity jobID candidates db =
     (case fold_err add_admission candidates Map.empty of
        Inl e \<Rightarrow> Inl e
      | Inr byHost \<Rightarrow>
          fold_err (admit_host jobID db byHost) (sort (remdups (map vp_HostMoref candidates))) (\<lambda>_. 0))"

subsection \<open>Writing the plan\<close>

text \<open>The checks before the transaction, candidate by candidate.\<close>

fun check_candidates :: "uuid \<Rightarrow> uuid list \<Rightarrow> vm_placement list \<Rightarrow> go_error option" where
  "check_candidates jobID seen [] = None"
| "check_candidates jobID seen (p # ps) =
     (case validateVMPlacementCandidate p jobID of
        Some e \<Rightarrow> Some (Errorf ''validate VM placement'' [e])
      | None \<Rightarrow> if vp_PodVMID p \<in> set seen then Some (errorsNew ''duplicate VM placement'')
                else check_candidates jobID (vp_PodVMID p # seen) ps)"

fun first_error :: "('a \<Rightarrow> go_error option) \<Rightarrow> 'a list \<Rightarrow> go_error option" where
  "first_error f [] = None"
| "first_error f (x # xs) = (case f x of Some e \<Rightarrow> Some e | None \<Rightarrow> first_error f xs)"

text \<open>The constraints of \<open>vm_placements\<close> that the earlier checks do not already give.\<close>

definition placement_checks :: "database \<Rightarrow> vm_placement \<Rightarrow> bool" where
  "placement_checks db p \<longleftrightarrow>
     vp_PodVMID p \<notin> vp_PodVMID ` set (db_placements db) \<and>
     vp_TemplateID p \<in> tr_id ` set (db_templates db) \<and>
     vp_ComputeResourceType p \<in> set computeTypes \<and> vp_AdmittedHeadroomMB p \<ge> 0 \<and>
     (vp_LegacyAdoptionPending p \<longrightarrow> vp_CapacityReservationMB p = 0)"

definition insert_placement :: "vm_placement \<Rightarrow> database \<Rightarrow> database result" where
  "insert_placement p db =
     (if placement_checks db p
      then Inr (db\<lparr>db_placements := db_placements db @ [p\<lparr>vp_CapacityReleasedAt := None\<rparr>]\<rparr>)
      else Inl (Errorf ''persist VM placement'' [errorsNew ''constraint violation'']))"

definition PrepareVMPlacementPlan ::
  "go_error option \<Rightarrow> uuid \<Rightarrow> string \<Rightarrow> vm_placement list \<Rightarrow> database \<Rightarrow> vm_placement list result \<times> database" where
  "PrepareVMPlacementPlan flt jobID workerID candidates0 db =
     (if candidates0 = [] then (Inl (errorsNew ''VM placement plan is empty''), db)
      else case check_candidates jobID [] candidates0 of
        Some e \<Rightarrow> (Inl e, db)
      | None \<Rightarrow>
          let podVMIDs = map vp_PodVMID candidates0;
              candidates = map (\<lambda>p. p\<lparr>vp_JobID := jobID\<rparr>) candidates0 in
          run_tx flt (\<lambda>db.
            case lockPlacementJob jobID workerID db of
              Some e \<Rightarrow> Inl e
            | None \<Rightarrow>
                let existing = queryVMPlacements jobID db in
                if existing \<noteq> []
                then (case requirePlacementSet existing podVMIDs of
                        Some e \<Rightarrow> Inl e
                      | None \<Rightarrow>
                          if \<exists>p \<in> set existing.
                               (case find (\<lambda>c. vp_PodVMID c = vp_PodVMID p) candidates of
                                  None \<Rightarrow> True | Some c \<Rightarrow> \<not> samePlacementScope p c)
                          then Inl (errorsNew ''persisted placement scope changed for pod VM'')
                          else Inr (existing, db))
                else case first_error (\<lambda>p. validateVMPlacementReferences p db) candidates of
                  Some e \<Rightarrow> Inl e
                | None \<Rightarrow>
                    (case admitHostCapacity jobID candidates db of
                       Inl e \<Rightarrow> Inl e
                     | Inr headroom \<Rightarrow>
                         (case fold_err insert_placement
                                 (map (\<lambda>p. p\<lparr>vp_AdmittedHeadroomMB := headroom (vp_HostMoref p)\<rparr>) candidates) db of
                            Inl e \<Rightarrow> Inl e
                          | Inr db' \<Rightarrow>
                              let persisted = queryVMPlacements jobID db' in
                              (case requirePlacementSet persisted podVMIDs of
                                 Some e \<Rightarrow> Inl e | None \<Rightarrow> Inr (persisted, db'))))) db)"

definition CompleteLegacyVMPlacementAdoption ::
  "go_error option \<Rightarrow> uuid \<Rightarrow> string \<Rightarrow> uuid \<Rightarrow> database \<Rightarrow> unit result \<times> database" where
  "CompleteLegacyVMPlacementAdoption flt jobID workerID podVMID =
     run_tx flt (\<lambda>db.
       case lockPlacementJob jobID workerID db of
         Some e \<Rightarrow> Inl e
       | None \<Rightarrow>
           let P = (\<lambda>p. vp_PodVMID p = podVMID \<and> vp_JobID p = jobID \<and> vp_LegacyAdoptionPending p) in
           if sql_count P (db_placements db) \<noteq> 1
           then Inl (errorsNew ''legacy VM placement adoption is not pending on job'')
           else Inr ((), db\<lparr>db_placements := sql_update P (\<lambda>p. p\<lparr>vp_LegacyAdoptionPending := False\<rparr>) (db_placements db)\<rparr>))"

definition ReleaseVMPlacementCapacity ::
  "go_error option \<Rightarrow> go_time \<Rightarrow> uuid \<Rightarrow> string \<Rightarrow> uuid list \<Rightarrow> database \<Rightarrow> unit result \<times> database" where
  "ReleaseVMPlacementCapacity flt now jobID workerID podVMIDs db =
     (if podVMIDs = []
      then (Inl (errorsNew ''VM placement capacity release requires at least one pod VM''), db)
      else run_tx flt (\<lambda>db.
        case lockPlacementJob jobID workerID db of
          Some e \<Rightarrow> Inl e
        | None \<Rightarrow>
            let P = (\<lambda>p. vp_JobID p = jobID \<and> vp_PodVMID p \<in> set podVMIDs) in
            if sql_count P (db_placements db) \<noteq> length podVMIDs
            then Inl (errorsNew ''release VM placement capacity: updated count differs'')
            else Inr ((), db\<lparr>db_placements := sql_update P
                   (\<lambda>p. p\<lparr>vp_CapacityReleasedAt := (case vp_CapacityReleasedAt p of
                            None \<Rightarrow> Some now | Some t \<Rightarrow> Some t)\<rparr>) (db_placements db)\<rparr>)) db)"

definition GetVMPlacement :: "uuid \<Rightarrow> database \<Rightarrow> vm_placement option" where
  "GetVMPlacement podVMID db = find (\<lambda>p. vp_PodVMID p = podVMID) (db_placements db)"

section \<open>Lemmas about admission\<close>

definition on_host :: "moref \<Rightarrow> vm_placement list \<Rightarrow> vm_placement list" where
  "on_host h ps = filter (\<lambda>p. vp_HostMoref p = h) ps"

definition requested :: "moref \<Rightarrow> vm_placement list \<Rightarrow> int" where
  "requested h ps = sum_list (map vp_CapacityReservationMB (on_host h ps))"

text \<open>The totals describe the candidates seen so far.\<close>

definition totals_ok :: "vm_placement list \<Rightarrow> (moref \<Rightarrow> admission option) \<Rightarrow> bool" where
  "totals_ok ps byHost \<longleftrightarrow>
     (\<forall>h. case byHost h of
            None \<Rightarrow> on_host h ps = []
          | Some a \<Rightarrow> on_host h ps \<noteq> [] \<and> ad_requested a = requested h ps \<and>
              (\<forall>p \<in> set (on_host h ps). ad_observedFree a \<le> vp_ObservedFreeMemoryMB p \<and>
                 ad_reserved a = vp_ReservedMemoryMB p \<and> ad_observedAt a \<le> vp_CapacityObservedAt p))"

lemma on_host_append [simp]: "on_host h (ps @ qs) = on_host h ps @ on_host h qs"
  by (simp add: on_host_def)

lemma on_host_simps [simp]:
  "on_host h [] = []" "on_host h (p # ps) = (if vp_HostMoref p = h then [p] else []) @ on_host h ps"
  by (simp_all add: on_host_def)

lemma requested_append [simp]: "requested h (ps @ qs) = requested h ps + requested h qs"
  by (simp add: requested_def)

lemma add_admission_totals:
  assumes "totals_ok ps byHost" "add_admission p byHost = Inr byHost'"
  shows "totals_ok (ps @ [p]) byHost'"
  unfolding totals_ok_def
proof
  fix h
  have old: "case byHost h of
            None \<Rightarrow> on_host h ps = []
          | Some a \<Rightarrow> on_host h ps \<noteq> [] \<and> ad_requested a = requested h ps \<and>
              (\<forall>p \<in> set (on_host h ps). ad_observedFree a \<le> vp_ObservedFreeMemoryMB p \<and>
                 ad_reserved a = vp_ReservedMemoryMB p \<and> ad_observedAt a \<le> vp_CapacityObservedAt p)"
    using assms(1) by (simp add: totals_ok_def)
  show "case byHost' h of
            None \<Rightarrow> on_host h (ps @ [p]) = []
          | Some a \<Rightarrow> on_host h (ps @ [p]) \<noteq> [] \<and> ad_requested a = requested h (ps @ [p]) \<and>
              (\<forall>q \<in> set (on_host h (ps @ [p])). ad_observedFree a \<le> vp_ObservedFreeMemoryMB q \<and>
                 ad_reserved a = vp_ReservedMemoryMB q \<and> ad_observedAt a \<le> vp_CapacityObservedAt q)"
  proof (cases "vp_HostMoref p = h")
    case False
    then have "byHost' h = byHost h"
      using assms(2) by (auto simp: add_admission_def split: option.splits if_splits)
    with old False show ?thesis by (cases "byHost h") (simp_all add: requested_def)
  next
    case True
    show ?thesis
    proof (cases "byHost h")
      case None
      with True assms(2) old show ?thesis by (auto simp: add_admission_def requested_def)
    next
      case (Some a)
      then have req: "ad_requested a = requested h ps" and all: "\<And>q. q \<in> set (on_host h ps) \<Longrightarrow>
          ad_observedFree a \<le> vp_ObservedFreeMemoryMB q \<and> ad_reserved a = vp_ReservedMemoryMB q \<and>
          ad_observedAt a \<le> vp_CapacityObservedAt q"
        using old by auto
      have "vp_ReservedMemoryMB p = ad_reserved a" "byHost' h = Some (a\<lparr>
          ad_observedFree := min (ad_observedFree a) (vp_ObservedFreeMemoryMB p),
          ad_observedAt := min (ad_observedAt a) (vp_CapacityObservedAt p),
          ad_requested := ad_requested a + vp_CapacityReservationMB p\<rparr>)"
        using assms(2) True Some by (auto simp: add_admission_def min_def split: if_splits)
      then show ?thesis using True req all by (auto simp: requested_def min.coboundedI1)
    qed
  qed
qed

lemma fold_admission_totals:
  "fold_err add_admission qs byHost = Inr byHost' \<Longrightarrow> totals_ok ps byHost \<Longrightarrow> totals_ok (ps @ qs) byHost'"
proof (induction qs arbitrary: ps byHost)
  case (Cons q qs)
  then obtain b where "add_admission q byHost = Inr b" "fold_err add_admission qs b = Inr byHost'"
    by (auto split: sum.splits)
  with Cons.IH [of b "ps @ [q]"] add_admission_totals [OF Cons.prems(2)] show ?case by simp
qed simp

lemma admit_fold_keeps:
  "fold_err (admit_host jobID db byHost) hs room = Inr room' \<Longrightarrow> h \<notin> set hs \<Longrightarrow> room' h = room h"
proof (induction hs arbitrary: room)
  case (Cons g hs)
  then obtain room1 where "admit_host jobID db byHost g room = Inr room1" "fold_err (admit_host jobID db byHost) hs room1 = Inr room'"
    by (auto split: sum.splits)
  with Cons show ?case
    by (force simp: admit_host_def Let_def split: option.splits if_splits)
qed simp

lemma admit_fold_host:
  assumes "fold_err (admit_host jobID db byHost) hs room = Inr room'" "h \<in> set hs" "distinct hs" "byHost h = Some a"
    and "ad_requested a \<noteq> 0"
  shows "activeReserved jobID h (ad_observedAt a) db + ad_requested a + ad_reserved a \<le> ad_observedFree a \<and>
         room' h = ad_observedFree a - activeReserved jobID h (ad_observedAt a) db - ad_reserved a - ad_requested a"
  using assms(1-3)
proof (induction hs arbitrary: room)
  case (Cons g hs)
  then obtain room1 where g: "admit_host jobID db byHost g room = Inr room1"
    and rest: "fold_err (admit_host jobID db byHost) hs room1 = Inr room'" by (auto split: sum.splits)
  show ?case
  proof (cases "g = h")
    case True
    with Cons.prems have "h \<notin> set hs" by simp
    from admit_fold_keeps [OF rest this] g True assms(4,5) show ?thesis
      by (auto simp: admit_host_def Let_def split: if_splits)
  next
    case False
    with Cons rest show ?thesis by auto
  qed
qed simp

lemma insert_placements:
  "fold_err insert_placement ps db = Inr db' \<Longrightarrow>
     db' = db\<lparr>db_placements := db_placements db @ map (\<lambda>p. p\<lparr>vp_CapacityReleasedAt := None\<rparr>) ps\<rparr> \<and>
     (\<forall>p \<in> set ps. vp_AdmittedHeadroomMB p \<ge> 0)"
proof (induction ps arbitrary: db)
  case (Cons p ps)
  then obtain db1 where p: "insert_placement p db = Inr db1" and "fold_err insert_placement ps db1 = Inr db'"
    by (auto split: sum.splits)
  from p have "db1 = db\<lparr>db_placements := db_placements db @ [p\<lparr>vp_CapacityReleasedAt := None\<rparr>]\<rparr>"
    "vp_AdmittedHeadroomMB p \<ge> 0"
    by (auto simp: insert_placement_def placement_checks_def split: if_splits)
  with Cons.IH [of db1] \<open>fold_err insert_placement ps db1 = Inr db'\<close> show ?case by simp
qed simp

lemma first_error_None: "first_error f xs = None \<longleftrightarrow> (\<forall>x \<in> set xs. f x = None)"
  by (induction xs) (auto split: option.splits)

lemma check_candidates_None:
  "check_candidates jobID seen ps = None \<Longrightarrow>
     distinct (map vp_PodVMID ps) \<and> (\<forall>p \<in> set ps. vp_PodVMID p \<notin> set seen \<and> validateVMPlacementCandidate p jobID = None)"
proof (induction ps arbitrary: seen)
  case (Cons p ps)
  then have p: "validateVMPlacementCandidate p jobID = None" "vp_PodVMID p \<notin> set seen"
    and rest: "check_candidates jobID (vp_PodVMID p # seen) ps = None"
    by (auto split: option.splits if_splits)
  from Cons.IH [OF rest] p show ?case by auto
qed simp

text \<open>What a fresh plan goes through.\<close>

lemma PrepareVMPlacementPlan_new:
  assumes "PrepareVMPlacementPlan flt jobID w cs db = (Inr ps, db')" "queryVMPlacements jobID db = []"
  obtains room where "check_candidates jobID [] cs = None" "lockPlacementJob jobID w db = None"
    "\<forall>p \<in> set cs. validateVMPlacementReferences (p\<lparr>vp_JobID := jobID\<rparr>) db = None"
    "admitHostCapacity jobID (map (\<lambda>p. p\<lparr>vp_JobID := jobID\<rparr>) cs) db = Inr room"
    "fold_err insert_placement (map (\<lambda>p. p\<lparr>vp_JobID := jobID, vp_AdmittedHeadroomMB := room (vp_HostMoref p)\<rparr>) cs) db = Inr db'"
    "ps = queryVMPlacements jobID db'" "requirePlacementSet ps (map vp_PodVMID cs) = None"
proof -
  have chk: "check_candidates jobID [] cs = None"
    using assms(1) by (auto simp: PrepareVMPlacementPlan_def split: if_splits option.splits)
  note body = assms(1) [unfolded PrepareVMPlacementPlan_def chk option.case Let_def]
  have "cs \<noteq> []" using body by auto
  note body = body [simplified this if_False simp_thms, THEN run_tx_InrD, THEN conjunct2]
  note body = body [unfolded assms(2)]
  from body have lock: "lockPlacementJob jobID w db = None" by (auto split: option.splits)
  from body lock have refs: "first_error (\<lambda>p. validateVMPlacementReferences p db) (map (\<lambda>p. p\<lparr>vp_JobID := jobID\<rparr>) cs) = None"
    by (auto split: option.splits)
  from body lock refs obtain room where room: "admitHostCapacity jobID (map (\<lambda>p. p\<lparr>vp_JobID := jobID\<rparr>) cs) db = Inr room"
    by (auto split: sum.splits)
  from body lock refs room obtain db1 where ins:
    "fold_err insert_placement (map (\<lambda>p. p\<lparr>vp_AdmittedHeadroomMB := room (vp_HostMoref p)\<rparr>)
       (map (\<lambda>p. p\<lparr>vp_JobID := jobID\<rparr>) cs)) db = Inr db1"
    by (auto split: sum.splits)
  from body lock refs room ins have fin: "db1 = db'" "ps = queryVMPlacements jobID db'" "requirePlacementSet ps (map vp_PodVMID cs) = None"
    by (auto split: option.splits)
  show thesis
    by (rule that [OF chk lock _ room _ fin(2,3)])
       (use refs ins fin(1) in \<open>simp_all add: first_error_None comp_def\<close>)
qed

text \<open>All memory promised on a host that a sample taken at \<open>t\<close> may not show.\<close>

definition committed :: "moref \<Rightarrow> go_time \<Rightarrow> database \<Rightarrow> int" where
  "committed h t db = sum_list (map vp_CapacityReservationMB (filter (countsAgainst h t) (db_placements db)))"

lemma sum_filter_mono:
  assumes "\<And>x. x \<in> set xs \<Longrightarrow> P x \<Longrightarrow> Q x" "\<And>x. x \<in> set xs \<Longrightarrow> 0 < f x \<or> \<not> Q x"
  shows "sum_list (map f (filter P xs)) \<le> (sum_list (map f (filter Q xs)) :: int)"
  using assms by (induction xs) (auto, smt (verit, best))

lemma sum_positive:
  assumes "\<And>x. x \<in> set xs \<Longrightarrow> (0::int) \<le> f x"
  shows "sum_list (map f (filter (\<lambda>x. P x \<and> 0 < f x) xs)) = sum_list (map f (filter P xs))"
  using assms by (induction xs) force+

lemma queryVMPlacements_Nil: "queryVMPlacements jobID db = [] \<longleftrightarrow> (\<forall>p \<in> set (db_placements db). vp_JobID p \<noteq> jobID)"
  by (metis (mono_tags, lifting) filter_empty_conv length_0_conv length_sort queryVMPlacements_def)

lemma committed_after_insert:
  assumes "queryVMPlacements jobID db = []" "\<And>p. p \<in> set cs \<Longrightarrow> 0 \<le> vp_CapacityReservationMB p"
  shows "committed h t (db\<lparr>db_placements := db_placements db @
           map (\<lambda>p. p\<lparr>vp_JobID := jobID, vp_AdmittedHeadroomMB := g (vp_HostMoref p), vp_CapacityReleasedAt := None\<rparr>) cs\<rparr>) =
         activeReserved jobID h t db + requested h cs"
proof -
  let ?new = "\<lambda>p. p\<lparr>vp_JobID := jobID, vp_AdmittedHeadroomMB := g (vp_HostMoref p), vp_CapacityReleasedAt := None\<rparr>"
  have "filter (\<lambda>p. vp_JobID p \<noteq> jobID \<and> countsAgainst h t p) (db_placements db) = filter (countsAgainst h t) (db_placements db)"
    using assms(1) by (auto simp: queryVMPlacements_Nil intro: filter_cong)
  moreover have "sum_list (map vp_CapacityReservationMB (filter (countsAgainst h t) (map ?new cs))) = requested h cs"
    using sum_positive [of cs vp_CapacityReservationMB "\<lambda>p. vp_HostMoref p = h"] assms(2)
    by (simp add: filter_map comp_def requested_def on_host_def countsAgainst_def)
  ultimately show ?thesis by (simp add: committed_def activeReserved_def)
qed

lemma activeReserved_antimono:
  assumes "s \<le> t"
  shows "activeReserved jobID h t db \<le> activeReserved jobID h s db"
  unfolding activeReserved_def
  by (rule sum_filter_mono) (use assms in \<open>auto simp: countsAgainst_def split: option.splits\<close>)

lemma candidate_nonneg: "validateVMPlacementCandidate p jobID = None \<Longrightarrow> 0 \<le> vp_CapacityReservationMB p"
  by (auto simp: validateVMPlacementCandidate_def split: if_splits)

lemma admitted_host:
  assumes "admitHostCapacity jobID cs db = Inr room" "c \<in> set cs" "requested (vp_HostMoref c) cs \<noteq> 0"
  shows "activeReserved jobID (vp_HostMoref c) (vp_CapacityObservedAt c) db + requested (vp_HostMoref c) cs +
           vp_ReservedMemoryMB c \<le> vp_ObservedFreeMemoryMB c \<and>
         room (vp_HostMoref c) \<le> vp_ObservedFreeMemoryMB c - vp_ReservedMemoryMB c - requested (vp_HostMoref c) cs -
           activeReserved jobID (vp_HostMoref c) (vp_CapacityObservedAt c) db"
proof -
  let ?h = "vp_HostMoref c"
  from assms(1) obtain byHost where tot: "fold_err add_admission cs Map.empty = Inr byHost"
    and adm: "fold_err (admit_host jobID db byHost) (sort (remdups (map vp_HostMoref cs))) (\<lambda>_. 0) = Inr room"
    by (auto simp: admitHostCapacity_def split: sum.splits)
  have "totals_ok cs byHost" using fold_admission_totals [OF tot, of "[]"] by (simp add: totals_ok_def)
  moreover have "c \<in> set (on_host ?h cs)" using assms(2) by (simp add: on_host_def)
  ultimately obtain a where a: "byHost ?h = Some a" "ad_requested a = requested ?h cs"
    "ad_observedFree a \<le> vp_ObservedFreeMemoryMB c" "ad_reserved a = vp_ReservedMemoryMB c"
    "ad_observedAt a \<le> vp_CapacityObservedAt c"
    unfolding totals_ok_def by (cases "byHost ?h") (force dest: spec [of _ ?h])+
  from admit_fold_host [OF adm _ _ a(1)] assms(2,3) a(2)
  have "activeReserved jobID ?h (ad_observedAt a) db + ad_requested a + ad_reserved a \<le> ad_observedFree a \<and>
      room ?h = ad_observedFree a - activeReserved jobID ?h (ad_observedAt a) db - ad_reserved a - ad_requested a"
    by simp
  with a activeReserved_antimono [OF a(5), of jobID ?h db] show ?thesis by linarith
qed

text \<open>
  C5. Admission never overcommits a host. Once a new plan is written, for each of its VMs: the
  reservations of all jobs on the host (every one not released before the host's memory was sampled)
  plus the reserved headroom fit into the free memory that sample showed, unless the plan asks for
  no memory on that host at all, and the recorded headroom is at most what is left over.
\<close>

theorem admission_never_overcommits:
  assumes "PrepareVMPlacementPlan flt jobID w cs db = (Inr ps, db')" "queryVMPlacements jobID db = []"
    and "c \<in> set cs" "requested (vp_HostMoref c) cs \<noteq> 0"
  shows "committed (vp_HostMoref c) (vp_CapacityObservedAt c) db' + vp_ReservedMemoryMB c \<le> vp_ObservedFreeMemoryMB c \<and>
         (\<exists>p \<in> set (db_placements db'). vp_PodVMID p = vp_PodVMID c \<and> vp_JobID p = jobID \<and>
            0 \<le> vp_AdmittedHeadroomMB p \<and>
            vp_AdmittedHeadroomMB p \<le> vp_ObservedFreeMemoryMB c - vp_ReservedMemoryMB c -
              committed (vp_HostMoref c) (vp_CapacityObservedAt c) db')"
proof -
  let ?cs = "map (\<lambda>p. p\<lparr>vp_JobID := jobID\<rparr>) cs"
  obtain room where chk: "check_candidates jobID [] cs = None"
    and room: "admitHostCapacity jobID ?cs db = Inr room"
    and ins: "fold_err insert_placement (map (\<lambda>p. p\<lparr>vp_JobID := jobID, vp_AdmittedHeadroomMB := room (vp_HostMoref p)\<rparr>) cs) db = Inr db'"
    by (rule PrepareVMPlacementPlan_new [OF assms(1,2)])
  note ins = insert_placements [OF ins]
  have req: "requested h ?cs = requested h cs" for h
    by (simp add: requested_def on_host_def filter_map comp_def)
  have "c\<lparr>vp_JobID := jobID\<rparr> \<in> set ?cs" using assms(3) by simp
  from admitted_host [OF room this] assms(4)
  have adm: "activeReserved jobID (vp_HostMoref c) (vp_CapacityObservedAt c) db + requested (vp_HostMoref c) cs +
           vp_ReservedMemoryMB c \<le> vp_ObservedFreeMemoryMB c"
    "room (vp_HostMoref c) \<le> vp_ObservedFreeMemoryMB c - vp_ReservedMemoryMB c - requested (vp_HostMoref c) cs -
           activeReserved jobID (vp_HostMoref c) (vp_CapacityObservedAt c) db"
    by (simp_all add: req)
  have db': "db' = db\<lparr>db_placements := db_placements db @
      map (\<lambda>p. p\<lparr>vp_JobID := jobID, vp_AdmittedHeadroomMB := room (vp_HostMoref p), vp_CapacityReleasedAt := None\<rparr>) cs\<rparr>"
    using ins by (simp add: comp_def)
  have "committed (vp_HostMoref c) (vp_CapacityObservedAt c) db' =
      activeReserved jobID (vp_HostMoref c) (vp_CapacityObservedAt c) db + requested (vp_HostMoref c) cs"
    unfolding db' using check_candidates_None [OF chk] candidate_nonneg
    by (intro committed_after_insert [OF assms(2)]) blast
  moreover have "c\<lparr>vp_JobID := jobID, vp_AdmittedHeadroomMB := room (vp_HostMoref c), vp_CapacityReleasedAt := None\<rparr> \<in> set (db_placements db')"
    using assms(3) by (auto simp: db')
  moreover have "0 \<le> room (vp_HostMoref c)" using ins assms(3) by fastforce
  ultimately show ?thesis using adm by (intro conjI bexI [of _ "c\<lparr>vp_JobID := jobID,
      vp_AdmittedHeadroomMB := room (vp_HostMoref c), vp_CapacityReleasedAt := None\<rparr>"]) simp_all
qed

definition plan_db :: database where
  "plan_db = empty_db\<lparr>
     db_jobs := [(new_job 4 0 ''pod_create'' [])\<lparr>j_Status := JobStatusInProgress, j_ClaimedBy := Some ''w'',
                  j_ClaimedAt := Some 5\<rparr>],
     db_templates := [example_row\<lparr>tr_id := 3\<rparr>],
     db_pod_vms := [\<lparr>pv_ID = 9, pv_PodID = 2, pv_TemplateID = 3, pv_DisplayName = ''vm'', pv_Status = ''pending'', pv_CreatedAt = 0, pv_LastActivityAt = Some 0,
      pv_SuspendedAt = None, pv_SuspendReason = None,
       pv_VCenterVMID = None, pv_VCenterVMName = None, pv_IPAddress = None, pv_VCPUs = 2, pv_RAMMB = 4096,
        pv_GeneratedUsername = [], pv_GeneratedPassword = [], pv_GuestCredentialsVerifiedAt = None,
        pv_GuestCredentialsVerifiedVMID = None\<rparr>]\<rparr>"

definition plan_candidate :: vm_placement where
  "plan_candidate = \<lparr>vp_PodVMID = 9, vp_JobID = 0, vp_TemplateID = 3, vp_SourceReplicaID = None, vp_SourceRef = ''vm-7'',
     vp_ComputeResourceType = ''ComputeResource'', vp_ComputeResourceMoref = ''domain-1'', vp_ResourcePoolMoref = ''resgroup-1'',
     vp_HostMoref = ''host-1'', vp_HostName = ''esx1'', vp_DRSControl = ''standalone'', vp_ObservedFreeMemoryMB = 20000,
     vp_ReservedMemoryMB = 8000, vp_CapacityReservationMB = 4096, vp_CapacityObservedAt = 50, vp_CapacityReleasedAt = None,
     vp_AdmittedHeadroomMB = 0, vp_LegacyAdoptionPending = False\<rparr>"

lemmas plan_defs = plan_db_def plan_candidate_def empty_db_def new_job_def example_row_def

definition planned_row :: vm_placement where
  "planned_row = plan_candidate\<lparr>vp_JobID := 4, vp_AdmittedHeadroomMB := 7904\<rparr>"

lemma plan_run:
  "PrepareVMPlacementPlan None 4 ''w'' [plan_candidate] plan_db =
     (Inr [planned_row], plan_db\<lparr>db_placements := [planned_row]\<rparr>)"
proof -
  have chk: "check_candidates 4 [] [plan_candidate] = None"
    by (simp add: validateVMPlacementCandidate_def plan_defs VMPlacementDRSDisabled_def VMPlacementStandalone_def)
  have lock: "lockPlacementJob 4 ''w'' plan_db = None"
    by (simp add: lockPlacementJob_def placementJobOwned_def activeStatus_def plan_defs)
  have none: "queryVMPlacements 4 plan_db = []" by (simp add: queryVMPlacements_def plan_defs)
  have refs: "validateVMPlacementReferences (plan_candidate\<lparr>vp_JobID := 4\<rparr>) plan_db = None"
    by (simp add: validateVMPlacementReferences_def TemplateSourceReplicaModeEnabled_def plan_defs)
  have adm: "admitHostCapacity 4 [plan_candidate\<lparr>vp_JobID := 4\<rparr>] plan_db = Inr ((\<lambda>_. 0)(''host-1'' := 7904))"
    by (simp add: admitHostCapacity_def add_admission_def admit_host_def activeReserved_def plan_defs)
  have ins: "insert_placement planned_row plan_db = Inr (plan_db\<lparr>db_placements := [planned_row]\<rparr>)"
    by (simp add: insert_placement_def placement_checks_def computeTypes_def planned_row_def plan_defs)
  have "queryVMPlacements 4 (plan_db\<lparr>db_placements := [planned_row]\<rparr>) = [planned_row]"
    by (simp add: queryVMPlacements_def planned_row_def)
  moreover have "requirePlacementSet [planned_row] [vp_PodVMID plan_candidate] = None"
    by (simp add: requirePlacementSet_def planned_row_def)
  moreover have "plan_candidate\<lparr>vp_JobID := 4, vp_AdmittedHeadroomMB := 7904\<rparr> = planned_row"
    by (simp add: planned_row_def)
  moreover have "vp_HostMoref plan_candidate = ''host-1''" by (simp add: plan_candidate_def)
  ultimately show ?thesis
    by (simp add: PrepareVMPlacementPlan_def run_tx_def chk lock none refs adm ins Let_def del: check_candidates.simps)
qed

theorem admission_never_overcommits_witness:
  "committed ''host-1'' 50 (snd (PrepareVMPlacementPlan None 4 ''w'' [plan_candidate] plan_db)) + 8000 \<le> 20000"
proof -
  have new: "queryVMPlacements 4 plan_db = []" "requested (vp_HostMoref plan_candidate) [plan_candidate] \<noteq> 0"
    by (simp_all add: queryVMPlacements_def requested_def plan_defs)
  from admission_never_overcommits [OF plan_run new(1) list.set_intros(1) new(2)] show ?thesis
    unfolding plan_run by (simp add: plan_candidate_def)
qed

lemma Prepare_result:
  assumes "PrepareVMPlacementPlan flt jobID w cs db = (Inr ps, db')"
  shows "ps = queryVMPlacements jobID db' \<and> requirePlacementSet ps (map vp_PodVMID cs) = None \<and>
         check_candidates jobID [] cs = None \<and>
         (\<forall>p \<in> set ps. case find (\<lambda>c. vp_PodVMID c = vp_PodVMID p) cs of None \<Rightarrow> False | Some c \<Rightarrow> samePlacementScope p c)"
proof (cases "queryVMPlacements jobID db = []")
  case True
  obtain room where chk: "check_candidates jobID [] cs = None"
    and ins: "fold_err insert_placement (map (\<lambda>p. p\<lparr>vp_JobID := jobID, vp_AdmittedHeadroomMB := room (vp_HostMoref p)\<rparr>) cs) db = Inr db'"
    and ps: "ps = queryVMPlacements jobID db'" "requirePlacementSet ps (map vp_PodVMID cs) = None"
    by (rule PrepareVMPlacementPlan_new [OF assms True])
  have "\<exists>c \<in> set cs. samePlacementScope p c" if "p \<in> set ps" for p
    using that True insert_placements [OF ins]
    by (auto simp: ps(1) queryVMPlacements_def samePlacementScope_def queryVMPlacements_Nil [unfolded queryVMPlacements_def])
  then have "case find (\<lambda>c. vp_PodVMID c = vp_PodVMID p) cs of None \<Rightarrow> False | Some c \<Rightarrow> samePlacementScope p c"
    if "p \<in> set ps" for p
    using that check_candidates_None [OF chk] find_unique_key [of vp_PodVMID cs]
    by (fastforce simp: samePlacementScope_def)
  with chk ps show ?thesis by simp
next
  case False
  have chk: "check_candidates jobID [] cs = None"
    using assms by (auto simp: PrepareVMPlacementPlan_def split: if_splits option.splits)
  note body = assms [unfolded PrepareVMPlacementPlan_def chk option.case Let_def]
  have "cs \<noteq> []" using body by auto
  note body = body [simplified this if_False simp_thms, THEN run_tx_InrD, THEN conjunct2]
  have find: "find (\<lambda>c. vp_PodVMID c = x) (map (\<lambda>p. p\<lparr>vp_JobID := jobID\<rparr>) cs) =
      map_option (\<lambda>p. p\<lparr>vp_JobID := jobID\<rparr>) (find (\<lambda>c. vp_PodVMID c = x) cs)" for x
    by (induction cs) auto
  show ?thesis
    using body False chk
    by (auto simp: find samePlacementScope_def split: option.splits if_splits)
qed

lemma find_scope_cong:
  assumes "map (\<lambda>c. (vp_PodVMID c, vp_TemplateID c)) cs = map (\<lambda>c. (vp_PodVMID c, vp_TemplateID c)) cs'"
  shows "map_option (\<lambda>c. (vp_PodVMID c, vp_TemplateID c)) (find (\<lambda>c. vp_PodVMID c = x) cs) =
         map_option (\<lambda>c. (vp_PodVMID c, vp_TemplateID c)) (find (\<lambda>c. vp_PodVMID c = x) cs')"
  using assms by (induction cs arbitrary: cs') (auto simp: Cons_eq_map_conv)

text \<open>
  A plan is decided once: after a plan was written or read back, any later call for the
  same VMs and templates by whoever owns the job then, whatever hosts and sources it proposes, gets
  exactly that plan and writes nothing.
\<close>

theorem existing_plan_wins:
  assumes "PrepareVMPlacementPlan flt jobID w cs db = (Inr ps, db')"
    and "map (\<lambda>c. (vp_PodVMID c, vp_TemplateID c)) cs' = map (\<lambda>c. (vp_PodVMID c, vp_TemplateID c)) cs"
    and "check_candidates jobID [] cs' = None" "lockPlacementJob jobID w' db' = None"
  shows "PrepareVMPlacementPlan None jobID w' cs' db' = (Inr ps, db')"
proof -
  note res = Prepare_result [OF assms(1)]
  have ids: "map vp_PodVMID cs' = map vp_PodVMID cs" using arg_cong [OF assms(2), of "map fst"] by (simp add: comp_def)
  have ne: "cs' \<noteq> []" "ps \<noteq> []"
  proof -
    have "cs \<noteq> []" using assms(1) by (auto simp: PrepareVMPlacementPlan_def)
    then show "cs' \<noteq> []" using ids by auto
    show "ps \<noteq> []" using res \<open>cs \<noteq> []\<close> by (auto simp: requirePlacementSet_def split: if_splits)
  qed
  have find: "find (\<lambda>c. vp_PodVMID c = x) (map (\<lambda>p. p\<lparr>vp_JobID := jobID\<rparr>) cs') =
      map_option (\<lambda>p. p\<lparr>vp_JobID := jobID\<rparr>) (find (\<lambda>c. vp_PodVMID c = x) cs')" for x
    by (induction cs') auto
  have "\<not> (case find (\<lambda>c. vp_PodVMID c = vp_PodVMID p) (map (\<lambda>p. p\<lparr>vp_JobID := jobID\<rparr>) cs') of
            None \<Rightarrow> True | Some c \<Rightarrow> \<not> samePlacementScope p c)" if "p \<in> set ps" for p
  proof -
    from res that obtain c where c: "find (\<lambda>c. vp_PodVMID c = vp_PodVMID p) cs = Some c" "samePlacementScope p c"
      by (metis (no_types, lifting) not_None_eq option.simps(4,5))
    with find_scope_cong [OF assms(2), of "vp_PodVMID p"] obtain c' where
      "find (\<lambda>c. vp_PodVMID c = vp_PodVMID p) cs' = Some c'" "vp_PodVMID c' = vp_PodVMID c" "vp_TemplateID c' = vp_TemplateID c"
      by auto
    with c(2) show ?thesis by (simp add: find samePlacementScope_def)
  qed
  then have scope: "(\<exists>p \<in> set ps. case find (\<lambda>c. vp_PodVMID c = vp_PodVMID p) (map (\<lambda>p. p\<lparr>vp_JobID := jobID\<rparr>) cs') of
            None \<Rightarrow> True | Some c \<Rightarrow> \<not> samePlacementScope p c) = False" by blast
  have "queryVMPlacements jobID db' = ps" "requirePlacementSet ps (map vp_PodVMID cs') = None"
    using res unfolding ids by blast+
  then show ?thesis
    by (simp add: PrepareVMPlacementPlan_def run_tx_def Let_def ne assms(3,4) scope)
qed

theorem existing_plan_wins_witness:
  "PrepareVMPlacementPlan None 4 ''w'' [plan_candidate\<lparr>vp_HostMoref := ''host-2'', vp_SourceRef := ''vm-8''\<rparr>]
     (plan_db\<lparr>db_placements := [planned_row]\<rparr>) = (Inr [planned_row], plan_db\<lparr>db_placements := [planned_row]\<rparr>)"
  by (rule existing_plan_wins [OF plan_run])
     (simp_all add: validateVMPlacementCandidate_def VMPlacementDRSDisabled_def VMPlacementStandalone_def
       lockPlacementJob_def placementJobOwned_def activeStatus_def plan_defs)

section \<open>The store as a state machine\<close>

datatype placement_op =
    PCreateReplica "go_error option" uuid go_time "replica option"
  | PDeleteReplica "go_error option" go_time uuid uuid
  | PValidateReplica "go_error option" uuid uuid string "go_time option" "string option"
  | PPrepare "go_error option" uuid string "vm_placement list"
  | PCompleteLegacy "go_error option" uuid string uuid
  | PRelease "go_error option" go_time uuid string "uuid list"

fun placement_step :: "placement_op \<Rightarrow> database \<Rightarrow> database" where
  "placement_step (PCreateReplica flt i now r) db = snd (CreateTemplateSourceReplica flt i now r db)"
| "placement_step (PDeleteReplica flt now t i) db = snd (DeleteTemplateSourceReplica flt now t i db)"
| "placement_step (PValidateReplica flt t i st at e) db = snd (UpdateTemplateSourceReplicaValidation flt t i st at e db)"
| "placement_step (PPrepare flt j w cs) db = snd (PrepareVMPlacementPlan flt j w cs db)"
| "placement_step (PCompleteLegacy flt j w v) db = snd (CompleteLegacyVMPlacementAdoption flt j w v db)"
| "placement_step (PRelease flt now j w vs) db = snd (ReleaseVMPlacementCapacity flt now j w vs db)"

text \<open>
  The replicas: each passes the checks, no two clash, and a template with a replica is in replica
  mode.
\<close>

definition replicas_wf :: "database \<Rightarrow> bool" where
  "replicas_wf db \<longleftrightarrow> (\<forall>r \<in> set (db_replicas db). replica_checks r \<and> sr_TemplateID r \<in> set (db_replica_policies db)) \<and>
     distinct (db_replicas db) \<and>
     (\<forall>r \<in> set (db_replicas db). \<forall>r' \<in> set (db_replicas db). replica_clash r r' \<longrightarrow> r = r')"

text \<open>One transaction of the store, as a relation: nothing, or one of the five effects.\<close>

lemma Create_effect:
  "snd (CreateTemplateSourceReplica flt i now r0 db) = db \<or>
   (\<exists>r. replica_checks r \<and> (\<forall>r' \<in> set (db_replicas db). \<not> replica_clash r r') \<and>
      db_replicas (snd (CreateTemplateSourceReplica flt i now r0 db)) = db_replicas db @ [r] \<and>
      set (db_replica_policies (snd (CreateTemplateSourceReplica flt i now r0 db))) =
        insert (sr_TemplateID r) (set (db_replica_policies db)) \<and>
      db_placements (snd (CreateTemplateSourceReplica flt i now r0 db)) = db_placements db)"
proof (cases r0)
  case (Some s)
  let ?r = "default_replica i s"
  show ?thesis
  proof (cases "snd (CreateTemplateSourceReplica flt i now r0 db) = db")
    case False
    then have "snd (run_tx flt (insert_replica now ?r) db) \<noteq> db"
      and create: "snd (CreateTemplateSourceReplica flt i now r0 db) = snd (run_tx flt (insert_replica now ?r) db)"
      by (auto simp: CreateTemplateSourceReplica_def Some split: if_splits)
    then obtain x db1 where ins: "insert_replica now ?r db = Inr (x, db1)"
      and run: "snd (run_tx flt (insert_replica now ?r) db) = db1"
      using run_tx_snd_cases [of flt "insert_replica now ?r" db] by auto
    show ?thesis
      unfolding create run using ins by (intro disjI2 exI [of _ ?r]) (auto simp: insert_replica_def invalidate_credentials_def split: if_splits)
  qed simp
qed (simp add: CreateTemplateSourceReplica_def)

lemma Delete_effect:
  "snd (DeleteTemplateSourceReplica flt now t i db) = db \<or>
   db_replicas (snd (DeleteTemplateSourceReplica flt now t i db)) = filter (\<lambda>r. \<not> (sr_ID r = i \<and> sr_TemplateID r = t)) (db_replicas db) \<and>
   db_replica_policies (snd (DeleteTemplateSourceReplica flt now t i db)) = db_replica_policies db \<and>
   db_placements (snd (DeleteTemplateSourceReplica flt now t i db)) = db_placements db"
  unfolding DeleteTemplateSourceReplica_def Let_def
  by (auto simp: run_tx_def invalidate_credentials_def sql_delete_def split: option.splits if_splits)

lemma Validate_effect:
  assumes "snd (UpdateTemplateSourceReplicaValidation flt t i st at e db) \<noteq> db"
  shows "\<exists>f P. snd (UpdateTemplateSourceReplicaValidation flt t i st at e db) = db\<lparr>db_replicas := sql_update P f (db_replicas db)\<rparr> \<and>
     (\<forall>r \<in> set (db_replicas db). P r \<longrightarrow> replica_checks (f r)) \<and>
     (\<forall>r. sr_ID (f r) = sr_ID r \<and> sr_TemplateID (f r) = sr_TemplateID r \<and> sr_SourceVMMoref (f r) = sr_SourceVMMoref r \<and>
        sr_ComputeResourceType (f r) = sr_ComputeResourceType r \<and> sr_ComputeResourceMoref (f r) = sr_ComputeResourceMoref r)"
  using assms unfolding UpdateTemplateSourceReplicaValidation_def Let_def
  by (auto simp: run_tx_def split: option.splits if_splits
      intro!: exI [of _ "\<lambda>r. r\<lparr>sr_Status := st, sr_LastValidatedAt := at, sr_LastValidationError := e\<rparr>"])

lemma Prepare_effect:
  "\<exists>new. snd (PrepareVMPlacementPlan flt j w cs db) = db\<lparr>db_placements := db_placements db @ new\<rparr> \<and>
     (\<forall>p \<in> set new. vp_SourceReplicaID p = None \<longrightarrow> \<not> TemplateSourceReplicaModeEnabled (vp_TemplateID p) db)"
proof (cases "PrepareVMPlacementPlan flt j w cs db")
  case (Pair res db')
  show ?thesis
  proof (cases res)
    case (Inl e)
    with Pair have "db' = db"
      by (auto simp: PrepareVMPlacementPlan_def Let_def split: if_splits option.splits dest: run_tx_atomic)
    with Pair show ?thesis by (intro exI [of _ "[]"]) simp
  next
    case (Inr ps)
    show ?thesis
    proof (cases "queryVMPlacements j db = []")
      case True
      obtain room where refs: "\<forall>p \<in> set cs. validateVMPlacementReferences (p\<lparr>vp_JobID := j\<rparr>) db = None"
        and ins: "fold_err insert_placement (map (\<lambda>p. p\<lparr>vp_JobID := j, vp_AdmittedHeadroomMB := room (vp_HostMoref p)\<rparr>) cs) db = Inr db'"
        by (rule PrepareVMPlacementPlan_new [OF Pair [unfolded Inr] True])
      have "\<not> TemplateSourceReplicaModeEnabled (vp_TemplateID p) db" if "p \<in> set cs" "vp_SourceReplicaID p = None" for p
        using refs that by (fastforce simp: validateVMPlacementReferences_def Let_def split: option.splits if_splits)
      then show ?thesis using insert_placements [OF ins] Pair
        by (auto simp: comp_def intro!: exI [of _ "map (\<lambda>p. p\<lparr>vp_JobID := j, vp_AdmittedHeadroomMB := room (vp_HostMoref p), vp_CapacityReleasedAt := None\<rparr>) cs"])
    next
      case False
      have chk: "check_candidates j [] cs = None"
        using Pair Inr by (auto simp: PrepareVMPlacementPlan_def split: if_splits option.splits)
      note body = Pair [unfolded Inr PrepareVMPlacementPlan_def chk option.case Let_def]
      have "cs \<noteq> []" using body by auto
      note body = body [simplified this if_False simp_thms, THEN run_tx_InrD, THEN conjunct2]
      from body False have "db' = db" by (auto split: option.splits if_splits)
      with Pair show ?thesis by (intro exI [of _ "[]"]) simp
    qed
  qed
qed

text \<open>What a release or an adoption does to a row: its identity stays.\<close>

definition same_source :: "vm_placement \<Rightarrow> vm_placement \<Rightarrow> bool" where
  "same_source p q \<longleftrightarrow> vp_PodVMID q = vp_PodVMID p \<and> vp_TemplateID q = vp_TemplateID p \<and> vp_SourceReplicaID q = vp_SourceReplicaID p"

lemma same_source_update:
  assumes "\<And>p. same_source (f p) p" "p \<in> set (sql_update P f ps)"
  shows "\<exists>q \<in> set ps. same_source p q"
  using assms by (auto simp: sql_update_in same_source_def split: if_splits)

definition placements_only :: "database \<Rightarrow> database \<Rightarrow> bool" where
  "placements_only db db' \<longleftrightarrow> db_replicas db' = db_replicas db \<and> db_replica_policies db' = db_replica_policies db \<and>
     (\<forall>p \<in> set (db_placements db'). \<exists>q \<in> set (db_placements db). same_source p q)"

lemma placements_only_refl [simp]: "placements_only db db"
  by (auto simp: placements_only_def same_source_def)

lemma placements_only_update:
  "(\<And>p. same_source (f p) p) \<Longrightarrow> placements_only db (db\<lparr>db_placements := sql_update P f (db_placements db)\<rparr>)"
  by (auto simp: placements_only_def dest: same_source_update [rotated])

lemma Complete_effect: "placements_only db (snd (CompleteLegacyVMPlacementAdoption flt j w v db))"
  unfolding CompleteLegacyVMPlacementAdoption_def
  by (rule run_tx_preserves)
     (auto simp: Let_def same_source_def split: option.splits if_splits intro!: placements_only_update)

lemma Release_effect: "placements_only db (snd (ReleaseVMPlacementCapacity flt now j w vs db))"
  unfolding ReleaseVMPlacementCapacity_def
  by (cases "vs = []", simp, simp only: if_False, rule run_tx_preserves)
     (auto simp: Let_def same_source_def split: option.splits if_splits intro!: placements_only_update)

lemma replica_clash_cong:
  assumes "sr_ID r' = sr_ID r" "sr_TemplateID r' = sr_TemplateID r" "sr_SourceVMMoref r' = sr_SourceVMMoref r"
    "sr_ComputeResourceType r' = sr_ComputeResourceType r" "sr_ComputeResourceMoref r' = sr_ComputeResourceMoref r"
  shows "replica_clash r' q = replica_clash r q" "replica_clash q r' = replica_clash q r"
  using assms by (simp_all add: replica_clash_def)

lemma replica_clash_sym: "replica_clash r r' = replica_clash r' r"
  by (auto simp: replica_clash_def)

lemma replica_clash_refl: "replica_clash r r"
  by (simp add: replica_clash_def)

lemma replicas_wf_add:
  assumes "replicas_wf db" "replica_checks r" "\<forall>r' \<in> set (db_replicas db). \<not> replica_clash r r'"
    and "db_replicas db' = db_replicas db @ [r]" "set (db_replica_policies db') = insert (sr_TemplateID r) (set (db_replica_policies db))"
  shows "replicas_wf db'"
proof -
  have "\<not> replica_clash r' r" if "r' \<in> set (db_replicas db)" for r'
    using assms(3) that replica_clash_sym by blast
  with assms(3) have "r \<notin> set (db_replicas db)" using replica_clash_refl by blast
  with assms \<open>\<And>r'. r' \<in> set (db_replicas db) \<Longrightarrow> \<not> replica_clash r' r\<close> show ?thesis by (simp add: replicas_wf_def)
qed

lemma replicas_wf_filter:
  "replicas_wf db \<Longrightarrow> db_replicas db' = filter P (db_replicas db) \<Longrightarrow> db_replica_policies db' = db_replica_policies db \<Longrightarrow>
     replicas_wf db'"
  by (simp add: replicas_wf_def)

lemma replicas_wf_update:
  assumes "replicas_wf db" "\<forall>r \<in> set (db_replicas db). P r \<longrightarrow> replica_checks (f r)"
    and f: "\<forall>r. sr_ID (f r) = sr_ID r \<and> sr_TemplateID (f r) = sr_TemplateID r \<and> sr_SourceVMMoref (f r) = sr_SourceVMMoref r \<and>
        sr_ComputeResourceType (f r) = sr_ComputeResourceType r \<and> sr_ComputeResourceMoref (f r) = sr_ComputeResourceMoref r"
  shows "replicas_wf (db\<lparr>db_replicas := sql_update P f (db_replicas db)\<rparr>)"
proof -
  let ?g = "\<lambda>r. if P r then f r else r"
  have clash: "replica_clash (?g r) (?g r') = replica_clash r r'" for r r'
    using f by (simp add: replica_clash_def)
  have "inj_on ?g (set (db_replicas db))"
  proof (rule inj_onI)
    fix r r' assume r: "r \<in> set (db_replicas db)" "r' \<in> set (db_replicas db)" and "?g r = ?g r'"
    then have "replica_clash (?g r) (?g r')" using replica_clash_refl by simp
    then show "r = r'" using r assms(1) by (simp only: clash replicas_wf_def)
  qed
  then have "distinct (sql_update P f (db_replicas db))"
    using assms(1) by (simp add: sql_update_def distinct_map replicas_wf_def)
  moreover have "\<forall>r \<in> set (sql_update P f (db_replicas db)). \<forall>r' \<in> set (sql_update P f (db_replicas db)). replica_clash r r' \<longrightarrow> r = r'"
  proof (intro ballI impI)
    fix x y assume "x \<in> set (sql_update P f (db_replicas db))" "y \<in> set (sql_update P f (db_replicas db))" and c: "replica_clash x y"
    then obtain r r' where r: "r \<in> set (db_replicas db)" "x = ?g r" "r' \<in> set (db_replicas db)" "y = ?g r'"
      unfolding sql_update_in by blast
    with c clash assms(1) have "r = r'" unfolding replicas_wf_def by blast
    with r show "x = y" by simp
  qed
  moreover have "\<forall>r \<in> set (sql_update P f (db_replicas db)). replica_checks r \<and> sr_TemplateID r \<in> set (db_replica_policies db)"
    using assms(1,2) f by (auto simp: sql_update_in replicas_wf_def)
  ultimately show ?thesis by (simp add: replicas_wf_def)
qed

lemma placement_step_replicas:
  assumes "replicas_wf db"
  shows "replicas_wf (placement_step op db)"
proof (cases op)
  case (PCreateReplica flt i now r)
  then show ?thesis using Create_effect [of flt i now r db] assms replicas_wf_add [OF assms] by auto
next
  case (PDeleteReplica flt now t i)
  then show ?thesis using Delete_effect [of flt now t i db] assms replicas_wf_filter [OF assms] by auto
next
  case (PValidateReplica flt t i st at e)
  then show ?thesis
    using Validate_effect [of flt t i st at e db] assms replicas_wf_update [OF assms]
    by (cases "snd (UpdateTemplateSourceReplicaValidation flt t i st at e db) = db") auto
next
  case (PPrepare flt j w cs)
  then show ?thesis using Prepare_effect [of flt j w cs db] assms by (auto simp: replicas_wf_def)
next
  case (PCompleteLegacy flt j w v)
  then show ?thesis using Complete_effect [of db flt j w v] assms by (simp add: replicas_wf_def placements_only_def)
next
  case (PRelease flt now j w vs)
  then show ?thesis using Release_effect [of db flt now j w vs] assms by (simp add: replicas_wf_def placements_only_def)
qed

interpretation placement: state_machine
  "\<lambda>db. db_replicas db = []" "\<lambda>db op db'. db' = placement_step op db" replicas_wf
proof unfold_locales
  show "replicas_wf db" if "db_replicas db = []" for db
    using that by (simp add: replicas_wf_def)
qed (simp add: placement_step_replicas)

lemma placement_run_reach: "placement.reach db \<Longrightarrow> placement.reach (fold placement_step ops db)"
  by (induction ops arbitrary: db) (auto intro: placement.reach_step)



text \<open>The rows of a template that use the legacy source are among the old ones.\<close>

definition legacy_kept :: "uuid \<Rightarrow> database \<Rightarrow> database \<Rightarrow> bool" where
  "legacy_kept t db db' \<longleftrightarrow>
     (\<forall>p \<in> set (db_placements db'). vp_TemplateID p = t \<and> vp_SourceReplicaID p = None \<longrightarrow>
        (\<exists>q \<in> set (db_placements db). same_source p q))"

lemma same_source_refl: "same_source p p"
  by (simp add: same_source_def)

lemma legacy_kept_same: "db_placements db' = db_placements db \<Longrightarrow> legacy_kept t db db'"
  using same_source_refl unfolding legacy_kept_def by metis

lemma legacy_kept_append:
  assumes "db_placements db' = db_placements db @ new" "\<forall>p \<in> set new. vp_SourceReplicaID p = None \<longrightarrow> vp_TemplateID p \<noteq> t"
  shows "legacy_kept t db db'"
  using assms same_source_refl unfolding legacy_kept_def by (metis Un_iff set_append)

lemma legacy_kept_only: "placements_only db db' \<Longrightarrow> legacy_kept t db db'"
  by (simp add: legacy_kept_def placements_only_def)

lemma legacy_kept_trans:
  assumes "legacy_kept t db db1" "legacy_kept t db1 db2"
  shows "legacy_kept t db db2"
  unfolding legacy_kept_def
proof (intro ballI impI)
  fix p assume p: "p \<in> set (db_placements db2)" "vp_TemplateID p = t \<and> vp_SourceReplicaID p = None"
  with assms(2) obtain q where q: "q \<in> set (db_placements db1)" "same_source p q" by (auto simp: legacy_kept_def)
  with p assms(1) obtain r where "r \<in> set (db_placements db)" "same_source q r"
    by (auto simp: legacy_kept_def same_source_def)
  with q show "\<exists>q \<in> set (db_placements db). same_source p q" by (auto simp: same_source_def)
qed

lemmas legacy_kept_intros = legacy_kept_same legacy_kept_append legacy_kept_only

lemma placement_step_mode:
  assumes "TemplateSourceReplicaModeEnabled t db"
  shows "TemplateSourceReplicaModeEnabled t (placement_step op db) \<and> legacy_kept t db (placement_step op db)"
proof (cases op)
  case (PCreateReplica flt i now r)
  then show ?thesis using Create_effect [of flt i now r db] assms
    by (auto simp: TemplateSourceReplicaModeEnabled_def intro!: legacy_kept_same)
next
  case (PDeleteReplica flt now u i)
  then show ?thesis using Delete_effect [of flt now u i db] assms
    by (auto simp: TemplateSourceReplicaModeEnabled_def intro!: legacy_kept_same)
next
  case (PValidateReplica flt u i st at e)
  then show ?thesis
    using Validate_effect [of flt u i st at e db] assms
    by (cases "snd (UpdateTemplateSourceReplicaValidation flt u i st at e db) = db")
       (auto simp: TemplateSourceReplicaModeEnabled_def intro!: legacy_kept_same)
next
  case (PPrepare flt j w cs)
  from Prepare_effect [of flt j w cs db] obtain new where
    new: "snd (PrepareVMPlacementPlan flt j w cs db) = db\<lparr>db_placements := db_placements db @ new\<rparr>"
      "\<forall>p \<in> set new. vp_SourceReplicaID p = None \<longrightarrow> \<not> TemplateSourceReplicaModeEnabled (vp_TemplateID p) db"
    by blast
  have "legacy_kept t db (db\<lparr>db_placements := db_placements db @ new\<rparr>)"
    by (rule legacy_kept_append) (use new(2) assms in auto)
  with PPrepare new(1) assms show ?thesis by (simp add: TemplateSourceReplicaModeEnabled_def)
next
  case (PCompleteLegacy flt j w v)
  then show ?thesis using Complete_effect [of db flt j w v] assms
    by (simp add: TemplateSourceReplicaModeEnabled_def legacy_kept_only) (simp add: placements_only_def)
next
  case (PRelease flt now j w vs)
  then show ?thesis using Release_effect [of db flt now j w vs] assms
    by (simp add: TemplateSourceReplicaModeEnabled_def legacy_kept_only) (simp add: placements_only_def)
qed

text \<open>
  C24. There is no way back from replica mode: once a template has it, it keeps it through every
  operation of the store (deleting all replicas included), and no operation ever plans another VM of
  that template from the legacy source.
\<close>

theorem replica_mode_is_forever:
  assumes "TemplateSourceReplicaModeEnabled t db"
  shows "TemplateSourceReplicaModeEnabled t (fold placement_step ops db) \<and>
         (\<forall>p \<in> set (db_placements (fold placement_step ops db)).
            vp_TemplateID p = t \<and> vp_SourceReplicaID p = None \<longrightarrow>
            (\<exists>q \<in> set (db_placements db). vp_PodVMID q = vp_PodVMID p \<and> vp_SourceReplicaID q = None))"
proof -
  have "TemplateSourceReplicaModeEnabled t (fold placement_step ops db) \<and> legacy_kept t db (fold placement_step ops db)"
    using assms
  proof (induction ops arbitrary: db)
    case Nil
    then show ?case by (simp add: legacy_kept_same)
  next
    case (Cons op ops)
    with placement_step_mode [OF Cons.prems, of op] show ?case
      by (auto intro: legacy_kept_trans)
  qed
  then show ?thesis by (auto simp: legacy_kept_def same_source_def)
qed

theorem replica_mode_is_forever_witness:
  "TemplateSourceReplicaModeEnabled 3 (fold placement_step [PDeleteReplica None 9 3 8, PPrepare None 4 ''w'' [plan_candidate]]
     (plan_db\<lparr>db_replica_policies := [3]\<rparr>))"
  by (rule replica_mode_is_forever [THEN conjunct1]) (simp add: TemplateSourceReplicaModeEnabled_def)

end
