(* ===== verification/Placement.thy ===== *)
theory Placement
  imports Worker
begin

text \<open>
  Choosing and checking a destination in vCenter (\<open>internal/vcenter/placement.go\<close> and
  \<open>internal/vcenter/drs.go\<close>). What vCenter answers is a parameter: the record \<open>vcenter\<close> has one
  field per remote read, after the client's own reconnecting and retrying. The texts of
  diagnostics are left out. Memory sizes are \<open>int64\<close> bytes and megabytes below \<open>2 ^ 63\<close>, modelled
  as integers.
\<close>

section \<open>What vCenter answers\<close>

text \<open>A managed object reference: its type and its value.\<close>

record moid =
  mo_Type :: string
  mo_Value :: moref

record host_identity =
  hi_Name :: string
  hi_InventoryPath :: string
  hi_MoRef :: moref
  hi_ComputeType :: string
  hi_ComputeMoRef :: moref
  hi_ReservedMemoryMB :: int

record mount_info =
  mi_Mounted :: "bool option"
  mi_Accessible :: "bool option"

record datastore_props =
  ds_Accessible :: bool
  ds_Hosts :: "(moref \<times> mount_info) list"

record pool_ref =
  pr_MoRef :: moref
  pr_InventoryPath :: string

record pool_props =
  pp_Owner :: moid
  pp_MaxUsage :: int
  pp_OverallUsage :: int

text \<open>The hardware summary (cores, bytes) and the port groups are absent when vCenter has none.\<close>

record host_props =
  hp_Connected :: bool
  hp_InMaintenanceMode :: bool
  hp_Portgroups :: "string list option"
  hp_Hardware :: "(int \<times> int) option"
  hp_OverallMemoryUsage :: int

record vcenter =
  vc_connect :: "go_error option"
  vc_hosts :: "(moref \<times> string) list result"
  vc_hostIdentity :: "moref \<Rightarrow> (string \<times> moid option) result"
  vc_datastore :: "string \<Rightarrow> datastore_props result"
  vc_pool :: "string \<Rightarrow> pool_ref result"
  vc_poolProps :: "moref \<Rightarrow> pool_props result"
  vc_hostProps :: "moref \<Rightarrow> host_props result"
  vc_findVM :: "string \<Rightarrow> moref result"
  vc_vmHost :: "moref \<Rightarrow> moid option result"
  vc_vmPool :: "moref \<Rightarrow> moref option result"
  vc_extraConfig :: "moref \<Rightarrow> (string \<times> string option) list option result"
  vc_drs :: "moref \<Rightarrow> (moref \<times> bool option) list result"
  vc_computePath :: "moid \<Rightarrow> string option result"
  vc_session :: "string option result"
  vc_hasPrivilege :: "moid \<Rightarrow> string \<Rightarrow> string \<Rightarrow> bool list result"

record client =
  c_Hosts :: "string list"
  c_HostReservedMemoryMB :: "string \<Rightarrow> int"
  c_ResourcePools :: "string list"
  c_Datastore :: string
  c_allowedHosts :: "host_identity list"

section \<open>The host allowlist\<close>

fun resolve_hosts ::
  "host_identity list \<Rightarrow> string list \<Rightarrow> moref list \<Rightarrow> host_identity list result" where
  "resolve_hosts inventory [] seen = Inr []"
| "resolve_hosts inventory (configuredName # rest) seen =
     (case filter (\<lambda>h. equalFold (hi_Name h) configuredName \<or> equalFold (hi_InventoryPath h) configuredName) inventory of
        [] \<Rightarrow> Inl (errorsNew ''VCENTER_HOSTS entry does not resolve inside the configured datacenter'')
      | [match] \<Rightarrow>
          if hi_MoRef match \<in> set seen
          then Inl (errorsNew ''VCENTER_HOSTS entries resolve to the same immutable host'')
          else if hi_MoRef match = [] \<or> hi_ComputeMoRef match = []
          then Inl (errorsNew ''VCENTER_HOSTS entry resolved without complete inventory identity'')
          else (case resolve_hosts inventory rest (hi_MoRef match # seen) of
                  Inl e \<Rightarrow> Inl e | Inr hs \<Rightarrow> Inr (match # hs))
      | _ \<Rightarrow> Inl (errorsNew ''VCENTER_HOSTS entry is ambiguous''))"

definition resolveHostIdentities :: "string list \<Rightarrow> host_identity list \<Rightarrow> host_identity list result" where
  "resolveHostIdentities configured inventory =
     (if configured = [] then Inl (errorsNew ''VCENTER_HOSTS must contain at least one host'')
      else resolve_hosts inventory configured [])"

fun read_inventory :: "vcenter \<Rightarrow> (moref \<times> string) list \<Rightarrow> host_identity list result" where
  "read_inventory vc [] = Inr []"
| "read_inventory vc ((m, path) # hs) =
     (case vc_hostIdentity vc m of
        Inl e \<Rightarrow> Inl (Errorf ''read host identity'' [e])
      | Inr (name, None) \<Rightarrow> Inl (errorsNew ''host has no parent compute resource'')
      | Inr (name, Some p) \<Rightarrow>
          (case read_inventory vc hs of
             Inl e \<Rightarrow> Inl e
           | Inr rest \<Rightarrow>
               Inr (\<lparr>hi_Name = name, hi_InventoryPath = path, hi_MoRef = m, hi_ComputeType = mo_Type p,
                     hi_ComputeMoRef = mo_Value p, hi_ReservedMemoryMB = 0\<rparr> # rest)))"

text \<open>The allowlist is resolved once and frozen; a later resolution must agree with it.\<close>

definition ResolveProvisioningHosts :: "vcenter \<Rightarrow> client \<Rightarrow> host_identity list result \<times> client" where
  "ResolveProvisioningHosts vc c =
     (case vc_connect vc of
        Some e \<Rightarrow> (Inl e, c)
      | None \<Rightarrow>
          (case vc_hosts vc of
             Inl e \<Rightarrow> (Inl (Errorf ''inventory hosts in datacenter'' [e]), c)
           | Inr hosts \<Rightarrow>
               (case read_inventory vc hosts of
                  Inl e \<Rightarrow> (Inl e, c)
                | Inr inventory \<Rightarrow>
                    (case resolveHostIdentities (c_Hosts c) inventory of
                       Inl e \<Rightarrow> (Inl e, c)
                     | Inr ids \<Rightarrow>
                         let resolved = map2 (\<lambda>h name. h\<lparr>hi_ReservedMemoryMB := c_HostReservedMemoryMB c name\<rparr>)
                                          ids (c_Hosts c) in
                         if c_allowedHosts c \<noteq> []
                         then if c_allowedHosts c \<noteq> resolved
                              then (Inl (errorsNew ''resolved VCENTER_HOSTS identity changed after startup''), c)
                              else (Inr (c_allowedHosts c), c)
                         else (Inr resolved, c\<lparr>c_allowedHosts := resolved\<rparr>)))))"

definition AllowedHostMorefs :: "client \<Rightarrow> moref list" where
  "AllowedHostMorefs c = map hi_MoRef (c_allowedHosts c)"

definition resolvedHosts :: "client \<Rightarrow> host_identity list result" where
  "resolvedHosts c =
     (if c_allowedHosts c = [] then Inl (errorsNew ''VCENTER_HOSTS was not resolved at process startup'')
      else Inr (c_allowedHosts c))"

definition allowedHostByMoRef :: "client \<Rightarrow> moref \<Rightarrow> host_identity result" where
  "allowedHostByMoRef c moref =
     (case resolvedHosts c of
        Inl e \<Rightarrow> Inl e
      | Inr hosts \<Rightarrow>
          (case find (\<lambda>h. hi_MoRef h = moref) hosts of
             Some h \<Rightarrow> Inr h
           | None \<Rightarrow> Inl (Errorf ''vCenter host is outside VCENTER_HOSTS'' [Sentinel ErrHostNotAllowed])))"

section \<open>Constraints of one host and pool\<close>

definition mountAccessible :: "mount_info \<Rightarrow> bool \<Rightarrow> bool" where
  "mountAccessible m datastoreAccessible =
     (if mi_Mounted m = Some False then False
      else case mi_Accessible m of Some a \<Rightarrow> a | None \<Rightarrow> datastoreAccessible)"

definition hasStandardPortGroup :: "host_props \<Rightarrow> string \<Rightarrow> bool" where
  "hasStandardPortGroup p name \<longleftrightarrow>
     name = [] \<or> (case hp_Portgroups p of None \<Rightarrow> False | Some pgs \<Rightarrow> name \<in> set pgs)"

abbreviation MiB :: int where "MiB \<equiv> 1024 * 1024"

definition hostFreeMemoryMB :: "host_props \<Rightarrow> int" where
  "hostFreeMemoryMB p =
     (case hp_Hardware p of
        None \<Rightarrow> 0
      | Some (cores, memorySize) \<Rightarrow>
          if memorySize \<le> 0 then 0 else go_div memorySize MiB - hp_OverallMemoryUsage p)"

text \<open>The pools that resolve, in configuration order; a pinned pool must be one of them.\<close>

definition configuredPools :: "vcenter \<Rightarrow> client \<Rightarrow> string \<Rightarrow> moref \<Rightarrow> pool_ref list result" where
  "configuredPools vc c explicitPath pinnedMoRef =
     (let paths = (if explicitPath \<noteq> [] then [explicitPath] else c_ResourcePools c) in
      if paths = [] then Inl (errorsNew ''VCENTER_RESOURCE_POOLS must contain at least one pool'')
      else
        let pools = List.map_filter (\<lambda>p. case vc_pool vc p of Inl _ \<Rightarrow> None | Inr r \<Rightarrow> Some r) paths in
        if pools = [] then Inl (errorsNew ''no configured resource pool resolves'')
        else if pinnedMoRef \<noteq> []
        then (case find (\<lambda>p. pr_MoRef p = pinnedMoRef) pools of
                Some p \<Rightarrow> Inr [p]
              | None \<Rightarrow> Inl (Errorf ''persisted resource pool is outside VCENTER_RESOURCE_POOLS''
                             [Sentinel ErrPlacementUnavailable]))
        else Inr pools)"

record placement_request =
  rq_SourceHost :: "moref option"
  rq_RequireSourceHost :: bool
  rq_ResourcePoolPath :: string
  rq_DatastoreName :: string
  rq_NetworkName :: string
  rq_VCPUs :: int
  rq_RAMMB :: int
  rq_PinnedHostMoRef :: moref
  rq_PinnedPoolMoRef :: moref
  rq_ExpectedComputeType :: string
  rq_ExpectedComputeMoRef :: moref
  rq_AllowMissingNetwork :: bool
  rq_SkipCapacityChecks :: bool
  rq_PlannedMemoryMBByHost :: "moref \<Rightarrow> int"
  rq_TargetHostMoRefs :: "moref list"

record placement =
  pl_Identity :: host_identity
  pl_PoolMoRef :: moref
  pl_PoolPath :: string
  pl_ComputeType :: string
  pl_ComputeMoRef :: moref
  pl_FreeHostMB :: int
  pl_FreePoolMB :: int
  pl_ReservedMemoryMB :: int

text \<open>The requirement on free memory.\<close>

definition requiredFreeMB :: "placement_request \<Rightarrow> host_identity \<Rightarrow> int" where
  "requiredFreeMB rq h = rq_RAMMB rq + hi_ReservedMemoryMB h + rq_PlannedMemoryMBByHost rq (hi_MoRef h)"

definition lacksHeadroom :: "placement_request \<Rightarrow> host_identity \<Rightarrow> host_props \<Rightarrow> bool" where
  "lacksHeadroom rq h hp \<longleftrightarrow>
     \<not> rq_SkipCapacityChecks rq \<and> requiredFreeMB rq h > 0 \<and> hostFreeMemoryMB hp < requiredFreeMB rq h"

definition lacksCores :: "placement_request \<Rightarrow> host_props \<Rightarrow> bool" where
  "lacksCores rq hp \<longleftrightarrow>
     \<not> rq_SkipCapacityChecks rq \<and> rq_VCPUs rq > 0 \<and>
     (case hp_Hardware hp of None \<Rightarrow> False | Some (cores, _) \<Rightarrow> cores > 0 \<and> cores < rq_VCPUs rq)"

text \<open>The reasons against one host with one pool; a candidate is a host without any.\<close>

definition candidate_reasons ::
  "vcenter \<Rightarrow> placement_request \<Rightarrow> datastore_props \<Rightarrow> pool_props \<Rightarrow> host_identity \<Rightarrow> string list" where
  "candidate_reasons vc rq ds pp h =
     (if hi_ComputeMoRef h \<noteq> mo_Value (pp_Owner pp) \<or>
         hi_ComputeType h \<noteq> [] \<and> hi_ComputeType h \<noteq> mo_Type (pp_Owner pp)
      then [''not a member of pool compute resource''] else []) @
     (case map_of (rev (ds_Hosts ds)) (hi_MoRef h) of
        Some m \<Rightarrow> if mountAccessible m (ds_Accessible ds) then [] else [''datastore is not mounted and accessible'']
      | None \<Rightarrow> [''datastore is not mounted and accessible'']) @
     (case vc_hostProps vc (hi_MoRef h) of
        Inl _ \<Rightarrow> [''host properties unreadable'']
      | Inr hp \<Rightarrow>
          (if \<not> hp_Connected hp then [''not connected''] else []) @
          (if hp_InMaintenanceMode hp then [''host is in maintenance mode''] else []) @
          (if \<not> rq_AllowMissingNetwork rq \<and> \<not> hasStandardPortGroup hp (rq_NetworkName rq)
           then [''standard port group is missing''] else []) @
          (if lacksCores rq hp then [''too few CPU cores''] else []) @
          (if lacksHeadroom rq h hp then [''too little free memory''] else []))"

definition headroom_rejects :: "vcenter \<Rightarrow> placement_request \<Rightarrow> host_identity \<Rightarrow> bool" where
  "headroom_rejects vc rq h =
     (case vc_hostProps vc (hi_MoRef h) of Inl _ \<Rightarrow> False | Inr hp \<Rightarrow> lacksHeadroom rq h hp)"

definition make_placement :: "vcenter \<Rightarrow> pool_ref \<Rightarrow> pool_props \<Rightarrow> host_identity \<Rightarrow> placement" where
  "make_placement vc pool pp h =
     \<lparr>pl_Identity = h, pl_PoolMoRef = pr_MoRef pool, pl_PoolPath = pr_InventoryPath pool,
      pl_ComputeType = mo_Type (pp_Owner pp), pl_ComputeMoRef = mo_Value (pp_Owner pp),
      pl_FreeHostMB = (case vc_hostProps vc (hi_MoRef h) of Inl _ \<Rightarrow> 0 | Inr hp \<Rightarrow> hostFreeMemoryMB hp),
      pl_FreePoolMB = go_div (pp_MaxUsage pp - pp_OverallUsage pp) MiB,
      pl_ReservedMemoryMB = hi_ReservedMemoryMB h\<rparr>"

section \<open>Resolving a placement\<close>

text \<open>The source compute resource, if the request names a source host.\<close>

definition source_compute :: "vcenter \<Rightarrow> client \<Rightarrow> placement_request \<Rightarrow> moid option result" where
  "source_compute vc c rq =
     (if rq_RequireSourceHost rq \<and> rq_SourceHost rq = None
      then Inl (Errorf ''source VM has no runtime host assignment'' [Sentinel ErrPlacementUnavailable])
      else
        case (case rq_SourceHost rq of
                None \<Rightarrow> Inr None
              | Some h \<Rightarrow>
                  (case allowedHostByMoRef c h of
                     Inl _ \<Rightarrow> Inl (Errorf ''source host is outside the canonical provisioning allowlist''
                                 [Sentinel ErrPlacementUnavailable])
                   | Inr _ \<Rightarrow>
                       (case vc_hostIdentity vc h of
                          Inl e \<Rightarrow> Inl (Errorf ''read source host parent'' [e])
                        | Inr (_, None) \<Rightarrow> Inl (errorsNew ''source host has no parent compute resource'')
                        | Inr (_, Some p) \<Rightarrow> Inr (Some p)))) of
          Inl e \<Rightarrow> Inl e
        | Inr src \<Rightarrow>
            let value = (case src of None \<Rightarrow> [] | Some p \<Rightarrow> mo_Value p);
                type = (case src of None \<Rightarrow> [] | Some p \<Rightarrow> mo_Type p) in
            if rq_ExpectedComputeMoRef rq \<noteq> [] \<and>
               (value \<noteq> rq_ExpectedComputeMoRef rq \<or>
                rq_ExpectedComputeType rq \<noteq> [] \<and> type \<noteq> rq_ExpectedComputeType rq)
            then Inl (Errorf ''source compute resource differs from expected'' [Sentinel ErrPlacementUnavailable])
            else Inr src)"

definition pool_matches_source :: "moid option \<Rightarrow> pool_props \<Rightarrow> bool" where
  "pool_matches_source src pp =
     (case src of
        None \<Rightarrow> True
      | Some p \<Rightarrow> mo_Value p = [] \<or>
          mo_Value (pp_Owner pp) = mo_Value p \<and> (mo_Type p = [] \<or> mo_Type (pp_Owner pp) = mo_Type p))"

definition host_selected :: "placement_request \<Rightarrow> host_identity \<Rightarrow> bool" where
  "host_selected rq h \<longleftrightarrow>
     (rq_PinnedHostMoRef rq = [] \<or> hi_MoRef h = rq_PinnedHostMoRef rq) \<and>
     (rq_TargetHostMoRefs rq = [] \<or> hi_MoRef h \<in> set (rq_TargetHostMoRefs rq))"

text \<open>All pairs of a readable, matching pool and a selected host, in the order of the loops.\<close>

definition pool_host_pairs ::
  "vcenter \<Rightarrow> placement_request \<Rightarrow> moid option \<Rightarrow> pool_ref list \<Rightarrow> host_identity list
     \<Rightarrow> (pool_ref \<times> pool_props \<times> host_identity) list" where
  "pool_host_pairs vc rq src pools hosts =
     concat (map (\<lambda>pool. case vc_poolProps vc (pr_MoRef pool) of
               Inl _ \<Rightarrow> []
             | Inr pp \<Rightarrow> if pool_matches_source src pp
                         then map (\<lambda>h. (pool, pp, h)) (filter (host_selected rq) hosts) else []) pools)"

text \<open>The order of preference: more free pool memory, then more free host memory, then names.\<close>

definition preference :: "placement_request \<Rightarrow> placement \<Rightarrow> int \<times> int \<times> string \<times> string" where
  "preference rq p =
     (- pl_FreePoolMB p, - (pl_FreeHostMB p - rq_PlannedMemoryMBByHost rq (hi_MoRef (pl_Identity p))),
      hi_Name (pl_Identity p), pl_PoolPath p)"

fun check_targets :: "client \<Rightarrow> moref list \<Rightarrow> go_error option" where
  "check_targets c [] = None"
| "check_targets c (m # ms) =
     (case allowedHostByMoRef c m of
        Inl _ \<Rightarrow> Some (Errorf ''requested target host'' [Sentinel ErrPlacementUnavailable])
      | Inr _ \<Rightarrow> check_targets c ms)"

definition ResolvePlacement :: "vcenter \<Rightarrow> client \<Rightarrow> placement_request \<Rightarrow> placement result" where
  "ResolvePlacement vc c rq =
     (case vc_connect vc of
        Some e \<Rightarrow> Inl e
      | None \<Rightarrow>
          (case resolvedHosts c of
             Inl e \<Rightarrow> Inl e
           | Inr allowedHosts \<Rightarrow>
               (case check_targets c (rq_TargetHostMoRefs rq) of
                  Some e \<Rightarrow> Inl e
                | None \<Rightarrow>
                    let datastoreName = (if rq_DatastoreName rq = [] then c_Datastore c else rq_DatastoreName rq) in
                    if datastoreName = [] then Inl (errorsNew ''placement requires a datastore'')
                    else
                      (case vc_datastore vc datastoreName of
                         Inl e \<Rightarrow> Inl (Errorf ''placement datastore'' [e])
                       | Inr ds \<Rightarrow>
                           if \<not> ds_Accessible ds
                           then Inl (Errorf ''datastore is not accessible'' [Sentinel ErrPlacementUnavailable])
                           else
                             (case source_compute vc c rq of
                                Inl e \<Rightarrow> Inl e
                              | Inr src \<Rightarrow>
                                  (case configuredPools vc c (rq_ResourcePoolPath rq) (rq_PinnedPoolMoRef rq) of
                                     Inl e \<Rightarrow> Inl e
                                   | Inr pools \<Rightarrow>
                                       let pairs = pool_host_pairs vc rq src pools allowedHosts;
                                           candidates = [make_placement vc pool pp h. (pool, pp, h) \<leftarrow> pairs,
                                                           candidate_reasons vc rq ds pp h = []];
                                           headroomRejected = (\<exists>(pool, pp, h) \<in> set pairs. headroom_rejects vc rq h) in
                                       (case sort_key (preference rq) candidates of
                                          selected # _ \<Rightarrow> Inr selected
                                        | [] \<Rightarrow>
                                            if headroomRejected
                                            then Inl (Errorf ''no placement''
                                                   [Sentinel ErrPlacementUnavailable, Sentinel ErrReservedHeadroom])
                                            else Inl (Errorf ''no placement'' [Sentinel ErrPlacementUnavailable]))))))))"


section \<open>Source virtual machines\<close>

text \<open>A reference of the form \<open>vm-\<close> and digits is a managed object reference, anything else a name.\<close>

definition isVMMoref :: "string \<Rightarrow> bool" where
  "isVMMoref s \<longleftrightarrow> hasPrefix s ''vm-'' \<and> drop 3 s \<noteq> [] \<and>
     list_all (\<lambda>c. 48 \<le> (of_char c :: nat) \<and> (of_char c :: nat) \<le> 57) (drop 3 s)"

definition resolveSourceVM :: "vcenter \<Rightarrow> string \<Rightarrow> moref result" where
  "resolveSourceVM vc ref =
     (if ref = [] then Inl (errorsNew ''template ref is empty'')
      else if isVMMoref ref then Inr ref else vc_findVM vc ref)"

record source_identity =
  si_SourceVMMoref :: moref
  si_HostMoref :: moref
  si_HostName :: string
  si_ComputeResourceType :: string
  si_ComputeResourceMoref :: moref
  si_ComputeResourcePath :: string

abbreviation unavailable :: "string \<Rightarrow> go_error" where
  "unavailable s \<equiv> Errorf s [Sentinel ErrPlacementUnavailable]"

definition ResolveTemplateSourceIdentity :: "vcenter \<Rightarrow> string \<Rightarrow> source_identity result" where
  "ResolveTemplateSourceIdentity vc ref =
     (case vc_connect vc of Some e \<Rightarrow> Inl e | None \<Rightarrow>
     (case resolveSourceVM vc ref of Inl e \<Rightarrow> Inl (Errorf ''resolve template source'' [e]) | Inr vm \<Rightarrow>
     (case vc_vmHost vc vm of
        Inl e \<Rightarrow> Inl (Errorf ''read template source host'' [e])
      | Inr None \<Rightarrow> Inl (unavailable ''template source has no runtime host'')
      | Inr (Some host) \<Rightarrow>
          if mo_Type host \<noteq> ''HostSystem'' \<or> mo_Value host = []
          then Inl (unavailable ''template source has invalid runtime host'')
          else
            (case vc_hostIdentity vc (mo_Value host) of
               Inl e \<Rightarrow> Inl (Errorf ''read template source host identity'' [e])
             | Inr (name, parent) \<Rightarrow>
                 if name = [] then Inl (unavailable ''template source host has no inventory name'')
                 else
                   (case parent of
                      None \<Rightarrow> Inl (unavailable ''template source host has no parent compute resource'')
                    | Some p \<Rightarrow>
                        if mo_Value p = [] then Inl (unavailable ''template source host has no parent compute resource'')
                        else if mo_Type p \<noteq> ''ClusterComputeResource'' \<and> mo_Type p \<noteq> ''ComputeResource''
                        then Inl (unavailable ''template source host parent is not a compute resource'')
                        else
                          (case vc_computePath vc p of
                             Inl e \<Rightarrow> Inl (Errorf ''resolve source compute resource'' [e])
                           | Inr None \<Rightarrow> Inl (errorsNew ''source compute resource resolved as another type'')
                           | Inr (Some path) \<Rightarrow>
                               if path = [] then Inl (unavailable ''source compute resource has no inventory path'')
                               else Inr \<lparr>si_SourceVMMoref = vm, si_HostMoref = mo_Value host, si_HostName = name,
                                         si_ComputeResourceType = mo_Type p, si_ComputeResourceMoref = mo_Value p,
                                         si_ComputeResourcePath = path\<rparr>))))))"

section \<open>The placement of a clone\<close>

text \<open>
  Identifiers of templates, replicas and pod VMs travel through the parameters as their canonical
  text; the model keeps the identifier itself, \<open>None\<close> for the empty text.
\<close>

record clone_source =
  cs_ReplicaID :: "uuid option"
  cs_Ref :: string
  cs_ComputeResourceType :: string
  cs_ComputeResourceMoRef :: moref

record clone_params =
  cp_TemplateName :: string
  cp_LogicalTemplateID :: "uuid option"
  cp_SourceReplicaID :: "uuid option"
  cp_ComputeResourceType :: string
  cp_ComputeResourceMoRef :: moref
  cp_VMName :: string
  cp_VCPUs :: int
  cp_RAMmb :: int
  cp_Network :: string
  cp_OSType :: string
  cp_Password :: string
  cp_OperationID :: "uuid option"
  cp_PodVMID :: "uuid option"
  cp_HostMoRef :: moref
  cp_HostName :: string
  cp_ResourcePoolMoRef :: moref
  cp_DRSControl :: string
  cp_ObservedFreeMemoryMB :: int
  cp_ReservedMemoryMB :: int
  cp_AllowMissingNetwork :: bool
  cp_PlannedMemoryMBByHost :: "moref \<Rightarrow> int"
  cp_TargetHostMoRefs :: "moref list"
  cp_SourceCandidates :: "clone_source list"

definition empty_clone_params :: clone_params where
  "empty_clone_params =
     \<lparr>cp_TemplateName = [], cp_LogicalTemplateID = None, cp_SourceReplicaID = None,
      cp_ComputeResourceType = [], cp_ComputeResourceMoRef = [], cp_VMName = [], cp_VCPUs = 0, cp_RAMmb = 0,
      cp_Network = [], cp_OSType = [], cp_Password = [], cp_OperationID = None, cp_PodVMID = None,
      cp_HostMoRef = [], cp_HostName = [], cp_ResourcePoolMoRef = [], cp_DRSControl = [],
      cp_ObservedFreeMemoryMB = 0, cp_ReservedMemoryMB = 0, cp_AllowMissingNetwork = False,
      cp_PlannedMemoryMBByHost = (\<lambda>_. 0), cp_TargetHostMoRefs = [], cp_SourceCandidates = []\<rparr>"

definition clone_sources :: "clone_params \<Rightarrow> clone_source list" where
  "clone_sources params =
     (if cp_SourceCandidates params = []
      then [\<lparr>cs_ReplicaID = cp_SourceReplicaID params, cs_Ref = cp_TemplateName params,
             cs_ComputeResourceType = cp_ComputeResourceType params,
             cs_ComputeResourceMoRef = cp_ComputeResourceMoRef params\<rparr>]
      else cp_SourceCandidates params)"

definition clone_request :: "client \<Rightarrow> clone_params \<Rightarrow> bool \<Rightarrow> clone_source \<Rightarrow> moid option \<Rightarrow> placement_request" where
  "clone_request c params skipCapacityChecks candidate host =
     \<lparr>rq_SourceHost = map_option mo_Value host, rq_RequireSourceHost = True, rq_ResourcePoolPath = [],
      rq_DatastoreName = c_Datastore c, rq_NetworkName = cp_Network params, rq_VCPUs = cp_VCPUs params,
      rq_RAMMB = cp_RAMmb params, rq_PinnedHostMoRef = cp_HostMoRef params,
      rq_PinnedPoolMoRef = cp_ResourcePoolMoRef params,
      rq_ExpectedComputeType = cs_ComputeResourceType candidate,
      rq_ExpectedComputeMoRef = cs_ComputeResourceMoRef candidate,
      rq_AllowMissingNetwork = cp_AllowMissingNetwork params, rq_SkipCapacityChecks = skipCapacityChecks,
      rq_PlannedMemoryMBByHost = cp_PlannedMemoryMBByHost params,
      rq_TargetHostMoRefs = cp_TargetHostMoRefs params\<rparr>"

definition selected_params :: "clone_params \<Rightarrow> clone_source \<Rightarrow> placement \<Rightarrow> clone_params" where
  "selected_params params candidate p =
     params\<lparr>cp_TemplateName := cs_Ref candidate, cp_SourceReplicaID := cs_ReplicaID candidate,
            cp_ComputeResourceType := pl_ComputeType p, cp_ComputeResourceMoRef := pl_ComputeMoRef p,
            cp_HostMoRef := hi_MoRef (pl_Identity p), cp_HostName := hi_Name (pl_Identity p),
            cp_ResourcePoolMoRef := pl_PoolMoRef p,
            cp_DRSControl := (if pl_ComputeType p = ''ClusterComputeResource'' then ''disabled'' else ''standalone''),
            cp_ObservedFreeMemoryMB := pl_FreeHostMB p, cp_ReservedMemoryMB := pl_ReservedMemoryMB p,
            cp_PlannedMemoryMBByHost := (\<lambda>_. 0), cp_TargetHostMoRefs := [], cp_SourceCandidates := []\<rparr>"

text \<open>One pass of the loop over the sources: what it appends, and whether headroom was the reason not to.\<close>

definition resolve_source ::
  "vcenter \<Rightarrow> client \<Rightarrow> clone_params \<Rightarrow> bool \<Rightarrow> clone_source \<Rightarrow> (clone_params \<times> placement) option \<times> bool" where
  "resolve_source vc c params skip candidate =
     (case resolveSourceVM vc (cs_Ref candidate) of
        Inl _ \<Rightarrow> (None, False)
      | Inr source \<Rightarrow>
          (case vc_vmHost vc source of
             Inl _ \<Rightarrow> (None, False)
           | Inr host \<Rightarrow>
               (case ResolvePlacement vc c (clone_request c params skip candidate host) of
                  Inl e \<Rightarrow> (None, errorsIs e ErrReservedHeadroom)
                | Inr p \<Rightarrow> (Some (selected_params params candidate p, p), False))))"

definition clone_preference :: "clone_params \<times> placement \<Rightarrow> int \<times> int \<times> string \<times> string" where
  "clone_preference = (\<lambda>(params, p).
     (- pl_FreePoolMB p, - pl_FreeHostMB p, cp_HostName params, cp_TemplateName params))"

definition resolveClonePlacement :: "vcenter \<Rightarrow> client \<Rightarrow> clone_params \<Rightarrow> bool \<Rightarrow> clone_params result" where
  "resolveClonePlacement vc c params skip =
     (let results = map (resolve_source vc c params skip) (clone_sources params);
          resolved = List.map_filter fst results in
      case sort_key clone_preference resolved of
        selected # _ \<Rightarrow> Inr (fst selected)
      | [] \<Rightarrow> if list_ex snd results
              then Inl (Errorf ''no clone placement'' [Sentinel ErrPlacementUnavailable, Sentinel ErrReservedHeadroom])
              else Inl (unavailable ''no clone placement''))"

definition ResolveClonePlacement :: "vcenter \<Rightarrow> client \<Rightarrow> clone_params \<Rightarrow> clone_params result" where
  "ResolveClonePlacement vc c params = resolveClonePlacement vc c params False"

definition ResolveExistingClonePlacement ::
  "vcenter \<Rightarrow> client \<Rightarrow> moref \<Rightarrow> clone_params \<Rightarrow> clone_params result" where
  "ResolveExistingClonePlacement vc c vmMoref params =
     (case vc_connect vc of Some e \<Rightarrow> Inl e | None \<Rightarrow>
     (case (vc_vmHost vc vmMoref, vc_vmPool vc vmMoref) of
        (Inr host, Inr pool) \<Rightarrow>
          (case (host, pool) of
             (Some h, Some p) \<Rightarrow>
               if mo_Value h = []
               then Inl (unavailable ''existing VM has incomplete host or resource-pool placement'')
               else resolveClonePlacement vc c
                      (params\<lparr>cp_HostMoRef := mo_Value h, cp_ResourcePoolMoRef := p\<rparr>) True
           | _ \<Rightarrow> Inl (unavailable ''existing VM has incomplete host or resource-pool placement''))
      | (Inl e, _) \<Rightarrow> Inl (Errorf ''read existing VM placement'' [e])
      | (_, Inl e) \<Rightarrow> Inl (Errorf ''read existing VM placement'' [e])))"

definition EligiblePlacementHostMorefs ::
  "vcenter \<Rightarrow> client \<Rightarrow> string \<Rightarrow> string \<Rightarrow> string \<Rightarrow> int \<Rightarrow> int \<Rightarrow> moref list result" where
  "EligiblePlacementHostMorefs vc c sourceMoref datastore network vcpus ramMB =
     (case (if sourceMoref \<noteq> []
            then (case resolveSourceVM vc sourceMoref of
                    Inl e \<Rightarrow> Inl e
                  | Inr source \<Rightarrow> (case vc_vmHost vc source of Inl e \<Rightarrow> Inl e | Inr h \<Rightarrow> Inr (map_option mo_Value h)))
            else Inr None) of
        Inl e \<Rightarrow> Inl e
      | Inr sourceHost \<Rightarrow>
          (case ResolvePlacement vc c
                  \<lparr>rq_SourceHost = sourceHost, rq_RequireSourceHost = (sourceMoref \<noteq> []), rq_ResourcePoolPath = [],
                   rq_DatastoreName = datastore, rq_NetworkName = network, rq_VCPUs = vcpus, rq_RAMMB = ramMB,
                   rq_PinnedHostMoRef = [], rq_PinnedPoolMoRef = [], rq_ExpectedComputeType = [],
                   rq_ExpectedComputeMoRef = [], rq_AllowMissingNetwork = False, rq_SkipCapacityChecks = False,
                   rq_PlannedMemoryMBByHost = (\<lambda>_. 0), rq_TargetHostMoRefs = []\<rparr> of
             Inl e \<Rightarrow> Inl e
           | Inr p \<Rightarrow> Inr [hi_MoRef (pl_Identity p)]))"

section \<open>Properties of the allowlist\<close>

lemma resolve_hosts_spec:
  assumes "resolve_hosts inventory configured seen = Inr hs"
  shows "list_all2 (\<lambda>name h. h \<in> set inventory \<and>
             (equalFold (hi_Name h) name \<or> equalFold (hi_InventoryPath h) name) \<and>
             hi_MoRef h \<noteq> [] \<and> hi_ComputeMoRef h \<noteq> []) configured hs
         \<and> distinct (map hi_MoRef hs) \<and> set (map hi_MoRef hs) \<inter> set seen = {}"
  using assms
proof (induction inventory configured seen arbitrary: hs rule: resolve_hosts.induct)
  case (1 inventory seen)
  then show ?case by simp
next
  case (2 inventory name rest seen)
  from 2(2) obtain h where h: "filter (\<lambda>h. equalFold (hi_Name h) name \<or> equalFold (hi_InventoryPath h) name) inventory = [h]"
    by (auto split: list.splits)
  from 2(2) h obtain hs' where ok: "hi_MoRef h \<notin> set seen" "hi_MoRef h \<noteq> []" "hi_ComputeMoRef h \<noteq> []"
      "resolve_hosts inventory rest (hi_MoRef h # seen) = Inr hs'" "hs = h # hs'"
    by (auto split: if_splits sum.splits)
  have mem: "h \<in> set inventory \<and> (equalFold (hi_Name h) name \<or> equalFold (hi_InventoryPath h) name)"
    using arg_cong[OF h, of set] by auto
  have "list_all2 (\<lambda>name h. h \<in> set inventory \<and>
             (equalFold (hi_Name h) name \<or> equalFold (hi_InventoryPath h) name) \<and>
             hi_MoRef h \<noteq> [] \<and> hi_ComputeMoRef h \<noteq> []) rest hs'
         \<and> distinct (map hi_MoRef hs') \<and> set (map hi_MoRef hs') \<inter> set (hi_MoRef h # seen) = {}"
    using "2.IH"[OF h refl ok(1) _ ok(4)] ok by simp
  with ok mem show ?case by auto
qed

definition allowlist_ok :: "client \<Rightarrow> bool" where
  "allowlist_ok c \<longleftrightarrow> c_allowedHosts c = [] \<or>
     length (c_allowedHosts c) = length (c_Hosts c) \<and> distinct (AllowedHostMorefs c) \<and>
     list_all2 (\<lambda>name h. (equalFold (hi_Name h) name \<or> equalFold (hi_InventoryPath h) name) \<and>
        hi_MoRef h \<noteq> [] \<and> hi_ComputeMoRef h \<noteq> [] \<and> hi_ReservedMemoryMB h = c_HostReservedMemoryMB c name)
       (c_Hosts c) (c_allowedHosts c)"

definition reserve_memory :: "client \<Rightarrow> host_identity list \<Rightarrow> host_identity list" where
  "reserve_memory c ids = map2 (\<lambda>h name. h\<lparr>hi_ReservedMemoryMB := c_HostReservedMemoryMB c name\<rparr>) ids (c_Hosts c)"

lemma reserve_memory_ok:
  assumes "resolveHostIdentities (c_Hosts c) inventory = Inr ids"
  shows "allowlist_ok (c\<lparr>c_allowedHosts := reserve_memory c ids\<rparr>) \<and> reserve_memory c ids \<noteq> []"
proof -
  from assms have ne: "c_Hosts c \<noteq> []" and r: "resolve_hosts inventory (c_Hosts c) [] = Inr ids"
    by (auto simp: resolveHostIdentities_def split: if_splits)
  note spec = resolve_hosts_spec[OF r]
  then have len: "length ids = length (c_Hosts c)" by (auto dest: list_all2_lengthD)
  have names: "map hi_MoRef (reserve_memory c ids) = map hi_MoRef ids"
    using len by (auto simp: reserve_memory_def intro!: nth_equalityI)
  have "list_all2 (\<lambda>name h. (equalFold (hi_Name h) name \<or> equalFold (hi_InventoryPath h) name) \<and>
        hi_MoRef h \<noteq> [] \<and> hi_ComputeMoRef h \<noteq> [] \<and> hi_ReservedMemoryMB h = c_HostReservedMemoryMB c name)
       (c_Hosts c) (reserve_memory c ids)"
    using spec len by (auto simp: list_all2_conv_all_nth reserve_memory_def)
  with spec len ne names show ?thesis
    by (auto simp: allowlist_ok_def AllowedHostMorefs_def reserve_memory_def)
qed

lemma ResolveProvisioningHosts_outcome:
  "(\<exists>e. ResolveProvisioningHosts vc c = (Inl e, c)) \<or>
   (c_allowedHosts c \<noteq> [] \<and> ResolveProvisioningHosts vc c = (Inr (c_allowedHosts c), c)) \<or>
   (\<exists>inventory ids. c_allowedHosts c = [] \<and> resolveHostIdentities (c_Hosts c) inventory = Inr ids \<and>
      ResolveProvisioningHosts vc c = (Inr (reserve_memory c ids), c\<lparr>c_allowedHosts := reserve_memory c ids\<rparr>))"
  unfolding ResolveProvisioningHosts_def reserve_memory_def[symmetric] Let_def
  by (auto split: option.splits sum.splits if_splits dest: reserve_memory_ok)

text \<open>
  The host allowlist is resolved once and then frozen: whatever vCenter answers at each of
  any number of resolutions, the allowlist is either still empty or has one host per
  \<open>VCENTER_HOSTS\<close> entry, in order, with pairwise different immutable references, complete
  identities and the configured reserve; and once a resolution has succeeded no later one
  changes it.
\<close>

theorem allowlist_frozen:
  assumes "allowlist_ok c"
  shows "allowlist_ok (fold (\<lambda>vc c. snd (ResolveProvisioningHosts vc c)) vcs c) \<and>
    c_Hosts (fold (\<lambda>vc c. snd (ResolveProvisioningHosts vc c)) vcs c) = c_Hosts c \<and>
    (c_allowedHosts c \<noteq> [] \<longrightarrow> fold (\<lambda>vc c. snd (ResolveProvisioningHosts vc c)) vcs c = c) \<and>
    (\<forall>vc hs. fst (ResolveProvisioningHosts vc c) = Inr hs \<longrightarrow>
       hs \<noteq> [] \<and> resolvedHosts (snd (ResolveProvisioningHosts vc c)) = Inr hs)"
proof -
  have step: "allowlist_ok (snd (ResolveProvisioningHosts vc c)) \<and>
      c_Hosts (snd (ResolveProvisioningHosts vc c)) = c_Hosts c \<and>
      (c_allowedHosts c \<noteq> [] \<longrightarrow> snd (ResolveProvisioningHosts vc c) = c)"
    if "allowlist_ok c" for vc c
    using ResolveProvisioningHosts_outcome[of vc c] that by (auto dest: reserve_memory_ok)
  have "allowlist_ok (fold (\<lambda>vc c. snd (ResolveProvisioningHosts vc c)) vcs c) \<and>
    c_Hosts (fold (\<lambda>vc c. snd (ResolveProvisioningHosts vc c)) vcs c) = c_Hosts c \<and>
    (c_allowedHosts c \<noteq> [] \<longrightarrow> fold (\<lambda>vc c. snd (ResolveProvisioningHosts vc c)) vcs c = c)"
    using assms by (induction vcs arbitrary: c) (simp, metis (no_types, lifting) fold_simps(2) step)
  moreover have "hs \<noteq> [] \<and> resolvedHosts (snd (ResolveProvisioningHosts vc c)) = Inr hs"
    if "fst (ResolveProvisioningHosts vc c) = Inr hs" for vc hs
    using ResolveProvisioningHosts_outcome[of vc c] that
    by (auto simp: resolvedHosts_def dest: reserve_memory_ok)
  ultimately show ?thesis by blast
qed

section \<open>A concrete inventory\<close>

text \<open>Two clustered hosts; the second has more free memory, the first is reserved 1024 MB.\<close>

definition lab_host :: "int \<Rightarrow> host_props" where
  "lab_host used = \<lparr>hp_Connected = True, hp_InMaintenanceMode = False, hp_Portgroups = Some [''pod-7''],
     hp_Hardware = Some (16, 34359738368), hp_OverallMemoryUsage = used\<rparr>"

definition lab_vcenter :: vcenter where
  "lab_vcenter =
     \<lparr>vc_connect = None, vc_hosts = Inr [(''host-1'', ''/dc/a''), (''host-2'', ''/dc/b'')],
      vc_hostIdentity = (\<lambda>m. if m = ''host-1'' then Inr (''esx1'', Some \<lparr>mo_Type = ''ClusterComputeResource'', mo_Value = ''domain-c1''\<rparr>)
                            else Inr (''esx2'', Some \<lparr>mo_Type = ''ClusterComputeResource'', mo_Value = ''domain-c1''\<rparr>)),
      vc_datastore = (\<lambda>_. Inr \<lparr>ds_Accessible = True,
         ds_Hosts = [(''host-1'', \<lparr>mi_Mounted = None, mi_Accessible = None\<rparr>), (''host-2'', \<lparr>mi_Mounted = None, mi_Accessible = None\<rparr>)]\<rparr>),
      vc_pool = (\<lambda>p. Inr \<lparr>pr_MoRef = ''resgroup-1'', pr_InventoryPath = p\<rparr>),
      vc_poolProps = (\<lambda>_. Inr \<lparr>pp_Owner = \<lparr>mo_Type = ''ClusterComputeResource'', mo_Value = ''domain-c1''\<rparr>,
         pp_MaxUsage = 68719476736, pp_OverallUsage = 0\<rparr>),
      vc_hostProps = (\<lambda>m. if m = ''host-1'' then Inr (lab_host 30000) else Inr (lab_host 8192)),
      vc_findVM = (\<lambda>_. Inr ''vm-10''),
      vc_vmHost = (\<lambda>m. Inr (Some \<lparr>mo_Type = ''HostSystem'', mo_Value = ''host-2''\<rparr>)),
      vc_vmPool = (\<lambda>_. Inr (Some ''resgroup-1'')), vc_extraConfig = (\<lambda>_. Inr (Some [])),
      vc_drs = (\<lambda>_. Inr []), vc_computePath = (\<lambda>_. Inr (Some ''/dc/cluster'')),
      vc_session = Inr (Some ''session''), vc_hasPrivilege = (\<lambda>_ _ _. Inr [True])\<rparr>"

definition lab_allowed :: "host_identity list" where
  "lab_allowed =
     [\<lparr>hi_Name = ''esx1'', hi_InventoryPath = ''/dc/a'', hi_MoRef = ''host-1'', hi_ComputeType = ''ClusterComputeResource'',
       hi_ComputeMoRef = ''domain-c1'', hi_ReservedMemoryMB = 1024\<rparr>,
      \<lparr>hi_Name = ''esx2'', hi_InventoryPath = ''/dc/b'', hi_MoRef = ''host-2'', hi_ComputeType = ''ClusterComputeResource'',
       hi_ComputeMoRef = ''domain-c1'', hi_ReservedMemoryMB = 0\<rparr>]"

definition lab_client :: client where
  "lab_client =
     \<lparr>c_Hosts = [''ESX1'', ''/dc/b''], c_HostReservedMemoryMB = (\<lambda>n. if n = ''ESX1'' then 1024 else 0),
      c_ResourcePools = [''pods''], c_Datastore = ''ds'', c_allowedHosts = []\<rparr>"

abbreviation lab_ready :: client where
  "lab_ready \<equiv> lab_client\<lparr>c_allowedHosts := lab_allowed\<rparr>"

lemmas lab_defs = lab_vcenter_def lab_client_def lab_allowed_def lab_host_def

lemma lab_resolves: "ResolveProvisioningHosts lab_vcenter lab_client = (Inr lab_allowed, lab_ready)"
proof -
  have fold: "equalFold ''esx1'' ''ESX1''" "\<not> equalFold ''esx2'' ''ESX1''" "\<not> equalFold ''/dc/b'' ''ESX1''"
      "\<not> equalFold ''esx1'' ''/dc/b''" "\<not> equalFold ''/dc/a'' ''/dc/b''" "equalFold ''/dc/b'' ''/dc/b''"
    by code_simp+
  show ?thesis
    by (simp add: ResolveProvisioningHosts_def lab_defs resolveHostIdentities_def fold Let_def)
qed

theorem allowlist_frozen_witness:
  "allowlist_ok lab_client \<and> allowlist_ok (fold (\<lambda>vc c. snd (ResolveProvisioningHosts vc c)) [lab_vcenter] lab_client) \<and>
   resolvedHosts lab_ready = Inr lab_allowed"
proof -
  have ok: "allowlist_ok lab_client" by (simp add: allowlist_ok_def lab_client_def)
  show ?thesis
    using allowlist_frozen[OF ok, of "[lab_vcenter]"] ok lab_resolves by (metis fold_simps fst_conv snd_conv)
qed

section \<open>Properties of the resolver\<close>

lemma check_targets_None: "check_targets c ms = None \<longleftrightarrow> (\<forall>m \<in> set ms. \<exists>h. allowedHostByMoRef c m = Inr h)"
  by (induction ms) (auto split: sum.splits)

lemma allowedHostByMoRef_Inr:
  "allowedHostByMoRef c m = Inr h \<Longrightarrow> h \<in> set (c_allowedHosts c) \<and> hi_MoRef h = m"
  by (auto simp: allowedHostByMoRef_def resolvedHosts_def find_Some_iff split: if_splits option.splits)

lemma allowedHostByMoRef_Inl:
  "(\<exists>e. allowedHostByMoRef c m = Inl e) \<longleftrightarrow> m \<notin> set (AllowedHostMorefs c)"
  by (auto simp: allowedHostByMoRef_def resolvedHosts_def AllowedHostMorefs_def find_None_iff find_Some_iff
      split: option.splits)

text \<open>What a destination has to satisfy, stated on the pair of host and pool.\<close>

definition host_fits :: "placement_request \<Rightarrow> host_identity \<Rightarrow> host_props \<Rightarrow> bool" where
  "host_fits rq h hp \<longleftrightarrow> hp_Connected hp \<and> \<not> hp_InMaintenanceMode hp \<and>
     (rq_AllowMissingNetwork rq \<or> hasStandardPortGroup hp (rq_NetworkName rq)) \<and>
     (rq_SkipCapacityChecks rq \<or>
        \<not> lacksCores rq hp \<and> (requiredFreeMB rq h \<le> 0 \<or> requiredFreeMB rq h \<le> hostFreeMemoryMB hp))"

definition mounts :: "datastore_props \<Rightarrow> moref \<Rightarrow> bool" where
  "mounts ds m \<longleftrightarrow> (\<exists>mi. map_of (rev (ds_Hosts ds)) m = Some mi \<and> mountAccessible mi (ds_Accessible ds))"

definition suitable ::
  "vcenter \<Rightarrow> client \<Rightarrow> placement_request \<Rightarrow> datastore_props \<Rightarrow> moid option \<Rightarrow> pool_ref list \<Rightarrow> placement \<Rightarrow> bool" where
  "suitable vc c rq ds src pools p \<longleftrightarrow>
     (\<exists>pool pp h hp. pool \<in> set pools \<and> vc_poolProps vc (pr_MoRef pool) = Inr pp \<and> pool_matches_source src pp \<and>
        h \<in> set (c_allowedHosts c) \<and> host_selected rq h \<and>
        hi_ComputeMoRef h = mo_Value (pp_Owner pp) \<and> hi_ComputeType h \<in> {[], mo_Type (pp_Owner pp)} \<and>
        mounts ds (hi_MoRef h) \<and> vc_hostProps vc (hi_MoRef h) = Inr hp \<and> host_fits rq h hp \<and>
        p = make_placement vc pool pp h)"

lemma candidate_reasons_Nil:
  "candidate_reasons vc rq ds pp h = [] \<longleftrightarrow>
     hi_ComputeMoRef h = mo_Value (pp_Owner pp) \<and> hi_ComputeType h \<in> {[], mo_Type (pp_Owner pp)} \<and>
     mounts ds (hi_MoRef h) \<and> (\<exists>hp. vc_hostProps vc (hi_MoRef h) = Inr hp \<and> host_fits rq h hp)"
proof -
  have mount: "(case map_of (rev (ds_Hosts ds)) (hi_MoRef h) of
        Some m \<Rightarrow> if mountAccessible m (ds_Accessible ds) then [] else [''datastore is not mounted and accessible'']
      | None \<Rightarrow> [''datastore is not mounted and accessible'']) = [] \<longleftrightarrow> mounts ds (hi_MoRef h)"
    by (cases "map_of (rev (ds_Hosts ds)) (hi_MoRef h)") (simp_all add: mounts_def)
  show ?thesis
  proof (cases "vc_hostProps vc (hi_MoRef h)")
    case (Inl e)
    then show ?thesis by (simp add: candidate_reasons_def)
  next
    case (Inr hp)
    have "\<not> lacksHeadroom rq h hp \<and> \<not> lacksCores rq hp \<longleftrightarrow> rq_SkipCapacityChecks rq \<or>
        \<not> lacksCores rq hp \<and> (requiredFreeMB rq h \<le> 0 \<or> requiredFreeMB rq h \<le> hostFreeMemoryMB hp)"
      unfolding lacksHeadroom_def lacksCores_def by linarith
    with Inr mount show ?thesis
      unfolding candidate_reasons_def host_fits_def append_is_Nil_conv by simp blast
  qed
qed

definition placement_candidates ::
  "vcenter \<Rightarrow> client \<Rightarrow> placement_request \<Rightarrow> datastore_props \<Rightarrow> moid option \<Rightarrow> pool_ref list \<Rightarrow> placement list" where
  "placement_candidates vc c rq ds src pools =
     [make_placement vc pool pp h. (pool, pp, h) \<leftarrow> pool_host_pairs vc rq src pools (c_allowedHosts c),
        candidate_reasons vc rq ds pp h = []]"

lemma set_pool_host_pairs:
  "(pool, pp, h) \<in> set (pool_host_pairs vc rq src pools hosts) \<longleftrightarrow>
     pool \<in> set pools \<and> vc_poolProps vc (pr_MoRef pool) = Inr pp \<and> pool_matches_source src pp \<and>
     h \<in> set hosts \<and> host_selected rq h"
  by (force simp: pool_host_pairs_def split: sum.splits if_splits)

lemma set_placement_candidates:
  "p \<in> set (placement_candidates vc c rq ds src pools) \<longleftrightarrow> suitable vc c rq ds src pools p"
proof -
  have "p \<in> set (placement_candidates vc c rq ds src pools) \<longleftrightarrow>
      (\<exists>pool pp h. (pool, pp, h) \<in> set (pool_host_pairs vc rq src pools (c_allowedHosts c)) \<and>
         candidate_reasons vc rq ds pp h = [] \<and> p = make_placement vc pool pp h)"
    by (fastforce simp: placement_candidates_def)
  then show ?thesis
    unfolding set_pool_host_pairs candidate_reasons_Nil suitable_def by blast
qed

lemma sort_key_hd:
  assumes "sort_key f xs = x # rest"
  shows "x \<in> set xs \<and> (\<forall>y \<in> set xs. f x \<le> f y)"
proof -
  have "sorted (map f (x # rest))" by (metis assms sorted_sort_key)
  moreover have "set (x # rest) = set xs" by (metis assms set_sort)
  ultimately show ?thesis by auto
qed

text \<open>The reads that come before the choice, and the choice alone.\<close>

definition placement_inputs ::
  "vcenter \<Rightarrow> client \<Rightarrow> placement_request \<Rightarrow> datastore_props \<Rightarrow> moid option \<Rightarrow> pool_ref list \<Rightarrow> bool" where
  "placement_inputs vc c rq ds src pools \<longleftrightarrow>
     vc_connect vc = None \<and> c_allowedHosts c \<noteq> [] \<and> set (rq_TargetHostMoRefs rq) \<subseteq> set (AllowedHostMorefs c) \<and>
     (if rq_DatastoreName rq = [] then c_Datastore c else rq_DatastoreName rq) \<noteq> [] \<and>
     vc_datastore vc (if rq_DatastoreName rq = [] then c_Datastore c else rq_DatastoreName rq) = Inr ds \<and>
     ds_Accessible ds \<and> source_compute vc c rq = Inr src \<and>
     configuredPools vc c (rq_ResourcePoolPath rq) (rq_PinnedPoolMoRef rq) = Inr pools"

definition headroom_rejected :: "vcenter \<Rightarrow> client \<Rightarrow> placement_request \<Rightarrow> moid option \<Rightarrow> pool_ref list \<Rightarrow> bool" where
  "headroom_rejected vc c rq src pools \<longleftrightarrow>
     (\<exists>(pool, pp, h) \<in> set (pool_host_pairs vc rq src pools (c_allowedHosts c)). headroom_rejects vc rq h)"

lemma check_targets_subset:
  "check_targets c ms = None \<longleftrightarrow> set ms \<subseteq> set (AllowedHostMorefs c)"
proof -
  have "(\<exists>h. allowedHostByMoRef c m = Inr h) \<longleftrightarrow> m \<in> set (AllowedHostMorefs c)" for m
    using allowedHostByMoRef_Inl[of c m] by (cases "allowedHostByMoRef c m") auto
  then show ?thesis unfolding check_targets_None by auto
qed

lemma ResolvePlacement_choice:
  assumes "placement_inputs vc c rq ds src pools"
  shows "ResolvePlacement vc c rq =
    (case sort_key (preference rq) (placement_candidates vc c rq ds src pools) of
       selected # _ \<Rightarrow> Inr selected
     | [] \<Rightarrow> if headroom_rejected vc c rq src pools
             then Inl (Errorf ''no placement'' [Sentinel ErrPlacementUnavailable, Sentinel ErrReservedHeadroom])
             else Inl (Errorf ''no placement'' [Sentinel ErrPlacementUnavailable]))"
  using assms
  unfolding ResolvePlacement_def placement_inputs_def placement_candidates_def headroom_rejected_def resolvedHosts_def
    check_targets_subset[symmetric] Let_def
  by (simp cong: list.case_cong)

lemma ResolvePlacement_inputs:
  assumes "ResolvePlacement vc c rq = Inr p"
  obtains ds src pools where "placement_inputs vc c rq ds src pools"
proof -
  from assms have conn: "vc_connect vc = None" and hosts: "c_allowedHosts c \<noteq> []"
      and targets: "check_targets c (rq_TargetHostMoRefs rq) = None"
    by (auto simp: ResolvePlacement_def resolvedHosts_def split: option.splits sum.splits if_splits)
  let ?name = "if rq_DatastoreName rq = [] then c_Datastore c else rq_DatastoreName rq"
  from assms conn hosts targets have name: "?name \<noteq> []"
    by (auto simp: ResolvePlacement_def resolvedHosts_def)
  from assms conn hosts targets name obtain ds where ds: "vc_datastore vc ?name = Inr ds" "ds_Accessible ds"
    by (simp add: ResolvePlacement_def resolvedHosts_def Let_def split: sum.splits if_splits)
  from assms conn hosts targets name ds obtain src where src: "source_compute vc c rq = Inr src"
    by (simp add: ResolvePlacement_def resolvedHosts_def Let_def split: sum.splits)
  from assms conn hosts targets name ds src obtain pools
    where "configuredPools vc c (rq_ResourcePoolPath rq) (rq_PinnedPoolMoRef rq) = Inr pools"
    by (simp add: ResolvePlacement_def resolvedHosts_def Let_def split: sum.splits)
  with that conn hosts targets name ds src show ?thesis
    unfolding placement_inputs_def check_targets_subset[symmetric] by blast
qed

text \<open>
  C25. The resolver returns a best suitable destination: when the inventory reads succeed it
  returns a placement exactly when some allowlisted, selected host with a matching pool satisfies
  every constraint, the one returned satisfies them all and none is preferred to it, and otherwise
  the error is \<open>ErrPlacementUnavailable\<close>, with \<open>ErrReservedHeadroom\<close> exactly when
  some considered host lacked free memory.
\<close>

theorem ResolvePlacement_spec:
  assumes "placement_inputs vc c rq ds src pools"
  shows "case ResolvePlacement vc c rq of
      Inr p \<Rightarrow> suitable vc c rq ds src pools p \<and>
               (\<forall>q. suitable vc c rq ds src pools q \<longrightarrow> preference rq p \<le> preference rq q)
    | Inl e \<Rightarrow> (\<forall>q. \<not> suitable vc c rq ds src pools q) \<and> errorsIs e ErrPlacementUnavailable \<and>
               (errorsIs e ErrReservedHeadroom \<longleftrightarrow> headroom_rejected vc c rq src pools)"
proof (cases "sort_key (preference rq) (placement_candidates vc c rq ds src pools)")
  case Nil
  then have "set (placement_candidates vc c rq ds src pools) = {}" by (metis set_sort empty_set)
  then have "\<forall>q. \<not> suitable vc c rq ds src pools q"
    unfolding set_placement_candidates[symmetric] by simp
  then show ?thesis using Nil by (simp add: ResolvePlacement_choice[OF assms])
next
  case (Cons p rest)
  then show ?thesis
    using sort_key_hd[OF Cons] by (simp add: ResolvePlacement_choice[OF assms] set_placement_candidates)
qed

definition lab_request :: placement_request where
  "lab_request = clone_request lab_ready (empty_clone_params\<lparr>cp_Network := ''pod-7'', cp_VCPUs := 2, cp_RAMmb := 4096\<rparr>)
     False \<lparr>cs_ReplicaID = None, cs_Ref = ''vm-10'', cs_ComputeResourceType = [], cs_ComputeResourceMoRef = []\<rparr>
     (Some \<lparr>mo_Type = ''HostSystem'', mo_Value = ''host-2''\<rparr>)"

lemmas lab_request_defs = lab_request_def clone_request_def empty_clone_params_def

definition lab_datastore :: datastore_props where
  "lab_datastore = \<lparr>ds_Accessible = True,
     ds_Hosts = [(''host-1'', \<lparr>mi_Mounted = None, mi_Accessible = None\<rparr>), (''host-2'', \<lparr>mi_Mounted = None, mi_Accessible = None\<rparr>)]\<rparr>"

lemma lab_inputs:
  "placement_inputs lab_vcenter lab_ready lab_request lab_datastore
     (Some \<lparr>mo_Type = ''ClusterComputeResource'', mo_Value = ''domain-c1''\<rparr>)
     [\<lparr>pr_MoRef = ''resgroup-1'', pr_InventoryPath = ''pods''\<rparr>]"
  by (simp add: placement_inputs_def lab_defs lab_request_defs lab_datastore_def source_compute_def
      allowedHostByMoRef_def resolvedHosts_def configuredPools_def Let_def List.map_filter_def)

theorem ResolvePlacement_spec_witness:
  "hi_MoRef (pl_Identity (projr (ResolvePlacement lab_vcenter lab_ready lab_request))) = ''host-2'' \<and>
   suitable lab_vcenter lab_ready lab_request lab_datastore
     (Some \<lparr>mo_Type = ''ClusterComputeResource'', mo_Value = ''domain-c1''\<rparr>)
     [\<lparr>pr_MoRef = ''resgroup-1'', pr_InventoryPath = ''pods''\<rparr>]
     (projr (ResolvePlacement lab_vcenter lab_ready lab_request))"
proof -
  have r: "\<not> isl (ResolvePlacement lab_vcenter lab_ready lab_request)"
      "hi_MoRef (pl_Identity (projr (ResolvePlacement lab_vcenter lab_ready lab_request))) = ''host-2''"
    by code_simp+
  then obtain p where "ResolvePlacement lab_vcenter lab_ready lab_request = Inr p"
    by (metis sum.collapse(2))
  with ResolvePlacement_spec[OF lab_inputs] r show ?thesis by simp
qed

lemma configuredPools_pinned:
  assumes "configuredPools vc c path pinned = Inr pools" "pinned \<noteq> []" "pool \<in> set pools"
  shows "pr_MoRef pool = pinned"
  using assms by (auto simp: configuredPools_def Let_def find_Some_iff split: if_splits option.splits)

lemma source_compute_expected:
  assumes "source_compute vc c rq = Inr src" "rq_ExpectedComputeMoRef rq \<noteq> []"
  obtains p where "src = Some p" "mo_Value p = rq_ExpectedComputeMoRef rq"
    "rq_ExpectedComputeType rq \<in> {[], mo_Type p}"
proof -
  from assms have "(case src of None \<Rightarrow> [] | Some p \<Rightarrow> mo_Value p) = rq_ExpectedComputeMoRef rq \<and>
      (rq_ExpectedComputeType rq = [] \<or> (case src of None \<Rightarrow> [] | Some p \<Rightarrow> mo_Type p) = rq_ExpectedComputeType rq)"
    unfolding source_compute_def Let_def by (simp split: if_splits sum.splits)
  with that assms(2) show thesis by (cases src) auto
qed

definition capacity_ok :: "placement_request \<Rightarrow> placement \<Rightarrow> bool" where
  "capacity_ok rq p \<longleftrightarrow> rq_SkipCapacityChecks rq \<or>
     (let need = rq_RAMMB rq + pl_ReservedMemoryMB p + rq_PlannedMemoryMBByHost rq (hi_MoRef (pl_Identity p)) in
      need \<le> 0 \<or> need \<le> pl_FreeHostMB p)"

lemma ResolvePlacement_sound:
  assumes ok: "ResolvePlacement vc c rq = Inr p"
  shows "pl_Identity p \<in> set (c_allowedHosts c) \<and> host_selected rq (pl_Identity p) \<and>
    rq_PinnedPoolMoRef rq \<in> {[], pl_PoolMoRef p} \<and>
    (rq_ExpectedComputeMoRef rq \<noteq> [] \<longrightarrow> pl_ComputeMoRef p = rq_ExpectedComputeMoRef rq) \<and>
    hi_ComputeMoRef (pl_Identity p) = pl_ComputeMoRef p \<and> capacity_ok rq p"
proof -
  from ok obtain ds src pools where inp: "placement_inputs vc c rq ds src pools"
    by (rule ResolvePlacement_inputs)
  from ResolvePlacement_spec[OF inp] ok have "suitable vc c rq ds src pools p" by simp
  then obtain pool pp h hp where p: "pool \<in> set pools" "pool_matches_source src pp"
      "h \<in> set (c_allowedHosts c)" "host_selected rq h" "hi_ComputeMoRef h = mo_Value (pp_Owner pp)"
      "vc_hostProps vc (hi_MoRef h) = Inr hp" "host_fits rq h hp" "p = make_placement vc pool pp h"
    unfolding suitable_def by blast
  have pools: "configuredPools vc c (rq_ResourcePoolPath rq) (rq_PinnedPoolMoRef rq) = Inr pools"
      and src: "source_compute vc c rq = Inr src"
    using inp by (simp_all add: placement_inputs_def)
  have "rq_PinnedPoolMoRef rq \<in> {[], pl_PoolMoRef p}"
    using configuredPools_pinned[OF pools _ p(1)] p(8) by (cases "rq_PinnedPoolMoRef rq") (simp_all add: make_placement_def)
  moreover have "pl_ComputeMoRef p = rq_ExpectedComputeMoRef rq" if expected: "rq_ExpectedComputeMoRef rq \<noteq> []"
  proof -
    obtain q where "src = Some q" "mo_Value q = rq_ExpectedComputeMoRef rq"
      using src expected by (rule source_compute_expected)
    with p(2,8) expected show ?thesis by (simp add: pool_matches_source_def make_placement_def)
  qed
  moreover have "capacity_ok rq p"
    using p(6,7,8) by (auto simp: capacity_ok_def host_fits_def make_placement_def requiredFreeMB_def Let_def)
  ultimately show ?thesis using p by (simp add: make_placement_def)
qed

lemma resolveClonePlacement_chosen:
  assumes "resolveClonePlacement vc c params skip = Inr r"
  obtains s host p where "s \<in> set (clone_sources params)"
    "ResolvePlacement vc c (clone_request c params skip s host) = Inr p" "r = selected_params params s p"
proof -
  let ?resolved = "List.map_filter fst (map (resolve_source vc c params skip) (clone_sources params))"
  from assms obtain x rest where "sort_key clone_preference ?resolved = x # rest" "r = fst x"
    by (auto simp: resolveClonePlacement_def Let_def split: list.splits if_splits)
  then have "x \<in> set ?resolved" by (metis sort_key_hd)
  then obtain s where s: "s \<in> set (clone_sources params)" "fst (resolve_source vc c params skip s) = Some x"
    by (auto simp: List.map_filter_def)
  then obtain host p where "ResolvePlacement vc c (clone_request c params skip s host) = Inr p"
      "x = (selected_params params s p, p)"
    by (auto simp: resolve_source_def split: sum.splits)
  with that s \<open>r = fst x\<close> show ?thesis by simp
qed

text \<open>
  C16. A clone is only ever placed on an allowlisted host: the destination chosen for a clone comes
  from one of its sources, is on the allowlist, respects a pinned host, a pinned pool, the
  requested target hosts and the source's expected compute resource, has a control that matches
  its compute type, leaves the configured reserve and the memory already planned for the same
  job free, and no other parameter of the clone changes.
\<close>

theorem clone_placement_sound:
  assumes "resolveClonePlacement vc c params skip = Inr r"
  shows "cp_HostMoRef r \<in> set (AllowedHostMorefs c) \<and>
    cp_HostMoRef params \<in> {[], cp_HostMoRef r} \<and> cp_ResourcePoolMoRef params \<in> {[], cp_ResourcePoolMoRef r} \<and>
    (cp_TargetHostMoRefs params \<noteq> [] \<longrightarrow> cp_HostMoRef r \<in> set (cp_TargetHostMoRefs params)) \<and>
    (\<exists>s \<in> set (clone_sources params). cp_TemplateName r = cs_Ref s \<and> cp_SourceReplicaID r = cs_ReplicaID s \<and>
       cs_ComputeResourceMoRef s \<in> {[], cp_ComputeResourceMoRef r}) \<and>
    (cp_DRSControl r = ''disabled'' \<longleftrightarrow> cp_ComputeResourceType r = ''ClusterComputeResource'') \<and>
    (skip \<or> (let need = cp_RAMmb params + cp_ReservedMemoryMB r + cp_PlannedMemoryMBByHost params (cp_HostMoRef r)
             in need \<le> 0 \<or> need \<le> cp_ObservedFreeMemoryMB r)) \<and>
    cp_RAMmb r = cp_RAMmb params \<and> cp_VCPUs r = cp_VCPUs params \<and> cp_Network r = cp_Network params"
proof -
  from assms obtain s host p where s: "s \<in> set (clone_sources params)"
      and p: "ResolvePlacement vc c (clone_request c params skip s host) = Inr p"
      and r: "r = selected_params params s p"
    by (rule resolveClonePlacement_chosen)
  note sound = ResolvePlacement_sound[OF p]
  have "cp_HostMoRef r \<in> set (AllowedHostMorefs c)"
    using sound r by (auto simp: AllowedHostMorefs_def selected_params_def)
  moreover have "\<exists>s \<in> set (clone_sources params). cp_TemplateName r = cs_Ref s \<and>
      cp_SourceReplicaID r = cs_ReplicaID s \<and> cs_ComputeResourceMoRef s \<in> {[], cp_ComputeResourceMoRef r}"
    using sound r s by (intro bexI[OF _ s]) (auto simp: selected_params_def clone_request_def)
  ultimately show ?thesis
    using sound r
    by (auto simp: selected_params_def clone_request_def host_selected_def capacity_ok_def Let_def)
qed

theorem clone_placement_sound_witness:
  "cp_HostMoRef (projr (ResolveClonePlacement lab_vcenter lab_ready
      (empty_clone_params\<lparr>cp_TemplateName := ''vm-10'', cp_Network := ''pod-7'', cp_RAMmb := 4096\<rparr>)))
     \<in> set (AllowedHostMorefs lab_ready)"
proof -
  let ?params = "empty_clone_params\<lparr>cp_TemplateName := ''vm-10'', cp_Network := ''pod-7'', cp_RAMmb := 4096\<rparr>"
  have "\<not> isl (resolveClonePlacement lab_vcenter lab_ready ?params False)" by code_simp
  then obtain r where "resolveClonePlacement lab_vcenter lab_ready ?params False = Inr r"
    by (metis sum.collapse(2))
  with clone_placement_sound[OF this] show ?thesis by (simp add: ResolveClonePlacement_def)
qed

end
