(* ===== verification/Drs.thy ===== *)
theory Drs
  imports Placement Store
begin

text \<open>
  Keeping a virtual machine where it was placed (\<open>internal/vcenter/drs.go\<close>, the validation part of
  \<open>internal/vcenter/placement.go\<close> and the error predicates of \<open>internal/vcenter/client.go\<close>): the
  checks that a machine is still on its host, compute resource and under its DRS control, the
  mutation that installs the control, and the comparison of a clone with its durable markers.
  Several reads of one check see one state of vCenter; the reconfiguration of a cluster, a remote
  task, is a parameter that returns the state after it.
\<close>

section \<open>Error predicates\<close>

definition isAlreadyDeletedErr :: "go_error \<Rightarrow> bool" where
  "isAlreadyDeletedErr err \<longleftrightarrow>
     containsStr (errorText err) ''has already been deleted'' \<or>
     containsStr (errorText err) ''not been completely created''"

definition isResourceNotFoundErr :: "go_error \<Rightarrow> bool" where
  "isResourceNotFoundErr err \<longleftrightarrow>
     containsStr (errorText err) ''could not be found'' \<or> containsStr (errorText err) ''NotFound''"

definition IsVMNotFoundError :: "go_error option \<Rightarrow> bool" where
  "IsVMNotFoundError err = (case err of None \<Rightarrow> False | Some e \<Rightarrow> isAlreadyDeletedErr e \<or> isResourceNotFoundErr e)"

text \<open>A \<open>PlacementDriftError\<close>; the detail is the constant part of its format.\<close>

definition newPlacementDrift :: "drift_kind \<Rightarrow> go_error option \<Rightarrow> string \<Rightarrow> go_error" where
  "newPlacementDrift kind cause detail =
     Typed (PlacementDriftError kind detail) (case cause of None \<Rightarrow> Errorf [] [] | Some e \<Rightarrow> e)"

text \<open>\<open>fmt.Errorf("%w: text: %w", ErrPlacementValidationUnavailable, err)\<close>.\<close>

definition validation_unavailable :: "string \<Rightarrow> go_error \<Rightarrow> go_error" where
  "validation_unavailable text e =
     Errorf (sentinelText ErrPlacementValidationUnavailable @ '': '' @ text @ '': '' @ errorText e)
       [Sentinel ErrPlacementValidationUnavailable, e]"

section \<open>Checking the host\<close>

definition ValidateVMPlacement :: "vcenter \<Rightarrow> client \<Rightarrow> moref \<Rightarrow> moref \<Rightarrow> go_error option" where
  "ValidateVMPlacement vc c vmMoref expectedHostMoRef =
     (case vc_connect vc of
        Some e \<Rightarrow> Some (validation_unavailable ''connect to vCenter'' e)
      | None \<Rightarrow>
          (case vc_vmHost vc vmMoref of
             Inl e \<Rightarrow> Some (validation_unavailable ''read VM placement'' e)
           | Inr host \<Rightarrow>
               let moref = (case host of None \<Rightarrow> [] | Some h \<Rightarrow> mo_Value h) in
               if moref = []
               then Some (newPlacementDrift PlacementDriftHost (Some (Sentinel ErrHostNotAllowed))
                            ''VM has no runtime host assignment'')
               else
                 (case allowedHostByMoRef c moref of
                    Inl e \<Rightarrow> Some (newPlacementDrift PlacementDriftHost (Some e) ''VM is on another host'')
                  | Inr _ \<Rightarrow>
                      if expectedHostMoRef \<noteq> [] \<and> moref \<noteq> expectedHostMoRef
                      then Some (newPlacementDrift PlacementDriftHost (Some (Sentinel ErrHostNotAllowed))
                                   ''VM is not on the expected persisted host'')
                      else None)))"

definition validateVMForMutation :: "vcenter \<Rightarrow> client \<Rightarrow> moref \<Rightarrow> moref \<Rightarrow> bool \<Rightarrow> go_error option" where
  "validateVMForMutation vc c vmMoref expectedHostMoref missingIsSuccess =
     (case ValidateVMPlacement vc c vmMoref expectedHostMoref of
        None \<Rightarrow> None
      | Some err \<Rightarrow>
          if missingIsSuccess \<and> (isAlreadyDeletedErr err \<or> isResourceNotFoundErr err) then None
          else Some (Errorf (''refuse vCenter mutation for VM: '' @ errorText err) [err]))"

section \<open>Privileges\<close>

definition DRSPlacementPrivilege :: string where
  "DRSPlacementPrivilege = ''Host.Inventory.EditCluster''"

text \<open>The unique compute identities of a plan, sorted by type and reference joined with a NUL.\<close>

definition target_key :: "vm_placement \<Rightarrow> string" where
  "target_key p = vp_ComputeResourceType p @ [CHR 0x00] @ vp_ComputeResourceMoref p"

definition DRSPlacementTargets :: "vm_placement list \<Rightarrow> moid list" where
  "DRSPlacementTargets placements =
     (let unique = map_of (rev (map (\<lambda>p. (target_key p,
                      \<lparr>mo_Type = vp_ComputeResourceType p, mo_Value = vp_ComputeResourceMoref p\<rparr>)) placements)) in
      List.map_filter unique (sort (remdups (map target_key placements))))"

fun check_privileges :: "vcenter \<Rightarrow> string \<Rightarrow> moid list \<Rightarrow> go_error option" where
  "check_privileges vc sessionKey [] = None"
| "check_privileges vc sessionKey (target # rest) =
     (if mo_Type target = ''ComputeResource'' then check_privileges vc sessionKey rest
      else if mo_Type target \<noteq> ''ClusterComputeResource''
      then Some (errorsNew ''unsupported placement compute type'')
      else
        (case vc_hasPrivilege vc target sessionKey DRSPlacementPrivilege of
           Inl e \<Rightarrow> Some (Errorf ''validate DRS privilege'' [e])
         | Inr granted \<Rightarrow>
             if granted = [True] then check_privileges vc sessionKey rest
             else Some (errorsNew ''vCenter service account lacks the DRS privilege on selected cluster'')))"

definition ValidateDRSPlacementPrivileges :: "vcenter \<Rightarrow> moid list \<Rightarrow> go_error option" where
  "ValidateDRSPlacementPrivileges vc targets =
     (case vc_connect vc of Some e \<Rightarrow> Some e | None \<Rightarrow>
     (case vc_session vc of
        Inl e \<Rightarrow> Some (Errorf ''load vCenter session for DRS privilege validation'' [e])
      | Inr session \<Rightarrow>
          (let key = (case session of None \<Rightarrow> [] | Some k \<Rightarrow> k) in
           if key = [] then Some (errorsNew ''vCenter session has no identity for DRS privilege validation'')
           else check_privileges vc key targets)))"

section \<open>The markers of a clone\<close>

definition CloneOperationIDKey :: string where "CloneOperationIDKey = ''guestinfo.crucible.clone_operation_id''"
definition CloneOperationSourceKey :: string where "CloneOperationSourceKey = ''guestinfo.crucible.clone_source_ref''"
definition CloneOperationPodVMKey :: string where "CloneOperationPodVMKey = ''guestinfo.crucible.clone_pod_vm_id''"
definition CloneOperationHostKey :: string where "CloneOperationHostKey = ''guestinfo.crucible.clone_host_moref''"
definition CloneOperationPoolKey :: string where "CloneOperationPoolKey = ''guestinfo.crucible.clone_pool_moref''"
definition CloneOperationComputeTypeKey :: string where "CloneOperationComputeTypeKey = ''guestinfo.crucible.clone_compute_type''"
definition CloneOperationComputeKey :: string where "CloneOperationComputeKey = ''guestinfo.crucible.clone_compute_moref''"
definition CloneOperationReplicaKey :: string where "CloneOperationReplicaKey = ''guestinfo.crucible.clone_source_replica_id''"
definition CloneOperationTemplateKey :: string where "CloneOperationTemplateKey = ''guestinfo.crucible.logical_template_id''"

text \<open>The first string value under the key; an option whose value is not a string is passed over.\<close>

fun optionValueString :: "(string \<times> string option) list \<Rightarrow> string \<Rightarrow> string" where
  "optionValueString [] key = []"
| "optionValueString ((k, v) # rest) key =
     (if k = key then (case v of Some t \<Rightarrow> t | None \<Rightarrow> optionValueString rest key)
      else optionValueString rest key)"

record clone_identity =
  ci_LogicalTemplateID :: string
  ci_SourceReplicaID :: string
  ci_SourceRef :: string
  ci_PodVMID :: string
  ci_ComputeResourceType :: string
  ci_ComputeResourceMoref :: moref
  ci_ResourcePoolMoref :: moref
  ci_HostMoref :: moref

definition clone_markers :: "clone_identity \<Rightarrow> (string \<times> string) list" where
  "clone_markers ci =
     [(CloneOperationTemplateKey, ci_LogicalTemplateID ci), (CloneOperationReplicaKey, ci_SourceReplicaID ci),
      (CloneOperationSourceKey, ci_SourceRef ci), (CloneOperationPodVMKey, ci_PodVMID ci),
      (CloneOperationComputeTypeKey, ci_ComputeResourceType ci), (CloneOperationComputeKey, ci_ComputeResourceMoref ci),
      (CloneOperationPoolKey, ci_ResourcePoolMoref ci), (CloneOperationHostKey, ci_HostMoref ci)]"

definition ValidateVMCloneIdentity :: "vcenter \<Rightarrow> moref \<Rightarrow> clone_identity \<Rightarrow> go_error option" where
  "ValidateVMCloneIdentity vc vmMoref expected =
     (case vc_connect vc of
        Some e \<Rightarrow> Some (validation_unavailable ''connect to vCenter'' e)
      | None \<Rightarrow>
          (case (vc_vmPool vc vmMoref, vc_extraConfig vc vmMoref) of
             (Inl e, _) \<Rightarrow> Some (validation_unavailable ''read VM clone identity'' e)
           | (_, Inl e) \<Rightarrow> Some (validation_unavailable ''read VM clone identity'' e)
           | (Inr pool, Inr config) \<Rightarrow>
               if pool \<noteq> Some (ci_ResourcePoolMoref expected)
               then Some (newPlacementDrift PlacementDriftIdentity None ''VM resource pool differs from expected'')
               else
                 (case config of
                    None \<Rightarrow> Some (newPlacementDrift PlacementDriftIdentity None ''VM has no readable durable clone markers'')
                  | Some extra \<Rightarrow>
                      if optionValueString extra CloneOperationIDKey = []
                      then Some (newPlacementDrift PlacementDriftIdentity None ''VM has no durable clone operation marker'')
                      else if list_ex (\<lambda>(key, value). optionValueString extra key \<noteq> value) (clone_markers expected)
                      then Some (newPlacementDrift PlacementDriftIdentity None ''VM marker differs from expected'')
                      else None)))"

section \<open>Checking and installing the control\<close>

definition DRSControlDisabled :: string where "DRSControlDisabled = ''disabled''"
definition DRSControlStandalone :: string where "DRSControlStandalone = ''standalone''"

definition validateVMComputeResource :: "vcenter \<Rightarrow> moref \<Rightarrow> string \<Rightarrow> moref \<Rightarrow> go_error option" where
  "validateVMComputeResource vc vmMoref expectedType expectedMoref =
     (if expectedType = [] \<or> expectedMoref = []
      then Some (newPlacementDrift PlacementDriftCompute None ''persisted compute-resource identity is incomplete'')
      else
        (case vc_vmHost vc vmMoref of
           Inl e \<Rightarrow> Some (validation_unavailable ''read VM host'' e)
         | Inr None \<Rightarrow> Some (newPlacementDrift PlacementDriftCompute None ''VM has no runtime host'')
         | Inr (Some host) \<Rightarrow>
             (case vc_hostIdentity vc (mo_Value host) of
                Inl e \<Rightarrow> Some (validation_unavailable ''read VM compute resource'' e)
              | Inr (_, parent) \<Rightarrow>
                  if parent \<noteq> Some \<lparr>mo_Type = expectedType, mo_Value = expectedMoref\<rparr>
                  then Some (newPlacementDrift PlacementDriftCompute None ''VM compute resource differs from expected'')
                  else None)))"

text \<open>The override the cluster lists for the machine.\<close>

definition check_override :: "vcenter \<Rightarrow> moref \<Rightarrow> moref \<Rightarrow> go_error option" where
  "check_override vc vmMoref computeMoref =
     (case vc_drs vc computeMoref of
        Inl e \<Rightarrow> Some (validation_unavailable ''read DRS control for VM'' e)
      | Inr overrides \<Rightarrow>
          (case find (\<lambda>(key, _). key = vmMoref) overrides of
             Some (_, enabled) \<Rightarrow>
               if enabled = Some False then None
               else Some (newPlacementDrift PlacementDriftDRS None ''VM DRS override is enabled'')
           | None \<Rightarrow> Some (newPlacementDrift PlacementDriftDRS (Some (Sentinel ErrDRSControlMissing))
                            ''VM has no DRS override'')))"

definition validateVMPlacementControl ::
  "vcenter \<Rightarrow> client \<Rightarrow> moref \<Rightarrow> moref \<Rightarrow> string \<Rightarrow> moref \<Rightarrow> string \<Rightarrow> go_error option" where
  "validateVMPlacementControl vc c vmMoref expectedHostMoref computeType computeMoref control =
     (case ValidateVMPlacement vc c vmMoref expectedHostMoref of Some e \<Rightarrow> Some e | None \<Rightarrow>
     (case validateVMComputeResource vc vmMoref computeType computeMoref of Some e \<Rightarrow> Some e | None \<Rightarrow>
     (if control = DRSControlStandalone
      then if computeType \<noteq> ''ComputeResource''
           then Some (newPlacementDrift PlacementDriftDRS None ''expected standalone compute resource'') else None
      else if control = DRSControlDisabled
      then if computeType \<noteq> ''ClusterComputeResource''
           then Some (newPlacementDrift PlacementDriftDRS None ''expected cluster compute resource'')
           else
             check_override vc vmMoref computeMoref
      else Some (newPlacementDrift PlacementDriftDRS None ''unsupported persisted control''))))"

definition ValidateVMPlacementControl ::
  "vcenter \<Rightarrow> client \<Rightarrow> moref \<Rightarrow> moref \<Rightarrow> string \<Rightarrow> moref \<Rightarrow> string \<Rightarrow> go_error option" where
  "ValidateVMPlacementControl = validateVMPlacementControl"

text \<open>
  The reconfiguration of a cluster as a remote task: submitting it or waiting for it may fail, and
  vCenter may have changed in each case.
\<close>

datatype array_update = ArrayUpdateOperationAdd | ArrayUpdateOperationEdit

datatype task_outcome = SubmitFailed go_error | WaitFailed go_error | TaskDone

type_synonym reconfigure = "moref \<Rightarrow> moref \<Rightarrow> array_update \<Rightarrow> vcenter \<Rightarrow> task_outcome \<times> vcenter"

definition drs_failure :: "string \<Rightarrow> go_error \<Rightarrow> go_error" where
  "drs_failure text e =
     Errorf (sentinelText ErrDRSControlFailure @ '': '' @ sentinelText ErrPlacementValidationUnavailable @ '': '' @
             text @ '': '' @ errorText e)
       [Sentinel ErrDRSControlFailure, Sentinel ErrPlacementValidationUnavailable, e]"

definition install_override ::
  "reconfigure \<Rightarrow> vcenter \<Rightarrow> client \<Rightarrow> moref \<Rightarrow> moref \<Rightarrow> string \<Rightarrow> moref \<Rightarrow> string \<Rightarrow> go_error option \<times> vcenter" where
  "install_override reconfigure vc c vmMoref expectedHostMoref computeType computeMoref control =
     (case vc_drs vc computeMoref of
        Inl e \<Rightarrow> (Some (drs_failure ''read cluster configuration'' e), vc)
      | Inr overrides \<Rightarrow>
          (let existing = find (\<lambda>(key, _). key = vmMoref) overrides in
           if map_option snd existing = Some (Some False) then (None, vc)
           else
             (case reconfigure computeMoref vmMoref
                     (if existing = None then ArrayUpdateOperationAdd else ArrayUpdateOperationEdit) vc of
                (SubmitFailed e, vc') \<Rightarrow> (Some (drs_failure ''disable DRS for VM'' e), vc')
              | (WaitFailed e, vc') \<Rightarrow> (Some (drs_failure ''wait for DRS override on VM'' e), vc')
              | (TaskDone, vc') \<Rightarrow>
                  (ValidateVMPlacementControl vc' c vmMoref expectedHostMoref computeType computeMoref control, vc'))))"

definition EnsureVMPlacementControl ::
  "reconfigure \<Rightarrow> vcenter \<Rightarrow> client \<Rightarrow> moref \<Rightarrow> moref \<Rightarrow> string \<Rightarrow> moref \<Rightarrow> string \<Rightarrow> go_error option \<times> vcenter" where
  "EnsureVMPlacementControl reconfigure vc c vmMoref expectedHostMoref computeType computeMoref control =
     (case ValidateVMPlacement vc c vmMoref expectedHostMoref of Some e \<Rightarrow> (Some e, vc) | None \<Rightarrow>
     (if control = DRSControlStandalone
      then if computeType \<noteq> ''ComputeResource''
           then (Some (newPlacementDrift PlacementDriftDRS None ''standalone control recorded for another compute type''), vc)
           else (validateVMComputeResource vc vmMoref computeType computeMoref, vc)
      else if control = DRSControlDisabled
      then if computeType \<noteq> ''ClusterComputeResource''
           then (Some (newPlacementDrift PlacementDriftDRS None ''disabled DRS control recorded for another compute type''), vc)
           else
             (case validateVMComputeResource vc vmMoref computeType computeMoref of
                Some e \<Rightarrow> (Some e, vc)
              | None \<Rightarrow> install_override reconfigure vc c vmMoref expectedHostMoref computeType computeMoref control)
      else (Some (newPlacementDrift PlacementDriftDRS None ''unsupported control''), vc)))"

definition ValidateVMPlacementCleanupControl ::
  "reconfigure \<Rightarrow> vcenter \<Rightarrow> client \<Rightarrow> moref \<Rightarrow> moref \<Rightarrow> string \<Rightarrow> moref \<Rightarrow> string \<Rightarrow> go_error option \<times> vcenter" where
  "ValidateVMPlacementCleanupControl reconfigure vc c vmMoref expectedHostMoref computeType computeMoref control =
     (case ValidateVMPlacementControl vc c vmMoref expectedHostMoref computeType computeMoref control of
        None \<Rightarrow> (None, vc)
      | Some e \<Rightarrow>
          if \<not> errorsIs e ErrDRSControlMissing then (Some e, vc)
          else EnsureVMPlacementControl reconfigure vc c vmMoref expectedHostMoref computeType computeMoref control)"

section \<open>What the checks decide\<close>

definition vm_on_host :: "vcenter \<Rightarrow> client \<Rightarrow> moref \<Rightarrow> moref \<Rightarrow> bool" where
  "vm_on_host vc c vm expected \<longleftrightarrow> vc_connect vc = None \<and>
     (\<exists>h. vc_vmHost vc vm = Inr (Some h) \<and> mo_Value h \<noteq> [] \<and> mo_Value h \<in> set (AllowedHostMorefs c) \<and>
          expected \<in> {[], mo_Value h})"

definition vm_on_compute :: "vcenter \<Rightarrow> moref \<Rightarrow> string \<Rightarrow> moref \<Rightarrow> bool" where
  "vm_on_compute vc vm type moref \<longleftrightarrow> type \<noteq> [] \<and> moref \<noteq> [] \<and>
     (\<exists>h name. vc_vmHost vc vm = Inr (Some h) \<and>
        vc_hostIdentity vc (mo_Value h) = Inr (name, Some \<lparr>mo_Type = type, mo_Value = moref\<rparr>))"

definition override :: "(moref \<times> bool option) list \<Rightarrow> moref \<Rightarrow> bool option option" where
  "override overrides vm = map_option snd (find (\<lambda>(key, _). key = vm) overrides)"

definition controlled :: "vcenter \<Rightarrow> moref \<Rightarrow> string \<Rightarrow> moref \<Rightarrow> string \<Rightarrow> bool" where
  "controlled vc vm type moref control \<longleftrightarrow>
     control = DRSControlStandalone \<and> type = ''ComputeResource'' \<or>
     control = DRSControlDisabled \<and> type = ''ClusterComputeResource'' \<and>
     (\<exists>overrides. vc_drs vc moref = Inr overrides \<and> override overrides vm = Some (Some False))"

definition read_failed :: "vcenter \<Rightarrow> moref \<Rightarrow> moref \<Rightarrow> bool" where
  "read_failed vc vm cluster \<longleftrightarrow> vc_connect vc \<noteq> None \<or> isl (vc_vmHost vc vm) \<or>
     (\<exists>h. vc_vmHost vc vm = Inr (Some h) \<and> isl (vc_hostIdentity vc (mo_Value h))) \<or> isl (vc_drs vc cluster)"

text \<open>Errors of the vCenter library are none of this program's own.\<close>

definition foreign :: "go_error \<Rightarrow> bool" where
  "foreign e \<longleftrightarrow> (\<forall>s \<in> {ErrPlacementDrift, ErrDRSControlDrift, ErrDRSControlMissing, ErrPlacementValidationUnavailable}.
     \<not> errorsIs e s) \<and> \<not> errorsAs (\<lambda>_. True) e"

definition foreign_errors :: "vcenter \<Rightarrow> bool" where
  "foreign_errors vc \<longleftrightarrow> (\<forall>e. vc_connect vc = Some e \<longrightarrow> foreign e) \<and>
     (\<forall>m e. vc_vmHost vc m = Inl e \<longrightarrow> foreign e) \<and>
     (\<forall>m e. vc_hostIdentity vc m = Inl e \<longrightarrow> foreign e) \<and> (\<forall>m e. vc_drs vc m = Inl e \<longrightarrow> foreign e)"

lemma errorsAs_mono: "errorsAs p e \<Longrightarrow> errorsAs (\<lambda>_. True) e"
  by (induction p e rule: errorsAs.induct) (auto simp: list_ex_iff)

lemma ValidateVMPlacement_None: "ValidateVMPlacement vc c vm expected = None \<longleftrightarrow> vm_on_host vc c vm expected"
proof -
  have "isl (allowedHostByMoRef c m) \<longleftrightarrow> m \<notin> set (AllowedHostMorefs c)" for m
    using allowedHostByMoRef_Inl[of c m] by (cases "allowedHostByMoRef c m") auto
  then have "(case allowedHostByMoRef c m of Inl e \<Rightarrow> Some (f e) | Inr _ \<Rightarrow> b) = None \<longleftrightarrow>
      m \<in> set (AllowedHostMorefs c) \<and> b = None" for m b and f :: "go_error \<Rightarrow> go_error"
    by (metis isl_def sum.case_eq_if option.simps(3))
  then show ?thesis
    by (auto simp: ValidateVMPlacement_def vm_on_host_def Let_def split: option.splits sum.split)
qed

lemma validateVMComputeResource_None:
  "validateVMComputeResource vc vm type moref = None \<longleftrightarrow> vm_on_compute vc vm type moref"
  by (auto simp: validateVMComputeResource_def vm_on_compute_def split: option.splits sum.splits)

lemma check_override_None:
  "check_override vc vm moref = None \<longleftrightarrow>
     (\<exists>overrides. vc_drs vc moref = Inr overrides \<and> override overrides vm = Some (Some False))"
proof (cases "vc_drs vc moref")
  case (Inl e)
  then show ?thesis by (simp add: check_override_def)
next
  case (Inr ov)
  then show ?thesis by (cases "find (\<lambda>(key, _). key = vm) ov") (auto simp: check_override_def override_def split: if_splits)
qed

lemma controls_differ [simp]: "DRSControlStandalone \<noteq> DRSControlDisabled" "DRSControlDisabled \<noteq> DRSControlStandalone"
  by (simp_all add: DRSControlStandalone_def DRSControlDisabled_def)

lemma validateVMPlacementControl_eq:
  assumes "ValidateVMPlacement vc c vm host = None" "validateVMComputeResource vc vm type moref = None"
  shows "validateVMPlacementControl vc c vm host type moref control =
    (if control = DRSControlStandalone
     then if type \<noteq> ''ComputeResource''
          then Some (newPlacementDrift PlacementDriftDRS None ''expected standalone compute resource'') else None
     else if control = DRSControlDisabled
     then if type \<noteq> ''ClusterComputeResource''
          then Some (newPlacementDrift PlacementDriftDRS None ''expected cluster compute resource'')
          else check_override vc vm moref
     else Some (newPlacementDrift PlacementDriftDRS None ''unsupported persisted control''))"
  unfolding validateVMPlacementControl_def assms by (simp only: option.case)

lemma validateVMPlacementControl_None:
  "validateVMPlacementControl vc c vm host type moref control = None \<longleftrightarrow>
     vm_on_host vc c vm host \<and> vm_on_compute vc vm type moref \<and> controlled vc vm type moref control"
proof (cases "ValidateVMPlacement vc c vm host = None \<and> validateVMComputeResource vc vm type moref = None")
  case False
  then show ?thesis
    unfolding validateVMPlacementControl_def ValidateVMPlacement_None[symmetric] validateVMComputeResource_None[symmetric]
    by (cases "ValidateVMPlacement vc c vm host"; cases "validateVMComputeResource vc vm type moref")
       (simp_all only: option.simps simp_thms)
next
  case True
  then have "validateVMPlacementControl vc c vm host type moref control = None \<longleftrightarrow> controlled vc vm type moref control"
    unfolding controlled_def check_override_None[symmetric]
    by (cases "control = DRSControlStandalone"; cases "control = DRSControlDisabled")
       (auto simp only: validateVMPlacementControl_eq controls_differ if_True if_False simp_thms option.simps split: if_splits)
  with True show ?thesis by (simp add: ValidateVMPlacement_None validateVMComputeResource_None)
qed

text \<open>The three classes of a failed check.\<close>

definition check_class :: "go_error \<Rightarrow> bool \<Rightarrow> bool \<Rightarrow> bool \<Rightarrow> bool \<Rightarrow> bool" where
  "check_class e placement drs missing unreadable \<longleftrightarrow>
     errorsIs e ErrPlacementDrift = placement \<and> errorsIs e ErrDRSControlDrift = drs \<and>
     errorsIs e ErrDRSControlMissing = missing \<and> errorsIs e ErrPlacementValidationUnavailable = unreadable \<and>
     \<not> isManualCleanupRequired e \<and> \<not> isCompensationRetry e \<and> \<not> isCompensatedJobError e"

lemma foreign_not_own:
  "foreign e \<Longrightarrow> \<not> errorsAs p e"
  "foreign e \<Longrightarrow> \<not> errorsIs e ErrPlacementDrift" "foreign e \<Longrightarrow> \<not> errorsIs e ErrDRSControlDrift"
  "foreign e \<Longrightarrow> \<not> errorsIs e ErrDRSControlMissing" "foreign e \<Longrightarrow> \<not> errorsIs e ErrPlacementValidationUnavailable"
  by (auto simp: foreign_def dest: errorsAs_mono)

lemmas own_error_defs = isManualCleanupRequired_def isCompensationRetry_def isCompensatedJobError_def
  isPodCreateCleanupRetry_def isCompensationRetryType_def

lemma class_unavailable: "foreign e \<Longrightarrow> check_class (validation_unavailable t e) False False False True"
  by (simp add: check_class_def validation_unavailable_def own_error_defs foreign_not_own)

lemma class_allowed:
  "allowedHostByMoRef c m = Inl e \<Longrightarrow> check_class (newPlacementDrift PlacementDriftHost (Some e) t) True False False False"
  by (auto simp: allowedHostByMoRef_def resolvedHosts_def check_class_def newPlacementDrift_def own_error_defs
      split: if_splits option.splits)

lemma class_drift:
  "check_class (newPlacementDrift PlacementDriftHost (Some (Sentinel ErrHostNotAllowed)) t) True False False False"
  "check_class (newPlacementDrift PlacementDriftCompute None t) True False False False"
  "check_class (newPlacementDrift PlacementDriftDRS None t) False True False False"
  "check_class (newPlacementDrift PlacementDriftDRS (Some (Sentinel ErrDRSControlMissing)) t) False True True False"
  by (simp_all add: check_class_def newPlacementDrift_def own_error_defs)

lemmas check_classes = class_unavailable class_allowed class_drift

section \<open>Properties of the checks\<close>

lemma ValidateVMPlacement_class:
  assumes "foreign_errors vc" "ValidateVMPlacement vc c vm host = Some e"
  shows "check_class e True False False False \<or> check_class e False False False True \<and> read_failed vc vm cluster"
  using assms
  by (auto simp: ValidateVMPlacement_def foreign_errors_def read_failed_def Let_def
      intro: check_classes split: option.splits sum.splits if_splits)

lemma validateVMComputeResource_class:
  assumes "foreign_errors vc" "validateVMComputeResource vc vm type moref = Some e"
  shows "check_class e True False False False \<or> check_class e False False False True \<and> read_failed vc vm cluster"
  using assms
  by (auto simp: validateVMComputeResource_def foreign_errors_def read_failed_def
      intro: check_classes split: option.splits sum.splits if_splits)

lemma control_class:
  assumes "foreign_errors vc" "ValidateVMPlacement vc c vm host = None" "validateVMComputeResource vc vm type moref = None"
    "validateVMPlacementControl vc c vm host type moref control = Some e"
  shows "check_class e False True False False \<or>
    check_class e False True True False \<and>
      (\<exists>overrides. vc_drs vc moref = Inr overrides \<and> override overrides vm = None) \<or>
    check_class e False False False True \<and> read_failed vc vm moref"
proof (cases "control = DRSControlDisabled \<and> type = ''ClusterComputeResource''")
  case False
  from assms(4) have "\<exists>t. e = newPlacementDrift PlacementDriftDRS None t"
    using False unfolding validateVMPlacementControl_eq[OF assms(2,3)] by (metis option.distinct(1) option.inject)
  then show ?thesis by (auto intro: check_classes)
next
  case True
  then have e: "check_override vc vm moref = Some e"
    using assms(4) unfolding validateVMPlacementControl_eq[OF assms(2,3)] by simp
  show ?thesis
  proof (cases "vc_drs vc moref")
    case (Inl x)
    moreover have "foreign x" using assms(1) Inl by (simp add: foreign_errors_def)
    ultimately show ?thesis using e by (auto simp: check_override_def check_classes read_failed_def)
  next
    case (Inr overrides)
    then show ?thesis
      using e by (cases "find (\<lambda>(key, _). key = vm) overrides")
        (auto simp: check_override_def check_classes override_def split: if_splits)
  qed
qed

lemma control_error_class:
  assumes "foreign_errors vc" and Some: "ValidateVMPlacementControl vc c vm host type moref control = Some e"
  shows "(check_class e True False False False \<or> check_class e False True False False) \<or>
    check_class e False True True False \<and> vm_on_host vc c vm host \<and> vm_on_compute vc vm type moref \<and>
      (\<exists>overrides. vc_drs vc moref = Inr overrides \<and> override overrides vm = None) \<or>
    check_class e False False False True \<and> read_failed vc vm moref"
proof (cases "ValidateVMPlacement vc c vm host")
  case host: (Some x)
  then have "e = x" using Some by (simp add: ValidateVMPlacementControl_def validateVMPlacementControl_def)
  then show ?thesis using ValidateVMPlacement_class[OF assms(1) host] by blast
next
  case host: None
  show ?thesis
  proof (cases "validateVMComputeResource vc vm type moref")
    case compute: (Some x)
    then have "e = x" using Some host by (simp add: ValidateVMPlacementControl_def validateVMPlacementControl_def)
    then show ?thesis using validateVMComputeResource_class[OF assms(1) compute] by blast
  next
    case compute: None
    show ?thesis
      using control_class[OF assms(1) host compute Some[unfolded ValidateVMPlacementControl_def]]
        host compute ValidateVMPlacement_None validateVMComputeResource_None by blast
  qed
qed

text \<open>
  C26. The errors of a placement check mean what their class says: a check succeeds exactly when
  the machine is on its allowlisted host, on its compute resource and under its control; when it
  fails, the error is drift of the placement, drift of the control or an unavailable validation,
  exactly one of them; an unavailable validation comes with a failed read, a missing control with
  a cluster that lists no override; and the worker hands exactly the two drifts to an operator
  and leaves the other errors as they are.
\<close>

theorem placement_check_errors:
  assumes "foreign_errors vc"
  shows "case ValidateVMPlacementControl vc c vm host type moref control of
      None \<Rightarrow> vm_on_host vc c vm host \<and> vm_on_compute vc vm type moref \<and> controlled vc vm type moref control
    | Some e \<Rightarrow>
        \<not> (vm_on_host vc c vm host \<and> vm_on_compute vc vm type moref \<and> controlled vc vm type moref control) \<and>
        (let drift = errorsIs e ErrPlacementDrift; drs = errorsIs e ErrDRSControlDrift;
             unreadable = errorsIs e ErrPlacementValidationUnavailable in
         (drift \<or> drs \<or> unreadable) \<and> \<not> (drift \<and> drs) \<and> \<not> (drift \<and> unreadable) \<and> \<not> (drs \<and> unreadable) \<and>
         (unreadable \<longrightarrow> read_failed vc vm moref) \<and>
         (errorsIs e ErrDRSControlMissing \<longrightarrow> drs \<and> vm_on_host vc c vm host \<and> vm_on_compute vc vm type moref \<and>
            (\<exists>overrides. vc_drs vc moref = Inr overrides \<and> override overrides vm = None)) \<and>
         classifyPlacementValidationFailure (Some e) =
           Some (if drift \<or> drs then Typed manualCleanupRequiredError e else e))"
proof (cases "ValidateVMPlacementControl vc c vm host type moref control")
  case None
  then have "vm_on_host vc c vm host \<and> vm_on_compute vc vm type moref \<and> controlled vc vm type moref control"
    unfolding ValidateVMPlacementControl_def validateVMPlacementControl_None .
  with None show ?thesis by simp
next
  case (Some e)
  have not_ok: "\<not> (vm_on_host vc c vm host \<and> vm_on_compute vc vm type moref \<and> controlled vc vm type moref control)"
    using Some unfolding ValidateVMPlacementControl_def validateVMPlacementControl_None[symmetric] by simp
  with Some control_error_class[OF assms Some] show ?thesis
    by (auto simp: check_class_def classifyPlacementValidationFailure_def Let_def)
qed

lemma EnsureVMPlacementControl_success:
  assumes "EnsureVMPlacementControl reconf vc c vm host type moref control = (None, vc')"
  shows "ValidateVMPlacement vc c vm host = None \<and> validateVMComputeResource vc vm type moref = None \<and>
    (control = DRSControlStandalone \<and> type = ''ComputeResource'' \<and> vc' = vc \<or>
     control = DRSControlDisabled \<and> type = ''ClusterComputeResource'' \<and>
     install_override reconf vc c vm host type moref control = (None, vc'))"
proof -
  have h: "ValidateVMPlacement vc c vm host = None"
    using assms unfolding EnsureVMPlacementControl_def by (cases "ValidateVMPlacement vc c vm host") simp_all
  show ?thesis
  proof (cases "control = DRSControlStandalone")
    case True
    then show ?thesis
      using assms unfolding EnsureVMPlacementControl_def h option.case
      by (cases "type = ''ComputeResource''") (auto simp only: if_True if_False simp_thms prod.inject option.simps)
  next
    case False
    then have c: "control = DRSControlDisabled"
      using assms unfolding EnsureVMPlacementControl_def h option.case
      by (cases "control = DRSControlDisabled") (simp_all only: if_True if_False simp_thms prod.inject option.simps)
    have t: "type = ''ClusterComputeResource''"
      using assms c False unfolding EnsureVMPlacementControl_def h option.case
      by (cases "type = ''ClusterComputeResource''") (simp_all only: if_True if_False simp_thms prod.inject option.simps)
    show ?thesis
      using assms False c t h unfolding EnsureVMPlacementControl_def
      by (cases "validateVMComputeResource vc vm type moref")
         (simp_all only: if_True if_False simp_thms prod.inject option.simps controls_differ)
  qed
qed

definition lab_reconfigure :: reconfigure where
  "lab_reconfigure cluster vm op vc =
     (TaskDone, vc\<lparr>vc_drs := (\<lambda>m. if m = cluster then Inr [(vm, Some False)] else vc_drs vc m)\<rparr>)"

lemma lab_foreign: "foreign_errors lab_vcenter"
  by (simp add: foreign_errors_def lab_vcenter_def)

theorem placement_check_errors_witness:
  "\<exists>e. ValidateVMPlacementControl lab_vcenter lab_ready ''vm-10'' ''host-2'' ''ClusterComputeResource'' ''domain-c1'' ''disabled'' = Some e \<and>
     errorsIs e ErrDRSControlMissing \<and> errorsIs e ErrDRSControlDrift \<and>
     classifyPlacementValidationFailure (Some e) = Some (Typed manualCleanupRequiredError e)"
proof -
  let ?r = "ValidateVMPlacementControl lab_vcenter lab_ready ''vm-10'' ''host-2'' ''ClusterComputeResource'' ''domain-c1'' ''disabled''"
  have "errorsIs (the ?r) ErrDRSControlMissing" "errorsIs (the ?r) ErrDRSControlDrift" "?r \<noteq> None" by code_simp+
  then show ?thesis
    using placement_check_errors[OF lab_foreign, of lab_ready "''vm-10''" "''host-2''" "''ClusterComputeResource''"
        "''domain-c1''" "''disabled''"]
    by (auto simp: Let_def split: option.splits)
qed

text \<open>
  Installing the control is checked, minimal and final: when \<open>EnsureVMPlacementControl\<close>
  reports success the machine passes the full check in the state of vCenter it leaves behind,
  whatever the reconfiguration did; a machine that already passes is not reconfigured; and the
  cleanup variant repairs a missing override only, so an enabled one or a displaced machine is
  reported without any mutation.
\<close>

theorem EnsureVMPlacementControl_spec:
  assumes "foreign_errors vc"
  shows "(EnsureVMPlacementControl reconf vc c vm host type moref control = (None, vc') \<longrightarrow>
      ValidateVMPlacementControl vc' c vm host type moref control = None) \<and>
    (ValidateVMPlacementControl vc c vm host type moref control = None \<longrightarrow>
      EnsureVMPlacementControl reconf vc c vm host type moref control = (None, vc) \<and>
      ValidateVMPlacementCleanupControl reconf vc c vm host type moref control = (None, vc)) \<and>
    (ValidateVMPlacementCleanupControl reconf vc c vm host type moref control = (None, vc') \<longrightarrow>
      ValidateVMPlacementControl vc' c vm host type moref control = None) \<and>
    (\<forall>overrides. vc_drs vc moref = Inr overrides \<longrightarrow> override overrides vm \<noteq> None \<longrightarrow>
      snd (ValidateVMPlacementCleanupControl reconf vc c vm host type moref control) = vc)"
proof -
  have ensure: "ValidateVMPlacementControl vc' c vm host type moref control = None"
    if ens: "EnsureVMPlacementControl reconf vc c vm host type moref control = (None, vc')" for vc'
  proof -
    note success = EnsureVMPlacementControl_success[OF ens]
    then have h: "ValidateVMPlacement vc c vm host = None" by simp
    from success consider (standalone) "control = DRSControlStandalone" "type = ''ComputeResource''"
        "validateVMComputeResource vc vm type moref = None" "vc' = vc"
      | (cluster) "control = DRSControlDisabled" "type = ''ClusterComputeResource''"
        "validateVMComputeResource vc vm type moref = None"
        "install_override reconf vc c vm host type moref control = (None, vc')"
      by metis
    then show ?thesis
    proof cases
      case standalone
      then show ?thesis using h by (simp add: ValidateVMPlacementControl_def validateVMPlacementControl_def)
    next
      case cluster
      from cluster(4) obtain overrides where o: "vc_drs vc moref = Inr overrides"
        by (auto simp: install_override_def split: sum.splits)
      show ?thesis
      proof (cases "override overrides vm = Some (Some False)")
        case True
        then have "vc' = vc" using cluster(4) o by (simp add: install_override_def override_def Let_def)
        moreover have "controlled vc vm type moref control"
          using cluster o True by (simp add: controlled_def)
        ultimately show ?thesis
          using h cluster by (simp add: ValidateVMPlacementControl_def validateVMPlacementControl_None
              ValidateVMPlacement_None validateVMComputeResource_None)
      next
        case False
        then show ?thesis using cluster(4) o
          by (auto simp: install_override_def override_def Let_def split: prod.splits task_outcome.splits)
      qed
    qed
  qed
  have already: "EnsureVMPlacementControl reconf vc c vm host type moref control = (None, vc)"
    if "ValidateVMPlacementControl vc c vm host type moref control = None"
  proof -
    have ok: "ValidateVMPlacement vc c vm host = None" "validateVMComputeResource vc vm type moref = None"
        "controlled vc vm type moref control"
      using that unfolding ValidateVMPlacementControl_def validateVMPlacementControl_None
        ValidateVMPlacement_None validateVMComputeResource_None by blast+
    from ok(3) consider (standalone) "control = DRSControlStandalone" "type = ''ComputeResource''"
      | (cluster) overrides where "control = DRSControlDisabled" "type = ''ClusterComputeResource''"
        "vc_drs vc moref = Inr overrides" "override overrides vm = Some (Some False)"
      unfolding controlled_def by blast
    then show ?thesis
    proof cases
      case standalone
      with ok show ?thesis by (simp add: EnsureVMPlacementControl_def)
    next
      case cluster
      with ok show ?thesis by (simp add: EnsureVMPlacementControl_def install_override_def override_def Let_def)
    qed
  qed
  have missing: "\<exists>e. ValidateVMPlacementControl vc c vm host type moref control = Some e \<and> errorsIs e ErrDRSControlMissing"
    if "ValidateVMPlacementCleanupControl reconf vc c vm host type moref control \<noteq>
        (ValidateVMPlacementControl vc c vm host type moref control, vc)"
    using that unfolding ValidateVMPlacementCleanupControl_def
    by (cases "ValidateVMPlacementControl vc c vm host type moref control") (simp_all, metis)
  have cleanup: "ValidateVMPlacementControl vc' c vm host type moref control = None"
    if cl: "ValidateVMPlacementCleanupControl reconf vc c vm host type moref control = (None, vc')" for vc'
  proof (cases "ValidateVMPlacementCleanupControl reconf vc c vm host type moref control =
        (ValidateVMPlacementControl vc c vm host type moref control, vc)")
    case True
    with cl have "ValidateVMPlacementControl vc c vm host type moref control = None" "vc = vc'" by auto
    then show ?thesis by simp
  next
    case False
    with missing cl have "EnsureVMPlacementControl reconf vc c vm host type moref control = (None, vc')"
      unfolding ValidateVMPlacementCleanupControl_def by fastforce
    then show ?thesis by (rule ensure)
  qed
  have untouched: "snd (ValidateVMPlacementCleanupControl reconf vc c vm host type moref control) = vc"
    if "vc_drs vc moref = Inr overrides" "override overrides vm \<noteq> None" for overrides
  proof (rule ccontr)
    assume "snd (ValidateVMPlacementCleanupControl reconf vc c vm host type moref control) \<noteq> vc"
    with missing obtain e where e: "ValidateVMPlacementControl vc c vm host type moref control = Some e"
        "errorsIs e ErrDRSControlMissing" by (metis snd_conv)
    from control_error_class[OF assms e(1)] e(2) that show False by (auto simp: check_class_def)
  qed
  have already_cleanup: "ValidateVMPlacementCleanupControl reconf vc c vm host type moref control = (None, vc)"
    if "ValidateVMPlacementControl vc c vm host type moref control = None"
    unfolding ValidateVMPlacementCleanupControl_def that by simp
  show ?thesis
    by (intro conjI impI allI) (fact ensure, fact already, fact already_cleanup, fact cleanup, fact untouched)
qed

theorem EnsureVMPlacementControl_spec_witness:
  "\<exists>vc'. EnsureVMPlacementControl lab_reconfigure lab_vcenter lab_ready ''vm-10'' ''host-2'' ''ClusterComputeResource'' ''domain-c1'' ''disabled''
     = (None, vc') \<and>
   ValidateVMPlacementControl vc' lab_ready ''vm-10'' ''host-2'' ''ClusterComputeResource'' ''domain-c1'' ''disabled'' = None"
proof -
  let ?r = "EnsureVMPlacementControl lab_reconfigure lab_vcenter lab_ready ''vm-10'' ''host-2'' ''ClusterComputeResource'' ''domain-c1'' ''disabled''"
  have "fst ?r = None" by code_simp
  then have "?r = (None, snd ?r)" by (metis prod.collapse)
  with EnsureVMPlacementControl_spec[OF lab_foreign, of lab_reconfigure lab_ready "''vm-10''" "''host-2''"
      "''ClusterComputeResource''" "''domain-c1''" "''disabled''" "snd ?r"] show ?thesis by blast
qed

end
