(* ===== verification/CloneOps.thy ===== *)
theory CloneOps
  imports Jobs
begin

text \<open>
  The durable identity of a vCenter clone, kept in the payload of the job that submits it
  (\<open>internal/database/clone_operations.go\<close>), and the exact clones a job has to clean up
  (the clone targets of \<open>internal/database/queries.go\<close>). The operation is prepared before anything
  is submitted, armed right before the submission, gets the task reference after it, and is removed
  only when the clone is adopted, destroyed or proved not to exist.
\<close>

section \<open>Structs in JSON\<close>

text \<open>
  \<open>encoding/json\<close> into a struct: a missing or null field keeps its zero value, a value of another
  type is an error. A time is kept as its number of nanoseconds.
\<close>

definition jstr :: "payload \<Rightarrow> string \<Rightarrow> string" where
  "jstr obj k = (case pget obj k of Some (JStr s) \<Rightarrow> s | _ \<Rightarrow> [])"

definition jstr_ok :: "payload \<Rightarrow> string \<Rightarrow> bool" where
  "jstr_ok obj k = (case pget obj k of None \<Rightarrow> True | Some JNull \<Rightarrow> True | Some (JStr _) \<Rightarrow> True | Some _ \<Rightarrow> False)"

definition jtime :: "payload \<Rightarrow> string \<Rightarrow> go_time" where
  "jtime obj k = (case pget obj k of Some (JNum t) \<Rightarrow> t | _ \<Rightarrow> 0)"

definition jtime_ok :: "payload \<Rightarrow> string \<Rightarrow> bool" where
  "jtime_ok obj k = (case pget obj k of None \<Rightarrow> True | Some JNull \<Rightarrow> True | Some (JNum _) \<Rightarrow> True | Some _ \<Rightarrow> False)"

abbreviation unmarshalError :: go_error where
  "unmarshalError \<equiv> errorsNew ''json: cannot unmarshal value into Go struct''"

definition jobject :: "json \<Rightarrow> payload result" where
  "jobject v = (case v of JObj obj \<Rightarrow> Inr obj | JNull \<Rightarrow> Inr [] | _ \<Rightarrow> Inl unmarshalError)"

definition omitempty :: "string \<Rightarrow> string \<Rightarrow> payload" where
  "omitempty k s = (if s = [] then [] else [(k, JStr s)])"

section \<open>The clone operation\<close>

record clone_operation =
  co_OperationID :: string
  co_PodID :: string
  co_PodVMID :: string
  co_LogicalTemplateID :: string
  co_TargetName :: string
  co_SourceReplicaID :: string
  co_SourceRef :: string
  co_ComputeResourceType :: string
  co_ComputeResourceMoref :: string
  co_HostMoref :: string
  co_HostName :: string
  co_PoolMoref :: string
  co_DRSControl :: string
  co_TaskRef :: string
  co_Phase :: string
  co_PreparedAt :: go_time

abbreviation VMCloneOperationPrepared :: string where
  "VMCloneOperationPrepared \<equiv> ''prepared''"

abbreviation VMCloneOperationSubmitting :: string where
  "VMCloneOperationSubmitting \<equiv> ''submitting''"

abbreviation VMCloneOperationSubmitted :: string where
  "VMCloneOperationSubmitted \<equiv> ''submitted''"

definition encode_op :: "clone_operation \<Rightarrow> json" where
  "encode_op op =
     JObj ([(''operation_id'', JStr (co_OperationID op)), (''pod_id'', JStr (co_PodID op)),
            (''pod_vm_id'', JStr (co_PodVMID op))] @
           omitempty ''logical_template_id'' (co_LogicalTemplateID op) @
           [(''target_name'', JStr (co_TargetName op))] @
           omitempty ''source_replica_id'' (co_SourceReplicaID op) @
           [(''source_ref'', JStr (co_SourceRef op))] @
           omitempty ''compute_resource_type'' (co_ComputeResourceType op) @
           omitempty ''compute_resource_moref'' (co_ComputeResourceMoref op) @
           [(''host_moref'', JStr (co_HostMoref op)), (''host_name'', JStr (co_HostName op)),
            (''pool_moref'', JStr (co_PoolMoref op))] @
           omitempty ''drs_control'' (co_DRSControl op) @
           omitempty ''task_ref'' (co_TaskRef op) @
           [(''phase'', JStr (co_Phase op)), (''prepared_at'', JNum (co_PreparedAt op))])"

definition op_string_keys :: "string list" where
  "op_string_keys =
     [''operation_id'', ''pod_id'', ''pod_vm_id'', ''logical_template_id'', ''target_name'',
      ''source_replica_id'', ''source_ref'', ''compute_resource_type'', ''compute_resource_moref'',
      ''host_moref'', ''host_name'', ''pool_moref'', ''drs_control'', ''task_ref'', ''phase'']"

definition decode_op :: "json \<Rightarrow> clone_operation result" where
  "decode_op v =
     (case jobject v of
        Inl e \<Rightarrow> Inl e
      | Inr obj \<Rightarrow>
          if list_all (jstr_ok obj) op_string_keys \<and> jtime_ok obj ''prepared_at''
          then Inr \<lparr>co_OperationID = jstr obj ''operation_id'', co_PodID = jstr obj ''pod_id'',
                 co_PodVMID = jstr obj ''pod_vm_id'', co_LogicalTemplateID = jstr obj ''logical_template_id'',
                 co_TargetName = jstr obj ''target_name'', co_SourceReplicaID = jstr obj ''source_replica_id'',
                 co_SourceRef = jstr obj ''source_ref'',
                 co_ComputeResourceType = jstr obj ''compute_resource_type'',
                 co_ComputeResourceMoref = jstr obj ''compute_resource_moref'',
                 co_HostMoref = jstr obj ''host_moref'', co_HostName = jstr obj ''host_name'',
                 co_PoolMoref = jstr obj ''pool_moref'', co_DRSControl = jstr obj ''drs_control'',
                 co_TaskRef = jstr obj ''task_ref'', co_Phase = jstr obj ''phase'',
                 co_PreparedAt = jtime obj ''prepared_at''\<rparr>
          else Inl unmarshalError)"

text \<open>\<open>uparse\<close> is \<open>uuid.Parse\<close>.\<close>

definition validateVMCloneOperationScope :: "(string \<Rightarrow> uuid option) \<Rightarrow> clone_operation \<Rightarrow> go_error option" where
  "validateVMCloneOperationScope uparse op =
     (if uparse (co_OperationID op) = None then Some (errorsNew ''invalid clone operation_id'')
      else if uparse (co_PodID op) = None then Some (errorsNew ''invalid clone pod_id'')
      else if uparse (co_PodVMID op) = None then Some (errorsNew ''invalid clone pod_vm_id'')
      else if co_TargetName op = [] \<or> co_SourceRef op = []
      then Some (errorsNew ''clone operation target_name and source_ref are required'')
      else if co_PreparedAt op = 0 then Some (errorsNew ''clone operation prepared_at is required'')
      else if co_Phase op \<noteq> VMCloneOperationPrepared \<and> co_Phase op \<noteq> VMCloneOperationSubmitting \<and>
              co_Phase op \<noteq> VMCloneOperationSubmitted
      then Some (errorsNew ''invalid clone operation phase'')
      else None)"

definition validateVMCloneOperation :: "(string \<Rightarrow> uuid option) \<Rightarrow> clone_operation \<Rightarrow> go_error option" where
  "validateVMCloneOperation uparse op =
     (case validateVMCloneOperationScope uparse op of
        Some e \<Rightarrow> Some e
      | None \<Rightarrow>
          if uparse (co_LogicalTemplateID op) = None then Some (errorsNew ''invalid clone logical_template_id'')
          else if co_SourceReplicaID op \<noteq> [] \<and> uparse (co_SourceReplicaID op) = None
          then Some (errorsNew ''invalid clone source_replica_id'')
          else if co_ComputeResourceMoref op = [] \<or> co_HostMoref op = [] \<or> co_HostName op = [] \<or> co_PoolMoref op = []
          then Some (errorsNew ''clone operation compute_resource_moref, host_moref, host_name, and pool_moref are required'')
          else if co_ComputeResourceType op \<noteq> ''ClusterComputeResource'' \<and> co_ComputeResourceType op \<noteq> ''ComputeResource''
          then Some (errorsNew ''clone operation has invalid compute_resource_type'')
          else if co_DRSControl op \<noteq> ''disabled'' \<and> co_DRSControl op \<noteq> ''standalone''
          then Some (errorsNew ''clone operation has invalid drs_control'')
          else None)"

definition sameVMCloneOperationTarget :: "clone_operation \<Rightarrow> clone_operation \<Rightarrow> bool" where
  "sameVMCloneOperationTarget a b \<longleftrightarrow>
     co_PodID a = co_PodID b \<and> co_PodVMID a = co_PodVMID b \<and> co_TargetName a = co_TargetName b \<and>
     (co_LogicalTemplateID a = [] \<or> co_LogicalTemplateID a = co_LogicalTemplateID b)"

definition sameVMCloneOperationScope :: "clone_operation \<Rightarrow> clone_operation \<Rightarrow> bool" where
  "sameVMCloneOperationScope a b \<longleftrightarrow>
     co_PodID a = co_PodID b \<and> co_PodVMID a = co_PodVMID b \<and> co_TargetName a = co_TargetName b \<and>
     co_SourceRef a = co_SourceRef b \<and>
     (co_LogicalTemplateID a = [] \<or> co_LogicalTemplateID a = co_LogicalTemplateID b)"

section \<open>The queries on the operation\<close>

text \<open>
  \<open>payload->'clone_operation'->>'k'\<close>. The texts it is compared with are identifiers, phases and
  task references, so only a JSON string can match.
\<close>

definition op_field :: "payload \<Rightarrow> string \<Rightarrow> json option" where
  "op_field p k = (case pget p ''clone_operation'' of Some (JObj obj) \<Rightarrow> pget obj k | _ \<Rightarrow> None)"

text \<open>\<open>jsonb_set(payload, '{clone_operation,k}', v, true)\<close>.\<close>

definition set_op_field :: "string \<Rightarrow> json \<Rightarrow> payload \<Rightarrow> payload" where
  "set_op_field k v p =
     (case pget p ''clone_operation'' of
        Some (JObj obj) \<Rightarrow> pset ''clone_operation'' (JObj (pset k v obj)) p
      | _ \<Rightarrow> p)"

text \<open>\<open>COALESCE(payload->'clone_operation'->>'task_ref', '') = t\<close>.\<close>

definition task_ref_is :: "payload \<Rightarrow> string \<Rightarrow> bool" where
  "task_ref_is p t \<longleftrightarrow> op_field p ''task_ref'' = Some (JStr t) \<or>
     t = [] \<and> (op_field p ''task_ref'' = None \<or> op_field p ''task_ref'' = Some JNull)"

definition cloneJobTypes :: "string list" where
  "cloneJobTypes = [''pod_create'', ''vm_add'', ''template_verify'', ''template_revalidate'']"

abbreviation lease_lost :: "string \<Rightarrow> go_error" where
  "lease_lost s \<equiv> Errorf s [Sentinel ErrJobLeaseLost]"

definition GetVMCloneOperation ::
  "(string \<Rightarrow> uuid option) \<Rightarrow> go_error option \<Rightarrow> uuid \<Rightarrow> string \<Rightarrow> database \<Rightarrow> clone_operation option result" where
  "GetVMCloneOperation uparse flt jobID workerID db =
     (case flt of
        Some e \<Rightarrow> Inl (Errorf ''load clone operation job'' [e])
      | None \<Rightarrow>
          (case find (\<lambda>j. ownedBy jobID workerID j \<and> j_Type j \<in> set cloneJobTypes) (db_jobs db) of
             None \<Rightarrow> Inl (lease_lost ''job cannot load clone operation'')
           | Some j \<Rightarrow>
               (case pget (j_Payload j) ''clone_operation'' of
                  None \<Rightarrow> Inr None
                | Some raw \<Rightarrow>
                    (case decode_op raw of
                       Inl e \<Rightarrow> Inl (Errorf ''decode existing clone operation'' [e])
                     | Inr op \<Rightarrow>
                         (case validateVMCloneOperationScope uparse op of
                            Some e \<Rightarrow> Inl (Errorf ''validate existing clone operation'' [e])
                          | None \<Rightarrow>
                              (case validateVMCloneOperation uparse op of
                                 Some e \<Rightarrow> if co_Phase op = VMCloneOperationPrepared then Inr None
                                           else Inl (Errorf ''validate resumable clone operation'' [e])
                               | None \<Rightarrow> Inr (Some op)))))))"

definition put_op :: "uuid \<Rightarrow> clone_operation \<Rightarrow> job \<Rightarrow> database \<Rightarrow> database" where
  "put_op jobID op j db =
     db\<lparr>db_jobs := sql_update (\<lambda>r. j_ID r = jobID)
          (\<lambda>r. r\<lparr>j_Payload := pset ''clone_operation'' (encode_op op) (j_Payload j)\<rparr>) (db_jobs db)\<rparr>"

definition prepare_op_tx ::
  "(string \<Rightarrow> uuid option) \<Rightarrow> uuid \<Rightarrow> string \<Rightarrow> clone_operation \<Rightarrow> database \<Rightarrow> (clone_operation \<times> database) result" where
  "prepare_op_tx uparse jobID workerID candidate db =
     (case find (\<lambda>j. ownedBy jobID workerID j \<and> j_Type j \<in> set cloneJobTypes) (db_jobs db) of
        None \<Rightarrow> Inl (lease_lost ''job cannot prepare clone operation'')
      | Some j \<Rightarrow>
          (case pget (j_Payload j) ''clone_operation'' of
             None \<Rightarrow> Inr (candidate, put_op jobID candidate j db)
           | Some raw \<Rightarrow>
               (case decode_op raw of
                  Inl e \<Rightarrow> Inl (Errorf ''decode existing clone operation'' [e])
                | Inr existing \<Rightarrow>
                    (case validateVMCloneOperationScope uparse existing of
                       Some e \<Rightarrow> Inl (Errorf ''validate existing clone operation'' [e])
                     | None \<Rightarrow>
                         if validateVMCloneOperation uparse existing \<noteq> None \<and> co_Phase existing = VMCloneOperationPrepared
                         then if \<not> sameVMCloneOperationTarget existing candidate
                              then Inl (errorsNew ''job already owns unresolved clone operation'')
                              else Inr (candidate, put_op jobID candidate j db)
                         else if \<not> sameVMCloneOperationScope existing candidate
                         then Inl (errorsNew ''job already owns unresolved clone operation'')
                         else Inr (existing, db)))))"

definition prepared_candidate :: "go_time \<Rightarrow> clone_operation \<Rightarrow> clone_operation" where
  "prepared_candidate now candidate =
     candidate\<lparr>co_Phase := (if co_Phase candidate = [] then VMCloneOperationPrepared else co_Phase candidate),
               co_PreparedAt := (if co_PreparedAt candidate = 0 then now else co_PreparedAt candidate)\<rparr>"

definition PrepareVMCloneOperation ::
  "(string \<Rightarrow> uuid option) \<Rightarrow> go_error option \<Rightarrow> go_time \<Rightarrow> uuid \<Rightarrow> string \<Rightarrow> clone_operation \<Rightarrow> database
     \<Rightarrow> clone_operation result \<times> database" where
  "PrepareVMCloneOperation uparse flt now jobID workerID candidate db =
     (case validateVMCloneOperation uparse (prepared_candidate now candidate) of
        Some e \<Rightarrow> (Inl e, db)
      | None \<Rightarrow> run_tx flt (prepare_op_tx uparse jobID workerID (prepared_candidate now candidate)) db)"

definition armable :: "uuid \<Rightarrow> string \<Rightarrow> string \<Rightarrow> job \<Rightarrow> bool" where
  "armable jobID workerID operationID j \<longleftrightarrow> ownedBy jobID workerID j \<and>
     op_field (j_Payload j) ''operation_id'' = Some (JStr operationID) \<and>
     op_field (j_Payload j) ''phase'' = Some (JStr VMCloneOperationPrepared)"

definition armed_payload :: "payload \<Rightarrow> payload" where
  "armed_payload p =
     set_op_field ''phase'' (JStr VMCloneOperationSubmitting)
       (pset ''cleanup_only'' (JBool True) (pdel ''cleanup_completed'' p))"

definition ArmVMCloneOperation ::
  "go_error option \<Rightarrow> uuid \<Rightarrow> string \<Rightarrow> string \<Rightarrow> database \<Rightarrow> unit result \<times> database" where
  "ArmVMCloneOperation flt jobID workerID operationID =
     run_tx flt (exec_owned (armable jobID workerID operationID)
       (\<lambda>j. j\<lparr>j_Payload := armed_payload (j_Payload j)\<rparr>) ''job cannot arm clone operation'')"

text \<open>
  \<open>AbandonUnsubmittedVMCloneOperation\<close>: the update, and when it hits no row a second query that
  accepts an operation that is already gone (\<open>flt2\<close> is the failure of that query).
\<close>

definition abandonable :: "uuid \<Rightarrow> string \<Rightarrow> string \<Rightarrow> job \<Rightarrow> bool" where
  "abandonable jobID workerID operationID j \<longleftrightarrow> ownedBy jobID workerID j \<and>
     op_field (j_Payload j) ''operation_id'' = Some (JStr operationID) \<and>
     (op_field (j_Payload j) ''phase'' = Some (JStr VMCloneOperationPrepared) \<or>
      op_field (j_Payload j) ''phase'' = Some (JStr VMCloneOperationSubmitting)) \<and>
     task_ref_is (j_Payload j) []"

definition abandoned_payload :: "payload \<Rightarrow> payload" where
  "abandoned_payload p =
     (if pget p ''cleanup_target'' = None \<and> json_array_length (pget p ''cleanup_handoff_targets'') = 0
      then pdel ''cleanup_completed'' (pdel ''cleanup_only'' (pdel ''clone_operation'' p))
      else pdel ''clone_operation'' p)"

definition AbandonUnsubmittedVMCloneOperation ::
  "go_error option \<Rightarrow> go_error option \<Rightarrow> uuid \<Rightarrow> string \<Rightarrow> string \<Rightarrow> database \<Rightarrow> unit result \<times> database" where
  "AbandonUnsubmittedVMCloneOperation flt flt2 jobID workerID operationID db =
     (case run_tx flt (\<lambda>db. Inr (sql_count (abandonable jobID workerID operationID) (db_jobs db),
              db\<lparr>db_jobs := sql_update (abandonable jobID workerID operationID)
                   (\<lambda>j. j\<lparr>j_Payload := abandoned_payload (j_Payload j)\<rparr>) (db_jobs db)\<rparr>)) db of
        (Inl e, db') \<Rightarrow> (Inl e, db')
      | (Inr n, db') \<Rightarrow>
          if n = 1 then (Inr (), db')
          else if flt2 = None \<and>
                  (case find (ownedBy jobID workerID) (db_jobs db') of
                     None \<Rightarrow> False | Some j \<Rightarrow> pget (j_Payload j) ''clone_operation'' = None)
          then (Inr (), db')
          else (Inl (lease_lost ''job cannot abandon unsubmitted clone operation''), db'))"

definition task_recordable :: "uuid \<Rightarrow> string \<Rightarrow> string \<Rightarrow> string \<Rightarrow> job \<Rightarrow> bool" where
  "task_recordable jobID workerID operationID taskRef j \<longleftrightarrow> ownedBy jobID workerID j \<and>
     op_field (j_Payload j) ''operation_id'' = Some (JStr operationID) \<and>
     (task_ref_is (j_Payload j) [] \<or> task_ref_is (j_Payload j) taskRef)"

definition submitted_payload :: "string \<Rightarrow> payload \<Rightarrow> payload" where
  "submitted_payload taskRef p =
     set_op_field ''phase'' (JStr VMCloneOperationSubmitted) (set_op_field ''task_ref'' (JStr taskRef) p)"

definition PersistVMCloneTask ::
  "go_error option \<Rightarrow> uuid \<Rightarrow> string \<Rightarrow> string \<Rightarrow> string \<Rightarrow> database \<Rightarrow> unit result \<times> database" where
  "PersistVMCloneTask flt jobID workerID operationID taskRef =
     run_tx flt (exec_owned (task_recordable jobID workerID operationID taskRef)
       (\<lambda>j. j\<lparr>j_Payload := submitted_payload taskRef (j_Payload j)\<rparr>) ''job cannot persist task for operation'')"

definition closed_payload :: "payload \<Rightarrow> payload" where
  "closed_payload p =
     (let q = pdel ''clone_operation'' p in
      if pget q ''cleanup_target'' = None \<and> pget q ''cleanup_handoff_targets'' = None
      then pset ''cleanup_completed'' (JBool True) q else q)"

definition CompleteVMCloneOperationWithoutResource ::
  "go_error option \<Rightarrow> uuid \<Rightarrow> string \<Rightarrow> string \<Rightarrow> database \<Rightarrow> unit result \<times> database" where
  "CompleteVMCloneOperationWithoutResource flt jobID workerID operationID =
     run_tx flt (\<lambda>db.
       case find (ownedBy jobID workerID) (db_jobs db) of
         None \<Rightarrow> Inl (lease_lost ''job cannot complete clone operation'')
       | Some j \<Rightarrow>
           (case (case pget (j_Payload j) ''clone_operation'' of None \<Rightarrow> Inl unmarshalError | Some raw \<Rightarrow> decode_op raw) of
              Inl e \<Rightarrow> Inl (Errorf ''decode clone operation completion'' [e])
            | Inr existing \<Rightarrow>
                if co_OperationID existing \<noteq> operationID then Inl (errorsNew ''clone operation changed'')
                else Inr ((), db\<lparr>db_jobs := sql_update (\<lambda>r. j_ID r = jobID)
                       (\<lambda>r. r\<lparr>j_Payload := closed_payload (j_Payload j)\<rparr>) (db_jobs db)\<rparr>)))"

section \<open>Exact clones to clean up\<close>

record clone_target =
  ct_PodID :: string
  ct_PodVMID :: string
  ct_VCenterVMID :: string

definition samePersistedVMCloneTarget :: "clone_target \<Rightarrow> clone_target \<Rightarrow> bool" where
  "samePersistedVMCloneTarget a b \<longleftrightarrow>
     ct_PodID a = ct_PodID b \<and> ct_PodVMID a = ct_PodVMID b \<and> ct_VCenterVMID a = ct_VCenterVMID b"

definition encode_target :: "clone_target \<Rightarrow> json" where
  "encode_target t = JObj [(''pod_id'', JStr (ct_PodID t)), (''pod_vm_id'', JStr (ct_PodVMID t)),
     (''vcenter_vm_id'', JStr (ct_VCenterVMID t))]"

text \<open>\<open>json.Unmarshal(raw, &target)\<close> alone, and with the checks of \<open>decodePersistedVMCloneTarget\<close>.\<close>

definition unmarshal_target :: "json \<Rightarrow> clone_target result" where
  "unmarshal_target v =
     (case jobject v of
        Inl e \<Rightarrow> Inl e
      | Inr obj \<Rightarrow>
          if list_all (jstr_ok obj) [''pod_id'', ''pod_vm_id'', ''vcenter_vm_id'']
          then Inr \<lparr>ct_PodID = jstr obj ''pod_id'', ct_PodVMID = jstr obj ''pod_vm_id'',
                 ct_VCenterVMID = jstr obj ''vcenter_vm_id''\<rparr>
          else Inl unmarshalError)"

definition decodePersistedVMCloneTarget :: "(string \<Rightarrow> uuid option) \<Rightarrow> json \<Rightarrow> clone_target result" where
  "decodePersistedVMCloneTarget uparse raw =
     (case unmarshal_target raw of
        Inl e \<Rightarrow> Inl e
      | Inr target \<Rightarrow>
          if ct_PodID target = [] \<or> ct_PodVMID target = [] \<or> ct_VCenterVMID target = []
          then Inl (errorsNew ''VM clone handoff target is incomplete'')
          else if uparse (ct_PodID target) = None then Inl (errorsNew ''invalid handoff pod_id'')
          else if uparse (ct_PodVMID target) = None then Inl (errorsNew ''invalid handoff pod_vm_id'')
          else Inr target)"

fun decode_targets :: "(string \<Rightarrow> uuid option) \<Rightarrow> json list \<Rightarrow> clone_target list result" where
  "decode_targets uparse [] = Inr []"
| "decode_targets uparse (v # vs) =
     (case decodePersistedVMCloneTarget uparse v of
        Inl e \<Rightarrow> Inl e
      | Inr t \<Rightarrow> (case decode_targets uparse vs of Inl e \<Rightarrow> Inl e | Inr ts \<Rightarrow> Inr (t # ts)))"

definition parsePersistedVMCloneTargets ::
  "(string \<Rightarrow> uuid option) \<Rightarrow> json option \<Rightarrow> clone_target list result" where
  "parsePersistedVMCloneTargets uparse raw =
     (case raw of
        None \<Rightarrow> Inr []
      | Some JNull \<Rightarrow> Inr []
      | Some (JArr vs) \<Rightarrow> decode_targets uparse vs
      | Some _ \<Rightarrow> Inl unmarshalError)"

definition encode_targets :: "clone_target list \<Rightarrow> json" where
  "encode_targets ts = JArr (map encode_target ts)"

text \<open>\<open>prepareVMCloneDestructionPayload\<close>: the target is the primary one, or one more handoff.\<close>

definition prepareVMCloneDestructionPayload ::
  "(string \<Rightarrow> uuid option) \<Rightarrow> payload \<Rightarrow> json \<Rightarrow> (payload \<times> bool) result" where
  "prepareVMCloneDestructionPayload uparse flds targetRaw =
     (case decodePersistedVMCloneTarget uparse targetRaw of Inl e \<Rightarrow> Inl e | Inr target \<Rightarrow>
     (case parsePersistedVMCloneTargets uparse (pget flds ''destroyed_cleanup_targets'') of Inl e \<Rightarrow> Inl e
      | Inr destroyed \<Rightarrow>
          if \<exists>t \<in> set destroyed. samePersistedVMCloneTarget t target then Inr (flds, True)
          else
            let finish = (\<lambda>fs. Inr (pdel ''cleanup_completed'' (pset ''cleanup_only'' (JBool True) fs), False)) in
            (case pget flds ''cleanup_target'' of
               None \<Rightarrow> finish (pset ''cleanup_target'' targetRaw flds)
             | Some raw \<Rightarrow>
                 (case unmarshal_target raw of Inl e \<Rightarrow> Inl e | Inr primary \<Rightarrow>
                    if samePersistedVMCloneTarget primary target then finish flds
                    else
                      (case parsePersistedVMCloneTargets uparse (pget flds ''cleanup_handoff_targets'') of
                         Inl e \<Rightarrow> Inl e
                       | Inr handoffs \<Rightarrow>
                           finish (if \<exists>t \<in> set handoffs. samePersistedVMCloneTarget t target then flds
                                   else pset ''cleanup_handoff_targets'' (encode_targets (handoffs @ [target])) flds))))))"

text \<open>
  \<open>completeVMCloneDestructionPayload\<close>: the target moves to the destroyed ones, the next handoff
  becomes the primary target, and the job is compensated when none is left.
\<close>

definition without_target :: "clone_target \<Rightarrow> payload \<Rightarrow> payload result" where
  "without_target target flds =
     (case pget flds ''cleanup_target'' of
        None \<Rightarrow> Inr flds
      | Some raw \<Rightarrow>
          (case unmarshal_target raw of
             Inl e \<Rightarrow> Inl e
           | Inr primary \<Rightarrow>
               Inr (if samePersistedVMCloneTarget primary target then pdel ''cleanup_target'' flds else flds)))"

definition keep_remaining :: "clone_target list \<Rightarrow> payload \<Rightarrow> payload" where
  "keep_remaining remaining flds =
     (case remaining of
        [] \<Rightarrow> pdel ''cleanup_handoff_targets'' flds
      | t # ts \<Rightarrow>
          if pget flds ''cleanup_target'' = None
          then (let fs = pset ''cleanup_target'' (encode_target t) flds in
                if ts = [] then pdel ''cleanup_handoff_targets'' fs
                else pset ''cleanup_handoff_targets'' (encode_targets ts) fs)
          else pset ''cleanup_handoff_targets'' (encode_targets remaining) flds)"

definition without_operation_of :: "clone_target \<Rightarrow> payload \<Rightarrow> payload result" where
  "without_operation_of target flds =
     (case pget flds ''clone_operation'' of
        None \<Rightarrow> Inr flds
      | Some raw \<Rightarrow>
          (case decode_op raw of
             Inl e \<Rightarrow> Inl e
           | Inr operation \<Rightarrow>
               Inr (if co_PodVMID operation = ct_PodVMID target then pdel ''clone_operation'' flds else flds)))"

definition completeVMCloneDestructionPayload ::
  "(string \<Rightarrow> uuid option) \<Rightarrow> payload \<Rightarrow> json \<Rightarrow> (payload \<times> bool) result" where
  "completeVMCloneDestructionPayload uparse flds targetRaw =
     (case decodePersistedVMCloneTarget uparse targetRaw of Inl e \<Rightarrow> Inl e | Inr target \<Rightarrow>
     (case parsePersistedVMCloneTargets uparse (pget flds ''destroyed_cleanup_targets'') of Inl e \<Rightarrow> Inl e
      | Inr destroyed \<Rightarrow>
          if \<exists>t \<in> set destroyed. samePersistedVMCloneTarget t target then Inr (flds, True)
          else
            (case without_target target
                    (pset ''destroyed_cleanup_targets'' (encode_targets (destroyed @ [target])) flds) of Inl e \<Rightarrow> Inl e
             | Inr fs1 \<Rightarrow>
            (case parsePersistedVMCloneTargets uparse (pget fs1 ''cleanup_handoff_targets'') of Inl e \<Rightarrow> Inl e
             | Inr handoffs \<Rightarrow>
                 let fs2 = keep_remaining (filter (\<lambda>t. \<not> samePersistedVMCloneTarget t target) handoffs) fs1 in
            (case without_operation_of target (pset ''cleanup_only'' (JBool True) fs2) of Inl e \<Rightarrow> Inl e
             | Inr fs3 \<Rightarrow>
                 Inr (if pget fs3 ''cleanup_target'' = None \<and> pget fs3 ''cleanup_handoff_targets'' = None
                      then pset ''cleanup_completed'' (JBool True) fs3
                      else pdel ''cleanup_completed'' fs3, False))))))"

text \<open>\<open>findVMCloneCleanupTarget\<close>: the target, whether it is still to be destroyed, whether it was destroyed.\<close>

definition findVMCloneCleanupTarget ::
  "(string \<Rightarrow> uuid option) \<Rightarrow> (uuid \<Rightarrow> string) \<Rightarrow> payload \<Rightarrow> uuid \<Rightarrow> string \<Rightarrow> (clone_target option \<times> bool \<times> bool) result" where
  "findVMCloneCleanupTarget uparse ustr flds podVMID vcenterVMID =
     (let hit = (\<lambda>t. ct_PodVMID t = ustr podVMID \<and> ct_VCenterVMID t = vcenterVMID) in
      case (case pget flds ''cleanup_target'' of
              None \<Rightarrow> Inr None
            | Some raw \<Rightarrow>
                (case decodePersistedVMCloneTarget uparse raw of
                   Inl e \<Rightarrow> Inl e | Inr primary \<Rightarrow> Inr (if hit primary then Some primary else None))) of
        Inl e \<Rightarrow> Inl e
      | Inr (Some primary) \<Rightarrow> Inr (Some primary, True, False)
      | Inr None \<Rightarrow>
          (case parsePersistedVMCloneTargets uparse (pget flds ''cleanup_handoff_targets'') of
             Inl e \<Rightarrow> Inl e
           | Inr handoffs \<Rightarrow>
               (case find hit handoffs of
                  Some t \<Rightarrow> Inr (Some t, True, False)
                | None \<Rightarrow>
                    (case parsePersistedVMCloneTargets uparse (pget flds ''destroyed_cleanup_targets'') of
                       Inl e \<Rightarrow> Inl e
                     | Inr destroyed \<Rightarrow>
                         (case find hit destroyed of
                            Some t \<Rightarrow> Inr (Some t, False, True)
                          | None \<Rightarrow> Inr (None, False, False))))))"

text \<open>
  \<open>payload->'destroyed_cleanup_targets' @> [{pod_id, pod_vm_id, vcenter_vm_id}]\<close>, and
  \<open>v->>'k'\<close> as the value \<open>jsonb_build_object\<close> makes of it.
\<close>

definition destroyed_has :: "payload \<Rightarrow> json \<Rightarrow> json \<Rightarrow> json \<Rightarrow> bool" where
  "destroyed_has p podID podVMID vmID =
     (case pget p ''destroyed_cleanup_targets'' of
        Some (JArr vs) \<Rightarrow>
          list_ex (\<lambda>v. case v of
                         JObj t \<Rightarrow> pget t ''pod_id'' = Some podID \<and> pget t ''pod_vm_id'' = Some podVMID \<and>
                                   pget t ''vcenter_vm_id'' = Some vmID
                       | _ \<Rightarrow> False) vs
      | _ \<Rightarrow> False)"

definition text_of :: "json option \<Rightarrow> string \<Rightarrow> json" where
  "text_of v k =
     (case v of Some (JObj t) \<Rightarrow> (case pget t k of Some (JStr s) \<Rightarrow> JStr s | _ \<Rightarrow> JNull) | _ \<Rightarrow> JNull)"

definition already_destroyed :: "json \<Rightarrow> payload \<Rightarrow> bool" where
  "already_destroyed target p \<longleftrightarrow>
     destroyed_has p (text_of (Some target) ''pod_id'') (text_of (Some target) ''pod_vm_id'')
       (text_of (Some target) ''vcenter_vm_id'')"

definition staged_payload :: "json \<Rightarrow> payload \<Rightarrow> payload" where
  "staged_payload target p =
     pset ''cleanup_target'' target (pset ''cleanup_only'' (JBool True) (pdel ''cleanup_completed'' p))"

definition stageable :: "uuid \<Rightarrow> string \<Rightarrow> json \<Rightarrow> job \<Rightarrow> bool" where
  "stageable jobID workerID target j \<longleftrightarrow> ownedBy jobID workerID j \<and> j_Type j \<in> set cloneJobTypes \<and>
     \<not> already_destroyed target (j_Payload j)"

definition StageVMCloneCleanup ::
  "go_error option \<Rightarrow> go_error option \<Rightarrow> uuid \<Rightarrow> string \<Rightarrow> json \<Rightarrow> database \<Rightarrow> unit result \<times> database" where
  "StageVMCloneCleanup flt flt2 jobID workerID target db =
     (case run_tx flt (\<lambda>db. Inr (sql_count (stageable jobID workerID target) (db_jobs db),
              db\<lparr>db_jobs := sql_update (stageable jobID workerID target)
                   (\<lambda>j. j\<lparr>j_Payload := staged_payload target (j_Payload j)\<rparr>) (db_jobs db)\<rparr>)) db of
        (Inl e, db') \<Rightarrow> (Inl e, db')
      | (Inr n, db') \<Rightarrow>
          if n = 1 then (Inr (), db')
          else if flt2 = None \<and>
                  (case GetJob jobID db' of None \<Rightarrow> False | Some j \<Rightarrow> already_destroyed target (j_Payload j))
          then (Inl (Errorf ''job already recorded target'' [Sentinel ErrVMCloneAlreadyDestroyed]), db')
          else (Inl (lease_lost ''job could not stage VM clone cleanup''), db'))"

text \<open>
  \<open>AdoptPodVMClone\<close>. The commit may fail although it took effect; then a second query decides
  what happened. \<open>CommitLost applied readable\<close> is a commit whose answer got lost: whether the
  transaction took effect and whether the second query gets through.
\<close>

datatype commit_outcome = CommitOk | CommitLost bool bool

definition target_staged :: "uuid \<Rightarrow> (uuid \<Rightarrow> string) \<Rightarrow> string \<Rightarrow> job \<Rightarrow> bool" where
  "target_staged podVMID ustr vmID j \<longleftrightarrow>
     text_of (pget (j_Payload j) ''cleanup_target'') ''pod_vm_id'' = JStr (ustr podVMID) \<and>
     text_of (pget (j_Payload j) ''cleanup_target'') ''vcenter_vm_id'' = JStr vmID"

definition adoptable :: "uuid \<Rightarrow> string list \<Rightarrow> string \<Rightarrow> pod_vm \<Rightarrow> bool" where
  "adoptable podVMID fromStatuses vmID v \<longleftrightarrow> pv_ID v = podVMID \<and> pv_Status v \<in> set fromStatuses \<and>
     (pv_VCenterVMID v = None \<or> pv_VCenterVMID v = Some vmID)"

definition adopt_vm :: "string \<Rightarrow> string \<Rightarrow> string \<Rightarrow> pod_vm \<Rightarrow> pod_vm" where
  "adopt_vm vmID vmName status v =
     v\<lparr>pv_VCenterVMID := Some vmID, pv_VCenterVMName := Some vmName, pv_Status := status,
       pv_GuestCredentialsVerifiedAt := None, pv_GuestCredentialsVerifiedVMID := None\<rparr>"

definition adopt_tx ::
  "(uuid \<Rightarrow> string) \<Rightarrow> uuid \<Rightarrow> string \<Rightarrow> uuid \<Rightarrow> string list \<Rightarrow> string \<Rightarrow> string \<Rightarrow> string \<Rightarrow> database
     \<Rightarrow> (bool \<times> database) result" where
  "adopt_tx ustr jobID workerID podVMID fromStatuses vmID vmName status db =
     (case GetJob jobID db of
        None \<Rightarrow> Inl (Errorf ''lock staged clone cleanup'' [Sentinel pgx_ErrNoRows])
      | Some j \<Rightarrow>
          if j_ClaimedBy j = None \<and> activeStatus (j_Status j)
          then Inl (Errorf ''lock staged clone cleanup'' [errorsNew ''cannot scan NULL into bool''])
          else if \<not> (j_ClaimedBy j = Some workerID \<and> activeStatus (j_Status j))
          then Inl (lease_lost ''job cannot adopt clone'')
          else if destroyed_has (j_Payload j) (text_of (pget (j_Payload j) ''cleanup_target'') ''pod_id'')
                    (JStr (ustr podVMID)) (JStr vmID)
          then Inl (Errorf ''job cannot adopt clone'' [Sentinel ErrVMCloneAlreadyDestroyed])
          else if \<not> target_staged podVMID ustr vmID j
          then Inl (errorsNew ''job has no exact staged cleanup target for VM'')
          else Inr (sql_count (adoptable podVMID fromStatuses vmID) (db_pod_vms db) = 1,
                 db\<lparr>db_pod_vms := sql_update (adoptable podVMID fromStatuses vmID)
                      (adopt_vm vmID vmName status) (db_pod_vms db)\<rparr>))"

definition AdoptPodVMClone ::
  "(uuid \<Rightarrow> string) \<Rightarrow> go_error option \<Rightarrow> commit_outcome \<Rightarrow> uuid \<Rightarrow> string \<Rightarrow> uuid \<Rightarrow> string list \<Rightarrow> string \<Rightarrow> string
     \<Rightarrow> string \<Rightarrow> database \<Rightarrow> bool result \<times> database" where
  "AdoptPodVMClone ustr flt commit jobID workerID podVMID fromStatuses vmID vmName status db =
     (case run_tx flt (adopt_tx ustr jobID workerID podVMID fromStatuses vmID vmName status) db of
        (Inl e, db') \<Rightarrow> (Inl e, db')
      | (Inr applied, db') \<Rightarrow>
          (case commit of
             CommitOk \<Rightarrow> (Inr applied, db')
           | CommitLost effective readable \<Rightarrow>
               let db'' = (if effective then db' else db);
                   adopted = (\<exists>v \<in> set (db_pod_vms db''). pv_ID v = podVMID \<and> pv_VCenterVMID v = Some vmID \<and>
                                pv_Status v = status);
                   cleanupStaged = (\<exists>j \<in> set (db_jobs db''). j_ID j = jobID \<and> target_staged podVMID ustr vmID j)
               in (if readable \<and> cleanupStaged then Inr adopted
                   else Inl (errorsNew ''commit clone adoption''), db'')))"

definition DisarmVMCloneCleanup ::
  "(uuid \<Rightarrow> string) \<Rightarrow> go_error option \<Rightarrow> uuid \<Rightarrow> string \<Rightarrow> uuid \<Rightarrow> string \<Rightarrow> database \<Rightarrow> unit result \<times> database" where
  "DisarmVMCloneCleanup ustr flt jobID workerID podVMID vmID =
     run_tx flt (exec_owned
       (\<lambda>j. ownedBy jobID workerID j \<and> target_staged podVMID ustr vmID j \<and>
            json_array_length (pget (j_Payload j) ''cleanup_handoff_targets'') = 0)
       (\<lambda>j. j\<lparr>j_Payload := pdel ''clone_operation'' (pdel ''cleanup_completed''
                (pdel ''cleanup_only'' (pdel ''cleanup_target'' (j_Payload j))))\<rparr>)
       ''job cannot disarm clone'')"

definition forget_vm :: "string \<Rightarrow> pod_vm \<Rightarrow> pod_vm" where
  "forget_vm vmID v =
     (let exact = (pv_VCenterVMID v = Some vmID) in
      v\<lparr>pv_VCenterVMID := (if exact then None else pv_VCenterVMID v),
        pv_VCenterVMName := (if exact then None else pv_VCenterVMName v),
        pv_IPAddress := (if exact then None else pv_IPAddress v),
        pv_GuestCredentialsVerifiedAt := (if exact then None else pv_GuestCredentialsVerifiedAt v),
        pv_GuestCredentialsVerifiedVMID := (if exact then None else pv_GuestCredentialsVerifiedVMID v),
        pv_Status := (if pv_Status v \<in> {''pending'', ''cloning'', ''configuring''} \<and>
                         (exact \<or> pv_VCenterVMID v = None) then ''error'' else pv_Status v)\<rparr>)"

definition CompleteVMCloneCleanup ::
  "(string \<Rightarrow> uuid option) \<Rightarrow> (uuid \<Rightarrow> string) \<Rightarrow> go_error option \<Rightarrow> uuid \<Rightarrow> uuid \<Rightarrow> string \<Rightarrow> database
     \<Rightarrow> unit result \<times> database" where
  "CompleteVMCloneCleanup uparse ustr flt jobID podVMID vmID =
     run_tx flt (\<lambda>db.
       case GetJob jobID db of None \<Rightarrow> Inl (Errorf ''lock completed clone cleanup'' [Sentinel pgx_ErrNoRows]) | Some j \<Rightarrow>
       (case findVMCloneCleanupTarget uparse ustr (j_Payload j) podVMID vmID of
          Inl e \<Rightarrow> Inl (Errorf ''inspect completed clone cleanup target'' [e])
        | Inr (None, _, _) \<Rightarrow> Inl (errorsNew ''job has no exact cleanup target for VM'')
        | Inr (Some target, _, alreadyRecorded) \<Rightarrow>
            (case completeVMCloneDestructionPayload uparse (j_Payload j) (encode_target target) of
               Inl e \<Rightarrow> Inl (Errorf ''prepare completed clone cleanup'' [e])
             | Inr (updated, alreadyRecordedByUpdate) \<Rightarrow>
                 if alreadyRecordedByUpdate \<noteq> alreadyRecorded
                 then Inl (errorsNew ''destroyed clone proof changed while job row was locked'')
                 else
                   let db1 = db\<lparr>db_pod_vms := sql_update
                               (\<lambda>v. pv_ID v = podVMID \<and> (pv_VCenterVMID v = Some vmID \<or>
                                  pv_VCenterVMID v = None \<and> pv_Status v \<in> {''pending'', ''cloning'', ''configuring''}))
                               (forget_vm vmID) (db_pod_vms db)\<rparr> in
                   if sql_count (\<lambda>r. j_ID r = jobID) (db_jobs db1) \<noteq> 1
                   then Inl (errorsNew ''job lost cleanup target while completing VM'')
                   else Inr ((), db1\<lparr>db_jobs := sql_update (\<lambda>r. j_ID r = jobID)
                          (\<lambda>r. r\<lparr>j_Payload := updated\<rparr>) (db_jobs db1)\<rparr>))))"

definition finished_payload :: "bool \<Rightarrow> payload \<Rightarrow> payload" where
  "finished_payload compensated p =
     (let q = pdel ''clone_operation'' (pdel ''cleanup_target'' p) in
      if compensated then pset ''cleanup_completed'' (JBool True) q
      else pdel ''cleanup_completed'' (pdel ''cleanup_only'' q))"

definition FinishStandaloneVMCloneCleanup ::
  "(string \<Rightarrow> uuid option) \<Rightarrow> go_error option \<Rightarrow> uuid \<Rightarrow> string \<Rightarrow> json \<Rightarrow> bool \<Rightarrow> database \<Rightarrow> unit result \<times> database" where
  "FinishStandaloneVMCloneCleanup uparse flt jobID workerID target compensated db =
     (case decodePersistedVMCloneTarget uparse target of
        Inl e \<Rightarrow> (Inl e, db)
      | Inr decoded \<Rightarrow>
          run_tx flt (exec_owned
            (\<lambda>j. ownedBy jobID workerID j \<and> j_Type j \<in> {''template_verify'', ''template_revalidate''} \<and>
                 (pget (j_Payload j) ''cleanup_target'' = Some target \<or>
                  op_field (j_Payload j) ''pod_id'' = Some (JStr (ct_PodID decoded)) \<and>
                  op_field (j_Payload j) ''pod_vm_id'' = Some (JStr (ct_PodVMID decoded))))
            (\<lambda>j. j\<lparr>j_Payload := finished_payload compensated (j_Payload j)\<rparr>)
            ''job cannot finish standalone clone cleanup'') db)"

section \<open>Reading back what was written\<close>

lemma map_of_omitempty [simp]:
  "map_of (omitempty k s @ xs) k' = (if k' = k \<and> s \<noteq> [] then Some (JStr s) else map_of xs k')"
  by (simp add: omitempty_def)

lemma jstr_encode_op:
  assumes "encode_op op = JObj obj"
  shows "jstr obj ''operation_id'' = co_OperationID op" "jstr obj ''pod_id'' = co_PodID op"
    "jstr obj ''pod_vm_id'' = co_PodVMID op" "jstr obj ''logical_template_id'' = co_LogicalTemplateID op"
    "jstr obj ''target_name'' = co_TargetName op" "jstr obj ''source_replica_id'' = co_SourceReplicaID op"
    "jstr obj ''source_ref'' = co_SourceRef op" "jstr obj ''compute_resource_type'' = co_ComputeResourceType op"
    "jstr obj ''compute_resource_moref'' = co_ComputeResourceMoref op" "jstr obj ''host_moref'' = co_HostMoref op"
    "jstr obj ''host_name'' = co_HostName op" "jstr obj ''pool_moref'' = co_PoolMoref op"
    "jstr obj ''drs_control'' = co_DRSControl op" "jstr obj ''task_ref'' = co_TaskRef op"
    "jstr obj ''phase'' = co_Phase op" "jtime obj ''prepared_at'' = co_PreparedAt op"
  using assms by (auto simp: encode_op_def jstr_def jtime_def pget_def simp del: map_of_append)

lemma encode_op_typed:
  assumes "encode_op op = JObj obj"
  shows "list_all (jstr_ok obj) op_string_keys" "jtime_ok obj ''prepared_at''"
  using assms by (auto simp: encode_op_def jstr_ok_def jtime_ok_def pget_def op_string_keys_def simp del: map_of_append)

lemma decode_encode_op: "decode_op (encode_op op) = Inr op"
proof -
  obtain obj where obj: "encode_op op = JObj obj" by (simp add: encode_op_def)
  show ?thesis
    unfolding obj decode_op_def jobject_def
    by (simp add: encode_op_typed [OF obj] jstr_encode_op [OF obj])
qed

section \<open>The life of an operation\<close>

text \<open>
  The abstract state of a job's clone: none, or an operation with its identity, phase and task
  (a payload entry that is no object is kept apart: no query of the protocol writes one).
\<close>

datatype clone_life = NoClone | Cloning string string string | BrokenClone

definition life_of :: "json option \<Rightarrow> clone_life" where
  "life_of v =
     (case v of
        None \<Rightarrow> NoClone
      | Some (JObj obj) \<Rightarrow> Cloning (jstr obj ''operation_id'') (jstr obj ''phase'') (jstr obj ''task_ref'')
      | Some _ \<Rightarrow> BrokenClone)"

definition clone_entry :: "uuid \<Rightarrow> database \<Rightarrow> json option" where
  "clone_entry i db = (case GetJob i db of None \<Rightarrow> None | Some j \<Rightarrow> pget (j_Payload j) ''clone_operation'')"

definition clone_life_of :: "database \<Rightarrow> uuid \<Rightarrow> clone_life" where
  "clone_life_of db i = life_of (clone_entry i db)"

inductive life_step :: "clone_life \<Rightarrow> clone_life \<Rightarrow> bool" where
  prepare: "life_step NoClone (Cloning i VMCloneOperationPrepared [])"
| replace: "life_step (Cloning i VMCloneOperationPrepared t) (Cloning i' VMCloneOperationPrepared [])"
| arm: "life_step (Cloning i VMCloneOperationPrepared t) (Cloning i VMCloneOperationSubmitting t)"
| submitted: "t = [] \<or> t = t' \<Longrightarrow> life_step (Cloning i ph t) (Cloning i VMCloneOperationSubmitted t')"
| abandon: "ph = VMCloneOperationPrepared \<or> ph = VMCloneOperationSubmitting \<Longrightarrow> life_step (Cloning i ph []) NoClone"

inductive_simps life_step_from: "life_step (Cloning i ph t) l"

lemma GetJob_update:
  assumes "\<And>r. j_ID (f r) = j_ID r"
  shows "GetJob i (db\<lparr>db_jobs := sql_update P f (db_jobs db)\<rparr>) = map_option (\<lambda>r. if P r then f r else r) (GetJob i db)"
proof -
  have "find (\<lambda>j. j_ID j = i) (sql_update P f js) = map_option (\<lambda>r. if P r then f r else r) (find (\<lambda>j. j_ID j = i) js)" for js
    using assms by (induction js) simp_all
  then show ?thesis by (simp add: GetJob_def)
qed

lemma GetJob_id: "GetJob i db = Some j \<Longrightarrow> j_ID j = i \<and> j \<in> set (db_jobs db)"
  unfolding GetJob_def using find_SomeD by fast

text \<open>An update of the jobs table that leaves the entry of every row it touches.\<close>

lemma clone_entry_keep:
  assumes "\<And>r. j_ID (f r) = j_ID r"
    and "\<And>r. r \<in> set (db_jobs db) \<Longrightarrow> P r \<Longrightarrow> pget (j_Payload (f r)) ''clone_operation'' = pget (j_Payload r) ''clone_operation''"
  shows "clone_entry i (db\<lparr>db_jobs := sql_update P f (db_jobs db)\<rparr>) = clone_entry i db"
  using assms by (cases "GetJob i db") (auto simp: clone_entry_def GetJob_update dest!: GetJob_id)

lemma clone_entry_cong: "db_jobs db' = db_jobs db \<Longrightarrow> clone_entry i db' = clone_entry i db"
  by (simp add: clone_entry_def GetJob_def)

lemma clone_entry_exec:
  assumes "\<And>r. j_ID (f r) = j_ID r"
    and "\<And>r. P r \<Longrightarrow> pget (j_Payload (f r)) ''clone_operation'' = pget (j_Payload r) ''clone_operation''"
  shows "clone_entry i (snd (run_tx flt (exec_owned P f msg) db)) = clone_entry i db"
  by (rule run_tx_preserves [where I = "\<lambda>d. clone_entry i d = clone_entry i db"])
     (auto dest!: exec_owned_InrD simp: clone_entry_keep assms)

lemma clone_entry_create:
  assumes "pget p ''clone_operation'' = None" "createJob newID now ty p db = Inr (j, db')"
  shows "clone_entry i db' = clone_entry i db"
proof -
  from assms(2) have new: "newID \<notin> j_ID ` set (db_jobs db)" and db': "db' = db\<lparr>db_jobs := db_jobs db @ [new_job newID now ty p]\<rparr>"
    by (auto simp: createJob_def Let_def split: if_splits)
  have "find (\<lambda>j. j_ID j = i) (js @ [x]) =
      (case find (\<lambda>j. j_ID j = i) js of Some j \<Rightarrow> Some j | None \<Rightarrow> if j_ID x = i then Some x else None)" for js and x :: job
    by (induction js) simp_all
  then show ?thesis using assms(1) unfolding db'
    by (auto simp: clone_entry_def GetJob_def new_job_def split: option.splits)
qed

section \<open>The queue leaves operations alone\<close>

text \<open>A producer never puts a clone operation into the payload of a new job.\<close>

fun plain_payload :: "job_op \<Rightarrow> bool" where
  "plain_payload (OpCreateJob _ _ _ _ p) = (pget p ''clone_operation'' = None)"
| "plain_payload (OpRevalidate _ _ _ _ _ p) = (pget p ''clone_operation'' = None)"
| "plain_payload _ = True"

lemma retry_payload_entry [simp]:
  "pget (retry_payload c t p) ''clone_operation'' = pget p ''clone_operation''"
  by (auto simp: retry_payload_def split: bool.splits option.splits)

lemma run_tx_entry:
  assumes "\<And>x db'. body db = Inr (x, db') \<Longrightarrow> clone_entry i db' = clone_entry i db"
  shows "clone_entry i (snd (run_tx flt body db)) = clone_entry i db"
  by (rule run_tx_preserves [where I = "\<lambda>d. clone_entry i d = clone_entry i db"]) (simp_all add: assms)

lemma entry_CreateJob:
  "pget p ''clone_operation'' = None \<Longrightarrow> clone_entry i (snd (CreateJob flt n now ty p db)) = clone_entry i db"
  unfolding CreateJob_def by (auto intro!: run_tx_entry clone_entry_create)

lemma entry_Revalidate:
  "pget p ''clone_operation'' = None \<Longrightarrow>
     clone_entry i (snd (CreateTemplateRevalidateJobIfAbsent ustr flt n now t p db)) = clone_entry i db"
  unfolding CreateTemplateRevalidateJobIfAbsent_def
  by (rule run_tx_entry) (auto split: if_splits sum.splits dest: clone_entry_create)

lemma entry_ClaimJob: "clone_entry i (snd (ClaimJob flt now locked w en db)) = clone_entry i db"
  unfolding ClaimJob_def
  by (rule run_tx_entry) (auto simp: Let_def split: list.splits intro: clone_entry_keep)

lemma entry_FailTemplateProvisionJob:
  "clone_entry i (snd (FailTemplateProvisionJob up flt now n w r db)) = clone_entry i db"
proof (cases "FailTemplateProvisionJob up flt now n w r db")
  case (Pair res db')
  show ?thesis
  proof (cases res)
    case (Inl e)
    with Pair show ?thesis unfolding FailTemplateProvisionJob_def by (auto dest: run_tx_atomic)
  next
    case (Inr b)
    let ?f = "\<lambda>j. j\<lparr>j_Status := JobStatusFailed, j_Result := r, j_CompletedAt := Some now, j_NextAttemptAt := None\<rparr>"
    from Pair Inr have "FailTemplateProvisionJob up flt now n w r db = (Inr b, db')" by simp
    then obtain P where "db_jobs db' = sql_update P ?f (db_jobs db)" by (rule FailTemplateProvisionJob_ok) blast
    then have "clone_entry i db' = clone_entry i (db\<lparr>db_jobs := sql_update P ?f (db_jobs db)\<rparr>)"
      by (intro clone_entry_cong) simp
    also have "\<dots> = clone_entry i db" by (rule clone_entry_keep) simp_all
    finally show ?thesis using Pair by simp
  qed
qed

lemma entry_RenewJobLease: "clone_entry i (snd (RenewJobLease flt now n w db)) = clone_entry i db"
  unfolding RenewJobLease_def by (rule run_tx_entry) (auto intro: clone_entry_keep)

lemma entry_BeginPodCreateCleanup:
  "clone_entry i (snd (BeginPodCreateCleanup flt now n w podID allow db)) = clone_entry i db"
  unfolding BeginPodCreateCleanup_def
proof (rule run_tx_entry, goal_cases)
  case (1 x db')
  then obtain s db1 where db1: "cleanup_pod_status now podID allow db = Inr (s, db1)"
    and db': "db' = db1\<lparr>db_jobs := sql_update (\<lambda>j. j_ID j = n \<and> j_Type j = ''pod_create'')
        (\<lambda>j. j\<lparr>j_Payload := pset ''cleanup_only'' (JBool True) (j_Payload j)\<rparr>) (db_jobs db1)\<rparr>"
    by (auto simp: Let_def split: option.splits sum.splits if_splits)
  have "clone_entry i db' = clone_entry i db1" unfolding db' by (rule clone_entry_keep) simp_all
  with clone_entry_cong [OF cleanup_pod_status_jobs [OF db1]] show ?case by simp
qed

lemma entry_RetryJob: "clone_entry i (snd (RetryJob flt n nextAt c t w db)) = clone_entry i db"
  unfolding RetryJob_def
  by (rule run_tx_entry) (auto simp: Let_def split: if_splits intro!: clone_entry_keep)

lemma entry_RecoverStaleJobs: "clone_entry i (snd (RecoverStaleJobs flt now d db)) = clone_entry i db"
  unfolding RecoverStaleJobs_def by (rule run_tx_entry) (auto intro: clone_entry_keep)

lemma entry_AdoptJobRollbackStep:
  assumes "queue_wf db"
  shows "clone_entry i (snd (AdoptJobRollbackStep flt now n st db)) = clone_entry i db"
  unfolding AdoptJobRollbackStep_def
proof (rule run_tx_entry, goal_cases)
  case (1 x db')
  then obtain j where j: "j \<in> set (db_jobs db)" "j_ID j = n"
    and db': "db' = db\<lparr>db_jobs := sql_update (\<lambda>r. j_ID r = n) (adopted now st j) (db_jobs db)\<rparr>"
    by (auto simp: Let_def adopted_def [abs_def] split: option.splits dest!: find_SomeD)
  have "pget (j_Payload (adopted now st j r)) ''clone_operation'' = pget (j_Payload r) ''clone_operation''"
    if "r \<in> set (db_jobs db)" "j_ID r = n" for r
  proof -
    have "r = j" using assms that j distinct_key_eq [of j_ID "db_jobs db" r j] by (simp add: queue_wf_def)
    then show ?thesis by (simp add: adopted_def)
  qed
  then show ?case unfolding db' by (intro clone_entry_keep) (simp_all add: adopted_def)
qed

lemma entry_job_step:
  assumes "queue_wf db" "plain_payload op"
  shows "clone_entry i (job_step op db) = clone_entry i db"
  using assms
  by (cases op)
     (simp_all add: entry_CreateJob entry_Revalidate entry_ClaimJob entry_FailTemplateProvisionJob entry_RenewJobLease
       entry_BeginPodCreateCleanup entry_RetryJob entry_RecoverStaleJobs entry_AdoptJobRollbackStep
       UpdateJobStatus_def RetryTemplateProvisionJob_def UpdateJobRollbackSteps_def MarkJobCompensationCompleted_def
       clone_entry_exec)

section \<open>The operations on the entry\<close>

text \<open>What a guarded update of one job's payload makes of the entries.\<close>

lemma entry_update:
  assumes "\<And>r. P r \<Longrightarrow> j_ID r = n" "GetJob n db = Some j"
  shows "clone_entry i (db\<lparr>db_jobs := sql_update P (\<lambda>r. r\<lparr>j_Payload := g r\<rparr>) (db_jobs db)\<rparr>) =
    (if i = n \<and> P j then pget (g j) ''clone_operation'' else clone_entry i db)"
proof -
  let ?f = "\<lambda>r. r\<lparr>j_Payload := g r\<rparr>"
  have upd: "GetJob i (db\<lparr>db_jobs := sql_update P ?f (db_jobs db)\<rparr>) = map_option (\<lambda>r. if P r then ?f r else r) (GetJob i db)"
    by (rule GetJob_update) simp
  show ?thesis
  proof (cases "i = n")
    case True
    with upd assms(2) show ?thesis by (simp add: clone_entry_def)
  next
    case False
    have "\<not> P r" if "GetJob i db = Some r" for r
      using assms(1) [of r] GetJob_id [OF that] False by blast
    with upd False show ?thesis by (cases "GetJob i db") (simp_all add: clone_entry_def)
  qed
qed

lemma owned_found:
  assumes "queue_wf db" "find (\<lambda>j. ownedBy n w j \<and> Q j) (db_jobs db) = Some j"
  shows "GetJob n db = Some j"
proof -
  have "j \<in> set (db_jobs db)" "j_ID j = n" using find_SomeD [OF assms(2)] by (auto simp: ownedBy_def)
  then show ?thesis using find_unique_key [of j_ID "db_jobs db" j] assms(1) by (simp add: GetJob_def queue_wf_def)
qed

lemma exec_found:
  assumes "queue_wf db" "sql_count P (db_jobs db) = 1" "\<And>r. P r \<Longrightarrow> j_ID r = n"
  obtains j where "GetJob n db = Some j" "P j"
proof -
  from assms(2) obtain j where j: "j \<in> set (db_jobs db)" "P j" using sql_count_oneD by blast
  with assms(3) have "j_ID j = n" by blast
  then have "GetJob n db = Some j"
    using find_unique_key [of j_ID "db_jobs db" j] assms(1) j(1) by (simp add: GetJob_def queue_wf_def)
  with j(2) that show ?thesis by blast
qed

lemma exec_entry:
  assumes "queue_wf db" "exec_owned P (\<lambda>r. r\<lparr>j_Payload := g r\<rparr>) msg db = Inr (x, db')" "\<And>r. P r \<Longrightarrow> j_ID r = n"
  obtains j where "GetJob n db = Some j" "P j"
    "\<And>i. clone_entry i db' = (if i = n then pget (g j) ''clone_operation'' else clone_entry i db)"
proof -
  note ok = exec_owned_InrD [OF assms(2)]
  from exec_found [OF assms(1) conjunct1 [OF ok] assms(3)] obtain j where j: "GetJob n db = Some j" "P j" by blast
  show ?thesis
    by (rule that [OF j]) (use j(2) in \<open>simp add: conjunct2 [OF ok] entry_update [OF assms(3) j(1)]\<close>)
qed

lemma op_fieldD: "op_field p k = Some v \<Longrightarrow> \<exists>obj. pget p ''clone_operation'' = Some (JObj obj) \<and> pget obj k = Some v"
  by (auto simp: op_field_def split: option.splits json.splits)

lemma jstr_pset [simp]: "jstr (pset k (JStr s) obj) k' = (if k' = k then s else jstr obj k')"
  by (simp add: jstr_def)

lemma life_armed:
  assumes "armable n w opID j"
  shows "\<exists>t. life_of (pget (j_Payload j) ''clone_operation'') = Cloning opID VMCloneOperationPrepared t \<and>
    life_of (pget (armed_payload (j_Payload j)) ''clone_operation'') = Cloning opID VMCloneOperationSubmitting t"
proof -
  from assms obtain obj where obj: "pget (j_Payload j) ''clone_operation'' = Some (JObj obj)"
      "pget obj ''operation_id'' = Some (JStr opID)" "pget obj ''phase'' = Some (JStr VMCloneOperationPrepared)"
    by (auto simp: armable_def dest!: op_fieldD)
  then show ?thesis by (simp add: armed_payload_def set_op_field_def life_of_def jstr_def)
qed

lemma task_ref_isD:
  "pget p ''clone_operation'' = Some (JObj obj) \<Longrightarrow> task_ref_is p t \<Longrightarrow> jstr obj ''task_ref'' = t"
  by (auto simp: task_ref_is_def op_field_def jstr_def)

lemma life_submitted:
  assumes "task_recordable n w opID t' j"
  shows "\<exists>ph t. life_of (pget (j_Payload j) ''clone_operation'') = Cloning opID ph t \<and> (t = [] \<or> t = t') \<and>
    life_of (pget (submitted_payload t' (j_Payload j)) ''clone_operation'') = Cloning opID VMCloneOperationSubmitted t'"
proof -
  from assms obtain obj where obj: "pget (j_Payload j) ''clone_operation'' = Some (JObj obj)"
      "pget obj ''operation_id'' = Some (JStr opID)"
    by (auto simp: task_recordable_def dest!: op_fieldD)
  moreover have "jstr obj ''task_ref'' = [] \<or> jstr obj ''task_ref'' = t'"
    using assms task_ref_isD [OF obj(1)] by (auto simp: task_recordable_def)
  ultimately show ?thesis by (simp add: submitted_payload_def set_op_field_def life_of_def jstr_def)
qed

lemma life_abandoned:
  assumes "abandonable n w opID j"
  shows "\<exists>ph. life_of (pget (j_Payload j) ''clone_operation'') = Cloning opID ph [] \<and>
    (ph = VMCloneOperationPrepared \<or> ph = VMCloneOperationSubmitting) \<and>
    pget (abandoned_payload (j_Payload j)) ''clone_operation'' = None"
proof -
  from assms obtain obj where obj: "pget (j_Payload j) ''clone_operation'' = Some (JObj obj)"
      "pget obj ''operation_id'' = Some (JStr opID)"
      "pget obj ''phase'' = Some (JStr VMCloneOperationPrepared) \<or> pget obj ''phase'' = Some (JStr VMCloneOperationSubmitting)"
    by (fastforce simp: abandonable_def dest!: op_fieldD)
  moreover have "jstr obj ''task_ref'' = []" using assms task_ref_isD [OF obj(1)] by (auto simp: abandonable_def)
  ultimately show ?thesis by (auto simp: abandoned_payload_def life_of_def jstr_def)
qed

lemma life_encoded [simp]:
  "life_of (Some (encode_op op)) = Cloning (co_OperationID op) (co_Phase op) (co_TaskRef op)"
proof -
  obtain obj where obj: "encode_op op = JObj obj" by (simp add: encode_op_def)
  then show ?thesis by (simp add: life_of_def jstr_encode_op [OF obj])
qed

lemma life_decoded:
  assumes "decode_op raw = Inr op" "co_Phase op \<noteq> []"
  shows "life_of (Some raw) = Cloning (co_OperationID op) (co_Phase op) (co_TaskRef op)"
  using assms
  by (auto simp: decode_op_def jobject_def life_of_def jstr_def pget_def split: json.splits if_splits)

section \<open>Steps and their refinement\<close>

lemma queue_wf_cong: "db_jobs db' = db_jobs db \<Longrightarrow> queue_wf db' = queue_wf db"
  by (simp add: queue_wf_def)

lemma queue_wf_payload:
  assumes "queue_wf db"
  shows "queue_wf (db\<lparr>db_jobs := sql_update P (\<lambda>r. r\<lparr>j_Payload := g r\<rparr>) (db_jobs db)\<rparr>)"
proof -
  have "job_wf (r\<lparr>j_Payload := p\<rparr>) = job_wf r" for r p
    by (cases "j_Status r") (simp_all add: job_wf_def)
  moreover have "map j_ID (sql_update P (\<lambda>r. r\<lparr>j_Payload := g r\<rparr>) (db_jobs db)) = map j_ID (db_jobs db)"
    by (rule map_key_sql_update) simp
  ultimately show ?thesis using assms by (auto simp: queue_wf_def sql_update_in)
qed

lemma queue_wf_exec_payload:
  assumes "queue_wf db"
  shows "queue_wf (snd (run_tx flt (exec_owned P (\<lambda>r. r\<lparr>j_Payload := g r\<rparr>) msg) db))"
  using assms by (rule run_tx_preserves) (drule exec_owned_InrD, simp only: queue_wf_payload [OF assms])

text \<open>
  The queries that do not dispose of a clone: everything the queue does, the protocol up to the
  adoption, and any other query that leaves the entries of the jobs alone.
\<close>

inductive clone_step :: "database \<Rightarrow> unit \<Rightarrow> database \<Rightarrow> bool" where
  queue: "plain_payload op \<Longrightarrow> clone_step db u (job_step op db)"
| prepare: "co_Phase cand = [] \<or> co_Phase cand = VMCloneOperationPrepared \<Longrightarrow> co_TaskRef cand = [] \<Longrightarrow>
     clone_step db u (snd (PrepareVMCloneOperation up flt now n w cand db))"
| arm: "clone_step db u (snd (ArmVMCloneOperation flt n w opID db))"
| abandon: "clone_step db u (snd (AbandonUnsubmittedVMCloneOperation flt flt2 n w opID db))"
| submitted: "clone_step db u (snd (PersistVMCloneTask flt n w opID t db))"
| stage: "clone_step db u (snd (StageVMCloneCleanup flt flt2 n w target db))"
| adopt: "clone_step db u (snd (AdoptPodVMClone ustr flt commit n w podVMID sts vmID vmName status db))"
| elsewhere: "queue_wf db' \<Longrightarrow> (\<And>i. clone_entry i db' = clone_entry i db) \<Longrightarrow> clone_step db u db'"

text \<open>The queries that dispose of it: adopted for good, destroyed, or proved never to have existed.\<close>

inductive clone_close :: "database \<Rightarrow> database \<Rightarrow> bool" where
  without_resource: "clone_close db (snd (CompleteVMCloneOperationWithoutResource flt n w opID db))"
| disarm: "clone_close db (snd (DisarmVMCloneCleanup ustr flt n w podVMID vmID db))"
| destroyed: "clone_close db (snd (CompleteVMCloneCleanup up ustr flt n podVMID vmID db))"
| standalone: "clone_close db (snd (FinishStandaloneVMCloneCleanup up flt n w target c db))"

lemma armed_owner: "armable n w opID r \<Longrightarrow> j_ID r = n"
  by (simp add: armable_def ownedBy_def)

lemma prepare_op_cases:
  assumes "queue_wf db" "prepare_op_tx up n w cand db = Inr (op, db')"
    and cand: "co_Phase cand = VMCloneOperationPrepared" "co_TaskRef cand = []"
  shows "db' = db \<or> (\<exists>j. GetJob n db = Some j \<and> db' = put_op n cand j db \<and>
     (clone_life_of db n = NoClone \<or> (\<exists>i t. clone_life_of db n = Cloning i VMCloneOperationPrepared t)))"
proof -
  from assms(2) obtain j where f: "find (\<lambda>j. ownedBy n w j \<and> j_Type j \<in> set cloneJobTypes) (db_jobs db) = Some j"
    unfolding prepare_op_tx_def by (auto split: option.splits)
  from assms(1) f have j: "GetJob n db = Some j" by (rule owned_found)
  then have life: "clone_life_of db n = life_of (pget (j_Payload j) ''clone_operation'')"
    by (simp add: clone_life_of_def clone_entry_def)
  show ?thesis
  proof (cases "pget (j_Payload j) ''clone_operation''")
    case None
    with assms(2) f have "db' = put_op n cand j db" by (auto simp: prepare_op_tx_def)
    with None j life show ?thesis by (simp add: life_of_def)
  next
    case (Some raw)
    with assms(2) f obtain existing where ex: "decode_op raw = Inr existing"
      unfolding prepare_op_tx_def by (auto split: sum.splits)
    with assms(2) f Some have "db' = db \<or> db' = put_op n cand j db \<and> co_Phase existing = VMCloneOperationPrepared"
      by (auto simp: prepare_op_tx_def split: option.splits if_splits)
    moreover have "clone_life_of db n = Cloning (co_OperationID existing) (co_Phase existing) (co_TaskRef existing)"
      if "co_Phase existing = VMCloneOperationPrepared"
      using life_decoded [OF ex] that Some life by simp
    ultimately show ?thesis using j by auto
  qed
qed

lemma put_op_entry:
  assumes "GetJob n db = Some j"
  shows "clone_entry i (put_op n op j db) = (if i = n then Some (encode_op op) else clone_entry i db)"
  unfolding put_op_def using entry_update [of "\<lambda>r. j_ID r = n" n db j i "\<lambda>r. pset ''clone_operation'' (encode_op op) (j_Payload j)"]
    assms GetJob_id [OF assms] by simp

text \<open>One query moves the operation of a job along the abstract steps, and no other job's.\<close>

definition lives_step :: "(uuid \<Rightarrow> clone_life) \<Rightarrow> (uuid \<Rightarrow> clone_life) \<Rightarrow> bool" where
  "lives_step f f' \<longleftrightarrow> (\<exists>n. life_step (f n) (f' n) \<and> (\<forall>i. i \<noteq> n \<longrightarrow> f' i = f i))"

lemma lives_stepI:
  assumes "\<And>i. i \<noteq> n \<Longrightarrow> clone_entry i db' = clone_entry i db" "life_step (clone_life_of db n) (clone_life_of db' n)"
  shows "lives_step (clone_life_of db) (clone_life_of db')"
  using assms unfolding lives_step_def clone_life_of_def by metis

lemma entries_same: "(\<And>i. clone_entry i db' = clone_entry i db) \<Longrightarrow> clone_life_of db' = clone_life_of db"
  by (rule ext) (simp add: clone_life_of_def)

lemma run_tx_lives:
  assumes "\<And>x db'. body db = Inr (x, db') \<Longrightarrow>
      clone_life_of db' = clone_life_of db \<or> lives_step (clone_life_of db) (clone_life_of db')"
  shows "clone_life_of (snd (run_tx flt body db)) = clone_life_of db \<or>
    lives_step (clone_life_of db) (clone_life_of (snd (run_tx flt body db)))"
  using assms run_tx_snd_cases [of flt body db] by metis

lemma lives_Prepare:
  assumes "queue_wf db" "co_Phase cand = [] \<or> co_Phase cand = VMCloneOperationPrepared" "co_TaskRef cand = []"
  shows "clone_life_of (snd (PrepareVMCloneOperation up flt now n w cand db)) = clone_life_of db \<or>
    lives_step (clone_life_of db) (clone_life_of (snd (PrepareVMCloneOperation up flt now n w cand db)))"
proof -
  let ?c = "prepared_candidate now cand"
  have c: "co_Phase ?c = VMCloneOperationPrepared" "co_TaskRef ?c = []" using assms(2,3) by (auto simp: prepared_candidate_def)
  have "clone_life_of db' = clone_life_of db \<or> lives_step (clone_life_of db) (clone_life_of db')"
    if "prepare_op_tx up n w ?c db = Inr (op, db')" for op db'
    using prepare_op_cases [OF assms(1) that c]
  proof (elim disjE exE conjE)
    fix j assume j: "GetJob n db = Some j" "db' = put_op n ?c j db"
    have ent: "i \<noteq> n \<Longrightarrow> clone_entry i db' = clone_entry i db" for i unfolding j(2) put_op_entry [OF j(1)] by simp
    have new: "clone_life_of db' n = Cloning (co_OperationID ?c) VMCloneOperationPrepared []"
      unfolding j(2) clone_life_of_def put_op_entry [OF j(1)] by (simp add: c)
    { assume "clone_life_of db n = NoClone"
      then have "life_step (clone_life_of db n) (clone_life_of db' n)" unfolding new by (simp add: life_step.prepare)
      then show ?thesis using lives_stepI [of n db' db] ent by blast
    next
      fix i t assume "clone_life_of db n = Cloning i VMCloneOperationPrepared t"
      then have "life_step (clone_life_of db n) (clone_life_of db' n)" unfolding new by (simp add: life_step.replace)
      then show ?thesis using lives_stepI [of n db' db] ent by blast }
  qed simp
  then show ?thesis unfolding PrepareVMCloneOperation_def
    by (cases "validateVMCloneOperation up ?c") (simp_all add: run_tx_lives)
qed

text \<open>A guarded update of one payload that moves the entry of the row it finds.\<close>

lemma lives_exec:
  assumes "queue_wf db" "\<And>r. P r \<Longrightarrow> j_ID r = n"
    and "\<And>j. P j \<Longrightarrow> life_step (life_of (pget (j_Payload j) ''clone_operation'')) (life_of (pget (g j) ''clone_operation''))"
  shows "clone_life_of (snd (run_tx flt (exec_owned P (\<lambda>r. r\<lparr>j_Payload := g r\<rparr>) msg) db)) = clone_life_of db \<or>
    lives_step (clone_life_of db) (clone_life_of (snd (run_tx flt (exec_owned P (\<lambda>r. r\<lparr>j_Payload := g r\<rparr>) msg) db)))"
proof (rule run_tx_lives)
  fix x db' assume "exec_owned P (\<lambda>r. r\<lparr>j_Payload := g r\<rparr>) msg db = Inr (x, db')"
  from exec_entry [OF assms(1) this assms(2)] obtain j where j: "GetJob n db = Some j" "P j"
    "\<And>i. clone_entry i db' = (if i = n then pget (g j) ''clone_operation'' else clone_entry i db)" by blast
  have "life_step (clone_life_of db n) (clone_life_of db' n)"
    using assms(3) [OF j(2)] j(1,3) by (simp add: clone_life_of_def clone_entry_def)
  then show "clone_life_of db' = clone_life_of db \<or> lives_step (clone_life_of db) (clone_life_of db')"
    using lives_stepI [of n db' db] j(3) by auto
qed

lemma life_armed_step:
  assumes "armable n w opID j"
  shows "life_step (life_of (pget (j_Payload j) ''clone_operation'')) (life_of (pget (armed_payload (j_Payload j)) ''clone_operation''))"
proof -
  from life_armed [OF assms] obtain t
    where "life_of (pget (j_Payload j) ''clone_operation'') = Cloning opID VMCloneOperationPrepared t"
      "life_of (pget (armed_payload (j_Payload j)) ''clone_operation'') = Cloning opID VMCloneOperationSubmitting t" by blast
  then show ?thesis by (simp only: life_step.arm)
qed

lemma life_submitted_step:
  assumes "task_recordable n w opID t' j"
  shows "life_step (life_of (pget (j_Payload j) ''clone_operation''))
    (life_of (pget (submitted_payload t' (j_Payload j)) ''clone_operation''))"
proof -
  from life_submitted [OF assms] obtain ph t
    where "life_of (pget (j_Payload j) ''clone_operation'') = Cloning opID ph t" "t = [] \<or> t = t'"
      "life_of (pget (submitted_payload t' (j_Payload j)) ''clone_operation'') = Cloning opID VMCloneOperationSubmitted t'" by blast
  then show ?thesis by (simp only: life_step.submitted)
qed

lemma lives_Arm:
  assumes "queue_wf db"
  shows "clone_life_of (snd (ArmVMCloneOperation flt n w opID db)) = clone_life_of db \<or>
    lives_step (clone_life_of db) (clone_life_of (snd (ArmVMCloneOperation flt n w opID db)))"
  unfolding ArmVMCloneOperation_def
  by (rule lives_exec [OF assms armed_owner life_armed_step])

lemma lives_Persist:
  assumes "queue_wf db"
  shows "clone_life_of (snd (PersistVMCloneTask flt n w opID t db)) = clone_life_of db \<or>
    lives_step (clone_life_of db) (clone_life_of (snd (PersistVMCloneTask flt n w opID t db)))"
  unfolding PersistVMCloneTask_def
  by (rule lives_exec [OF assms _ life_submitted_step]) (simp add: task_recordable_def ownedBy_def)

lemma Abandon_life:
  assumes wf: "queue_wf db" and db': "db' = snd (AbandonUnsubmittedVMCloneOperation flt flt2 n w opID db)"
  shows "clone_life_of db' = clone_life_of db \<or>
    (\<exists>ph. clone_life_of db n = Cloning opID ph [] \<and> (ph = VMCloneOperationPrepared \<or> ph = VMCloneOperationSubmitting) \<and>
       clone_life_of db' n = NoClone \<and> (\<forall>k. k \<noteq> n \<longrightarrow> clone_life_of db' k = clone_life_of db k))"
proof -
  let ?P = "abandonable n w opID" and ?g = "\<lambda>j. abandoned_payload (j_Payload j)"
  let ?db' = "db\<lparr>db_jobs := sql_update ?P (\<lambda>j. j\<lparr>j_Payload := ?g j\<rparr>) (db_jobs db)\<rparr>"
  have "db' = db \<or> db' = ?db'"
    unfolding db' by (cases flt) (simp_all add: AbandonUnsubmittedVMCloneOperation_def run_tx_def)
  then show ?thesis
  proof (elim disjE)
    assume db': "db' = ?db'"
    show ?thesis
    proof (cases "\<exists>r \<in> set (db_jobs db). ?P r")
      case False
      then have "sql_update ?P (\<lambda>j. j\<lparr>j_Payload := ?g j\<rparr>) (db_jobs db) = db_jobs db" by (intro sql_update_none) blast
      then show ?thesis by (simp add: db')
    next
      case True
      then obtain j where j: "j \<in> set (db_jobs db)" "?P j" by blast
      then have id: "j_ID j = n" by (simp add: abandonable_def ownedBy_def)
      then have get: "GetJob n db = Some j"
        using find_unique_key [of j_ID "db_jobs db" j] wf j(1) by (simp add: GetJob_def queue_wf_def)
      have ent: "clone_entry i db' = (if i = n then pget (?g j) ''clone_operation'' else clone_entry i db)" for i
        unfolding db' using entry_update [of ?P n db j i ?g] get j(2) by (simp add: abandonable_def ownedBy_def)
      from life_abandoned [OF j(2)] obtain ph where ph: "life_of (pget (j_Payload j) ''clone_operation'') = Cloning opID ph []"
          "ph = VMCloneOperationPrepared \<or> ph = VMCloneOperationSubmitting" "pget (?g j) ''clone_operation'' = None" by blast
      have "clone_life_of db n = Cloning opID ph []" using get ph(1) by (simp add: clone_life_of_def clone_entry_def)
      moreover have "clone_life_of db' n = NoClone" unfolding clone_life_of_def ent by (simp add: ph(3) life_of_def)
      moreover have "\<forall>k. k \<noteq> n \<longrightarrow> clone_life_of db' k = clone_life_of db k" by (simp add: clone_life_of_def ent)
      ultimately show ?thesis using ph(2) by blast
    qed
  qed simp
qed

lemma lives_Abandon:
  assumes "queue_wf db"
  shows "clone_life_of (snd (AbandonUnsubmittedVMCloneOperation flt flt2 n w opID db)) = clone_life_of db \<or>
    lives_step (clone_life_of db) (clone_life_of (snd (AbandonUnsubmittedVMCloneOperation flt flt2 n w opID db)))"
  using Abandon_life [OF assms refl, of flt flt2 n w opID] life_step.abandon unfolding lives_step_def by metis

lemma wf_Abandon: "queue_wf db \<Longrightarrow> queue_wf (snd (AbandonUnsubmittedVMCloneOperation flt flt2 n w opID db))"
  by (cases flt) (simp_all add: AbandonUnsubmittedVMCloneOperation_def run_tx_def queue_wf_payload)

lemma Stage_cases:
  "snd (StageVMCloneCleanup flt flt2 n w target db) = db \<or>
   snd (StageVMCloneCleanup flt flt2 n w target db) =
     db\<lparr>db_jobs := sql_update (stageable n w target) (\<lambda>j. j\<lparr>j_Payload := staged_payload target (j_Payload j)\<rparr>) (db_jobs db)\<rparr>"
  by (cases flt) (simp_all add: StageVMCloneCleanup_def run_tx_def)

lemma entry_Stage: "clone_entry i (snd (StageVMCloneCleanup flt flt2 n w target db)) = clone_entry i db"
  using Stage_cases [of flt flt2 n w target db] by (elim disjE) (simp_all add: clone_entry_keep staged_payload_def)

lemma wf_Stage: "queue_wf db \<Longrightarrow> queue_wf (snd (StageVMCloneCleanup flt flt2 n w target db))"
  using Stage_cases [of flt flt2 n w target db] by (elim disjE) (simp_all add: queue_wf_payload)

lemma adopt_tx_jobs: "adopt_tx ustr n w podVMID sts vmID vmName status db = Inr (b, db') \<Longrightarrow> db_jobs db' = db_jobs db"
  unfolding adopt_tx_def by (auto split: option.splits if_splits)

lemma Adopt_jobs: "db_jobs (snd (AdoptPodVMClone ustr flt commit n w podVMID sts vmID vmName status db)) = db_jobs db"
proof -
  let ?tx = "run_tx flt (adopt_tx ustr n w podVMID sts vmID vmName status) db"
  have "db_jobs (snd ?tx) = db_jobs db"
    by (rule run_tx_preserves [where I = "\<lambda>d. db_jobs d = db_jobs db"]) (simp_all add: adopt_tx_jobs)
  moreover have "snd (AdoptPodVMClone ustr flt commit n w podVMID sts vmID vmName status db) = db \<or>
      snd (AdoptPodVMClone ustr flt commit n w podVMID sts vmID vmName status db) = snd ?tx"
    by (cases ?tx; cases "fst ?tx"; cases commit) (simp_all add: AdoptPodVMClone_def Let_def)
  ultimately show ?thesis by metis
qed

lemma prepare_wf: "queue_wf db \<Longrightarrow> queue_wf (snd (PrepareVMCloneOperation up flt now n w cand db))"
proof -
  assume wf: "queue_wf db"
  have "queue_wf db'" if "prepare_op_tx up n w c db = Inr (op, db')" for c op db'
  proof -
    from that have "db' = db \<or> (\<exists>c j. db' = put_op n c j db)"
      unfolding prepare_op_tx_def by (auto split: option.splits sum.splits if_splits)
    with wf show ?thesis by (auto simp: put_op_def queue_wf_payload)
  qed
  then have "queue_wf (snd (run_tx flt (prepare_op_tx up n w c) db))" for c
    by (rule run_tx_preserves [of queue_wf, OF wf])
  with wf show ?thesis
    by (cases "validateVMCloneOperation up (prepared_candidate now cand)") (simp_all add: PrepareVMCloneOperation_def)
qed

lemma clone_step_wf: "clone_step db u db' \<Longrightarrow> queue_wf db \<Longrightarrow> queue_wf db'"
proof (induction rule: clone_step.induct)
  case (arm db u flt n w opID)
  then show ?case by (simp add: ArmVMCloneOperation_def queue_wf_exec_payload)
next
  case (submitted db u flt n w opID t)
  then show ?case by (simp add: PersistVMCloneTask_def queue_wf_exec_payload)
next
  case (adopt db u ustr flt commit n w podVMID sts vmID vmName status)
  then show ?case using queue_wf_cong [OF Adopt_jobs] by blast
qed (simp_all add: job_step_wf prepare_wf wf_Abandon wf_Stage)

interpretation clones: simulation "\<lambda>db. db_jobs db = []" clone_step queue_wf clone_life_of lives_step
proof unfold_locales
  show "queue_wf db" if "db_jobs db = []" for db using that by (simp add: queue_wf_def)
  show "queue_wf db'" if "queue_wf db" "clone_step db u db'" for db u db' using that clone_step_wf by blast
  show "clone_life_of db' = clone_life_of db \<or> lives_step (clone_life_of db) (clone_life_of db')"
    if "queue_wf db" "clone_step db u db'" for db u db'
    using that(2,1)
  proof (induction rule: clone_step.induct)
    case (adopt db u ustr flt commit n w podVMID sts vmID vmName status)
    then show ?case using entries_same clone_entry_cong [OF Adopt_jobs] by blast
  next
    case (prepare cand db u up flt now n w)
    then show ?case using lives_Prepare by blast
  next
    case (queue op db u)
    then show ?case using entries_same [OF entry_job_step] by blast
  next
    case (arm db u flt n w opID)
    then show ?case using lives_Arm by blast
  next
    case (abandon db u flt flt2 n w opID)
    then show ?case using lives_Abandon by blast
  next
    case (submitted db u flt n w opID t)
    then show ?case using lives_Persist by blast
  next
    case (stage db u flt flt2 n w target)
    then show ?case using entries_same [OF entry_Stage] by blast
  next
    case (elsewhere db' db u)
    then show ?case using entries_same by blast
  qed
qed

lemma life_submitted_final:
  "life_step (Cloning i VMCloneOperationSubmitted t) l \<Longrightarrow> t \<noteq> [] \<Longrightarrow> l = Cloning i VMCloneOperationSubmitted t"
  by (auto simp: life_step_from)

lemma lives_steps_submitted:
  assumes "lives_step\<^sup>*\<^sup>* f f'" "f n = Cloning i VMCloneOperationSubmitted t" "t \<noteq> []"
  shows "f' n = Cloning i VMCloneOperationSubmitted t"
  using assms
proof (induction rule: rtranclp_induct)
  case base
  then show ?case by simp
next
  case (step f1 f2)
  then have f1: "f1 n = Cloning i VMCloneOperationSubmitted t" by blast
  from step.hyps(2) obtain m where m: "life_step (f1 m) (f2 m)" "\<And>k. k \<noteq> m \<Longrightarrow> f2 k = f1 k"
    unfolding lives_step_def by blast
  show ?case
  proof (cases "m = n")
    case True
    with m(1) f1 show ?thesis using life_submitted_final [OF _ step.prems(2)] by simp
  next
    case False
    with m(2) f1 show ?thesis by metis
  qed
qed

text \<open>
  C10. The stored clone operations refine the abstract life of a clone: whatever the queue, the
  workers and the driver do, as long as no query disposes of a clone the operation of every job
  moves from prepared over submitting to submitted, one job at a time. So a submitted clone whose
  task is known keeps its identity and its task through lost leases, retries, recoveries and
  repeated attempts.
\<close>

theorem clone_operation_refinement:
  assumes "queue_wf db" "(\<lambda>d d'. \<exists>u. clone_step d u d')\<^sup>*\<^sup>* db db'"
  shows "lives_step\<^sup>*\<^sup>* (clone_life_of db) (clone_life_of db') \<and>
    (clone_life_of db n = Cloning i VMCloneOperationSubmitted t \<and> t \<noteq> [] \<longrightarrow>
       clone_life_of db' n = Cloning i VMCloneOperationSubmitted t)"
  using clones.steps_sim [OF assms(2,1)] lives_steps_submitted by blast

text \<open>A job with a clone in flight, for the witnesses.\<close>

definition cloning_op :: clone_operation where
  "cloning_op =
     \<lparr>co_OperationID = ''op'', co_PodID = ''pod'', co_PodVMID = ''vm'', co_LogicalTemplateID = ''tmpl'',
      co_TargetName = ''lab'', co_SourceReplicaID = [], co_SourceRef = ''vm-1'', co_ComputeResourceType = ''ComputeResource'',
      co_ComputeResourceMoref = ''cr-1'', co_HostMoref = ''host-1'', co_HostName = ''esx'', co_PoolMoref = ''pool-1'',
      co_DRSControl = ''standalone'', co_TaskRef = [], co_Phase = VMCloneOperationPrepared, co_PreparedAt = 5\<rparr>"

definition cloning_db :: database where
  "cloning_db = empty_db\<lparr>db_jobs := [(new_job 7 10 ''vm_add'' [])
     \<lparr>j_Status := JobStatusInProgress, j_ClaimedBy := Some ''w'', j_ClaimedAt := Some 10,
      j_Payload := [(''clone_operation'', encode_op cloning_op)]\<rparr>]\<rparr>"

theorem clone_operation_refinement_witness:
  "clone_life_of (snd (RecoverStaleJobs None 500 30 (snd (PersistVMCloneTask None 7 ''w'' ''op'' ''task-9''
     (snd (ArmVMCloneOperation None 7 ''w'' ''op'' cloning_db)))))) 7 = Cloning ''op'' VMCloneOperationSubmitted ''task-9''"
proof -
  let ?db = "snd (PersistVMCloneTask None 7 ''w'' ''op'' ''task-9'' (snd (ArmVMCloneOperation None 7 ''w'' ''op'' cloning_db)))"
  have wf: "queue_wf ?db" by code_simp
  have life: "clone_life_of ?db 7 = Cloning ''op'' VMCloneOperationSubmitted ''task-9''" by code_simp
  have "clone_step ?db () (job_step (OpRecover None 500 30) ?db)" by (rule clone_step.queue) simp
  then have "(\<lambda>d d'. \<exists>u. clone_step d u d')\<^sup>*\<^sup>* ?db (snd (RecoverStaleJobs None 500 30 ?db))" by auto
  from clone_operation_refinement [OF wf this, of 7 "''op''" "''task-9''"] life show ?thesis by simp
qed

lemma find_only:
  assumes "distinct (map j_ID js)" "x \<in> set js" "Q x" "\<And>r. Q r \<Longrightarrow> j_ID r = j_ID x"
  shows "find Q js = Some x"
  using assms(1,2)
proof (induction js)
  case Nil
  then show ?case by simp
next
  case (Cons r js)
  show ?case
  proof (cases "Q r")
    case True
    then have "j_ID r = j_ID x" by (rule assms(4))
    with Cons.prems have "r = x" using distinct_key_eq [of j_ID "r # js" r x] by simp
    with True show ?thesis by simp
  next
    case False
    with Cons assms(3) show ?thesis by auto
  qed
qed

abbreviation clone_owner :: "uuid \<Rightarrow> string \<Rightarrow> job \<Rightarrow> bool" where
  "clone_owner n w j \<equiv> ownedBy n w j \<and> j_Type j \<in> set cloneJobTypes"

lemma prepare_result:
  assumes wf: "queue_wf db" and tx: "prepare_op_tx up n w c db = Inr (op, db')"
  obtains j raw where "find (clone_owner n w) (db_jobs db') = Some j"
    "pget (j_Payload j) ''clone_operation'' = Some raw" "decode_op raw = Inr op"
proof -
  from tx obtain j where f: "find (clone_owner n w) (db_jobs db) = Some j"
    unfolding prepare_op_tx_def by (auto split: option.splits)
  note j = find_SomeD [OF f]
  have "db' = put_op n op j db \<or>
      db' = db \<and> (\<exists>raw. pget (j_Payload j) ''clone_operation'' = Some raw \<and> decode_op raw = Inr op)"
    using tx f unfolding prepare_op_tx_def by (auto split: option.splits sum.splits if_splits)
  then show ?thesis
  proof
    assume db': "db' = put_op n op j db"
    let ?j = "j\<lparr>j_Payload := pset ''clone_operation'' (encode_op op) (j_Payload j)\<rparr>"
    have "queue_wf db'" unfolding db' put_op_def by (rule queue_wf_payload [OF wf])
    moreover have "?j \<in> set (db_jobs db')"
      using j unfolding db' put_op_def by (auto simp: sql_update_in ownedBy_def intro!: bexI [of _ j])
    ultimately have "find (clone_owner n w) (db_jobs db') = Some ?j"
      using j by (intro find_only) (auto simp: queue_wf_def ownedBy_def)
    then show ?thesis by (rule that [where raw = "encode_op op"]) (simp_all add: decode_encode_op)
  next
    assume "db' = db \<and> (\<exists>raw. pget (j_Payload j) ''clone_operation'' = Some raw \<and> decode_op raw = Inr op)"
    with f show ?thesis using that by blast
  qed
qed

lemma valid_opD:
  assumes "validateVMCloneOperation up op = None"
  shows "validateVMCloneOperationScope up op = None" "prepared_candidate later op = op"
proof -
  show scope: "validateVMCloneOperationScope up op = None"
    using assms unfolding validateVMCloneOperation_def by (cases "validateVMCloneOperationScope up op") simp_all
  have "co_PreparedAt op \<noteq> 0" using scope unfolding validateVMCloneOperationScope_def
    by (rule contrapos_pn) simp
  moreover have "co_Phase op \<noteq> []" using scope unfolding validateVMCloneOperationScope_def
    by (rule contrapos_pn) simp
  ultimately show "prepared_candidate later op = op" by (simp add: prepared_candidate_def)
qed

text \<open>
  C30. What is prepared is what is read back: an operation that \<open>PrepareVMCloneOperation\<close> returns
  and that is complete is exactly the operation the same claim loads afterwards, and preparing it
  again returns it and changes nothing.
\<close>

theorem prepare_then_get:
  assumes wf: "queue_wf db" and p: "PrepareVMCloneOperation up flt now n w cand db = (Inr op, db')"
    and valid: "validateVMCloneOperation up op = None"
  shows "GetVMCloneOperation up None n w db' = Inr (Some op) \<and>
    PrepareVMCloneOperation up None later n w op db' = (Inr op, db')"
proof -
  from p have "run_tx flt (prepare_op_tx up n w (prepared_candidate now cand)) db = (Inr op, db')"
    unfolding PrepareVMCloneOperation_def by (auto split: option.splits)
  then have "prepare_op_tx up n w (prepared_candidate now cand) db = Inr (op, db')" by (blast dest: run_tx_InrD)
  with wf obtain j raw where j: "find (clone_owner n w) (db_jobs db') = Some j"
    "pget (j_Payload j) ''clone_operation'' = Some raw" "decode_op raw = Inr op" by (rule prepare_result)
  note v = valid valid_opD [OF valid]
  have "prepare_op_tx up n w op db' = Inr (op, db')"
    using j v by (simp add: prepare_op_tx_def sameVMCloneOperationScope_def)
  with j v show ?thesis by (simp add: GetVMCloneOperation_def PrepareVMCloneOperation_def)
qed

theorem prepare_then_get_witness:
  "GetVMCloneOperation (\<lambda>_. Some 1) None 7 ''w''
     (snd (PrepareVMCloneOperation (\<lambda>_. Some 1) None 5 7 ''w'' (cloning_op\<lparr>co_OperationID := ''other''\<rparr>) cloning_db)) =
     Inr (Some cloning_op)"
proof -
  have "fst (PrepareVMCloneOperation (\<lambda>_. Some 1) None 5 7 ''w'' (cloning_op\<lparr>co_OperationID := ''other''\<rparr>) cloning_db) = Inr cloning_op"
    by code_simp
  moreover have "queue_wf cloning_db" "validateVMCloneOperation (\<lambda>_. Some 1) cloning_op = None" by code_simp+
  ultimately show ?thesis
    using prepare_then_get [where db = cloning_db and up = "\<lambda>_. Some 1" and op = cloning_op and n = 7 and w = "''w''"]
    by (metis prod.collapse)
qed

section \<open>The clones a job still has to clean up\<close>

definition valid_target :: "(string \<Rightarrow> uuid option) \<Rightarrow> clone_target \<Rightarrow> bool" where
  "valid_target up t \<longleftrightarrow> ct_PodID t \<noteq> [] \<and> ct_PodVMID t \<noteq> [] \<and> ct_VCenterVMID t \<noteq> [] \<and>
     up (ct_PodID t) \<noteq> None \<and> up (ct_PodVMID t) \<noteq> None"

lemma same_target_iff [simp]: "samePersistedVMCloneTarget a b \<longleftrightarrow> a = (b :: clone_target)"
  by (auto simp: samePersistedVMCloneTarget_def intro: clone_target.equality)

lemma decode_target_valid:
  "decodePersistedVMCloneTarget up raw = Inr t \<Longrightarrow> valid_target up t \<and> unmarshal_target raw = Inr t"
  by (auto simp: decodePersistedVMCloneTarget_def valid_target_def split: sum.splits if_splits)

lemma unmarshal_encode_target [simp]: "unmarshal_target (encode_target t) = Inr t"
  by (simp add: unmarshal_target_def encode_target_def jobject_def jstr_ok_def jstr_def pget_def)

lemma decode_encode_target [simp]: "valid_target up t \<Longrightarrow> decodePersistedVMCloneTarget up (encode_target t) = Inr t"
  by (simp add: decodePersistedVMCloneTarget_def valid_target_def)

lemma decode_targets_valid: "decode_targets up vs = Inr ts \<Longrightarrow> t \<in> set ts \<Longrightarrow> valid_target up t"
  by (induction vs arbitrary: ts) (auto split: sum.splits dest: decode_target_valid)

lemma decode_encode_targets: "\<forall>t \<in> set ts. valid_target up t \<Longrightarrow> decode_targets up (map encode_target ts) = Inr ts"
  by (induction ts) simp_all

lemma parse_targets_valid: "parsePersistedVMCloneTargets up raw = Inr ts \<Longrightarrow> t \<in> set ts \<Longrightarrow> valid_target up t"
  unfolding parsePersistedVMCloneTargets_def
  by (auto split: option.splits json.splits dest: decode_targets_valid)

lemma parse_encode_targets [simp]:
  "\<forall>t \<in> set ts. valid_target up t \<Longrightarrow> parsePersistedVMCloneTargets up (Some (encode_targets ts)) = Inr ts"
  by (simp add: parsePersistedVMCloneTargets_def encode_targets_def decode_encode_targets)

lemma parse_None [simp]: "parsePersistedVMCloneTargets up None = Inr []"
  by (simp add: parsePersistedVMCloneTargets_def)

text \<open>The abstract state: the exact clones still to be destroyed and those proved destroyed.\<close>

definition primary_target :: "payload \<Rightarrow> clone_target list result" where
  "primary_target p =
     (case pget p ''cleanup_target'' of
        None \<Rightarrow> Inr []
      | Some raw \<Rightarrow> (case unmarshal_target raw of Inl e \<Rightarrow> Inl e | Inr t \<Rightarrow> Inr [t]))"

definition clone_targets :: "(string \<Rightarrow> uuid option) \<Rightarrow> payload \<Rightarrow> (clone_target set \<times> clone_target set) option" where
  "clone_targets up p =
     (case (primary_target p, parsePersistedVMCloneTargets up (pget p ''cleanup_handoff_targets''),
            parsePersistedVMCloneTargets up (pget p ''destroyed_cleanup_targets'')) of
        (Inr pl, Inr hs, Inr ds) \<Rightarrow> Some (set pl \<union> set hs, set ds)
      | _ \<Rightarrow> None)"

lemma clone_targetsD:
  assumes "clone_targets up p = Some (pend, dest)"
  obtains pl hs ds where "primary_target p = Inr pl"
    "parsePersistedVMCloneTargets up (pget p ''cleanup_handoff_targets'') = Inr hs"
    "parsePersistedVMCloneTargets up (pget p ''destroyed_cleanup_targets'') = Inr ds"
    "pend = set pl \<union> set hs" "dest = set ds"
  using assms unfolding clone_targets_def by (auto split: sum.splits)

lemma primary_target_cases:
  assumes "primary_target p = Inr pl"
  obtains "pl = []" "pget p ''cleanup_target'' = None"
  | pr raw where "pl = [pr]" "pget p ''cleanup_target'' = Some raw" "unmarshal_target raw = Inr pr"
  using assms unfolding primary_target_def by (auto split: option.splits sum.splits)

lemma keep_remaining_targets:
  assumes "primary_target p = Inr pl" "\<forall>t \<in> set rest. valid_target up t"
    "parsePersistedVMCloneTargets up (pget p ''destroyed_cleanup_targets'') = Inr ds"
  shows "clone_targets up (keep_remaining rest p) = Some (set pl \<union> set rest, set ds)"
    "pget (keep_remaining rest p) ''cleanup_target'' = None \<and>
     pget (keep_remaining rest p) ''cleanup_handoff_targets'' = None \<longleftrightarrow> set pl \<union> set rest = {}"
proof -
  from assms(1) have "clone_targets up (keep_remaining rest p) = Some (set pl \<union> set rest, set ds) \<and>
    (pget (keep_remaining rest p) ''cleanup_target'' = None \<and>
     pget (keep_remaining rest p) ''cleanup_handoff_targets'' = None \<longleftrightarrow> set pl \<union> set rest = {})"
  proof (cases rule: primary_target_cases)
    case 1
    show ?thesis
    proof (cases rest)
      case Nil
      then show ?thesis using 1 assms(3) by (simp add: keep_remaining_def clone_targets_def primary_target_def)
    next
      case (Cons t ts)
      then show ?thesis using 1 assms(2,3)
        by (cases "ts = []") (simp_all add: keep_remaining_def clone_targets_def primary_target_def Let_def)
    qed
  next
    case (2 pr raw)
    then show ?thesis using assms(2,3)
      by (cases rest) (simp_all add: keep_remaining_def clone_targets_def primary_target_def)
  qed
  then show "clone_targets up (keep_remaining rest p) = Some (set pl \<union> set rest, set ds)"
    "pget (keep_remaining rest p) ''cleanup_target'' = None \<and>
     pget (keep_remaining rest p) ''cleanup_handoff_targets'' = None \<longleftrightarrow> set pl \<union> set rest = {}" by blast+
qed

lemma clone_targets_other:
  assumes "\<And>k. k \<in> {''cleanup_target'', ''cleanup_handoff_targets'', ''destroyed_cleanup_targets''} \<Longrightarrow> pget p' k = pget p k"
  shows "clone_targets up p' = clone_targets up p"
  using assms by (simp add: clone_targets_def primary_target_def)

lemma prepare_destruction_targets:
  assumes abs: "clone_targets up p = Some (pend, dest)" and dec: "decodePersistedVMCloneTarget up raw = Inr t"
  shows "\<exists>p'. prepareVMCloneDestructionPayload up p raw = Inr (p', t \<in> dest) \<and>
    clone_targets up p' = Some (if t \<in> dest then pend else insert t pend, dest) \<and>
    (t \<notin> dest \<longrightarrow> ptrue p' ''cleanup_only'' \<and> pget p' ''cleanup_completed'' = None)"
proof -
  note t = decode_target_valid [OF dec]
  from abs obtain pl hs ds where pl: "primary_target p = Inr pl"
    and hs: "parsePersistedVMCloneTargets up (pget p ''cleanup_handoff_targets'') = Inr hs"
    and ds: "parsePersistedVMCloneTargets up (pget p ''destroyed_cleanup_targets'') = Inr ds"
    and sets: "pend = set pl \<union> set hs" "dest = set ds" by (rule clone_targetsD)
  show ?thesis
  proof (cases "t \<in> dest")
    case True
    then show ?thesis using dec ds sets abs by (simp add: prepareVMCloneDestructionPayload_def)
  next
    case False
    from pl show ?thesis
    proof (cases rule: primary_target_cases)
      case 1
      then show ?thesis using False dec ds hs sets t
        by (simp add: prepareVMCloneDestructionPayload_def Let_def clone_targets_def primary_target_def)
    next
      case (2 pr raw')
      have "\<forall>x \<in> set (hs @ [t]). valid_target up x" using parse_targets_valid [OF hs] t by auto
      with 2 show ?thesis using False dec ds hs sets t
        by (cases "pr = t"; cases "t \<in> set hs")
           (auto simp: prepareVMCloneDestructionPayload_def Let_def clone_targets_def primary_target_def)
    qed
  qed
qed

lemma complete_destruction_targets:
  assumes abs: "clone_targets up p = Some (pend, dest)" and dec: "decodePersistedVMCloneTarget up raw = Inr t"
    and op: "\<And>v. pget p ''clone_operation'' = Some v \<Longrightarrow> \<exists>x. decode_op v = Inr x"
  shows "\<exists>p'. completeVMCloneDestructionPayload up p raw = Inr (p', t \<in> dest) \<and>
    clone_targets up p' = Some (if t \<in> dest then pend else pend - {t}, insert t dest) \<and>
    (t \<notin> dest \<longrightarrow> ptrue p' ''cleanup_only'' \<and> (ptrue p' ''cleanup_completed'' \<longleftrightarrow> pend - {t} = {}))"
proof -
  note t = decode_target_valid [OF dec]
  from abs obtain pl hs ds where pl: "primary_target p = Inr pl"
    and hs: "parsePersistedVMCloneTargets up (pget p ''cleanup_handoff_targets'') = Inr hs"
    and ds: "parsePersistedVMCloneTargets up (pget p ''destroyed_cleanup_targets'') = Inr ds"
    and sets: "pend = set pl \<union> set hs" "dest = set ds" by (rule clone_targetsD)
  show ?thesis
  proof (cases "t \<in> dest")
    case True
    then show ?thesis using dec ds sets abs by (simp add: completeVMCloneDestructionPayload_def insert_absorb)
  next
    case False
    let ?p0 = "pset ''destroyed_cleanup_targets'' (encode_targets (ds @ [t])) p"
    have val: "\<forall>x \<in> set (ds @ [t]). valid_target up x" using parse_targets_valid [OF ds] t by auto
    have "\<exists>p1. without_target t ?p0 = Inr p1 \<and> primary_target p1 = Inr (filter (\<lambda>x. x \<noteq> t) pl) \<and>
        pget p1 ''cleanup_handoff_targets'' = pget p ''cleanup_handoff_targets'' \<and>
        pget p1 ''destroyed_cleanup_targets'' = Some (encode_targets (ds @ [t])) \<and>
        pget p1 ''clone_operation'' = pget p ''clone_operation''"
      using pl by (cases rule: primary_target_cases) (auto simp: without_target_def primary_target_def)
    then obtain p1 where p1: "without_target t ?p0 = Inr p1" "primary_target p1 = Inr (filter (\<lambda>x. x \<noteq> t) pl)"
        "pget p1 ''cleanup_handoff_targets'' = pget p ''cleanup_handoff_targets''"
        "pget p1 ''destroyed_cleanup_targets'' = Some (encode_targets (ds @ [t]))"
        "pget p1 ''clone_operation'' = pget p ''clone_operation''" by blast
    let ?rest = "filter (\<lambda>x. x \<noteq> t) hs" and ?pl = "filter (\<lambda>x. x \<noteq> t) pl"
    let ?p2 = "keep_remaining ?rest p1"
    have rest: "\<forall>x \<in> set ?rest. valid_target up x" using parse_targets_valid [OF hs] by simp
    have d1: "parsePersistedVMCloneTargets up (pget p1 ''destroyed_cleanup_targets'') = Inr (ds @ [t])"
      using p1(4) val by simp
    note kr = keep_remaining_targets [OF p1(2) rest d1]
    have pend: "set ?pl \<union> set ?rest = pend - {t}" "set (ds @ [t]) = insert t dest" using sets by auto
    have op2: "pget ?p2 ''clone_operation'' = pget p ''clone_operation''"
      using p1(5) by (simp add: keep_remaining_def Let_def split: list.splits)
    let ?q = "pset ''cleanup_only'' (JBool True) ?p2"
    have "\<exists>p3. without_operation_of t ?q = Inr p3 \<and> (p3 = ?q \<or> p3 = pdel ''clone_operation'' ?q)"
      using op op2 by (cases "pget p ''clone_operation''") (auto simp: without_operation_of_def)
    then obtain p3 where p3: "without_operation_of t ?q = Inr p3" "p3 = ?q \<or> p3 = pdel ''clone_operation'' ?q" by blast
    have same: "pget p3 k = pget ?p2 k" if "k \<noteq> ''cleanup_only''" "k \<noteq> ''clone_operation''" for k
      using p3(2) that by auto
    have only: "ptrue p3 ''cleanup_only''" using p3(2) by auto
    define p4 where "p4 = (if pget p3 ''cleanup_target'' = None \<and> pget p3 ''cleanup_handoff_targets'' = None
        then pset ''cleanup_completed'' (JBool True) p3 else pdel ''cleanup_completed'' p3)"
    have res: "completeVMCloneDestructionPayload up p raw = Inr (p4, False)"
      using dec ds False sets p1(1,3) hs p3(1) by (simp add: completeVMCloneDestructionPayload_def Let_def p4_def)
    have "clone_targets up p4 = clone_targets up p3" by (rule clone_targets_other) (auto simp: p4_def)
    also have "\<dots> = clone_targets up ?p2" by (rule clone_targets_other) (auto simp: same)
    also have "\<dots> = Some (pend - {t}, insert t dest)" using kr(1) pend by simp
    finally have abs': "clone_targets up p4 = Some (pend - {t}, insert t dest)" .
    have "(pget p3 ''cleanup_target'' = None \<and> pget p3 ''cleanup_handoff_targets'' = None) = (pend - {t} = {})"
      using kr(2) [unfolded pend(1)] same [of "''cleanup_target''"] same [of "''cleanup_handoff_targets''"] by simp
    then have comp: "ptrue p4 ''cleanup_completed'' = (pend - {t} = {})" by (simp add: p4_def)
    have "ptrue p4 ''cleanup_only''" using only by (simp add: p4_def)
    with res abs' False comp show ?thesis by (intro exI [of _ p4]) simp
  qed
qed



end
