(* ===== verification/DurableClone.thy ===== *)
theory DurableClone
  imports CloneOps Placement
begin

text \<open>
  The durable clone protocol of \<open>internal/provisioner/clone_operation.go\<close> over the job row of
  \<open>CloneOps\<close>: an attempt loads or prepares the operation, arms it right before the one vCenter
  call that creates a machine (\<open>internal/vcenter/client.go\<close>), records the task, waits for it,
  stages the exact clone for cleanup and configures it; a later attempt resumes where the row says
  the former one stopped. vCenter and the database driver answer what the environment says.
\<close>

section \<open>Clean-up targets\<close>

text \<open>\<open>VMCloneCleanupTarget\<close> of \<open>vm_ops.go\<close>.\<close>

record cleanup_target =
  kt_PodID :: string
  kt_PodVMID :: string
  kt_VCenterVMID :: string
  kt_LogicalTemplateID :: string
  kt_SourceReplicaID :: string
  kt_SourceRef :: string
  kt_ComputeResourceType :: string
  kt_ComputeResourceMoref :: string
  kt_ResourcePoolMoref :: string
  kt_HostMoref :: string
  kt_DRSControl :: string

definition encode_cleanup_target :: "cleanup_target \<Rightarrow> json" where
  "encode_cleanup_target t =
     JObj ([(''pod_id'', JStr (kt_PodID t)), (''pod_vm_id'', JStr (kt_PodVMID t)),
            (''vcenter_vm_id'', JStr (kt_VCenterVMID t)), (''logical_template_id'', JStr (kt_LogicalTemplateID t))] @
           omitempty ''source_replica_id'' (kt_SourceReplicaID t) @
           [(''source_ref'', JStr (kt_SourceRef t)), (''compute_resource_type'', JStr (kt_ComputeResourceType t)),
            (''compute_resource_moref'', JStr (kt_ComputeResourceMoref t)),
            (''resource_pool_moref'', JStr (kt_ResourcePoolMoref t)), (''host_moref'', JStr (kt_HostMoref t)),
            (''drs_control'', JStr (kt_DRSControl t))])"

definition validateVMCloneCleanupTarget :: "(string \<Rightarrow> uuid option) \<Rightarrow> cleanup_target \<Rightarrow> go_error option" where
  "validateVMCloneCleanupTarget uparse t =
     (if uparse (kt_PodID t) = None then Some (errorsNew ''invalid cleanup pod_id'')
      else if uparse (kt_PodVMID t) = None then Some (errorsNew ''invalid cleanup pod_vm_id'')
      else if kt_VCenterVMID t = [] then Some (errorsNew ''cleanup target has no exact vCenter MoRef'')
      else None)"

definition validateVMCloneCleanupIdentity :: "(string \<Rightarrow> uuid option) \<Rightarrow> cleanup_target \<Rightarrow> go_error option" where
  "validateVMCloneCleanupIdentity uparse t =
     (case validateVMCloneCleanupTarget uparse t of
        Some e \<Rightarrow> Some e
      | None \<Rightarrow>
          if uparse (kt_LogicalTemplateID t) = None
          then Some (errorsNew ''cleanup target has invalid logical_template_id'')
          else if kt_SourceReplicaID t \<noteq> [] \<and> uparse (kt_SourceReplicaID t) = None
          then Some (errorsNew ''cleanup target has invalid source_replica_id'')
          else if kt_SourceRef t = [] then Some (errorsNew ''cleanup target has no exact source reference'')
          else if kt_ComputeResourceType t \<noteq> ''ClusterComputeResource'' \<and> kt_ComputeResourceType t \<noteq> ''ComputeResource''
          then Some (errorsNew ''cleanup target has unsupported compute resource type'')
          else if kt_ComputeResourceMoref t = [] \<or> kt_ResourcePoolMoref t = [] \<or> kt_HostMoref t = []
          then Some (errorsNew ''cleanup target has incomplete compute, pool, or host identity'')
          else if kt_DRSControl t \<noteq> ''disabled'' \<and> kt_DRSControl t \<noteq> ''standalone''
          then Some (errorsNew ''cleanup target has unsupported DRS control'')
          else None)"

definition cloneCleanupTargetFromOperation :: "clone_operation \<Rightarrow> string \<Rightarrow> cleanup_target" where
  "cloneCleanupTargetFromOperation op moref =
     \<lparr>kt_PodID = co_PodID op, kt_PodVMID = co_PodVMID op, kt_VCenterVMID = moref,
      kt_LogicalTemplateID = co_LogicalTemplateID op, kt_SourceReplicaID = co_SourceReplicaID op,
      kt_SourceRef = co_SourceRef op, kt_ComputeResourceType = co_ComputeResourceType op,
      kt_ComputeResourceMoref = co_ComputeResourceMoref op, kt_ResourcePoolMoref = co_PoolMoref op,
      kt_HostMoref = co_HostMoref op, kt_DRSControl = co_DRSControl op\<rparr>"

text \<open>Identifiers are texts in the operation and identifiers in the parameters of the client.\<close>

definition id_text :: "(uuid \<Rightarrow> string) \<Rightarrow> uuid option \<Rightarrow> string" where
  "id_text ustr i = (case i of None \<Rightarrow> [] | Some u \<Rightarrow> ustr u)"

definition text_id :: "(string \<Rightarrow> uuid option) \<Rightarrow> string \<Rightarrow> uuid option" where
  "text_id uparse s = (if s = [] then None else uparse s)"

definition cloneCleanupTarget ::
  "(uuid \<Rightarrow> string) \<Rightarrow> uuid \<Rightarrow> uuid \<Rightarrow> string \<Rightarrow> clone_params \<Rightarrow> cleanup_target option" where
  "cloneCleanupTarget ustr podID podVMID moref params =
     (if moref = [] then None
      else Some \<lparr>kt_PodID = ustr podID, kt_PodVMID = ustr podVMID, kt_VCenterVMID = moref,
             kt_LogicalTemplateID = id_text ustr (cp_LogicalTemplateID params),
             kt_SourceReplicaID = id_text ustr (cp_SourceReplicaID params), kt_SourceRef = cp_TemplateName params,
             kt_ComputeResourceType = cp_ComputeResourceType params,
             kt_ComputeResourceMoref = cp_ComputeResourceMoRef params,
             kt_ResourcePoolMoref = cp_ResourcePoolMoRef params, kt_HostMoref = cp_HostMoRef params,
             kt_DRSControl = cp_DRSControl params\<rparr>)"

definition cloneOperationParams ::
  "(string \<Rightarrow> uuid option) \<Rightarrow> clone_operation \<Rightarrow> clone_params \<Rightarrow> clone_params" where
  "cloneOperationParams uparse op params =
     params\<lparr>cp_OperationID := text_id uparse (co_OperationID op), cp_PodVMID := text_id uparse (co_PodVMID op),
       cp_LogicalTemplateID := text_id uparse (co_LogicalTemplateID op), cp_TemplateName := co_SourceRef op,
       cp_SourceReplicaID := text_id uparse (co_SourceReplicaID op),
       cp_ComputeResourceType := co_ComputeResourceType op, cp_ComputeResourceMoRef := co_ComputeResourceMoref op,
       cp_VMName := co_TargetName op, cp_HostMoRef := co_HostMoref op, cp_HostName := co_HostName op,
       cp_ResourcePoolMoRef := co_PoolMoref op, cp_DRSControl := co_DRSControl op\<rparr>"

section \<open>Writes that must get through\<close>

text \<open>
  A write either gets its answer or loses it; a lost answer says nothing about the effect.
\<close>

datatype write_outcome = WriteOk | WriteLost bool go_error

definition with_outcome ::
  "write_outcome \<Rightarrow> (database \<Rightarrow> unit result \<times> database) \<Rightarrow> database \<Rightarrow> unit result \<times> database" where
  "with_outcome oc write db =
     (case oc of
        WriteOk \<Rightarrow> write db
      | WriteLost effective e \<Rightarrow> (Inl e, if effective then snd (write db) else db))"

text \<open>
  \<open>persistCloneOperationWrite\<close>: retried until it succeeds, ownership is lost, the clone is known
  to be destroyed, or the handoff deadline passes. The list has one outcome for every attempt
  that fits before the deadline.
\<close>

fun persistCloneOperationWrite ::
  "(database \<Rightarrow> unit result \<times> database) \<Rightarrow> write_outcome list \<Rightarrow> database \<Rightarrow> unit result \<times> database" where
  "persistCloneOperationWrite write [] db = (Inl (errorsNew ''context deadline exceeded''), db)"
| "persistCloneOperationWrite write (oc # ocs) db =
     (case with_outcome oc write db of
        (Inr u, db') \<Rightarrow> (Inr (), db')
      | (Inl e, db') \<Rightarrow>
          if errorsIs e ErrJobLeaseLost \<or> errorsIs e ErrVMCloneAlreadyDestroyed then (Inl e, db')
          else if ocs = [] then (Inl (Errorf ''clone operation handoff deadline'' [e]), db')
          else persistCloneOperationWrite write ocs db')"

definition cloneRecoveryError :: "go_error \<Rightarrow> cleanup_target option \<Rightarrow> go_error" where
  "cloneRecoveryError e target = Typed (compensationRetryError (map_option encode_cleanup_target target)) e"

definition newCloneForwardRetryError :: "go_error \<Rightarrow> cleanup_target option \<Rightarrow> go_error" where
  "newCloneForwardRetryError e target = Typed (cloneForwardRetryError (map_option encode_cleanup_target target)) e"

definition isCloneForwardRetry :: "go_error \<Rightarrow> bool" where
  "isCloneForwardRetry = errorsAs (\<lambda>ty. case ty of cloneForwardRetryError _ \<Rightarrow> True | _ \<Rightarrow> False)"

definition cloneForwardRetryAvailable :: "job \<Rightarrow> go_error \<Rightarrow> bool" where
  "cloneForwardRetryAvailable job e \<longleftrightarrow>
     \<not> isCompensationRetry e \<and> \<not> isManualCleanupRequired e \<and> jobRetryAvailable job (Some e)"

definition cloneForwardFailureToCompensation :: "go_error \<Rightarrow> go_error" where
  "cloneForwardFailureToCompensation e =
     (case errorsFind (\<lambda>ty. case ty of cloneForwardRetryError t \<Rightarrow> Some t | _ \<Rightarrow> None) e of
        None \<Rightarrow> e
      | Some target \<Rightarrow> Typed (compensationRetryError target) e)"

definition persistedClonePreambleFailure :: "job \<Rightarrow> clone_operation option \<Rightarrow> go_error option \<Rightarrow> go_error option" where
  "persistedClonePreambleFailure job op e =
     (case op of
        None \<Rightarrow> e
      | Some _ \<Rightarrow>
          let err = (case e of None \<Rightarrow> errorsNew ''handler exited before reconciling its persisted clone operation''
                              | Some x \<Rightarrow> x) in
          if isCompensationRetry err \<or> isManualCleanupRequired err then Some err
          else
            (case classifyCloneOperationFailure (Some err) of
               None \<Rightarrow> None
             | Some classified \<Rightarrow>
                 if cloneForwardRetryAvailable job classified then Some classified
                 else if isManualCleanupRequired classified \<or> isCompensationRetry classified then Some classified
                 else if isCloneForwardRetry classified then Some (cloneForwardFailureToCompensation classified)
                 else Some (cloneRecoveryError
                        (Errorf ''persisted clone operation requires exact compensation after preamble failure'' [classified])
                        None)))"

section \<open>The world of an attempt\<close>

text \<open>
  The database, the clone submissions vCenter has received (job and operation), and, for the
  statements only, the operations a disposing query has removed.
\<close>

record clone_world =
  cw_db :: database
  cw_submitted :: "(uuid \<times> string) list"
  cw_closed :: "(uuid \<times> string) set"

text \<open>
  What vCenter, the driver and the clock answer during one attempt. \<open>ce_before\<close> is the read-only
  preparation of \<open>startCloneVMInner\<close> (source, folder, name check, placement, clone policy); \<open>ce_clone\<close> is the answer to \<open>CloneVM_Task\<close>, which vCenter has received either way.
\<close>

record clone_env =
  ce_resolve :: "clone_params \<Rightarrow> clone_params result"
  ce_newID :: string
  ce_now :: go_time
  ce_load :: "go_error option"
  ce_prepare :: "go_error option"
  ce_connect :: "go_error option"
  ce_before :: "go_error option"
  ce_arm :: write_outcome
  ce_clone :: "string result"
  ce_task :: "write_outcome list"
  ce_abandon :: "write_outcome list"
  ce_abandon_read :: "go_error option"
  ce_wait :: "string result"
  ce_find :: "string \<times> go_error option"
  ce_stage :: "write_outcome list"
  ce_stage_read :: "go_error option"
  ce_validate :: "go_error option"
  ce_configure :: "go_error option"
  ce_complete :: "go_error option"

type_synonym clone_answer = "string \<times> go_error option \<times> clone_world"

section \<open>Staging and configuring\<close>

definition stageCloneCleanupTarget ::
  "(string \<Rightarrow> uuid option) \<Rightarrow> clone_env \<Rightarrow> uuid \<Rightarrow> string \<Rightarrow> cleanup_target \<Rightarrow> database \<Rightarrow> go_error option \<times> database" where
  "stageCloneCleanupTarget uparse env jobID workerID target db =
     (case validateVMCloneCleanupIdentity uparse target of
        Some e \<Rightarrow> (Some (Typed manualCleanupRequiredError
                    (Errorf ''clone cleanup target has incomplete immutable placement'' [e])), db)
      | None \<Rightarrow>
          (case persistCloneOperationWrite
                  (StageVMCloneCleanup None (ce_stage_read env) jobID workerID (encode_cleanup_target target)) (ce_stage env) db of
             (Inl e, db') \<Rightarrow> (Some (Errorf ''stage exact clone'' [e]), db')
           | (Inr _, db') \<Rightarrow> (None, db')))"

text \<open>How a failure after the clone is known is reported: to an operator, or as a compensation.\<close>

definition recovery :: "go_error \<Rightarrow> cleanup_target option \<Rightarrow> go_error" where
  "recovery e target = (if isManualCleanupRequired e then e else cloneRecoveryError e target)"

definition classified :: "go_error \<Rightarrow> go_error" where
  "classified e = (case classifyPlacementValidationFailure (Some e) of None \<Rightarrow> e | Some x \<Rightarrow> x)"

definition stageAndConfigureClone ::
  "(string \<Rightarrow> uuid option) \<Rightarrow> clone_env \<Rightarrow> uuid \<Rightarrow> string \<Rightarrow> cleanup_target \<Rightarrow> string \<Rightarrow> clone_world \<Rightarrow> clone_answer" where
  "stageAndConfigureClone uparse env jobID workerID target moref cw =
     (case stageCloneCleanupTarget uparse env jobID workerID target (cw_db cw) of
        (Some e, db') \<Rightarrow> (moref, Some (recovery e (Some target)), cw\<lparr>cw_db := db'\<rparr>)
      | (None, db') \<Rightarrow>
          (case ce_validate env of
             Some e \<Rightarrow>
               (moref, Some (recovery (classified (Errorf ''clone placement validation failed'' [e])) (Some target)),
                cw\<lparr>cw_db := db'\<rparr>)
           | None \<Rightarrow>
               (case ce_configure env of
                  Some e \<Rightarrow>
                    (moref, Some (recovery (classified (Errorf ''configure exact clone'' [e])) (Some target)),
                     cw\<lparr>cw_db := db'\<rparr>)
                | None \<Rightarrow> (moref, None, cw\<lparr>cw_db := db'\<rparr>))))"

section \<open>One attempt\<close>

definition new_operation ::
  "(uuid \<Rightarrow> string) \<Rightarrow> clone_env \<Rightarrow> uuid \<Rightarrow> uuid \<Rightarrow> clone_params \<Rightarrow> clone_operation" where
  "new_operation ustr env podID podVMID params =
     \<lparr>co_OperationID = ce_newID env, co_PodID = ustr podID, co_PodVMID = ustr podVMID,
      co_LogicalTemplateID = id_text ustr (cp_LogicalTemplateID params), co_TargetName = cp_VMName params,
      co_SourceReplicaID = id_text ustr (cp_SourceReplicaID params), co_SourceRef = cp_TemplateName params,
      co_ComputeResourceType = cp_ComputeResourceType params, co_ComputeResourceMoref = cp_ComputeResourceMoRef params,
      co_HostMoref = cp_HostMoRef params, co_HostName = cp_HostName params, co_PoolMoref = cp_ResourcePoolMoRef params,
      co_DRSControl = cp_DRSControl params, co_TaskRef = [], co_Phase = VMCloneOperationPrepared,
      co_PreparedAt = ce_now env\<rparr>"

text \<open>Loading the operation of the claim, or resolving the placement and preparing one.\<close>

definition load_or_prepare ::
  "(string \<Rightarrow> uuid option) \<Rightarrow> (uuid \<Rightarrow> string) \<Rightarrow> clone_env \<Rightarrow> uuid \<Rightarrow> string \<Rightarrow> uuid \<Rightarrow> uuid \<Rightarrow> clone_params \<Rightarrow> database
     \<Rightarrow> (clone_operation \<times> clone_params) result \<times> database" where
  "load_or_prepare uparse ustr env jobID workerID podID podVMID params db =
     (case GetVMCloneOperation uparse (ce_load env) jobID workerID db of
        Inl e \<Rightarrow> (Inl (Errorf ''load durable clone operation'' [e]), db)
      | Inr (Some op) \<Rightarrow> (Inr (op, params), db)
      | Inr None \<Rightarrow>
          (case ce_resolve env params of
             Inl e \<Rightarrow> (Inl (Errorf ''resolve durable clone placement'' [e]), db)
           | Inr resolved \<Rightarrow>
               (case PrepareVMCloneOperation uparse (ce_prepare env) (ce_now env) jobID workerID
                       (new_operation ustr env podID podVMID resolved) db of
                  (Inl e, db') \<Rightarrow> (Inl (Errorf ''prepare durable clone operation'' [e]), db')
                | (Inr op, db') \<Rightarrow> (Inr (op, resolved), db'))))"

text \<open>\<open>StartCloneVMOperation\<close>: the read-only preparation, the arming, then the submission.\<close>

definition StartCloneVMOperation ::
  "clone_env \<Rightarrow> clone_params \<Rightarrow> uuid \<Rightarrow> string \<Rightarrow> string \<Rightarrow> clone_world \<Rightarrow> string result \<times> bool \<times> clone_world" where
  "StartCloneVMOperation env params jobID workerID operationID cw =
     (case ce_connect env of
        Some e \<Rightarrow> (Inl e, False, cw)
      | None \<Rightarrow>
          if cp_HostMoRef params = [] \<or> cp_ResourcePoolMoRef params = [] \<or> cp_ComputeResourceType params = [] \<or>
             cp_ComputeResourceMoRef params = [] \<or> cp_DRSControl params = []
          then (Inl (errorsNew ''clone placement must be resolved and persisted before submission''), False, cw)
          else
            (case ce_before env of Some e \<Rightarrow> (Inl e, False, cw) | None \<Rightarrow>
            (case with_outcome (ce_arm env) (ArmVMCloneOperation None jobID workerID operationID) (cw_db cw) of
               (Inl e, db') \<Rightarrow>
                 (Inl (Errorf ''arm clone operation before submission'' [e]), False, cw\<lparr>cw_db := db'\<rparr>)
             | (Inr _, db') \<Rightarrow>
                 (ce_clone env, True,
                  cw\<lparr>cw_db := db', cw_submitted := (jobID, operationID) # cw_submitted cw\<rparr>))))"

text \<open>A prepared operation: submit it, and record the task; without the submission give it up.\<close>

definition submit_clone ::
  "clone_env \<Rightarrow> clone_params \<Rightarrow> uuid \<Rightarrow> string \<Rightarrow> string \<Rightarrow> clone_world \<Rightarrow> string result \<times> clone_world" where
  "submit_clone env params jobID workerID operationID cw =
     (case StartCloneVMOperation env params jobID workerID operationID cw of
        (Inl e, armed, cw1) \<Rightarrow>
          if \<not> armed
          then
            (case persistCloneOperationWrite
                    (AbandonUnsubmittedVMCloneOperation None (ce_abandon_read env) jobID workerID operationID)
                    (ce_abandon env) (cw_db cw1) of
               (Inl e', db') \<Rightarrow>
                 (Inl (cloneRecoveryError (Errorf ''abandon unsubmitted clone operation'' [e']) None), cw1\<lparr>cw_db := db'\<rparr>)
             | (Inr _, db') \<Rightarrow> (Inl (Errorf ''prepare clone submission'' [e]), cw1\<lparr>cw_db := db'\<rparr>))
          else (Inl (cloneRecoveryError (Errorf ''clone submission outcome is ambiguous for operation'' [e]) None), cw1)
      | (Inr taskRef, _, cw1) \<Rightarrow>
          (case persistCloneOperationWrite (PersistVMCloneTask None jobID workerID operationID taskRef) (ce_task env) (cw_db cw1) of
             (Inl e', db') \<Rightarrow>
               (Inl (cloneRecoveryError (Errorf ''persist clone task for operation'' [e']) None), cw1\<lparr>cw_db := db'\<rparr>)
           | (Inr _, db') \<Rightarrow> (Inr taskRef, cw1\<lparr>cw_db := db'\<rparr>)))"

text \<open>An operation whose submission was never answered: look for the marked machine.\<close>

definition resolve_submitting ::
  "(string \<Rightarrow> uuid option) \<Rightarrow> (uuid \<Rightarrow> string) \<Rightarrow> clone_env \<Rightarrow> uuid \<Rightarrow> string \<Rightarrow> uuid \<Rightarrow> uuid \<Rightarrow> clone_params \<Rightarrow> clone_world
     \<Rightarrow> clone_answer" where
  "resolve_submitting uparse ustr env jobID workerID podID podVMID params cw =
     (case ce_find env of
        (moref, Some e) \<Rightarrow>
          if errorsIs e ErrAmbiguousVMOwnership then ([], Some (Typed manualCleanupRequiredError e), cw)
          else
            (case cloneCleanupTarget ustr podID podVMID moref params of
               None \<Rightarrow> (moref, Some (if isManualCleanupRequired (classified e) then classified e
                 else cloneRecoveryError (Errorf ''reconcile ambiguous clone operation'' [classified e]) None), cw)
             | Some target \<Rightarrow>
                 (case stageCloneCleanupTarget uparse env jobID workerID target (cw_db cw) of
                    (Some e', db') \<Rightarrow> (moref, Some (recovery e' (Some target)), cw\<lparr>cw_db := db'\<rparr>)
                  | (None, db') \<Rightarrow> (moref, Some (if isManualCleanupRequired (classified e) then classified e
                      else cloneRecoveryError (Errorf ''reconcile ambiguous clone operation'' [classified e]) (Some target)),
                      cw\<lparr>cw_db := db'\<rparr>)))
      | (moref, None) \<Rightarrow>
          (case cloneCleanupTarget ustr podID podVMID moref params of
             None \<Rightarrow> ([], Some (cloneRecoveryError
                 (errorsNew ''clone operation remains unresolved; no duplicate clone was submitted'') None), cw)
           | Some target \<Rightarrow> stageAndConfigureClone uparse env jobID workerID target moref cw))"

definition await_clone ::
  "(string \<Rightarrow> uuid option) \<Rightarrow> (uuid \<Rightarrow> string) \<Rightarrow> clone_env \<Rightarrow> uuid \<Rightarrow> string \<Rightarrow> uuid \<Rightarrow> uuid \<Rightarrow> clone_params \<Rightarrow> clone_world
     \<Rightarrow> clone_answer" where
  "await_clone uparse ustr env jobID workerID podID podVMID params cw =
     (case ce_wait env of
        Inl e \<Rightarrow>
          ([], Some (if errorsIs e ErrCloneTaskFailed
                     then cloneRecoveryError (Errorf ''durable clone operation task failed terminally'' [e]) None
                     else newCloneForwardRetryError (Errorf ''wait for durable clone operation task'' [e]) None), cw)
      | Inr moref \<Rightarrow>
          (case cloneCleanupTarget ustr podID podVMID moref params of
             None \<Rightarrow> (moref, Some (Typed manualCleanupRequiredError (Errorf ''clone cleanup target has incomplete immutable placement''
                        [errorsNew ''cleanup target is missing''])), cw)
           | Some target \<Rightarrow> stageAndConfigureClone uparse env jobID workerID target moref cw))"

definition placement_missing :: "clone_operation \<Rightarrow> bool" where
  "placement_missing op \<longleftrightarrow> co_LogicalTemplateID op = [] \<or> co_ComputeResourceType op = [] \<or>
     co_ComputeResourceMoref op = [] \<or> co_HostMoref op = [] \<or> co_HostName op = [] \<or> co_PoolMoref op = [] \<or>
     co_DRSControl op = []"

definition run_operation ::
  "(string \<Rightarrow> uuid option) \<Rightarrow> (uuid \<Rightarrow> string) \<Rightarrow> clone_env \<Rightarrow> uuid \<Rightarrow> string \<Rightarrow> uuid \<Rightarrow> uuid \<Rightarrow> clone_operation \<Rightarrow> clone_params
     \<Rightarrow> clone_world \<Rightarrow> clone_answer" where
  "run_operation uparse ustr env jobID workerID podID podVMID op params cw =
     (if co_Phase op = VMCloneOperationPrepared
      then
        (case submit_clone env params jobID workerID (co_OperationID op) cw of
           (Inl e, cw1) \<Rightarrow> ([], Some e, cw1)
         | (Inr taskRef, cw1) \<Rightarrow> await_clone uparse ustr env jobID workerID podID podVMID params cw1)
      else if co_Phase op = VMCloneOperationSubmitting
      then if co_TaskRef op = [] then resolve_submitting uparse ustr env jobID workerID podID podVMID params cw
           else await_clone uparse ustr env jobID workerID podID podVMID params cw
      else if co_Phase op = VMCloneOperationSubmitted
      then if co_TaskRef op = []
           then ([], Some (cloneRecoveryError (errorsNew ''submitted clone operation has no task reference'') None), cw)
           else await_clone uparse ustr env jobID workerID podID podVMID params cw
      else ([], Some (errorsNew ''unsupported clone operation phase''), cw))"

definition executeDurableVMClone ::
  "(string \<Rightarrow> uuid option) \<Rightarrow> (uuid \<Rightarrow> string) \<Rightarrow> clone_env \<Rightarrow> uuid \<Rightarrow> string \<Rightarrow> uuid \<Rightarrow> uuid \<Rightarrow> clone_params \<Rightarrow> clone_world
     \<Rightarrow> clone_answer" where
  "executeDurableVMClone uparse ustr env jobID workerID podID podVMID params cw =
     (if cp_LogicalTemplateID params = None
      then ([], Some (errorsNew ''durable clone requires a logical template ID''), cw)
      else
        (case load_or_prepare uparse ustr env jobID workerID podID podVMID params (cw_db cw) of
           (Inl e, db') \<Rightarrow> ([], Some e, cw\<lparr>cw_db := db'\<rparr>)
         | (Inr (op, params'), db') \<Rightarrow>
             let cw1 = cw\<lparr>cw_db := db'\<rparr> in
             if co_PodID op \<noteq> ustr podID \<or> co_PodVMID op \<noteq> ustr podVMID \<or>
                co_LogicalTemplateID op \<noteq> id_text ustr (cp_LogicalTemplateID params') \<or> co_TargetName op \<noteq> cp_VMName params'
             then ([], Some (Typed manualCleanupRequiredError
                    (errorsNew ''persisted clone operation does not match the requested logical VM scope'')), cw1)
             else if placement_missing op
             then ([], Some (Typed manualCleanupRequiredError
                    (errorsNew ''persisted clone operation is missing immutable host placement; automatic recovery is unsafe'')), cw1)
             else run_operation uparse ustr env jobID workerID podID podVMID op (cloneOperationParams uparse op params') cw1))"

section \<open>Reconciling for cleanup\<close>

abbreviation cloneSubmissionReconcileDeadline :: go_time where
  "cloneSubmissionReconcileDeadline \<equiv> seconds 1800"

definition unresolved_clone ::
  "clone_env \<Rightarrow> uuid \<Rightarrow> string \<Rightarrow> clone_operation \<Rightarrow> go_error option \<Rightarrow> clone_world \<Rightarrow> cleanup_target option \<times> go_error option \<times> clone_world" where
  "unresolved_clone env jobID workerID op waitErr cw =
     (if (case waitErr of None \<Rightarrow> False | Some e \<Rightarrow> errorsIs e ErrCloneTaskFailed)
      then
        (case CompleteVMCloneOperationWithoutResource (ce_complete env) jobID workerID (co_OperationID op) (cw_db cw) of
           (Inl e, db') \<Rightarrow> (None, Some (cloneRecoveryError (Errorf ''complete failed clone operation'' [e]) None), cw\<lparr>cw_db := db'\<rparr>)
         | (Inr _, db') \<Rightarrow> (None, None, cw\<lparr>cw_db := db', cw_closed := insert (jobID, co_OperationID op) (cw_closed cw)\<rparr>))
      else if co_PreparedAt op \<noteq> 0 \<and> ce_now env - co_PreparedAt op \<ge> cloneSubmissionReconcileDeadline
      then (None, Some (Typed manualCleanupRequiredError
             (errorsNew ''clone operation did not expose a task or marked VM before its reconciliation deadline'')), cw)
      else
        (case waitErr of
           Some e \<Rightarrow> (None, Some (cloneRecoveryError (Errorf ''resume clone operation'' [e]) None), cw)
         | None \<Rightarrow> (None, Some (cloneRecoveryError
             (errorsNew ''clone operation is still unresolved; retaining cleanup intent'') None), cw)))"

text \<open>The clone is known: stage it exactly, then validate where it runs.\<close>

definition found_clone ::
  "(string \<Rightarrow> uuid option) \<Rightarrow> clone_env \<Rightarrow> uuid \<Rightarrow> string \<Rightarrow> clone_operation \<Rightarrow> string \<Rightarrow> clone_world
     \<Rightarrow> cleanup_target option \<times> go_error option \<times> clone_world" where
  "found_clone uparse env jobID workerID op moref cw =
     (let target = cloneCleanupTargetFromOperation op moref in
      case stageCloneCleanupTarget uparse env jobID workerID target (cw_db cw) of
        (Some e, db') \<Rightarrow> (Some target, Some (recovery e (Some target)), cw\<lparr>cw_db := db'\<rparr>)
      | (None, db') \<Rightarrow>
          (case ce_validate env of
             Some e \<Rightarrow> (Some target, Some (recovery (classified
                 (Errorf ''clone operation resolved to VM whose placement validation failed'' [e])) (Some target)), cw\<lparr>cw_db := db'\<rparr>)
           | None \<Rightarrow> (Some target, None, cw\<lparr>cw_db := db'\<rparr>)))"

definition reconcileCloneOperationTargetForCleanup ::
  "(string \<Rightarrow> uuid option) \<Rightarrow> clone_env \<Rightarrow> uuid \<Rightarrow> string \<Rightarrow> clone_operation option \<Rightarrow> clone_world
     \<Rightarrow> cleanup_target option \<times> go_error option \<times> clone_world" where
  "reconcileCloneOperationTargetForCleanup uparse env jobID workerID mop cw =
     (case mop of
        None \<Rightarrow> (None, None, cw)
      | Some op \<Rightarrow>
          if co_Phase op = VMCloneOperationPrepared
          then
            (case with_outcome (case ce_abandon env of [] \<Rightarrow> WriteOk | oc # _ \<Rightarrow> oc)
                    (AbandonUnsubmittedVMCloneOperation None (ce_abandon_read env) jobID workerID (co_OperationID op)) (cw_db cw) of
               (Inl e, db') \<Rightarrow>
                 (None, Some (cloneRecoveryError (Errorf ''abandon prepared clone operation during cleanup'' [e]) None), cw\<lparr>cw_db := db'\<rparr>)
             | (Inr _, db') \<Rightarrow> (None, None, cw\<lparr>cw_db := db'\<rparr>))
          else if placement_missing op
          then (None, Some (Typed manualCleanupRequiredError
                 (errorsNew ''clone operation has no persisted host placement; automatic recovery is unsafe'')), cw)
          else
            let waited = (if co_TaskRef op = [] then Inr [] else ce_wait env);
                waitErr = (case waited of Inl e \<Rightarrow> Some e | Inr _ \<Rightarrow> None);
                moref = (case waited of Inl _ \<Rightarrow> [] | Inr m \<Rightarrow> m)
            in
            if moref \<noteq> [] then found_clone uparse env jobID workerID op moref cw
            else
              (case ce_find env of
                 (found, None) \<Rightarrow>
                   if found = [] then unresolved_clone env jobID workerID op waitErr cw
                   else found_clone uparse env jobID workerID op found cw
               | (found, Some e) \<Rightarrow>
                   if errorsIs e ErrAmbiguousVMOwnership then (None, Some (Typed manualCleanupRequiredError e), cw)
                   else
                     let target = cloneCleanupTargetFromOperation op found in
                     (case stageCloneCleanupTarget uparse env jobID workerID target (cw_db cw) of
                        (Some e', db') \<Rightarrow> (Some target, Some (recovery e' (Some target)), cw\<lparr>cw_db := db'\<rparr>)
                      | (None, db') \<Rightarrow> (Some target, Some (if isManualCleanupRequired (classified e) then classified e
                          else cloneRecoveryError (Errorf ''reconcile clone operation'' [classified e]) (Some target)), cw\<lparr>cw_db := db'\<rparr>))))"

section \<open>What holds in every reachable world\<close>

text \<open>
  No operation is submitted twice; a submitted operation is no longer merely prepared, and unless
  a disposing query has removed it the job still carries it.
\<close>

definition armed_life :: "string \<Rightarrow> clone_life \<Rightarrow> bool" where
  "armed_life i l \<longleftrightarrow> (\<exists>ph t. l = Cloning i ph t \<and> ph \<noteq> VMCloneOperationPrepared)"

definition clone_inv :: "clone_world \<Rightarrow> bool" where
  "clone_inv cw \<longleftrightarrow> queue_wf (cw_db cw) \<and> distinct (cw_submitted cw) \<and>
     (\<forall>(n, i) \<in> set (cw_submitted cw).
        (\<forall>t. clone_life_of (cw_db cw) n \<noteq> Cloning i VMCloneOperationPrepared t) \<and>
        (armed_life i (clone_life_of (cw_db cw) n) \<or> (n, i) \<in> cw_closed cw))"

lemma clone_invI:
  assumes "queue_wf (cw_db cw)" "distinct (cw_submitted cw)"
    and "\<And>n i t. (n, i) \<in> set (cw_submitted cw) \<Longrightarrow> clone_life_of (cw_db cw) n \<noteq> Cloning i VMCloneOperationPrepared t"
    and "\<And>n i. (n, i) \<in> set (cw_submitted cw) \<Longrightarrow> armed_life i (clone_life_of (cw_db cw) n) \<or> (n, i) \<in> cw_closed cw"
  shows "clone_inv cw"
  unfolding clone_inv_def using assms by blast

lemma clone_invD:
  assumes "clone_inv cw"
  shows "queue_wf (cw_db cw)" "distinct (cw_submitted cw)"
    "(n, i) \<in> set (cw_submitted cw) \<Longrightarrow> clone_life_of (cw_db cw) n \<noteq> Cloning i VMCloneOperationPrepared t"
    "(n, i) \<in> set (cw_submitted cw) \<Longrightarrow> armed_life i (clone_life_of (cw_db cw) n) \<or> (n, i) \<in> cw_closed cw"
  using assms by (auto simp: clone_inv_def)

lemma armed_life_simps [simp]:
  "armed_life i (Cloning j ph t) \<longleftrightarrow> i = j \<and> ph \<noteq> VMCloneOperationPrepared"
  "\<not> armed_life i NoClone" "\<not> armed_life i BrokenClone"
  by (auto simp: armed_life_def)

text \<open>
  A change of the database that keeps every life, or moves the life of one job whose present
  operation is not the submitted one.
\<close>

lemma clone_inv_same:
  assumes "clone_inv cw" "queue_wf db'" "clone_life_of db' = clone_life_of (cw_db cw)"
  shows "clone_inv (cw\<lparr>cw_db := db'\<rparr>)"
  using assms by (simp add: clone_inv_def)

lemma clone_inv_move:
  assumes inv: "clone_inv cw" and wf: "queue_wf db'"
    and other: "\<And>k. k \<noteq> n \<Longrightarrow> clone_life_of db' k = clone_life_of (cw_db cw) k"
    and moved: "\<And>i. (n, i) \<in> set (cw_submitted cw) \<Longrightarrow>
      (\<forall>t. clone_life_of db' n \<noteq> Cloning i VMCloneOperationPrepared t) \<and>
      (armed_life i (clone_life_of (cw_db cw) n) \<longrightarrow> armed_life i (clone_life_of db' n))"
  shows "clone_inv (cw\<lparr>cw_db := db'\<rparr>)"
proof (rule clone_invI)
  show "queue_wf (cw_db (cw\<lparr>cw_db := db'\<rparr>))" using wf by simp
  show "distinct (cw_submitted (cw\<lparr>cw_db := db'\<rparr>))" using clone_invD(2) [OF inv] by simp
next
  fix k i t assume "(k, i) \<in> set (cw_submitted (cw\<lparr>cw_db := db'\<rparr>))"
  then have k: "(k, i) \<in> set (cw_submitted cw)" by simp
  then show "clone_life_of (cw_db (cw\<lparr>cw_db := db'\<rparr>)) k \<noteq> Cloning i VMCloneOperationPrepared t"
    using moved other [of k] clone_invD(3) [OF inv k] by (cases "k = n") auto
next
  fix k i assume "(k, i) \<in> set (cw_submitted (cw\<lparr>cw_db := db'\<rparr>))"
  then have k: "(k, i) \<in> set (cw_submitted cw)" by simp
  then show "armed_life i (clone_life_of (cw_db (cw\<lparr>cw_db := db'\<rparr>)) k) \<or> (k, i) \<in> cw_closed (cw\<lparr>cw_db := db'\<rparr>)"
    using moved other [of k] clone_invD(4) [OF inv k] by (cases "k = n") auto
qed

lemma lives_step_one:
  assumes "lives_step f f'"
  obtains n where "life_step (f n) (f' n)" "\<And>k. k \<noteq> n \<Longrightarrow> f' k = f k"
  using assms unfolding lives_step_def by blast

text \<open>The four writes of the protocol.\<close>

lemma inv_Stage:
  assumes "clone_inv cw"
  shows "clone_inv (cw\<lparr>cw_db := snd (StageVMCloneCleanup flt flt2 n w target (cw_db cw))\<rparr>)"
  by (rule clone_inv_same [OF assms wf_Stage [OF clone_invD(1) [OF assms]] entries_same [OF entry_Stage]])

lemma Arm_life:
  assumes "queue_wf db" "ArmVMCloneOperation None n w opID db = (Inr u, db')"
  obtains t where "clone_life_of db n = Cloning opID VMCloneOperationPrepared t"
    "clone_life_of db' n = Cloning opID VMCloneOperationSubmitting t"
    "\<And>k. k \<noteq> n \<Longrightarrow> clone_life_of db' k = clone_life_of db k"
proof -
  from assms(2) have "exec_owned (armable n w opID) (\<lambda>j. j\<lparr>j_Payload := armed_payload (j_Payload j)\<rparr>)
      ''job cannot arm clone operation'' db = Inr (u, db')"
    unfolding ArmVMCloneOperation_def by (blast dest: run_tx_InrD)
  from exec_entry [OF assms(1) this armed_owner [of n w opID]] obtain j where j: "GetJob n db = Some j" "armable n w opID j"
    "\<And>i. clone_entry i db' = (if i = n then pget (armed_payload (j_Payload j)) ''clone_operation'' else clone_entry i db)"
    by blast
  from life_armed [OF j(2)] obtain t
    where "life_of (pget (j_Payload j) ''clone_operation'') = Cloning opID VMCloneOperationPrepared t"
      "life_of (pget (armed_payload (j_Payload j)) ''clone_operation'') = Cloning opID VMCloneOperationSubmitting t" by blast
  with j(1,3) show ?thesis by (intro that [of t]) (simp_all add: clone_life_of_def clone_entry_def)
qed

lemma inv_Arm:
  assumes inv: "clone_inv cw" and ok: "ArmVMCloneOperation None n w opID (cw_db cw) = (Inr u, db')"
  shows "(n, opID) \<notin> set (cw_submitted cw)" "clone_inv (cw\<lparr>cw_db := db'\<rparr>)"
    "clone_inv (cw\<lparr>cw_db := db', cw_submitted := (n, opID) # cw_submitted cw\<rparr>)"
proof -
  from Arm_life [OF clone_invD(1) [OF inv] ok] obtain t
    where l: "clone_life_of (cw_db cw) n = Cloning opID VMCloneOperationPrepared t"
      "clone_life_of db' n = Cloning opID VMCloneOperationSubmitting t"
      "\<And>k. k \<noteq> n \<Longrightarrow> clone_life_of db' k = clone_life_of (cw_db cw) k" by blast
  show new: "(n, opID) \<notin> set (cw_submitted cw)" using clone_invD(3) [OF inv] l(1) by blast
  have wf: "queue_wf db'" using clone_step_wf [OF clone_step.arm clone_invD(1) [OF inv], of None n w opID] ok by simp
  show inv': "clone_inv (cw\<lparr>cw_db := db'\<rparr>)" by (rule clone_inv_move [OF inv wf l(3)]) (auto simp: l)
  show "clone_inv (cw\<lparr>cw_db := db', cw_submitted := (n, opID) # cw_submitted cw\<rparr>)"
  proof (rule clone_invI)
    show "distinct (cw_submitted (cw\<lparr>cw_db := db', cw_submitted := (n, opID) # cw_submitted cw\<rparr>))"
      using new clone_invD(2) [OF inv] by simp
  next
    fix k i s assume "(k, i) \<in> set (cw_submitted (cw\<lparr>cw_db := db', cw_submitted := (n, opID) # cw_submitted cw\<rparr>))"
    then have "(k, i) = (n, opID) \<or> (k, i) \<in> set (cw_submitted cw)" by auto
    then show "clone_life_of (cw_db (cw\<lparr>cw_db := db', cw_submitted := (n, opID) # cw_submitted cw\<rparr>)) k \<noteq>
        Cloning i VMCloneOperationPrepared s"
      using clone_invD(3) [OF inv', of k i s] l(2) by auto
  next
    fix k i assume "(k, i) \<in> set (cw_submitted (cw\<lparr>cw_db := db', cw_submitted := (n, opID) # cw_submitted cw\<rparr>))"
    then have "(k, i) = (n, opID) \<or> (k, i) \<in> set (cw_submitted cw)" by auto
    then show "armed_life i (clone_life_of (cw_db (cw\<lparr>cw_db := db', cw_submitted := (n, opID) # cw_submitted cw\<rparr>)) k) \<or>
        (k, i) \<in> cw_closed (cw\<lparr>cw_db := db', cw_submitted := (n, opID) # cw_submitted cw\<rparr>)"
      using clone_invD(4) [OF inv', of k i] l(2) by auto
  qed (use wf in simp)
qed

lemma inv_Abandon:
  assumes inv: "clone_inv cw" and new: "(n, opID) \<notin> set (cw_submitted cw)"
  shows "clone_inv (cw\<lparr>cw_db := snd (AbandonUnsubmittedVMCloneOperation flt flt2 n w opID (cw_db cw))\<rparr>)"
    (is "clone_inv (cw\<lparr>cw_db := ?db'\<rparr>)")
proof -
  note wf = wf_Abandon [OF clone_invD(1) [OF inv], of flt flt2 n w opID]
  show ?thesis
  proof (cases "clone_life_of ?db' = clone_life_of (cw_db cw)")
    case True
    then show ?thesis by (rule clone_inv_same [OF inv wf])
  next
    case False
    with Abandon_life [OF clone_invD(1) [OF inv] refl, of flt flt2 n w opID] obtain ph
      where l: "clone_life_of (cw_db cw) n = Cloning opID ph []" "clone_life_of ?db' n = NoClone"
        and other: "\<forall>k. k \<noteq> n \<longrightarrow> clone_life_of ?db' k = clone_life_of (cw_db cw) k" by blast
    show ?thesis
    proof (rule clone_inv_move [OF inv wf])
      show "clone_life_of ?db' k = clone_life_of (cw_db cw) k" if "k \<noteq> n" for k using other that by blast
      show "(\<forall>t. clone_life_of ?db' n \<noteq> Cloning i VMCloneOperationPrepared t) \<and>
          (armed_life i (clone_life_of (cw_db cw) n) \<longrightarrow> armed_life i (clone_life_of ?db' n))"
        if "(n, i) \<in> set (cw_submitted cw)" for i
        using that new l by auto
    qed
  qed
qed

lemma Persist_life:
  assumes "queue_wf db" "PersistVMCloneTask flt n w opID t' db = (Inr u, db')"
  obtains ph t where "clone_life_of db n = Cloning opID ph t" "t = [] \<or> t = t'"
    "clone_life_of db' n = Cloning opID VMCloneOperationSubmitted t'"
    "\<And>k. k \<noteq> n \<Longrightarrow> clone_life_of db' k = clone_life_of db k"
proof -
  from assms(2) have ex: "exec_owned (task_recordable n w opID t') (\<lambda>j. j\<lparr>j_Payload := submitted_payload t' (j_Payload j)\<rparr>)
      ''job cannot persist task for operation'' db = Inr (u, db')"
    unfolding PersistVMCloneTask_def by (blast dest: run_tx_InrD)
  have own: "j_ID r = n" if "task_recordable n w opID t' r" for r using that by (simp add: task_recordable_def ownedBy_def)
  from exec_entry [OF assms(1) ex own] obtain j where j: "GetJob n db = Some j" "task_recordable n w opID t' j"
    "\<And>i. clone_entry i db' = (if i = n then pget (submitted_payload t' (j_Payload j)) ''clone_operation'' else clone_entry i db)"
    by blast
  from life_submitted [OF j(2)] obtain ph t
    where "life_of (pget (j_Payload j) ''clone_operation'') = Cloning opID ph t" "t = [] \<or> t = t'"
      "life_of (pget (submitted_payload t' (j_Payload j)) ''clone_operation'') = Cloning opID VMCloneOperationSubmitted t'" by blast
  with j(1,3) show ?thesis by (intro that [of ph t]) (simp_all add: clone_life_of_def clone_entry_def)
qed

lemma inv_Persist:
  assumes inv: "clone_inv cw"
  shows "clone_inv (cw\<lparr>cw_db := snd (PersistVMCloneTask flt n w opID t' (cw_db cw))\<rparr>)"
proof (cases "PersistVMCloneTask flt n w opID t' (cw_db cw)")
  case (Pair res db')
  show ?thesis
  proof (cases res)
    case (Inl e)
    with Pair have "db' = cw_db cw" unfolding PersistVMCloneTask_def by (auto dest: run_tx_atomic)
    with Pair inv show ?thesis by simp
  next
    case (Inr u)
    with Pair have ok: "PersistVMCloneTask flt n w opID t' (cw_db cw) = (Inr u, db')" by simp
    from Persist_life [OF clone_invD(1) [OF inv] ok] obtain ph t
      where l: "clone_life_of (cw_db cw) n = Cloning opID ph t" "clone_life_of db' n = Cloning opID VMCloneOperationSubmitted t'"
        "\<And>k. k \<noteq> n \<Longrightarrow> clone_life_of db' k = clone_life_of (cw_db cw) k" by blast
    have "queue_wf db'" using clone_step_wf [OF clone_step.submitted clone_invD(1) [OF inv], of flt n w opID t'] ok by simp
    from clone_inv_move [OF inv this l(3)] show ?thesis using ok by (auto simp: l)
  qed
qed

lemma inv_put:
  assumes inv: "clone_inv cw" and wf: "queue_wf db'" and j: "GetJob n (cw_db cw) = Some j" "db' = put_op n op j (cw_db cw)"
    and moved: "\<And>i. (n, i) \<in> set (cw_submitted cw) \<Longrightarrow> i \<noteq> co_OperationID op \<and> \<not> armed_life i (clone_life_of (cw_db cw) n)"
  shows "clone_inv (cw\<lparr>cw_db := db'\<rparr>)"
proof (rule clone_inv_move [OF inv wf])
  show "clone_life_of db' k = clone_life_of (cw_db cw) k" if "k \<noteq> n" for k
    using that unfolding j(2) clone_life_of_def put_op_entry [OF j(1)] by simp
  show "(\<forall>t. clone_life_of db' n \<noteq> Cloning i VMCloneOperationPrepared t) \<and>
      (armed_life i (clone_life_of (cw_db cw) n) \<longrightarrow> armed_life i (clone_life_of db' n))"
    if "(n, i) \<in> set (cw_submitted cw)" for i
    using moved [OF that] unfolding j(2) clone_life_of_def put_op_entry [OF j(1)] by auto
qed

lemma inv_Prepare:
  assumes inv: "clone_inv cw" and c: "co_Phase cand = VMCloneOperationPrepared" "co_TaskRef cand = []"
    and fresh: "co_OperationID cand \<notin> snd ` set (cw_submitted cw)"
  shows "clone_inv (cw\<lparr>cw_db := snd (PrepareVMCloneOperation up flt now n w cand (cw_db cw))\<rparr>)"
proof -
  let ?db = "cw_db cw" and ?c = "prepared_candidate now cand"
  let ?db' = "snd (PrepareVMCloneOperation up flt now n w cand ?db)"
  note wf = prepare_wf [OF clone_invD(1) [OF inv], of up flt now n w cand]
  have c': "co_Phase ?c = VMCloneOperationPrepared" "co_TaskRef ?c = []" "co_OperationID ?c = co_OperationID cand"
    using c by (simp_all add: prepared_candidate_def)
  have "?db' = ?db \<or> (\<exists>op. prepare_op_tx up n w ?c ?db = Inr (op, ?db'))"
    using run_tx_snd_cases [of flt "prepare_op_tx up n w ?c" ?db]
    by (cases "validateVMCloneOperation up ?c") (auto simp: PrepareVMCloneOperation_def)
  then show ?thesis
  proof (elim disjE exE)
    assume "?db' = ?db"
    with inv show ?thesis by simp
  next
    fix op assume "prepare_op_tx up n w ?c ?db = Inr (op, ?db')"
    from prepare_op_cases [OF clone_invD(1) [OF inv] this c'(1,2)] show ?thesis
    proof (elim disjE exE conjE)
      assume "?db' = ?db"
      with inv show ?thesis by simp
    next
      fix j assume j: "GetJob n ?db = Some j" "?db' = put_op n ?c j ?db" and l: "clone_life_of ?db n = NoClone"
      show ?thesis by (rule inv_put [OF inv wf j]) (use fresh l c' in \<open>auto simp: image_iff\<close>)
    next
      fix j i t assume j: "GetJob n ?db = Some j" "?db' = put_op n ?c j ?db"
        and l: "clone_life_of ?db n = Cloning i VMCloneOperationPrepared t"
      show ?thesis by (rule inv_put [OF inv wf j]) (use fresh l c' in \<open>auto simp: image_iff\<close>)
    qed
  qed
qed

text \<open>Writes whose answer may be lost and writes that are retried keep what the write keeps.\<close>

lemma outcome_keeps:
  assumes "I (snd (write db))" "I db"
  shows "I (snd (with_outcome oc write db))"
  using assms by (cases oc) (simp_all add: with_outcome_def)

lemma persist_keeps:
  assumes keep: "\<And>d. I d \<Longrightarrow> I (snd (write d))"
  shows "I db \<Longrightarrow> I (snd (persistCloneOperationWrite write ocs db))"
proof (induction ocs arbitrary: db)
  case Nil
  then show ?case by simp
next
  case (Cons oc ocs)
  have one: "I (snd (with_outcome oc write db))" using outcome_keeps [where I = I and db = db and oc = oc] keep Cons.prems by blast
  then show ?case using Cons.IH by (auto split: prod.splits sum.splits)
qed

lemma inv_stage_target:
  assumes "clone_inv cw"
  shows "clone_inv (cw\<lparr>cw_db := snd (stageCloneCleanupTarget up env n w target (cw_db cw))\<rparr>)"
proof -
  let ?I = "\<lambda>d. clone_inv (cw\<lparr>cw_db := d\<rparr>)"
  let ?st = "StageVMCloneCleanup None (ce_stage_read env) n w (encode_cleanup_target target)"
  have "?I (snd (persistCloneOperationWrite ?st (ce_stage env) (cw_db cw)))"
  proof (rule persist_keeps)
    show "?I (snd (?st d))" if "?I d" for d using inv_Stage [OF that] by simp
  qed (use assms in simp)
  then show ?thesis using assms
    unfolding stageCloneCleanupTarget_def by (auto split: option.splits prod.splits sum.splits)
qed

lemma inv_staged:
  assumes "clone_inv cw" "stageCloneCleanupTarget up env n w target (cw_db cw) = (r, db')"
  shows "clone_inv (cw\<lparr>cw_db := db'\<rparr>)"
  using inv_stage_target [OF assms(1), of up env n w target] assms(2) by simp

lemma inv_configure:
  assumes "clone_inv cw"
  shows "clone_inv (snd (snd (stageAndConfigureClone up env n w target moref cw)))"
  using inv_stage_target [OF assms, of up env n w target]
  unfolding stageAndConfigureClone_def by (auto split: prod.splits option.splits)

lemma inv_Arm_any:
  assumes "clone_inv cw"
  shows "clone_inv (cw\<lparr>cw_db := snd (ArmVMCloneOperation None n w opID (cw_db cw))\<rparr>)"
proof (cases "ArmVMCloneOperation None n w opID (cw_db cw)")
  case (Pair res db')
  show ?thesis
  proof (cases res)
    case (Inl e)
    with Pair have "db' = cw_db cw" unfolding ArmVMCloneOperation_def by (auto dest: run_tx_atomic)
    with Pair assms show ?thesis by simp
  next
    case (Inr u)
    with Pair show ?thesis using inv_Arm(2) [OF assms] by simp
  qed
qed

lemma inv_Start:
  assumes inv: "clone_inv cw" and start: "StartCloneVMOperation env params n w opID cw = (r, armed, cw1)"
  shows "clone_inv cw1" "\<not> armed \<Longrightarrow> cw_submitted cw1 = cw_submitted cw"
proof -
  have lost: "clone_inv (cw\<lparr>cw_db := snd (with_outcome (ce_arm env) (ArmVMCloneOperation None n w opID) (cw_db cw))\<rparr>)"
    by (rule outcome_keeps [where I = "\<lambda>d. clone_inv (cw\<lparr>cw_db := d\<rparr>)"]) (use inv inv_Arm_any in simp_all)
  have ok: "ArmVMCloneOperation None n w opID (cw_db cw) = (Inr u, db')"
    if "with_outcome (ce_arm env) (ArmVMCloneOperation None n w opID) (cw_db cw) = (Inr u, db')" for u db'
    using that by (cases "ce_arm env") (simp_all add: with_outcome_def)
  show "clone_inv cw1" using start lost inv inv_Arm(3) [OF inv ok]
    unfolding StartCloneVMOperation_def by (auto split: option.splits if_splits prod.splits sum.splits)
  show "cw_submitted cw1 = cw_submitted cw" if "\<not> armed" using start that
    unfolding StartCloneVMOperation_def by (auto split: option.splits if_splits prod.splits sum.splits)
qed

lemma inv_submit:
  assumes inv: "clone_inv cw" and new: "(n, opID) \<notin> set (cw_submitted cw)"
  shows "clone_inv (snd (submit_clone env params n w opID cw))"
proof (cases "StartCloneVMOperation env params n w opID cw")
  case (fields r armed cw1)
  note s = inv_Start [OF inv fields]
  let ?I = "\<lambda>d. clone_inv (cw1\<lparr>cw_db := d\<rparr>)"
  let ?abandon = "AbandonUnsubmittedVMCloneOperation None (ce_abandon_read env) n w opID"
  have i1: "?I (cw_db cw1)" using s(1) by simp
  have ab: "?I (snd (persistCloneOperationWrite ?abandon (ce_abandon env) (cw_db cw1)))" if "\<not> armed"
  proof (rule persist_keeps [where I = ?I, OF _ i1])
    show "?I (snd (?abandon d))" if "?I d" for d
      using inv_Abandon [OF that, of n opID] new s(2) [OF \<open>\<not> armed\<close>] by simp
  qed
  have task: "?I (snd (persistCloneOperationWrite (PersistVMCloneTask None n w opID t) (ce_task env) (cw_db cw1)))" for t
  proof (rule persist_keeps [where I = ?I, OF _ i1])
    show "?I (snd (PersistVMCloneTask None n w opID t d))" if "?I d" for d using inv_Persist [OF that] by simp
  qed
  have task': "?I db'" if "persistCloneOperationWrite (PersistVMCloneTask None n w opID t) (ce_task env) (cw_db cw1) = (x, db')" for t x db'
    using task [of t] that by simp
  show ?thesis using s(1) ab fields
    unfolding submit_clone_def by (auto split: sum.splits prod.splits intro: task')
qed

lemma inv_await:
  assumes "clone_inv cw"
  shows "clone_inv (snd (snd (await_clone up ustr env n w podID podVMID params cw)))"
  using assms inv_configure [OF assms] unfolding await_clone_def by (auto split: sum.splits option.splits)

lemma inv_resolve:
  assumes "clone_inv cw"
  shows "clone_inv (snd (snd (resolve_submitting up ustr env n w podID podVMID params cw)))"
  using assms inv_configure [OF assms]
  unfolding resolve_submitting_def by (auto split: prod.splits option.splits intro: inv_staged [OF assms])

lemma inv_run:
  assumes inv: "clone_inv cw"
    and life: "clone_life_of (cw_db cw) n = Cloning (co_OperationID op) (co_Phase op) (co_TaskRef op)"
  shows "clone_inv (snd (snd (run_operation up ustr env n w podID podVMID op params cw)))"
proof (cases "co_Phase op = VMCloneOperationPrepared")
  case True
  have "(n, co_OperationID op) \<notin> set (cw_submitted cw)" using clone_invD(3) [OF inv] life True by auto
  then have "clone_inv (snd (submit_clone env params n w (co_OperationID op) cw))" by (rule inv_submit [OF inv])
  then show ?thesis using True inv_await unfolding run_operation_def by (auto split: prod.splits sum.splits)
next
  case False
  then show ?thesis using inv inv_await [OF inv] inv_resolve [OF inv] unfolding run_operation_def by auto
qed

text \<open>What a claim loads or prepares is what its row carries.\<close>

lemma loaded_life:
  assumes wf: "queue_wf db" and get: "GetVMCloneOperation up flt n w db = Inr (Some op)"
  shows "clone_life_of db n = Cloning (co_OperationID op) (co_Phase op) (co_TaskRef op)"
proof -
  from get obtain j raw where j: "find (clone_owner n w) (db_jobs db) = Some j"
      "pget (j_Payload j) ''clone_operation'' = Some raw" "decode_op raw = Inr op" "validateVMCloneOperation up op = None"
    unfolding GetVMCloneOperation_def by (auto split: option.splits sum.splits if_splits)
  have "validateVMCloneOperationScope up op = None" by (rule valid_opD(1) [OF j(4)])
  then have "co_Phase op \<noteq> []" unfolding validateVMCloneOperationScope_def by (rule contrapos_pn) simp
  with life_decoded [OF j(3)] owned_found [OF wf j(1)] j(2) show ?thesis
    by (simp add: clone_life_of_def clone_entry_def)
qed

lemma prepared_life:
  assumes wf: "queue_wf db" and p: "PrepareVMCloneOperation up flt now n w cand db = (Inr op, db')"
  shows "clone_life_of db' n = Cloning (co_OperationID op) (co_Phase op) (co_TaskRef op)"
proof -
  let ?c = "prepared_candidate now cand"
  from p have v: "validateVMCloneOperation up ?c = None" and tx: "prepare_op_tx up n w ?c db = Inr (op, db')"
    unfolding PrepareVMCloneOperation_def by (auto split: option.splits dest: run_tx_InrD)
  from wf tx obtain j raw where j: "find (clone_owner n w) (db_jobs db') = Some j"
    "pget (j_Payload j) ''clone_operation'' = Some raw" "decode_op raw = Inr op" by (rule prepare_result)
  have wf': "queue_wf db'" using prepare_wf [OF wf, of up flt now n w cand] p by simp
  have "validateVMCloneOperationScope up op = None"
    using tx valid_opD(1) [OF v] unfolding prepare_op_tx_def by (auto split: option.splits sum.splits if_splits)
  then have "co_Phase op \<noteq> []" unfolding validateVMCloneOperationScope_def by (rule contrapos_pn) simp
  with life_decoded [OF j(3)] owned_found [OF wf' j(1)] j(2) show ?thesis
    by (simp add: clone_life_of_def clone_entry_def)
qed

lemma inv_load:
  assumes inv: "clone_inv cw" and fresh: "ce_newID env \<notin> snd ` set (cw_submitted cw)"
    and load: "load_or_prepare up ustr env n w podID podVMID params (cw_db cw) = (r, db')"
  shows "clone_inv (cw\<lparr>cw_db := db'\<rparr>)"
    "r = Inr (op, params') \<Longrightarrow> clone_life_of db' n = Cloning (co_OperationID op) (co_Phase op) (co_TaskRef op)"
proof -
  note wf = clone_invD(1) [OF inv]
  let ?new = "\<lambda>p. new_operation ustr env podID podVMID p"
  have prep: "clone_inv (cw\<lparr>cw_db := snd (PrepareVMCloneOperation up (ce_prepare env) (ce_now env) n w (?new p) (cw_db cw))\<rparr>)" for p
    by (rule inv_Prepare [OF inv]) (use fresh in \<open>simp_all add: new_operation_def\<close>)
  show "clone_inv (cw\<lparr>cw_db := db'\<rparr>)"
    using load inv prep unfolding load_or_prepare_def
    by (auto split: sum.splits option.splits prod.splits) (metis snd_conv)+
  show "clone_life_of db' n = Cloning (co_OperationID op) (co_Phase op) (co_TaskRef op)" if "r = Inr (op, params')"
    using load that loaded_life [OF wf] prepared_life [OF wf] unfolding load_or_prepare_def
    by (auto split: sum.splits option.splits prod.splits)
qed

lemma inv_attempt:
  assumes inv: "clone_inv cw" and fresh: "ce_newID env \<notin> snd ` set (cw_submitted cw)"
  shows "clone_inv (snd (snd (executeDurableVMClone up ustr env n w podID podVMID params cw)))"
proof (cases "load_or_prepare up ustr env n w podID podVMID params (cw_db cw)")
  case (Pair r db')
  note l = inv_load [OF inv fresh Pair]
  show ?thesis
  proof (cases r)
    case (Inl e)
    then show ?thesis using inv l(1) Pair unfolding executeDurableVMClone_def by simp
  next
    case (Inr x)
    then obtain op params' where r: "r = Inr (op, params')" by (cases x) simp
    have "clone_inv (snd (snd (run_operation up ustr env n w podID podVMID op q (cw\<lparr>cw_db := db'\<rparr>))))" for q
      by (rule inv_run [OF l(1)]) (use l(2) [OF r] in simp)
    then show ?thesis using inv l(1) Pair r unfolding executeDurableVMClone_def by (simp add: Let_def)
  qed
qed

section \<open>Reconciling and disposing\<close>

lemma inv_complete:
  assumes inv: "clone_inv cw" and ok: "CompleteVMCloneOperationWithoutResource flt n w opID (cw_db cw) = (Inr u, db')"
  shows "clone_inv (cw\<lparr>cw_db := db', cw_closed := insert (n, opID) (cw_closed cw)\<rparr>)"
proof -
  let ?db = "cw_db cw"
  from ok obtain j raw ex where f: "find (ownedBy n w) (db_jobs ?db) = Some j"
      and raw: "pget (j_Payload j) ''clone_operation'' = Some raw" "decode_op raw = Inr ex" "co_OperationID ex = opID"
      and db': "db' = ?db\<lparr>db_jobs := sql_update (\<lambda>r. j_ID r = n) (\<lambda>r. r\<lparr>j_Payload := closed_payload (j_Payload j)\<rparr>) (db_jobs ?db)\<rparr>"
    unfolding CompleteVMCloneOperationWithoutResource_def
    by (auto dest!: run_tx_InrD split: option.splits sum.splits if_splits)
  have j: "GetJob n ?db = Some j" using owned_found [OF clone_invD(1) [OF inv], of n w "\<lambda>_. True" j] f by simp
  have ent: "clone_entry k db' = (if k = n then None else clone_entry k ?db)" for k
    unfolding db' using entry_update [of "\<lambda>r. j_ID r = n" n ?db j k "\<lambda>_. closed_payload (j_Payload j)"] j GetJob_id [OF j]
    by (simp add: closed_payload_def Let_def)
  have life: "clone_life_of db' k = (if k = n then NoClone else clone_life_of ?db k)" for k
    unfolding clone_life_of_def ent by (simp add: life_of_def)
  have own: "i = opID" if "armed_life i (clone_life_of ?db n)" for i
    using that raw j by (auto simp: clone_life_of_def clone_entry_def life_of_def decode_op_def jobject_def split: json.splits if_splits)
  show ?thesis
  proof (rule clone_invI)
    show "queue_wf (cw_db (cw\<lparr>cw_db := db', cw_closed := insert (n, opID) (cw_closed cw)\<rparr>))"
      using queue_wf_payload [OF clone_invD(1) [OF inv]] by (simp add: db')
    show "distinct (cw_submitted (cw\<lparr>cw_db := db', cw_closed := insert (n, opID) (cw_closed cw)\<rparr>))"
      using clone_invD(2) [OF inv] by simp
  next
    fix k i t assume "(k, i) \<in> set (cw_submitted (cw\<lparr>cw_db := db', cw_closed := insert (n, opID) (cw_closed cw)\<rparr>))"
    then show "clone_life_of (cw_db (cw\<lparr>cw_db := db', cw_closed := insert (n, opID) (cw_closed cw)\<rparr>)) k \<noteq> Cloning i VMCloneOperationPrepared t"
      using clone_invD(3) [OF inv, of k i t] by (simp add: life)
  next
    fix k i assume "(k, i) \<in> set (cw_submitted (cw\<lparr>cw_db := db', cw_closed := insert (n, opID) (cw_closed cw)\<rparr>))"
    then have "armed_life i (clone_life_of ?db k) \<or> (k, i) \<in> cw_closed cw" using clone_invD(4) [OF inv, of k i] by simp
    then show "armed_life i (clone_life_of (cw_db (cw\<lparr>cw_db := db', cw_closed := insert (n, opID) (cw_closed cw)\<rparr>)) k) \<or>
        (k, i) \<in> cw_closed (cw\<lparr>cw_db := db', cw_closed := insert (n, opID) (cw_closed cw)\<rparr>)"
      using own by (auto simp: life)
  qed
qed

lemma inv_unresolved:
  assumes "clone_inv cw"
  shows "clone_inv (snd (snd (unresolved_clone env n w op waitErr cw)))"
proof -
  have fail: "db' = cw_db cw" if "CompleteVMCloneOperationWithoutResource (ce_complete env) n w i (cw_db cw) = (Inl e, db')" for i e db'
    using that unfolding CompleteVMCloneOperationWithoutResource_def by (rule run_tx_atomic)
  then have "clone_inv (cw\<lparr>cw_db := db'\<rparr>)"
    if "CompleteVMCloneOperationWithoutResource (ce_complete env) n w i (cw_db cw) = (Inl e, db')" for i e db'
    using that assms by (metis clone_inv_same clone_invD(1))
  then show ?thesis using assms inv_complete [OF assms]
    unfolding unresolved_clone_def by (auto split: if_splits prod.splits sum.splits option.splits)
qed

lemma inv_found:
  assumes "clone_inv cw"
  shows "clone_inv (snd (snd (found_clone up env n w op moref cw)))"
  unfolding found_clone_def by (auto simp: Let_def split: prod.splits option.splits intro: inv_staged [OF assms])

lemma inv_reconcile:
  assumes inv: "clone_inv cw" and get: "GetVMCloneOperation up flt n w (cw_db cw) = Inr mop"
  shows "clone_inv (snd (snd (reconcileCloneOperationTargetForCleanup up env n w mop cw)))"
proof (cases mop)
  case None
  with inv show ?thesis by (simp add: reconcileCloneOperationTargetForCleanup_def)
next
  case (Some op)
  show ?thesis
  proof (cases "co_Phase op = VMCloneOperationPrepared")
    case True
    have "(n, co_OperationID op) \<notin> set (cw_submitted cw)"
      using clone_invD(3) [OF inv] loaded_life [OF clone_invD(1) [OF inv] get [unfolded Some]] True by auto
    from inv_Abandon [OF inv this]
    have ab: "clone_inv (cw\<lparr>cw_db := snd (with_outcome oc (AbandonUnsubmittedVMCloneOperation None f2 n w (co_OperationID op)) (cw_db cw))\<rparr>)"
      for oc f2 using inv by (intro outcome_keeps [where I = "\<lambda>d. clone_inv (cw\<lparr>cw_db := d\<rparr>)"]) simp_all
    obtain x db' where w: "with_outcome (case ce_abandon env of [] \<Rightarrow> WriteOk | oc # _ \<Rightarrow> oc)
        (AbandonUnsubmittedVMCloneOperation None (ce_abandon_read env) n w (co_OperationID op)) (cw_db cw) = (x, db')" by force
    then have "clone_inv (cw\<lparr>cw_db := db'\<rparr>)" using ab by (metis snd_conv)
    then show ?thesis using Some True w
      by (cases x) (simp_all add: reconcileCloneOperationTargetForCleanup_def)
  next
    case False
    show ?thesis using Some False inv inv_found [OF inv] inv_unresolved [OF inv]
      unfolding reconcileCloneOperationTargetForCleanup_def
      by (auto simp: Let_def split: prod.splits option.splits intro: inv_staged [OF inv])
  qed
qed

text \<open>A disposing query leaves the operation of a job alone or removes it.\<close>

lemma complete_payload_entry:
  assumes "completeVMCloneDestructionPayload up p raw = Inr (p', b)"
  shows "pget p' ''clone_operation'' = pget p ''clone_operation'' \<or> pget p' ''clone_operation'' = None"
proof -
  have kr: "pget (keep_remaining rest q) ''clone_operation'' = pget q ''clone_operation''" for rest q
    by (simp add: keep_remaining_def Let_def split: list.splits)
  have wt: "pget q' ''clone_operation'' = pget q ''clone_operation''" if "without_target t q = Inr q'" for t q q'
    using that by (auto simp: without_target_def split: option.splits sum.splits if_splits)
  have wo: "pget q' ''clone_operation'' = pget q ''clone_operation'' \<or> pget q' ''clone_operation'' = None"
    if "without_operation_of t q = Inr q'" for t q q'
    using that by (auto simp: without_operation_of_def split: option.splits sum.splits if_splits)
  from assms show ?thesis
    unfolding completeVMCloneDestructionPayload_def
    by (auto simp: Let_def kr split: sum.splits if_splits dest!: wt dest: wo)
qed

lemma close_update:
  assumes "\<And>r. r \<in> set (db_jobs db) \<Longrightarrow> P r \<Longrightarrow> pget (g r) ''clone_operation'' = pget (j_Payload r) ''clone_operation'' \<or> pget (g r) ''clone_operation'' = None"
  shows "clone_entry i (db\<lparr>db_jobs := sql_update P (\<lambda>r. r\<lparr>j_Payload := g r\<rparr>) (db_jobs db)\<rparr>) \<in> {clone_entry i db, None}"
proof (cases "GetJob i db")
  case None
  then show ?thesis by (simp add: clone_entry_def GetJob_update)
next
  case (Some r)
  then show ?thesis using assms [of r] GetJob_id [OF Some] by (auto simp: clone_entry_def GetJob_update)
qed

lemma close_tx:
  assumes "queue_wf db" "\<And>x db'. body db = Inr (x, db') \<Longrightarrow> queue_wf db' \<and> (\<forall>i. clone_entry i db' \<in> {clone_entry i db, None})"
  shows "queue_wf (snd (run_tx flt body db)) \<and> (\<forall>i. clone_entry i (snd (run_tx flt body db)) \<in> {clone_entry i db, None})"
  by (rule run_tx_preserves [where I = "\<lambda>d. queue_wf d \<and> (\<forall>i. clone_entry i d \<in> {clone_entry i db, None})"])
     (use assms in auto)

lemma close_exec:
  assumes "queue_wf db" "\<And>r. pget (g r) ''clone_operation'' = None"
  shows "queue_wf (snd (run_tx flt (exec_owned P (\<lambda>r. r\<lparr>j_Payload := g r\<rparr>) msg) db)) \<and>
    (\<forall>i. clone_entry i (snd (run_tx flt (exec_owned P (\<lambda>r. r\<lparr>j_Payload := g r\<rparr>) msg) db)) \<in> {clone_entry i db, None})"
proof (rule close_tx [OF assms(1)])
  fix x db' assume "exec_owned P (\<lambda>r. r\<lparr>j_Payload := g r\<rparr>) msg db = Inr (x, db')"
  then have "db' = db\<lparr>db_jobs := sql_update P (\<lambda>r. r\<lparr>j_Payload := g r\<rparr>) (db_jobs db)\<rparr>" by (blast dest: exec_owned_InrD)
  then show "queue_wf db' \<and> (\<forall>i. clone_entry i db' \<in> {clone_entry i db, None})"
    using close_update [of db P g] queue_wf_payload [OF assms(1)] assms(2) by simp
qed

lemma clone_close_entries:
  assumes "clone_close db db'" "queue_wf db"
  shows "queue_wf db' \<and> (\<forall>i. clone_entry i db' \<in> {clone_entry i db, None})"
  using assms
proof (induction rule: clone_close.induct)
  case (without_resource db flt n w opID)
  show ?case unfolding CompleteVMCloneOperationWithoutResource_def
  proof (rule close_tx [OF without_resource], goal_cases)
    case (1 x db')
    then obtain j where "find (ownedBy n w) (db_jobs db) = Some j"
      and db': "db' = db\<lparr>db_jobs := sql_update (\<lambda>r. j_ID r = n) (\<lambda>r. r\<lparr>j_Payload := closed_payload (j_Payload j)\<rparr>) (db_jobs db)\<rparr>"
      by (auto split: option.splits sum.splits if_splits)
    have none: "pget (closed_payload p) ''clone_operation'' = None" for p by (simp add: closed_payload_def Let_def)
    show ?case unfolding db'
      using close_update [of db "\<lambda>r. j_ID r = n" "\<lambda>_. closed_payload (j_Payload j)"] queue_wf_payload [OF without_resource] none by simp
  qed
next
  case (disarm db ustr flt n w podVMID vmID)
  then show ?case unfolding DisarmVMCloneCleanup_def by (intro close_exec) simp_all
next
  case (destroyed db up ustr flt n podVMID vmID)
  show ?case unfolding CompleteVMCloneCleanup_def
  proof (rule close_tx [OF destroyed], goal_cases)
    case (1 x db')
    then obtain j t b updated vms where j: "GetJob n db = Some j"
      and c: "completeVMCloneDestructionPayload up (j_Payload j) (encode_target t) = Inr (updated, b)"
      and db': "db' = db\<lparr>db_pod_vms := vms, db_jobs := sql_update (\<lambda>r. j_ID r = n) (\<lambda>r. r\<lparr>j_Payload := updated\<rparr>) (db_jobs db)\<rparr>"
      by (auto simp: Let_def split: option.splits sum.splits if_splits prod.splits)
    let ?d = "db\<lparr>db_jobs := sql_update (\<lambda>r. j_ID r = n) (\<lambda>r. r\<lparr>j_Payload := updated\<rparr>) (db_jobs db)\<rparr>"
    have jobs: "db_jobs db' = db_jobs ?d" by (simp add: db')
    have "clone_entry i ?d \<in> {clone_entry i db, None}" for i
      using entry_update [of "\<lambda>r. j_ID r = n" n db j i "\<lambda>_. updated"] j GetJob_id [OF j] complete_payload_entry [OF c]
      by (auto simp: clone_entry_def)
    moreover have "queue_wf db'" unfolding queue_wf_cong [OF jobs] by (rule queue_wf_payload [OF destroyed])
    ultimately show ?case using clone_entry_cong [OF jobs] by simp
  qed
next
  case (standalone db up flt n w target c)
  show ?case
  proof (cases "decodePersistedVMCloneTarget up target")
    case (Inl e)
    then show ?thesis using standalone by (simp add: FinishStandaloneVMCloneCleanup_def)
  next
    case (Inr t)
    have none: "pget (finished_payload c p) ''clone_operation'' = None" for p by (simp add: finished_payload_def Let_def)
    show ?thesis unfolding FinishStandaloneVMCloneCleanup_def Inr sum.case by (rule close_exec [OF standalone none])
  qed
qed

section \<open>Reachable worlds\<close>

text \<open>
  What may happen: an attempt of any worker on any job (its new operation identifier is one
  \<open>uuid.New\<close> has not given out for a submission before), the reconciliation of what a claim has
  loaded, a disposing query, and every query that leaves the operations alone. An attempt is one
  step: its queries are fenced by the claim of its worker, so no other attempt on the same job
  interleaves with it, and attempts on different jobs touch different rows.
\<close>

definition disposed :: "database \<Rightarrow> database \<Rightarrow> (uuid \<times> string) set" where
  "disposed db db' = {(n, i). armed_life i (clone_life_of db n) \<and> clone_life_of db' n = NoClone}"

inductive clone_world_step :: "clone_world \<Rightarrow> unit \<Rightarrow> clone_world \<Rightarrow> bool" where
  attempt: "ce_newID env \<notin> snd ` set (cw_submitted cw) \<Longrightarrow>
     clone_world_step cw u (snd (snd (executeDurableVMClone up ustr env n w podID podVMID params cw)))"
| cleanup: "GetVMCloneOperation up flt n w (cw_db cw) = Inr mop \<Longrightarrow>
     clone_world_step cw u (snd (snd (reconcileCloneOperationTargetForCleanup up env n w mop cw)))"
| close: "clone_close (cw_db cw) db' \<Longrightarrow>
     clone_world_step cw u (cw\<lparr>cw_db := db', cw_closed := cw_closed cw \<union> disposed (cw_db cw) db'\<rparr>)"
| queue: "plain_payload op \<Longrightarrow> clone_world_step cw u (cw\<lparr>cw_db := job_step op (cw_db cw)\<rparr>)"
| adopt: "clone_world_step cw u
     (cw\<lparr>cw_db := snd (AdoptPodVMClone ustr flt commit n w podVMID sts vmID vmName status (cw_db cw))\<rparr>)"
| elsewhere: "queue_wf db' \<Longrightarrow> (\<And>i. clone_entry i db' = clone_entry i (cw_db cw)) \<Longrightarrow>
     clone_world_step cw u (cw\<lparr>cw_db := db'\<rparr>)"

definition clone_world_start :: "clone_world \<Rightarrow> bool" where
  "clone_world_start cw \<longleftrightarrow> db_jobs (cw_db cw) = [] \<and> cw_submitted cw = [] \<and> cw_closed cw = {}"

lemma inv_close:
  assumes inv: "clone_inv cw" and "clone_close (cw_db cw) db'"
  shows "clone_inv (cw\<lparr>cw_db := db', cw_closed := cw_closed cw \<union> disposed (cw_db cw) db'\<rparr>)"
proof -
  note e = clone_close_entries [OF assms(2) clone_invD(1) [OF inv]]
  have life: "clone_life_of db' n = clone_life_of (cw_db cw) n \<or> clone_life_of db' n = NoClone" for n
    using conjunct2 [OF e, rule_format, of n] by (auto simp: clone_life_of_def life_of_def)
  show ?thesis
  proof (rule clone_invI)
    fix k i t assume "(k, i) \<in> set (cw_submitted (cw\<lparr>cw_db := db', cw_closed := cw_closed cw \<union> disposed (cw_db cw) db'\<rparr>))"
    then show "clone_life_of (cw_db (cw\<lparr>cw_db := db', cw_closed := cw_closed cw \<union> disposed (cw_db cw) db'\<rparr>)) k \<noteq>
        Cloning i VMCloneOperationPrepared t"
      using clone_invD(3) [OF inv, of k i t] life [of k] by auto
  next
    fix k i assume "(k, i) \<in> set (cw_submitted (cw\<lparr>cw_db := db', cw_closed := cw_closed cw \<union> disposed (cw_db cw) db'\<rparr>))"
    then show "armed_life i (clone_life_of (cw_db (cw\<lparr>cw_db := db', cw_closed := cw_closed cw \<union> disposed (cw_db cw) db'\<rparr>)) k) \<or>
        (k, i) \<in> cw_closed (cw\<lparr>cw_db := db', cw_closed := cw_closed cw \<union> disposed (cw_db cw) db'\<rparr>)"
      using clone_invD(4) [OF inv, of k i] life [of k] by (auto simp: disposed_def)
  qed (use clone_invD(2) [OF inv] e in simp_all)
qed

interpretation durable: state_machine clone_world_start clone_world_step clone_inv
proof unfold_locales
  show "clone_inv cw" if "clone_world_start cw" for cw
    using that by (simp add: clone_world_start_def clone_inv_def queue_wf_def)
  show "clone_inv cw'" if "clone_inv cw" "clone_world_step cw u cw'" for cw u cw'
    using that(2,1)
  proof (induction rule: clone_world_step.induct)
    case (attempt env cw u up ustr n w podID podVMID params)
    then show ?case by (intro inv_attempt)
  next
    case (cleanup up flt n w cw mop u env)
    then show ?case by (intro inv_reconcile)
  next
    case (close cw db' u)
    then show ?case by (intro inv_close)
  next
    case (queue op cw u)
    then show ?case
      by (intro clone_inv_same entries_same entry_job_step job_step_wf) (simp_all add: clone_invD(1))
  next
    case (adopt cw u ustr flt commit n w podVMID sts vmID vmName status)
    have "queue_wf (snd (AdoptPodVMClone ustr flt commit n w podVMID sts vmID vmName status (cw_db cw)))"
      using queue_wf_cong [OF Adopt_jobs] clone_invD(1) [OF adopt] by blast
    then show ?case by (rule clone_inv_same [OF adopt _ entries_same [OF clone_entry_cong [OF Adopt_jobs]]])
  next
    case (elsewhere db' cw u)
    then show ?case by (intro clone_inv_same entries_same)
  qed
qed

text \<open>
  C1. No duplicate clone is ever submitted. In every reachable world, whatever vCenter, the
  network and the database answered and however often attempts failed, were retried or were taken
  over by another worker: no operation has been submitted to vCenter twice, and every operation
  that was submitted is still carried, past the prepared phase, by the job that submitted it, unless
  a query that disposes of the clone has removed it. So a retry can neither submit it again nor
  lose sight of the machine it may have created.
\<close>

theorem no_duplicate_clone:
  assumes "durable.reach cw"
  shows "distinct (cw_submitted cw) \<and>
    (\<forall>(n, i) \<in> set (cw_submitted cw). armed_life i (clone_life_of (cw_db cw) n) \<or> (n, i) \<in> cw_closed cw)"
  using durable.reach_inv [OF assms] unfolding clone_inv_def by blast

text \<open>A first attempt whose submission is not answered, and what a second attempt then does.\<close>

definition lost_env :: clone_env where
  "lost_env =
     \<lparr>ce_resolve = (\<lambda>p. Inr (p\<lparr>cp_ComputeResourceType := ''ComputeResource'', cp_ComputeResourceMoRef := ''cr-1'',
         cp_HostMoRef := ''host-1'', cp_HostName := ''esx'', cp_ResourcePoolMoRef := ''pool-1'', cp_DRSControl := ''standalone''\<rparr>)),
      ce_newID = ''op-1'', ce_now = 5, ce_load = None, ce_prepare = None, ce_connect = None, ce_before = None, ce_arm = WriteOk,
      ce_clone = Inl (errorsNew ''connection reset''), ce_task = [], ce_abandon = [], ce_abandon_read = None,
      ce_wait = Inr [], ce_find = ([], None), ce_stage = [], ce_stage_read = None, ce_validate = None,
      ce_configure = None, ce_complete = None\<rparr>"

definition new_clone_params :: clone_params where
  "new_clone_params = empty_clone_params\<lparr>cp_TemplateName := ''vm-1'', cp_LogicalTemplateID := Some 4, cp_VMName := ''lab''\<rparr>"

definition new_clone_world :: clone_world where
  "new_clone_world = \<lparr>cw_db = empty_db\<lparr>db_jobs := [(new_job 7 10 ''vm_add'' [])
     \<lparr>j_Status := JobStatusInProgress, j_ClaimedBy := Some ''w'', j_ClaimedAt := Some 10\<rparr>]\<rparr>, cw_submitted = [], cw_closed = {}\<rparr>"

definition attempt_once :: "clone_env \<Rightarrow> clone_world \<Rightarrow> clone_world" where
  "attempt_once env cw = snd (snd (executeDurableVMClone (\<lambda>_. Some 1) (\<lambda>_. ''u'') env 7 ''w'' 2 3 new_clone_params cw))"

theorem no_duplicate_clone_witness:
  "cw_submitted (attempt_once (lost_env\<lparr>ce_newID := ''op-2''\<rparr>) (attempt_once lost_env new_clone_world)) = [(7, ''op-1'')] \<and>
   armed_life ''op-1''
     (clone_life_of (cw_db (attempt_once (lost_env\<lparr>ce_newID := ''op-2''\<rparr>) (attempt_once lost_env new_clone_world))) 7)"
proof -
  let ?w1 = "attempt_once lost_env new_clone_world"
  let ?w2 = "attempt_once (lost_env\<lparr>ce_newID := ''op-2''\<rparr>) ?w1"
  let ?w0 = "new_clone_world\<lparr>cw_db := empty_db\<rparr>"
  have "durable.reach ?w0" by (rule durable.reach_start) (simp add: clone_world_start_def new_clone_world_def empty_db_def)
  moreover have "clone_world_step ?w0 () (?w0\<lparr>cw_db := cw_db new_clone_world\<rparr>)"
    by (rule clone_world_step.elsewhere) (code_simp, simp add: clone_entry_def GetJob_def new_clone_world_def new_job_def empty_db_def pget_def)
  ultimately have "durable.reach (?w0\<lparr>cw_db := cw_db new_clone_world\<rparr>)" by (rule durable.reach_step)
  then have "durable.reach new_clone_world" by simp
  moreover have "clone_world_step new_clone_world () ?w1"
    unfolding attempt_once_def by (rule clone_world_step.attempt) (simp add: new_clone_world_def)
  ultimately have r1: "durable.reach ?w1" by (rule durable.reach_step)
  have s1: "cw_submitted ?w1 = [(7, ''op-1'')]" by code_simp
  have "clone_world_step ?w1 () ?w2"
    unfolding attempt_once_def [of "lost_env\<lparr>ce_newID := ''op-2''\<rparr>"]
    by (rule clone_world_step.attempt) (simp add: s1)
  then have "durable.reach ?w2" using r1 durable.reach_step by blast
  note result = no_duplicate_clone [OF this]
  have s2: "cw_submitted ?w2 = [(7, ''op-1'')]" by code_simp
  have "(7, ''op-1'') \<notin> cw_closed ?w2" by code_simp
  with result s2 show ?thesis by simp
qed

text \<open>
  C31. While it reconciles a submitted clone for cleanup, a worker that gets an error from the
  search for the marked machine and no machine with it, be it a dropped connection, asks for an
  operator right away and records nothing: the branch builds a target without a machine, staging
  refuses it as incomplete, and the retry the code prepares behind it is never reached.
\<close>

theorem failed_search_needs_operator:
  assumes phase: "co_Phase op \<noteq> VMCloneOperationPrepared" and placed: "\<not> placement_missing op"
    and wait: "co_TaskRef op = [] \<or> (\<exists>e'. ce_wait env = Inl e') \<or> ce_wait env = Inr []"
    and find: "ce_find env = ([], Some e)" "\<not> errorsIs e ErrAmbiguousVMOwnership"
  shows "\<exists>t err. reconcileCloneOperationTargetForCleanup up env n w (Some op) cw = (Some t, Some err, cw) \<and>
    isManualCleanupRequired err \<and> kt_VCenterVMID t = []"
proof -
  let ?t = "cloneCleanupTargetFromOperation op []"
  have "\<exists>x. validateVMCloneCleanupIdentity up ?t = Some x"
    by (simp add: validateVMCloneCleanupIdentity_def validateVMCloneCleanupTarget_def cloneCleanupTargetFromOperation_def)
  then obtain x where x: "validateVMCloneCleanupIdentity up ?t = Some x" by blast
  let ?err = "Typed manualCleanupRequiredError (Errorf ''clone cleanup target has incomplete immutable placement'' [x])"
  have manual: "isManualCleanupRequired ?err" by (simp add: isManualCleanupRequired_def)
  have stage: "stageCloneCleanupTarget up env n w ?t (cw_db cw) = (Some ?err, cw_db cw)"
    using x by (simp add: stageCloneCleanupTarget_def)
  have "reconcileCloneOperationTargetForCleanup up env n w (Some op) cw = (Some ?t, Some ?err, cw)"
    using phase placed find wait stage manual
    by (auto simp: reconcileCloneOperationTargetForCleanup_def Let_def recovery_def)
  with manual show ?thesis by (auto simp: cloneCleanupTargetFromOperation_def)
qed

theorem failed_search_needs_operator_witness:
  "\<exists>t err. reconcileCloneOperationTargetForCleanup (\<lambda>_. Some 1) (lost_env\<lparr>ce_find := ([], Some (errorsNew ''connection reset''))\<rparr>) 7 ''w''
       (Some (cloning_op\<lparr>co_Phase := VMCloneOperationSubmitting\<rparr>)) new_clone_world = (Some t, Some err, new_clone_world) \<and>
     isManualCleanupRequired err \<and> kt_VCenterVMID t = []"
  by (rule failed_search_needs_operator [where e = "errorsNew ''connection reset''"]) (simp add: cloning_op_def, code_simp,
      simp add: cloning_op_def, simp, code_simp)

end
