(* ===== verification/PodJobs.thy ===== *)
theory PodJobs
  imports Jobs
begin

text \<open>
  Serialized work on a pod (\<open>internal/database/pod_jobs.go\<close>): every job that targets a pod or one
  of its machines is enqueued in a transaction that locks the pod row, so that a destroy job and
  a mutating job exclude each other, a pod has one destroy job for its whole life, and an
  extension and an expiry cannot both win. \<open>ustr\<close> is \<open>uuid.UUID.String\<close>, which is injective;
  \<open>payload->>'pod_id'\<close> reads the exact key the producers write.
\<close>

section \<open>Which jobs target a pod\<close>

definition serializedExistingVMJobTypes :: "string list" where
  "serializedExistingVMJobTypes =
     [''vm_destroy'', ''vm_start'', ''vm_stop'', ''vm_restart'', ''vm_reset'', ''vm_snapshot'',
      ''vm_revert'', ''vm_snapshot_delete'', ''vm_suspend'']"

definition serializedPodMutatorTypes :: "string list" where
  "serializedPodMutatorTypes = filter (\<lambda>t. t \<noteq> ''pod_destroy'') serializedPodJobTypes"

definition podRejectsMutatorJob :: "string \<Rightarrow> bool" where
  "podRejectsMutatorJob status \<longleftrightarrow>
     status \<in> {''destroying'', ''destroy_failed'', ''destroyed'', ''error'', ''cancelled''}"

text \<open>\<open>PodJobRejectedError\<close> and \<open>PodDestroyBlockedError\<close>, by what they unwrap to.\<close>

abbreviation PodJobRejectedError :: go_error where
  "PodJobRejectedError \<equiv> Errorf ''pod in its status rejects the job'' [Sentinel ErrPodJobRejected]"

abbreviation PodDestroyBlockedError :: go_error where
  "PodDestroyBlockedError \<equiv> Errorf ''pod destroy blocked by a job'' [Sentinel ErrPodDestroyBlockedByMutator]"

text \<open>A string field of the decoded payload; a missing or null field decodes to the empty text.\<close>

definition payload_text :: "payload \<Rightarrow> string \<Rightarrow> string result" where
  "payload_text p k =
     (case pget p k of
        None \<Rightarrow> Inr [] | Some JNull \<Rightarrow> Inr [] | Some (JStr s) \<Rightarrow> Inr s
      | Some _ \<Rightarrow> Inl (Errorf ''decode serialized pod job payload'' [errorsNew ''cannot unmarshal into string'']))"

definition validatePodJobPayload :: "(uuid \<Rightarrow> string) \<Rightarrow> payload \<Rightarrow> uuid \<Rightarrow> uuid option \<Rightarrow> go_error option" where
  "validatePodJobPayload ustr p podID podVMID =
     (case (payload_text p ''pod_id'', payload_text p ''pod_vm_id'') of
        (Inl e, _) \<Rightarrow> Some e
      | (_, Inl e) \<Rightarrow> Some e
      | (Inr pod, Inr vm) \<Rightarrow>
          if pod \<noteq> ustr podID
          then Some (errorsNew ''serialized pod job payload pod_id does not match locked pod'')
          else if podVMID \<noteq> None \<and> vm \<noteq> ustr (the podVMID)
          then Some (errorsNew ''serialized VM job payload pod_vm_id does not match VM'')
          else None)"

text \<open>\<open>payload->>'pod_id' = $n\<close>.\<close>

definition for_pod :: "(uuid \<Rightarrow> string) \<Rightarrow> uuid \<Rightarrow> job \<Rightarrow> bool" where
  "for_pod ustr podID j \<longleftrightarrow> pget (j_Payload j) ''pod_id'' = Some (JStr (ustr podID))"

definition for_vm :: "(uuid \<Rightarrow> string) \<Rightarrow> uuid \<Rightarrow> job \<Rightarrow> bool" where
  "for_vm ustr podVMID j \<longleftrightarrow> pget (j_Payload j) ''pod_vm_id'' = Some (JStr (ustr podVMID))"

definition podHasAuthoritativeDestroyJob :: "(uuid \<Rightarrow> string) \<Rightarrow> uuid \<Rightarrow> database \<Rightarrow> bool" where
  "podHasAuthoritativeDestroyJob ustr podID db \<longleftrightarrow>
     (\<exists>j \<in> set (db_jobs db). j_Type j = ''pod_destroy'' \<and> for_pod ustr podID j \<and>
        j_Status j \<notin> {JobStatusCompleted, JobStatusFailed})"

abbreviation find_pod :: "uuid \<Rightarrow> database \<Rightarrow> pod_row option" where
  "find_pod podID db \<equiv> find (\<lambda>p. pd_id p = podID) (db_pods db)"

section \<open>Mutating jobs\<close>

definition CreatePodCreateJobTx ::
  "(uuid \<Rightarrow> string) \<Rightarrow> uuid \<Rightarrow> go_time \<Rightarrow> uuid \<Rightarrow> payload \<Rightarrow> database \<Rightarrow> (job \<times> database) result" where
  "CreatePodCreateJobTx ustr newID now podID payload db =
     (case validatePodJobPayload ustr payload podID None of Some e \<Rightarrow> Inl e | None \<Rightarrow>
     (case find_pod podID db of
        None \<Rightarrow> Inl (Errorf ''lock pod for pod_create enqueue'' [Sentinel ErrPodNotFound])
      | Some p \<Rightarrow>
          if pd_status p \<noteq> ''pending'' then Inl PodJobRejectedError
          else (case createJob newID now ''pod_create'' payload db of
                  Inl e \<Rightarrow> Inl (Errorf ''insert pod_create job'' [e]) | Inr r \<Rightarrow> Inr r)))"

definition vm_job_tx ::
  "(uuid \<Rightarrow> string) \<Rightarrow> uuid \<Rightarrow> go_time \<Rightarrow> uuid \<Rightarrow> uuid \<Rightarrow> string \<Rightarrow> payload \<Rightarrow> database \<Rightarrow> (job \<times> database) result" where
  "vm_job_tx ustr newID now podID podVMID jobType payload db =
     (case find_pod podID db of
        None \<Rightarrow> Inl (Errorf ''lock pod for enqueue'' [Sentinel ErrPodNotFound])
      | Some p \<Rightarrow>
          if podRejectsMutatorJob (pd_status p) \<or> podHasAuthoritativeDestroyJob ustr podID db
          then Inl PodJobRejectedError
          else
            (case find (\<lambda>v. pv_ID v = podVMID \<and> pv_PodID v = podID) (db_pod_vms db) of
               None \<Rightarrow> Inl (Errorf ''resolve VM in pod for enqueue'' [Sentinel ErrPodVMNotFound])
             | Some v \<Rightarrow>
                 if pv_Status v = ''deleted''
                 then Inl (Errorf ''VM in pod is deleted'' [Sentinel ErrPodJobRejected])
                 else (case createJob newID now jobType payload db of
                         Inl e \<Rightarrow> Inl (Errorf ''insert VM job'' [e]) | Inr r \<Rightarrow> Inr r)))"

definition CreateVMJob ::
  "(uuid \<Rightarrow> string) \<Rightarrow> go_error option \<Rightarrow> uuid \<Rightarrow> go_time \<Rightarrow> uuid \<Rightarrow> uuid \<Rightarrow> string \<Rightarrow> payload \<Rightarrow> database
     \<Rightarrow> job result \<times> database" where
  "CreateVMJob ustr flt newID now podID podVMID jobType payload db =
     (if jobType \<notin> set serializedExistingVMJobTypes
      then (Inl (errorsNew ''not a serialized VM job type''), db)
      else case validatePodJobPayload ustr payload podID (Some podVMID) of
        Some e \<Rightarrow> (Inl e, db)
      | None \<Rightarrow> run_tx flt (vm_job_tx ustr newID now podID podVMID jobType payload) db)"

text \<open>
  The pending VM row: the columns of the insert, the others at their defaults (the activity clock starts with the row); the keys are the
  row's own and those of its pod and template.
\<close>

definition pending_vm :: "pod_vm \<Rightarrow> pod_vm" where
  "pending_vm vm =
     vm\<lparr>pv_LastActivityAt := Some (pv_CreatedAt vm), pv_SuspendedAt := None, pv_SuspendReason := None,
        pv_VCenterVMID := None, pv_VCenterVMName := None, pv_IPAddress := None,
        pv_GeneratedUsername := [], pv_GeneratedPassword := [], pv_GuestCredentialsVerifiedAt := None,
        pv_GuestCredentialsVerifiedVMID := None\<rparr>"

definition insert_vm :: "pod_vm \<Rightarrow> database \<Rightarrow> database result" where
  "insert_vm vm db =
     (if pv_ID vm \<in> pv_ID ` set (db_pod_vms db) \<or> pv_TemplateID vm \<notin> tr_id ` set (db_templates db)
      then Inl (Errorf ''insert pending VM in pod'' [errorsNew ''constraint violation''])
      else Inr (db\<lparr>db_pod_vms := db_pod_vms db @ [pending_vm vm]\<rparr>))"

definition createVMAddJobTx ::
  "(uuid \<Rightarrow> string) \<Rightarrow> uuid \<Rightarrow> go_time \<Rightarrow> pod_vm \<Rightarrow> payload \<Rightarrow> database \<Rightarrow> (job \<times> database) result" where
  "createVMAddJobTx ustr newID now vm payload db =
     (if pv_ID vm = uuid_Nil then Inl (errorsNew ''vm_add requires a preallocated pod VM id'')
      else case validatePodJobPayload ustr payload (pv_PodID vm) (Some (pv_ID vm)) of
        Some e \<Rightarrow> Inl e
      | None \<Rightarrow>
          (case find_pod (pv_PodID vm) db of
             None \<Rightarrow> Inl (Errorf ''lock pod for vm_add enqueue'' [Sentinel ErrPodNotFound])
           | Some p \<Rightarrow>
               if pd_status p \<noteq> ''active'' \<or> podHasAuthoritativeDestroyJob ustr (pv_PodID vm) db
               then Inl PodJobRejectedError
               else
                 (case insert_vm vm db of
                    Inl e \<Rightarrow> Inl e
                  | Inr db' \<Rightarrow>
                      (case createJob newID now ''vm_add'' payload db' of
                         Inl e \<Rightarrow> Inl (Errorf ''insert vm_add job'' [e]) | Inr r \<Rightarrow> Inr r))))"

definition CreateVMAddJobTx ::
  "(uuid \<Rightarrow> string) \<Rightarrow> uuid \<Rightarrow> go_time \<Rightarrow> pod_vm \<Rightarrow> payload \<Rightarrow> database \<Rightarrow> (job \<times> database) result" where
  "CreateVMAddJobTx = createVMAddJobTx"

definition CreateVMAddJob ::
  "(uuid \<Rightarrow> string) \<Rightarrow> go_error option \<Rightarrow> uuid \<Rightarrow> go_time \<Rightarrow> pod_vm \<Rightarrow> payload \<Rightarrow> database
     \<Rightarrow> job result \<times> database" where
  "CreateVMAddJob ustr flt newID now vm payload = run_tx flt (createVMAddJobTx ustr newID now vm payload)"

section \<open>Destroy jobs\<close>

datatype destroy_requirement = podDestroyAlways | podDestroyIfExpired | podDestroyIfSuspendedTooLong
  | podDestroyIfEmpty | podDestroyIfFailed

record vm_job_exclusion =
  ex_JobID :: uuid
  ex_PodVMID :: uuid
  ex_ClaimOwner :: string

definition podDestroyCanRestart :: "string \<Rightarrow> destroy_requirement \<Rightarrow> bool" where
  "podDestroyCanRestart status requirement =
     (if status \<in> {''pending'', ''provisioning'', ''active'', ''error'', ''destroying''} then True
      else if status = ''destroy_failed'' then requirement = podDestroyIfFailed
      else False)"

definition SuspendedDestroyAfter :: go_time where
  "SuspendedDestroyAfter = seconds (5 * 24 * 3600)"

text \<open>
  \<open>COUNT(*) > 0 AND BOOL_AND(status = ..) AND MIN(suspended_at) <= ..\<close> over the machines that are
  not deleted: \<open>MIN\<close> passes over NULLs and is NULL when there is nothing else, which makes the
  conjunction NULL unless an earlier conjunct is false; a NULL does not scan into a \<open>bool\<close>.
\<close>

definition suspended_too_long :: "go_time \<Rightarrow> uuid \<Rightarrow> database \<Rightarrow> bool result" where
  "suspended_too_long now podID db =
     (let vms = filter (\<lambda>v. pv_PodID v = podID \<and> pv_Status v \<noteq> ''deleted'') (db_pod_vms db);
          times = List.map_filter pv_SuspendedAt vms in
      if vms = [] \<or> \<not> list_all (\<lambda>v. pv_Status v = ''suspended'') vms then Inr False
      else if times = [] then Inl (errorsNew ''cannot scan NULL into bool'')
      else Inr (Min (set times) \<le> now - SuspendedDestroyAfter))"

definition podDestroyRequirementSatisfied ::
  "go_time \<Rightarrow> uuid \<Rightarrow> string \<Rightarrow> bool \<Rightarrow> destroy_requirement \<Rightarrow> database \<Rightarrow> bool result" where
  "podDestroyRequirementSatisfied now podID status expired requirement db =
     (case requirement of
        podDestroyAlways \<Rightarrow> Inr True
      | podDestroyIfExpired \<Rightarrow> Inr (status = ''active'' \<and> expired)
      | podDestroyIfSuspendedTooLong \<Rightarrow>
          (case suspended_too_long now podID db of
             Inl e \<Rightarrow> Inl e | Inr eligible \<Rightarrow> Inr (status = ''active'' \<and> eligible))
      | podDestroyIfEmpty \<Rightarrow>
          Inr (\<not> (\<exists>v \<in> set (db_pod_vms db). pv_PodID v = podID \<and> pv_Status v \<noteq> ''deleted''))
      | podDestroyIfFailed \<Rightarrow> Inr (status = ''destroy_failed''))"

definition destroySkipsVLANOwnership :: "string \<Rightarrow> bool" where
  "destroySkipsVLANOwnership networkMode \<longleftrightarrow> networkMode = ''shared''"

definition podOwnsExactVLAN :: "uuid \<Rightarrow> int \<Rightarrow> string \<Rightarrow> database \<Rightarrow> bool" where
  "podOwnsExactVLAN podID vlanTag subnet db \<longleftrightarrow>
     (\<exists>r \<in> set (db_vlan_pool db). vl_pod_id r = Some podID \<and> vl_vlan_tag r = vlanTag \<and> vl_subnet r = subnet)"

text \<open>The one machine deletion that may still be running when its empty pod goes.\<close>

definition valid_exclusion :: "(uuid \<Rightarrow> string) \<Rightarrow> uuid \<Rightarrow> vm_job_exclusion \<Rightarrow> database \<Rightarrow> bool" where
  "valid_exclusion ustr podID ex db \<longleftrightarrow>
     (\<exists>j \<in> set (db_jobs db). \<exists>v \<in> set (db_pod_vms db).
        pv_ID v = ex_PodVMID ex \<and> pv_PodID v = podID \<and> pv_Status v = ''deleted'' \<and>
        j_ID j = ex_JobID ex \<and> j_Type j = ''vm_destroy'' \<and> j_Status j = JobStatusInProgress \<and>
        j_ClaimedBy j = Some (ex_ClaimOwner ex) \<and> for_pod ustr podID j \<and> for_vm ustr (ex_PodVMID ex) j)"

definition liveStatus :: "job_status \<Rightarrow> bool" where
  "liveStatus s \<longleftrightarrow> s \<in> {JobStatusPending, JobStatusClaimed, JobStatusInProgress}"

definition targets_pod :: "(uuid \<Rightarrow> string) \<Rightarrow> uuid \<Rightarrow> database \<Rightarrow> job \<Rightarrow> bool" where
  "targets_pod ustr podID db j \<longleftrightarrow>
     for_pod ustr podID j \<or> (\<exists>v \<in> set (db_pod_vms db). pv_PodID v = podID \<and> for_vm ustr (pv_ID v) j)"

definition live_mutator :: "(uuid \<Rightarrow> string) \<Rightarrow> uuid \<Rightarrow> database \<Rightarrow> job \<Rightarrow> bool" where
  "live_mutator ustr podID db j \<longleftrightarrow>
     j_Type j \<in> set serializedPodMutatorTypes \<and> liveStatus (j_Status j) \<and> targets_pod ustr podID db j"

definition rejectPodDestroyWithNonterminalMutator ::
  "(uuid \<Rightarrow> string) \<Rightarrow> uuid \<Rightarrow> destroy_requirement \<Rightarrow> vm_job_exclusion option \<Rightarrow> database \<Rightarrow> go_error option" where
  "rejectPodDestroyWithNonterminalMutator ustr podID requirement exclusion db =
     (case (case exclusion of
              None \<Rightarrow> Inr uuid_Nil
            | Some ex \<Rightarrow>
                if requirement \<noteq> podDestroyIfEmpty
                then Inl (Errorf ''exclusion is only valid for empty-pod cleanup'' [Sentinel ErrPodDestroyExclusionInvalid])
                else if \<not> valid_exclusion ustr podID ex db
                then Inl (Errorf ''job is not the owned in_progress vm_destroy'' [Sentinel ErrPodDestroyExclusionInvalid])
                else Inr (ex_JobID ex)) of
        Inl e \<Rightarrow> Some e
      | Inr excludedJobID \<Rightarrow>
          if \<exists>j \<in> set (db_jobs db). live_mutator ustr podID db j \<and> (excludedJobID = uuid_Nil \<or> j_ID j \<noteq> excludedJobID)
          then Some PodDestroyBlockedError else None)"

text \<open>The first destroy job of the pod, in the order of creation, and the columns the query scans.\<close>

definition authoritative_destroy :: "(uuid \<Rightarrow> string) \<Rightarrow> uuid \<Rightarrow> database \<Rightarrow> job option" where
  "authoritative_destroy ustr podID db =
     (case sort_key (\<lambda>j. (j_CreatedAt j, j_ID j))
             (filter (\<lambda>j. j_Type j = ''pod_destroy'' \<and> for_pod ustr podID j) (db_jobs db)) of
        [] \<Rightarrow> None | j # _ \<Rightarrow> Some j)"

definition scan_job :: "job \<Rightarrow> job" where
  "scan_job j = j\<lparr>j_ClaimedBy := None, j_ClaimedAt := None, j_StartedAt := None, j_CompletedAt := None,
                  j_Result := None, j_NextAttemptAt := None\<rparr>"

definition requeue_destroy :: "uuid \<Rightarrow> job_status \<Rightarrow> database \<Rightarrow> database result" where
  "requeue_destroy i status db =
     (let P = (\<lambda>j. j_ID j = i \<and> j_Status j = status) in
      if sql_count P (db_jobs db) \<noteq> 1
      then Inl (errorsNew ''requeue authoritative pod_destroy job: terminal status changed'')
      else Inr (db\<lparr>db_jobs := sql_update P
             (\<lambda>j. j\<lparr>j_Status := JobStatusPending, j_ClaimedBy := None, j_ClaimedAt := None, j_StartedAt := None,
                    j_CompletedAt := None, j_Result := None, j_NextAttemptAt := None, j_RetryCount := 0\<rparr>)
             (db_jobs db)\<rparr>))"

text \<open>When the pod already has a destroy job: restart it if it is terminal and still needed.\<close>

definition reuse_destroy ::
  "(uuid \<Rightarrow> string) \<Rightarrow> go_time \<Rightarrow> pod_row \<Rightarrow> destroy_requirement \<Rightarrow> vm_job_exclusion option \<Rightarrow> job \<Rightarrow> database
     \<Rightarrow> ((job \<times> bool) \<times> database) result" where
  "reuse_destroy ustr now p requirement exclusion existing db =
     (let expired = (case pd_expires_at p of None \<Rightarrow> False | Some t \<Rightarrow> t < now) in
      if j_Status existing \<in> {JobStatusCompleted, JobStatusFailed} \<and> podDestroyCanRestart (pd_status p) requirement
      then
        (case podDestroyRequirementSatisfied now (pd_id p) (pd_status p) expired requirement db of
           Inl e \<Rightarrow> Inl e
         | Inr required \<Rightarrow>
             let ownsResources = (destroySkipsVLANOwnership (pd_network_mode p) \<or>
                                  podOwnsExactVLAN (pd_id p) (pd_vlan_id p) (pd_subnet p) db) in
             if required \<and> ownsResources
             then
               (case rejectPodDestroyWithNonterminalMutator ustr (pd_id p) requirement exclusion db of
                  Some e \<Rightarrow> Inl e
                | None \<Rightarrow>
                    (case requeue_destroy (j_ID existing) (j_Status existing) db of
                       Inl e \<Rightarrow> Inl e
                     | Inr db' \<Rightarrow> Inr (((scan_job existing)\<lparr>j_Status := JobStatusPending\<rparr>, True), db')))
             else Inr ((scan_job existing, False), db))
      else Inr ((scan_job existing, False), db))"

text \<open>When it has none.\<close>

definition first_destroy ::
  "(uuid \<Rightarrow> string) \<Rightarrow> uuid \<Rightarrow> go_time \<Rightarrow> pod_row \<Rightarrow> payload \<Rightarrow> destroy_requirement \<Rightarrow> vm_job_exclusion option
     \<Rightarrow> database \<Rightarrow> ((job \<times> bool) \<times> database) result" where
  "first_destroy ustr newID now p payload requirement exclusion db =
     (let expired = (case pd_expires_at p of None \<Rightarrow> False | Some t \<Rightarrow> t < now) in
      if pd_status p \<in> {''destroying'', ''destroyed'', ''cancelled''} \<or>
         pd_status p = ''destroy_failed'' \<and> requirement \<noteq> podDestroyIfFailed
      then Inl PodJobRejectedError
      else
        (case podDestroyRequirementSatisfied now (pd_id p) (pd_status p) expired requirement db of
           Inl e \<Rightarrow> Inl e
         | Inr required \<Rightarrow>
             if \<not> required
             then Inl (Errorf ''pod no longer satisfies pod_destroy requirement'' [Sentinel ErrPodDestroyNotNeeded])
             else if requirement = podDestroyIfFailed \<and> \<not> destroySkipsVLANOwnership (pd_network_mode p) \<and>
                     \<not> podOwnsExactVLAN (pd_id p) (pd_vlan_id p) (pd_subnet p) db
             then Inl (Errorf ''destroy_failed pod no longer owns its exact VLAN'' [Sentinel ErrPodDestroyNotNeeded])
             else
               (case rejectPodDestroyWithNonterminalMutator ustr (pd_id p) requirement exclusion db of
                  Some e \<Rightarrow> Inl e
                | None \<Rightarrow>
                    (case createJob newID now ''pod_destroy'' payload db of
                       Inl e \<Rightarrow> Inl (Errorf ''insert pod_destroy job'' [e])
                     | Inr (j, db') \<Rightarrow> Inr ((j, True), db')))))"

definition pod_destroy_tx ::
  "(uuid \<Rightarrow> string) \<Rightarrow> uuid \<Rightarrow> go_time \<Rightarrow> uuid \<Rightarrow> payload \<Rightarrow> destroy_requirement \<Rightarrow> vm_job_exclusion option
     \<Rightarrow> database \<Rightarrow> ((job \<times> bool) \<times> database) result" where
  "pod_destroy_tx ustr newID now podID payload requirement exclusion db =
     (case find_pod podID db of
        None \<Rightarrow> Inl (Errorf ''lock pod for pod_destroy enqueue'' [Sentinel ErrPodNotFound])
      | Some p \<Rightarrow>
          (case authoritative_destroy ustr podID db of
             Some existing \<Rightarrow> reuse_destroy ustr now p requirement exclusion existing db
           | None \<Rightarrow> first_destroy ustr newID now p payload requirement exclusion db))"

definition createPodDestroyJob ::
  "(uuid \<Rightarrow> string) \<Rightarrow> go_error option \<Rightarrow> uuid \<Rightarrow> go_time \<Rightarrow> uuid \<Rightarrow> payload \<Rightarrow> destroy_requirement
     \<Rightarrow> vm_job_exclusion option \<Rightarrow> database \<Rightarrow> (job \<times> bool) result \<times> database" where
  "createPodDestroyJob ustr flt newID now podID payload requirement exclusion db =
     (case validatePodJobPayload ustr payload podID None of
        Some e \<Rightarrow> (Inl e, db)
      | None \<Rightarrow>
          run_tx flt (pod_destroy_tx ustr newID now podID payload requirement exclusion) db)"

definition CreatePodDestroyJob ::
  "(uuid \<Rightarrow> string) \<Rightarrow> go_error option \<Rightarrow> uuid \<Rightarrow> go_time \<Rightarrow> uuid \<Rightarrow> payload \<Rightarrow> database \<Rightarrow> (job \<times> bool) result \<times> database" where
  "CreatePodDestroyJob ustr flt newID now podID payload =
     createPodDestroyJob ustr flt newID now podID payload podDestroyAlways None"

definition CreateExpiredPodDestroyJob ::
  "(uuid \<Rightarrow> string) \<Rightarrow> go_error option \<Rightarrow> uuid \<Rightarrow> go_time \<Rightarrow> uuid \<Rightarrow> payload \<Rightarrow> database \<Rightarrow> (job \<times> bool) result \<times> database" where
  "CreateExpiredPodDestroyJob ustr flt newID now podID payload =
     createPodDestroyJob ustr flt newID now podID payload podDestroyIfExpired None"

definition CreateSuspendedPodDestroyJob ::
  "(uuid \<Rightarrow> string) \<Rightarrow> go_error option \<Rightarrow> uuid \<Rightarrow> go_time \<Rightarrow> uuid \<Rightarrow> payload \<Rightarrow> database \<Rightarrow> (job \<times> bool) result \<times> database" where
  "CreateSuspendedPodDestroyJob ustr flt newID now podID payload =
     createPodDestroyJob ustr flt newID now podID payload podDestroyIfSuspendedTooLong None"

definition CreateEmptyPodDestroyJob ::
  "(uuid \<Rightarrow> string) \<Rightarrow> go_error option \<Rightarrow> uuid \<Rightarrow> go_time \<Rightarrow> uuid \<Rightarrow> payload \<Rightarrow> vm_job_exclusion option \<Rightarrow> database
     \<Rightarrow> (job \<times> bool) result \<times> database" where
  "CreateEmptyPodDestroyJob ustr flt newID now podID payload exclusion =
     createPodDestroyJob ustr flt newID now podID payload podDestroyIfEmpty exclusion"

definition RequeueFailedPodDestroyJob ::
  "(uuid \<Rightarrow> string) \<Rightarrow> go_error option \<Rightarrow> uuid \<Rightarrow> go_time \<Rightarrow> uuid \<Rightarrow> payload \<Rightarrow> database \<Rightarrow> (job \<times> bool) result \<times> database" where
  "RequeueFailedPodDestroyJob ustr flt newID now podID payload =
     createPodDestroyJob ustr flt newID now podID payload podDestroyIfFailed None"

section \<open>The worker's entry and the extension\<close>

definition lockOwnedPodDestroyJob ::
  "(uuid \<Rightarrow> string) \<Rightarrow> uuid \<Rightarrow> uuid \<Rightarrow> string \<Rightarrow> database \<Rightarrow> go_error option" where
  "lockOwnedPodDestroyJob ustr podID jobID claimOwner db =
     (if \<exists>j \<in> set (db_jobs db). j_ID j = jobID \<and> j_Type j = ''pod_destroy'' \<and> for_pod ustr podID j \<and>
           j_Status j = JobStatusInProgress \<and> j_ClaimedBy j = Some claimOwner
      then None
      else Some (Errorf ''pod_destroy job is not owned in_progress'' [Sentinel ErrJobLeaseLost]))"

definition PreparePodDestroy ::
  "(uuid \<Rightarrow> string) \<Rightarrow> go_error option \<Rightarrow> go_time \<Rightarrow> uuid \<Rightarrow> uuid \<Rightarrow> string \<Rightarrow> database \<Rightarrow> pod_row result \<times> database" where
  "PreparePodDestroy ustr flt now podID jobID claimOwner =
     run_tx flt (\<lambda>db.
       case lockOwnedPodDestroyJob ustr podID jobID claimOwner db of Some e \<Rightarrow> Inl e | None \<Rightarrow>
       (case find_pod podID db of
          None \<Rightarrow> Inl (Errorf ''lock pod for destroy preparation'' [Sentinel ErrPodNotFound])
        | Some p \<Rightarrow>
            if pd_status p = ''destroyed'' then Inl (Errorf ''pod'' [Sentinel ErrPodAlreadyDestroyed])
            else
              (case authoritative_destroy ustr podID db of
                 None \<Rightarrow> Inl (Errorf ''pod has no authoritative destroy job'' [Sentinel ErrPodDestroyJobObsolete])
               | Some a \<Rightarrow>
                   if j_ID a \<noteq> jobID
                   then Inl (Errorf ''pod authoritative destroy job is another'' [Sentinel ErrPodDestroyJobObsolete])
                   else if \<not> destroySkipsVLANOwnership (pd_network_mode p) \<and>
                           \<not> podOwnsExactVLAN podID (pd_vlan_id p) (pd_subnet p) db
                   then Inl (Errorf ''pod VLAN'' [Sentinel ErrPodDestroyOwnershipLost])
                   else Inr (p\<lparr>pd_status := ''destroying''\<rparr>,
                          db\<lparr>db_pods := sql_update (\<lambda>r. pd_id r = podID)
                              (\<lambda>r. r\<lparr>pd_status := ''destroying'', pd_error_message := Some [], pd_updated_at := now\<rparr>)
                              (db_pods db)\<rparr>))))"

definition MaxPodExtensions :: nat where "MaxPodExtensions = 2"

definition ExtendPod ::
  "(uuid \<Rightarrow> string) \<Rightarrow> go_error option \<Rightarrow> uuid \<Rightarrow> go_time \<Rightarrow> uuid \<Rightarrow> uuid \<Rightarrow> go_time \<Rightarrow> database
     \<Rightarrow> attestation result \<times> database" where
  "ExtendPod ustr flt newID now podID userID newExpiry =
     run_tx flt (\<lambda>db.
       case find_pod podID db of
         None \<Rightarrow> Inl (Errorf ''lock pod for extension'' [Sentinel ErrPodNotFound])
       | Some p \<Rightarrow>
           if pd_status p \<noteq> ''active'' then Inl (Errorf ''pod status'' [Sentinel ErrPodExtensionRejected])
           else if podHasAuthoritativeDestroyJob ustr podID db
           then Inl (Errorf ''pod has authoritative destroy intent'' [Sentinel ErrPodExtensionRejected])
           else if sql_count (\<lambda>a. at_PodID a = podID) (db_attestations db) \<ge> MaxPodExtensions
           then Inl (Errorf ''pod extensions'' [Sentinel ErrPodExtensionsExhausted])
           else
             let att = \<lparr>at_ID = newID, at_PodID = podID, at_UserID = userID,
                        at_PreviousExpiresAt = pd_expires_at p, at_NewExpiresAt = newExpiry\<rparr>;
                 P = (\<lambda>r. pd_id r = podID \<and> pd_status r = ''active'') in
             if sql_count P (db_pods db) \<noteq> 1
             then Inl (Errorf ''update pod expiration'' [Sentinel ErrPodExtensionRejected])
             else Inr (att, db\<lparr>db_attestations := db_attestations db @ [att],
                    db_pods := sql_update P (\<lambda>r. r\<lparr>pd_expires_at := Some newExpiry, pd_updated_at := now\<rparr>) (db_pods db)\<rparr>))"


section \<open>The exclusion invariant\<close>

text \<open>A deletion of one machine that is already recorded as deleted may outlive the decision to destroy.\<close>

definition excluded :: "(uuid \<Rightarrow> string) \<Rightarrow> uuid \<Rightarrow> database \<Rightarrow> job \<Rightarrow> bool" where
  "excluded ustr podID db j \<longleftrightarrow> j_Type j = ''vm_destroy'' \<and>
     (\<exists>v \<in> set (db_pod_vms db). pv_PodID v = podID \<and> pv_Status v = ''deleted'' \<and> for_vm ustr (pv_ID v) j)"

definition pod_exclusive :: "(uuid \<Rightarrow> string) \<Rightarrow> database \<Rightarrow> bool" where
  "pod_exclusive ustr db \<longleftrightarrow>
     (\<forall>podID. podHasAuthoritativeDestroyJob ustr podID db \<longrightarrow>
        (\<forall>j \<in> set (db_jobs db). live_mutator ustr podID db j \<longrightarrow> excluded ustr podID db j))"

definition one_destroy :: "(uuid \<Rightarrow> string) \<Rightarrow> database \<Rightarrow> bool" where
  "one_destroy ustr db \<longleftrightarrow>
     (\<forall>podID. \<forall>j \<in> set (db_jobs db). \<forall>j' \<in> set (db_jobs db).
        j_Type j = ''pod_destroy'' \<and> for_pod ustr podID j \<and> j_Type j' = ''pod_destroy'' \<and> for_pod ustr podID j' \<longrightarrow>
        j_ID j = j_ID j')"

text \<open>A serialized job names an existing pod, and a machine only of that pod.\<close>

definition job_linked :: "(uuid \<Rightarrow> string) \<Rightarrow> database \<Rightarrow> job \<Rightarrow> bool" where
  "job_linked ustr db j \<longleftrightarrow> (j_Type j \<in> set serializedPodJobTypes \<longrightarrow>
     (\<exists>p \<in> set (db_pods db). for_pod ustr (pd_id p) j) \<and>
     (\<forall>v \<in> set (db_pod_vms db). for_vm ustr (pv_ID v) j \<longrightarrow> for_pod ustr (pv_PodID v) j))"

definition pod_wf :: "(uuid \<Rightarrow> string) \<Rightarrow> database \<Rightarrow> bool" where
  "pod_wf ustr db \<longleftrightarrow> distinct (map j_ID (db_jobs db)) \<and> distinct (map pv_ID (db_pod_vms db)) \<and>
     (\<forall>j \<in> set (db_jobs db). job_linked ustr db j) \<and> one_destroy ustr db \<and> pod_exclusive ustr db"

text \<open>
  The rest of the program, as far as it concerns these jobs: it moves jobs through their statuses
  without reviving finished ones, keeps their type and target, and may change pods and machines
  as long as it keeps their identities and never takes back a deletion.
\<close>

definition settles :: "database \<Rightarrow> database \<Rightarrow> bool" where
  "settles db db' \<longleftrightarrow>
     (\<exists>f g. db_jobs db' = map f (db_jobs db) \<and> db_pod_vms db' = map g (db_pod_vms db) \<and>
        pd_id ` set (db_pods db') = pd_id ` set (db_pods db) \<and>
        (\<forall>j \<in> set (db_jobs db). j_ID (f j) = j_ID j \<and> j_Type (f j) = j_Type j \<and>
           pget (j_Payload (f j)) ''pod_id'' = pget (j_Payload j) ''pod_id'' \<and>
           pget (j_Payload (f j)) ''pod_vm_id'' = pget (j_Payload j) ''pod_vm_id'' \<and>
           (liveStatus (j_Status (f j)) \<longrightarrow> liveStatus (j_Status j)) \<and>
           (j_Status j \<in> {JobStatusCompleted, JobStatusFailed} \<longrightarrow>
              j_Status (f j) \<in> {JobStatusCompleted, JobStatusFailed})) \<and>
        (\<forall>v \<in> set (db_pod_vms db). pv_ID (g v) = pv_ID v \<and> pv_PodID (g v) = pv_PodID v \<and>
           (pv_Status v = ''deleted'' \<longrightarrow> pv_Status (g v) = ''deleted'')))"

lemma settles_jobs:
  assumes "db_jobs db' = sql_update P f (db_jobs db)" "db_pod_vms db' = db_pod_vms db"
    "pd_id ` set (db_pods db') = pd_id ` set (db_pods db)"
    and "\<And>j. j \<in> set (db_jobs db) \<Longrightarrow> P j \<Longrightarrow>
      j_ID (f j) = j_ID j \<and> j_Type (f j) = j_Type j \<and>
      pget (j_Payload (f j)) ''pod_id'' = pget (j_Payload j) ''pod_id'' \<and>
      pget (j_Payload (f j)) ''pod_vm_id'' = pget (j_Payload j) ''pod_vm_id'' \<and> liveStatus (j_Status j)"
  shows "settles db db'"
  unfolding settles_def
proof (intro exI conjI)
  show "db_jobs db' = map (\<lambda>j. if P j then f j else j) (db_jobs db)" using assms(1) by (simp add: sql_update_def)
  show "db_pod_vms db' = map id (db_pod_vms db)" using assms(2) by simp
qed (use assms(3,4) in \<open>fastforce simp: liveStatus_def\<close>)+

lemma settles_refl: "settles db db"
  unfolding settles_def by (rule exI [of _ id], rule exI [of _ id]) simp

lemma settles_run_tx:
  "(\<And>x db'. body db = Inr (x, db') \<Longrightarrow> settles db db') \<Longrightarrow> settles db (snd (run_tx flt body db))"
  by (rule run_tx_preserves [where I = "settles db"]) (auto intro: settles_refl)

lemma settles_exec_owned:
  assumes "\<And>j. P j \<Longrightarrow> j_ID (f j) = j_ID j \<and> j_Type (f j) = j_Type j \<and>
      pget (j_Payload (f j)) ''pod_id'' = pget (j_Payload j) ''pod_id'' \<and>
      pget (j_Payload (f j)) ''pod_vm_id'' = pget (j_Payload j) ''pod_vm_id'' \<and> liveStatus (j_Status j)"
  shows "settles db (snd (run_tx flt (exec_owned P f msg) db))"
  by (rule settles_run_tx) (auto dest!: exec_owned_InrD intro!: settles_jobs [where P = P and f = f] assms)

text \<open>The queue's own operations settle jobs: claims, status updates, retries, recovery.\<close>

lemma settles_UpdateJobStatus: "settles db (snd (UpdateJobStatus flt now i w st r db))"
  unfolding UpdateJobStatus_def by (rule settles_exec_owned) (auto simp: liveStatus_def)

lemma settles_UpdateJobRollbackSteps: "settles db (snd (UpdateJobRollbackSteps flt now i w ss db))"
  unfolding UpdateJobRollbackSteps_def
  by (rule settles_exec_owned) (auto simp: liveStatus_def ownedBy_def activeStatus_def)

lemma settles_RenewJobLease: "settles db (snd (RenewJobLease flt now i w db))"
  unfolding RenewJobLease_def
  by (rule settles_run_tx)
     (auto intro!: settles_jobs [where P = "ownedBy i w" and f = "\<lambda>j. j\<lparr>j_ClaimedAt := Some now\<rparr>"]
       simp: liveStatus_def ownedBy_def activeStatus_def)

lemma settles_RecoverStaleJobs: "settles db (snd (RecoverStaleJobs flt now d db))"
  unfolding RecoverStaleJobs_def
  by (rule settles_run_tx)
     (auto intro!: settles_jobs [where P = "staleClaim now d" and
         f = "\<lambda>j. j\<lparr>j_Status := JobStatusPending, j_ClaimedBy := None, j_ClaimedAt := None, j_StartedAt := None\<rparr>"]
       simp: liveStatus_def staleClaim_def activeStatus_def)

lemma retry_payload_target:
  "pget (retry_payload c t p) ''pod_id'' = pget p ''pod_id''"
  "pget (retry_payload c t p) ''pod_vm_id'' = pget p ''pod_vm_id''"
  by (auto simp: retry_payload_def split: bool.splits option.splits)

lemma settles_RetryJob: "settles db (snd (RetryJob flt i nextAt c t w db))"
  unfolding RetryJob_def
proof (rule settles_run_tx)
  fix x :: unit and db'
  assume *: "(let updated = (\<exists>j \<in> set (db_jobs db). ownedBy i w j);
           alreadyScheduled =
             (\<exists>j \<in> set (db_jobs db). j_ID j = i \<and> j_Status j = JobStatusPending \<and> c \<and>
                ptrue (j_Payload j) ''cleanup_only'' \<and>
                (t = None \<or> pget (j_Payload j) ''cleanup_target'' = t));
           db' = db\<lparr>db_jobs := sql_update (ownedBy i w)
                   (\<lambda>j. j\<lparr>j_Status := JobStatusPending, j_RetryCount := j_RetryCount j + 1,
                          j_ClaimedBy := None, j_ClaimedAt := None, j_StartedAt := None,
                          j_CompletedAt := None, j_NextAttemptAt := Some nextAt,
                          j_Payload := retry_payload c t (j_Payload j)\<rparr>)
                   (db_jobs db)\<rparr>
       in if \<not> updated \<and> \<not> alreadyScheduled
          then Inl (Errorf ''job is not owned for retry scheduling'' [Sentinel ErrJobLeaseLost])
          else Inr ((), db')) = Inr (x, db')"
  show "settles db db'"
  proof (rule settles_jobs [where P = "ownedBy i w" and f = "\<lambda>j. j\<lparr>j_Status := JobStatusPending, j_RetryCount := j_RetryCount j + 1,
                          j_ClaimedBy := None, j_ClaimedAt := None, j_StartedAt := None,
                          j_CompletedAt := None, j_NextAttemptAt := Some nextAt,
                          j_Payload := retry_payload c t (j_Payload j)\<rparr>"])
  qed (use * in \<open>auto simp: Let_def retry_payload_target liveStatus_def ownedBy_def activeStatus_def split: if_splits\<close>)
qed

lemma settles_ClaimJob:
  assumes dist: "distinct (map j_ID (db_jobs db))"
  shows "settles db (snd (ClaimJob flt now locked w en db))"
  unfolding ClaimJob_def
proof (rule settles_run_tx)
  fix x db'
  let ?f = "\<lambda>r. r\<lparr>j_Status := JobStatusClaimed, j_ClaimedBy := Some w, j_ClaimedAt := Some now\<rparr>"
  assume body: "(case sort_key j_CreatedAt (filter (claimable now locked en) (db_jobs db)) of
         [] \<Rightarrow> Inr (None, db)
       | j # _ \<Rightarrow>
           let f = ?f in Inr (Some (f j), db\<lparr>db_jobs := sql_update (\<lambda>r. j_ID r = j_ID j) f (db_jobs db)\<rparr>))
       = Inr (x, db')"
  show "settles db db'"
  proof (cases "sort_key j_CreatedAt (filter (claimable now locked en) (db_jobs db))")
    case Nil
    with body show ?thesis by (simp add: settles_refl)
  next
    case (Cons j rest)
    from claim_head [OF Cons] have j: "j \<in> set (db_jobs db)" "liveStatus (j_Status j)"
      by (auto simp: claimable_def liveStatus_def)
    have "db' = db\<lparr>db_jobs := sql_update (\<lambda>r. j_ID r = j_ID j) ?f (db_jobs db)\<rparr>"
      using body Cons by (simp add: Let_def)
    then show ?thesis
      by (intro settles_jobs [where P = "\<lambda>r. j_ID r = j_ID j" and f = ?f])
         (use distinct_key_eq [OF dist _ j(1)] j(2) in auto)
  qed
qed

text \<open>What the code relies on of \<open>uuid.UUID.String\<close>: different identifiers have different, nonempty texts.\<close>

definition uuid_text :: "(uuid \<Rightarrow> string) \<Rightarrow> bool" where
  "uuid_text ustr \<longleftrightarrow> inj ustr \<and> (\<forall>u. ustr u \<noteq> [])"

lemma for_pod_inj: "inj ustr \<Longrightarrow> for_pod ustr a j \<Longrightarrow> for_pod ustr b j \<Longrightarrow> a = b"
  by (auto simp: for_pod_def dest: injD)

lemma for_vm_inj: "inj ustr \<Longrightarrow> for_vm ustr a j \<Longrightarrow> for_vm ustr b j \<Longrightarrow> a = b"
  by (auto simp: for_vm_def dest: injD)

lemma mutator_serialized: "t \<in> set serializedPodMutatorTypes \<Longrightarrow> t \<in> set serializedPodJobTypes \<and> t \<noteq> ''pod_destroy''"
  by (simp add: serializedPodMutatorTypes_def)

lemma linked_target:
  "job_linked ustr db j \<Longrightarrow> j_Type j \<in> set serializedPodJobTypes \<Longrightarrow>
     targets_pod ustr podID db j \<longleftrightarrow> for_pod ustr podID j"
  by (auto simp: job_linked_def targets_pod_def)

text \<open>Under the links, a live mutator of a pod is one whose payload names the pod.\<close>

lemma live_mutator_linked:
  "pod_wf ustr db \<Longrightarrow> j \<in> set (db_jobs db) \<Longrightarrow>
     live_mutator ustr podID db j \<longleftrightarrow>
       j_Type j \<in> set serializedPodMutatorTypes \<and> liveStatus (j_Status j) \<and> for_pod ustr podID j"
  unfolding live_mutator_def pod_wf_def using linked_target mutator_serialized by blast

lemma settles_wf:
  assumes wf: "pod_wf ustr db" and st: "settles db db'"
  shows "pod_wf ustr db'"
proof -
  from st obtain f g where
    jobs: "db_jobs db' = map f (db_jobs db)" and vms: "db_pod_vms db' = map g (db_pod_vms db)" and
    pods: "pd_id ` set (db_pods db') = pd_id ` set (db_pods db)" and
    f: "\<And>j. j \<in> set (db_jobs db) \<Longrightarrow> j_ID (f j) = j_ID j \<and> j_Type (f j) = j_Type j \<and>
           pget (j_Payload (f j)) ''pod_id'' = pget (j_Payload j) ''pod_id'' \<and>
           pget (j_Payload (f j)) ''pod_vm_id'' = pget (j_Payload j) ''pod_vm_id'' \<and>
           (liveStatus (j_Status (f j)) \<longrightarrow> liveStatus (j_Status j)) \<and>
           (j_Status j \<in> {JobStatusCompleted, JobStatusFailed} \<longrightarrow>
              j_Status (f j) \<in> {JobStatusCompleted, JobStatusFailed})" and
    g: "\<And>v. v \<in> set (db_pod_vms db) \<Longrightarrow> pv_ID (g v) = pv_ID v \<and> pv_PodID (g v) = pv_PodID v \<and>
           (pv_Status v = ''deleted'' \<longrightarrow> pv_Status (g v) = ''deleted'')"
    unfolding settles_def by blast
  have fp: "for_pod ustr podID (f j) \<longleftrightarrow> for_pod ustr podID j" if "j \<in> set (db_jobs db)" for podID j
    using f[OF that] by (simp add: for_pod_def)
  have fv: "for_vm ustr vm (f j) \<longleftrightarrow> for_vm ustr vm j" if "j \<in> set (db_jobs db)" for vm j
    using f[OF that] by (simp add: for_vm_def)
  have ids: "map j_ID (db_jobs db') = map j_ID (db_jobs db)" "map pv_ID (db_pod_vms db') = map pv_ID (db_pod_vms db)"
    using f g by (simp_all add: jobs vms)
  have linked: "job_linked ustr db' (f j)" if "j \<in> set (db_jobs db)" for j
  proof -
    have l: "job_linked ustr db j" using wf that by (simp add: pod_wf_def)
    have "(\<exists>p \<in> set (db_pods db'). for_pod ustr (pd_id p) (f j)) \<longleftrightarrow> (\<exists>p \<in> set (db_pods db). for_pod ustr (pd_id p) j)"
      using fp[OF that] pods by (metis (no_types, lifting) image_iff)
    with l show ?thesis using f[OF that] g fv[OF that] fp[OF that] by (auto simp: job_linked_def vms)
  qed
  have tgt: "targets_pod ustr podID db' (f j) \<longleftrightarrow> targets_pod ustr podID db j" if "j \<in> set (db_jobs db)" for podID j
    using g fp[OF that] fv[OF that] by (auto simp: targets_pod_def vms)
  have lm: "live_mutator ustr podID db j" if "j \<in> set (db_jobs db)" "live_mutator ustr podID db' (f j)" for podID j
    using that f[OF that(1)] tgt[OF that(1)] by (auto simp: live_mutator_def)
  have ex: "excluded ustr podID db' (f j)" if "j \<in> set (db_jobs db)" "excluded ustr podID db j" for podID j
    using that f[OF that(1)] g fv[OF that(1)] by (fastforce simp: excluded_def vms)
  have auth: "podHasAuthoritativeDestroyJob ustr podID db" if a: "podHasAuthoritativeDestroyJob ustr podID db'" for podID
  proof -
    from a obtain j where "j \<in> set (db_jobs db)" "j_Type (f j) = ''pod_destroy''" "for_pod ustr podID (f j)"
        "j_Status (f j) \<notin> {JobStatusCompleted, JobStatusFailed}"
      by (auto simp: podHasAuthoritativeDestroyJob_def jobs)
    with f[of j] fp[of j] show ?thesis unfolding podHasAuthoritativeDestroyJob_def by metis
  qed
  have "pod_exclusive ustr db'"
    using wf auth lm ex by (fastforce simp: pod_wf_def pod_exclusive_def jobs)
  moreover have "one_destroy ustr db'"
    unfolding one_destroy_def jobs set_map ball_simps
  proof (intro allI ballI impI)
    fix podID j j'
    assume j: "j \<in> set (db_jobs db)" "j' \<in> set (db_jobs db)"
      and a: "j_Type (f j) = ''pod_destroy'' \<and> for_pod ustr podID (f j) \<and>
        j_Type (f j') = ''pod_destroy'' \<and> for_pod ustr podID (f j')"
    then show "j_ID (f j) = j_ID (f j')"
      using wf f[OF j(1)] f[OF j(2)] fp[OF j(1)] fp[OF j(2)] unfolding pod_wf_def one_destroy_def by metis
  qed
  moreover have "\<forall>j \<in> set (db_jobs db'). job_linked ustr db' j" using linked by (simp add: jobs)
  ultimately show ?thesis using wf unfolding pod_wf_def ids by blast
qed

lemma excluded_jobs [simp]: "excluded ustr podID (db\<lparr>db_jobs := js\<rparr>) j = excluded ustr podID db j"
  by (simp add: excluded_def)

lemma live_mutator_jobs [simp]: "live_mutator ustr podID (db\<lparr>db_jobs := js\<rparr>) j = live_mutator ustr podID db j"
  by (simp add: live_mutator_def targets_pod_def)

lemma job_linked_jobs [simp]: "job_linked ustr (db\<lparr>db_jobs := js\<rparr>) j = job_linked ustr db j"
  by (simp add: job_linked_def)

lemma wf_add_job:
  assumes inj: "inj ustr" and wf: "pod_wf ustr db" and fresh: "j_ID j \<notin> j_ID ` set (db_jobs db)"
    and pod: "podID \<in> pd_id ` set (db_pods db)" "for_pod ustr podID j"
    and vm: "\<And>v. v \<in> set (db_pod_vms db) \<Longrightarrow> for_vm ustr (pv_ID v) j \<Longrightarrow> pv_PodID v = podID"
    and kind: "j_Type j \<in> set serializedPodMutatorTypes \<and> \<not> podHasAuthoritativeDestroyJob ustr podID db \<or>
      j_Type j = ''pod_destroy'' \<and> (\<forall>j' \<in> set (db_jobs db). live_mutator ustr podID db j' \<longrightarrow> excluded ustr podID db j') \<and>
        (\<forall>j' \<in> set (db_jobs db). j_Type j' = ''pod_destroy'' \<longrightarrow> \<not> for_pod ustr podID j')"
  shows "pod_wf ustr (db\<lparr>db_jobs := db_jobs db @ [j]\<rparr>)"
proof -
  let ?db = "db\<lparr>db_jobs := db_jobs db @ [j]\<rparr>"
  have linked: "job_linked ustr db j" using pod vm by (auto simp: job_linked_def)
  have other: "\<not> for_pod ustr q j" if "q \<noteq> podID" for q using for_pod_inj[OF inj] pod(2) that by blast
  have target: "targets_pod ustr q db j \<longrightarrow> q = podID" for q
    using other vm by (auto simp: targets_pod_def)
  have "pod_exclusive ustr ?db"
    unfolding pod_exclusive_def
  proof (intro allI impI ballI)
    fix q j' assume a: "podHasAuthoritativeDestroyJob ustr q ?db" and j': "j' \<in> set (db_jobs ?db)"
      and m: "live_mutator ustr q ?db j'"
    show "excluded ustr q ?db j'"
    proof (cases "podHasAuthoritativeDestroyJob ustr q db")
      case True
      have "j' \<noteq> j"
      proof
        assume "j' = j"
        with m have "live_mutator ustr q db j" by simp
        then have "q = podID" "j_Type j \<in> set serializedPodMutatorTypes" using target by (auto simp: live_mutator_def)
        with kind True mutator_serialized show False by auto
      qed
      with True j' m wf show ?thesis by (auto simp: pod_wf_def pod_exclusive_def)
    next
      case False
      with a have d: "j_Type j = ''pod_destroy''" "for_pod ustr q j"
        by (auto simp: podHasAuthoritativeDestroyJob_def)
      then have q: "q = podID" using other by blast
      have "j' \<noteq> j" using d m mutator_serialized by (auto simp: live_mutator_def)
      with d q j' m kind mutator_serialized show ?thesis by auto
    qed
  qed
  moreover have "one_destroy ustr ?db"
    unfolding one_destroy_def
  proof (intro allI ballI impI)
    fix q a b
    assume ab: "a \<in> set (db_jobs ?db)" "b \<in> set (db_jobs ?db)"
      and d: "j_Type a = ''pod_destroy'' \<and> for_pod ustr q a \<and> j_Type b = ''pod_destroy'' \<and> for_pod ustr q b"
    have old: "x \<in> set (db_jobs db)"
      if "x \<in> set (db_jobs ?db)" "y \<in> set (db_jobs db)" "j_Type x = ''pod_destroy''" "for_pod ustr q x"
        "j_Type y = ''pod_destroy''" "for_pod ustr q y" for x y
    proof (rule ccontr)
      assume "x \<notin> set (db_jobs db)"
      with that have "x = j" by simp
      with that kind mutator_serialized other show False by metis
    qed
    show "j_ID a = j_ID b"
    proof (cases "a \<in> set (db_jobs db) \<or> b \<in> set (db_jobs db)")
      case True
      then have "a \<in> set (db_jobs db)" "b \<in> set (db_jobs db)" using old d ab by blast+
      with d wf show ?thesis by (auto simp: pod_wf_def one_destroy_def)
    next
      case False
      with ab show ?thesis by simp
    qed
  qed
  ultimately show ?thesis using wf fresh linked by (simp add: pod_wf_def)
qed

lemma wf_add_vm:
  assumes wf: "pod_wf ustr db" and id: "pv_ID v \<notin> pv_ID ` set (db_pod_vms db)"
    and fresh: "\<And>j. j \<in> set (db_jobs db) \<Longrightarrow> \<not> for_vm ustr (pv_ID v) j"
  shows "pod_wf ustr (db\<lparr>db_pod_vms := db_pod_vms db @ [v]\<rparr>)"
proof -
  let ?db = "db\<lparr>db_pod_vms := db_pod_vms db @ [v]\<rparr>"
  have "job_linked ustr ?db j \<longleftrightarrow> job_linked ustr db j" "live_mutator ustr q ?db j \<longleftrightarrow> live_mutator ustr q db j"
      "excluded ustr q ?db j \<longleftrightarrow> excluded ustr q db j"
    if "j \<in> set (db_jobs db)" for q j
    using fresh[OF that] by (auto simp: job_linked_def live_mutator_def targets_pod_def excluded_def)
  moreover have "podHasAuthoritativeDestroyJob ustr q ?db \<longleftrightarrow> podHasAuthoritativeDestroyJob ustr q db" for q
    by (simp add: podHasAuthoritativeDestroyJob_def)
  moreover have "one_destroy ustr ?db \<longleftrightarrow> one_destroy ustr db" by (simp add: one_destroy_def)
  ultimately show ?thesis using wf id unfolding pod_wf_def pod_exclusive_def by simp
qed

lemma wf_same_jobs:
  assumes "pod_wf ustr db" "db_jobs db' = db_jobs db" "db_pod_vms db' = db_pod_vms db"
    "pd_id ` set (db_pods db) \<subseteq> pd_id ` set (db_pods db')"
  shows "pod_wf ustr db'"
proof -
  have "job_linked ustr db' j" if "job_linked ustr db j" for j
    using that assms(3,4) by (fastforce simp: job_linked_def image_subset_iff image_iff)
  moreover have "live_mutator ustr q db' j = live_mutator ustr q db j" "excluded ustr q db' j = excluded ustr q db j"
      "podHasAuthoritativeDestroyJob ustr q db' = podHasAuthoritativeDestroyJob ustr q db" for q j
    using assms(2,3) by (simp_all add: live_mutator_def targets_pod_def excluded_def podHasAuthoritativeDestroyJob_def)
  moreover have "one_destroy ustr db' \<longleftrightarrow> one_destroy ustr db" by (simp add: one_destroy_def assms(2))
  ultimately show ?thesis using assms(1) unfolding pod_wf_def pod_exclusive_def assms(2,3) by simp
qed

lemma createJob_InrD:
  "createJob i now ty p db = Inr (j, db') \<Longrightarrow>
     i \<notin> j_ID ` set (db_jobs db) \<and> j = new_job i now ty p \<and> db' = db\<lparr>db_jobs := db_jobs db @ [j]\<rparr>"
  by (auto simp: createJob_def Let_def split: if_splits)

lemma payload_text_Inr: "payload_text p k = Inr s \<Longrightarrow> s \<noteq> [] \<Longrightarrow> pget p k = Some (JStr s)"
  by (auto simp: payload_text_def split: option.splits json.splits)

lemma validatePodJobPayload_None:
  assumes "validatePodJobPayload ustr p podID podVMID = None" "uuid_text ustr"
  shows "pget p ''pod_id'' = Some (JStr (ustr podID))"
    "podVMID = Some v \<Longrightarrow> pget p ''pod_vm_id'' = Some (JStr (ustr v))"
  using assms by (auto simp: validatePodJobPayload_def uuid_text_def split: sum.splits if_splits intro!: payload_text_Inr)

lemma new_job_for [simp]:
  "for_pod ustr q (new_job i now ty p) \<longleftrightarrow> pget p ''pod_id'' = Some (JStr (ustr q))"
  "for_vm ustr v (new_job i now ty p) \<longleftrightarrow> pget p ''pod_vm_id'' = Some (JStr (ustr v))"
  "j_Type (new_job i now ty p) = ty" "j_ID (new_job i now ty p) = i"
  by (simp_all add: for_pod_def for_vm_def new_job_def)

text \<open>What the check before a destroy leaves: every live mutator is the excluded deletion.\<close>

lemma reject_None:
  assumes "rejectPodDestroyWithNonterminalMutator ustr podID req ex db = None" "distinct (map j_ID (db_jobs db))"
    "j \<in> set (db_jobs db)" "live_mutator ustr podID db j"
  shows "excluded ustr podID db j"
proof -
  from assms(1,3,4) obtain e where e: "ex = Some e" "valid_exclusion ustr podID e db" "j_ID j = ex_JobID e"
    by (auto simp: rejectPodDestroyWithNonterminalMutator_def split: option.splits if_splits sum.splits)
  from e(2) obtain j0 v where v: "j0 \<in> set (db_jobs db)" "v \<in> set (db_pod_vms db)" "pv_PodID v = podID"
      "pv_Status v = ''deleted''" "j_ID j0 = ex_JobID e" "j_Type j0 = ''vm_destroy''" "for_vm ustr (pv_ID v) j0"
    by (auto simp: valid_exclusion_def)
  have "j0 = j" using assms(2,3) v(1,5) e(3) by (metis distinct_key_eq)
  with v show ?thesis by (auto simp: excluded_def)
qed

lemma authoritative_destroy_None:
  assumes "authoritative_destroy ustr podID db = None" "j \<in> set (db_jobs db)" "j_Type j = ''pod_destroy''"
  shows "\<not> for_pod ustr podID j"
proof -
  let ?xs = "filter (\<lambda>j. j_Type j = ''pod_destroy'' \<and> for_pod ustr podID j) (db_jobs db)"
  have "sort_key (\<lambda>j. (j_CreatedAt j, j_ID j)) ?xs = []"
    using assms(1) unfolding authoritative_destroy_def
    by (cases "sort_key (\<lambda>j. (j_CreatedAt j, j_ID j)) ?xs") simp_all
  then have "set (sort_key (\<lambda>j. (j_CreatedAt j, j_ID j)) ?xs) = {}" by (simp only: list.set)
  then have "set ?xs = {}" by (simp only: set_sort)
  with assms(2,3) show ?thesis by auto
qed

lemma authoritative_destroy_Some:
  assumes "authoritative_destroy ustr podID db = Some j"
  shows "j \<in> set (db_jobs db) \<and> j_Type j = ''pod_destroy'' \<and> for_pod ustr podID j"
proof -
  let ?xs = "filter (\<lambda>j. j_Type j = ''pod_destroy'' \<and> for_pod ustr podID j) (db_jobs db)"
  obtain rest where "sort_key (\<lambda>j. (j_CreatedAt j, j_ID j)) ?xs = j # rest"
    using assms unfolding authoritative_destroy_def
    by (cases "sort_key (\<lambda>j. (j_CreatedAt j, j_ID j)) ?xs") simp_all
  then show ?thesis by (rule claim_head)
qed

lemma wf_requeue:
  assumes ut: "uuid_text ustr" and wf: "pod_wf ustr db" and d: "d \<in> set (db_jobs db)" "j_Type d = ''pod_destroy''" "for_pod ustr podID d"
    and rq: "requeue_destroy (j_ID d) (j_Status d) db = Inr db'"
    and m: "\<And>j. j \<in> set (db_jobs db) \<Longrightarrow> live_mutator ustr podID db j \<Longrightarrow> excluded ustr podID db j"
  shows "pod_wf ustr db'"
proof -
  let ?P = "\<lambda>j. j_ID j = j_ID d \<and> j_Status j = j_Status d"
  let ?f = "\<lambda>j. j\<lparr>j_Status := JobStatusPending, j_ClaimedBy := None, j_ClaimedAt := None, j_StartedAt := None,
                    j_CompletedAt := None, j_Result := None, j_NextAttemptAt := None, j_RetryCount := 0\<rparr>"
  let ?h = "\<lambda>j. if ?P j then ?f j else j"
  have db': "db' = db\<lparr>db_jobs := map ?h (db_jobs db)\<rparr>"
    using rq by (auto simp: requeue_destroy_def Let_def sql_update_def split: if_splits)
  have hit: "j = d" if "j \<in> set (db_jobs db)" "?P j" for j
    using that d(1) wf by (metis distinct_key_eq pod_wf_def)
  have same: "j_ID (?h j) = j_ID j" "j_Type (?h j) = j_Type j" "for_pod ustr q (?h j) = for_pod ustr q j"
      "for_vm ustr v (?h j) = for_vm ustr v j" for j q v
    by (simp_all add: for_pod_def for_vm_def)
  have lm: "live_mutator ustr q db j" if "j \<in> set (db_jobs db)" "live_mutator ustr q db (?h j)" for q j
    using that hit[OF that(1)] d(2) mutator_serialized by (auto simp: live_mutator_def split: if_splits)
  have ex: "excluded ustr q db (?h j) = excluded ustr q db j" "job_linked ustr db (?h j) = job_linked ustr db j" for q j
    by (simp_all add: excluded_def job_linked_def same)
  have auth: "podHasAuthoritativeDestroyJob ustr q db \<or> q = podID" if a: "podHasAuthoritativeDestroyJob ustr q db'" for q
  proof -
    from a obtain j where "j \<in> set (db_jobs db)" "j_Type (?h j) = ''pod_destroy''" "for_pod ustr q (?h j)"
        "j_Status (?h j) \<notin> {JobStatusCompleted, JobStatusFailed}"
      unfolding podHasAuthoritativeDestroyJob_def db' by auto
    then show ?thesis
      using hit[of j] d(3) ut for_pod_inj[of ustr q j podID] unfolding podHasAuthoritativeDestroyJob_def uuid_text_def same
      by (cases "?P j") auto
  qed
  have "pod_exclusive ustr db'"
    unfolding pod_exclusive_def
  proof (intro allI impI ballI)
    fix q j assume a: "podHasAuthoritativeDestroyJob ustr q db'" and j: "j \<in> set (db_jobs db')" and l: "live_mutator ustr q db' j"
    from j obtain j0 where j0: "j0 \<in> set (db_jobs db)" "j = ?h j0" by (auto simp: db')
    have "live_mutator ustr q db j0" using lm[OF j0(1)] l j0(2) by (simp add: db')
    then have "excluded ustr q db j0"
      using auth[OF a] wf m j0(1) by (auto simp: pod_wf_def pod_exclusive_def)
    then show "excluded ustr q db' j" using ex j0(2) by (simp add: db')
  qed
  moreover have "one_destroy ustr db'"
  proof -
    have "j_ID a = j_ID b" if "a \<in> set (db_jobs db)" "b \<in> set (db_jobs db)" "j_Type a = ''pod_destroy''" "for_pod ustr q a"
        "j_Type b = ''pod_destroy''" "for_pod ustr q b" for a b q
      using wf that unfolding pod_wf_def one_destroy_def by blast
    note uniq = this
    show ?thesis
      unfolding one_destroy_def
    proof (intro allI ballI impI)
      fix q a b
      assume ab: "a \<in> set (db_jobs db')" "b \<in> set (db_jobs db')"
        and t: "j_Type a = ''pod_destroy'' \<and> for_pod ustr q a \<and> j_Type b = ''pod_destroy'' \<and> for_pod ustr q b"
      from ab obtain a0 b0 where ab0: "a0 \<in> set (db_jobs db)" "a = ?h a0" "b0 \<in> set (db_jobs db)" "b = ?h b0"
        unfolding db' by auto
      have "j_ID a0 = j_ID b0"
        by (rule uniq[OF ab0(1,3), of q]) (use t in \<open>simp_all only: ab0 same\<close>)
      then show "j_ID a = j_ID b" by (simp add: ab0)
    qed
  qed
  moreover have "map j_ID (db_jobs db') = map j_ID (db_jobs db)" "db_pod_vms db' = db_pod_vms db"
    by (simp_all add: db')
  moreover have "\<forall>j \<in> set (db_jobs db'). job_linked ustr db' j"
  proof
    fix j assume "j \<in> set (db_jobs db')"
    then obtain j0 where j0: "j0 \<in> set (db_jobs db)" "j = ?h j0" by (auto simp: db')
    have "job_linked ustr db j0" using wf j0(1) by (simp add: pod_wf_def)
    then have "job_linked ustr db (?h j0)" using ex(2)[of j0] by blast
    then show "job_linked ustr db' j" unfolding j0(2) db' by (simp only: job_linked_jobs)
  qed
  ultimately show ?thesis using wf unfolding pod_wf_def by metis
qed

lemma find_podD: "find_pod podID db = Some p \<Longrightarrow> p \<in> set (db_pods db) \<and> pd_id p = podID"
  by (auto simp: find_Some_iff)

lemma find_pod_id: "find_pod podID db = Some p \<Longrightarrow> podID \<in> pd_id ` set (db_pods db)"
  using find_podD by blast

lemma wf_run_tx:
  assumes "pod_wf ustr db" "\<And>x db'. body db = Inr (x, db') \<Longrightarrow> pod_wf ustr db'"
  shows "pod_wf ustr (snd (run_tx flt body db))"
  using assms by (rule run_tx_preserves)

lemma wf_vm_job_tx:
  assumes ut: "uuid_text ustr" and wf: "pod_wf ustr db" and ty: "jobType \<in> set serializedPodMutatorTypes"
    and pl: "validatePodJobPayload ustr payload podID (Some podVMID) = None"
    and tx: "vm_job_tx ustr newID now podID podVMID jobType payload db = Inr (x, db')"
  shows "pod_wf ustr db'"
proof -
  note pl = validatePodJobPayload_None[OF pl ut]
  from tx obtain p v where p: "find_pod podID db = Some p" "\<not> podHasAuthoritativeDestroyJob ustr podID db"
      "find (\<lambda>v. pv_ID v = podVMID \<and> pv_PodID v = podID) (db_pod_vms db) = Some v"
      "createJob newID now jobType payload db = Inr (x, db')"
    by (auto simp: vm_job_tx_def split: option.splits if_splits sum.splits)
  from p(3) have v: "v \<in> set (db_pod_vms db)" "pv_ID v = podVMID" "pv_PodID v = podID" by (auto simp: find_Some_iff)
  from createJob_InrD[OF p(4)] have c: "newID \<notin> j_ID ` set (db_jobs db)" "x = new_job newID now jobType payload"
      "db' = db\<lparr>db_jobs := db_jobs db @ [x]\<rparr>" by auto
  have link: "pv_PodID w = podID" if "w \<in> set (db_pod_vms db)" "for_vm ustr (pv_ID w) x" for w
  proof -
    have "pv_ID w = podVMID" using that(2) pl(2) ut by (auto simp: c uuid_text_def dest: injD)
    with that(1) v wf show ?thesis by (metis distinct_key_eq pod_wf_def)
  qed
  show ?thesis
    unfolding c(3)
    by (rule wf_add_job[OF _ wf, where podID = podID])
       (use ut find_pod_id[OF p(1)] p(2) pl(1) ty c link in \<open>auto simp: uuid_text_def\<close>)
qed

lemma wf_CreateVMJob:
  assumes "uuid_text ustr" "pod_wf ustr db"
  shows "pod_wf ustr (snd (CreateVMJob ustr flt newID now podID podVMID jobType payload db))"
proof (cases "jobType \<in> set serializedExistingVMJobTypes \<and> validatePodJobPayload ustr payload podID (Some podVMID) = None")
  case False
  then show ?thesis using assms(2) by (auto simp: CreateVMJob_def split: option.splits)
next
  case True
  have "jobType \<in> set serializedPodMutatorTypes"
    using True by (auto simp: serializedExistingVMJobTypes_def serializedPodMutatorTypes_def serializedPodJobTypes_def)
  then have "pod_wf ustr (snd (run_tx flt (vm_job_tx ustr newID now podID podVMID jobType payload) db))"
    using wf_run_tx[OF assms(2), of "vm_job_tx ustr newID now podID podVMID jobType payload" flt]
      wf_vm_job_tx[OF assms _ conjunct2[OF True]] by blast
  then show ?thesis using True by (simp add: CreateVMJob_def)
qed

lemma wf_createVMAddJobTx:
  assumes ut: "uuid_text ustr" and wf: "pod_wf ustr db" and fresh: "\<And>j. j \<in> set (db_jobs db) \<Longrightarrow> \<not> for_vm ustr (pv_ID vm) j"
    and tx: "createVMAddJobTx ustr newID now vm payload db = Inr (x, db')"
  shows "pod_wf ustr db'"
proof -
  from tx obtain p db1 where pl: "validatePodJobPayload ustr payload (pv_PodID vm) (Some (pv_ID vm)) = None"
      and p: "find_pod (pv_PodID vm) db = Some p" "\<not> podHasAuthoritativeDestroyJob ustr (pv_PodID vm) db"
        "insert_vm vm db = Inr db1" "createJob newID now ''vm_add'' payload db1 = Inr (x, db')"
    unfolding createVMAddJobTx_def by (auto split: option.split_asm if_split_asm sum.split_asm)
  note pl = validatePodJobPayload_None[OF pl ut]
  from p(3) have new: "pv_ID vm \<notin> pv_ID ` set (db_pod_vms db)" and db1: "db1 = db\<lparr>db_pod_vms := db_pod_vms db @ [pending_vm vm]\<rparr>"
    by (auto simp: insert_vm_def split: if_splits)
  have wf1: "pod_wf ustr db1"
    unfolding db1 by (rule wf_add_vm[OF wf]) (use new fresh in \<open>auto simp: pending_vm_def\<close>)
  from createJob_InrD[OF p(4)] have c: "newID \<notin> j_ID ` set (db_jobs db1)" "x = new_job newID now ''vm_add'' payload"
      "db' = db1\<lparr>db_jobs := db_jobs db1 @ [x]\<rparr>" by auto
  have link: "pv_PodID w = pv_PodID vm" if w: "w \<in> set (db_pod_vms db1)" "for_vm ustr (pv_ID w) x" for w
  proof -
    have "pv_ID w = pv_ID vm" using w(2) pl(2) ut by (auto simp: c uuid_text_def dest: injD)
    then have "w \<notin> set (db_pod_vms db)" using new by (metis imageI)
    with w(1) show ?thesis by (simp add: db1 pending_vm_def)
  qed
  show ?thesis
    unfolding c(3)
  proof (rule wf_add_job[OF _ wf1, where podID = "pv_PodID vm"])
    show "j_Type x \<in> set serializedPodMutatorTypes \<and> \<not> podHasAuthoritativeDestroyJob ustr (pv_PodID vm) db1 \<or>
      j_Type x = ''pod_destroy'' \<and> (\<forall>j' \<in> set (db_jobs db1). live_mutator ustr (pv_PodID vm) db1 j' \<longrightarrow> excluded ustr (pv_PodID vm) db1 j') \<and>
        (\<forall>j' \<in> set (db_jobs db1). j_Type j' = ''pod_destroy'' \<longrightarrow> \<not> for_pod ustr (pv_PodID vm) j')"
      using p(2) by (simp add: c db1 podHasAuthoritativeDestroyJob_def serializedPodMutatorTypes_def serializedPodJobTypes_def)
  qed (use ut find_pod_id[OF p(1)] pl(1) c link in \<open>auto simp: uuid_text_def db1\<close>)
qed

lemma wf_pod_destroy_tx:
  assumes ut: "uuid_text ustr" and wf: "pod_wf ustr db" and pl: "validatePodJobPayload ustr payload podID None = None"
    and novm: "\<And>v. v \<in> set (db_pod_vms db) \<Longrightarrow> pget payload ''pod_vm_id'' = Some (JStr (ustr (pv_ID v))) \<Longrightarrow> pv_PodID v = podID"
    and tx: "pod_destroy_tx ustr newID now podID payload req ex db = Inr (x, db')"
  shows "pod_wf ustr db'"
proof -
  from tx obtain p where p: "find_pod podID db = Some p" by (auto simp: pod_destroy_tx_def split: option.splits)
  have pid: "pd_id p = podID" using find_podD[OF p] by simp
  have dist: "distinct (map j_ID (db_jobs db))" using wf by (simp add: pod_wf_def)
  show ?thesis
  proof (cases "authoritative_destroy ustr podID db")
    case (Some e)
    with tx p have r: "reuse_destroy ustr now p req ex e db = Inr (x, db')" by (simp add: pod_destroy_tx_def)
    note e = authoritative_destroy_Some[OF Some]
    have "db' = db \<or> (rejectPodDestroyWithNonterminalMutator ustr podID req ex db = None \<and>
        requeue_destroy (j_ID e) (j_Status e) db = Inr db')"
      using r by (auto simp: reuse_destroy_def Let_def pid split: if_splits sum.splits option.splits)
    then show ?thesis
      using wf wf_requeue[OF ut wf, of e podID db'] e reject_None[OF _ dist] by blast
  next
    case None
    with tx p have "first_destroy ustr newID now p payload req ex db = Inr (x, db')" by (simp add: pod_destroy_tx_def)
    then obtain j where j: "rejectPodDestroyWithNonterminalMutator ustr podID req ex db = None"
        "createJob newID now ''pod_destroy'' payload db = Inr (j, db')"
      by (auto simp: first_destroy_def Let_def pid split: if_splits sum.splits option.splits)
    note pl = validatePodJobPayload_None[OF pl ut]
    from createJob_InrD[OF j(2)] have c: "newID \<notin> j_ID ` set (db_jobs db)" "j = new_job newID now ''pod_destroy'' payload"
        "db' = db\<lparr>db_jobs := db_jobs db @ [j]\<rparr>" by auto
    show ?thesis
      unfolding c(3)
      by (rule wf_add_job[OF _ wf, where podID = podID])
         (use ut find_pod_id[OF p] pl(1) c novm reject_None[OF j(1) dist] authoritative_destroy_None[OF None]
           in \<open>auto simp: uuid_text_def\<close>)
  qed
qed

lemma wf_pod_create:
  assumes ut: "uuid_text ustr" and wf: "pod_wf ustr db" and new: "pd_id p \<notin> pd_id ` set (db_pods db)"
    and novm: "pget payload ''pod_vm_id'' = None"
    and tx: "CreatePodCreateJobTx ustr i now (pd_id p) payload (db\<lparr>db_pods := db_pods db @ [p]\<rparr>) = Inr (j, db')"
  shows "pod_wf ustr db'"
proof -
  let ?db = "db\<lparr>db_pods := db_pods db @ [p]\<rparr>"
  from tx have pl: "validatePodJobPayload ustr payload (pd_id p) None = None"
      and c0: "createJob i now ''pod_create'' payload ?db = Inr (j, db')"
    by (auto simp: CreatePodCreateJobTx_def split: option.splits if_splits sum.splits)
  from createJob_InrD[OF c0] have c: "i \<notin> j_ID ` set (db_jobs ?db)" "j = new_job i now ''pod_create'' payload"
      "db' = ?db\<lparr>db_jobs := db_jobs ?db @ [j]\<rparr>" by auto
  have wf1: "pod_wf ustr ?db" by (rule wf_same_jobs[OF wf]) auto
  have none: "\<not> podHasAuthoritativeDestroyJob ustr (pd_id p) ?db"
  proof
    assume "podHasAuthoritativeDestroyJob ustr (pd_id p) ?db"
    then obtain d where d: "d \<in> set (db_jobs db)" "j_Type d = ''pod_destroy''" "for_pod ustr (pd_id p) d"
      by (auto simp: podHasAuthoritativeDestroyJob_def)
    have "job_linked ustr db d" using wf d(1) by (simp add: pod_wf_def)
    moreover have "j_Type d \<in> set serializedPodJobTypes" by (simp add: d(2) serializedPodJobTypes_def)
    ultimately obtain q where "q \<in> set (db_pods db)" "for_pod ustr (pd_id q) d"
      unfolding job_linked_def by blast
    with d(3) ut new show False by (metis for_pod_inj imageI uuid_text_def)
  qed
  show ?thesis
    unfolding c(3)
  proof (rule wf_add_job[OF _ wf1, where podID = "pd_id p"])
    show "inj ustr" using ut by (simp add: uuid_text_def)
    show "j_ID j \<notin> j_ID ` set (db_jobs ?db)" "pd_id p \<in> pd_id ` set (db_pods ?db)" using c(1,2) by simp_all
    show "for_pod ustr (pd_id p) j" using validatePodJobPayload_None(1)[OF pl ut] by (simp add: c(2))
    show "pv_PodID v = pd_id p" if "for_vm ustr (pv_ID v) j" for v using that novm by (simp add: c(2))
    have "j_Type j \<in> set serializedPodMutatorTypes"
      by (simp add: c(2) serializedPodMutatorTypes_def serializedPodJobTypes_def)
    with none show "j_Type j \<in> set serializedPodMutatorTypes \<and> \<not> podHasAuthoritativeDestroyJob ustr (pd_id p) ?db \<or>
      j_Type j = ''pod_destroy'' \<and> (\<forall>j' \<in> set (db_jobs ?db). live_mutator ustr (pd_id p) ?db j' \<longrightarrow> excluded ustr (pd_id p) ?db j') \<and>
        (\<forall>j' \<in> set (db_jobs ?db). j_Type j' = ''pod_destroy'' \<longrightarrow> \<not> for_pod ustr (pd_id p) j')" by blast
  qed
qed

text \<open>
  The states the system reaches: pods are created together with their job under a new identifier,
  machines under identifiers no job mentions, and otherwise any producer, the worker's entry, an
  extension or a settling step of the rest may run, each with any fault of the driver. The one
  queue operation that is not a settling step is \<open>AdoptJobRollbackStep\<close>, which reopens a failed
  \<open>pod_create\<close> job, for cleanup only, to hand over a late receipt.
\<close>

inductive pod_run :: "(uuid \<Rightarrow> string) \<Rightarrow> database \<Rightarrow> bool" for ustr where
  start: "db_jobs db = [] \<Longrightarrow> distinct (map pv_ID (db_pod_vms db)) \<Longrightarrow> pod_run ustr db"
| pod_create: "pod_run ustr db \<Longrightarrow> pd_id p \<notin> pd_id ` set (db_pods db) \<Longrightarrow> pget payload ''pod_vm_id'' = None \<Longrightarrow>
    CreatePodCreateJobTx ustr i now (pd_id p) payload (db\<lparr>db_pods := db_pods db @ [p]\<rparr>) = Inr (j, db') \<Longrightarrow>
    pod_run ustr db'"
| vm_insert: "pod_run ustr db \<Longrightarrow> pv_ID v \<notin> pv_ID ` set (db_pod_vms db) \<Longrightarrow>
    (\<And>j. j \<in> set (db_jobs db) \<Longrightarrow> \<not> for_vm ustr (pv_ID v) j) \<Longrightarrow>
    pod_run ustr (db\<lparr>db_pod_vms := db_pod_vms db @ [v]\<rparr>)"
| vm_job: "pod_run ustr db \<Longrightarrow> pod_run ustr (snd (CreateVMJob ustr flt i now podID vm ty payload db))"
| vm_add: "pod_run ustr db \<Longrightarrow> (\<And>j. j \<in> set (db_jobs db) \<Longrightarrow> \<not> for_vm ustr (pv_ID v) j) \<Longrightarrow>
    pod_run ustr (snd (CreateVMAddJob ustr flt i now v payload db))"
| destroy: "pod_run ustr db \<Longrightarrow> pget payload ''pod_vm_id'' = None \<Longrightarrow>
    pod_run ustr (snd (createPodDestroyJob ustr flt i now podID payload req ex db))"
| prepare: "pod_run ustr db \<Longrightarrow> pod_run ustr (snd (PreparePodDestroy ustr flt now podID jobID owner db))"
| extend: "pod_run ustr db \<Longrightarrow> pod_run ustr (snd (ExtendPod ustr flt i now podID userID newExpiry db))"
| settle: "pod_run ustr db \<Longrightarrow> settles db db' \<Longrightarrow> pod_run ustr db'"

lemma pod_ids_update: "(\<And>r. pd_id (f r) = pd_id r) \<Longrightarrow> pd_id ` set (sql_update P f ps) = pd_id ` set ps"
  using map_key_sql_update[of pd_id f P ps] by (metis set_map)

lemma PreparePodDestroy_tables:
  "db_jobs (snd (PreparePodDestroy ustr flt now podID jobID owner db)) = db_jobs db \<and>
   db_pod_vms (snd (PreparePodDestroy ustr flt now podID jobID owner db)) = db_pod_vms db \<and>
   pd_id ` set (db_pods (snd (PreparePodDestroy ustr flt now podID jobID owner db))) = pd_id ` set (db_pods db)"
  unfolding PreparePodDestroy_def
  by (rule run_tx_preserves[where I = "\<lambda>d. db_jobs d = db_jobs db \<and> db_pod_vms d = db_pod_vms db \<and>
        pd_id ` set (db_pods d) = pd_id ` set (db_pods db)"])
     (auto simp: pod_ids_update split: option.splits if_splits)

lemma ExtendPod_tables:
  "db_jobs (snd (ExtendPod ustr flt i now podID userID newExpiry db)) = db_jobs db \<and>
   db_pod_vms (snd (ExtendPod ustr flt i now podID userID newExpiry db)) = db_pod_vms db \<and>
   pd_id ` set (db_pods (snd (ExtendPod ustr flt i now podID userID newExpiry db))) = pd_id ` set (db_pods db)"
  unfolding ExtendPod_def
  by (rule run_tx_preserves[where I = "\<lambda>d. db_jobs d = db_jobs db \<and> db_pod_vms d = db_pod_vms db \<and>
        pd_id ` set (db_pods d) = pd_id ` set (db_pods db)"])
     (auto simp: pod_ids_update Let_def split: option.splits if_splits)

lemma pod_run_wf:
  assumes "uuid_text ustr"
  shows "pod_run ustr db \<Longrightarrow> pod_wf ustr db"
proof (induction rule: pod_run.induct)
  case (start db)
  then show ?case by (simp add: pod_wf_def one_destroy_def pod_exclusive_def podHasAuthoritativeDestroyJob_def)
next
  case (pod_create db p payload i now j db')
  then show ?case using wf_pod_create[OF assms] by blast
next
  case (vm_insert db v)
  then show ?case using wf_add_vm by blast
next
  case (vm_job db flt i now podID vm ty payload)
  then show ?case using wf_CreateVMJob[OF assms] by blast
next
  case (vm_add db v flt i now payload)
  show ?case
    unfolding CreateVMAddJob_def
    by (rule wf_run_tx[OF vm_add.IH]) (rule wf_createVMAddJobTx[OF assms vm_add.IH vm_add.hyps(2)])
next
  case (destroy db payload flt i now podID req ex)
  show ?case
  proof (cases "validatePodJobPayload ustr payload podID None")
    case None
    have "pod_wf ustr (snd (run_tx flt (pod_destroy_tx ustr i now podID payload req ex) db))"
      by (rule wf_run_tx[OF destroy.IH], rule wf_pod_destroy_tx[OF assms destroy.IH None])
         (use destroy.hyps(2) in auto)
    with None show ?thesis by (simp add: createPodDestroyJob_def)
  next
    case (Some e)
    with destroy.IH show ?thesis by (simp add: createPodDestroyJob_def)
  qed
next
  case (prepare db flt now podID jobID owner)
  show ?case by (rule wf_same_jobs[OF prepare.IH]) (simp_all add: PreparePodDestroy_tables)
next
  case (extend db flt i now podID userID newExpiry)
  show ?case by (rule wf_same_jobs[OF extend.IH]) (simp_all add: ExtendPod_tables)
next
  case (settle db db')
  then show ?case using settles_wf by blast
qed


text \<open>An identifier as a text, and a pod with one machine.\<close>

definition tally :: "uuid \<Rightarrow> string" where
  "tally u = replicate (Suc u) (CHR ''u'')"

lemma tally_text: "uuid_text tally"
  by (auto simp: uuid_text_def tally_def inj_def replicate_eq_replicate)

definition lab_pod :: pod_row where
  "lab_pod = \<lparr>pd_id = 2, pd_status = ''active'', pd_user_id = 5, pd_vlan_id = 400, pd_subnet = ''10.100.1.0/24'',
     pd_network_mode = ''isolated'', pd_shared_network_id = None, pd_expires_at = Some 100, pd_error_message = None,
     pd_updated_at = 0\<rparr>"

definition lab_vm :: pod_vm where
  "lab_vm = \<lparr>pv_ID = 9, pv_PodID = 2, pv_TemplateID = 3, pv_DisplayName = ''vm'', pv_Status = ''running'',
     pv_CreatedAt = 0, pv_LastActivityAt = Some 0, pv_SuspendedAt = None, pv_SuspendReason = None, pv_VCenterVMID = Some ''vm-7'', pv_VCenterVMName = None, pv_IPAddress = None,
     pv_VCPUs = 2, pv_RAMMB = 4096, pv_GeneratedUsername = [], pv_GeneratedPassword = [],
     pv_GuestCredentialsVerifiedAt = None, pv_GuestCredentialsVerifiedVMID = None\<rparr>"

definition lab_db :: database where
  "lab_db = empty_db\<lparr>db_pods := [lab_pod], db_pod_vms := [lab_vm],
     db_vlan_pool := [\<lparr>vl_vlan_tag = 400, vl_subnet = ''10.100.1.0/24'', vl_pod_id = Some 2, vl_host_scope = ''all''\<rparr>]\<rparr>"

definition lab_payload :: payload where
  "lab_payload = [(''pod_id'', JStr (tally 2))]"


section \<open>Extending and expiring\<close>

lemma ExtendPod_ok:
  assumes "ExtendPod ustr flt i now podID userID newExpiry db = (Inr att, db')"
  obtains p where "find_pod podID db = Some p" "pd_status p = ''active''"
    "\<not> podHasAuthoritativeDestroyJob ustr podID db"
    "sql_count (\<lambda>a. at_PodID a = podID) (db_attestations db) < MaxPodExtensions"
    "at_PodID att = podID" "at_PreviousExpiresAt att = pd_expires_at p" "at_NewExpiresAt att = newExpiry"
    "db' = db\<lparr>db_attestations := db_attestations db @ [att],
       db_pods := sql_update (\<lambda>r. pd_id r = podID \<and> pd_status r = ''active'')
         (\<lambda>r. r\<lparr>pd_expires_at := Some newExpiry, pd_updated_at := now\<rparr>) (db_pods db)\<rparr>"
  using run_tx_InrD [OF assms [unfolded ExtendPod_def], THEN conjunct2] that
  by (auto simp: Let_def split: option.splits if_splits)

lemma extended_pod:
  assumes "find_pod podID db = Some p" "pd_status p = ''active''"
  shows "find (\<lambda>p. pd_id p = podID) (sql_update (\<lambda>r. pd_id r = podID \<and> pd_status r = ''active'')
           (\<lambda>r. r\<lparr>pd_expires_at := Some newExpiry, pd_updated_at := now\<rparr>) (db_pods db)) =
         Some (p\<lparr>pd_expires_at := Some newExpiry, pd_updated_at := now\<rparr>)"
proof -
  have "find (\<lambda>p. pd_id p = podID) (sql_update (\<lambda>r. pd_id r = podID \<and> pd_status r = ''active'')
           (\<lambda>r. r\<lparr>pd_expires_at := Some newExpiry, pd_updated_at := now\<rparr>) ps) =
         Some (p\<lparr>pd_expires_at := Some newExpiry, pd_updated_at := now\<rparr>)"
    if "find (\<lambda>p. pd_id p = podID) ps = Some p" for ps
    using that assms(2) by (induction ps) (auto split: if_splits)
  from this [OF assms(1)] show ?thesis .
qed

lemma unexpired_not_destroyed:
  assumes "find_pod podID db = Some p" "\<And>t. pd_expires_at p = Some t \<Longrightarrow> now \<le> t"
    and tx: "pod_destroy_tx ustr i now podID payload podDestroyIfExpired ex db = Inr (x, db')"
  shows "db' = db \<and> \<not> snd x"
proof -
  have e: "(case pd_expires_at p of None \<Rightarrow> False | Some t \<Rightarrow> t < now) = False"
    using assms(2) by (auto split: option.splits)
  from tx assms(1) show ?thesis
    by (auto simp: pod_destroy_tx_def reuse_destroy_def first_destroy_def e podDestroyRequirementSatisfied_def
        split: option.splits if_splits)
qed

lemma destroy_created:
  assumes ut: "uuid_text ustr" and pl: "validatePodJobPayload ustr payload podID None = None"
    and tx: "pod_destroy_tx ustr i now podID payload req ex db = Inr ((j, True), db')"
  shows "podHasAuthoritativeDestroyJob ustr podID db' \<and> db_pods db' = db_pods db \<and>
    (\<exists>p. find_pod podID db = Some p)"
proof -
  obtain p where p: "find_pod podID db = Some p" using tx by (auto simp: pod_destroy_tx_def split: option.splits)
  show ?thesis
  proof (cases "authoritative_destroy ustr podID db")
    case (Some d)
    with tx p have "requeue_destroy (j_ID d) (j_Status d) db = Inr db'"
      by (auto simp: pod_destroy_tx_def reuse_destroy_def Let_def split: if_splits sum.splits option.splits)
    then have db': "db' = db\<lparr>db_jobs := sql_update (\<lambda>r. j_ID r = j_ID d \<and> j_Status r = j_Status d)
        (\<lambda>r. r\<lparr>j_Status := JobStatusPending, j_ClaimedBy := None, j_ClaimedAt := None, j_StartedAt := None,
               j_CompletedAt := None, j_Result := None, j_NextAttemptAt := None, j_RetryCount := 0\<rparr>) (db_jobs db)\<rparr>"
      by (auto simp: requeue_destroy_def Let_def split: if_splits)
    let ?d = "d\<lparr>j_Status := JobStatusPending, j_ClaimedBy := None, j_ClaimedAt := None, j_StartedAt := None,
               j_CompletedAt := None, j_Result := None, j_NextAttemptAt := None, j_RetryCount := 0\<rparr>"
    have d: "d \<in> set (db_jobs db)" "j_Type d = ''pod_destroy''" "for_pod ustr podID d"
      using authoritative_destroy_Some [OF Some] by auto
    have "?d \<in> set (db_jobs db')" unfolding db' using d(1) by (auto simp: sql_update_in intro!: bexI [of _ d])
    moreover have "j_Type ?d = ''pod_destroy''" "for_pod ustr podID ?d" "j_Status ?d = JobStatusPending"
      using d(2,3) by (simp_all add: for_pod_def)
    ultimately have "podHasAuthoritativeDestroyJob ustr podID db'"
      unfolding podHasAuthoritativeDestroyJob_def by (metis empty_iff insert_iff job_status.distinct(5,7))
    with p show ?thesis by (simp add: db')
  next
    case None
    with tx p have "createJob i now ''pod_destroy'' payload db = Inr (j, db')"
      by (auto simp: pod_destroy_tx_def first_destroy_def Let_def split: if_splits sum.splits option.splits)
    from createJob_InrD [OF this] have c: "j = new_job i now ''pod_destroy'' payload"
      "db' = db\<lparr>db_jobs := db_jobs db @ [j]\<rparr>" by auto
    have "j_Status j = JobStatusPending" by (simp add: c(1) new_job_def)
    with c validatePodJobPayload_None(1) [OF pl ut] p show ?thesis
      by (simp add: podHasAuthoritativeDestroyJob_def)
  qed
qed

text \<open>
  C27. Extending a pod and destroying it because it expired exclude each other, whichever comes
  first: after an extension no expiry producer creates or restarts a destroy job, and nothing is
  written, up to the new expiry; after an expiry destroy was created, an extension is rejected. A
  pod is never extended when it already has two attestations, and an extension adds exactly one.
\<close>

theorem extend_or_expire:
  assumes ut: "uuid_text ustr"
  shows "(ExtendPod ustr flt i now podID userID newExpiry db = (Inr att, db1) \<and> now' \<le> newExpiry \<longrightarrow>
            snd (CreateExpiredPodDestroyJob ustr flt' i' now' podID payload db1) = db1 \<and>
            (\<forall>j. fst (CreateExpiredPodDestroyJob ustr flt' i' now' podID payload db1) \<noteq> Inr (j, True))) \<and>
         (CreateExpiredPodDestroyJob ustr flt i now podID payload db = (Inr (j, True), db2) \<longrightarrow>
            (\<exists>e. ExtendPod ustr None i' now' podID userID newExpiry db2 = (Inl e, db2) \<and>
                 errorsIs e ErrPodExtensionRejected)) \<and>
         (ExtendPod ustr flt i now podID userID newExpiry db = (Inr att, db1) \<longrightarrow>
            sql_count (\<lambda>a. at_PodID a = podID) (db_attestations db) < 2 \<and>
            sql_count (\<lambda>a. at_PodID a = podID) (db_attestations db1) =
              sql_count (\<lambda>a. at_PodID a = podID) (db_attestations db) + 1)"
proof (intro conjI impI; (elim conjE)?)
  assume ext: "ExtendPod ustr flt i now podID userID newExpiry db = (Inr att, db1)" and le: "now' \<le> newExpiry"
  obtain p where p: "find_pod podID db = Some p" "pd_status p = ''active''"
    and db1: "db1 = db\<lparr>db_attestations := db_attestations db @ [att],
       db_pods := sql_update (\<lambda>r. pd_id r = podID \<and> pd_status r = ''active'')
         (\<lambda>r. r\<lparr>pd_expires_at := Some newExpiry, pd_updated_at := now\<rparr>) (db_pods db)\<rparr>"
    by (rule ExtendPod_ok [OF ext])
  have f: "find_pod podID db1 = Some (p\<lparr>pd_expires_at := Some newExpiry, pd_updated_at := now\<rparr>)"
    using extended_pod [OF p] by (simp add: db1)
  note no = unexpired_not_destroyed [OF f, of now' ustr i' payload None]
  show "snd (CreateExpiredPodDestroyJob ustr flt' i' now' podID payload db1) = db1"
    using no le run_tx_snd_cases [of flt' "pod_destroy_tx ustr i' now' podID payload podDestroyIfExpired None" db1]
    by (fastforce simp: CreateExpiredPodDestroyJob_def createPodDestroyJob_def split: option.splits)
  show "\<forall>j. fst (CreateExpiredPodDestroyJob ustr flt' i' now' podID payload db1) \<noteq> Inr (j, True)"
    using no le
    by (fastforce simp: CreateExpiredPodDestroyJob_def createPodDestroyJob_def run_tx_def
      split: option.splits sum.splits)
next
  assume des: "CreateExpiredPodDestroyJob ustr flt i now podID payload db = (Inr (j, True), db2)"
  then have pl: "validatePodJobPayload ustr payload podID None = None"
      and r: "run_tx flt (pod_destroy_tx ustr i now podID payload podDestroyIfExpired None) db = (Inr (j, True), db2)"
    by (auto simp: CreateExpiredPodDestroyJob_def createPodDestroyJob_def split: option.splits)
  from destroy_created [OF ut pl run_tx_InrD [OF r, THEN conjunct2]]
  show "\<exists>e. ExtendPod ustr None i' now' podID userID newExpiry db2 = (Inl e, db2) \<and> errorsIs e ErrPodExtensionRejected"
    by (auto simp: ExtendPod_def run_tx_def)
next
  assume "ExtendPod ustr flt i now podID userID newExpiry db = (Inr att, db1)"
  then obtain p where "sql_count (\<lambda>a. at_PodID a = podID) (db_attestations db) < MaxPodExtensions"
    "at_PodID att = podID" "db_attestations db1 = db_attestations db @ [att]"
    by (rule ExtendPod_ok) auto
  then show "sql_count (\<lambda>a. at_PodID a = podID) (db_attestations db) < 2"
    "sql_count (\<lambda>a. at_PodID a = podID) (db_attestations db1) =
       sql_count (\<lambda>a. at_PodID a = podID) (db_attestations db) + 1"
    by (simp_all add: MaxPodExtensions_def sql_count_def)
qed

theorem extend_or_expire_witness:
  "sql_count (\<lambda>a. at_PodID a = 2) (db_attestations lab_db) < (2::nat) \<and>
   snd (CreateExpiredPodDestroyJob tally None 12 150 2 lab_payload
     (snd (ExtendPod tally None 11 50 2 5 200 lab_db))) = snd (ExtendPod tally None 11 50 2 5 200 lab_db)"
proof -
  have ok: "isl (fst (ExtendPod tally None 11 50 2 5 200 lab_db)) = False" by code_simp
  then obtain att where "ExtendPod tally None 11 50 2 5 200 lab_db =
      (Inr att, snd (ExtendPod tally None 11 50 2 5 200 lab_db))"
    by (cases "ExtendPod tally None 11 50 2 5 200 lab_db"; cases "fst (ExtendPod tally None 11 50 2 5 200 lab_db)") auto
  then show ?thesis using extend_or_expire [OF tally_text, where now' = 150 and newExpiry = 200] by force
qed

end
