(* ===== verification/PortGroups.thy ===== *)
theory PortGroups
  imports PodJobs "HOL-Library.AList"
begin

text \<open>
  The durable port group receipts of a pod (\<open>database/portgroup_receipts.go\<close>): the immutable
  plan of which standard-switch port groups a pod owns, the intent to create them, the stable
  keys vSphere gave them and the tombstone of their removal, one row of
  \<open>pod_portgroup_receipts\<close> per pod. The \<open>CHECK\<close> constraints and the trigger of the table
  (migrations 035 and 049) are part of the model: an \<open>UPDATE\<close> they refuse is an error.
\<close>

section \<open>The table\<close>

abbreviation find_receipt :: "uuid \<Rightarrow> database \<Rightarrow> portgroup_receipt_row option" where
  "find_receipt podID db \<equiv> find (\<lambda>r. pgr_pod_id r = podID) (db_portgroup_receipts db)"

text \<open>The shape a receipt must have, and the two states of the tombstone.\<close>

definition receipt_shape :: "json \<Rightarrow> bool" where
  "receipt_shape r =
     (case r of
        JObj o' \<Rightarrow> pget o' ''name'' \<noteq> None \<and> pget o' ''vlan_id'' \<noteq> None \<and>
          (case pget o' ''hosts'' of Some (JArr hs) \<Rightarrow> hs \<noteq> [] | _ \<Rightarrow> False)
      | _ \<Rightarrow> False)"

definition receipt_check :: "portgroup_receipt_row \<Rightarrow> bool" where
  "receipt_check r \<longleftrightarrow> receipt_shape (pgr_receipt r) \<and>
     (pgr_state r \<in> {''legacy'', ''planned'', ''applying'', ''active''} \<and> pgr_removed_at r = None \<or>
      pgr_state r = ''removed'' \<and> pgr_removed_at r \<noteq> None)"

text \<open>\<open>NEW.portgroup_keys @> OLD.portgroup_keys\<close>.\<close>

definition keys_contain :: "(string \<times> string) list \<Rightarrow> (string \<times> string) list \<Rightarrow> bool" where
  "keys_contain new old \<longleftrightarrow> list_all (\<lambda>(h, _). map_of new h = map_of old h) old"

text \<open>\<open>reject_pod_portgroup_receipt_identity_update\<close>: the updates the trigger refuses.\<close>

definition trigger_rejects :: "portgroup_receipt_row \<Rightarrow> portgroup_receipt_row \<Rightarrow> bool" where
  "trigger_rejects old new \<longleftrightarrow>
     pgr_pod_id new \<noteq> pgr_pod_id old \<or>
     pgr_create_job_id new \<noteq> pgr_create_job_id old \<or>
     pgr_receipt new \<noteq> pgr_receipt old \<or>
     \<not> keys_contain (pgr_portgroup_keys new) (pgr_portgroup_keys old) \<or>
     pgr_state old = ''removed'' \<and> pgr_state new \<noteq> ''removed'' \<or>
     pgr_state new \<noteq> pgr_state old \<and>
       \<not> (pgr_state old = ''planned'' \<and> pgr_state new \<in> {''applying'', ''removed''} \<or>
          pgr_state old = ''applying'' \<and> pgr_state new = ''active'' \<or>
          pgr_state old = ''applying'' \<and> pgr_state new = ''removed'' \<and>
            pgr_portgroup_keys old = [] \<and> pgr_portgroup_keys new = [] \<or>
          pgr_state old = ''active'' \<and> pgr_state new = ''removed'') \<or>
     pgr_removed_at old \<noteq> None \<and> pgr_removed_at new \<noteq> pgr_removed_at old"

abbreviation immutable_error :: go_error where
  "immutable_error \<equiv> errorsNew ''pod portgroup receipt identity and tombstone are immutable''"

abbreviation check_error :: go_error where
  "check_error \<equiv> errorsNew ''new row violates check constraint''"

definition update_receipts ::
  "(portgroup_receipt_row \<Rightarrow> bool) \<Rightarrow> (portgroup_receipt_row \<Rightarrow> portgroup_receipt_row) \<Rightarrow> database \<Rightarrow> database result" where
  "update_receipts P f db =
     (if list_ex (\<lambda>r. P r \<and> trigger_rejects r (f r)) (db_portgroup_receipts db) then Inl immutable_error
      else if list_ex (\<lambda>r. P r \<and> \<not> receipt_check (f r)) (db_portgroup_receipts db) then Inl check_error
      else Inr (db\<lparr>db_portgroup_receipts := sql_update P f (db_portgroup_receipts db)\<rparr>))"

text \<open>SQL's \<open>AND\<close>: a NULL conjunct leaves a NULL unless another one is false.\<close>

definition sql_and :: "bool option list \<Rightarrow> bool option" where
  "sql_and bs = (if Some False \<in> set bs then Some False else if None \<in> set bs then None else Some True)"

text \<open>The job owns the creation of the pod: \<open>claimed_by = $2 AND status IN (..) AND type = .. AND payload->>'pod_id' = $3\<close>.\<close>

definition owns_create :: "(uuid \<Rightarrow> string) \<Rightarrow> string \<Rightarrow> uuid \<Rightarrow> job \<Rightarrow> bool option" where
  "owns_create ustr workerID podID j =
     sql_and [map_option (\<lambda>w. w = workerID) (j_ClaimedBy j),
              Some (j_Status j = JobStatusClaimed \<or> j_Status j = JobStatusInProgress),
              Some (j_Type j = ''pod_create''),
              (case pget (j_Payload j) ''pod_id'' of
                 None \<Rightarrow> None | Some JNull \<Rightarrow> None | Some v \<Rightarrow> Some (v = JStr (ustr podID)))]"

section \<open>The operations\<close>

definition GetPodPortGroupReceipt :: "go_error option \<Rightarrow> uuid \<Rightarrow> database \<Rightarrow> portgroup_receipt_row result" where
  "GetPodPortGroupReceipt flt podID db =
     (case flt of
        Some e \<Rightarrow> Inl (Errorf ''query pod port group receipt'' [e])
      | None \<Rightarrow>
          (case find_receipt podID db of
             None \<Rightarrow> Inl (Errorf ''durable port group receipt not found'' [Sentinel ErrPortGroupReceiptNotFound])
           | Some r \<Rightarrow> Inr r))"

definition BeginPodPortGroupMutation ::
  "(uuid \<Rightarrow> string) \<Rightarrow> go_error option \<Rightarrow> uuid \<Rightarrow> string \<Rightarrow> uuid \<Rightarrow> json \<Rightarrow> database \<Rightarrow> unit result \<times> database" where
  "BeginPodPortGroupMutation ustr flt jobID workerID podID receipt =
     run_tx flt (\<lambda>db.
       case (find (\<lambda>j. j_ID j = jobID) (db_jobs db),
             find (\<lambda>r. pgr_create_job_id r = jobID \<and> pgr_pod_id r = podID) (db_portgroup_receipts db)) of
         (Some j, Some r) \<Rightarrow>
           (case owns_create ustr workerID podID j of
              None \<Rightarrow> Inl (errorsNew ''lock port group mutation intent: cannot scan NULL into bool'')
            | Some owned \<Rightarrow>
                if \<not> owned then Inl (Errorf ''job cannot begin port group mutation'' [Sentinel ErrJobLeaseLost])
                else if pgr_receipt r \<noteq> receipt \<or> pgr_state r \<notin> {''planned'', ''applying'', ''active''}
                then Inl (Errorf ''while beginning mutation'' [Sentinel ErrPortGroupReceiptConflict])
                else if pgr_state r = ''planned''
                then (case update_receipts (\<lambda>x. pgr_pod_id x = podID) (\<lambda>x. x\<lparr>pgr_state := ''applying''\<rparr>) db of
                        Inl e \<Rightarrow> Inl (Errorf ''persist port group mutation intent'' [e])
                      | Inr db' \<Rightarrow> Inr ((), db'))
                else Inr ((), db))
       | _ \<Rightarrow> Inl (Errorf ''for pod'' [Sentinel ErrPortGroupReceiptNotFound]))"

text \<open>
  The loop over the new keys; Go visits the map in any order, which the list stands for. A key may
  be learned once and never changes.
\<close>

abbreviation key_conflict :: go_error where
  "key_conflict \<equiv> Errorf ''binding stable keys'' [Sentinel ErrPortGroupReceiptConflict]"

fun bind_keys :: "(string \<times> string) list \<Rightarrow> (string \<times> string) list \<Rightarrow> (string \<times> string) list result" where
  "bind_keys existing [] = Inr existing"
| "bind_keys existing ((host, key) # ks) =
     (if host = [] \<or> key = [] then Inl key_conflict
      else if (case map_of existing host of Some current \<Rightarrow> current \<noteq> key | None \<Rightarrow> False) then Inl key_conflict
      else bind_keys (AList.update host key existing) ks)"

definition PersistPodPortGroupKeys ::
  "go_error option \<Rightarrow> uuid \<Rightarrow> json \<Rightarrow> (string \<times> string) list \<Rightarrow> database \<Rightarrow> unit result \<times> database" where
  "PersistPodPortGroupKeys flt podID receipt keys =
     run_tx flt (\<lambda>db.
       case find_receipt podID db of
         None \<Rightarrow> Inl (Errorf ''for pod'' [Sentinel ErrPortGroupReceiptNotFound])
       | Some r \<Rightarrow>
           if pgr_receipt r \<noteq> receipt \<or> pgr_removed_at r \<noteq> None \<or>
              pgr_state r \<noteq> ''applying'' \<and> pgr_state r \<noteq> ''active''
           then Inl key_conflict
           else
             (case bind_keys (pgr_portgroup_keys r) keys of
                Inl e \<Rightarrow> Inl e
              | Inr existing \<Rightarrow>
                  (case update_receipts (\<lambda>x. pgr_pod_id x = podID)
                          (\<lambda>x. x\<lparr>pgr_portgroup_keys := existing, pgr_state := ''active''\<rparr>) db of
                     Inl e \<Rightarrow> Inl (Errorf ''persist pod port group keys'' [e])
                   | Inr db' \<Rightarrow> Inr ((), db'))))"

text \<open>
  The insert is checked before it looks for a conflict, and its foreign key after; it does nothing
  when the pod already has a row.
\<close>

definition PersistPodPortGroupReceipt ::
  "(uuid \<Rightarrow> string) \<Rightarrow> go_error option \<Rightarrow> uuid \<Rightarrow> string \<Rightarrow> uuid \<Rightarrow> json \<Rightarrow> database \<Rightarrow> unit result \<times> database" where
  "PersistPodPortGroupReceipt ustr flt jobID workerID podID receipt =
     run_tx flt (\<lambda>db.
       case find (\<lambda>j. j_ID j = jobID) (db_jobs db) of
         None \<Rightarrow> Inl (Errorf ''lock port group receipt job'' [Sentinel pgx_ErrNoRows])
       | Some j \<Rightarrow>
           (case owns_create ustr workerID podID j of
              None \<Rightarrow> Inl (errorsNew ''lock port group receipt job: cannot scan NULL into bool'')
            | Some owned \<Rightarrow>
                if \<not> owned
                then Inl (Errorf ''job cannot persist port group ownership'' [Sentinel ErrJobLeaseLost])
                else if \<not> receipt_shape receipt
                then Inl (Errorf ''insert pod port group receipt'' [check_error])
                else
                  (case find_receipt podID db of
                     None \<Rightarrow>
                       if podID \<notin> pd_id ` set (db_pods db)
                       then Inl (errorsNew ''insert pod port group receipt: violates foreign key constraint'')
                       else Inr ((), db\<lparr>db_portgroup_receipts := db_portgroup_receipts db @
                              [\<lparr>pgr_pod_id = podID, pgr_create_job_id = jobID, pgr_receipt = receipt,
                                pgr_portgroup_keys = [], pgr_state = ''planned'', pgr_removed_at = None\<rparr>]\<rparr>)
                   | Some r \<Rightarrow>
                       if pgr_create_job_id r \<noteq> jobID \<or> pgr_receipt r \<noteq> receipt \<or> pgr_removed_at r \<noteq> None
                       then Inl (Errorf ''existing job'' [Sentinel ErrPortGroupReceiptConflict])
                       else Inr ((), db))))"

text \<open>The two removals are single statements that must hit exactly one row.\<close>

definition exec_receipt ::
  "(portgroup_receipt_row \<Rightarrow> bool) \<Rightarrow> (portgroup_receipt_row \<Rightarrow> portgroup_receipt_row) \<Rightarrow> string \<Rightarrow> database
     \<Rightarrow> (unit \<times> database) result" where
  "exec_receipt P f msg db =
     (case update_receipts P f db of
        Inl e \<Rightarrow> Inl (Errorf msg [e])
      | Inr db' \<Rightarrow>
          if sql_count P (db_portgroup_receipts db) \<noteq> 1
          then Inl (Errorf msg [Sentinel ErrPortGroupReceiptConflict]) else Inr ((), db'))"

definition MarkPodPortGroupRemoved ::
  "go_error option \<Rightarrow> go_time \<Rightarrow> uuid \<Rightarrow> json \<Rightarrow> database \<Rightarrow> unit result \<times> database" where
  "MarkPodPortGroupRemoved flt now podID receipt =
     run_tx flt (exec_receipt
       (\<lambda>r. pgr_pod_id r = podID \<and> pgr_receipt r = receipt \<and> pgr_state r \<in> {''planned'', ''active'', ''removed''})
       (\<lambda>r. r\<lparr>pgr_state := ''removed'',
              pgr_removed_at := (case pgr_removed_at r of None \<Rightarrow> Some now | Some t \<Rightarrow> Some t)\<rparr>)
       ''mark pod port group removed'')"

definition MarkPodPortGroupAbsentRemoved ::
  "go_error option \<Rightarrow> go_time \<Rightarrow> uuid \<Rightarrow> json \<Rightarrow> database \<Rightarrow> unit result \<times> database" where
  "MarkPodPortGroupAbsentRemoved flt now podID receipt =
     run_tx flt (exec_receipt
       (\<lambda>r. pgr_pod_id r = podID \<and> pgr_receipt r = receipt \<and> pgr_state r = ''applying'' \<and>
            pgr_portgroup_keys r = [] \<and> pgr_removed_at r = None)
       (\<lambda>r. r\<lparr>pgr_state := ''removed'', pgr_removed_at := Some now\<rparr>)
       ''mark absent pod port group removed'')"

section \<open>Row invariant and abstract life\<close>

text \<open>
  A well-typed row: the constraints of the table hold, and stable keys exist only once the port
  groups were created.
\<close>

definition receipt_typed :: "portgroup_receipt_row \<Rightarrow> bool" where
  "receipt_typed r \<longleftrightarrow> receipt_check r \<and>
     (pgr_state r \<in> {''legacy'', ''planned'', ''applying''} \<longrightarrow> pgr_portgroup_keys r = [])"

definition receipts_typed :: "database \<Rightarrow> bool" where
  "receipts_typed db \<longleftrightarrow> distinct (map pgr_pod_id (db_portgroup_receipts db)) \<and>
     (\<forall>r \<in> set (db_portgroup_receipts db). receipt_typed r)"

text \<open>
  What the receipt of a pod promises, apart from how it is stored: it is planned once, with the
  job and the plan fixed for good; mutation is authorised before keys are learned; keys are only
  added; and it is removed from planned or active, or from an authorised state without keys.
\<close>

datatype pg_stage = Legacy | Planned | Applying | Active | Removed

datatype pg_life = Unrecorded | Recorded pg_stage uuid json "string \<rightharpoonup> string"

inductive pg_step :: "pg_life \<Rightarrow> pg_life \<Rightarrow> bool" where
  plan: "pg_step Unrecorded (Recorded Planned j r Map.empty)"
| authorise: "pg_step (Recorded Planned j r Map.empty) (Recorded Applying j r Map.empty)"
| bind: "s = Applying \<or> s = Active \<Longrightarrow> ks \<subseteq>\<^sub>m ks' \<Longrightarrow> pg_step (Recorded s j r ks) (Recorded Active j r ks')"
| remove: "s = Planned \<or> s = Active \<Longrightarrow> pg_step (Recorded s j r ks) (Recorded Removed j r ks)"
| absent: "pg_step (Recorded Applying j r Map.empty) (Recorded Removed j r Map.empty)"

inductive_simps pg_step_simps: "pg_step (Recorded s j r ks) l"

definition stage_of :: "string \<Rightarrow> pg_stage" where
  "stage_of s = (if s = ''planned'' then Planned else if s = ''applying'' then Applying
     else if s = ''active'' then Active else if s = ''removed'' then Removed else Legacy)"

definition life_of :: "portgroup_receipt_row \<Rightarrow> pg_life" where
  "life_of r = Recorded (stage_of (pgr_state r)) (pgr_create_job_id r) (pgr_receipt r) (map_of (pgr_portgroup_keys r))"

definition receipt_life :: "uuid \<Rightarrow> database \<Rightarrow> pg_life" where
  "receipt_life podID db = (case find_receipt podID db of None \<Rightarrow> Unrecorded | Some r \<Rightarrow> life_of r)"

text \<open>The operations as labels, each run with an outcome of the driver.\<close>

datatype pg_op =
    PgPersist "uuid \<Rightarrow> string" uuid string uuid json
  | PgBegin "uuid \<Rightarrow> string" uuid string uuid json
  | PgKeys uuid json "(string \<times> string) list"
  | PgRemoved go_time uuid json
  | PgAbsent go_time uuid json

fun pg_exec :: "go_error option \<Rightarrow> pg_op \<Rightarrow> database \<Rightarrow> unit result \<times> database" where
  "pg_exec flt (PgPersist ustr j w p r) db = PersistPodPortGroupReceipt ustr flt j w p r db"
| "pg_exec flt (PgBegin ustr j w p r) db = BeginPodPortGroupMutation ustr flt j w p r db"
| "pg_exec flt (PgKeys p r ks) db = PersistPodPortGroupKeys flt p r ks db"
| "pg_exec flt (PgRemoved now p r) db = MarkPodPortGroupRemoved flt now p r db"
| "pg_exec flt (PgAbsent now p r) db = MarkPodPortGroupAbsentRemoved flt now p r db"

definition pg_run :: "go_error option \<times> pg_op \<Rightarrow> database \<Rightarrow> database" where
  "pg_run x db = snd (pg_exec (fst x) (snd x) db)"

section \<open>Row steps\<close>

definition row_step :: "portgroup_receipt_row \<Rightarrow> portgroup_receipt_row \<Rightarrow> bool" where
  "row_step r r' \<longleftrightarrow> pgr_pod_id r' = pgr_pod_id r \<and> receipt_typed r' \<and> \<not> trigger_rejects r r' \<and>
     (life_of r' = life_of r \<or> pg_step (life_of r) (life_of r'))"

definition receipts_step :: "database \<Rightarrow> database \<Rightarrow> bool" where
  "receipts_step db db' \<longleftrightarrow> db' = db \<or>
     (\<exists>r. pgr_pod_id r \<notin> pgr_pod_id ` set (db_portgroup_receipts db) \<and> receipt_typed r \<and>
        pg_step Unrecorded (life_of r) \<and> db_portgroup_receipts db' = db_portgroup_receipts db @ [r]) \<or>
     (\<exists>P f. db_portgroup_receipts db' = sql_update P f (db_portgroup_receipts db) \<and>
        (\<forall>r \<in> set (db_portgroup_receipts db). P r \<longrightarrow> row_step r (f r)))"

lemma receipts_step_refl: "receipts_step db db"
  by (simp add: receipts_step_def)

lemma receipts_step_update:
  "db_portgroup_receipts db' = sql_update P f (db_portgroup_receipts db) \<Longrightarrow>
   (\<And>r. r \<in> set (db_portgroup_receipts db) \<Longrightarrow> P r \<Longrightarrow> row_step r (f r)) \<Longrightarrow> receipts_step db db'"
  unfolding receipts_step_def by blast

lemma receipts_step_typed:
  assumes "receipts_step db db'" "receipts_typed db"
  shows "receipts_typed db'"
  using assms(1) unfolding receipts_step_def
proof (elim disjE exE conjE)
  assume "db' = db"
  with assms(2) show ?thesis by simp
next
  fix r
  assume "pgr_pod_id r \<notin> pgr_pod_id ` set (db_portgroup_receipts db)" "receipt_typed r"
    "db_portgroup_receipts db' = db_portgroup_receipts db @ [r]"
  with assms(2) show ?thesis by (simp add: receipts_typed_def)
next
  fix P f
  assume u: "db_portgroup_receipts db' = sql_update P f (db_portgroup_receipts db)"
    and s: "\<forall>r \<in> set (db_portgroup_receipts db). P r \<longrightarrow> row_step r (f r)"
  have "map pgr_pod_id (db_portgroup_receipts db') = map pgr_pod_id (db_portgroup_receipts db)"
    using s by (auto simp: u sql_update_def row_step_def)
  moreover have "receipt_typed r'" if "r' \<in> set (db_portgroup_receipts db')" for r'
    using that s assms(2) by (auto simp: u sql_update_in row_step_def receipts_typed_def split: if_splits)
  ultimately show ?thesis using assms(2) by (simp add: receipts_typed_def)
qed

lemma find_sql_update:
  assumes "\<And>r. r \<in> set rs \<Longrightarrow> P r \<Longrightarrow> key (f r) = key r"
  shows "find (\<lambda>r. key r = k) (sql_update P f rs) =
         map_option (\<lambda>r. if P r then f r else r) (find (\<lambda>r. key r = k) rs)"
  using assms by (induction rs) auto

lemma find_key_None: "k \<notin> key ` set rs \<Longrightarrow> find (\<lambda>r. key r = k) rs = None"
  by (induction rs) auto

lemma find_snoc: "find P (rs @ [r]) = (case find P rs of Some x \<Rightarrow> Some x | None \<Rightarrow> if P r then Some r else None)"
  by (induction rs) auto

lemma receipts_step_life:
  assumes "receipts_step db db'"
  shows "receipt_life podID db' = receipt_life podID db \<or> pg_step (receipt_life podID db) (receipt_life podID db')"
  using assms unfolding receipts_step_def
proof (elim disjE exE conjE)
  assume "db' = db"
  then show ?thesis by simp
next
  fix r
  assume new: "pgr_pod_id r \<notin> pgr_pod_id ` set (db_portgroup_receipts db)" and st: "pg_step Unrecorded (life_of r)"
    and db': "db_portgroup_receipts db' = db_portgroup_receipts db @ [r]"
  have none: "find_receipt podID db = None" if "pgr_pod_id r = podID"
    by (rule find_key_None) (use that new in simp)
  show ?thesis
    using none st by (auto simp: receipt_life_def db' find_snoc split: option.splits)
next
  fix P f
  assume u: "db_portgroup_receipts db' = sql_update P f (db_portgroup_receipts db)"
    and s: "\<forall>r \<in> set (db_portgroup_receipts db). P r \<longrightarrow> row_step r (f r)"
  have f: "find_receipt podID db' = map_option (\<lambda>r. if P r then f r else r) (find_receipt podID db)"
    unfolding u by (rule find_sql_update) (use s in \<open>simp add: row_step_def\<close>)
  show ?thesis
  proof (cases "find_receipt podID db")
    case (Some r)
    then have "r \<in> set (db_portgroup_receipts db)" by (auto simp: find_Some_iff)
    with s Some f show ?thesis by (auto simp: receipt_life_def row_step_def)
  qed (use f in \<open>simp add: receipt_life_def\<close>)
qed

text \<open>An update that is a row step on every row it hits is refused by neither trigger nor constraint.\<close>

lemma update_receipts_ok:
  assumes "\<And>r. r \<in> set (db_portgroup_receipts db) \<Longrightarrow> P r \<Longrightarrow> row_step r (f r)"
  shows "update_receipts P f db = Inr (db\<lparr>db_portgroup_receipts := sql_update P f (db_portgroup_receipts db)\<rparr>)"
  using assms by (auto simp: update_receipts_def row_step_def receipt_typed_def list_ex_iff)

section \<open>Every operation is a row step\<close>

lemma map_of_update_le: "map_of ks h = None \<or> map_of ks h = Some k \<Longrightarrow> map_of ks \<subseteq>\<^sub>m map_of (AList.update h k ks)"
  by (auto simp: map_le_def update_conv')

lemma bind_keys_le: "bind_keys ex ks = Inr ex' \<Longrightarrow> map_of ex \<subseteq>\<^sub>m map_of ex'"
proof (induction ex ks rule: bind_keys.induct)
  case (2 ex h k ks)
  then have "map_of ex \<subseteq>\<^sub>m map_of (AList.update h k ex)"
    by (intro map_of_update_le) (cases "map_of ex h"; auto split: if_splits)
  moreover have "map_of (AList.update h k ex) \<subseteq>\<^sub>m map_of ex'" using 2 by (simp split: if_splits)
  ultimately show ?case by (rule map_le_trans)
qed simp

lemma keys_contain_le: "map_of old \<subseteq>\<^sub>m map_of new \<Longrightarrow> keys_contain new old"
  by (fastforce simp: keys_contain_def map_le_def list_all_iff dom_def map_of_eq_None_iff image_iff)

lemma keys_contain_refl [simp]: "keys_contain ks ks"
  by (simp add: keys_contain_def list_all_iff)

lemma row_step_apply:
  "receipt_typed r \<Longrightarrow> pgr_state r = ''planned'' \<Longrightarrow> row_step r (r\<lparr>pgr_state := ''applying''\<rparr>)"
  by (auto simp: row_step_def receipt_typed_def receipt_check_def trigger_rejects_def life_of_def stage_of_def pg_step_simps)

lemma row_step_bind:
  assumes "receipt_typed r" "pgr_state r = ''applying'' \<or> pgr_state r = ''active''" "map_of (pgr_portgroup_keys r) \<subseteq>\<^sub>m map_of ks"
  shows "row_step r (r\<lparr>pgr_portgroup_keys := ks, pgr_state := ''active''\<rparr>)"
  using assms keys_contain_le [OF assms(3)]
  by (auto simp: row_step_def receipt_typed_def receipt_check_def trigger_rejects_def life_of_def stage_of_def pg_step_simps)

lemma row_step_remove:
  assumes "receipt_typed r" "pgr_state r \<in> {''planned'', ''active'', ''removed''}"
  shows "row_step r (r\<lparr>pgr_state := ''removed'',
           pgr_removed_at := (case pgr_removed_at r of None \<Rightarrow> Some now | Some t \<Rightarrow> Some t)\<rparr>)"
  using assms
  by (auto simp: row_step_def receipt_typed_def receipt_check_def trigger_rejects_def life_of_def stage_of_def pg_step_simps
      split: option.splits)

lemma row_step_absent:
  assumes "receipt_typed r" "pgr_state r = ''applying''" "pgr_portgroup_keys r = []" "pgr_removed_at r = None"
  shows "row_step r (r\<lparr>pgr_state := ''removed'', pgr_removed_at := Some now\<rparr>)"
  using assms
  by (auto simp: row_step_def receipt_typed_def receipt_check_def trigger_rejects_def life_of_def stage_of_def pg_step_simps)

lemma receipt_unique:
  assumes "receipts_typed db" "find P (db_portgroup_receipts db) = Some r" "pgr_pod_id r = podID"
    "x \<in> set (db_portgroup_receipts db)" "pgr_pod_id x = podID"
  shows "x = r"
  using assms distinct_key_eq [of pgr_pod_id "db_portgroup_receipts db"]
  by (metis find_SomeD receipts_typed_def)

lemma typed_row: "receipts_typed db \<Longrightarrow> r \<in> set (db_portgroup_receipts db) \<Longrightarrow> receipt_typed r"
  by (simp add: receipts_typed_def)

lemma receipts_step_tx:
  "(\<And>x db'. body db = Inr (x, db') \<Longrightarrow> receipts_step db db') \<Longrightarrow> receipts_step db (snd (run_tx flt body db))"
  by (rule run_tx_preserves [where I = "receipts_step db"]) (auto intro: receipts_step_refl)

text \<open>
  An update of the row of one pod, whose row is known: it goes through, and it is a row step.
\<close>

lemma update_pod_receipt:
  assumes wf: "receipts_typed db" and r: "find P (db_portgroup_receipts db) = Some r" "pgr_pod_id r = podID"
    and step: "row_step r (f r)"
  shows "update_receipts (\<lambda>x. pgr_pod_id x = podID) f db =
           Inr (db\<lparr>db_portgroup_receipts := sql_update (\<lambda>x. pgr_pod_id x = podID) f (db_portgroup_receipts db)\<rparr>)"
    and "receipts_step db (db\<lparr>db_portgroup_receipts := sql_update (\<lambda>x. pgr_pod_id x = podID) f (db_portgroup_receipts db)\<rparr>)"
proof -
  have *: "row_step x (f x)" if "x \<in> set (db_portgroup_receipts db)" "pgr_pod_id x = podID" for x
    using receipt_unique [OF wf r that] step by simp
  show "update_receipts (\<lambda>x. pgr_pod_id x = podID) f db =
           Inr (db\<lparr>db_portgroup_receipts := sql_update (\<lambda>x. pgr_pod_id x = podID) f (db_portgroup_receipts db)\<rparr>)"
    by (rule update_receipts_ok) (rule *)
  show "receipts_step db (db\<lparr>db_portgroup_receipts := sql_update (\<lambda>x. pgr_pod_id x = podID) f (db_portgroup_receipts db)\<rparr>)"
    by (rule receipts_step_update [where P = "\<lambda>x. pgr_pod_id x = podID" and f = f]) (simp_all add: *)
qed

text \<open>What each operation does to the table and which errors it can report.\<close>

definition refused :: "go_error \<Rightarrow> bool" where
  "refused e \<longleftrightarrow> (\<exists>m. e = Errorf m [immutable_error] \<or> e = Errorf m [check_error])"

definition sound :: "database \<Rightarrow> (unit \<times> database) result \<Rightarrow> bool" where
  "sound db x \<longleftrightarrow> (case x of Inl e \<Rightarrow> \<not> refused e | Inr (_, db') \<Rightarrow> receipts_step db db')"

lemma sound_err [simp]:
  "sound db (Inl (Errorf m [Sentinel s]))" "sound db (Inl (Errorf m []))" "sound db (Inr (u, db))"
  by (simp_all add: sound_def refused_def receipts_step_refl)

lemma sound_update:
  assumes "receipts_typed db" "find P (db_portgroup_receipts db) = Some r" "pgr_pod_id r = podID" "row_step r (f r)"
  shows "sound db (case update_receipts (\<lambda>x. pgr_pod_id x = podID) f db of Inl e \<Rightarrow> Inl (Errorf m [e]) | Inr db' \<Rightarrow> Inr ((), db'))"
  using update_pod_receipt [where f = f, OF assms] by (simp add: sound_def)

lemma sound_exec:
  assumes "\<And>r. r \<in> set (db_portgroup_receipts db) \<Longrightarrow> P r \<Longrightarrow> row_step r (f r)"
  shows "sound db (exec_receipt P f m db)"
proof -
  have u: "update_receipts P f db = Inr (db\<lparr>db_portgroup_receipts := sql_update P f (db_portgroup_receipts db)\<rparr>)"
    by (rule update_receipts_ok) (rule assms)
  have "receipts_step db (db\<lparr>db_portgroup_receipts := sql_update P f (db_portgroup_receipts db)\<rparr>)"
    by (rule receipts_step_update [where P = P and f = f]) (simp_all add: assms)
  with u show ?thesis by (simp add: exec_receipt_def sound_def refused_def)
qed

fun well_shaped :: "pg_op \<Rightarrow> bool" where
  "well_shaped (PgPersist _ _ _ _ r) = receipt_shape r"
| "well_shaped _ = True"

lemma run_tx_sound:
  assumes "sound db (body db) \<or> \<not> ok \<and> (\<exists>e. body db = Inl e)"
  shows "receipts_step db (snd (run_tx flt body db)) \<and>
    (flt = None \<and> ok \<longrightarrow> (\<forall>e. fst (run_tx flt body db) = Inl e \<longrightarrow> \<not> refused e))"
  using assms receipts_step_refl [of db]
  by (auto simp: run_tx_def sound_def split: option.splits sum.splits prod.splits)

lemma find_receiptD:
  "find (\<lambda>r. pgr_create_job_id r = j \<and> pgr_pod_id r = p) rs = Some r \<Longrightarrow>
     r \<in> set rs \<and> pgr_create_job_id r = j \<and> pgr_pod_id r = p"
  "find (\<lambda>r. pgr_pod_id r = p) rs = Some r \<Longrightarrow> r \<in> set rs \<and> pgr_pod_id r = p"
  using find_SomeD by fast+

lemma pg_exec_sound:
  assumes wf: "receipts_typed db"
  shows "receipts_step db (snd (pg_exec flt op db)) \<and>
    (flt = None \<and> well_shaped op \<longrightarrow> (\<forall>e. fst (pg_exec flt op db) = Inl e \<longrightarrow> \<not> refused e))"
proof (cases op)
  case (PgPersist ustr j w p r)
  let ?new = "\<lparr>pgr_pod_id = p, pgr_create_job_id = j, pgr_receipt = r,
      pgr_portgroup_keys = [], pgr_state = ''planned'', pgr_removed_at = None\<rparr>"
  have new: "receipts_step db (db\<lparr>db_portgroup_receipts := db_portgroup_receipts db @ [?new]\<rparr>)"
    if "receipt_shape r" "find_receipt p db = None"
  proof -
    have "pgr_pod_id ?new \<notin> pgr_pod_id ` set (db_portgroup_receipts db)" using that(2) by (auto simp: find_None_iff)
    moreover have "receipt_typed ?new" using that(1) by (simp add: receipt_typed_def receipt_check_def)
    moreover have "pg_step Unrecorded (life_of ?new)" by (simp add: life_of_def stage_of_def pg_step.plan)
    ultimately show ?thesis unfolding receipts_step_def by (intro disjI2 disjI1 exI [of _ ?new]) simp
  qed
  show ?thesis
    unfolding PgPersist pg_exec.simps PersistPodPortGroupReceipt_def well_shaped.simps
    by (rule run_tx_sound) (use new in \<open>auto simp: sound_def refused_def receipts_step_refl split: option.splits if_splits\<close>)
next
  case (PgBegin ustr j w p r)
  let ?b = "\<lambda>db. case (find (\<lambda>x. j_ID x = j) (db_jobs db),
             find (\<lambda>r. pgr_create_job_id r = j \<and> pgr_pod_id r = p) (db_portgroup_receipts db)) of
         (Some x, Some x') \<Rightarrow> True | _ \<Rightarrow> False"
  have up: "sound db (case update_receipts (\<lambda>x. pgr_pod_id x = p) (\<lambda>x. x\<lparr>pgr_state := ''applying''\<rparr>) db of
      Inl e \<Rightarrow> Inl (Errorf m [e]) | Inr db' \<Rightarrow> Inr ((), db'))"
    if "find (\<lambda>r. pgr_create_job_id r = j \<and> pgr_pod_id r = p) (db_portgroup_receipts db) = Some x" "pgr_state x = ''planned''"
    for x m
    using find_receiptD(1) [OF that(1)] that typed_row [OF wf]
    by (intro sound_update [OF wf that(1)] row_step_apply) auto
  show ?thesis
    unfolding PgBegin pg_exec.simps BeginPodPortGroupMutation_def well_shaped.simps
    by (rule run_tx_sound) (use up in \<open>auto split: option.splits\<close>)
next
  case (PgKeys p r ks)
  have up: "sound db (case update_receipts (\<lambda>x. pgr_pod_id x = p) (\<lambda>x. x\<lparr>pgr_portgroup_keys := ex, pgr_state := ''active''\<rparr>) db of
      Inl e \<Rightarrow> Inl (Errorf m [e]) | Inr db' \<Rightarrow> Inr ((), db'))"
    if "find_receipt p db = Some x" "pgr_state x = ''applying'' \<or> pgr_state x = ''active''"
      "bind_keys (pgr_portgroup_keys x) ks = Inr ex" for x ex m
    using find_receiptD(2) [OF that(1)] that typed_row [OF wf] bind_keys_le [OF that(3)]
    by (intro sound_update [OF wf that(1)] row_step_bind) auto
  have err: "sound db (Inl e)" if "bind_keys ex ks = Inl e" for ex e
    using that by (induction ex ks rule: bind_keys.induct) (auto split: if_splits)
  show ?thesis
    unfolding PgKeys pg_exec.simps PersistPodPortGroupKeys_def well_shaped.simps
    by (rule run_tx_sound) (use up err in \<open>auto split: option.splits sum.splits\<close>)
next
  case (PgRemoved now p r)
  show ?thesis
    unfolding PgRemoved pg_exec.simps MarkPodPortGroupRemoved_def well_shaped.simps
    by (rule run_tx_sound, rule disjI1, rule sound_exec) (use typed_row [OF wf] in \<open>auto intro: row_step_remove simp del: insert_iff\<close>)
next
  case (PgAbsent now p r)
  show ?thesis
    unfolding PgAbsent pg_exec.simps MarkPodPortGroupAbsentRemoved_def well_shaped.simps
    by (rule run_tx_sound, rule disjI1, rule sound_exec) (use typed_row [OF wf] in \<open>auto intro: row_step_absent\<close>)
qed

section \<open>Refinement\<close>

lemma pg_run_typed: "receipts_typed db \<Longrightarrow> receipts_typed (pg_run x db)"
  using pg_exec_sound [of db "fst x" "snd x"] receipts_step_typed unfolding pg_run_def by blast

interpretation receipts: simulation
  "\<lambda>db. db_portgroup_receipts db = []" "\<lambda>db x db'. db' = pg_run x db" receipts_typed "receipt_life podID" pg_step
  for podID
proof unfold_locales
  show "receipts_typed db" if "db_portgroup_receipts db = []" for db
    using that by (simp add: receipts_typed_def)
next
  show "receipts_typed db'" if "receipts_typed db" "db' = pg_run x db" for db x db'
    using that pg_run_typed by simp
next
  show "receipt_life podID db' = receipt_life podID db \<or> pg_step (receipt_life podID db) (receipt_life podID db')"
    if "receipts_typed db" "db' = pg_run x db" for db x db'
    using that pg_exec_sound [of db "fst x" "snd x"] receipts_step_life unfolding pg_run_def by blast
qed

lemma pg_step_identity:
  "pg_step l l' \<Longrightarrow> l = Recorded s j r ks \<Longrightarrow>
     \<exists>s' ks'. l' = Recorded s' j r ks' \<and> ks \<subseteq>\<^sub>m ks' \<and> (s = Removed \<longrightarrow> False)"
  by (auto simp: pg_step_simps)

lemma pg_steps_identity:
  "pg_step\<^sup>*\<^sup>* l l' \<Longrightarrow> l = Recorded s j r ks \<Longrightarrow>
     \<exists>s' ks'. l' = Recorded s' j r ks' \<and> ks \<subseteq>\<^sub>m ks' \<and> (s = Removed \<longrightarrow> s' = Removed \<and> ks' = ks)"
proof (induction arbitrary: s ks rule: converse_rtranclp_induct)
  case base
  then show ?case by simp
next
  case (step l m)
  from pg_step_identity [OF step.hyps(1) step.prems] obtain s1 ks1
    where m: "m = Recorded s1 j r ks1" "ks \<subseteq>\<^sub>m ks1" "s \<noteq> Removed" by blast
  with step.IH [OF m(1)] show ?case using map_le_trans by blast
qed

text \<open>
  C11. The stored receipts refine the abstract life of a receipt: whatever operations run on a
  well-typed table, in whatever order and with whatever driver failures, the receipt of every pod
  moves along the abstract steps. So the plan and the job that made it never change, a learned
  key never changes, and a removed receipt stays removed with the keys it had.
\<close>

theorem receipt_refinement:
  assumes "receipts_typed db"
  shows "pg_step\<^sup>*\<^sup>* (receipt_life podID db) (receipt_life podID (fold pg_run ops db)) \<and>
    (receipt_life podID db = Recorded s j r ks \<longrightarrow>
      (\<exists>s' ks'. receipt_life podID (fold pg_run ops db) = Recorded s' j r ks' \<and> ks \<subseteq>\<^sub>m ks' \<and>
         (s = Removed \<longrightarrow> s' = Removed \<and> ks' = ks)))"
proof -
  have "pg_step\<^sup>*\<^sup>* (receipt_life podID db) (receipt_life podID (fold pg_run ops db))"
    by (rule receipts.fold_sim [OF _ assms]) simp
  then show ?thesis using pg_steps_identity by blast
qed


definition lab_receipt :: json where
  "lab_receipt = JObj [(''name'', JStr ''Pod-VLAN400''), (''vlan_id'', JNum 400), (''hosts'', JArr [JStr ''esxi1''])]"

definition lab_create_db :: database where
  "lab_create_db = lab_db\<lparr>db_jobs := [(new_job 21 0 ''pod_create'' lab_payload)\<lparr>j_Status := JobStatusInProgress,
     j_ClaimedBy := Some ''w'', j_ClaimedAt := Some 1\<rparr>]\<rparr>"

definition lab_ops :: "(go_error option \<times> pg_op) list" where
  "lab_ops = [(None, PgPersist tally 21 ''w'' 2 lab_receipt), (None, PgBegin tally 21 ''w'' 2 lab_receipt),
     (None, PgKeys 2 lab_receipt [(''host-1'', ''key-a'')])]"

theorem receipt_refinement_witness:
  "pg_step\<^sup>*\<^sup>* (receipt_life 2 lab_create_db) (receipt_life 2 (fold pg_run lab_ops lab_create_db)) \<and>
   map pgr_state (db_portgroup_receipts (fold pg_run lab_ops lab_create_db)) = [''active'']"
proof
  have "receipts_typed lab_create_db" by code_simp
  then show "pg_step\<^sup>*\<^sup>* (receipt_life 2 lab_create_db) (receipt_life 2 (fold pg_run lab_ops lab_create_db))"
    using receipt_refinement by blast
  show "map pgr_state (db_portgroup_receipts (fold pg_run lab_ops lab_create_db)) = [''active'']" by code_simp
qed


end
