(* ===== verification/SharedStripes.thy ===== *)
theory SharedStripes
  imports Store "HOL-Library.Word"
begin

text \<open>
  The nine pre-provisioned networks of the Single VMs (\<open>models/shared_stripes.go\<close>,
  \<open>database/single_vm_stripes.go\<close>), the choice of a stripe for a new pod, and the limits per role
  (\<open>models/limits.go\<close>). An IPv4 address is a 32 bit word.
\<close>

unbundle bit_operations_syntax

section \<open>IPv4 addresses\<close>

text \<open>
  \<open>netip.Addr\<close>: an IPv4 address, or the zero value, which is what \<open>Next\<close> returns after the last
  address. \<open>Compare\<close> orders by the length of the address first, so the zero value is below every
  address, and it is its own successor.
\<close>

datatype addr = Addr4 "32 word" | AddrNone

definition As4 :: "32 word \<Rightarrow> 8 word \<times> 8 word \<times> 8 word \<times> 8 word" where
  "As4 a = (ucast (drop_bit 24 a), ucast (drop_bit 16 a), ucast (drop_bit 8 a), ucast a)"

definition AddrFrom4 :: "8 word \<times> 8 word \<times> 8 word \<times> 8 word \<Rightarrow> 32 word" where
  "AddrFrom4 = (\<lambda>(b0, b1, b2, b3).
     push_bit 24 (ucast b0) OR push_bit 16 (ucast b1) OR push_bit 8 (ucast b2) OR ucast b3)"

fun Next :: "addr \<Rightarrow> addr" where
  "Next (Addr4 a) = (if a = -1 then AddrNone else Addr4 (a + 1))"
| "Next AddrNone = AddrNone"

fun CompareLe :: "addr \<Rightarrow> addr \<Rightarrow> bool" where
  "CompareLe (Addr4 a) (Addr4 b) = (a \<le> b)"
| "CompareLe (Addr4 _) AddrNone = False"
| "CompareLe AddrNone _ = True"

text \<open>Decimal texts: \<open>fmt\<close>'s \<open>%d\<close> of a natural number and \<open>Addr.String\<close>.\<close>

definition digit :: "nat \<Rightarrow> char" where
  "digit d = char_of (48 + d)"

fun dec :: "nat \<Rightarrow> string" where
  "dec n = (if n < 10 then [digit n] else dec (n div 10) @ [digit (n mod 10)])"

definition byte_text :: "8 word \<Rightarrow> string" where
  "byte_text b = dec (unat b)"

fun addr_String :: "addr \<Rightarrow> string" where
  "addr_String (Addr4 a) =
     (case As4 a of (b0, b1, b2, b3) \<Rightarrow>
        byte_text b0 @ ''.'' @ byte_text b1 @ ''.'' @ byte_text b2 @ ''.'' @ byte_text b3)"
| "addr_String AddrNone = ''invalid IP''"

text \<open>
  \<open>netip.ParseAddr\<close> on an IPv4 text: four fields between dots, each of decimal digits, without a
  leading zero and at most 255. \<open>MustParseAddr\<close> panics where there is none.
\<close>

fun split_dots :: "string \<Rightarrow> string list" where
  "split_dots [] = [[]]"
| "split_dots (c # s) =
     (if c = CHR ''.'' then [] # split_dots s
      else (case split_dots s of [] \<Rightarrow> [[c]] | f # fs \<Rightarrow> (c # f) # fs))"

definition is_digit :: "char \<Rightarrow> bool" where
  "is_digit c \<longleftrightarrow> 48 \<le> (of_char c :: nat) \<and> (of_char c :: nat) \<le> 57"

definition field_value :: "string \<Rightarrow> nat" where
  "field_value s = foldl (\<lambda>v c. 10 * v + (of_char c - 48)) 0 s"

definition parse_field :: "string \<Rightarrow> 8 word option" where
  "parse_field s =
     (if s = [] \<or> \<not> list_all is_digit s \<or> length s > 1 \<and> hd s = CHR ''0'' \<or> field_value s > 255 then None
      else Some (of_nat (field_value s)))"

definition ParseAddr :: "string \<Rightarrow> addr option" where
  "ParseAddr s =
     (case map parse_field (split_dots s) of
        [Some b0, Some b1, Some b2, Some b3] \<Rightarrow> Some (Addr4 (AddrFrom4 (b0, b1, b2, b3)))
      | _ \<Rightarrow> None)"

definition addHosts :: "addr \<Rightarrow> int \<Rightarrow> addr" where
  "addHosts a n =
     (case a of
        Addr4 w \<Rightarrow>
          (case As4 w of (b0, b1, b2, b3) \<Rightarrow>
             let v = push_bit 24 (ucast b0 :: 32 word) OR push_bit 16 (ucast b1) OR push_bit 8 (ucast b2) OR ucast b3;
                 v = v + word_of_int n
             in Addr4 (AddrFrom4 (ucast (drop_bit 24 v), ucast (drop_bit 16 v), ucast (drop_bit 8 v), ucast v)))
      | AddrNone \<Rightarrow> AddrNone)"

section \<open>The stripes\<close>

definition SharedVLANTagFirst :: int where "SharedVLANTagFirst = 347"
definition SharedVLANTagLast :: int where "SharedVLANTagLast = 355"
definition SharedStripeCount :: nat where "SharedStripeCount = 9"
definition SharedStripeSlots :: nat where "SharedStripeSlots = 16"
definition SharedRunnerSlots :: nat where "SharedRunnerSlots = 14"

record stripe =
  st_VLANTag :: int
  st_CIDR :: string
  st_Gateway :: string
  st_PortGroup :: string
  st_DHCPStart :: string
  st_DHCPEnd :: string
  st_RunnerFirst :: string
  st_RunnerLast :: string

definition zero_stripe :: stripe where
  "zero_stripe = \<lparr>st_VLANTag = 0, st_CIDR = [], st_Gateway = [], st_PortGroup = [], st_DHCPStart = [],
     st_DHCPEnd = [], st_RunnerFirst = [], st_RunnerLast = []\<rparr>"

text \<open>\<open>netip.MustParseAddr("10.110.0.0")\<close>.\<close>

definition stripe_base :: addr where
  "stripe_base = Addr4 (AddrFrom4 (10, 110, 0, 0))"

definition stripeForTag :: "int \<Rightarrow> stripe" where
  "stripeForTag tag =
     (let base = addHosts stripe_base ((tag - SharedVLANTagFirst) * 64) in
      \<lparr>st_VLANTag = tag,
       st_CIDR = addr_String base @ ''/26'',
       st_Gateway = addr_String (addHosts base 1) @ ''/26'',
       st_PortGroup = ''Shared-VLAN'' @ dec (nat tag),
       st_DHCPStart = addr_String (addHosts base 16),
       st_DHCPEnd = addr_String (addHosts base 47),
       st_RunnerFirst = addr_String (addHosts base 2),
       st_RunnerLast = addr_String (addHosts base 15)\<rparr>)"

definition SharedStripes :: "stripe list" where
  "SharedStripes = map stripeForTag [SharedVLANTagFirst..SharedVLANTagLast]"

text \<open>
  The loop over the runner addresses. Nothing in it bounds it: with the last address of the IPv4
  space as its end it never stops, so that not returning is \<open>None\<close>.
\<close>

partial_function (option) runner_loop :: "addr \<Rightarrow> addr \<Rightarrow> string list option" where
  "runner_loop ip end_ip =
     (if CompareLe ip end_ip
      then Option.bind (runner_loop (Next ip) end_ip) (\<lambda>out. Some (addr_String ip # out))
      else Some [])"

declare runner_loop.simps [code]

definition RunnerAddresses :: "stripe \<Rightarrow> string list option" where
  "RunnerAddresses s =
     (case (ParseAddr (st_RunnerFirst s), ParseAddr (st_RunnerLast s)) of
        (Some a, Some b) \<Rightarrow> runner_loop a b
      | _ \<Rightarrow> None)"

definition PodCreateNetwork :: "string \<Rightarrow> int \<Rightarrow> string \<times> bool" where
  "PodCreateNetwork mode vlanTag =
     (if mode = ''shared'' then (''Shared-VLAN'' @ dec (nat vlanTag), False)
      else (''Pod-VLAN'' @ dec (nat vlanTag), True))"

section \<open>Choosing a stripe\<close>

text \<open>
  The loop keeps the index of the best stripe so far and its count; \<open>occupancy\<close> and \<open>active\<close> are
  Go maps, which read as zero and false where they have no entry.
\<close>

definition map_get :: "('a \<Rightarrow> 'b option) \<Rightarrow> 'b \<Rightarrow> 'a \<Rightarrow> 'b" where
  "map_get m d k = (case m k of None \<Rightarrow> d | Some v \<Rightarrow> v)"

definition maxInt :: int where "maxInt = 2 ^ 63 - 1"

fun pick_loop :: "(int \<Rightarrow> int option) \<Rightarrow> stripe list \<Rightarrow> stripe option \<times> int \<Rightarrow> stripe option \<times> int" where
  "pick_loop occupancy [] acc = acc"
| "pick_loop occupancy (s # ss) (best, bestCount) =
     (let n = map_get occupancy 0 (st_VLANTag s) in
      if n \<ge> int SharedStripeSlots then pick_loop occupancy ss (best, bestCount)
      else if n < bestCount then pick_loop occupancy ss (Some s, n)
      else pick_loop occupancy ss (best, bestCount))"

definition PickStripe :: "(int \<Rightarrow> int option) \<Rightarrow> (int \<Rightarrow> bool option) \<Rightarrow> stripe \<times> bool \<times> bool" where
  "PickStripe occupancy active =
     (if \<exists>s \<in> set SharedStripes. \<not> map_get active False (st_VLANTag s) then (zero_stripe, False, False)
      else
        (case fst (pick_loop occupancy SharedStripes (None, maxInt)) of
           None \<Rightarrow> (zero_stripe, False, True)
         | Some s \<Rightarrow> (s, True, False)))"

section \<open>The stripes in the database\<close>

text \<open>
  \<open>EnsureSharedNetworks\<close>: one insert per stripe, each its own statement, stopping at the first
  failure; \<open>newID\<close> are the identifiers the database generates.
\<close>

definition insert_stripe :: "(int \<Rightarrow> uuid) \<Rightarrow> stripe \<Rightarrow> database \<Rightarrow> database" where
  "insert_stripe newID s db =
     (if st_VLANTag s \<in> sn_vlan_tag ` set (db_shared_networks db) then db
      else db\<lparr>db_shared_networks := db_shared_networks db @
             [\<lparr>sn_id = newID (st_VLANTag s), sn_vlan_tag = st_VLANTag s, sn_cidr = st_CIDR s,
               sn_gateway = st_Gateway s, sn_portgroup_name = st_PortGroup s, sn_dhcp_start = st_DHCPStart s,
               sn_dhcp_end = st_DHCPEnd s, sn_runner_first = st_RunnerFirst s, sn_runner_last = st_RunnerLast s,
               sn_status = ''pending'', sn_error_message = []\<rparr>]\<rparr>)"

fun ensure_loop :: "(int \<Rightarrow> go_error option) \<Rightarrow> (int \<Rightarrow> uuid) \<Rightarrow> stripe list \<Rightarrow> database \<Rightarrow> unit result \<times> database" where
  "ensure_loop flt newID [] db = (Inr (), db)"
| "ensure_loop flt newID (s # ss) db =
     (case flt (st_VLANTag s) of
        Some e \<Rightarrow> (Inl (Errorf ''insert shared network'' [e]), db)
      | None \<Rightarrow> ensure_loop flt newID ss (insert_stripe newID s db))"

definition EnsureSharedNetworks ::
  "(int \<Rightarrow> go_error option) \<Rightarrow> (int \<Rightarrow> uuid) \<Rightarrow> database \<Rightarrow> unit result \<times> database" where
  "EnsureSharedNetworks flt newID db = ensure_loop flt newID SharedStripes db"

text \<open>\<open>db_shared_policy_ready\<close> is the one row of \<open>shared_address_space\<close>, if it is there.\<close>

definition SharedNetworksReady :: "database \<Rightarrow> bool" where
  "SharedNetworksReady db =
     (case db_shared_policy_ready db of
        None \<Rightarrow> False
      | Some ready \<Rightarrow> ready \<and> sql_count (\<lambda>n. sn_status n = ''active'') (db_shared_networks db) = SharedStripeCount)"

definition stripe_pods :: "uuid \<Rightarrow> database \<Rightarrow> nat" where
  "stripe_pods networkID db =
     sql_count (\<lambda>p. pd_shared_network_id p = Some networkID \<and> pd_status p \<noteq> ''destroyed'') (db_pods db)"

text \<open>The three maps the rows of the query fill; a later row with the same tag overwrites.\<close>

definition active_networks :: "database \<Rightarrow> shared_network_row list" where
  "active_networks db = filter (\<lambda>n. sn_status n = ''active'') (db_shared_networks db)"

definition PickSharedStripe :: "database \<Rightarrow> (uuid \<times> stripe) result" where
  "PickSharedStripe db =
     (if \<not> SharedNetworksReady db then Inl (Sentinel ErrSharedNetworksNotReady)
      else
        let rows = sort_key (\<lambda>n. (int (stripe_pods (sn_id n) db), sn_vlan_tag n)) (active_networks db);
            occupancy = map_of (rev (map (\<lambda>n. (sn_vlan_tag n, int (stripe_pods (sn_id n) db))) rows));
            ids = map_of (rev (map (\<lambda>n. (sn_vlan_tag n, sn_id n)) rows));
            active = map_of (rev (map (\<lambda>n. (sn_vlan_tag n, True)) rows))
        in (case PickStripe occupancy active of (s, ok, full) \<Rightarrow>
              if \<not> ok \<and> full then Inl (Sentinel ErrSharedNetworksFull)
              else if \<not> ok then Inl (Sentinel ErrSharedNetworksNotReady)
              else Inr (map_get ids uuid_Nil (st_VLANTag s), s)))"

definition ListSharedNetworks :: "database \<Rightarrow> shared_network_row list" where
  "ListSharedNetworks db = sort_key sn_vlan_tag (db_shared_networks db)"

definition SetSharedNetworkStatus ::
  "go_error option \<Rightarrow> uuid \<Rightarrow> string \<Rightarrow> string \<Rightarrow> database \<Rightarrow> unit result \<times> database" where
  "SetSharedNetworkStatus flt i status message =
     run_tx flt (\<lambda>db.
       if (\<exists>n \<in> set (db_shared_networks db). sn_id n = i) \<and>
          status \<notin> {''pending'', ''provisioning'', ''active'', ''error''}
       then Inl (errorsNew ''new row violates check constraint'')
       else Inr ((), db\<lparr>db_shared_networks := sql_update (\<lambda>n. sn_id n = i)
              (\<lambda>n. n\<lparr>sn_status := status, sn_error_message := message\<rparr>) (db_shared_networks db)\<rparr>))"

definition CountSharedPodsTx :: "uuid \<Rightarrow> database \<Rightarrow> nat" where
  "CountSharedPodsTx userID db =
     sql_count (\<lambda>p. pd_user_id p = userID \<and> pd_network_mode p = ''shared'' \<and> pd_status p \<noteq> ''destroyed'') (db_pods db)"

section \<open>Limits per role\<close>

definition days :: "int \<Rightarrow> go_time" where "days n = seconds (n * 86400)"

definition PodTTL :: "string \<Rightarrow> go_time result" where
  "PodTTL role =
     (if role = ''student'' then Inr (days 5)
      else if role = ''instructor'' \<or> role = ''admin'' then Inr (days 14)
      else Inl (errorsNew ''unknown role for pod TTL''))"

definition PodExtend :: "string \<Rightarrow> go_time result" where
  "PodExtend role =
     (if role = ''student'' then Inr (days 5)
      else if role = ''instructor'' \<or> role = ''admin'' then Inr (days 7)
      else Inl (errorsNew ''unknown role for pod extend''))"

definition NewExpiresAt :: "string \<Rightarrow> go_time \<Rightarrow> go_time result" where
  "NewExpiresAt role now = (case PodTTL role of Inl e \<Rightarrow> Inl e | Inr ttl \<Rightarrow> Inr (now + ttl))"

definition ExtendExpiresAt :: "string \<Rightarrow> go_time \<Rightarrow> (go_time \<times> go_time) result" where
  "ExtendExpiresAt role now = (case PodExtend role of Inl e \<Rightarrow> Inl e | Inr ext \<Rightarrow> Inr (now + ext, ext))"

section \<open>Addresses and their texts\<close>

lemma AddrFrom4_As4 [simp]: "AddrFrom4 (As4 a) = a"
proof (rule bit_word_eqI)
  fix n
  assume "n < LENGTH(32)"
  then consider "n < 8" | "8 \<le> n" "n < 16" | "16 \<le> n" "n < 24" | "24 \<le> n" "n < 32" by fastforce
  then show "bit (AddrFrom4 (As4 a)) n = bit a n"
    by cases (auto simp: AddrFrom4_def As4_def bit_simps less_diff_conv2)
qed

lemma addHosts_Addr4 [simp]: "addHosts (Addr4 a) n = Addr4 (a + word_of_int n)"
proof -
  have v: "(case As4 w of (b0, b1, b2, b3) \<Rightarrow>
      push_bit 24 (ucast b0 :: 32 word) OR push_bit 16 (ucast b1) OR push_bit 8 (ucast b2) OR ucast b3) = w" for w
    using AddrFrom4_As4 [of w] by (simp add: AddrFrom4_def As4_def)
  have f: "AddrFrom4 (ucast (drop_bit 24 w), ucast (drop_bit 16 w), ucast (drop_bit 8 w), ucast w) = w" for w
    using AddrFrom4_As4 [of w] by (simp add: As4_def)
  show ?thesis
    using v [of a] by (simp add: addHosts_def As4_def Let_def f)
qed

lemma of_char_digit: "d < 10 \<Longrightarrow> (of_char (digit d) :: nat) = 48 + d"
  by (simp add: digit_def)

declare dec.simps [simp del]

lemma field_value_snoc: "field_value (s @ [c]) = 10 * field_value s + (of_char c - 48)"
  by (simp add: field_value_def)

lemma dec_value: "field_value (dec n) = n"
proof (induction n rule: dec.induct)
  case (1 n)
  show ?case
  proof (cases "n < 10")
    case True
    then show ?thesis by (subst dec.simps) (simp add: field_value_def of_char_digit)
  next
    case False
    with 1 show ?thesis by (subst dec.simps) (simp add: field_value_snoc of_char_digit)
  qed
qed

lemma dec_digits: "list_all is_digit (dec n) \<and> dec n \<noteq> []"
proof (induction n rule: dec.induct)
  case (1 n)
  show ?case
  proof (cases "n < 10")
    case True
    then show ?thesis by (simp add: dec.simps [of n] is_digit_def of_char_digit)
  next
    case False
    with 1 have "list_all is_digit (dec (n div 10))" by simp
    moreover have "is_digit (digit (n mod 10))" by (simp add: is_digit_def of_char_digit)
    ultimately show ?thesis using False by (simp add: dec.simps [of n])
  qed
qed

lemma dec_head: "0 < n \<Longrightarrow> hd (dec n) \<noteq> CHR ''0''"
proof (induction n rule: dec.induct)
  case (1 n)
  show ?case
  proof (cases "n < 10")
    case True
    have "of_char (digit n) \<noteq> (of_char (CHR ''0'') :: nat)" using True 1(2) by (simp add: of_char_digit)
    then have "digit n \<noteq> CHR ''0''" by metis
    with True show ?thesis by (subst dec.simps) simp
  next
    case False
    with 1 show ?thesis by (subst dec.simps) (use dec_digits [of "n div 10"] in \<open>simp add: hd_append\<close>)
  qed
qed

lemma parse_byte [simp]: "parse_field (byte_text b) = Some b"
proof -
  have "unat b \<le> 255" using unsigned_less [of b, where ?'a = nat] by simp
  moreover have "\<not> (1 < length (dec (unat b)) \<and> hd (dec (unat b)) = CHR ''0'')"
  proof (cases "unat b = 0")
    case True
    then show ?thesis by (subst dec.simps) simp
  next
    case False
    then show ?thesis using dec_head by simp
  qed
  ultimately show ?thesis
    using dec_digits [of "unat b"] by (simp add: parse_field_def byte_text_def dec_value)
qed

lemma split_dots_field:
  "list_all is_digit s \<Longrightarrow> split_dots (s @ ''.'' @ t) = s # split_dots t" "list_all is_digit s \<Longrightarrow> split_dots s = [s]"
  by (induction s) (auto simp: is_digit_def)

lemma ParseAddr_String [simp]: "ParseAddr (addr_String (Addr4 a)) = Some (Addr4 a)"
proof -
  obtain b0 b1 b2 b3 where b: "As4 a = (b0, b1, b2, b3)" by (cases "As4 a")
  have d: "list_all is_digit (byte_text b)" for b using dec_digits by (simp add: byte_text_def)
  have "split_dots (addr_String (Addr4 a)) = map byte_text [b0, b1, b2, b3]"
    using d by (simp add: b split_dots_field del: append.simps append_Cons)
  moreover have "AddrFrom4 (b0, b1, b2, b3) = a" using AddrFrom4_As4 [of a] by (simp add: b)
  ultimately show ?thesis by (simp add: ParseAddr_def)
qed

section \<open>The runner addresses\<close>

lemma runner_loop_upto:
  assumes "b \<noteq> -1"
  shows "runner_loop (Addr4 a) (Addr4 b) = Some (map (\<lambda>k. addr_String (Addr4 (of_nat k))) [unat a..<Suc (unat b)])"
proof (induction "Suc (unat b) - unat a" arbitrary: a)
  case 0
  then have "\<not> a \<le> b" by (simp add: word_le_nat_alt)
  with 0 show ?case by (simp add: runner_loop.simps [of "Addr4 a"])
next
  case (Suc k)
  then have le: "a \<le> b" by (simp add: word_le_nat_alt)
  with assms have "a \<noteq> -1" by (metis word_order.extremum_uniqueI)
  then have s: "unat (a + 1) = Suc (unat a)" using unatSuc [of a] by (metis add.commute eq_neg_iff_add_eq_0)
  have "runner_loop (Addr4 (a + 1)) (Addr4 b) =
      Some (map (\<lambda>k. addr_String (Addr4 (of_nat k))) [unat (a + 1)..<Suc (unat b)])"
    by (rule Suc.hyps(1)) (use Suc.hyps(2) s in simp)
  with le \<open>a \<noteq> -1\<close> s show ?case
    by (simp add: runner_loop.simps [of "Addr4 a"] upt_conv_Cons word_le_nat_alt del: upt_Suc)
qed

lemma addr_String_inj: "addr_String (Addr4 a) = addr_String (Addr4 b) \<Longrightarrow> a = b"
  by (metis ParseAddr_String addr.inject option.inject)

lemma addHosts_addHosts [simp]: "addHosts (addHosts stripe_base m) n = addHosts stripe_base (m + n)"
  by (simp add: stripe_base_def ac_simps)

text \<open>The text of the host at an offset of the shared address space.\<close>

definition host_text :: "int \<Rightarrow> string" where
  "host_text n = addr_String (addHosts stripe_base n)"

lemma stripe_fields:
  "st_VLANTag (stripeForTag tag) = tag"
  "st_Gateway (stripeForTag tag) = host_text ((tag - 347) * 64 + 1) @ ''/26''"
  "st_DHCPStart (stripeForTag tag) = host_text ((tag - 347) * 64 + 16)"
  "st_DHCPEnd (stripeForTag tag) = host_text ((tag - 347) * 64 + 47)"
  "st_RunnerFirst (stripeForTag tag) = host_text ((tag - 347) * 64 + 2)"
  "st_RunnerLast (stripeForTag tag) = host_text ((tag - 347) * 64 + 15)"
  by (simp_all add: stripeForTag_def Let_def SharedVLANTagFirst_def host_text_def del: addr_String.simps)

lemma stripe_base_unat: "stripe_base = Addr4 (word_of_int 174981120)"
  by (simp add: stripe_base_def AddrFrom4_def)

lemma host_addr: "addHosts stripe_base n = Addr4 (word_of_int (174981120 + n))"
  by (simp add: stripe_base_unat wi_hom_add)

lemma stripe_addr:
  assumes "0 \<le> n" "n < 1000"
  shows "unat (word_of_int (174981120 + n) :: 32 word) = nat (174981120 + n)"
  unfolding unsigned_of_int using assms by (simp add: take_bit_int_eq_self)

lemma host_text_eq:
  assumes "host_text m = host_text n" "0 \<le> m" "m < 1000" "0 \<le> n" "n < 1000"
  shows "m = n"
proof -
  have "(word_of_int (174981120 + m) :: 32 word) = word_of_int (174981120 + n)"
    by (rule addr_String_inj) (use assms(1) in \<open>simp only: host_text_def host_addr\<close>)
  then have "nat (174981120 + m) = nat (174981120 + n)" using stripe_addr assms(2-) by metis
  with assms show ?thesis by simp
qed

definition stripe_runners :: "int \<Rightarrow> string list" where
  "stripe_runners tag = map (\<lambda>k. host_text ((tag - 347) * 64 + k)) [2..15]"

lemma stripe_runners_mem: "h \<in> set (stripe_runners tag) \<longleftrightarrow> (\<exists>k. 2 \<le> k \<and> k \<le> 15 \<and> h = host_text ((tag - 347) * 64 + k))"
  unfolding stripe_runners_def set_map set_upto by auto

lemma RunnerAddresses_stripe:
  assumes "347 \<le> tag" "tag \<le> 355"
  shows "RunnerAddresses (stripeForTag tag) = Some (stripe_runners tag)"
proof -
  define c where "c = nat (174981120 + (tag - 347) * 64)"
  have c: "int c = 174981120 + (tag - 347) * 64" using assms by (simp add: c_def)
  have base: "addHosts stripe_base ((tag - 347) * 64 + int k) = Addr4 (of_nat (c + k))" for k
  proof -
    have "174981120 + ((tag - 347) * 64 + int k) = int (c + k)" using c by simp
    then show ?thesis by (simp only: host_addr) (simp only: of_int_of_nat_eq)
  qed
  have u: "unat (of_nat (c + k) :: 32 word) = c + k" if "k < 100" for k
    unfolding unsigned_of_nat using that c assms by (simp add: take_bit_nat_eq_self)
  have "(of_nat (c + 15) :: 32 word) \<noteq> -1"
  proof
    assume "(of_nat (c + 15) :: 32 word) = -1"
    then have "unat (of_nat (c + 15) :: 32 word) = unat (-1 :: 32 word)" by (simp only:)
    moreover have "unat (-1 :: 32 word) = 4294967295" by (simp add: unsigned_minus_1_eq_mask mask_eq_exp_minus_1)
    ultimately have "c = 4294967280" using u [of 15] by simp
    with c assms show False by simp
  qed
  from runner_loop_upto [OF this, of "of_nat (c + 2)"]
  have "runner_loop (Addr4 (of_nat (c + 2))) (Addr4 (of_nat (c + 15))) =
      Some (map (\<lambda>k. addr_String (Addr4 (of_nat k))) [c + 2..<Suc (c + 15)])"
    by (simp only: u less_numeral_extra numeral_less_iff semiring_norm)
  moreover have "st_RunnerFirst (stripeForTag tag) = addr_String (Addr4 (of_nat (c + 2)))"
    "st_RunnerLast (stripeForTag tag) = addr_String (Addr4 (of_nat (c + 15)))"
    using base [of 2] base [of 15] by (simp_all add: stripe_fields host_text_def del: of_nat_add addr_String.simps)
  ultimately have "RunnerAddresses (stripeForTag tag) =
      Some (map (\<lambda>k. addr_String (Addr4 (of_nat k))) [c + 2..<Suc (c + 15)])"
    by (simp only: RunnerAddresses_def ParseAddr_String prod.case option.case)
  also have "[c + 2..<Suc (c + 15)] = map (\<lambda>k. c + k) [2..<16]"
    by (rule nth_equalityI) (simp_all add: nth_map nth_upt del: upt_Suc upt_rec_numeral)
  also have "map (\<lambda>k. addr_String (Addr4 (of_nat k))) (map (\<lambda>k. c + k) [2..<16]) =
      map (\<lambda>k. host_text ((tag - 347) * 64 + k)) (map int [2..<16])"
    by (simp only: list.map_comp comp_def base host_text_def)
  also have "map int [2..<16] = [2..15]" by code_simp
  finally show ?thesis by (simp only: stripe_runners_def)
qed



section \<open>The choice\<close>

abbreviation occ :: "(int \<Rightarrow> int option) \<Rightarrow> stripe \<Rightarrow> int" where
  "occ occupancy s \<equiv> map_get occupancy 0 (st_VLANTag s)"

text \<open>
  The loop, started with the best stripe of those before: it returns that one or a stripe of the
  list, with room, with the least count, and the lowest tag among those.
\<close>

lemma pick_loop_spec:
  assumes "sorted_wrt (\<lambda>a b. st_VLANTag a < st_VLANTag b) ss"
    and "best = None \<Longrightarrow> c = maxInt"
    and "\<And>b. best = Some b \<Longrightarrow> c = occ m b \<and> c < 16 \<and> (\<forall>s \<in> set ss. st_VLANTag b < st_VLANTag s)"
  shows "(fst (pick_loop m ss (best, c)) = None \<longleftrightarrow> best = None \<and> (\<forall>s \<in> set ss. 16 \<le> occ m s)) \<and>
    (\<forall>x. fst (pick_loop m ss (best, c)) = Some x \<longrightarrow>
       (x \<in> set ss \<or> best = Some x) \<and> occ m x < 16 \<and>
       (\<forall>s. s \<in> set ss \<or> best = Some s \<longrightarrow> occ m x \<le> occ m s \<and> (occ m x = occ m s \<longrightarrow> st_VLANTag x \<le> st_VLANTag s)))"
  using assms
proof (induction ss arbitrary: best c)
  case Nil
  then show ?case by (cases best) auto
next
  case (Cons s ss)
  have srt: "sorted_wrt (\<lambda>a b. st_VLANTag a < st_VLANTag b) ss" "\<forall>t \<in> set ss. st_VLANTag s < st_VLANTag t"
    using Cons.prems(1) by auto
  show ?case
  proof (cases "16 \<le> occ m s")
    case True
    have "best = Some b \<Longrightarrow> occ m b < occ m s" for b using Cons.prems(3) [of b] True by auto
    with True Cons.IH [of best c] srt Cons.prems show ?thesis by (fastforce simp: SharedStripeSlots_def)
  next
    case small: False
    show ?thesis
    proof (cases "occ m s < c")
      case True
      have ih: "(fst (pick_loop m ss (Some s, occ m s)) = None \<longleftrightarrow> Some s = None \<and> (\<forall>s \<in> set ss. 16 \<le> occ m s)) \<and>
        (\<forall>x. fst (pick_loop m ss (Some s, occ m s)) = Some x \<longrightarrow>
           (x \<in> set ss \<or> Some s = Some x) \<and> occ m x < 16 \<and>
           (\<forall>t. t \<in> set ss \<or> Some s = Some t \<longrightarrow> occ m x \<le> occ m t \<and> (occ m x = occ m t \<longrightarrow> st_VLANTag x \<le> st_VLANTag t)))"
        by (rule Cons.IH) (use srt small in auto)
      have e: "pick_loop m (s # ss) (best, c) = pick_loop m ss (Some s, occ m s)"
        using True small by (simp add: SharedStripeSlots_def)
      have "best = Some b \<Longrightarrow> occ m s < occ m b" for b using Cons.prems(3) [of b] True by auto
      with ih small show ?thesis unfolding e by fastforce
    next
      case False
      obtain b where b: "best = Some b" using False small Cons.prems(2) by (cases best) (auto simp: maxInt_def)
      with False Cons.prems(3) have "occ m b \<le> occ m s" "st_VLANTag b < st_VLANTag s" by auto
      with False small b Cons.IH [of best c] srt Cons.prems show ?thesis by (fastforce simp: SharedStripeSlots_def)
    qed
  qed
qed

lemma stripes_sorted: "sorted_wrt (\<lambda>a b. st_VLANTag a < st_VLANTag b) SharedStripes"
  by (simp add: SharedStripes_def SharedVLANTagFirst_def SharedVLANTagLast_def sorted_wrt_map stripe_fields)

lemma stripes_set: "set SharedStripes = stripeForTag ` {347..355}"
  unfolding SharedStripes_def SharedVLANTagFirst_def SharedVLANTagLast_def set_map set_upto by simp

lemma PickStripe_spec:
  shows "PickStripe m act = (s, ok, full) \<Longrightarrow>
    (ok \<longleftrightarrow> (\<forall>t \<in> set SharedStripes. map_get act False (st_VLANTag t)) \<and> (\<exists>t \<in> set SharedStripes. occ m t < 16)) \<and>
    (full \<longleftrightarrow> (\<forall>t \<in> set SharedStripes. map_get act False (st_VLANTag t)) \<and> (\<forall>t \<in> set SharedStripes. 16 \<le> occ m t)) \<and>
    (ok \<longrightarrow> s \<in> set SharedStripes \<and> occ m s < 16 \<and>
       (\<forall>t \<in> set SharedStripes. occ m s \<le> occ m t \<and> (occ m s = occ m t \<longrightarrow> st_VLANTag s \<le> st_VLANTag t)))"
  using pick_loop_spec [OF stripes_sorted, of None maxInt m]
  by (cases "fst (pick_loop m SharedStripes (None, maxInt))")
     (auto simp: PickStripe_def linorder_not_le split: if_splits)

section \<open>Picking a stripe for a pod\<close>

text \<open>The constraints of \<open>shared_networks\<close>: identifiers and tags are unique, and the tags are the shared ones.\<close>

definition networks_wf :: "database \<Rightarrow> bool" where
  "networks_wf db \<longleftrightarrow> distinct (map sn_id (db_shared_networks db)) \<and> distinct (map sn_vlan_tag (db_shared_networks db)) \<and>
     (\<forall>n \<in> set (db_shared_networks db). 347 \<le> sn_vlan_tag n \<and> sn_vlan_tag n \<le> 355)"

lemma active_set: "n \<in> set (active_networks db) \<longleftrightarrow> n \<in> set (db_shared_networks db) \<and> sn_status n = ''active''"
  by (auto simp: active_networks_def)

lemma active_tags:
  assumes "networks_wf db" "SharedNetworksReady db"
  shows "sn_vlan_tag ` set (active_networks db) = {347..355}"
proof (rule card_subset_eq)
  show "sn_vlan_tag ` set (active_networks db) \<subseteq> {347..355}"
    using assms(1) by (auto simp: networks_wf_def active_set)
  have "distinct (map sn_vlan_tag (active_networks db))"
    using assms(1) by (simp add: networks_wf_def active_networks_def distinct_map_filter)
  then have "card (sn_vlan_tag ` set (active_networks db)) = length (active_networks db)"
    by (metis distinct_card length_map set_map)
  also have "\<dots> = 9"
    using assms(2) by (auto simp: SharedNetworksReady_def active_networks_def sql_count_def SharedStripeCount_def split: option.splits)
  finally show "card (sn_vlan_tag ` set (active_networks db)) = card {347..355 :: int}" by simp
qed simp

text \<open>The maps filled from rows with different tags are what the rows say.\<close>

lemma rows_map:
  assumes "distinct (map k rows)" "n \<in> set rows"
  shows "map_of (rev (map (\<lambda>n. (k n, v n)) rows)) (k n) = Some (v n)"
proof (rule map_of_is_SomeI)
  have "map fst (rev (map (\<lambda>n. (k n, v n)) rows)) = rev (map k rows)" by (simp add: rev_map comp_def)
  then show "distinct (map fst (rev (map (\<lambda>n. (k n, v n)) rows)))" using assms(1) by simp
  show "(k n, v n) \<in> set (rev (map (\<lambda>n. (k n, v n)) rows))" using assms(2) by auto
qed

lemma active_unique:
  assumes "networks_wf db" "n \<in> set (active_networks db)" "n' \<in> set (active_networks db)" "sn_vlan_tag n = sn_vlan_tag n'"
  shows "n = n'"
  using assms distinct_key_eq [of sn_vlan_tag "db_shared_networks db" n n'] by (auto simp: networks_wf_def active_set)

text \<open>
  A pod is put on an active stripe with room for it: when all nine stripes are ready and one
  has fewer than sixteen pods that are not destroyed, the stripe is one with the fewest, the lowest
  tag deciding ties, and the identifier is that stripe's; when every stripe has sixteen the
  answer is that they are full, and otherwise that they are not ready.
\<close>

theorem PickSharedStripe_spec:
  assumes wf: "networks_wf db"
  shows "(PickSharedStripe db = Inr (i, s) \<longrightarrow>
       (\<exists>n \<in> set (active_networks db). sn_id n = i \<and> s = stripeForTag (sn_vlan_tag n) \<and> stripe_pods i db < 16 \<and>
          (\<forall>n' \<in> set (active_networks db). stripe_pods i db \<le> stripe_pods (sn_id n') db \<and>
             (stripe_pods i db = stripe_pods (sn_id n') db \<longrightarrow> sn_vlan_tag n \<le> sn_vlan_tag n')))) \<and>
    (PickSharedStripe db = Inl (Sentinel ErrSharedNetworksFull) \<longleftrightarrow>
       SharedNetworksReady db \<and> (\<forall>n \<in> set (active_networks db). 16 \<le> stripe_pods (sn_id n) db)) \<and>
    (PickSharedStripe db = Inl (Sentinel ErrSharedNetworksNotReady) \<longleftrightarrow> \<not> SharedNetworksReady db)"
proof (cases "SharedNetworksReady db")
  case False
  then show ?thesis by (simp add: PickSharedStripe_def)
next
  case ready: True
  define rows where "rows = sort_key (\<lambda>n. (int (stripe_pods (sn_id n) db), sn_vlan_tag n)) (active_networks db)"
  define m where "m = map_of (rev (map (\<lambda>n. (sn_vlan_tag n, int (stripe_pods (sn_id n) db))) rows))"
  define ids where "ids = map_of (rev (map (\<lambda>n. (sn_vlan_tag n, sn_id n)) rows))"
  define act where "act = map_of (rev (map (\<lambda>n. (sn_vlan_tag n, True)) rows))"
  have rows: "set rows = set (active_networks db)" by (simp add: rows_def)
  have "distinct (map sn_vlan_tag (active_networks db))"
    using wf by (simp add: networks_wf_def active_networks_def distinct_map_filter)
  then have dr: "distinct (map sn_vlan_tag rows)" by (auto simp: rows_def distinct_map)
  have get: "map_get m 0 (sn_vlan_tag n) = int (stripe_pods (sn_id n) db)" "map_get ids uuid_Nil (sn_vlan_tag n) = sn_id n"
    "map_get act False (sn_vlan_tag n)" if "n \<in> set (active_networks db)" for n
    using rows_map [OF dr, of n "\<lambda>n. int (stripe_pods (sn_id n) db)"] rows_map [OF dr, of n sn_id]
      rows_map [OF dr, of n "\<lambda>_. True"] that
    by (simp_all add: map_get_def m_def ids_def act_def rows)
  have tags: "t \<in> set SharedStripes \<longleftrightarrow> (\<exists>n \<in> set (active_networks db). t = stripeForTag (sn_vlan_tag n))" for t
    using active_tags [OF wf ready] unfolding stripes_set by (metis (no_types, lifting) image_iff)
  obtain s' ok full where p: "PickStripe m act = (s', ok, full)" by (cases "PickStripe m act")
  have pick: "PickSharedStripe db = (if \<not> ok \<and> full then Inl (Sentinel ErrSharedNetworksFull)
      else if \<not> ok then Inl (Sentinel ErrSharedNetworksNotReady) else Inr (map_get ids uuid_Nil (st_VLANTag s'), s'))"
    using ready p by (simp add: PickSharedStripe_def Let_def m_def act_def ids_def rows_def)
  note spec = PickStripe_spec [OF p]
  have all: "\<forall>t \<in> set SharedStripes. map_get act False (st_VLANTag t)" using get(3) by (auto simp: tags stripe_fields)
  have full: "full \<longleftrightarrow> (\<forall>n \<in> set (active_networks db). 16 \<le> stripe_pods (sn_id n) db)"
  proof -
    have "full \<longleftrightarrow> (\<forall>t \<in> set SharedStripes. 16 \<le> occ m t)" using spec all by blast
    also have "\<dots> \<longleftrightarrow> (\<forall>n \<in> set (active_networks db). 16 \<le> occ m (stripeForTag (sn_vlan_tag n)))"
      by (simp only: Ball_def tags) auto
    also have "\<dots> \<longleftrightarrow> (\<forall>n \<in> set (active_networks db). 16 \<le> stripe_pods (sn_id n) db)"
      by (rule ball_cong) (simp_all add: stripe_fields get(1))
    finally show ?thesis .
  qed
  have ok: "ok \<longleftrightarrow> \<not> full" using spec all by force
  have some: "\<exists>n \<in> set (active_networks db). sn_id n = map_get ids uuid_Nil (st_VLANTag s') \<and> s' = stripeForTag (sn_vlan_tag n) \<and>
      stripe_pods (sn_id n) db < 16 \<and>
      (\<forall>n' \<in> set (active_networks db). stripe_pods (sn_id n) db \<le> stripe_pods (sn_id n') db \<and>
         (stripe_pods (sn_id n) db = stripe_pods (sn_id n') db \<longrightarrow> sn_vlan_tag n \<le> sn_vlan_tag n'))" if "ok"
  proof -
    from spec that tags obtain n where n: "n \<in> set (active_networks db)" "s' = stripeForTag (sn_vlan_tag n)" by blast
    have "occ m s' < 16" and min: "\<forall>t \<in> set SharedStripes. occ m s' \<le> occ m t \<and> (occ m s' = occ m t \<longrightarrow> st_VLANTag s' \<le> st_VLANTag t)"
      using spec that by auto
    with n get(1,2) [OF n(1)] have "stripe_pods (sn_id n) db < 16" "sn_id n = map_get ids uuid_Nil (st_VLANTag s')"
      by (simp_all add: stripe_fields)
    moreover have "stripe_pods (sn_id n) db \<le> stripe_pods (sn_id n') db \<and>
        (stripe_pods (sn_id n) db = stripe_pods (sn_id n') db \<longrightarrow> sn_vlan_tag n \<le> sn_vlan_tag n')"
      if n': "n' \<in> set (active_networks db)" for n'
    proof -
      have "stripeForTag (sn_vlan_tag n') \<in> set SharedStripes" using tags n' by blast
      from min [rule_format, OF this] get(1) [OF n(1)] get(1) [OF n'] n(2) show ?thesis by (simp add: stripe_fields)
    qed
    ultimately show ?thesis using n by blast
  qed
  show ?thesis
  proof (intro conjI impI)
    assume "PickSharedStripe db = Inr (i, s)"
    then have "ok" "i = map_get ids uuid_Nil (st_VLANTag s')" "s = s'" by (auto simp: pick split: if_splits)
    with some obtain n where n: "n \<in> set (active_networks db)" "i = sn_id n" "s = stripeForTag (sn_vlan_tag n)"
      "stripe_pods (sn_id n) db < 16"
      "\<forall>n' \<in> set (active_networks db). stripe_pods (sn_id n) db \<le> stripe_pods (sn_id n') db \<and>
         (stripe_pods (sn_id n) db = stripe_pods (sn_id n') db \<longrightarrow> sn_vlan_tag n \<le> sn_vlan_tag n')" by metis
    show "\<exists>n \<in> set (active_networks db). sn_id n = i \<and> s = stripeForTag (sn_vlan_tag n) \<and> stripe_pods i db < 16 \<and>
       (\<forall>n' \<in> set (active_networks db). stripe_pods i db \<le> stripe_pods (sn_id n') db \<and>
          (stripe_pods i db = stripe_pods (sn_id n') db \<longrightarrow> sn_vlan_tag n \<le> sn_vlan_tag n'))"
      unfolding n(2) by (rule bexI [OF _ n(1)]) (use n(3-5) in blast)
  qed (auto simp: pick ok full ready)
qed

text \<open>Nine active stripes, and one pod on the first.\<close>

definition stripe_net :: "int \<Rightarrow> shared_network_row" where
  "stripe_net tag = \<lparr>sn_id = nat tag, sn_vlan_tag = tag, sn_cidr = [], sn_gateway = [], sn_portgroup_name = [],
     sn_dhcp_start = [], sn_dhcp_end = [], sn_runner_first = [], sn_runner_last = [], sn_status = ''active'',
     sn_error_message = []\<rparr>"

definition stripes_db :: database where
  "stripes_db = empty_db\<lparr>db_shared_policy_ready := Some True, db_shared_networks := map stripe_net [347..355],
     db_pods := [\<lparr>pd_id = 2, pd_status = ''active'', pd_user_id = 5, pd_vlan_id = 347, pd_subnet = [],
       pd_network_mode = ''shared'', pd_shared_network_id = Some 347, pd_expires_at = None, pd_error_message = None,
       pd_updated_at = 0\<rparr>]\<rparr>"

theorem PickSharedStripe_spec_witness:
  "SharedNetworksReady stripes_db \<and> PickSharedStripe stripes_db \<noteq> Inl (Sentinel ErrSharedNetworksFull) \<and>
   PickSharedStripe stripes_db \<noteq> Inl (Sentinel ErrSharedNetworksNotReady)"
proof -
  have "networks_wf stripes_db" by code_simp
  note spec = PickSharedStripe_spec [OF this]
  have "SharedNetworksReady stripes_db" by code_simp
  moreover have "\<not> (\<forall>n \<in> set (active_networks stripes_db). 16 \<le> stripe_pods (sn_id n) stripes_db)" by code_simp
  ultimately show ?thesis using spec by blast
qed

end
