(* ===== verification/Pods.thy ===== *)
theory Pods
  imports PortGroups SharedStripes
begin

text \<open>
  The life of a pod row and of the VLAN it holds: the transactions of the handlers that create an
  isolated pod (\<open>api/handlers/handlers.go\<close>, \<open>CreatePod\<close>) or a Single VM
  (\<open>single_vm.go\<close>), the quota they check (\<open>quotas.go\<close>), the status updates of the worker, the
  cancellation of a pod that never started (\<open>database/pod_delete.go\<close>) and the three ways a
  destroyed pod is finalized (\<open>database/queries.go\<close>).
\<close>

section \<open>The VLAN pool\<close>

text \<open>
  \<open>CheckoutVLAN\<close>. \<open>pick\<close> is the choice \<open>ORDER BY RANDOM()\<close> makes among the free VLANs that no
  other transaction has locked.
\<close>

definition vlan_candidates :: "(int \<Rightarrow> bool) \<Rightarrow> string \<Rightarrow> database \<Rightarrow> vlan_row list" where
  "vlan_candidates locked hostScope db =
     filter (\<lambda>r. vl_pod_id r = None \<and>
                 (if hostScope = ''all'' then vl_host_scope r = ''all''
                  else if hostScope \<noteq> [] then vl_host_scope r = hostScope else True) \<and>
                 \<not> (347 \<le> vl_vlan_tag r \<and> vl_vlan_tag r \<le> 355) \<and> \<not> locked (vl_vlan_tag r))
       (db_vlan_pool db)"

definition CheckoutVLAN ::
  "nat \<Rightarrow> (int \<Rightarrow> bool) \<Rightarrow> uuid \<Rightarrow> string \<Rightarrow> database \<Rightarrow> ((int \<times> string) \<times> database) result" where
  "CheckoutVLAN pick locked podID hostScope db =
     (case vlan_candidates locked hostScope db of
        [] \<Rightarrow> Inl (errorsNew ''no available VLANs in pool'')
      | r # rs \<Rightarrow>
          let chosen = (r # rs) ! (pick mod length (r # rs)) in
          Inr ((vl_vlan_tag chosen, vl_subnet chosen),
               db\<lparr>db_vlan_pool := sql_update (\<lambda>x. vl_vlan_tag x = vl_vlan_tag chosen)
                    (\<lambda>x. x\<lparr>vl_pod_id := Some podID\<rparr>) (db_vlan_pool db)\<rparr>))"

definition release_vlan :: "uuid \<Rightarrow> database \<Rightarrow> database" where
  "release_vlan podID db =
     db\<lparr>db_vlan_pool := sql_update (\<lambda>r. vl_pod_id r = Some podID) (\<lambda>r. r\<lparr>vl_pod_id := None\<rparr>) (db_vlan_pool db)\<rparr>"

definition ReleaseVLAN :: "go_error option \<Rightarrow> uuid \<Rightarrow> database \<Rightarrow> unit result \<times> database" where
  "ReleaseVLAN flt podID = run_tx flt (\<lambda>db. Inr ((), release_vlan podID db))"

section \<open>Quotas\<close>

record resource_usage =
  ru_UsedVCPUs :: int
  ru_UsedRAMMB :: int
  ru_ActivePods :: int

text \<open>The machines the query joins: those of the user's live pods that are neither deleted nor failed.\<close>

definition owned_pods :: "uuid \<Rightarrow> database \<Rightarrow> pod_row list" where
  "owned_pods userID db =
     filter (\<lambda>p. pd_user_id p = userID \<and> pd_status p \<notin> {''destroyed'', ''error''}) (db_pods db)"

definition joined_vms :: "uuid \<Rightarrow> database \<Rightarrow> pod_vm list" where
  "joined_vms userID db =
     concat (map (\<lambda>p. filter (\<lambda>v. pv_PodID v = pd_id p \<and> pv_Status v \<notin> {''deleted'', ''error''}) (db_pod_vms db))
       (owned_pods userID db))"

definition getResourceUsage :: "uuid \<Rightarrow> database \<Rightarrow> resource_usage" where
  "getResourceUsage userID db =
     \<lparr>ru_UsedVCPUs = sum_list (map pv_VCPUs (joined_vms userID db)),
      ru_UsedRAMMB = sum_list (map pv_RAMMB (joined_vms userID db)),
      ru_ActivePods = int (card (set (map pd_id (filter (\<lambda>p. pd_network_mode p = ''isolated'') (owned_pods userID db)))))\<rparr>"

definition ValidateQuotas :: "resource_usage \<Rightarrow> user_row \<Rightarrow> int \<Rightarrow> int \<Rightarrow> int \<Rightarrow> go_error option" where
  "ValidateQuotas usage user requestedPods requestedVCPUs requestedRAMMB =
     (if ru_ActivePods usage + requestedPods > us_MaxPods user then Some (errorsNew ''pods quota exceeded'')
      else if ru_UsedVCPUs usage + requestedVCPUs > us_MaxVCPUs user then Some (errorsNew ''vcpus quota exceeded'')
      else if ru_UsedRAMMB usage + requestedRAMMB > us_MaxRAMMB user then Some (errorsNew ''ram_mb quota exceeded'')
      else None)"

definition validateQuotaTx :: "uuid \<Rightarrow> int \<Rightarrow> int \<Rightarrow> int \<Rightarrow> database \<Rightarrow> go_error option" where
  "validateQuotaTx userID requestedPods requestedVCPUs requestedRAMMB db =
     (case find (\<lambda>u. us_ID u = userID) (db_users db) of
        None \<Rightarrow> Some (errorsNew ''lock user for provisioning quota: user not found'')
      | Some user \<Rightarrow> ValidateQuotas (getResourceUsage userID db) user requestedPods requestedVCPUs requestedRAMMB)"

section \<open>Creating a pod\<close>

text \<open>
  The insert of a pod row, with the primary key, the partial unique index on the VLANs of live
  isolated pods and the constraint that ties the network mode to the shared network.
\<close>

definition vlan_taken :: "uuid \<Rightarrow> int \<Rightarrow> database \<Rightarrow> bool" where
  "vlan_taken podID tag db \<longleftrightarrow>
     (\<exists>p \<in> set (db_pods db). pd_id p \<noteq> podID \<and> pd_vlan_id p = tag \<and> pd_status p \<noteq> ''destroyed'' \<and>
        pd_network_mode p = ''isolated'')"

definition insert_pod :: "pod_row \<Rightarrow> database \<Rightarrow> database result" where
  "insert_pod p db =
     (if pd_id p \<in> pd_id ` set (db_pods db) \<or>
         pd_network_mode p = ''isolated'' \<and> vlan_taken (pd_id p) (pd_vlan_id p) db
      then Inl (errorsNew ''duplicate key value violates unique constraint'')
      else Inr (db\<lparr>db_pods := db_pods db @ [p]\<rparr>))"

definition insert_pod_vms :: "uuid \<Rightarrow> pod_vm list \<Rightarrow> database \<Rightarrow> database result" where
  "insert_pod_vms podID = fold_err (\<lambda>v. insert_vm (v\<lparr>pv_PodID := podID, pv_Status := ''pending''\<rparr>))"

text \<open>The payload of the job; \<open>rest\<close> are its other entries (name, user, machines).\<close>

definition pod_payload :: "(uuid \<Rightarrow> string) \<Rightarrow> uuid \<Rightarrow> payload \<Rightarrow> payload" where
  "pod_payload ustr podID rest = (''pod_id'', JStr (ustr podID)) # rest"

record pod_request =
  rq_podID :: uuid
  rq_jobID :: uuid
  rq_userID :: uuid
  rq_now :: go_time
  rq_expiresAt :: go_time
  rq_vms :: "pod_vm list"
  rq_rest :: payload

definition new_pod :: "pod_request \<Rightarrow> pod_row" where
  "new_pod rq =
     \<lparr>pd_id = rq_podID rq, pd_status = ''pending'', pd_user_id = rq_userID rq, pd_vlan_id = 0, pd_subnet = [],
      pd_network_mode = ''isolated'', pd_shared_network_id = None, pd_expires_at = Some (rq_expiresAt rq),
      pd_error_message = None, pd_updated_at = rq_now rq\<rparr>"

definition create_pod_tx ::
  "(uuid \<Rightarrow> string) \<Rightarrow> nat \<Rightarrow> (int \<Rightarrow> bool) \<Rightarrow> pod_request \<Rightarrow> database \<Rightarrow> (job \<times> database) result" where
  "create_pod_tx ustr pick locked rq db =
     (case validateQuotaTx (rq_userID rq) 1 (sum_list (map pv_VCPUs (rq_vms rq))) (sum_list (map pv_RAMMB (rq_vms rq))) db of
        Some e \<Rightarrow> Inl e
      | None \<Rightarrow>
          (case insert_pod (new_pod rq) db of Inl e \<Rightarrow> Inl e | Inr db1 \<Rightarrow>
          (case CheckoutVLAN pick locked (rq_podID rq) ''all'' db1 of Inl e \<Rightarrow> Inl e | Inr ((vlanTag, subnet), db2) \<Rightarrow>
             if vlan_taken (rq_podID rq) vlanTag db2
             then Inl (errorsNew ''duplicate key value violates unique constraint'')
             else
               let db3 = db2\<lparr>db_pods := sql_update (\<lambda>p. pd_id p = rq_podID rq)
                           (\<lambda>p. p\<lparr>pd_vlan_id := vlanTag, pd_subnet := subnet\<rparr>) (db_pods db2)\<rparr> in
               (case insert_pod_vms (rq_podID rq) (rq_vms rq) db3 of Inl e \<Rightarrow> Inl e | Inr db4 \<Rightarrow>
                  CreatePodCreateJobTx ustr (rq_jobID rq) (rq_now rq) (rq_podID rq)
                    (pod_payload ustr (rq_podID rq) (rq_rest rq)) db4))))"

definition CreatePod ::
  "(uuid \<Rightarrow> string) \<Rightarrow> go_error option \<Rightarrow> nat \<Rightarrow> (int \<Rightarrow> bool) \<Rightarrow> pod_request \<Rightarrow> database \<Rightarrow> job result \<times> database" where
  "CreatePod ustr flt pick locked rq = run_tx flt (create_pod_tx ustr pick locked rq)"

text \<open>
  A Single VM: the limit of the user, the stripe with room, one machine, no VLAN of its own. The
  quota was checked before the transaction, on the usage \<open>usage\<close> read then.
\<close>

definition singleVMLimitReached :: "string \<Rightarrow> int \<Rightarrow> int \<Rightarrow> bool" where
  "singleVMLimitReached role owned limit =
     (if role = ''instructor'' \<or> role = ''admin'' then False else owned \<ge> limit)"

definition new_shared_pod :: "pod_request \<Rightarrow> uuid \<Rightarrow> stripe \<Rightarrow> pod_row" where
  "new_shared_pod rq networkID s =
     \<lparr>pd_id = rq_podID rq, pd_status = ''pending'', pd_user_id = rq_userID rq, pd_vlan_id = st_VLANTag s,
      pd_subnet = st_CIDR s, pd_network_mode = ''shared'', pd_shared_network_id = Some networkID,
      pd_expires_at = Some (rq_expiresAt rq), pd_error_message = None, pd_updated_at = rq_now rq\<rparr>"

definition single_vm_tx :: "(uuid \<Rightarrow> string) \<Rightarrow> user_row \<Rightarrow> pod_request \<Rightarrow> database \<Rightarrow> (job \<times> database) result" where
  "single_vm_tx ustr user rq db =
     (if singleVMLimitReached (us_Role user) (int (CountSharedPodsTx (rq_userID rq) db)) (us_MaxSingleVMs user)
      then Inl (errorsNew ''Single VM limit reached'')
      else
        (case PickSharedStripe db of Inl e \<Rightarrow> Inl e | Inr (networkID, s) \<Rightarrow>
        (case insert_pod (new_shared_pod rq networkID s) db of Inl e \<Rightarrow> Inl e | Inr db1 \<Rightarrow>
        (case insert_pod_vms (rq_podID rq) (rq_vms rq) db1 of Inl e \<Rightarrow> Inl e | Inr db2 \<Rightarrow>
           CreatePodCreateJobTx ustr (rq_jobID rq) (rq_now rq) (rq_podID rq)
             (pod_payload ustr (rq_podID rq) (rq_rest rq)) db2))))"

definition CreateSingleVM ::
  "(uuid \<Rightarrow> string) \<Rightarrow> go_error option \<Rightarrow> resource_usage \<Rightarrow> user_row \<Rightarrow> pod_request \<Rightarrow> database \<Rightarrow> job result \<times> database" where
  "CreateSingleVM ustr flt usage user rq db =
     (case ValidateQuotas usage user 0 (sum_list (map pv_VCPUs (rq_vms rq))) (sum_list (map pv_RAMMB (rq_vms rq))) of
        Some e \<Rightarrow> (Inl e, db)
      | None \<Rightarrow> run_tx flt (single_vm_tx ustr user rq) db)"

section \<open>Status updates\<close>

text \<open>A status update of a pod runs into the unique index when it revives a pod whose VLAN is taken.\<close>

definition update_pod_status ::
  "go_time \<Rightarrow> uuid \<Rightarrow> (pod_row \<Rightarrow> bool) \<Rightarrow> string \<Rightarrow> string \<Rightarrow> database \<Rightarrow> database result" where
  "update_pod_status now podID P status errMsg db =
     (if \<exists>p \<in> set (db_pods db). pd_id p = podID \<and> P p \<and> pd_status p = ''destroyed'' \<and> status \<noteq> ''destroyed'' \<and>
           pd_network_mode p = ''isolated'' \<and> vlan_taken podID (pd_vlan_id p) db
      then Inl (errorsNew ''duplicate key value violates unique constraint'')
      else Inr (db\<lparr>db_pods := sql_update (\<lambda>p. pd_id p = podID \<and> P p)
             (\<lambda>p. p\<lparr>pd_status := status, pd_error_message := Some errMsg, pd_updated_at := now\<rparr>) (db_pods db)\<rparr>))"

definition UpdatePodStatus ::
  "go_error option \<Rightarrow> go_time \<Rightarrow> uuid \<Rightarrow> string \<Rightarrow> string \<Rightarrow> database \<Rightarrow> unit result \<times> database" where
  "UpdatePodStatus flt now podID status errMsg =
     run_tx flt (\<lambda>db. case update_pod_status now podID (\<lambda>_. True) status errMsg db of
                        Inl e \<Rightarrow> Inl e | Inr db' \<Rightarrow> Inr ((), db'))"

definition UpdatePodStatusFrom ::
  "go_error option \<Rightarrow> go_time \<Rightarrow> uuid \<Rightarrow> string list \<Rightarrow> string \<Rightarrow> string \<Rightarrow> database \<Rightarrow> bool result \<times> database" where
  "UpdatePodStatusFrom flt now podID fromStatuses status errMsg =
     run_tx flt (\<lambda>db.
       case update_pod_status now podID (\<lambda>p. pd_status p \<in> set fromStatuses) status errMsg db of
         Inl e \<Rightarrow> Inl e
       | Inr db' \<Rightarrow> Inr (sql_count (\<lambda>p. pd_id p = podID \<and> pd_status p \<in> set fromStatuses) (db_pods db) > 0, db'))"

section \<open>Finalizing a destroyed pod\<close>

definition mark_destroyed :: "go_time \<Rightarrow> uuid \<Rightarrow> (string \<Rightarrow> bool) \<Rightarrow> string \<Rightarrow> database \<Rightarrow> database" where
  "mark_destroyed now podID P errMsg db =
     db\<lparr>db_pods := sql_update (\<lambda>p. pd_id p = podID \<and> P (pd_status p))
          (\<lambda>p. p\<lparr>pd_status := ''destroyed'', pd_error_message := Some errMsg, pd_updated_at := now\<rparr>) (db_pods db)\<rparr>"

definition FinalizePodDestroy ::
  "(uuid \<Rightarrow> string) \<Rightarrow> go_error option \<Rightarrow> go_time \<Rightarrow> uuid \<Rightarrow> uuid \<Rightarrow> string \<Rightarrow> database \<Rightarrow> unit result \<times> database" where
  "FinalizePodDestroy ustr flt now podID jobID claimOwner =
     run_tx flt (\<lambda>db.
       case lockOwnedPodDestroyJob ustr podID jobID claimOwner db of Some e \<Rightarrow> Inl e | None \<Rightarrow>
         if sql_count (\<lambda>p. pd_id p = podID \<and> pd_status p = ''destroying'') (db_pods db) \<noteq> 1
         then Inl (Errorf ''mark pod destroyed from destroying'' [Sentinel ErrPodJobRejected])
         else Inr ((), release_vlan podID (mark_destroyed now podID (\<lambda>s. s = ''destroying'') [] db)))"

definition FinalizeNeverAppliedPodCreate ::
  "go_error option \<Rightarrow> go_time \<Rightarrow> uuid \<Rightarrow> database \<Rightarrow> bool result \<times> database" where
  "FinalizeNeverAppliedPodCreate flt now podID =
     run_tx flt (\<lambda>db.
       case find_pod podID db of
         None \<Rightarrow> Inr (False, db)
       | Some p \<Rightarrow>
           if \<not> podCreateCleanupStatusSafe (pd_status p)
           then Inl (Errorf ''unsafe for never-applied create finalization'' [Sentinel ErrUnsafePodCreateCleanupState])
           else if sql_count (\<lambda>r. pgr_pod_id r = podID \<and> pgr_removed_at r = None) (db_portgroup_receipts db) > 0
           then Inr (False, db)
           else Inr (True, release_vlan podID
                  (mark_destroyed now podID (\<lambda>s. s \<in> {''error'', ''destroying'', ''destroy_failed'', ''destroyed''}) [] db)))"

record recovery_attestation =
  rat_VLANID :: int
  rat_Subnet :: string
  rat_ConfirmationToken :: string

definition parseManualCleanupDestroyJobResult :: "json \<Rightarrow> string option" where
  "parseManualCleanupDestroyJobResult result =
     (case result of
        JObj payload \<Rightarrow>
          (case pget payload ''error'' of
             Some (JStr reason) \<Rightarrow>
               if reason = [] then None
               else (case (pget payload ''attempts'', pget payload ''manual_cleanup_required'') of
                       (Some (JNum _), Some (JBool True)) \<Rightarrow> Some reason
                     | _ \<Rightarrow> None)
           | _ \<Rightarrow> None)
      | _ \<Rightarrow> None)"

abbreviation recovery_refused :: "string \<Rightarrow> go_error" where
  "recovery_refused s \<equiv> Errorf s [Sentinel ErrPodDestroyRecoveryPrecondition]"

definition has_placement :: "uuid \<Rightarrow> database \<Rightarrow> bool" where
  "has_placement podID db \<longleftrightarrow>
     (\<exists>vp \<in> set (db_placements db). \<exists>v \<in> set (db_pod_vms db). pv_ID v = vp_PodVMID vp \<and> pv_PodID v = podID)"

definition orphan_job :: "(uuid \<Rightarrow> string) \<Rightarrow> uuid \<Rightarrow> string \<Rightarrow> job \<Rightarrow> job" where
  "orphan_job ustr podID token j =
     j\<lparr>j_Status := JobStatusCompleted,
       j_Result := Some (JObj [(''status'', JStr ''orphan_finalized''), (''pod_id'', JStr (ustr podID)),
                               (''confirmation_token'', JStr token)])\<rparr>"

definition orphan_tx ::
  "(uuid \<Rightarrow> string) \<Rightarrow> go_time \<Rightarrow> uuid \<Rightarrow> pod_row \<Rightarrow> recovery_attestation \<Rightarrow> database \<Rightarrow> ((uuid \<times> string) \<times> database) result" where
  "orphan_tx ustr now actorUserID p att db =
     (case authoritative_destroy ustr (pd_id p) db of
        None \<Rightarrow> Inl (recovery_refused ''missing pod_destroy job'')
      | Some j \<Rightarrow>
          (case parseManualCleanupDestroyJobResult (case j_Result j of None \<Rightarrow> JObj [] | Some r \<Rightarrow> r) of
             None \<Rightarrow> Inl (recovery_refused ''pod destroy job invalid'')
           | Some reason \<Rightarrow>
               if j_Status j \<noteq> JobStatusFailed then Inl (recovery_refused ''pod destroy job invalid'')
               else if has_placement (pd_id p) db then Inl (recovery_refused ''pod has placements'')
               else if sql_count (\<lambda>r. pgr_pod_id r = pd_id p \<and> pgr_removed_at r = None) (db_portgroup_receipts db) \<noteq> 0
               then Inl (recovery_refused ''pod has receipts'')
               else if sql_count (\<lambda>x. for_pod ustr (pd_id p) x \<and> j_ID x \<noteq> j_ID j \<and>
                       j_Status x \<notin> {JobStatusCompleted, JobStatusFailed}) (db_jobs db) \<noteq> 0
               then Inl (recovery_refused ''pod has competing jobs'')
               else
                 let db1 = mark_destroyed now (pd_id p) (\<lambda>s. s = ''destroy_failed'') [] db;
                     db2 = db1\<lparr>db_jobs := sql_update (\<lambda>x. j_ID x = j_ID j \<and> j_Status x = JobStatusFailed)
                             (orphan_job ustr (pd_id p) (rat_ConfirmationToken att)) (db_jobs db1)\<rparr>;
                     db3 = release_vlan (pd_id p) db2
                 in Inr ((j_ID j, reason),
                      db3\<lparr>db_recovery_audit := db_recovery_audit db3 @
                        [\<lparr>ra_pod_id = pd_id p, ra_job_id = j_ID j, ra_actor_user_id = actorUserID,
                          ra_attestation = (rat_VLANID att, rat_Subnet att, rat_ConfirmationToken att),
                          ra_before_state = (pd_status p, (case pd_error_message p of None \<Rightarrow> [] | Some m \<Rightarrow> m), pd_vlan_id p, pd_subnet p),
                          ra_after_state = (''destroyed'', pd_vlan_id p, pd_subnet p)\<rparr>]\<rparr>)))"

definition FinalizeOrphanedPodDestroy ::
  "(uuid \<Rightarrow> string) \<Rightarrow> go_error option \<Rightarrow> go_time \<Rightarrow> uuid \<Rightarrow> uuid \<Rightarrow> recovery_attestation \<Rightarrow> database
     \<Rightarrow> (uuid \<times> string) result \<times> database" where
  "FinalizeOrphanedPodDestroy ustr flt now actorUserID podID att =
     run_tx flt (\<lambda>db.
       case find_pod podID db of
         None \<Rightarrow> Inl (recovery_refused ''pod not found'')
       | Some p \<Rightarrow>
           if pd_status p \<noteq> ''destroy_failed'' \<or>
              \<not> hasPrefix (case pd_error_message p of None \<Rightarrow> [] | Some m \<Rightarrow> m) ''manual_cleanup_required:''
           then Inl (recovery_refused ''pod status'')
           else if rat_VLANID att \<noteq> pd_vlan_id p \<or> rat_Subnet att \<noteq> pd_subnet p
           then Inl (recovery_refused ''attestation mismatch'')
           else orphan_tx ustr now actorUserID p att db)"

section \<open>Cancelling a pod that never started\<close>

datatype deletion_outcome = PodDeletionOutcomeCancelled | PodDeletionOutcomeAlreadyCancelled
  | PodDeletionOutcomeNeedsDestroy

abbreviation PodErrorCancelledBeforeProvisioning :: string where
  "PodErrorCancelledBeforeProvisioning \<equiv> ''pod cancelled before provisioning started''"

definition podCancellationProtectedJobs :: "(uuid \<Rightarrow> string) \<Rightarrow> uuid \<Rightarrow> uuid \<Rightarrow> database \<Rightarrow> bool" where
  "podCancellationProtectedJobs ustr podID excludeJobID db \<longleftrightarrow>
     (\<exists>j \<in> set (db_jobs db). j_ID j \<noteq> excludeJobID \<and> j_Type j \<in> set serializedPodJobTypes \<and> targets_pod ustr podID db j)"

definition create_job_of :: "(uuid \<Rightarrow> string) \<Rightarrow> uuid \<Rightarrow> database \<Rightarrow> job option" where
  "create_job_of ustr podID db =
     (case sort_key (\<lambda>j. (j_CreatedAt j, j_ID j))
             (filter (\<lambda>j. j_Type j = ''pod_create'' \<and> for_pod ustr podID j) (db_jobs db)) of
        [] \<Rightarrow> None | j # _ \<Rightarrow> Some j)"

definition pristine_create :: "job \<Rightarrow> bool" where
  "pristine_create j \<longleftrightarrow> j_Status j = JobStatusPending \<and> j_RetryCount j = 0 \<and> \<not> ptrue (j_Payload j) ''cleanup_only'' \<and>
     j_ClaimedBy j = None \<and> j_ClaimedAt j = None \<and> j_StartedAt j = None \<and> j_CompletedAt j = None \<and>
     j_NextAttemptAt j = None \<and> j_RollbackSteps j = []"

definition nonempty :: "string option \<Rightarrow> bool" where
  "nonempty s = (case s of None \<Rightarrow> False | Some x \<Rightarrow> x \<noteq> [])"

definition vm_evidence :: "uuid \<Rightarrow> database \<Rightarrow> bool" where
  "vm_evidence podID db \<longleftrightarrow>
     (\<exists>v \<in> set (db_pod_vms db). pv_PodID v = podID \<and>
        (pv_Status v \<noteq> ''pending'' \<or> nonempty (pv_VCenterVMID v) \<or> nonempty (pv_VCenterVMName v) \<or> nonempty (pv_IPAddress v)))"

definition cancellable_job :: "uuid \<Rightarrow> job \<Rightarrow> bool" where
  "cancellable_job jobID j \<longleftrightarrow> j_ID j = jobID \<and> j_Status j = JobStatusPending \<and> j_ClaimedBy j = None \<and>
     j_ClaimedAt j = None \<and> j_StartedAt j = None \<and> j_CompletedAt j = None"

definition cancelled_job :: "(uuid \<Rightarrow> string) \<Rightarrow> go_time \<Rightarrow> uuid \<Rightarrow> uuid \<Rightarrow> job \<Rightarrow> job" where
  "cancelled_job ustr now podID jobID j =
     j\<lparr>j_Status := JobStatusFailed,
       j_Result := Some (JObj [(''cancelled'', JBool True), (''pod_id'', JStr (ustr podID)),
                               (''pod_status'', JStr ''destroyed''), (''job_id'', JStr (ustr jobID))]),
       j_ClaimedBy := None, j_ClaimedAt := None, j_StartedAt := None, j_CompletedAt := Some now\<rparr>"

definition cancelled_vm :: "pod_vm \<Rightarrow> pod_vm" where
  "cancelled_vm v =
     v\<lparr>pv_Status := ''deleted'', pv_VCenterVMID := None, pv_VCenterVMName := None, pv_IPAddress := None,
       pv_GuestCredentialsVerifiedAt := None, pv_GuestCredentialsVerifiedVMID := None\<rparr>"

text \<open>The writes once nothing shows that provisioning ever started.\<close>

definition cancel_writes ::
  "(uuid \<Rightarrow> string) \<Rightarrow> go_time \<Rightarrow> uuid \<Rightarrow> uuid \<Rightarrow> database \<Rightarrow> ((deletion_outcome \<times> uuid) \<times> database) result" where
  "cancel_writes ustr now podID jobID db =
     (let db1 = db\<lparr>db_pod_vms := sql_update (\<lambda>v. pv_PodID v = podID) cancelled_vm (db_pod_vms db)\<rparr>;
          db2 = mark_destroyed now podID (\<lambda>s. s = ''pending'') PodErrorCancelledBeforeProvisioning db1;
          db3 = db2\<lparr>db_jobs := sql_update (cancellable_job jobID) (cancelled_job ustr now podID jobID) (db_jobs db2)\<rparr>
      in
      if sql_count (\<lambda>p. pd_id p = podID \<and> pd_status p = ''pending'') (db_pods db1) \<noteq> 1
      then Inl (errorsNew ''mark pod destroyed during cancellation: pod changed state'')
      else if sql_count (cancellable_job jobID) (db_jobs db2) \<noteq> 1
      then Inl (errorsNew ''mark pod create job cancelled: job changed state'')
      else if sql_count (\<lambda>r. vl_pod_id r = Some podID) (db_vlan_pool db3) \<noteq> 1
      then Inl (errorsNew ''release pod VLAN during cancellation: allocation affected other than one row'')
      else Inr ((PodDeletionOutcomeCancelled, jobID), release_vlan podID db3))"

definition cancel_tx ::
  "(uuid \<Rightarrow> string) \<Rightarrow> go_time \<Rightarrow> uuid \<Rightarrow> database \<Rightarrow> ((deletion_outcome \<times> uuid) \<times> database) result" where
  "cancel_tx ustr now podID db =
     (let createJob = create_job_of ustr podID db;
          createJobID = (case createJob of None \<Rightarrow> uuid_Nil | Some j \<Rightarrow> j_ID j);
          evidence = podCancellationProtectedJobs ustr podID createJobID db;
          pristineCreateJob = ((case createJob of None \<Rightarrow> False | Some j \<Rightarrow> pristine_create j) \<and> \<not> evidence)
      in
      case find_pod podID db of
        None \<Rightarrow> Inl (Errorf ''lock pod for cancellation'' [Sentinel pgx_ErrNoRows])
      | Some p \<Rightarrow>
          if pd_status p = ''destroyed'' \<and> pd_error_message p = Some PodErrorCancelledBeforeProvisioning
          then Inr ((PodDeletionOutcomeAlreadyCancelled, createJobID), db)
          else if \<not> pristineCreateJob \<or> evidence \<or> pd_status p \<noteq> ''pending'' \<or> createJob = None
          then Inr ((PodDeletionOutcomeNeedsDestroy, createJobID), db)
          else if vm_evidence podID db then Inr ((PodDeletionOutcomeNeedsDestroy, createJobID), db)
          else if \<exists>r \<in> set (db_portgroup_receipts db). pgr_pod_id r = podID
          then Inr ((PodDeletionOutcomeNeedsDestroy, createJobID), db)
          else if has_placement podID db then Inr ((PodDeletionOutcomeNeedsDestroy, createJobID), db)
          else cancel_writes ustr now podID createJobID db)"

definition CancelPendingPodIfNeverStarted ::
  "(uuid \<Rightarrow> string) \<Rightarrow> go_error option \<Rightarrow> go_time \<Rightarrow> uuid \<Rightarrow> database \<Rightarrow> (deletion_outcome \<times> uuid) result \<times> database" where
  "CancelPendingPodIfNeverStarted ustr flt now podID = run_tx flt (cancel_tx ustr now podID)"

text \<open>
  The handler: what \<open>DeletePod\<close> does to the database for a pod it may delete, and the status it
  answers with.
\<close>

definition DeletePod ::
  "(uuid \<Rightarrow> string) \<Rightarrow> go_error option \<Rightarrow> go_error option \<Rightarrow> uuid \<Rightarrow> go_time \<Rightarrow> uuid \<Rightarrow> uuid \<Rightarrow> bool \<Rightarrow> payload \<Rightarrow> database
     \<Rightarrow> nat \<times> database" where
  "DeletePod ustr flt1 flt2 newID now podID userID isAdmin rest db =
     (case find_pod podID db of
        None \<Rightarrow> (404, db)
      | Some pod \<Rightarrow>
          if pd_user_id pod \<noteq> userID \<and> \<not> isAdmin then (403, db)
          else if pd_status pod = ''destroying'' then (409, db)
          else if pd_status pod = ''destroyed'' \<and> pd_error_message pod \<noteq> Some PodErrorCancelledBeforeProvisioning then (409, db)
          else
            (case CancelPendingPodIfNeverStarted ustr flt1 now podID db of
               (Inl e, db1) \<Rightarrow> (500, db1)
             | (Inr (outcome, _), db1) \<Rightarrow>
                 if outcome = PodDeletionOutcomeCancelled \<or> outcome = PodDeletionOutcomeAlreadyCancelled then (200, db1)
                 else
                   (case CreatePodDestroyJob ustr flt2 newID now podID (pod_payload ustr podID rest) db1 of
                      (Inl e, db2) \<Rightarrow>
                        (if errorsIs e ErrPodDestroyBlockedByMutator then 409
                         else if errorsIs e ErrPodJobRejected then 409 else 500, db2)
                    | (Inr (job, created), db2) \<Rightarrow>
                        (if \<not> created \<and> j_Status job \<in> {JobStatusCompleted, JobStatusFailed} then 200 else 202, db2))))"

section \<open>Who owns which VLAN\<close>

text \<open>
  The ownership invariant: an allocated VLAN belongs to an isolated pod that is not destroyed and
  records exactly this VLAN, and an isolated pod owns the VLAN it records until it is destroyed or
  its destruction failed.
\<close>

definition holds_vlan :: "string \<Rightarrow> bool" where
  "holds_vlan status \<longleftrightarrow> status \<noteq> ''destroyed'' \<and> status \<noteq> ''destroy_failed''"

definition vlan_wf :: "database \<Rightarrow> bool" where
  "vlan_wf db \<longleftrightarrow> distinct (map pd_id (db_pods db)) \<and> distinct (map vl_vlan_tag (db_vlan_pool db)) \<and>
     (\<forall>r \<in> set (db_vlan_pool db). \<forall>podID. vl_pod_id r = Some podID \<longrightarrow>
        (\<exists>p \<in> set (db_pods db). pd_id p = podID \<and> pd_network_mode p = ''isolated'' \<and> pd_status p \<noteq> ''destroyed'' \<and>
           pd_vlan_id p = vl_vlan_tag r \<and> pd_subnet p = vl_subnet r)) \<and>
     (\<forall>p \<in> set (db_pods db). pd_network_mode p = ''isolated'' \<and> holds_vlan (pd_status p) \<longrightarrow>
        podOwnsExactVLAN (pd_id p) (pd_vlan_id p) (pd_subnet p) db)"

lemma vlan_wfD:
  assumes "vlan_wf db"
  shows "distinct (map pd_id (db_pods db))" "distinct (map vl_vlan_tag (db_vlan_pool db))"
    "r \<in> set (db_vlan_pool db) \<Longrightarrow> vl_pod_id r = Some podID \<Longrightarrow>
       \<exists>p \<in> set (db_pods db). pd_id p = podID \<and> pd_network_mode p = ''isolated'' \<and> pd_status p \<noteq> ''destroyed'' \<and>
         pd_vlan_id p = vl_vlan_tag r \<and> pd_subnet p = vl_subnet r"
    "p \<in> set (db_pods db) \<Longrightarrow> pd_network_mode p = ''isolated'' \<Longrightarrow> holds_vlan (pd_status p) \<Longrightarrow>
       podOwnsExactVLAN (pd_id p) (pd_vlan_id p) (pd_subnet p) db"
  using assms by (simp_all add: vlan_wf_def)

lemma vlan_wf_cong:
  assumes "vlan_wf db" "db_pods db' = db_pods db" "db_vlan_pool db' = db_vlan_pool db"
  shows "vlan_wf db'"
  using assms(1) by (simp add: vlan_wf_def podOwnsExactVLAN_def assms(2,3))

lemma pod_unique:
  "vlan_wf db \<Longrightarrow> p \<in> set (db_pods db) \<Longrightarrow> q \<in> set (db_pods db) \<Longrightarrow> pd_id p = pd_id q \<Longrightarrow> p = q"
  using distinct_key_eq [of pd_id "db_pods db" p q] vlan_wfD(1) by blast

text \<open>A change of pod rows that keeps what they record of their network.\<close>

definition same_network :: "pod_row \<Rightarrow> pod_row \<Rightarrow> bool" where
  "same_network p p' \<longleftrightarrow> pd_id p' = pd_id p \<and> pd_vlan_id p' = pd_vlan_id p \<and> pd_subnet p' = pd_subnet p \<and>
     pd_network_mode p' = pd_network_mode p"

lemma vlan_wf_status:
  assumes wf: "vlan_wf db" and pool: "db_vlan_pool db' = db_vlan_pool db"
    and pods: "db_pods db' = sql_update P f (db_pods db)"
    and f: "\<And>p. p \<in> set (db_pods db) \<Longrightarrow> P p \<Longrightarrow> same_network p (f p) \<and>
      (pd_status p \<noteq> ''destroyed'' \<longrightarrow> pd_status (f p) \<noteq> ''destroyed'') \<and>
      (pd_network_mode p = ''isolated'' \<and> holds_vlan (pd_status (f p)) \<longrightarrow>
         podOwnsExactVLAN (pd_id p) (pd_vlan_id p) (pd_subnet p) db)"
  shows "vlan_wf db'"
proof -
  define g where "g = (\<lambda>p. if P p then f p else p)"
  have db': "db_pods db' = map g (db_pods db)" by (simp add: pods sql_update_def g_def)
  have g: "same_network p (g p)" "pd_status p \<noteq> ''destroyed'' \<longrightarrow> pd_status (g p) \<noteq> ''destroyed''"
    "pd_network_mode p = ''isolated'' \<and> holds_vlan (pd_status (g p)) \<longrightarrow> podOwnsExactVLAN (pd_id p) (pd_vlan_id p) (pd_subnet p) db"
    if "p \<in> set (db_pods db)" for p
    using f [OF that] vlan_wfD(4) [OF wf that] by (auto simp: g_def same_network_def)
  have ids: "map pd_id (db_pods db') = map pd_id (db_pods db)"
    using g(1) by (simp add: db' same_network_def)
  have own: "podOwnsExactVLAN i v s db' = podOwnsExactVLAN i v s db" for i v s
    by (simp add: podOwnsExactVLAN_def pool)
  have "\<exists>p' \<in> set (db_pods db'). pd_id p' = podID \<and> pd_network_mode p' = ''isolated'' \<and> pd_status p' \<noteq> ''destroyed'' \<and>
      pd_vlan_id p' = vl_vlan_tag r \<and> pd_subnet p' = vl_subnet r"
    if "r \<in> set (db_vlan_pool db)" "vl_pod_id r = Some podID" for r podID
  proof -
    from vlan_wfD(3) [OF wf that] obtain p where p: "p \<in> set (db_pods db)" "pd_id p = podID"
      "pd_network_mode p = ''isolated''" "pd_status p \<noteq> ''destroyed''" "pd_vlan_id p = vl_vlan_tag r" "pd_subnet p = vl_subnet r"
      by blast
    have "g p \<in> set (db_pods db')" using p(1) by (simp add: db')
    with g(1,2) [OF p(1)] p show ?thesis by (intro bexI [of _ "g p"]) (auto simp: same_network_def)
  qed
  moreover have "podOwnsExactVLAN (pd_id p') (pd_vlan_id p') (pd_subnet p') db"
    if "p' \<in> set (db_pods db')" "pd_network_mode p' = ''isolated''" "holds_vlan (pd_status p')" for p'
    using that g by (auto simp: db' same_network_def)
  ultimately show ?thesis
    using vlan_wfD(1,2) [OF wf] ids by (simp add: vlan_wf_def own pool)
qed

text \<open>Destroying a pod together with the release of its VLAN.\<close>

lemma vlan_wf_destroy:
  assumes wf: "vlan_wf db" and all: "\<And>p. p \<in> set (db_pods db) \<Longrightarrow> pd_id p = podID \<Longrightarrow> Q (pd_status p)"
  shows "vlan_wf (release_vlan podID (mark_destroyed now podID Q msg db))"
proof -
  let ?db = "release_vlan podID (mark_destroyed now podID Q msg db)"
  have pods: "db_pods ?db = sql_update (\<lambda>p. pd_id p = podID \<and> Q (pd_status p))
      (\<lambda>p. p\<lparr>pd_status := ''destroyed'', pd_error_message := Some msg, pd_updated_at := now\<rparr>) (db_pods db)"
    and pool: "db_vlan_pool ?db = sql_update (\<lambda>r. vl_pod_id r = Some podID) (\<lambda>r. r\<lparr>vl_pod_id := None\<rparr>) (db_vlan_pool db)"
    by (simp_all add: release_vlan_def mark_destroyed_def)
  have ids: "map pd_id (db_pods ?db) = map pd_id (db_pods db)" unfolding pods by (rule map_key_sql_update) simp
  have tags: "map vl_vlan_tag (db_vlan_pool ?db) = map vl_vlan_tag (db_vlan_pool db)"
    unfolding pool by (rule map_key_sql_update) simp
  have keep: "p \<in> set (db_pods ?db)" if "p \<in> set (db_pods db)" "pd_id p \<noteq> podID" for p
    using that by (auto simp: pods sql_update_in)
  have row: "r \<in> set (db_vlan_pool ?db) \<and> vl_pod_id r \<noteq> Some podID"
    if "r \<in> set (db_vlan_pool db)" "vl_pod_id r = Some i" "i \<noteq> podID" for r i
    using that by (force simp: pool sql_update_in)
  have free_row: "r \<in> set (db_vlan_pool db) \<and> i \<noteq> podID" if "r \<in> set (db_vlan_pool ?db)" "vl_pod_id r = Some i" for r i
  proof -
    from that(1) obtain x where x: "x \<in> set (db_vlan_pool db)"
        "r = (if vl_pod_id x = Some podID then x\<lparr>vl_pod_id := None\<rparr> else x)"
      unfolding pool sql_update_in by blast
    with that(2) show ?thesis by (cases "vl_pod_id x = Some podID") auto
  qed
  have "\<exists>p \<in> set (db_pods ?db). pd_id p = i \<and> pd_network_mode p = ''isolated'' \<and> pd_status p \<noteq> ''destroyed'' \<and>
      pd_vlan_id p = vl_vlan_tag r \<and> pd_subnet p = vl_subnet r"
    if "r \<in> set (db_vlan_pool ?db)" "vl_pod_id r = Some i" for r i
    using vlan_wfD(3) [OF wf, of r i] free_row [OF that] that(2) keep by blast
  moreover have "podOwnsExactVLAN (pd_id p) (pd_vlan_id p) (pd_subnet p) ?db"
    if p: "p \<in> set (db_pods ?db)" "pd_network_mode p = ''isolated''" "holds_vlan (pd_status p)" for p
  proof -
    from p(1) obtain x where x: "x \<in> set (db_pods db)" "p = (if pd_id x = podID \<and> Q (pd_status x)
        then x\<lparr>pd_status := ''destroyed'', pd_error_message := Some msg, pd_updated_at := now\<rparr> else x)"
      unfolding pods sql_update_in by blast
    have "\<not> (pd_id x = podID \<and> Q (pd_status x))"
    proof
      assume "pd_id x = podID \<and> Q (pd_status x)"
      then have "pd_status p = ''destroyed''" by (simp add: x(2))
      with p(3) show False by (simp add: holds_vlan_def)
    qed
    with x all have "p \<in> set (db_pods db)" "pd_id p \<noteq> podID" by (simp_all split: if_splits)
    with vlan_wfD(4) [OF wf _ p(2,3)] row show ?thesis unfolding podOwnsExactVLAN_def by blast
  qed
  ultimately show ?thesis using vlan_wfD(1,2) [OF wf] ids tags by (simp add: vlan_wf_def)
qed

text \<open>The inserts of machines and of the job touch neither pods nor VLANs.\<close>

lemma insert_pod_vms_keeps:
  "insert_pod_vms podID vs db = Inr db' \<Longrightarrow> db_pods db' = db_pods db \<and> db_vlan_pool db' = db_vlan_pool db"
  unfolding insert_pod_vms_def
  by (rule fold_err_invariant [where I = "\<lambda>d. db_pods d = db_pods db \<and> db_vlan_pool d = db_vlan_pool db"])
     (auto simp: insert_vm_def split: if_splits)

lemma CreatePodCreateJobTx_keeps:
  "CreatePodCreateJobTx ustr i now podID payload db = Inr (j, db') \<Longrightarrow>
     db_pods db' = db_pods db \<and> db_vlan_pool db' = db_vlan_pool db"
  by (auto simp: CreatePodCreateJobTx_def split: option.splits if_splits sum.splits dest!: createJob_InrD)

lemma CheckoutVLAN_ok:
  assumes "CheckoutVLAN pick locked podID scope db = Inr ((tag, subnet), db')"
  obtains r where "r \<in> set (db_vlan_pool db)" "vl_pod_id r = None" "vl_vlan_tag r = tag" "vl_subnet r = subnet"
    "\<not> (347 \<le> tag \<and> tag \<le> 355)"
    "db' = db\<lparr>db_vlan_pool := sql_update (\<lambda>x. vl_vlan_tag x = tag) (\<lambda>x. x\<lparr>vl_pod_id := Some podID\<rparr>) (db_vlan_pool db)\<rparr>"
proof (cases "vlan_candidates locked scope db")
  case Nil
  with assms show ?thesis by (simp add: CheckoutVLAN_def)
next
  case (Cons r rs)
  define c where "c = (r # rs) ! (pick mod length (r # rs))"
  have "c \<in> set (r # rs)" unfolding c_def by (rule nth_mem) simp
  then have "c \<in> set (vlan_candidates locked scope db)" by (simp add: Cons)
  then have c: "c \<in> set (db_vlan_pool db)" "vl_pod_id c = None" "\<not> (347 \<le> vl_vlan_tag c \<and> vl_vlan_tag c \<le> 355)"
    unfolding vlan_candidates_def set_filter by blast+
  have "Inr ((vl_vlan_tag c, vl_subnet c), db\<lparr>db_vlan_pool := sql_update (\<lambda>x. vl_vlan_tag x = vl_vlan_tag c)
      (\<lambda>x. x\<lparr>vl_pod_id := Some podID\<rparr>) (db_vlan_pool db)\<rparr>) = (Inr ((tag, subnet), db') :: ((int \<times> string) \<times> database) result)"
    using assms by (simp only: CheckoutVLAN_def Cons list.case Let_def c_def)
  then have "tag = vl_vlan_tag c" "subnet = vl_subnet c"
    "db' = db\<lparr>db_vlan_pool := sql_update (\<lambda>x. vl_vlan_tag x = vl_vlan_tag c) (\<lambda>x. x\<lparr>vl_pod_id := Some podID\<rparr>) (db_vlan_pool db)\<rparr>"
    by auto
  then show ?thesis using that [OF c(1,2)] c(3) by simp
qed

text \<open>A new isolated pod and the VLAN it takes.\<close>

lemma vlan_wf_new_pod:
  assumes wf: "vlan_wf db" and new: "pd_id q \<notin> pd_id ` set (db_pods db)"
    and r: "r \<in> set (db_vlan_pool db)" "vl_pod_id r = None"
    and q: "pd_network_mode q = ''isolated''" "pd_status q = ''pending''" "pd_vlan_id q = vl_vlan_tag r" "pd_subnet q = vl_subnet r"
    and pods: "db_pods db' = db_pods db @ [q]"
    and pool: "db_vlan_pool db' = sql_update (\<lambda>x. vl_vlan_tag x = vl_vlan_tag r) (\<lambda>x. x\<lparr>vl_pod_id := Some (pd_id q)\<rparr>) (db_vlan_pool db)"
  shows "vlan_wf db'"
proof -
  have tags: "map vl_vlan_tag (db_vlan_pool db') = map vl_vlan_tag (db_vlan_pool db)"
    unfolding pool by (rule map_key_sql_update) simp
  have only: "x = r" if "x \<in> set (db_vlan_pool db)" "vl_vlan_tag x = vl_vlan_tag r" for x
    using distinct_key_eq [OF vlan_wfD(2) [OF wf] that(1) r(1) that(2)] .
  have rows: "x' \<in> set (db_vlan_pool db') \<longleftrightarrow> x' = r\<lparr>vl_pod_id := Some (pd_id q)\<rparr> \<or> x' \<in> set (db_vlan_pool db) \<and> x' \<noteq> r" for x'
  proof -
    let ?f = "\<lambda>x. x\<lparr>vl_pod_id := Some (pd_id q)\<rparr>"
    have "x' \<in> set (db_vlan_pool db') \<longleftrightarrow> (\<exists>x \<in> set (db_vlan_pool db). x' = (if x = r then ?f r else x))"
      unfolding pool sql_update_in using only by (intro bex_cong) auto
    also have "\<dots> \<longleftrightarrow> x' = ?f r \<or> x' \<in> set (db_vlan_pool db) \<and> x' \<noteq> r" using r(1) by auto
    finally show ?thesis .
  qed
  have "\<exists>p \<in> set (db_pods db'). pd_id p = i \<and> pd_network_mode p = ''isolated'' \<and> pd_status p \<noteq> ''destroyed'' \<and>
      pd_vlan_id p = vl_vlan_tag x \<and> pd_subnet p = vl_subnet x"
    if x: "x \<in> set (db_vlan_pool db')" "vl_pod_id x = Some i" for x i
  proof (cases "x = r\<lparr>vl_pod_id := Some (pd_id q)\<rparr>")
    case True
    with x(2) q show ?thesis by (simp add: pods)
  next
    case False
    with x rows have "x \<in> set (db_vlan_pool db)" by simp
    from vlan_wfD(3) [OF wf this x(2)] show ?thesis by (auto simp: pods)
  qed
  moreover have "podOwnsExactVLAN (pd_id p) (pd_vlan_id p) (pd_subnet p) db'"
    if p: "p \<in> set (db_pods db')" "pd_network_mode p = ''isolated''" "holds_vlan (pd_status p)" for p
  proof (cases "p = q")
    case True
    have "r\<lparr>vl_pod_id := Some (pd_id q)\<rparr> \<in> set (db_vlan_pool db')" by (simp only: rows simp_thms)
    then show ?thesis unfolding podOwnsExactVLAN_def True by (rule bexI [rotated]) (simp add: q)
  next
    case False
    with p pods have "p \<in> set (db_pods db)" by simp
    from vlan_wfD(4) [OF wf this p(2,3)] obtain x where x: "x \<in> set (db_vlan_pool db)" "vl_pod_id x = Some (pd_id p)"
      "vl_vlan_tag x = pd_vlan_id p" "vl_subnet x = pd_subnet p" by (auto simp: podOwnsExactVLAN_def)
    have "x \<noteq> r" using x(2) r(2) by force
    with x(1) have "x \<in> set (db_vlan_pool db')" by (simp only: rows simp_thms)
    with x(2-4) show ?thesis unfolding podOwnsExactVLAN_def by blast
  qed
  ultimately show ?thesis using vlan_wfD(1,2) [OF wf] new tags by (simp add: vlan_wf_def pods)
qed

lemma create_pod_tx_ok:
  assumes "create_pod_tx ustr pick locked rq db = Inr (j, db')"
  obtains r where "validateQuotaTx (rq_userID rq) 1 (sum_list (map pv_VCPUs (rq_vms rq))) (sum_list (map pv_RAMMB (rq_vms rq))) db = None"
    "rq_podID rq \<notin> pd_id ` set (db_pods db)" "r \<in> set (db_vlan_pool db)" "vl_pod_id r = None"
    "db_pods db' = db_pods db @ [(new_pod rq)\<lparr>pd_vlan_id := vl_vlan_tag r, pd_subnet := vl_subnet r\<rparr>]"
    "db_vlan_pool db' = sql_update (\<lambda>x. vl_vlan_tag x = vl_vlan_tag r) (\<lambda>x. x\<lparr>vl_pod_id := Some (rq_podID rq)\<rparr>) (db_vlan_pool db)"
proof -
  let ?db1 = "db\<lparr>db_pods := db_pods db @ [new_pod rq]\<rparr>"
  have quota: "validateQuotaTx (rq_userID rq) 1 (sum_list (map pv_VCPUs (rq_vms rq))) (sum_list (map pv_RAMMB (rq_vms rq))) db = None"
    using assms by (simp add: create_pod_tx_def split: option.splits)
  have ins: "insert_pod (new_pod rq) db = Inr ?db1" and new: "rq_podID rq \<notin> pd_id ` set (db_pods db)"
    using assms quota by (auto simp: create_pod_tx_def insert_pod_def new_pod_def split: if_splits sum.splits)
  obtain tag subnet db2 where co: "CheckoutVLAN pick locked (rq_podID rq) ''all'' ?db1 = Inr ((tag, subnet), db2)"
    using assms quota ins by (cases "CheckoutVLAN pick locked (rq_podID rq) ''all'' ?db1") (auto simp: create_pod_tx_def)
  obtain r where r: "r \<in> set (db_vlan_pool ?db1)" "vl_pod_id r = None" "vl_vlan_tag r = tag" "vl_subnet r = subnet"
    "db2 = ?db1\<lparr>db_vlan_pool := sql_update (\<lambda>x. vl_vlan_tag x = tag) (\<lambda>x. x\<lparr>vl_pod_id := Some (rq_podID rq)\<rparr>) (db_vlan_pool ?db1)\<rparr>"
    by (rule CheckoutVLAN_ok [OF co])
  let ?f = "\<lambda>p. p\<lparr>pd_vlan_id := tag, pd_subnet := subnet\<rparr>"
  let ?db3 = "db2\<lparr>db_pods := sql_update (\<lambda>p. pd_id p = rq_podID rq) ?f (db_pods db2)\<rparr>"
  obtain db4 where vms: "insert_pod_vms (rq_podID rq) (rq_vms rq) ?db3 = Inr db4"
    and job: "CreatePodCreateJobTx ustr (rq_jobID rq) (rq_now rq) (rq_podID rq) (pod_payload ustr (rq_podID rq) (rq_rest rq)) db4 = Inr (j, db')"
    using assms quota ins co by (auto simp: create_pod_tx_def Let_def split: if_splits sum.splits)
  have "db_pods ?db3 = db_pods db @ [(new_pod rq)\<lparr>pd_vlan_id := tag, pd_subnet := subnet\<rparr>]"
  proof -
    have "sql_update (\<lambda>p. pd_id p = rq_podID rq) ?f (db_pods db) = db_pods db"
      by (rule sql_update_none) (metis imageI new)
    then show ?thesis by (simp add: r(5) sql_update_def new_pod_def)
  qed
  with insert_pod_vms_keeps [OF vms] CreatePodCreateJobTx_keeps [OF job] r
  show ?thesis by (intro that [OF quota new _ r(2)]) simp_all
qed

lemma vlan_wf_CreatePod:
  assumes "vlan_wf db"
  shows "vlan_wf (snd (CreatePod ustr flt pick locked rq db))"
  unfolding CreatePod_def
proof (rule run_tx_preserves [where I = vlan_wf, OF assms])
  fix j db'
  assume "create_pod_tx ustr pick locked rq db = Inr (j, db')"
  then obtain r where r: "rq_podID rq \<notin> pd_id ` set (db_pods db)" "r \<in> set (db_vlan_pool db)" "vl_pod_id r = None"
    "db_pods db' = db_pods db @ [(new_pod rq)\<lparr>pd_vlan_id := vl_vlan_tag r, pd_subnet := vl_subnet r\<rparr>]"
    "db_vlan_pool db' = sql_update (\<lambda>x. vl_vlan_tag x = vl_vlan_tag r) (\<lambda>x. x\<lparr>vl_pod_id := Some (rq_podID rq)\<rparr>) (db_vlan_pool db)"
    by (rule create_pod_tx_ok) blast
  show "vlan_wf db'"
    by (rule vlan_wf_new_pod [OF assms _ r(2,3), where q = "(new_pod rq)\<lparr>pd_vlan_id := vl_vlan_tag r, pd_subnet := vl_subnet r\<rparr>"])
       (use r in \<open>simp_all add: new_pod_def\<close>)
qed

lemma single_vm_tx_ok:
  assumes "single_vm_tx ustr user rq db = Inr (j, db')"
  obtains i s where "PickSharedStripe db = Inr (i, s)" "rq_podID rq \<notin> pd_id ` set (db_pods db)"
    "db_pods db' = db_pods db @ [new_shared_pod rq i s]" "db_vlan_pool db' = db_vlan_pool db"
proof -
  have lim: "\<not> singleVMLimitReached (us_Role user) (int (CountSharedPodsTx (rq_userID rq) db)) (us_MaxSingleVMs user)"
    using assms by (auto simp: single_vm_tx_def)
  obtain i s where pick: "PickSharedStripe db = Inr (i, s)"
    using assms lim by (cases "PickSharedStripe db") (auto simp: single_vm_tx_def)
  have ins: "insert_pod (new_shared_pod rq i s) db = Inr (db\<lparr>db_pods := db_pods db @ [new_shared_pod rq i s]\<rparr>)"
    and new: "rq_podID rq \<notin> pd_id ` set (db_pods db)"
    using assms lim pick by (auto simp: single_vm_tx_def insert_pod_def new_shared_pod_def split: if_splits sum.splits)
  obtain db2 where vms: "insert_pod_vms (rq_podID rq) (rq_vms rq) (db\<lparr>db_pods := db_pods db @ [new_shared_pod rq i s]\<rparr>) = Inr db2"
    and job: "CreatePodCreateJobTx ustr (rq_jobID rq) (rq_now rq) (rq_podID rq) (pod_payload ustr (rq_podID rq) (rq_rest rq)) db2 = Inr (j, db')"
    using assms lim pick ins by (auto simp: single_vm_tx_def split: sum.splits)
  show ?thesis
    by (rule that [OF pick new]) (use insert_pod_vms_keeps [OF vms] CreatePodCreateJobTx_keeps [OF job] in simp_all)
qed

lemma vlan_wf_CreateSingleVM:
  assumes wf: "vlan_wf db"
  shows "vlan_wf (snd (CreateSingleVM ustr flt usage user rq db))"
proof -
  have "vlan_wf db'" if tx: "single_vm_tx ustr user rq db = Inr (j, db')" for j db'
  proof -
    obtain i s where n: "rq_podID rq \<notin> pd_id ` set (db_pods db)"
        "db_pods db' = db_pods db @ [new_shared_pod rq i s]" "db_vlan_pool db' = db_vlan_pool db"
      by (rule single_vm_tx_ok [OF tx])
    have q: "pd_id (new_shared_pod rq i s) = rq_podID rq" "pd_network_mode (new_shared_pod rq i s) \<noteq> ''isolated''"
      by (simp_all add: new_shared_pod_def)
    show ?thesis
      using wf n(1) q unfolding vlan_wf_def podOwnsExactVLAN_def n(2,3) by auto
  qed
  then have "vlan_wf (snd (run_tx flt (single_vm_tx ustr user rq) db))"
    by (rule run_tx_preserves [where I = vlan_wf, OF wf])
  with wf show ?thesis by (simp add: CreateSingleVM_def split: option.splits)
qed

text \<open>The status updates and the finalizers.\<close>

lemma update_pod_status_ok:
  "update_pod_status now podID P st msg db = Inr db' \<Longrightarrow>
     db' = db\<lparr>db_pods := sql_update (\<lambda>p. pd_id p = podID \<and> P p)
       (\<lambda>p. p\<lparr>pd_status := st, pd_error_message := Some msg, pd_updated_at := now\<rparr>) (db_pods db)\<rparr>"
  by (simp add: update_pod_status_def split: if_splits)

lemma vlan_wf_UpdatePodStatus:
  assumes wf: "vlan_wf db"
  shows "vlan_wf (snd (UpdatePodStatus flt now podID ''destroy_failed'' msg db))"
  unfolding UpdatePodStatus_def
proof (rule run_tx_preserves [where I = vlan_wf, OF wf])
  fix x :: unit and db'
  assume "(case update_pod_status now podID (\<lambda>_. True) ''destroy_failed'' msg db of Inl e \<Rightarrow> Inl e | Inr db' \<Rightarrow> Inr ((), db')) = Inr (x, db')"
  then have "update_pod_status now podID (\<lambda>_. True) ''destroy_failed'' msg db = Inr db'" by (auto split: sum.splits)
  note db' = update_pod_status_ok [OF this]
  show "vlan_wf db'"
    by (rule vlan_wf_status [OF wf, where P = "\<lambda>p. pd_id p = podID \<and> True" and
          f = "\<lambda>p. p\<lparr>pd_status := ''destroy_failed'', pd_error_message := Some msg, pd_updated_at := now\<rparr>"])
       (simp_all add: db' same_network_def holds_vlan_def)
qed

lemma vlan_wf_UpdatePodStatusFrom:
  assumes wf: "vlan_wf db" and from_st: "\<forall>s \<in> set from. holds_vlan s" and st: "st \<noteq> ''destroyed''"
  shows "vlan_wf (snd (UpdatePodStatusFrom flt now podID from st msg db))"
  unfolding UpdatePodStatusFrom_def
proof (rule run_tx_preserves [where I = vlan_wf, OF wf])
  fix x :: bool and db'
  let ?P = "\<lambda>p. pd_status p \<in> set from"
  assume "(case update_pod_status now podID ?P st msg db of Inl e \<Rightarrow> Inl e
      | Inr db' \<Rightarrow> Inr (sql_count (\<lambda>p. pd_id p = podID \<and> ?P p) (db_pods db) > 0, db')) = Inr (x, db')"
  then have "update_pod_status now podID ?P st msg db = Inr db'" by (auto split: sum.splits)
  note db' = update_pod_status_ok [OF this]
  have own: "podOwnsExactVLAN podID (pd_vlan_id p) (pd_subnet p) db"
    if "p \<in> set (db_pods db)" "pd_id p = podID" "?P p" "pd_network_mode p = ''isolated''" for p
    using vlan_wfD(4) [OF wf that(1,4)] from_st that(2,3) by simp
  show "vlan_wf db'"
    by (rule vlan_wf_status [OF wf, where P = "\<lambda>p. pd_id p = podID \<and> ?P p" and
          f = "\<lambda>p. p\<lparr>pd_status := st, pd_error_message := Some msg, pd_updated_at := now\<rparr>"])
       (use st own in \<open>simp_all add: db' same_network_def\<close>)
qed

lemma run_tx_failed: "fst (run_tx flt body db) = Inl e \<Longrightarrow> snd (run_tx flt body db) = db"
  by (cases "run_tx flt body db") (auto dest: run_tx_atomic)

lemma vlan_wf_ExtendPod:
  assumes wf: "vlan_wf db"
  shows "vlan_wf (snd (ExtendPod ustr flt i now podID userID newExpiry db))"
proof (cases "fst (ExtendPod ustr flt i now podID userID newExpiry db)")
  case (Inl e)
  then have "snd (ExtendPod ustr flt i now podID userID newExpiry db) = db"
    unfolding ExtendPod_def by (rule run_tx_failed)
  with wf show ?thesis by simp
next
  case (Inr att)
  then have "ExtendPod ustr flt i now podID userID newExpiry db = (Inr att, snd (ExtendPod ustr flt i now podID userID newExpiry db))"
    by (simp add: prod_eq_iff)
  then obtain p where db': "snd (ExtendPod ustr flt i now podID userID newExpiry db) = db\<lparr>db_attestations := db_attestations db @ [att],
       db_pods := sql_update (\<lambda>r. pd_id r = podID \<and> pd_status r = ''active'')
         (\<lambda>r. r\<lparr>pd_expires_at := Some newExpiry, pd_updated_at := now\<rparr>) (db_pods db)\<rparr>"
    by (rule ExtendPod_ok)
  have own: "podOwnsExactVLAN podID (pd_vlan_id p) (pd_subnet p) db"
    if "p \<in> set (db_pods db)" "pd_id p = podID" "holds_vlan (pd_status p)" "pd_network_mode p = ''isolated''" for p
    using vlan_wfD(4) [OF wf that(1,4,3)] that(2) by simp
  show ?thesis
    by (rule vlan_wf_status [OF wf, where P = "\<lambda>r. pd_id r = podID \<and> pd_status r = ''active''" and
          f = "\<lambda>r. r\<lparr>pd_expires_at := Some newExpiry, pd_updated_at := now\<rparr>"])
       (use own in \<open>simp_all add: db' same_network_def\<close>)
qed

lemma vlan_wf_PreparePodDestroy:
  assumes wf: "vlan_wf db"
  shows "vlan_wf (snd (PreparePodDestroy ustr flt now podID jobID owner db))"
  unfolding PreparePodDestroy_def
proof (rule run_tx_preserves [where I = vlan_wf, OF wf])
  fix x db'
  let ?f = "\<lambda>r. r\<lparr>pd_status := ''destroying'', pd_error_message := Some [], pd_updated_at := now\<rparr>"
  assume tx: "(case lockOwnedPodDestroyJob ustr podID jobID owner db of Some e \<Rightarrow> Inl e | None \<Rightarrow>
       (case find_pod podID db of
          None \<Rightarrow> Inl (Errorf ''lock pod for destroy preparation'' [Sentinel ErrPodNotFound])
        | Some p \<Rightarrow>
            if pd_status p = ''destroyed'' then Inl (Errorf ''pod'' [Sentinel ErrPodAlreadyDestroyed])
            else
              (case authoritative_destroy ustr podID db of
                 None \<Rightarrow> Inl (Errorf ''pod has no authoritative destroy job'' [Sentinel ErrPodDestroyJobObsolete])
               | Some a \<Rightarrow>
                   if j_ID a \<noteq> jobID
                   then Inl (Errorf ''pod authoritative destroy job is another'' [Sentinel ErrPodDestroyJobObsolete])
                   else if \<not> destroySkipsVLANOwnership (pd_network_mode p) \<and>
                           \<not> podOwnsExactVLAN podID (pd_vlan_id p) (pd_subnet p) db
                   then Inl (Errorf ''pod VLAN'' [Sentinel ErrPodDestroyOwnershipLost])
                   else Inr (p\<lparr>pd_status := ''destroying''\<rparr>,
                          db\<lparr>db_pods := sql_update (\<lambda>r. pd_id r = podID) ?f (db_pods db)\<rparr>)))) = Inr (x, db')"
  then obtain p where p: "find_pod podID db = Some p"
    by (auto split: option.splits)
  with tx have own: "destroySkipsVLANOwnership (pd_network_mode p) \<or> podOwnsExactVLAN podID (pd_vlan_id p) (pd_subnet p) db"
    and db': "db' = db\<lparr>db_pods := sql_update (\<lambda>r. pd_id r = podID) ?f (db_pods db)\<rparr>"
    by (auto split: option.splits if_splits)
  have "q = p" if "q \<in> set (db_pods db)" "pd_id q = podID" for q
    using pod_unique [OF wf that(1), of p] find_podD [OF p] that by simp
  then show "vlan_wf db'"
    by (intro vlan_wf_status [OF wf, where P = "\<lambda>r. pd_id r = podID" and f = ?f])
       (use own in \<open>auto simp: db' same_network_def destroySkipsVLANOwnership_def\<close>)
qed

lemma vlan_wf_FinalizePodDestroy:
  assumes wf: "vlan_wf db"
  shows "vlan_wf (snd (FinalizePodDestroy ustr flt now podID jobID owner db))"
  unfolding FinalizePodDestroy_def
proof (rule run_tx_preserves [where I = vlan_wf, OF wf])
  fix x :: unit and db'
  assume "(case lockOwnedPodDestroyJob ustr podID jobID owner db of Some e \<Rightarrow> Inl e | None \<Rightarrow>
         if sql_count (\<lambda>p. pd_id p = podID \<and> pd_status p = ''destroying'') (db_pods db) \<noteq> 1
         then Inl (Errorf ''mark pod destroyed from destroying'' [Sentinel ErrPodJobRejected])
         else Inr ((), release_vlan podID (mark_destroyed now podID (\<lambda>s. s = ''destroying'') [] db))) = Inr (x, db')"
  then have c: "sql_count (\<lambda>p. pd_id p = podID \<and> pd_status p = ''destroying'') (db_pods db) = 1"
    and db': "db' = release_vlan podID (mark_destroyed now podID (\<lambda>s. s = ''destroying'') [] db)"
    by (auto split: option.splits if_splits)
  from sql_count_oneD [OF c] obtain p where p: "p \<in> set (db_pods db)" "pd_id p = podID" "pd_status p = ''destroying''" by blast
  show "vlan_wf db'"
    unfolding db' by (rule vlan_wf_destroy [OF wf]) (metis p pod_unique [OF wf])
qed

lemma find_pod_unique: "vlan_wf db \<Longrightarrow> find_pod podID db = Some p \<Longrightarrow> q \<in> set (db_pods db) \<Longrightarrow> pd_id q = podID \<Longrightarrow> q = p"
  using pod_unique find_podD by metis

lemma vlan_wf_FinalizeNeverApplied:
  assumes wf: "vlan_wf db"
  shows "vlan_wf (snd (FinalizeNeverAppliedPodCreate flt now podID db))"
  unfolding FinalizeNeverAppliedPodCreate_def
proof (rule run_tx_preserves [where I = vlan_wf, OF wf])
  fix x db'
  let ?Q = "\<lambda>s. s \<in> {''error'', ''destroying'', ''destroy_failed'', ''destroyed''}"
  assume tx: "(case find_pod podID db of None \<Rightarrow> Inr (False, db)
       | Some p \<Rightarrow>
           if \<not> podCreateCleanupStatusSafe (pd_status p)
           then Inl (Errorf ''unsafe for never-applied create finalization'' [Sentinel ErrUnsafePodCreateCleanupState])
           else if sql_count (\<lambda>r. pgr_pod_id r = podID \<and> pgr_removed_at r = None) (db_portgroup_receipts db) > 0
           then Inr (False, db)
           else Inr (True, release_vlan podID (mark_destroyed now podID ?Q [] db))) = Inr (x, db')"
  show "vlan_wf db'"
  proof (cases "find_pod podID db")
    case None
    with tx wf show ?thesis by simp
  next
    case (Some p)
    with tx have safe: "?Q (pd_status p)" and "db' = db \<or> db' = release_vlan podID (mark_destroyed now podID ?Q [] db)"
      by (auto simp: podCreateCleanupStatusSafe_def simp del: insert_iff split: if_splits)
    moreover have "vlan_wf (release_vlan podID (mark_destroyed now podID ?Q [] db))"
      by (rule vlan_wf_destroy [OF wf]) (use find_pod_unique [OF wf Some] safe in blast)
    ultimately show ?thesis using wf by auto
  qed
qed

lemma orphan_tx_ok:
  assumes "orphan_tx ustr now actor p att db = Inr (x, db')"
  shows "db_pods db' = db_pods (release_vlan (pd_id p) (mark_destroyed now (pd_id p) (\<lambda>s. s = ''destroy_failed'') [] db)) \<and>
    db_vlan_pool db' = db_vlan_pool (release_vlan (pd_id p) (mark_destroyed now (pd_id p) (\<lambda>s. s = ''destroy_failed'') [] db))"
  using assms unfolding orphan_tx_def
  by (auto simp: Let_def release_vlan_def mark_destroyed_def split: option.splits if_splits)

lemma vlan_wf_FinalizeOrphaned:
  assumes wf: "vlan_wf db"
  shows "vlan_wf (snd (FinalizeOrphanedPodDestroy ustr flt now actor podID att db))"
  unfolding FinalizeOrphanedPodDestroy_def
proof (rule run_tx_preserves [where I = vlan_wf, OF wf])
  fix x db'
  assume tx: "(case find_pod podID db of None \<Rightarrow> Inl (recovery_refused ''pod not found'')
       | Some p \<Rightarrow>
           if pd_status p \<noteq> ''destroy_failed'' \<or>
              \<not> hasPrefix (case pd_error_message p of None \<Rightarrow> [] | Some m \<Rightarrow> m) ''manual_cleanup_required:''
           then Inl (recovery_refused ''pod status'')
           else if rat_VLANID att \<noteq> pd_vlan_id p \<or> rat_Subnet att \<noteq> pd_subnet p
           then Inl (recovery_refused ''attestation mismatch'')
           else orphan_tx ustr now actor p att db) = Inr (x, db')"
  then obtain p where p: "find_pod podID db = Some p" by (auto split: option.splits)
  with tx have st: "pd_status p = ''destroy_failed''" and o: "orphan_tx ustr now actor p att db = Inr (x, db')"
    by (auto split: if_splits)
  have id: "pd_id p = podID" using find_podD [OF p] by simp
  have "vlan_wf (release_vlan podID (mark_destroyed now podID (\<lambda>s. s = ''destroy_failed'') [] db))"
    by (rule vlan_wf_destroy [OF wf]) (use find_pod_unique [OF wf p] st in blast)
  then show "vlan_wf db'" by (rule vlan_wf_cong) (use orphan_tx_ok [OF o] in \<open>simp_all only: id\<close>)
qed

lemma vlan_wf_cleanup:
  assumes wf: "vlan_wf db" and tx: "cleanup_pod_status now podID b db = Inr (st, db')"
  shows "vlan_wf db'"
proof (cases "db' = db")
  case False
  let ?P = "\<lambda>p. pd_id p = podID \<and> pd_status p = ''provisioning''"
  let ?f = "\<lambda>p. p\<lparr>pd_status := ''error'', pd_error_message := Some ''Provisioning stopped; cleanup is in progress.'', pd_updated_at := now\<rparr>"
  have db': "db' = db\<lparr>db_pods := sql_update ?P ?f (db_pods db)\<rparr>"
    using tx False by (auto simp: cleanup_pod_status_def Let_def split: option.splits if_splits)
  have own: "podOwnsExactVLAN podID (pd_vlan_id p) (pd_subnet p) db"
    if "p \<in> set (db_pods db)" "?P p" "pd_network_mode p = ''isolated''" for p
    using vlan_wfD(4) [OF wf that(1,3)] that(2) by (simp add: holds_vlan_def)
  show ?thesis
    by (rule vlan_wf_status [OF wf, where P = ?P and f = ?f]) (use own in \<open>simp_all add: db' same_network_def\<close>)
qed (use wf in simp)

lemma vlan_wf_BeginPodCreateCleanup:
  assumes wf: "vlan_wf db"
  shows "vlan_wf (snd (BeginPodCreateCleanup flt now i w podID b db))"
proof (cases "fst (BeginPodCreateCleanup flt now i w podID b db)")
  case (Inl e)
  then have "snd (BeginPodCreateCleanup flt now i w podID b db) = db"
    unfolding BeginPodCreateCleanup_def by (rule run_tx_failed)
  with wf show ?thesis by simp
next
  case (Inr x)
  then have ok: "BeginPodCreateCleanup flt now i w podID b db = (Inr (fst x, snd x), snd (BeginPodCreateCleanup flt now i w podID b db))"
    by (simp add: prod_eq_iff)
  obtain db1 where c: "cleanup_pod_status now podID b db = Inr (fst x, db1)"
    and db': "db_pods (snd (BeginPodCreateCleanup flt now i w podID b db)) = db_pods db1"
      "db_vlan_pool (snd (BeginPodCreateCleanup flt now i w podID b db)) = db_vlan_pool db1"
    by (rule BeginPodCreateCleanup_bodyD [OF ok]) auto
  show ?thesis by (rule vlan_wf_cong [OF vlan_wf_cleanup [OF wf c] db'])
qed

section \<open>Cancellation\<close>

lemma cancel_writes_ok:
  assumes "cancel_writes ustr now podID jobID db = Inr (x, db')"
  shows "x = (PodDeletionOutcomeCancelled, jobID)"
    "sql_count (\<lambda>p. pd_id p = podID \<and> pd_status p = ''pending'') (db_pods db) = 1"
    "sql_count (\<lambda>r. vl_pod_id r = Some podID) (db_vlan_pool db) = 1"
    "db_pods db' = db_pods (release_vlan podID (mark_destroyed now podID (\<lambda>s. s = ''pending'') PodErrorCancelledBeforeProvisioning db))"
    "db_vlan_pool db' = db_vlan_pool (release_vlan podID db)"
    "db_pod_vms db' = sql_update (\<lambda>v. pv_PodID v = podID) cancelled_vm (db_pod_vms db)"
    "db_jobs db' = sql_update (cancellable_job jobID) (cancelled_job ustr now podID jobID) (db_jobs db)"
  using assms by (auto simp: cancel_writes_def Let_def release_vlan_def mark_destroyed_def split: if_splits)

text \<open>What a transaction that really cancels has found.\<close>

lemma cancel_tx_cases:
  assumes tx: "cancel_tx ustr now podID db = Inr (x, db')"
  shows "fst x \<noteq> PodDeletionOutcomeCancelled \<and> db' = db \<or>
    (\<exists>j p. create_job_of ustr podID db = Some j \<and> pristine_create j \<and> find_pod podID db = Some p \<and> pd_status p = ''pending'' \<and>
       \<not> podCancellationProtectedJobs ustr podID (j_ID j) db \<and> \<not> vm_evidence podID db \<and>
       (\<forall>r \<in> set (db_portgroup_receipts db). pgr_pod_id r \<noteq> podID) \<and> \<not> has_placement podID db \<and>
       cancel_writes ustr now podID (j_ID j) db = Inr (x, db'))"
proof -
  obtain p where p: "find_pod podID db = Some p"
    using tx by (cases "find_pod podID db") (auto simp: cancel_tx_def Let_def)
  show ?thesis
  proof (cases "create_job_of ustr podID db")
    case None
    with tx p show ?thesis by (auto simp: cancel_tx_def Let_def split: if_splits)
  next
    case (Some j)
    with tx p show ?thesis by (auto simp: cancel_tx_def Let_def split: if_splits)
  qed
qed

lemma cancel_run:
  "CancelPendingPodIfNeverStarted ustr flt now podID db = (Inr x, db') \<Longrightarrow> cancel_tx ustr now podID db = Inr (x, db')"
  "CancelPendingPodIfNeverStarted ustr flt now podID db = (Inl e, db') \<Longrightarrow> db' = db"
  unfolding CancelPendingPodIfNeverStarted_def by (drule run_tx_InrD, simp) (rule run_tx_atomic)

lemma cancel_tx_cancelled:
  assumes "cancel_tx ustr now podID db = Inr ((PodDeletionOutcomeCancelled, i), db')"
  obtains j p where "create_job_of ustr podID db = Some j" "pristine_create j" "find_pod podID db = Some p" "pd_status p = ''pending''"
    "\<not> podCancellationProtectedJobs ustr podID (j_ID j) db" "\<not> vm_evidence podID db"
    "\<forall>r \<in> set (db_portgroup_receipts db). pgr_pod_id r \<noteq> podID" "\<not> has_placement podID db"
    "cancel_writes ustr now podID (j_ID j) db = Inr ((PodDeletionOutcomeCancelled, i), db')"
  using cancel_tx_cases [OF assms] that by (elim disjE exE conjE) simp_all

lemma vlan_wf_Cancel:
  assumes wf: "vlan_wf db"
  shows "vlan_wf (snd (CancelPendingPodIfNeverStarted ustr flt now podID db))"
  unfolding CancelPendingPodIfNeverStarted_def
proof (rule run_tx_preserves [where I = vlan_wf, OF wf])
  fix x db'
  assume tx: "cancel_tx ustr now podID db = Inr (x, db')"
  from cancel_tx_cases [OF tx] show "vlan_wf db'"
  proof
    assume "fst x \<noteq> PodDeletionOutcomeCancelled \<and> db' = db"
    with wf show ?thesis by simp
  next
    assume "\<exists>j p. create_job_of ustr podID db = Some j \<and> pristine_create j \<and> find_pod podID db = Some p \<and> pd_status p = ''pending'' \<and>
       \<not> podCancellationProtectedJobs ustr podID (j_ID j) db \<and> \<not> vm_evidence podID db \<and>
       (\<forall>r \<in> set (db_portgroup_receipts db). pgr_pod_id r \<noteq> podID) \<and> \<not> has_placement podID db \<and>
       cancel_writes ustr now podID (j_ID j) db = Inr (x, db')"
    then obtain j :: job and p where p: "find_pod podID db = Some p" "pd_status p = ''pending''"
      and w: "cancel_writes ustr now podID (j_ID j) db = Inr (x, db')" by blast
    have "vlan_wf (release_vlan podID (mark_destroyed now podID (\<lambda>s. s = ''pending'') PodErrorCancelledBeforeProvisioning db))"
      by (rule vlan_wf_destroy [OF wf]) (use find_pod_unique [OF wf p(1)] p(2) in blast)
    then show ?thesis
      by (rule vlan_wf_cong) (use cancel_writes_ok(4,5) [OF w] in \<open>simp_all add: release_vlan_def mark_destroyed_def\<close>)
  qed
qed

text \<open>Releasing the VLAN of a destroyed pod finds nothing to release.\<close>

lemma vlan_wf_ReleaseVLAN:
  assumes wf: "vlan_wf db" and p: "find_pod podID db = Some p" "pd_status p = ''destroyed''"
  shows "vlan_wf (snd (ReleaseVLAN flt podID db))"
  unfolding ReleaseVLAN_def
proof (rule run_tx_preserves [where I = vlan_wf, OF wf])
  fix x :: unit and db'
  assume "Inr ((), release_vlan podID db) = Inr (x, db')"
  then have db': "db' = release_vlan podID db" by simp
  have "vl_pod_id r \<noteq> Some podID" if "r \<in> set (db_vlan_pool db)" for r
  proof
    assume "vl_pod_id r = Some podID"
    from vlan_wfD(3) [OF wf that this] obtain q where "q \<in> set (db_pods db)" "pd_id q = podID" "pd_status q \<noteq> ''destroyed''" by blast
    with find_pod_unique [OF wf p(1)] p(2) show False by blast
  qed
  then have "db_vlan_pool db' = db_vlan_pool db" unfolding db' release_vlan_def by (simp add: sql_update_none)
  then show "vlan_wf db'" by (intro vlan_wf_cong [OF wf]) (simp_all add: db' release_vlan_def)
qed

section \<open>Properties\<close>

text \<open>
  Everything that writes pods or the VLAN pool, each with any fault of the driver: the handlers,
  the worker with the status updates it makes, the finalizers, the reconciler that releases the
  VLANs of destroyed pods, and anything that touches neither table.
\<close>

inductive vlan_step :: "database \<Rightarrow> unit \<Rightarrow> database \<Rightarrow> bool" where
  create: "vlan_step db u (snd (CreatePod ustr flt pick locked rq db))"
| single: "vlan_step db u (snd (CreateSingleVM ustr flt usage user rq db))"
| provisioning: "vlan_step db u (snd (UpdatePodStatusFrom flt now podID [''pending'', ''provisioning''] ''provisioning'' [] db))"
| activate: "vlan_step db u (snd (UpdatePodStatusFrom flt now podID [''provisioning''] ''active'' [] db))"
| cleanup: "vlan_step db u (snd (BeginPodCreateCleanup flt now i w podID b db))"
| extend: "vlan_step db u (snd (ExtendPod ustr flt i now podID userID newExpiry db))"
| prepare: "vlan_step db u (snd (PreparePodDestroy ustr flt now podID jobID owner db))"
| destroy_failed: "vlan_step db u (snd (UpdatePodStatus flt now podID ''destroy_failed'' msg db))"
| finalize: "vlan_step db u (snd (FinalizePodDestroy ustr flt now podID jobID owner db))"
| never_applied: "vlan_step db u (snd (FinalizeNeverAppliedPodCreate flt now podID db))"
| orphaned: "vlan_step db u (snd (FinalizeOrphanedPodDestroy ustr flt now actor podID att db))"
| cancel: "vlan_step db u (snd (CancelPendingPodIfNeverStarted ustr flt now podID db))"
| reconcile: "find_pod podID db = Some p \<Longrightarrow> pd_status p = ''destroyed'' \<Longrightarrow> vlan_step db u (snd (ReleaseVLAN flt podID db))"
| elsewhere: "db_pods db' = db_pods db \<Longrightarrow> db_vlan_pool db' = db_vlan_pool db \<Longrightarrow> vlan_step db u db'"

definition vlan_start :: "database \<Rightarrow> bool" where
  "vlan_start db \<longleftrightarrow> db_pods db = [] \<and> distinct (map vl_vlan_tag (db_vlan_pool db)) \<and>
     list_all (\<lambda>r. vl_pod_id r = None) (db_vlan_pool db)"

lemma vlan_step_wf: "vlan_step db u db' \<Longrightarrow> vlan_wf db \<Longrightarrow> vlan_wf db'"
proof (induction rule: vlan_step.induct)
  case (provisioning db u flt now podID)
  then show ?case by (intro vlan_wf_UpdatePodStatusFrom) (simp_all add: holds_vlan_def)
next
  case (activate db u flt now podID)
  then show ?case by (intro vlan_wf_UpdatePodStatusFrom) (simp_all add: holds_vlan_def)
next
  case (elsewhere db' db u)
  then show ?case using vlan_wf_cong by blast
qed (simp_all add: vlan_wf_CreatePod vlan_wf_CreateSingleVM vlan_wf_BeginPodCreateCleanup vlan_wf_ExtendPod
      vlan_wf_PreparePodDestroy vlan_wf_UpdatePodStatus vlan_wf_FinalizePodDestroy vlan_wf_FinalizeNeverApplied
      vlan_wf_FinalizeOrphaned vlan_wf_Cancel vlan_wf_ReleaseVLAN)

interpretation vlans: state_machine vlan_start vlan_step vlan_wf
proof unfold_locales
  show "vlan_wf db" if "vlan_start db" for db
    using that by (simp add: vlan_start_def vlan_wf_def list_all_iff)
qed (rule vlan_step_wf)


definition pool_db :: database where
  "pool_db = empty_db\<lparr>db_vlan_pool := [\<lparr>vl_vlan_tag = 400, vl_subnet = ''10.100.1.0/24'', vl_pod_id = None, vl_host_scope = ''all''\<rparr>],
     db_users := [\<lparr>us_ID = 5, us_Role = ''student'', us_MaxVCPUs = 4, us_MaxRAMMB = 4096, us_MaxPods = 2, us_MaxSingleVMs = 1\<rparr>]\<rparr>"

definition lab_request :: pod_request where
  "lab_request = \<lparr>rq_podID = 2, rq_jobID = 21, rq_userID = 5, rq_now = 1, rq_expiresAt = 100, rq_vms = [], rq_rest = []\<rparr>"


text \<open>
  C17. Cancelling a pod without destroying it is safe: it happens only when the pod is still
  pending, its create job has never been claimed, retried or touched, no other job targets the pod
  or its machines, and no machine, port group receipt or placement shows that provisioning started;
  then pod, machines, job and VLAN change together, and the VLAN is free again. In every other case
  the database is left as it was.
\<close>

theorem cancel_only_never_started:
  assumes c: "CancelPendingPodIfNeverStarted ustr flt now podID db = (res, db')"
  shows "(res = Inr (PodDeletionOutcomeCancelled, jobID) \<longrightarrow>
       (\<exists>j p. create_job_of ustr podID db = Some j \<and> j_ID j = jobID \<and> pristine_create j \<and>
          find_pod podID db = Some p \<and> pd_status p = ''pending'' \<and>
          \<not> podCancellationProtectedJobs ustr podID jobID db \<and> \<not> vm_evidence podID db \<and>
          (\<forall>r \<in> set (db_portgroup_receipts db). pgr_pod_id r \<noteq> podID) \<and> \<not> has_placement podID db) \<and>
       (\<forall>p \<in> set (db_pods db'). pd_id p = podID \<longrightarrow> pd_status p \<noteq> ''pending'') \<and>
       (\<forall>v \<in> set (db_pod_vms db'). pv_PodID v = podID \<longrightarrow> pv_Status v = ''deleted'') \<and>
       (\<forall>j \<in> set (db_jobs db'). \<not> cancellable_job jobID j) \<and>
       (\<forall>r \<in> set (db_vlan_pool db'). vl_pod_id r \<noteq> Some podID)) \<and>
    ((\<forall>i. res \<noteq> Inr (PodDeletionOutcomeCancelled, i)) \<longrightarrow> db' = db)"
proof (intro conjI impI)
  assume "res = Inr (PodDeletionOutcomeCancelled, jobID)"
  with c have "cancel_tx ustr now podID db = Inr ((PodDeletionOutcomeCancelled, jobID), db')"
    using cancel_run(1) by simp
  then obtain j p where jp: "create_job_of ustr podID db = Some j" "pristine_create j"
      "find_pod podID db = Some p" "pd_status p = ''pending''" "\<not> podCancellationProtectedJobs ustr podID (j_ID j) db"
      "\<not> vm_evidence podID db" "\<forall>r \<in> set (db_portgroup_receipts db). pgr_pod_id r \<noteq> podID" "\<not> has_placement podID db"
    and w: "cancel_writes ustr now podID (j_ID j) db = Inr ((PodDeletionOutcomeCancelled, jobID), db')"
    by (rule cancel_tx_cancelled)
  note ok = cancel_writes_ok [OF w]
  from ok(1) have id: "j_ID j = jobID" by simp
  with jp show "\<exists>j p. create_job_of ustr podID db = Some j \<and> j_ID j = jobID \<and> pristine_create j \<and>
      find_pod podID db = Some p \<and> pd_status p = ''pending'' \<and>
      \<not> podCancellationProtectedJobs ustr podID jobID db \<and> \<not> vm_evidence podID db \<and>
      (\<forall>r \<in> set (db_portgroup_receipts db). pgr_pod_id r \<noteq> podID) \<and> \<not> has_placement podID db" by blast
  show "\<forall>p \<in> set (db_pods db'). pd_id p = podID \<longrightarrow> pd_status p \<noteq> ''pending''"
  proof -
    have pods: "db_pods db' = sql_update (\<lambda>p. pd_id p = podID \<and> pd_status p = ''pending'')
        (\<lambda>p. p\<lparr>pd_status := ''destroyed'', pd_error_message := Some PodErrorCancelledBeforeProvisioning, pd_updated_at := now\<rparr>) (db_pods db)"
      using ok(4) by (simp add: release_vlan_def mark_destroyed_def)
    have "sql_count (\<lambda>p. pd_id p = podID \<and> pd_status p = ''pending'') (db_pods db') = 0"
      unfolding pods by (rule sql_update_escapes) simp
    then show ?thesis unfolding sql_count_0_iff by blast
  qed
  show "\<forall>v \<in> set (db_pod_vms db'). pv_PodID v = podID \<longrightarrow> pv_Status v = ''deleted''"
  proof (intro ballI impI)
    fix v assume v: "v \<in> set (db_pod_vms db')" "pv_PodID v = podID"
    then obtain r where r: "v = (if pv_PodID r = podID then cancelled_vm r else r)"
      unfolding ok(6) sql_update_in by blast
    show "pv_Status v = ''deleted''"
      using r v(2) by (cases "pv_PodID r = podID") (simp_all add: cancelled_vm_def)
  qed
  show "\<forall>j \<in> set (db_jobs db'). \<not> cancellable_job jobID j"
  proof
    fix j' assume "j' \<in> set (db_jobs db')"
    then obtain r where r: "j' = (if cancellable_job jobID r then cancelled_job ustr now podID jobID r else r)"
      unfolding ok(7) id sql_update_in by blast
    show "\<not> cancellable_job jobID j'"
      using r by (cases "cancellable_job jobID r") (simp_all add: cancelled_job_def cancellable_job_def)
  qed
  show "\<forall>r \<in> set (db_vlan_pool db'). vl_pod_id r \<noteq> Some podID"
  proof
    fix v assume "v \<in> set (db_vlan_pool db')"
    then have "v \<in> set (sql_update (\<lambda>r. vl_pod_id r = Some podID) (\<lambda>r. r\<lparr>vl_pod_id := None\<rparr>) (db_vlan_pool db))"
      unfolding ok(5) by (simp add: release_vlan_def)
    then obtain r where r: "v = (if vl_pod_id r = Some podID then r\<lparr>vl_pod_id := None\<rparr> else r)"
      unfolding sql_update_in by blast
    show "vl_pod_id v \<noteq> Some podID" using r by (cases "vl_pod_id r = Some podID") simp_all
  qed
next
  assume no: "\<forall>i. res \<noteq> Inr (PodDeletionOutcomeCancelled, i)"
  show "db' = db"
  proof (cases res)
    case (Inl e)
    with c show ?thesis using cancel_run(2) by simp
  next
    case (Inr x)
    with c have tx: "cancel_tx ustr now podID db = Inr (x, db')"
      using cancel_run(1) by simp
    have "fst x \<noteq> PodDeletionOutcomeCancelled" using no Inr by (cases x) auto
    with cancel_tx_cases [OF tx] cancel_writes_ok(1) show ?thesis by fastforce
  qed
qed

theorem cancel_only_never_started_witness:
  "fst (CancelPendingPodIfNeverStarted tally None 9 2 (snd (CreatePod tally None 0 (\<lambda>_. False) lab_request pool_db))) =
     Inr (PodDeletionOutcomeCancelled, 21) \<and>
   map vl_pod_id (db_vlan_pool (snd (CancelPendingPodIfNeverStarted tally None 9 2
     (snd (CreatePod tally None 0 (\<lambda>_. False) lab_request pool_db))))) = [None]"
proof -
  let ?db = "snd (CreatePod tally None 0 (\<lambda>_. False) lab_request pool_db)"
  let ?c = "CancelPendingPodIfNeverStarted tally None 9 2 ?db"
  have ok: "fst ?c = Inr (PodDeletionOutcomeCancelled, 21)" by code_simp
  have "map vl_pod_id (db_vlan_pool (snd ?c)) = [None] \<or> map vl_pod_id (db_vlan_pool (snd ?c)) = [Some 2]" by code_simp
  moreover have "?c = (Inr (PodDeletionOutcomeCancelled, 21), snd ?c)" using ok by (simp add: prod_eq_iff)
  from cancel_only_never_started [OF this] have "\<forall>r \<in> set (db_vlan_pool (snd ?c)). vl_pod_id r \<noteq> Some 2" by blast
  then have "Some 2 \<notin> set (map vl_pod_id (db_vlan_pool (snd ?c)))" by (auto simp del: vlan_row.simps)
  ultimately show ?thesis using ok by auto
qed

text \<open>
  A Single VM holds no VLAN, so the cancellation of one that never started always fails on the
  release of its VLAN and the handler answers 500, although deletion is meant to be possible: the
  owner of a freshly requested Single VM cannot delete it until the worker has taken its job.
\<close>

theorem single_vm_delete_fails:
  assumes wf: "vlan_wf db" and p: "find_pod podID db = Some p" "pd_network_mode p = ''shared''" "pd_status p = ''pending''"
    and j: "create_job_of ustr podID db = Some j" "pristine_create j" "\<not> podCancellationProtectedJobs ustr podID (j_ID j) db"
    and none: "\<not> vm_evidence podID db" "\<not> (\<exists>r \<in> set (db_portgroup_receipts db). pgr_pod_id r = podID)" "\<not> has_placement podID db"
  shows "DeletePod ustr None flt newID now podID (pd_user_id p) isAdmin rest db = (500, db)"
proof -
  have "vl_pod_id r \<noteq> Some podID" if "r \<in> set (db_vlan_pool db)" for r
    using vlan_wfD(3) [OF wf that] find_pod_unique [OF wf p(1)] p(2) by fastforce
  then have "sql_count (\<lambda>r. vl_pod_id r = Some podID) (db_vlan_pool db) = 0" by (simp add: sql_count_0_iff)
  then have "\<exists>e. cancel_writes ustr now podID (j_ID j) db = Inl e"
    by (simp add: cancel_writes_def Let_def mark_destroyed_def)
  then obtain e where "cancel_tx ustr now podID db = Inl e"
    using p j none by (auto simp: cancel_tx_def Let_def)
  then have "CancelPendingPodIfNeverStarted ustr None now podID db = (Inl e, db)"
    by (simp add: CancelPendingPodIfNeverStarted_def)
  with p show ?thesis by (simp add: DeletePod_def)
qed

end
