(* ===== verification/Runs.thy ===== *)
theory Runs
  imports Pods
begin

text \<open>
  The assessment runs: their rows and the queries on them
  (\<open>internal/engine/queries.go\<close>, \<open>internal/engine/callback.go\<close>, \<open>internal/database/testing_queries.go\<close>),
  the runner addresses of the shared stripes (\<open>internal/database/runner_lease.go\<close>) and the two
  handlers that start and cancel a run (\<open>internal/api/handlers/testing.go\<close>).
\<close>

section \<open>Rows\<close>

abbreviation RunStatusPending :: string where "RunStatusPending \<equiv> ''pending''"
abbreviation RunStatusProvisioning :: string where "RunStatusProvisioning \<equiv> ''provisioning''"
abbreviation RunStatusRunning :: string where "RunStatusRunning \<equiv> ''running''"
abbreviation RunStatusCompleted :: string where "RunStatusCompleted \<equiv> ''completed''"
abbreviation RunStatusFailed :: string where "RunStatusFailed \<equiv> ''failed''"
abbreviation RunStatusCancelled :: string where "RunStatusCancelled \<equiv> ''cancelled''"
abbreviation RunStatusTimeout :: string where "RunStatusTimeout \<equiv> ''timeout''"

abbreviation ResultStatusPending :: string where "ResultStatusPending \<equiv> ''pending''"
abbreviation ResultStatusRunning :: string where "ResultStatusRunning \<equiv> ''running''"
abbreviation ResultStatusPass :: string where "ResultStatusPass \<equiv> ''pass''"
abbreviation ResultStatusFail :: string where "ResultStatusFail \<equiv> ''fail''"
abbreviation ResultStatusError :: string where "ResultStatusError \<equiv> ''error''"
abbreviation ResultStatusTimeout :: string where "ResultStatusTimeout \<equiv> ''timeout''"
abbreviation ResultStatusCancelled :: string where "ResultStatusCancelled \<equiv> ''cancelled''"

record run_row =
  rn_ID :: uuid
  rn_PodID :: uuid
  rn_PlaylistID :: "uuid option"
  rn_TriggeredBy :: uuid
  rn_RunnerVMName :: "string option"
  rn_TargetPodVMID :: "uuid option"
  rn_TargetVMName :: string
  rn_TargetVMIP :: string
  rn_CallbackToken :: string
  rn_Status :: string
  rn_TotalWorkflows :: int
  rn_PassedWorkflows :: int
  rn_FailedWorkflows :: int
  rn_ErrorMessage :: "string option"
  rn_StartedAt :: "go_time option"
  rn_CompletedAt :: "go_time option"
  rn_CreatedAt :: go_time
  rn_UpdatedAt :: go_time

record workflow_row =
  wf_ID :: uuid
  wf_Name :: string
  wf_Slug :: string
  wf_ExecutionMode :: string
  wf_Script :: string
  wf_SetupScript :: "string option"
  wf_TimeoutSeconds :: int
  wf_TargetVM :: "string option"
  wf_GuestInterpreter :: "string option"
  wf_Status :: string
  wf_CreatedBy :: uuid
  wf_IsActive :: bool

record version_row =
  wv_ID :: uuid
  wv_WorkflowID :: uuid
  wv_Version :: int
  wv_Script :: string
  wv_Actions :: json
  wv_CreatedBy :: uuid

record result_row =
  wr_ID :: uuid
  wr_RunID :: uuid
  wr_WorkflowID :: uuid
  wr_WorkflowVersionID :: "uuid option"
  wr_ExecutionOrder :: nat
  wr_ExecutionMode :: string
  wr_Status :: string
  wr_StudentMessage :: "string option"
  wr_InstructorOutput :: json
  wr_ActionResults :: "json option"
  wr_DurationMs :: "int option"
  wr_StartedAt :: "go_time option"
  wr_CompletedAt :: "go_time option"

record runner_lease =
  rl_SharedNetworkID :: uuid
  rl_IP :: string
  rl_RunID :: uuid
  rl_ReleasedAt :: "go_time option"

text \<open>
  The tables of the engine beside the ones of \<open>Store\<close>. \<open>rs_playlist_workflows\<close> has the playlist, the
  workflow and its execution order.
\<close>

record run_store =
  rs_db :: database
  rs_runs :: "run_row list"
  rs_workflows :: "workflow_row list"
  rs_playlist_workflows :: "(uuid \<times> uuid \<times> int) list"
  rs_versions :: "version_row list"
  rs_results :: "result_row list"
  rs_leases :: "runner_lease list"

section \<open>The queries of a run\<close>

definition terminal_run :: "string \<Rightarrow> bool" where
  "terminal_run st \<longleftrightarrow> st = RunStatusCompleted \<or> st = RunStatusFailed \<or> st = RunStatusTimeout \<or> st = RunStatusCancelled"

definition active_run :: "run_row \<Rightarrow> bool" where
  "active_run r \<longleftrightarrow> rn_Status r \<in> {RunStatusPending, RunStatusProvisioning, RunStatusRunning}"

text \<open>\<open>ClaimPendingRun\<close>: \<open>locked\<close> are the rows another claim holds (\<open>SKIP LOCKED\<close>).\<close>

definition claimed_run :: "go_time \<Rightarrow> run_row \<Rightarrow> run_row" where
  "claimed_run now r = r\<lparr>rn_Status := RunStatusProvisioning, rn_StartedAt := Some now, rn_UpdatedAt := now\<rparr>"

definition ClaimPendingRun ::
  "go_error option \<Rightarrow> go_time \<Rightarrow> uuid list \<Rightarrow> run_store \<Rightarrow> run_row option result \<times> run_store" where
  "ClaimPendingRun flt now locked =
     run_tx (map_option (\<lambda>e. Errorf ''claim pending run'' [e]) flt) (\<lambda>s.
       case sort_key rn_CreatedAt (filter (\<lambda>r. rn_Status r = RunStatusPending \<and> rn_ID r \<notin> set locked) (rs_runs s)) of
         [] \<Rightarrow> Inr (None, s)
       | r # _ \<Rightarrow> Inr (Some (claimed_run now r),
                    s\<lparr>rs_runs := sql_update (\<lambda>x. rn_ID x = rn_ID r) (claimed_run now) (rs_runs s)\<rparr>))"

definition RequeueClaimedRun ::
  "go_error option \<Rightarrow> go_time \<Rightarrow> uuid \<Rightarrow> run_store \<Rightarrow> unit result \<times> run_store" where
  "RequeueClaimedRun flt now runID =
     run_tx (map_option (\<lambda>e. Errorf ''requeue claimed run'' [e]) flt) (\<lambda>s.
       let P = (\<lambda>r. rn_ID r = runID \<and> rn_Status r = RunStatusProvisioning) in
       if sql_count P (rs_runs s) = 0 then Inl (errorsNew ''requeue claimed run: run not in provisioning state'')
       else Inr ((), s\<lparr>rs_runs := sql_update P
              (\<lambda>r. r\<lparr>rn_Status := RunStatusPending, rn_StartedAt := None, rn_ErrorMessage := None, rn_UpdatedAt := now\<rparr>)
              (rs_runs s)\<rparr>))"

definition ReleaseRunnerLease :: "go_error option \<Rightarrow> go_time \<Rightarrow> uuid \<Rightarrow> run_store \<Rightarrow> unit result \<times> run_store" where
  "ReleaseRunnerLease flt now runID =
     run_tx flt (\<lambda>s. Inr ((), s\<lparr>rs_leases := sql_update (\<lambda>l. rl_RunID l = runID \<and> rl_ReleasedAt l = None)
                              (\<lambda>l. l\<lparr>rl_ReleasedAt := Some now\<rparr>) (rs_leases s)\<rparr>))"

text \<open>
  \<open>UpdateRunStatus\<close>: two statements that are no transaction. \<open>flt\<close> and \<open>flt2\<close> are their failures; the
  API has the same query with \<open>ReleaseRunnerLease\<close> as its second statement.
\<close>

definition set_run_status :: "go_time \<Rightarrow> uuid \<Rightarrow> string \<Rightarrow> string option \<Rightarrow> run_store \<Rightarrow> run_store" where
  "set_run_status now runID status errorMsg s =
     s\<lparr>rs_runs := sql_update (\<lambda>r. rn_ID r = runID)
          (\<lambda>r. r\<lparr>rn_Status := status, rn_ErrorMessage := errorMsg,
                  rn_CompletedAt := (if terminal_run status then Some now else None), rn_UpdatedAt := now\<rparr>) (rs_runs s)\<rparr>"

definition UpdateRunStatus ::
  "go_error option \<Rightarrow> go_error option \<Rightarrow> go_time \<Rightarrow> uuid \<Rightarrow> string \<Rightarrow> string option \<Rightarrow> run_store \<Rightarrow> unit result \<times> run_store" where
  "UpdateRunStatus flt flt2 now runID status errorMsg s =
     (case run_tx flt (\<lambda>s. Inr ((), set_run_status now runID status errorMsg s)) s of
        (Inl e, s1) \<Rightarrow> (Inl e, s1)
      | (Inr _, s1) \<Rightarrow> if terminal_run status then ReleaseRunnerLease flt2 now runID s1 else (Inr (), s1))"

definition GetPodNetworkMode :: "uuid \<Rightarrow> run_store \<Rightarrow> string result" where
  "GetPodNetworkMode podID s =
     (case find (\<lambda>p. pd_id p = podID) (db_pods (rs_db s)) of
        None \<Rightarrow> Inl (Errorf ''get pod network mode'' [Sentinel pgx_ErrNoRows])
      | Some p \<Rightarrow> Inr (if pd_network_mode p = [] then ''isolated'' else pd_network_mode p))"

definition GetPodVLANTag :: "uuid \<Rightarrow> run_store \<Rightarrow> int result" where
  "GetPodVLANTag podID s =
     (case find (\<lambda>p. pd_id p = podID) (db_pods (rs_db s)) of
        None \<Rightarrow> Inl (Errorf ''get pod VLAN tag'' [Sentinel pgx_ErrNoRows])
      | Some p \<Rightarrow> if pd_vlan_id p = 0 then Inl (errorsNew ''pod has no VLAN allocated (vlan_id=0)'') else Inr (pd_vlan_id p))"

definition ActiveRunnerLease :: "uuid \<Rightarrow> run_store \<Rightarrow> (string \<times> string) result" where
  "ActiveRunnerLease runID s =
     (case [(rl_IP l, sn_cidr n). l \<leftarrow> rs_leases s, n \<leftarrow> db_shared_networks (rs_db s),
              rl_RunID l = runID \<and> rl_ReleasedAt l = None \<and> sn_id n = rl_SharedNetworkID l] of
        [] \<Rightarrow> Inl (Sentinel pgx_ErrNoRows)
      | x # _ \<Rightarrow> Inr x)"

definition result_count :: "uuid \<Rightarrow> (string \<Rightarrow> bool) \<Rightarrow> run_store \<Rightarrow> int" where
  "result_count runID P s = int (sql_count (\<lambda>w. wr_RunID w = runID \<and> P (wr_Status w)) (rs_results s))"

definition failed_status :: "string \<Rightarrow> bool" where
  "failed_status st \<longleftrightarrow> st = ResultStatusFail \<or> st = ResultStatusError \<or> st = ResultStatusTimeout"

definition UpdateRunCounts :: "go_error option \<Rightarrow> go_time \<Rightarrow> uuid \<Rightarrow> run_store \<Rightarrow> unit result \<times> run_store" where
  "UpdateRunCounts flt now runID =
     run_tx flt (\<lambda>s. Inr ((), s\<lparr>rs_runs := sql_update (\<lambda>r. rn_ID r = runID)
       (\<lambda>r. r\<lparr>rn_TotalWorkflows := result_count runID (\<lambda>_. True) s,
               rn_PassedWorkflows := result_count runID (\<lambda>st. st = ResultStatusPass) s,
               rn_FailedWorkflows := result_count runID failed_status s, rn_UpdatedAt := now\<rparr>) (rs_runs s)\<rparr>))"

definition stale_run :: "go_time \<Rightarrow> go_time \<Rightarrow> run_row \<Rightarrow> bool" where
  "stale_run now maxAge r \<longleftrightarrow> (rn_Status r = RunStatusProvisioning \<or> rn_Status r = RunStatusRunning) \<and>
     (case rn_StartedAt r of None \<Rightarrow> False | Some t \<Rightarrow> t < now - maxAge)"

definition FindStaleRuns :: "go_error option \<Rightarrow> go_time \<Rightarrow> go_time \<Rightarrow> run_store \<Rightarrow> run_row list result" where
  "FindStaleRuns flt now maxAge s =
     (case flt of Some e \<Rightarrow> Inl (Errorf ''find stale runs'' [e]) | None \<Rightarrow> Inr (filter (stale_run now maxAge) (rs_runs s)))"

definition GetWorkflowsForPlaylist :: "go_error option \<Rightarrow> uuid \<Rightarrow> run_store \<Rightarrow> workflow_row list result" where
  "GetWorkflowsForPlaylist flt playlistID s =
     (case flt of
        Some e \<Rightarrow> Inl (Errorf ''get workflows for playlist'' [e])
      | None \<Rightarrow> Inr (map snd (sort_key fst
          [(ord, w). (p, wid, ord) \<leftarrow> rs_playlist_workflows s, w \<leftarrow> rs_workflows s,
             p = playlistID \<and> wf_ID w = wid \<and> wf_IsActive w \<and> wf_Status w = ''active''])))"

definition GetLatestWorkflowVersion :: "uuid \<Rightarrow> run_store \<Rightarrow> int" where
  "GetLatestWorkflowVersion workflowID s =
     foldr max (map wv_Version (filter (\<lambda>v. wv_WorkflowID v = workflowID) (rs_versions s))) 0"

text \<open>\<open>CreateWorkflowVersion\<close>: the pair of workflow and version is unique in its table.\<close>

definition CreateWorkflowVersion :: "go_error option \<Rightarrow> version_row \<Rightarrow> run_store \<Rightarrow> unit result \<times> run_store" where
  "CreateWorkflowVersion flt wv =
     run_tx flt (\<lambda>s.
       if \<exists>v \<in> set (rs_versions s). wv_WorkflowID v = wv_WorkflowID wv \<and> wv_Version v = wv_Version wv
       then Inl (errorsNew ''duplicate key value violates unique constraint'')
       else Inr ((), s\<lparr>rs_versions := rs_versions s @ [wv]\<rparr>))"

definition InsertWorkflowResult :: "go_error option \<Rightarrow> result_row \<Rightarrow> run_store \<Rightarrow> unit result \<times> run_store" where
  "InsertWorkflowResult flt wr = run_tx flt (\<lambda>s. Inr ((), s\<lparr>rs_results := rs_results s @ [wr]\<rparr>))"

definition unfinished :: "uuid \<Rightarrow> result_row \<Rightarrow> bool" where
  "unfinished runID w \<longleftrightarrow> wr_RunID w = runID \<and> (wr_Status w = ResultStatusPending \<or> wr_Status w = ResultStatusRunning)"

definition timed_out_result :: "go_time \<Rightarrow> string \<Rightarrow> result_row \<Rightarrow> result_row" where
  "timed_out_result now msg w =
     w\<lparr>wr_Status := ResultStatusTimeout,
        wr_StudentMessage := (case wr_StudentMessage w of None \<Rightarrow> Some msg | Some m \<Rightarrow> if m = [] then Some msg else Some m),
        wr_CompletedAt := Some now\<rparr>"

definition TimeoutPendingWorkflowResults ::
  "go_error option \<Rightarrow> go_time \<Rightarrow> uuid \<Rightarrow> string \<Rightarrow> run_store \<Rightarrow> int result \<times> run_store" where
  "TimeoutPendingWorkflowResults flt now runID studentMsg =
     run_tx (map_option (\<lambda>e. Errorf ''timeout pending workflow results'' [e]) flt) (\<lambda>s.
       Inr (int (sql_count (unfinished runID) (rs_results s)),
            s\<lparr>rs_results := sql_update (unfinished runID) (timed_out_result now studentMsg) (rs_results s)\<rparr>))"

definition SetRunnerPodName :: "go_error option \<Rightarrow> go_time \<Rightarrow> uuid \<Rightarrow> string \<Rightarrow> run_store \<Rightarrow> unit result \<times> run_store" where
  "SetRunnerPodName flt now runID jobName =
     run_tx flt (\<lambda>s. Inr ((), s\<lparr>rs_runs := sql_update (\<lambda>r. rn_ID r = runID)
       (\<lambda>r. r\<lparr>rn_RunnerVMName := Some jobName, rn_UpdatedAt := now\<rparr>) (rs_runs s)\<rparr>))"

definition SetRunTarget ::
  "go_error option \<Rightarrow> go_time \<Rightarrow> uuid \<Rightarrow> uuid \<times> string \<times> string \<Rightarrow> run_store \<Rightarrow> unit result \<times> run_store" where
  "SetRunTarget flt now runID vm =
     run_tx flt (\<lambda>s. Inr ((), s\<lparr>rs_runs := sql_update (\<lambda>r. rn_ID r = runID)
       (\<lambda>r. r\<lparr>rn_TargetPodVMID := Some (fst vm), rn_TargetVMName := fst (snd vm), rn_TargetVMIP := snd (snd vm),
               rn_UpdatedAt := now\<rparr>) (rs_runs s)\<rparr>))"

text \<open>The machine that is graded: it belongs to the pod, is not gone and has an address.\<close>

definition runnable_vm :: "uuid \<Rightarrow> uuid \<Rightarrow> pod_vm \<Rightarrow> bool" where
  "runnable_vm podID podVMID v \<longleftrightarrow> pv_PodID v = podID \<and> pv_ID v = podVMID \<and>
     pv_Status v \<noteq> ''deleted'' \<and> pv_Status v \<noteq> ''error'' \<and>
     (case pv_IPAddress v of None \<Rightarrow> False | Some ip \<Rightarrow> ip \<noteq> [])"

definition vm_ip :: "pod_vm \<Rightarrow> string" where
  "vm_ip v = (case pv_IPAddress v of None \<Rightarrow> [] | Some ip \<Rightarrow> ip)"

definition with_template :: "run_store \<Rightarrow> pod_vm \<Rightarrow> bool" where
  "with_template s v \<longleftrightarrow> (\<exists>t \<in> set (db_templates (rs_db s)). tr_id t = pv_TemplateID v)"

definition GetRunnablePodVMTarget :: "uuid \<Rightarrow> uuid \<Rightarrow> run_store \<Rightarrow> pod_vm result" where
  "GetRunnablePodVMTarget podID podVMID s =
     (case find (\<lambda>v. runnable_vm podID podVMID v \<and> with_template s v) (db_pod_vms (rs_db s)) of
        None \<Rightarrow> Inl (Sentinel pgx_ErrNoRows) | Some v \<Rightarrow> Inr v)"

text \<open>\<open>GetRunTargetInfo\<close>: the machine, and the network of the pod.\<close>

definition GetRunTargetInfo :: "uuid \<Rightarrow> uuid \<Rightarrow> run_store \<Rightarrow> (pod_vm \<times> string \<times> int) result" where
  "GetRunTargetInfo podID targetPodVMID s =
     (case GetRunnablePodVMTarget podID targetPodVMID s of
        Inl e \<Rightarrow> Inl (Errorf ''get target VM'' [e])
      | Inr v \<Rightarrow>
          (case find (\<lambda>p. pd_id p = podID) (db_pods (rs_db s)) of
             None \<Rightarrow> Inl (Errorf ''get pod network'' [Sentinel pgx_ErrNoRows])
           | Some p \<Rightarrow> Inr (v, pd_subnet p, pd_vlan_id p)))"

section \<open>The queries of the callbacks\<close>

definition GetRunByCallbackToken :: "string \<Rightarrow> run_store \<Rightarrow> run_row result" where
  "GetRunByCallbackToken token s =
     (case find (\<lambda>r. rn_CallbackToken r = token) (rs_runs s) of
        None \<Rightarrow> Inl (Errorf ''get run by token'' [Sentinel pgx_ErrNoRows]) | Some r \<Rightarrow> Inr r)"

text \<open>\<open>workflow_id = (SELECT id FROM workflows WHERE slug = $2 LIMIT 1)\<close>; no workflow, no row.\<close>

definition of_slug :: "run_store \<Rightarrow> uuid \<Rightarrow> string \<Rightarrow> result_row \<Rightarrow> bool" where
  "of_slug s runID slug w \<longleftrightarrow> wr_RunID w = runID \<and>
     (case find (\<lambda>x. wf_Slug x = slug) (rs_workflows s) of None \<Rightarrow> False | Some x \<Rightarrow> wr_WorkflowID w = wf_ID x)"

text \<open>\<open>COALESCE(action_results, '[]') || $3\<close>: concatenation of arrays, a scalar counting as one element.\<close>

definition jsonb_concat :: "json option \<Rightarrow> json \<Rightarrow> json" where
  "jsonb_concat a b = JArr ((case a of None \<Rightarrow> [] | Some (JArr xs) \<Rightarrow> xs | Some x \<Rightarrow> [x]) @ [b])"

definition AppendActionResult ::
  "go_error option \<Rightarrow> go_time \<Rightarrow> uuid \<Rightarrow> string \<Rightarrow> json \<Rightarrow> run_store \<Rightarrow> unit result \<times> run_store" where
  "AppendActionResult flt now runID slug action =
     run_tx flt (\<lambda>s. Inr ((), s\<lparr>rs_results := sql_update (of_slug s runID slug)
       (\<lambda>w. w\<lparr>wr_ActionResults := Some (jsonb_concat (wr_ActionResults w) action), wr_Status := ResultStatusRunning,
               wr_StartedAt := Some (case wr_StartedAt w of None \<Rightarrow> now | Some t \<Rightarrow> t)\<rparr>) (rs_results s)\<rparr>))"

definition UpdateWorkflowResultBySlug ::
  "go_error option \<Rightarrow> go_time \<Rightarrow> uuid \<Rightarrow> string \<Rightarrow> string \<Rightarrow> string \<Rightarrow> json \<Rightarrow> json \<Rightarrow> int \<Rightarrow> run_store \<Rightarrow> unit result \<times> run_store" where
  "UpdateWorkflowResultBySlug flt now runID slug status message instructorOutput actionResults durationMs =
     run_tx flt (\<lambda>s.
       if status \<notin> {''pending'', ''running'', ''pass'', ''fail'', ''error'', ''timeout'', ''skipped'', ''cancelled''} \<and>
          sql_count (of_slug s runID slug) (rs_results s) > 0
       then Inl (errorsNew ''violates check constraint workflow_results_status_check'')
       else Inr ((), s\<lparr>rs_results := sql_update (of_slug s runID slug)
         (\<lambda>w. w\<lparr>wr_Status := status, wr_StudentMessage := (if message = [] then None else Some message),
                 wr_InstructorOutput := instructorOutput, wr_ActionResults := Some actionResults,
                 wr_DurationMs := Some durationMs, wr_CompletedAt := Some now\<rparr>) (rs_results s)\<rparr>))"

definition UpdateRunHeartbeat :: "go_error option \<Rightarrow> go_time \<Rightarrow> uuid \<Rightarrow> run_store \<Rightarrow> unit result \<times> run_store" where
  "UpdateRunHeartbeat flt now runID =
     run_tx flt (\<lambda>s. Inr ((), s\<lparr>rs_runs := sql_update (\<lambda>r. rn_ID r = runID) (\<lambda>r. r\<lparr>rn_UpdatedAt := now\<rparr>) (rs_runs s)\<rparr>))"

section \<open>Runner addresses\<close>

text \<open>
  \<open>LeaseRunnerIP\<close>: the insertions in the order of the addresses until one is not refused by the
  unique index on the active leases. \<open>flt\<close> is the failure of an insertion that is no such refusal.
\<close>

definition lease_taken :: "uuid \<Rightarrow> string \<Rightarrow> runner_lease \<Rightarrow> bool" where
  "lease_taken networkID ip l \<longleftrightarrow> rl_SharedNetworkID l = networkID \<and> rl_IP l = ip \<and> rl_ReleasedAt l = None"

fun lease_loop :: "(string \<Rightarrow> go_error option) \<Rightarrow> uuid \<Rightarrow> uuid \<Rightarrow> string list \<Rightarrow> runner_lease list \<Rightarrow> string result \<times> runner_lease list" where
  "lease_loop flt networkID runID [] ls = (Inl (Sentinel ErrRunnerPoolExhausted), ls)"
| "lease_loop flt networkID runID (ip # ips) ls =
     (case flt ip of
        Some e \<Rightarrow> (Inl e, ls)
      | None \<Rightarrow>
          if list_ex (lease_taken networkID ip) ls then lease_loop flt networkID runID ips ls
          else (Inr ip, ls @ [\<lparr>rl_SharedNetworkID = networkID, rl_IP = ip, rl_RunID = runID, rl_ReleasedAt = None\<rparr>]))"

text \<open>Enumerating the addresses of a stripe of the catalog always ends; \<open>None\<close> stands for not ending.\<close>

definition LeaseRunnerIP ::
  "(string \<Rightarrow> go_error option) \<Rightarrow> uuid \<Rightarrow> uuid \<Rightarrow> run_store \<Rightarrow> (string result \<times> run_store) option" where
  "LeaseRunnerIP flt networkID runID s =
     (case find (\<lambda>n. sn_id n = networkID) (db_shared_networks (rs_db s)) of
        None \<Rightarrow> Some (Inl (Sentinel pgx_ErrNoRows), s)
      | Some n \<Rightarrow>
          (case find (\<lambda>st. st_VLANTag st = sn_vlan_tag n) SharedStripes of
             None \<Rightarrow> Some (Inl (errorsNew ''shared network tag is outside the stripe catalog''), s)
           | Some stripe \<Rightarrow>
               (case RunnerAddresses stripe of
                  None \<Rightarrow> None
                | Some ips \<Rightarrow>
                    (case lease_loop flt networkID runID ips (rs_leases s) of
                       (r, ls) \<Rightarrow> Some (r, s\<lparr>rs_leases := ls\<rparr>)))))"

section \<open>Starting and cancelling a run\<close>

definition HasActiveRun :: "uuid \<Rightarrow> run_store \<Rightarrow> bool" where
  "HasActiveRun podID s \<longleftrightarrow> sql_count (\<lambda>r. rn_PodID r = podID \<and> active_run r) (rs_runs s) > 0"

definition CountActiveRuns :: "run_store \<Rightarrow> nat" where
  "CountActiveRuns s = sql_count active_run (rs_runs s)"

definition CountRecentRuns :: "go_time \<Rightarrow> uuid \<Rightarrow> uuid \<Rightarrow> go_time \<Rightarrow> run_store \<Rightarrow> nat" where
  "CountRecentRuns now podID userID window s =
     sql_count (\<lambda>r. rn_PodID r = podID \<and> rn_TriggeredBy r = userID \<and> rn_CreatedAt r > now - window) (rs_runs s)"

text \<open>\<open>CreateRun\<close>: the identifier is the database's own; the callback token is unique in the table.\<close>

definition CreateRun :: "go_error option \<Rightarrow> run_row \<Rightarrow> run_store \<Rightarrow> unit result \<times> run_store" where
  "CreateRun flt run =
     run_tx flt (\<lambda>s.
       if \<exists>r \<in> set (rs_runs s). rn_ID r = rn_ID run \<or> rn_CallbackToken r = rn_CallbackToken run
       then Inl (errorsNew ''duplicate key value violates unique constraint'')
       else Inr ((), s\<lparr>rs_runs := rs_runs s @ [run]\<rparr>))"

text \<open>
  A request of the API, and what the handler gets from outside: the failures of its queries, the
  clock, the random token, and whether the playlist is offered for the machine
  (\<open>PlaylistOfferedForPodVM\<close>). The handlers answer with an HTTP status.
\<close>

record run_request =
  rq_PlaylistID :: "uuid option"
  rq_TargetPodVMID :: "uuid option"
  rq_WorkflowIDs :: "uuid list"

record run_env =
  rv_now :: go_time
  rv_newID :: uuid
  rv_token :: string
  rv_flt :: "string \<Rightarrow> go_error option"
  rv_lease_flt :: "string \<Rightarrow> go_error option"
  rv_offered :: "bool result"

abbreviation maxConcurrentRuns :: nat where "maxConcurrentRuns \<equiv> 14"

definition new_run :: "run_env \<Rightarrow> uuid \<Rightarrow> uuid \<Rightarrow> uuid option \<Rightarrow> pod_vm \<Rightarrow> run_row" where
  "new_run env podID userID playlistID v =
     \<lparr>rn_ID = rv_newID env, rn_PodID = podID, rn_PlaylistID = playlistID, rn_TriggeredBy = userID,
      rn_RunnerVMName = None, rn_TargetPodVMID = Some (pv_ID v), rn_TargetVMName = pv_DisplayName v,
      rn_TargetVMIP = vm_ip v, rn_CallbackToken = rv_token env, rn_Status = RunStatusPending, rn_TotalWorkflows = 0,
      rn_PassedWorkflows = 0, rn_FailedWorkflows = 0, rn_ErrorMessage = None, rn_StartedAt = None,
      rn_CompletedAt = None, rn_CreatedAt = rv_now env, rn_UpdatedAt = rv_now env\<rparr>"

text \<open>The reservation of a runner address for a run on a shared network, right after its insertion.\<close>

definition reserve_runner :: "run_env \<Rightarrow> pod_row \<Rightarrow> uuid \<Rightarrow> run_store \<Rightarrow> (nat \<times> run_store) option" where
  "reserve_runner env pod runID s =
     (if pd_network_mode pod \<noteq> ''shared'' then Some (202, s)
      else
        (case pd_shared_network_id pod of
           None \<Rightarrow> Some (409, snd (UpdateRunStatus (rv_flt env ''UpdateRunStatus'') (rv_flt env ''ReleaseRunnerLease'')
                     (rv_now env) runID RunStatusFailed (Some ''Single VM network is not ready'') s))
         | Some networkID \<Rightarrow>
             (case LeaseRunnerIP (rv_lease_flt env) networkID runID s of
                None \<Rightarrow> None
              | Some (Inr _, s') \<Rightarrow> Some (202, s')
              | Some (Inl e, s') \<Rightarrow>
                  Some (if errorsIs e ErrRunnerPoolExhausted then 503 else 500,
                    snd (UpdateRunStatus (rv_flt env ''UpdateRunStatus'') (rv_flt env ''ReleaseRunnerLease'')
                      (rv_now env) runID RunStatusFailed (Some ''could not reserve a runner address'') s')))))"

definition CreateTestingRun ::
  "run_env \<Rightarrow> uuid \<Rightarrow> uuid \<Rightarrow> string \<Rightarrow> run_request option \<Rightarrow> run_store \<Rightarrow> (nat \<times> run_store) option" where
  "CreateTestingRun env podID userID role req s =
     (if rv_flt env ''GetPodByID'' \<noteq> None then Some (500, s) else
      case find (\<lambda>p. pd_id p = podID) (db_pods (rs_db s)) of None \<Rightarrow> Some (404, s) | Some pod \<Rightarrow>
      if pd_user_id pod \<noteq> userID \<and> role \<noteq> ''admin'' then Some (403, s) else
      case req of None \<Rightarrow> Some (400, s) | Some rq \<Rightarrow>
      case rq_PlaylistID rq of None \<Rightarrow> Some (400, s) | Some playlistID \<Rightarrow>
      case rq_TargetPodVMID rq of None \<Rightarrow> Some (400, s) | Some vmID \<Rightarrow>
      if rv_flt env ''GetRunnablePodVMTarget'' \<noteq> None then Some (500, s) else
      case GetRunnablePodVMTarget podID vmID s of Inl _ \<Rightarrow> Some (400, s) | Inr v \<Rightarrow>
      case rv_offered env of Inl _ \<Rightarrow> Some (500, s) | Inr offered \<Rightarrow>
      if \<not> offered then Some (400, s) else
      if rv_flt env ''HasActiveRun'' \<noteq> None then Some (500, s) else
      if HasActiveRun podID s then Some (409, s) else
      if rv_flt env ''CountActiveRuns'' \<noteq> None then Some (500, s) else
      if CountActiveRuns s \<ge> maxConcurrentRuns then Some (503, s) else
      if rv_flt env ''CountRecentRuns'' \<noteq> None then Some (500, s) else
      if CountRecentRuns (rv_now env) podID userID (seconds 3600) s \<ge> 3 then Some (429, s) else
      case CreateRun (rv_flt env ''CreateRun'') (new_run env podID userID (Some playlistID) v) s of
        (Inl _, s') \<Rightarrow> Some (500, s')
      | (Inr _, s') \<Rightarrow> reserve_runner env pod (rv_newID env) s')"

definition CancelTestingRun ::
  "run_env \<Rightarrow> uuid \<Rightarrow> uuid \<Rightarrow> uuid \<Rightarrow> string \<Rightarrow> string \<Rightarrow> run_store \<Rightarrow> nat \<times> run_store" where
  "CancelTestingRun env podID runID userID role username s =
     (if rv_flt env ''GetPodByID'' \<noteq> None then (500, s) else
      case find (\<lambda>p. pd_id p = podID) (db_pods (rs_db s)) of None \<Rightarrow> (404, s) | Some pod \<Rightarrow>
      if pd_user_id pod \<noteq> userID \<and> role \<noteq> ''admin'' then (403, s) else
      if rv_flt env ''GetRun'' \<noteq> None then (404, s) else
      case find (\<lambda>r. rn_ID r = runID) (rs_runs s) of None \<Rightarrow> (404, s) | Some run \<Rightarrow>
      if rn_PodID run \<noteq> podID then (404, s) else
      if active_run run
      then (case UpdateRunStatus (rv_flt env ''UpdateRunStatus'') (rv_flt env ''ReleaseRunnerLease'') (rv_now env) runID
                   RunStatusCancelled (Some (''Cancelled by '' @ username)) s of
              (Inl _, s') \<Rightarrow> (500, s') | (Inr _, s') \<Rightarrow> (200, s'))
      else (409, s))"

section \<open>Runner addresses are exclusive\<close>

definition active_leases :: "runner_lease list \<Rightarrow> (uuid \<times> string) list" where
  "active_leases ls = map (\<lambda>l. (rl_SharedNetworkID l, rl_IP l)) (filter (\<lambda>l. rl_ReleasedAt l = None) ls)"

lemma lease_taken_iff: "list_ex (lease_taken networkID ip) ls \<longleftrightarrow> (networkID, ip) \<in> set (active_leases ls)"
  by (auto simp: list_ex_iff lease_taken_def active_leases_def)

text \<open>What the loop does: the first address that is not taken, or none.\<close>

lemma lease_loop_spec:
  assumes "\<And>ip. ip \<in> set ips \<Longrightarrow> flt ip = None"
  shows "lease_loop flt networkID runID ips ls =
    (case find (\<lambda>ip. (networkID, ip) \<notin> set (active_leases ls)) ips of
       None \<Rightarrow> (Inl (Sentinel ErrRunnerPoolExhausted), ls)
     | Some ip \<Rightarrow> (Inr ip, ls @ [\<lparr>rl_SharedNetworkID = networkID, rl_IP = ip, rl_RunID = runID, rl_ReleasedAt = None\<rparr>]))"
  using assms by (induction ips) (auto simp: lease_taken_iff)

lemma lease_loop_cases:
  "lease_loop flt networkID runID ips ls = (r, ls') \<Longrightarrow>
     (\<exists>e. r = Inl e) \<and> ls' = ls \<or>
     (\<exists>ip \<in> set ips. r = Inr ip \<and> (networkID, ip) \<notin> set (active_leases ls) \<and>
        ls' = ls @ [\<lparr>rl_SharedNetworkID = networkID, rl_IP = ip, rl_RunID = runID, rl_ReleasedAt = None\<rparr>])"
  by (induction ips) (auto simp: lease_taken_iff split: option.splits if_splits)

lemma active_release:
  "active_leases (sql_update P (\<lambda>l. l\<lparr>rl_ReleasedAt := Some now\<rparr>) ls) =
     active_leases (filter (\<lambda>l. \<not> P l) ls)"
  by (induction ls) (auto simp: active_leases_def)

text \<open>
  The table of runs: identifiers and callback tokens are unique, no two active leases share an
  address, a run has an end exactly when it is over, and its counts add up.
\<close>

definition run_row_wf :: "run_row \<Rightarrow> bool" where
  "run_row_wf r \<longleftrightarrow>
     (terminal_run (rn_Status r) \<or> active_run r) \<and>
     (terminal_run (rn_Status r) \<longleftrightarrow> rn_CompletedAt r \<noteq> None) \<and>
     0 \<le> rn_PassedWorkflows r \<and> 0 \<le> rn_FailedWorkflows r \<and>
     rn_PassedWorkflows r + rn_FailedWorkflows r \<le> rn_TotalWorkflows r"

definition runs_wf :: "run_store \<Rightarrow> bool" where
  "runs_wf s \<longleftrightarrow> distinct (map rn_ID (rs_runs s)) \<and> distinct (map rn_CallbackToken (rs_runs s)) \<and>
     distinct (active_leases (rs_leases s)) \<and> (\<forall>r \<in> set (rs_runs s). run_row_wf r)"

lemma runs_wf_update:
  assumes "runs_wf s" "\<And>r. rn_ID (f r) = rn_ID r" "\<And>r. rn_CallbackToken (f r) = rn_CallbackToken r"
    and "\<And>r. P r \<Longrightarrow> run_row_wf r \<Longrightarrow> run_row_wf (f r)"
  shows "runs_wf (s\<lparr>rs_runs := sql_update P f (rs_runs s)\<rparr>)"
proof -
  have "map rn_ID (sql_update P f (rs_runs s)) = map rn_ID (rs_runs s)"
    "map rn_CallbackToken (sql_update P f (rs_runs s)) = map rn_CallbackToken (rs_runs s)"
    using assms(2,3) by (simp_all add: map_key_sql_update)
  then show ?thesis using assms(1,4) by (auto simp: runs_wf_def sql_update_in)
qed

lemma runs_wf_cong:
  assumes "runs_wf s" "rs_runs s' = rs_runs s" "rs_leases s' = rs_leases s"
  shows "runs_wf s'"
  using assms by (simp add: runs_wf_def)

lemma runs_wf_release:
  assumes "runs_wf s"
  shows "runs_wf (snd (ReleaseRunnerLease flt now runID s))"
  unfolding ReleaseRunnerLease_def using assms
proof (rule run_tx_preserves, goal_cases)
  case (1 x s')
  have "distinct (active_leases (filter Q ls))" if "distinct (active_leases ls)" for Q ls
    using that unfolding active_leases_def by (induction ls) auto
  with assms 1 show ?case by (auto simp: runs_wf_def active_release)
qed

lemma runs_wf_lease:
  assumes "runs_wf s" "LeaseRunnerIP flt networkID runID s = Some (r, s')"
  shows "runs_wf s'"
proof -
  have "s' = s \<or> (\<exists>ips ls. lease_loop flt networkID runID ips (rs_leases s) = (r, ls) \<and> s' = s\<lparr>rs_leases := ls\<rparr>)"
    using assms(2) unfolding LeaseRunnerIP_def by (auto split: option.splits prod.splits)
  then show ?thesis
  proof (elim disjE exE conjE)
    fix ips ls assume l: "lease_loop flt networkID runID ips (rs_leases s) = (r, ls)" and s': "s' = s\<lparr>rs_leases := ls\<rparr>"
    from lease_loop_cases [OF l] show ?thesis
      using assms(1) unfolding s' by (auto simp: runs_wf_def active_leases_def)
  qed (use assms(1) in simp)
qed

lemma terminal_not_active: "terminal_run (rn_Status r) \<Longrightarrow> \<not> active_run r"
  by (auto simp: terminal_run_def active_run_def)

lemma runs_wf_claim:
  assumes "runs_wf s"
  shows "runs_wf (snd (ClaimPendingRun flt now locked s))"
  unfolding ClaimPendingRun_def using assms
proof (rule run_tx_preserves, goal_cases)
  case (1 x s')
  then have "s' = s \<or> (\<exists>r rs. sort_key rn_CreatedAt (filter (\<lambda>r. rn_Status r = RunStatusPending \<and> rn_ID r \<notin> set locked) (rs_runs s)) = r # rs \<and>
      s' = s\<lparr>rs_runs := sql_update (\<lambda>x. rn_ID x = rn_ID r) (claimed_run now) (rs_runs s)\<rparr>)"
    by (auto split: list.splits)
  then show ?case
  proof (elim disjE exE conjE)
    fix r rs assume srt: "sort_key rn_CreatedAt (filter (\<lambda>r. rn_Status r = RunStatusPending \<and> rn_ID r \<notin> set locked) (rs_runs s)) = r # rs"
      and s': "s' = s\<lparr>rs_runs := sql_update (\<lambda>x. rn_ID x = rn_ID r) (claimed_run now) (rs_runs s)\<rparr>"
    have "r \<in> set (sort_key rn_CreatedAt (filter (\<lambda>r. rn_Status r = RunStatusPending \<and> rn_ID r \<notin> set locked) (rs_runs s)))"
      unfolding srt by simp
    then have r: "r \<in> set (rs_runs s)" "rn_Status r = RunStatusPending" by simp_all
    have only: "x = r" if "x \<in> set (rs_runs s)" "rn_ID x = rn_ID r" for x
      using assms r(1) that distinct_key_eq [of rn_ID "rs_runs s" x r] by (simp add: runs_wf_def)
    have "run_row_wf (claimed_run now r)" using assms r
      by (auto simp: runs_wf_def run_row_wf_def claimed_run_def terminal_run_def active_run_def)
    then have wf: "run_row_wf (claimed_run now y)" if "y \<in> set (rs_runs s)" "rn_ID y = rn_ID r" for y using only [OF that] by simp
    then have rows: "run_row_wf x" if "x \<in> set (sql_update (\<lambda>x. rn_ID x = rn_ID r) (claimed_run now) (rs_runs s))" for x
      using that assms by (auto simp: sql_update_in runs_wf_def)
    have "map rn_ID (sql_update (\<lambda>x. rn_ID x = rn_ID r) (claimed_run now) (rs_runs s)) = map rn_ID (rs_runs s)"
      "map rn_CallbackToken (sql_update (\<lambda>x. rn_ID x = rn_ID r) (claimed_run now) (rs_runs s)) = map rn_CallbackToken (rs_runs s)"
      by (simp_all add: map_key_sql_update claimed_run_def)
    then show ?thesis using rows assms by (simp add: s' runs_wf_def)
  qed (use assms in simp)
qed

lemma runs_wf_requeue:
  assumes "runs_wf s"
  shows "runs_wf (snd (RequeueClaimedRun flt now runID s))"
  unfolding RequeueClaimedRun_def using assms
proof (rule run_tx_preserves, goal_cases)
  case (1 x s')
  then show ?case
    by (auto simp: Let_def run_row_wf_def terminal_run_def active_run_def split: if_splits intro!: runs_wf_update [OF assms])
qed

lemma runs_wf_status:
  assumes "runs_wf s" "terminal_run st \<or> st \<in> {RunStatusPending, RunStatusProvisioning, RunStatusRunning}"
  shows "runs_wf (snd (UpdateRunStatus flt flt2 now runID st msg s))"
proof -
  have one: "runs_wf (set_run_status now runID st msg s)"
    unfolding set_run_status_def
    by (rule runs_wf_update [OF assms(1)]) (use assms(2) in \<open>auto simp: run_row_wf_def active_run_def\<close>)
  then show ?thesis using assms(1) runs_wf_release [OF one]
    by (cases flt) (simp_all add: UpdateRunStatus_def run_tx_def)
qed

lemma count_split:
  assumes "\<And>r. P r \<Longrightarrow> R r \<and> \<not> Q r" "\<And>r. Q r \<Longrightarrow> R r"
  shows "sql_count P rs + sql_count Q rs \<le> sql_count R rs"
proof (induction rs)
  case (Cons r rs)
  then show ?case using assms [of r] by (cases "P r"; cases "Q r") auto
qed simp

lemma result_counts: "result_count runID (\<lambda>st. st = ResultStatusPass) s + result_count runID failed_status s \<le> result_count runID (\<lambda>_. True) s"
proof -
  let ?c = "\<lambda>P. sql_count (\<lambda>w. wr_RunID w = runID \<and> P (wr_Status w)) (rs_results s)"
  have "?c (\<lambda>st. st = ResultStatusPass) + ?c failed_status \<le> ?c (\<lambda>_. True)"
    by (rule count_split) (auto simp: failed_status_def)
  then show ?thesis unfolding result_count_def by linarith
qed

lemma runs_wf_counts:
  assumes "runs_wf s"
  shows "runs_wf (snd (UpdateRunCounts flt now runID s))"
  unfolding UpdateRunCounts_def using assms
proof (rule run_tx_preserves, goal_cases)
  case (1 x s')
  have "0 \<le> result_count runID P s" for P by (simp add: result_count_def)
  with 1 result_counts [of runID s] show ?case
    by (auto simp: run_row_wf_def active_run_def intro!: runs_wf_update [OF assms])
qed

lemma runs_wf_name:
  assumes "runs_wf s"
  shows "runs_wf (snd (SetRunnerPodName flt now runID jobName s))" "runs_wf (snd (SetRunTarget flt now runID vm s))"
    "runs_wf (snd (UpdateRunHeartbeat flt now runID s))"
  unfolding SetRunnerPodName_def SetRunTarget_def UpdateRunHeartbeat_def
  by (rule run_tx_preserves [of runs_wf, OF assms]; auto simp: run_row_wf_def active_run_def intro!: runs_wf_update [OF assms])+

lemma runs_wf_other:
  assumes "runs_wf s"
  shows "runs_wf (snd (CreateWorkflowVersion flt wv s))" "runs_wf (snd (InsertWorkflowResult flt wr s))"
    "runs_wf (snd (TimeoutPendingWorkflowResults flt now runID msg s))"
    "runs_wf (snd (AppendActionResult flt now runID slug action s))"
    "runs_wf (snd (UpdateWorkflowResultBySlug flt now runID slug st m io ar d s))"
  unfolding CreateWorkflowVersion_def InsertWorkflowResult_def TimeoutPendingWorkflowResults_def AppendActionResult_def
    UpdateWorkflowResultBySlug_def
  by (rule run_tx_preserves [of runs_wf, OF assms]; auto split: if_splits intro: runs_wf_cong [OF assms])+

lemma runs_wf_create:
  assumes "runs_wf s" "run_row_wf run"
  shows "runs_wf (snd (CreateRun flt run s))"
  unfolding CreateRun_def using assms(1)
proof (rule run_tx_preserves, goal_cases)
  case (1 x s')
  then have "s' = s\<lparr>rs_runs := rs_runs s @ [run]\<rparr>"
    "\<forall>r \<in> set (rs_runs s). rn_ID run \<noteq> rn_ID r \<and> rn_CallbackToken run \<noteq> rn_CallbackToken r"
    by (auto split: if_splits)
  then show ?case using assms by (auto simp: runs_wf_def)
qed

lemma find_map_key:
  assumes "\<And>x. key (f x) = x"
  shows "find (\<lambda>y. key y = k) (map f xs) = (if k \<in> set xs then Some (f k) else None)"
  using assms by (induction xs) auto

lemma find_stripe:
  assumes "347 \<le> tag" "tag \<le> 355"
  shows "find (\<lambda>st. st_VLANTag st = tag) SharedStripes = Some (stripeForTag tag)"
  unfolding SharedStripes_def find_map_key [of st_VLANTag stripeForTag, OF stripe_fields(1)]
  unfolding SharedVLANTagFirst_def SharedVLANTagLast_def set_upto using assms by simp

text \<open>
  C36. A runner address of a shared network: the reservation always ends; it takes the first of the
  fourteen runner addresses of the network's stripe, in order, that no active lease of the network
  holds, and it reports exhaustion, changing nothing, exactly when active leases hold all of them.
\<close>

theorem LeaseRunnerIP_spec:
  assumes n: "find (\<lambda>n. sn_id n = networkID) (db_shared_networks (rs_db s)) = Some n" "347 \<le> sn_vlan_tag n" "sn_vlan_tag n \<le> 355"
    and flt: "\<And>ip. flt ip = None"
  shows "LeaseRunnerIP flt networkID runID s =
      Some (case find (\<lambda>ip. (networkID, ip) \<notin> set (active_leases (rs_leases s))) (stripe_runners (sn_vlan_tag n)) of
              None \<Rightarrow> (Inl (Sentinel ErrRunnerPoolExhausted), s)
            | Some ip \<Rightarrow> (Inr ip, s\<lparr>rs_leases := rs_leases s @
                 [\<lparr>rl_SharedNetworkID = networkID, rl_IP = ip, rl_RunID = runID, rl_ReleasedAt = None\<rparr>]\<rparr>)) \<and>
    (LeaseRunnerIP flt networkID runID s = Some (Inl (Sentinel ErrRunnerPoolExhausted), s) \<longleftrightarrow>
       (\<forall>ip \<in> set (stripe_runners (sn_vlan_tag n)). (networkID, ip) \<in> set (active_leases (rs_leases s)))) \<and>
    length (stripe_runners (sn_vlan_tag n)) = 14"
proof -
  let ?free = "\<lambda>ip. (networkID, ip) \<notin> set (active_leases (rs_leases s))"
  have loop: "lease_loop flt networkID runID ips (rs_leases s) =
    (case find ?free ips of
       None \<Rightarrow> (Inl (Sentinel ErrRunnerPoolExhausted), rs_leases s)
     | Some ip \<Rightarrow> (Inr ip, rs_leases s @ [\<lparr>rl_SharedNetworkID = networkID, rl_IP = ip, rl_RunID = runID, rl_ReleasedAt = None\<rparr>]))" for ips
    by (rule lease_loop_spec) (simp add: flt)
  have "LeaseRunnerIP flt networkID runID s =
      Some (case find ?free (stripe_runners (sn_vlan_tag n)) of
              None \<Rightarrow> (Inl (Sentinel ErrRunnerPoolExhausted), s)
            | Some ip \<Rightarrow> (Inr ip, s\<lparr>rs_leases := rs_leases s @
                 [\<lparr>rl_SharedNetworkID = networkID, rl_IP = ip, rl_RunID = runID, rl_ReleasedAt = None\<rparr>]\<rparr>))"
    unfolding LeaseRunnerIP_def using n find_stripe [OF n(2,3)] RunnerAddresses_stripe [OF n(2,3)] loop
    by (simp split: option.splits)
  moreover have "find ?free (stripe_runners (sn_vlan_tag n)) = None \<longleftrightarrow>
      (\<forall>ip \<in> set (stripe_runners (sn_vlan_tag n)). (networkID, ip) \<in> set (active_leases (rs_leases s)))"
    unfolding find_None_iff by blast
  moreover have "length (stripe_runners (sn_vlan_tag n)) = 14" by (simp add: stripe_runners_def)
  ultimately show ?thesis by (auto split: option.splits)
qed

text \<open>One stripe with its first runner address leased, for the witnesses.\<close>

definition lease_store :: run_store where
  "lease_store =
     \<lparr>rs_db = empty_db\<lparr>db_shared_networks := [\<lparr>sn_id = 5, sn_vlan_tag = 347, sn_cidr = ''10.110.1.0/26'', sn_gateway = [],
         sn_portgroup_name = [], sn_dhcp_start = [], sn_dhcp_end = [], sn_runner_first = [], sn_runner_last = [],
         sn_status = ''active'', sn_error_message = []\<rparr>],
         db_pods := [\<lparr>pd_id = 2, pd_status = ''active'', pd_user_id = 3, pd_vlan_id = 347, pd_subnet = [],
           pd_network_mode = ''shared'', pd_shared_network_id = Some 5, pd_expires_at = None, pd_error_message = None,
           pd_updated_at = 0\<rparr>]\<rparr>,
      rs_runs = [], rs_workflows = [], rs_playlist_workflows = [], rs_versions = [], rs_results = [],
      rs_leases = [\<lparr>rl_SharedNetworkID = 5, rl_IP = host_text 2, rl_RunID = 9, rl_ReleasedAt = None\<rparr>]\<rparr>"

theorem LeaseRunnerIP_spec_witness:
  "fst (the (LeaseRunnerIP (\<lambda>_. None) 5 8 lease_store)) = Inr (host_text 3) \<and> length (stripe_runners 347) = 14"
proof -
  have f: "find (\<lambda>n. sn_id n = 5) (db_shared_networks (rs_db lease_store)) = Some (hd (db_shared_networks (rs_db lease_store)))"
    by (simp add: lease_store_def)
  have tag: "sn_vlan_tag (hd (db_shared_networks (rs_db lease_store))) = 347" by (simp add: lease_store_def)
  have leased: "active_leases (rs_leases lease_store) = [(5, host_text 2)]" by (simp add: lease_store_def active_leases_def)
  have two: "host_text 2 \<noteq> host_text 3" by code_simp
  have runners: "stripe_runners 347 = host_text 2 # host_text 3 # map (\<lambda>k. host_text k) [4..15]"
    by (simp add: stripe_runners_def upto.simps)
  note spec = LeaseRunnerIP_spec [OF f, of "\<lambda>_. None" 8, unfolded tag leased runners]
  show ?thesis using spec two by (simp add: runners)
qed

end
