(* ===== verification/Engine.thy ===== *)
theory Engine
  imports Runs
begin

text \<open>
  The assessment engine: claiming and executing runs, the in-process dispatcher for guest scripts
  (\<open>internal/engine/vmwaretools_dispatcher.go\<close>), the timeout watchdog and the recovery at start
  (\<open>internal/engine/engine.go\<close>), and the callbacks of the runners (\<open>internal/engine/callback.go\<close>).
  Kubernetes, the guests and the failures of the queries come from an environment.
\<close>

section \<open>The last line of an output\<close>

abbreviation newline :: char where "newline \<equiv> CHR 0x0A"
abbreviation carriage_return :: char where "carriage_return \<equiv> CHR 0x0D"
abbreviation tabulator :: char where "tabulator \<equiv> CHR 0x09"

text \<open>The two trimming loops, and the inner loop that looks for the start of the line.\<close>

definition trim_end :: "string \<Rightarrow> string" where
  "trim_end l = rev (dropWhile (\<lambda>c. c = newline \<or> c = carriage_return) (rev l))"

definition trim_start :: "string \<Rightarrow> string" where
  "trim_start l = dropWhile (\<lambda>c. c = CHR '' '' \<or> c = tabulator) l"

fun line_start :: "string \<Rightarrow> nat \<Rightarrow> nat" where
  "line_start buf 0 = 0"
| "line_start buf (Suc k) = (if buf ! k \<noteq> newline then line_start buf k else Suc k)"

lemma line_start_le: "line_start buf k \<le> k"
  by (induction k) (simp_all add: le_SucI)

function last_line :: "string \<Rightarrow> nat \<Rightarrow> string" where
  "last_line buf n =
     (if n = 0 then []
      else
        let start = line_start buf (n - 1);
            line = trim_start (trim_end (take (n - start) (drop start buf)))
        in if line \<noteq> [] then line
           else
             let e1 = (if start > 0 \<and> buf ! (start - 1) = newline then start - 1 else start);
                 e2 = (if e1 > 0 \<and> buf ! (e1 - 1) = carriage_return then e1 - 1 else e1)
             in last_line buf e2)"
  by pat_completeness auto
termination
proof (relation "measure snd", goal_cases)
  case 1
  then show ?case by simp
next
  case (2 buf n start line e1 e2)
  have "start \<le> n - 1" unfolding 2(2) by (rule line_start_le)
  then show ?case using 2(1,5,6) by (auto split: if_splits)
qed

declare last_line.simps [simp del]

definition lastNonEmptyLine :: "string \<Rightarrow> string" where
  "lastNonEmptyLine buf = last_line buf (length buf)"

section \<open>The dispatcher for guest scripts\<close>

record guest_result =
  ge_ExitCode :: int
  ge_Stdout :: string
  ge_Stderr :: string
  ge_Duration :: go_time
  ge_TimedOut :: bool
  ge_Truncated :: bool

definition int_text :: "int \<Rightarrow> string" where
  "int_text i = (if i < 0 then ''-'' @ dec (nat (- i)) else dec (nat i))"

text \<open>\<open>Duration.Round(time.Second)\<close> in its text; durations of a script are never negative.\<close>

definition rounded_seconds :: "go_time \<Rightarrow> string" where
  "rounded_seconds d = int_text ((d + 500000000) div 1000000000) @ ''s''"

definition classifyGuestResult :: "guest_result option \<Rightarrow> string \<times> string" where
  "classifyGuestResult g =
     (case g of
        None \<Rightarrow> (ResultStatusError, ''no result from guest'')
      | Some g \<Rightarrow>
          if ge_TimedOut g then (ResultStatusTimeout, ''script timed out after '' @ rounded_seconds (ge_Duration g))
          else if ge_ExitCode g = 0
          then (ResultStatusPass,
                let msg = lastNonEmptyLine (ge_Stdout g) in if msg = [] then ''script exited cleanly'' else msg)
          else (ResultStatusFail,
                let err = lastNonEmptyLine (ge_Stderr g); out = lastNonEmptyLine (ge_Stdout g) in
                if err \<noteq> [] then err else if out \<noteq> [] then out
                else ''script exited with code '' @ int_text (ge_ExitCode g)))"

definition languageForOS :: "string \<Rightarrow> string option \<Rightarrow> string" where
  "languageForOS os override =
     (case override of
        Some l \<Rightarrow> if l \<noteq> [] then l
                  else if os \<in> {''windows'', ''Windows'', ''WINDOWS''} then ''powershell'' else ''bash''
      | None \<Rightarrow> if os \<in> {''windows'', ''Windows'', ''WINDOWS''} then ''powershell'' else ''bash'')"

definition workflowTimeout :: "int \<Rightarrow> go_time" where
  "workflowTimeout secs = (if secs \<le> 0 then seconds 300 else seconds secs)"

record guest_target =
  gt_VMMoref :: string
  gt_OS :: string
  gt_Username :: string
  gt_Password :: string

definition validateTarget :: "guest_target \<Rightarrow> go_error option" where
  "validateTarget t =
     (if gt_VMMoref t = [] then Some (errorsNew ''VMMoref is required'')
      else if gt_Username t = [] then Some (errorsNew ''Username is required'')
      else if gt_Password t = [] then Some (errorsNew ''Password is required'')
      else None)"

text \<open>\<open>runner.ActionOutput\<close> in JSON; the duration is written in milliseconds.\<close>

definition action_json :: "string \<Rightarrow> string \<Rightarrow> string \<Rightarrow> int \<Rightarrow> go_time \<Rightarrow> json option \<Rightarrow> json" where
  "action_json action status message exitCode duration ctx =
     JArr [JObj ([(''action'', JStr action), (''status'', JStr status), (''message'', JStr message),
                  (''exit_code'', JNum exitCode), (''duration_ms'', JNum (duration div 1000000))] @
                 (case ctx of None \<Rightarrow> [] | Some c \<Rightarrow> [(''context'', c)]))]"

definition buildActionContext :: "string \<Rightarrow> string \<Rightarrow> bool \<Rightarrow> bool \<Rightarrow> json option" where
  "buildActionContext out err timedOut truncated =
     (if out = [] \<and> err = [] \<and> \<not> timedOut \<and> \<not> truncated then None
      else Some (JObj [(''stdout'', JStr out), (''stderr'', JStr err), (''timed_out'', JBool timedOut),
                       (''truncated'', JBool truncated)]))"

text \<open>
  What an attempt gets from outside. \<open>ee_flt q i\<close> is the failure of the \<open>i\<close>-th call of query \<open>q\<close>;
  \<open>ee_guest i\<close> the answer of the guest to the \<open>i\<close>-th script with the time it took, \<open>ee_ctx i\<close> whether
  the context is cancelled before it; \<open>ee_template\<close> the operating system and the default credentials
  of a template; \<open>ee_k8s\<close> whether there is a Kubernetes client, \<open>ee_capacity\<close> its first and
  \<open>ee_provision\<close> its later answer (which counts the active runners once more).
\<close>

record engine_env =
  ee_now :: go_time
  ee_flt :: "string \<Rightarrow> nat \<Rightarrow> go_error option"
  ee_ids :: "nat \<Rightarrow> uuid"
  ee_actions :: "uuid \<Rightarrow> json"
  ee_template :: "uuid \<Rightarrow> (string \<times> string \<times> string) option"
  ee_k8s :: bool
  ee_capacity :: "go_error option"
  ee_dispatcher :: bool
  ee_ctx :: "nat \<Rightarrow> go_error option"
  ee_guest :: "nat \<Rightarrow> guest_result option result \<times> go_time"
  ee_library :: "go_error option"
  ee_provision :: "string result"

definition record_result ::
  "engine_env \<Rightarrow> nat \<Rightarrow> uuid \<Rightarrow> string \<Rightarrow> string \<Rightarrow> string \<Rightarrow> json \<Rightarrow> json \<Rightarrow> int \<Rightarrow> run_store \<Rightarrow> run_store" where
  "record_result env i runID slug status message instructorOutput actionResults durationMs s =
     snd (UpdateWorkflowResultBySlug (ee_flt env ''UpdateWorkflowResultBySlug'' i) (ee_now env) runID slug status message
            instructorOutput actionResults durationMs s)"

definition recordError :: "engine_env \<Rightarrow> nat \<Rightarrow> uuid \<Rightarrow> string \<Rightarrow> string \<Rightarrow> run_store \<Rightarrow> run_store" where
  "recordError env i runID slug message =
     record_result env i runID slug ResultStatusError message
       (JObj [(''error'', JStr message), (''execution_mode'', JStr ''vmware_tools'')])
       (action_json slug ResultStatusError message 0 0 None) 0"

definition recordCancelled :: "engine_env \<Rightarrow> nat \<Rightarrow> uuid \<Rightarrow> string \<Rightarrow> run_store \<Rightarrow> run_store" where
  "recordCancelled env i runID slug =
     record_result env i runID slug ResultStatusCancelled ''run cancelled''
       (JObj [(''cancelled'', JBool True), (''execution_mode'', JStr ''vmware_tools'')])
       (action_json slug ResultStatusCancelled ''run cancelled before vmware_tools workflow executed'' 0 0 None) 0"

definition recordWorkflowResult ::
  "engine_env \<Rightarrow> nat \<Rightarrow> uuid \<Rightarrow> workflow_row \<Rightarrow> string \<Rightarrow> string \<Rightarrow> guest_result option \<Rightarrow> go_time \<Rightarrow> run_store \<Rightarrow> run_store" where
  "recordWorkflowResult env i runID w status message guest duration =
     (let g = (case guest of
                 None \<Rightarrow> \<lparr>ge_ExitCode = 0, ge_Stdout = [], ge_Stderr = [], ge_Duration = 0, ge_TimedOut = False, ge_Truncated = False\<rparr>
               | Some g \<Rightarrow> g) in
      record_result env i runID (wf_Slug w) status message
        (JObj [(''execution_mode'', JStr ''vmware_tools''),
               (''vm_moref'', JStr (case wf_TargetVM w of None \<Rightarrow> [] | Some m \<Rightarrow> m)), (''exit_code'', JNum (ge_ExitCode g)),
               (''timed_out'', JBool (ge_TimedOut g)), (''truncated'', JBool (ge_Truncated g)),
               (''stdout_bytes'', JNum (int (length (ge_Stdout g)))), (''stderr_bytes'', JNum (int (length (ge_Stderr g))))])
        (action_json (wf_Slug w) status message (ge_ExitCode g) duration
           (buildActionContext (ge_Stdout g) (ge_Stderr g) (ge_TimedOut g) (ge_Truncated g)))
        (duration div 1000000))"

definition runOne :: "engine_env \<Rightarrow> nat \<Rightarrow> uuid \<Rightarrow> workflow_row \<Rightarrow> run_store \<Rightarrow> run_store" where
  "runOne env i runID w s =
     (case ee_guest env i of
        (Inl e, _) \<Rightarrow> recordError env i runID (wf_Slug w) (''guest exec failed: '' @ errorText e) s
      | (Inr g, duration) \<Rightarrow>
          let (status, message) = classifyGuestResult g in
          recordWorkflowResult env i runID w status message g duration s)"

fun cancel_rest :: "engine_env \<Rightarrow> uuid \<Rightarrow> (nat \<times> workflow_row) list \<Rightarrow> run_store \<Rightarrow> run_store" where
  "cancel_rest env runID [] s = s"
| "cancel_rest env runID ((i, w) # rest) s = cancel_rest env runID rest (recordCancelled env i runID (wf_Slug w) s)"

fun dispatch_loop :: "engine_env \<Rightarrow> uuid \<Rightarrow> (nat \<times> workflow_row) list \<Rightarrow> run_store \<Rightarrow> go_error option \<times> run_store" where
  "dispatch_loop env runID [] s =
     (None, snd (UpdateRunCounts (ee_flt env ''UpdateRunCounts'' 1) (ee_now env) runID s))"
| "dispatch_loop env runID ((i, w) # rest) s =
     (case ee_ctx env i of
        Some e \<Rightarrow> (Some e, cancel_rest env runID ((i, w) # rest) s)
      | None \<Rightarrow> dispatch_loop env runID rest (runOne env i runID w s))"

definition numbered :: "'a list \<Rightarrow> (nat \<times> 'a) list" where
  "numbered xs = zip [0..<length xs] xs"

definition Dispatch ::
  "engine_env \<Rightarrow> uuid \<Rightarrow> workflow_row list \<Rightarrow> guest_target \<Rightarrow> run_store \<Rightarrow> go_error option \<times> run_store" where
  "Dispatch env runID workflows target s =
     (case validateTarget target of
        Some e \<Rightarrow> (Some (Errorf ''validate target'' [e]),
          fold (\<lambda>(i, w). recordError env i runID (wf_Slug w) (''target invalid: '' @ errorText e)) (numbered workflows) s)
      | None \<Rightarrow> dispatch_loop env runID (numbered workflows) s)"

section \<open>Executing a run\<close>

text \<open>\<open>GetVMwareToolsTarget\<close>: the generated credentials win over the defaults of the template.\<close>

definition GetVMwareToolsTarget :: "engine_env \<Rightarrow> uuid \<Rightarrow> uuid \<Rightarrow> run_store \<Rightarrow> guest_target result" where
  "GetVMwareToolsTarget env podID targetPodVMID s =
     (case ee_flt env ''GetVMwareToolsTarget'' 0 of
        Some e \<Rightarrow> Inl (Errorf ''get vmware_tools target'' [e])
      | None \<Rightarrow>
          (case find (\<lambda>v. pv_PodID v = podID \<and> pv_ID v = targetPodVMID \<and> pv_Status v \<noteq> ''deleted'' \<and>
                         pv_Status v \<noteq> ''error'' \<and> ee_template env (pv_TemplateID v) \<noteq> None) (db_pod_vms (rs_db s)) of
             None \<Rightarrow> Inl (Errorf ''get vmware_tools target'' [Sentinel pgx_ErrNoRows])
           | Some v \<Rightarrow>
               let (os, user, pass) = (case ee_template env (pv_TemplateID v) of None \<Rightarrow> ([], [], []) | Some t \<Rightarrow> t) in
               Inr \<lparr>gt_VMMoref = (case pv_VCenterVMID v of None \<Rightarrow> [] | Some m \<Rightarrow> m), gt_OS = os,
                     gt_Username = (if pv_GeneratedUsername v \<noteq> [] then pv_GeneratedUsername v else user),
                     gt_Password = (if pv_GeneratedPassword v \<noteq> [] then pv_GeneratedPassword v else pass)\<rparr>))"

definition dispatchVMwareTools ::
  "engine_env \<Rightarrow> run_row \<Rightarrow> uuid \<Rightarrow> workflow_row list \<Rightarrow> run_store \<Rightarrow> go_error option \<times> run_store" where
  "dispatchVMwareTools env run targetPodVMID workflows s =
     (if \<not> ee_dispatcher env
      then (Some (errorsNew ''vmware_tools dispatcher not configured''),
        fold (\<lambda>(i, w). record_result env i (rn_ID run) (wf_Slug w) ResultStatusError
            ''vmware_tools execution mode not configured''
            (JObj [(''error'', JStr ''dispatcher not configured''), (''execution_mode'', JStr ''vmware_tools'')])
            (action_json (wf_Slug w) ResultStatusError ''vmware_tools execution mode not configured on this engine'' 0 0 None) 0)
          (numbered workflows) s)
      else
        (case GetVMwareToolsTarget env (rn_PodID run) targetPodVMID s of
           Inl e \<Rightarrow> (Some (Errorf ''resolve vmware_tools target'' [e]), s)
         | Inr target \<Rightarrow> Dispatch env (rn_ID run) workflows target s))"

definition finalizeRunFromCounts :: "engine_env \<Rightarrow> run_row \<Rightarrow> run_store \<Rightarrow> unit result \<times> run_store" where
  "finalizeRunFromCounts env run s =
     (case UpdateRunStatus (ee_flt env ''UpdateRunStatus'' 1) (ee_flt env ''ReleaseRunnerLease'' 1) (ee_now env) (rn_ID run)
             RunStatusCompleted None (snd (UpdateRunCounts (ee_flt env ''UpdateRunCounts'' 2) (ee_now env) (rn_ID run) s)) of
        (Inl e, s') \<Rightarrow> (Inl (Errorf ''finalize run'' [e]), s')
      | (Inr _, s') \<Rightarrow> (Inr (), s'))"

definition createVersionSnapshot :: "engine_env \<Rightarrow> nat \<Rightarrow> workflow_row \<Rightarrow> run_store \<Rightarrow> uuid result \<times> run_store" where
  "createVersionSnapshot env i w s =
     (case ee_flt env ''GetLatestWorkflowVersion'' i of
        Some e \<Rightarrow> (Inl e, s)
      | None \<Rightarrow>
          (case CreateWorkflowVersion (ee_flt env ''CreateWorkflowVersion'' i)
                  \<lparr>wv_ID = ee_ids env (2 * i), wv_WorkflowID = wf_ID w, wv_Version = GetLatestWorkflowVersion (wf_ID w) s + 1,
                   wv_Script = wf_Script w, wv_Actions = ee_actions env (wf_ID w), wv_CreatedBy = wf_CreatedBy w\<rparr> s of
             (Inl e, s') \<Rightarrow> (Inl e, s')
           | (Inr _, s') \<Rightarrow> (Inr (ee_ids env (2 * i)), s')))"

definition pending_result :: "engine_env \<Rightarrow> nat \<Rightarrow> uuid \<Rightarrow> workflow_row \<Rightarrow> uuid \<Rightarrow> result_row" where
  "pending_result env i runID w versionID =
     \<lparr>wr_ID = ee_ids env (2 * i + 1), wr_RunID = runID, wr_WorkflowID = wf_ID w, wr_WorkflowVersionID = Some versionID,
      wr_ExecutionOrder = i, wr_ExecutionMode = wf_ExecutionMode w, wr_Status = ResultStatusPending, wr_StudentMessage = None,
      wr_InstructorOutput = JObj [], wr_ActionResults = None, wr_DurationMs = None, wr_StartedAt = None, wr_CompletedAt = None\<rparr>"

fun prepare_workflows :: "engine_env \<Rightarrow> uuid \<Rightarrow> (nat \<times> workflow_row) list \<Rightarrow> run_store \<Rightarrow> unit result \<times> run_store" where
  "prepare_workflows env runID [] s = (Inr (), s)"
| "prepare_workflows env runID ((i, w) # rest) s =
     (case ee_flt env ''GetActionsForWorkflow'' i of
        Some e \<Rightarrow> (Inl (Errorf ''load actions for workflow'' [e]), s)
      | None \<Rightarrow>
          (case createVersionSnapshot env i w s of
             (Inl e, s1) \<Rightarrow> (Inl (Errorf ''create version'' [e]), s1)
           | (Inr versionID, s1) \<Rightarrow>
               (case InsertWorkflowResult (ee_flt env ''InsertWorkflowResult'' i) (pending_result env i runID w versionID) s1 of
                  (Inl e, s2) \<Rightarrow> (Inl (Errorf ''insert workflow result'' [e]), s2)
                | (Inr _, s2) \<Rightarrow> prepare_workflows env runID rest s2)))"

text \<open>\<open>fault env q msg\<close> is the wrapped failure of a read, if it fails.\<close>

definition fault :: "engine_env \<Rightarrow> string \<Rightarrow> string \<Rightarrow> 'a result \<Rightarrow> 'a result" where
  "fault env q msg r =
     (case ee_flt env q 0 of Some e \<Rightarrow> Inl (Errorf msg [e]) | None \<Rightarrow> (case r of Inl e \<Rightarrow> Inl (Errorf msg [e]) | Inr x \<Rightarrow> Inr x))"

text \<open>The part that starts a runner for the workflows that need one.\<close>

definition start_runner :: "engine_env \<Rightarrow> run_row \<Rightarrow> uuid \<Rightarrow> run_store \<Rightarrow> unit result \<times> run_store" where
  "start_runner env run targetPodVMID s =
     (case fault env ''GetPodVLANTag'' ''get pod VLAN tag'' (GetPodVLANTag (rn_PodID run) s) of Inl e \<Rightarrow> (Inl e, s) | Inr vlanTag \<Rightarrow>
     (case fault env ''GetPodNetworkMode'' ''get pod network mode'' (GetPodNetworkMode (rn_PodID run) s) of Inl e \<Rightarrow> (Inl e, s) | Inr mode \<Rightarrow>
     (case (if mode = ''shared'' then fault env ''ActiveRunnerLease'' ''runner lease'' (ActiveRunnerLease (rn_ID run) s)
            else Inr ([], [])) of Inl e \<Rightarrow> (Inl e, s) | Inr lease \<Rightarrow>
     (case fault env ''GetRunTargetInfo'' ''get target info'' (GetRunTargetInfo (rn_PodID run) targetPodVMID s) of
        Inl e \<Rightarrow> (Inl e, s)
      | Inr (v, _) \<Rightarrow>
          let s1 = snd (SetRunTarget (ee_flt env ''SetRunTarget'' 0) (ee_now env) (rn_ID run) (pv_ID v, pv_DisplayName v, vm_ip v) s) in
          (case fault env ''ListRunnerLibraryActions'' ''list library actions'' (Inr ()) of Inl e \<Rightarrow> (Inl e, s1) | Inr _ \<Rightarrow>
          (case ee_library env of
             Some e \<Rightarrow> (Inl (Errorf ''build action library'' [e]), s1)
           | None \<Rightarrow>
               (case ee_provision env of
                  Inl e \<Rightarrow> (Inl (Errorf ''provision runner'' [e]), s1)
                | Inr jobName \<Rightarrow>
                    (Inr (), snd (SetRunnerPodName (ee_flt env ''SetRunnerPodName'' 0) (ee_now env) (rn_ID run) jobName s1)))))))))"

text \<open>The workflows by their mode: guest scripts in process, the others on a runner.\<close>

definition dispatch_all :: "engine_env \<Rightarrow> run_row \<Rightarrow> uuid \<Rightarrow> workflow_row list \<Rightarrow> run_store \<Rightarrow> unit result \<times> run_store" where
  "dispatch_all env run targetPodVMID workflows s =
     (let guests = filter (\<lambda>w. wf_ExecutionMode w = ''vmware_tools'') workflows;
          kali = filter (\<lambda>w. wf_ExecutionMode w \<noteq> ''vmware_tools'') workflows;
          s1 = (if guests = [] then s else snd (dispatchVMwareTools env run targetPodVMID guests s))
      in if kali = [] then finalizeRunFromCounts env run s1
         else if ee_k8s env then start_runner env run targetPodVMID s1
         else (Inr (), s1))"

text \<open>The rows of the results, the transition to running, and the dispatch.\<close>

definition begin_run :: "engine_env \<Rightarrow> run_row \<Rightarrow> uuid \<Rightarrow> workflow_row list \<Rightarrow> run_store \<Rightarrow> unit result \<times> run_store" where
  "begin_run env run targetPodVMID workflows s =
     (case prepare_workflows env (rn_ID run) (numbered workflows) s of
        (Inl e, s1) \<Rightarrow> (Inl e, s1)
      | (Inr _, s1) \<Rightarrow>
          (case UpdateRunStatus (ee_flt env ''UpdateRunStatus'' 0) None (ee_now env) (rn_ID run) RunStatusRunning None
                  (snd (UpdateRunCounts (ee_flt env ''UpdateRunCounts'' 0) (ee_now env) (rn_ID run) s1)) of
             (Inl e, s2) \<Rightarrow> (Inl (Errorf ''update run status to running'' [e]), s2)
           | (Inr _, s2) \<Rightarrow> dispatch_all env run targetPodVMID workflows s2))"

definition executeRun :: "engine_env \<Rightarrow> run_row \<Rightarrow> run_store \<Rightarrow> unit result \<times> run_store" where
  "executeRun env run s =
     (case (if ee_k8s env then ee_capacity env else None) of
        Some e \<Rightarrow> (Inl e, s)
      | None \<Rightarrow>
          (case rn_PlaylistID run of
             None \<Rightarrow> (Inl (errorsNew ''run has no playlist''), s)
           | Some playlistID \<Rightarrow>
               (case rn_TargetPodVMID run of
                  None \<Rightarrow> (Inl (errorsNew ''run has no target_pod_vm_id''), s)
                | Some targetPodVMID \<Rightarrow>
                    (case GetWorkflowsForPlaylist (ee_flt env ''GetWorkflowsForPlaylist'' 0) playlistID s of
                       Inl e \<Rightarrow> (Inl (Errorf ''load workflows'' [e]), s)
                     | Inr workflows \<Rightarrow>
                         if workflows = [] then (Inl (errorsNew ''playlist has no active workflows''), s)
                         else begin_run env run targetPodVMID workflows s))))"

definition fail_run :: "engine_env \<Rightarrow> uuid \<Rightarrow> go_error \<Rightarrow> run_store \<Rightarrow> run_store" where
  "fail_run env runID e s =
     snd (UpdateRunStatus (ee_flt env ''UpdateRunStatus'' 2) (ee_flt env ''ReleaseRunnerLease'' 2) (ee_now env) runID RunStatusFailed
            (Some (errorText e)) s)"

section \<open>The watchdog and the recovery at start\<close>

text \<open>\<open>checkForTimeouts\<close>; \<open>diag\<close> is what Kubernetes still knows of a runner.\<close>

definition timeout_run :: "engine_env \<Rightarrow> (uuid \<Rightarrow> string) \<Rightarrow> run_row \<Rightarrow> run_store \<Rightarrow> run_store" where
  "timeout_run env diag run s =
     (let msg = ''Run timed out after 10 minutes'' @
                (if diag (rn_ID run) \<noteq> [] then ''. Runner state at timeout: '' @ diag (rn_ID run) else []);
          s1 = snd (UpdateRunStatus (ee_flt env ''UpdateRunStatus'' 0) (ee_flt env ''ReleaseRunnerLease'' 0) (ee_now env)
                      (rn_ID run) RunStatusTimeout (Some msg) s)
      in case TimeoutPendingWorkflowResults (ee_flt env ''TimeoutPendingWorkflowResults'' 0) (ee_now env) (rn_ID run) msg s1 of
           (Inl _, s2) \<Rightarrow> s2
         | (Inr n, s2) \<Rightarrow>
             if n > 0 then snd (UpdateRunCounts (ee_flt env ''UpdateRunCounts'' 0) (ee_now env) (rn_ID run) s2) else s2)"

definition checkForTimeouts :: "engine_env \<Rightarrow> (uuid \<Rightarrow> string) \<Rightarrow> run_store \<Rightarrow> run_store" where
  "checkForTimeouts env diag s =
     (case FindStaleRuns (ee_flt env ''FindStaleRuns'' 0) (ee_now env) (seconds 600) s of
        Inl _ \<Rightarrow> s
      | Inr stale \<Rightarrow> fold (timeout_run env diag) stale s)"

definition RecoverStaleRuns :: "engine_env \<Rightarrow> run_store \<Rightarrow> unit result \<times> run_store" where
  "RecoverStaleRuns env s =
     (case FindStaleRuns (ee_flt env ''FindStaleRuns'' 0) (ee_now env) (seconds 600) s of
        Inl e \<Rightarrow> (Inl (Errorf ''find stale runs'' [e]), s)
      | Inr stale \<Rightarrow>
          (Inr (), fold (\<lambda>run. snd \<circ> UpdateRunStatus (ee_flt env ''UpdateRunStatus'' 0) (ee_flt env ''ReleaseRunnerLease'' 0)
             (ee_now env) (rn_ID run) RunStatusFailed
             (Some ''Engine restarted - run was orphaned and has been marked as failed'')) stale s))"

section \<open>Callbacks\<close>

text \<open>A callback carries a token and a payload; \<open>None\<close> is a body that does not decode.\<close>

definition with_token :: "engine_env \<Rightarrow> string \<Rightarrow> (run_row \<Rightarrow> run_store \<Rightarrow> nat \<times> run_store) \<Rightarrow> run_store \<Rightarrow> nat \<times> run_store" where
  "with_token env token handler s =
     (if token = [] then (401, s)
      else if ee_flt env ''GetRunByCallbackToken'' 0 \<noteq> None then (401, s)
      else (case GetRunByCallbackToken token s of Inl _ \<Rightarrow> (401, s) | Inr run \<Rightarrow> handler run s))"

definition handleAction :: "engine_env \<Rightarrow> string \<Rightarrow> (string \<times> json) option \<Rightarrow> run_store \<Rightarrow> nat \<times> run_store" where
  "handleAction env token payload =
     with_token env token (\<lambda>run s.
       case payload of None \<Rightarrow> (400, s)
       | Some (slug, action) \<Rightarrow>
           (case AppendActionResult (ee_flt env ''AppendActionResult'' 0) (ee_now env) (rn_ID run) slug action s of
              (Inl _, s') \<Rightarrow> (500, s') | (Inr _, s') \<Rightarrow> (200, s')))"

record workflow_report =
  rp_Slug :: string
  rp_Status :: string
  rp_Message :: string
  rp_Actions :: "json list"
  rp_Setup :: "json option"
  rp_DurationMs :: int

definition handleWorkflow :: "engine_env \<Rightarrow> string \<Rightarrow> workflow_report option \<Rightarrow> run_store \<Rightarrow> nat \<times> run_store" where
  "handleWorkflow env token payload =
     with_token env token (\<lambda>run s.
       case payload of None \<Rightarrow> (400, s)
       | Some r \<Rightarrow>
           (case UpdateWorkflowResultBySlug (ee_flt env ''UpdateWorkflowResultBySlug'' 0) (ee_now env) (rn_ID run) (rp_Slug r)
                   (rp_Status r) (rp_Message r)
                   (JObj [(''action_count'', JNum (int (length (rp_Actions r)))),
                          (''setup'', case rp_Setup r of None \<Rightarrow> JNull | Some j \<Rightarrow> j)])
                   (JArr (rp_Actions r)) (rp_DurationMs r) s of
              (Inl _, s') \<Rightarrow> (500, s')
            | (Inr _, s') \<Rightarrow> (200, snd (UpdateRunCounts (ee_flt env ''UpdateRunCounts'' 0) (ee_now env) (rn_ID run) s'))))"

definition handleComplete :: "engine_env \<Rightarrow> string \<Rightarrow> string option \<Rightarrow> run_store \<Rightarrow> nat \<times> run_store" where
  "handleComplete env token payload =
     with_token env token (\<lambda>run s.
       case payload of None \<Rightarrow> (400, s)
       | Some status \<Rightarrow>
           (case UpdateRunStatus (ee_flt env ''UpdateRunStatus'' 0) (ee_flt env ''ReleaseRunnerLease'' 0) (ee_now env) (rn_ID run)
                   (if status = ''failed'' then RunStatusFailed else RunStatusCompleted) None s of
              (Inl _, s') \<Rightarrow> (500, s')
            | (Inr _, s') \<Rightarrow> (200, snd (UpdateRunCounts (ee_flt env ''UpdateRunCounts'' 0) (ee_now env) (rn_ID run) s'))))"

definition handleHeartbeat :: "engine_env \<Rightarrow> string \<Rightarrow> unit option \<Rightarrow> run_store \<Rightarrow> nat \<times> run_store" where
  "handleHeartbeat env token payload =
     with_token env token (\<lambda>run s.
       case payload of None \<Rightarrow> (400, s)
       | Some _ \<Rightarrow> (200, snd (UpdateRunHeartbeat (ee_flt env ''UpdateRunHeartbeat'' 0) (ee_now env) (rn_ID run) s)))"

section \<open>The line the student sees\<close>

fun lines_of :: "string \<Rightarrow> string list" where
  "lines_of [] = [[]]"
| "lines_of (c # cs) = (if c = newline then [] # lines_of cs else (c # hd (lines_of cs)) # tl (lines_of cs))"

text \<open>The reference: the last line that is not blank, without its surroundings.\<close>

definition clean :: "string \<Rightarrow> string" where
  "clean l = trim_start (trim_end l)"

definition last_or_empty :: "string list \<Rightarrow> string" where
  "last_or_empty ls = (if ls = [] then [] else last ls)"

definition last_nonblank :: "string \<Rightarrow> string" where
  "last_nonblank s = last_or_empty (filter (\<lambda>l. l \<noteq> []) (map clean (lines_of s)))"

lemma lines_of_ne [simp]: "lines_of s \<noteq> []"
  by (cases s) auto

lemma lines_of_append_newline: "lines_of (p @ newline # q) = lines_of p @ lines_of q"
  by (induction p) (auto simp: neq_Nil_conv)

lemma lines_of_single: "newline \<notin> set q \<Longrightarrow> lines_of q = [q]"
  by (induction q) auto

lemma trim_end_snoc: "c = newline \<or> c = carriage_return \<Longrightarrow> trim_end (l @ [c]) = trim_end l"
  by (auto simp: trim_end_def)

lemma clean_snoc: "c = newline \<or> c = carriage_return \<Longrightarrow> clean (l @ [c]) = clean l"
  by (simp add: clean_def trim_end_snoc)

lemma clean_Nil [simp]: "clean [] = []"
  by (simp add: clean_def trim_end_def trim_start_def)

lemma last_or_empty_snoc: "last_or_empty (filter (\<lambda>l. l \<noteq> []) (map clean (ls @ [l]))) =
    (if clean l \<noteq> [] then clean l else last_or_empty (filter (\<lambda>l. l \<noteq> []) (map clean ls)))"
  by (simp add: last_or_empty_def)

lemma lines_of_snoc: "c \<noteq> newline \<Longrightarrow> lines_of (s @ [c]) = butlast (lines_of s) @ [last (lines_of s) @ [c]]"
proof (induction s)
  case (Cons a s)
  then show ?case by (cases "lines_of s"; cases "tl (lines_of s)") auto
qed simp

lemma last_nonblank_cr: "last_nonblank (s @ [carriage_return]) = last_nonblank s"
proof -
  let ?L = "lines_of s"
  have L: "?L = butlast ?L @ [last ?L]" by simp
  have "last_nonblank s = (if clean (last ?L) \<noteq> [] then clean (last ?L)
      else last_or_empty (filter (\<lambda>l. l \<noteq> []) (map clean (butlast ?L))))"
    unfolding last_nonblank_def by (subst L) (rule last_or_empty_snoc)
  moreover have "lines_of (s @ [carriage_return]) = butlast ?L @ [last ?L @ [carriage_return]]" by (rule lines_of_snoc) simp
  ultimately show ?thesis unfolding last_nonblank_def by (simp only: last_or_empty_snoc clean_snoc [OF disjI2 [OF refl]])
qed

lemma last_nonblank_newline: "last_nonblank (p @ [newline]) = last_nonblank p"
proof -
  have "lines_of (p @ [newline]) = lines_of p @ [[]]" using lines_of_append_newline [of p "[]"] by simp
  then show ?thesis by (simp add: last_nonblank_def)
qed

lemma last_nonblank_line:
  assumes "newline \<notin> set q"
  shows "last_nonblank q = clean q" "last_nonblank (p @ newline # q) = (if clean q \<noteq> [] then clean q else last_nonblank p)"
  unfolding last_nonblank_def lines_of_append_newline lines_of_single [OF assms]
  by (simp_all only: last_or_empty_snoc) (simp add: last_or_empty_def)

text \<open>The inner loop finds the start of the line.\<close>

lemma line_start_spec:
  assumes "k \<le> length buf" "start = line_start buf k"
  shows "newline \<notin> set (take (k - start) (drop start buf))" "start > 0 \<Longrightarrow> buf ! (start - 1) = newline"
proof -
  have "newline \<notin> set (take (k - line_start buf k) (drop (line_start buf k) buf)) \<and>
      (line_start buf k > 0 \<longrightarrow> buf ! (line_start buf k - 1) = newline)"
    using assms(1)
  proof (induction k)
    case (Suc k)
    show ?case
    proof (cases "buf ! k = newline")
      case False
      have le: "line_start buf k \<le> k" by (rule line_start_le)
      then have "take (Suc k - line_start buf k) (drop (line_start buf k) buf) =
          take (k - line_start buf k) (drop (line_start buf k) buf) @ [buf ! k]"
        using Suc.prems by (simp add: Suc_diff_le take_Suc_conv_app_nth)
      then show ?thesis using Suc False by simp
    qed simp
  qed simp
  then show "newline \<notin> set (take (k - start) (drop start buf))" "start > 0 \<Longrightarrow> buf ! (start - 1) = newline"
    unfolding assms(2) by simp_all
qed

lemma take_split: "start \<le> n \<Longrightarrow> take n buf = take start buf @ take (n - start) (drop start buf)"
  by (metis le_add_diff_inverse take_add)

lemma last_line_spec: "n \<le> length buf \<Longrightarrow> last_line buf n = last_nonblank (take n buf)"
proof (induction buf n rule: last_line.induct)
  case (1 buf n)
  show ?case
  proof (cases "n = 0")
    case True
    then show ?thesis by (simp add: last_line.simps last_nonblank_def last_or_empty_def)
  next
    case False
    define start where "start = line_start buf (n - 1)"
    define seg where "seg = take (n - start) (drop start buf)"
    define e1 where "e1 = (if start > 0 \<and> buf ! (start - 1) = newline then start - 1 else start)"
    define e2 where "e2 = (if e1 > 0 \<and> buf ! (e1 - 1) = carriage_return then e1 - 1 else e1)"
    have le: "start \<le> n - 1" unfolding start_def by (rule line_start_le)
    note ls = line_start_spec [of "n - 1" buf start, OF _ start_def]
    have n: "n - 1 < length buf" "n - 1 \<le> length buf" using 1(2) False by auto
    let ?q = "take (n - 1 - start) (drop start buf)"
    have "n - start = Suc (n - 1 - start)" using le False by simp
    then have seg: "seg = ?q @ [buf ! (n - 1)]"
      unfolding seg_def using n le False by (simp add: take_Suc_conv_app_nth)
    have noq: "newline \<notin> set ?q" by (rule ls(1) [OF n(2)])
    have e1: "take start buf = (if start > 0 then take e1 buf @ [newline] else [])" "start = 0 \<Longrightarrow> e1 = 0" "e1 \<le> start"
      using ls(2) [OF n(2)] n le unfolding e1_def
      by (auto simp: take_Suc_conv_app_nth [symmetric] Suc_diff_1) (metis Suc_pred diff_le_self le_less_trans order_le_less_trans take_Suc_conv_app_nth)
    have whole: "take n buf = take start buf @ seg" unfolding seg_def using le by (intro take_split) simp
    have line: "last_nonblank (take n buf) = (if clean seg \<noteq> [] then clean seg else last_nonblank (take e1 buf))"
    proof (cases "buf ! (n - 1) = newline")
      case True
      have "last_nonblank (take n buf) = last_nonblank (take start buf @ ?q)"
        unfolding whole seg True using last_nonblank_newline [of "take start buf @ ?q"] by simp
      also have "\<dots> = (if clean ?q \<noteq> [] then clean ?q else last_nonblank (take e1 buf))"
        using last_nonblank_line(1) [OF noq] last_nonblank_line(2) [OF noq, of "take e1 buf"] e1 by (cases "start = 0") (simp_all add: last_nonblank_def last_or_empty_def)
      finally show ?thesis unfolding seg True by (simp add: clean_snoc)
    next
      case False
      then have "newline \<notin> set seg" using noq seg by simp
      then show ?thesis unfolding whole
        using last_nonblank_line(1) [of seg] last_nonblank_line(2) [of seg "take e1 buf"] e1 by (cases "start = 0") (simp_all add: last_nonblank_def last_or_empty_def)
    qed
    have "take e1 buf = take e2 buf @ (if e2 < e1 then [carriage_return] else [])"
      unfolding e2_def using n le e1(3) by (cases e1) (auto simp: take_Suc_conv_app_nth)
    then have e2: "last_nonblank (take e1 buf) = last_nonblank (take e2 buf)" by (simp add: last_nonblank_cr)
    have rec: "last_line buf n = (if clean seg \<noteq> [] then clean seg else last_line buf e2)"
      using False by (simp only: last_line.simps [of buf n] Let_def start_def [symmetric] seg_def [symmetric]
        e1_def [symmetric] e2_def [symmetric] clean_def if_False)
    have "e2 \<le> e1" by (simp add: e2_def)
    then have "e2 \<le> length buf" using e1(3) le n by linarith
    then have "last_line buf e2 = last_nonblank (take e2 buf)" if "clean seg = []"
      using that by (intro 1(1) [OF False start_def refl _ e1_def e2_def]) (simp_all add: seg_def clean_def)
    then show ?thesis unfolding rec line e2 by simp
  qed
qed

text \<open>
  C35. The line shown to the student is the last line of the output that is not blank, without
  leading blanks and tabulators and without its line ending, however lines end and however many
  blank lines follow; it is empty exactly when no line has anything else. The scan always ends.
\<close>

theorem lastNonEmptyLine_spec: "lastNonEmptyLine buf = last_nonblank buf"
  by (simp add: lastNonEmptyLine_def last_line_spec)

section \<open>What the engine keeps\<close>

text \<open>
  A relation between the tables before and after that every single statement of a dispatch satisfies
  holds of the whole dispatch.
\<close>

locale run_relation =
  fixes rel :: "run_store \<Rightarrow> run_store \<Rightarrow> bool"
  assumes rel_refl: "rel s s"
    and rel_trans: "rel s s' \<Longrightarrow> rel s' s'' \<Longrightarrow> rel s s''"
    and rel_counts: "rel s (snd (UpdateRunCounts flt now runID s))"
    and rel_target: "rel s (snd (SetRunTarget flt now runID vm s))"
    and rel_name: "rel s (snd (SetRunnerPodName flt now runID jobName s))"
    and rel_version: "rel s (snd (CreateWorkflowVersion flt wv s))"
    and rel_insert: "rel s (snd (InsertWorkflowResult flt wr s))"
    and rel_report: "rel s (snd (UpdateWorkflowResultBySlug flt now runID slug st m io ar d s))"
begin

declare rel_refl [simp]

lemma rel_fold:
  assumes "\<And>x s. rel s (f x s)"
  shows "rel s (fold f xs s)"
proof (induction xs arbitrary: s)
  case (Cons x xs)
  have "rel (f x s) (fold f xs (f x s))" by (rule Cons.IH)
  then show ?case using rel_trans [OF assms [of s x]] by simp
qed simp

lemma rel_record: "rel s (record_result env i runID slug status message io ar d s)"
  unfolding record_result_def by (rule rel_report)

lemma rel_cancel_rest: "rel s (cancel_rest env runID ws s)"
proof (induction ws arbitrary: s)
  case (Cons x ws)
  obtain i w where x: "x = (i, w)" by force
  show ?case unfolding x using rel_trans [OF rel_record Cons.IH] by (simp add: recordCancelled_def)
qed simp

lemma rel_runOne: "rel s (runOne env i runID w s)"
  unfolding runOne_def recordError_def recordWorkflowResult_def
  by (auto simp: Let_def rel_record split: prod.splits sum.splits)

lemma rel_dispatch: "rel s (snd (dispatch_loop env runID ws s))"
proof (induction ws arbitrary: s)
  case Nil
  then show ?case by (simp add: rel_counts)
next
  case (Cons x ws)
  obtain i w where x: "x = (i, w)" by force
  show ?case unfolding x using rel_trans [OF rel_runOne Cons.IH] rel_cancel_rest [of s env runID "(i, w) # ws"]
    by (simp split: option.splits)
qed

lemma rel_dispatchVMwareTools: "rel s (snd (dispatchVMwareTools env run vmID ws s))"
proof -
  have "rel s (fold (\<lambda>(i, w). record_result env i runID (wf_Slug w) st m io (ar w) d) xs s)" for xs runID st m io ar d
    by (rule rel_fold) (auto simp: rel_record split: prod.splits)
  moreover have "rel s (snd (Dispatch env runID ws target s))" for runID target
    unfolding Dispatch_def
    by (auto simp: rel_dispatch recordError_def rel_record split: option.splits prod.splits intro!: rel_fold)
  ultimately show ?thesis unfolding dispatchVMwareTools_def by (auto split: sum.splits)
qed

lemma rel_snapshot: "rel s (snd (createVersionSnapshot env i w s))"
  using rel_version unfolding createVersionSnapshot_def
  by (auto split: option.splits prod.splits sum.splits) (metis snd_conv)+

lemma rel_prepare: "rel s (snd (prepare_workflows env runID ws s))"
proof (induction ws arbitrary: s)
  case (Cons x ws)
  obtain i w where x: "x = (i, w)" by force
  show ?case
  proof (cases "createVersionSnapshot env i w s")
    case (Pair r s1)
    then have c1: "rel s s1" using rel_snapshot [of s env i w] by simp
    show ?thesis
    proof (cases r)
      case (Inl e)
      then show ?thesis unfolding x using Pair c1 by (simp split: option.splits)
    next
      case (Inr v)
      obtain r2 s2 where ins: "InsertWorkflowResult (ee_flt env ''InsertWorkflowResult'' i) (pending_result env i runID w v) s1 = (r2, s2)"
        by force
      then have c2: "rel s s2" using rel_trans [OF c1] rel_insert [of s1] by (metis snd_conv)
      show ?thesis unfolding x using Pair Inr ins c1 c2 rel_trans [OF c2 Cons.IH]
        by (cases r2) (simp_all split: option.splits)
    qed
  qed
qed simp

lemma rel_start_runner: "rel s (snd (start_runner env run vmID s))"
proof -
  have "rel s (snd (SetRunTarget f now i vm s))" "rel s (snd (SetRunnerPodName g now i j (snd (SetRunTarget f now i vm s))))"
    for f g now i j vm by (rule rel_target, rule rel_trans [OF rel_target rel_name])
  then show ?thesis unfolding start_runner_def by (auto simp: Let_def split: sum.splits prod.splits option.splits if_splits)
qed

end

text \<open>
  A step of the engine is calm when it keeps the table of runs well formed, puts no run back into
  the queue and leaves the rest of the database alone.
\<close>

definition pending_count :: "run_store \<Rightarrow> nat" where
  "pending_count s = sql_count (\<lambda>r. rn_Status r = RunStatusPending) (rs_runs s)"

definition calm :: "run_store \<Rightarrow> run_store \<Rightarrow> bool" where
  "calm s s' \<longleftrightarrow> (runs_wf s \<longrightarrow> runs_wf s') \<and> pending_count s' \<le> pending_count s \<and> rs_db s' = rs_db s"

lemma calm_refl [simp]: "calm s s"
  by (simp add: calm_def)

lemma calm_trans: "calm s s' \<Longrightarrow> calm s' s'' \<Longrightarrow> calm s s''"
  by (auto simp: calm_def)

lemma pending_update:
  assumes "\<And>r. P r \<Longrightarrow> rn_Status (f r) = RunStatusPending \<Longrightarrow> rn_Status r = RunStatusPending"
  shows "sql_count (\<lambda>r. rn_Status r = RunStatusPending) (sql_update P f rs) \<le> sql_count (\<lambda>r. rn_Status r = RunStatusPending) rs"
proof (induction rs)
  case (Cons r rs)
  then show ?case using assms [of r] by (cases "P r") auto
qed simp

lemma tx_calm:
  assumes "runs_wf s \<Longrightarrow> runs_wf (snd (run_tx flt body s))"
    and "\<And>x s'. body s = Inr (x, s') \<Longrightarrow> pending_count s' \<le> pending_count s \<and> rs_db s' = rs_db s"
  shows "calm s (snd (run_tx flt body s))"
proof -
  have "pending_count (snd (run_tx flt body s)) \<le> pending_count s \<and> rs_db (snd (run_tx flt body s)) = rs_db s"
    by (rule run_tx_preserves [where I = "\<lambda>t. pending_count t \<le> pending_count s \<and> rs_db t = rs_db s"]) (use assms(2) in auto)
  then show ?thesis using assms(1) by (simp add: calm_def)
qed

lemma calm_release: "calm s (snd (ReleaseRunnerLease flt now runID s))"
  unfolding ReleaseRunnerLease_def
  by (rule tx_calm) (use runs_wf_release [unfolded ReleaseRunnerLease_def] in \<open>auto simp: pending_count_def\<close>)

lemma calm_counts: "calm s (snd (UpdateRunCounts flt now runID s))"
  unfolding UpdateRunCounts_def
  by (rule tx_calm) (use runs_wf_counts [unfolded UpdateRunCounts_def] in \<open>auto simp: pending_count_def intro!: pending_update\<close>)

lemma calm_name:
  "calm s (snd (SetRunnerPodName flt now runID jobName s))" "calm s (snd (SetRunTarget flt now runID vm s))"
  "calm s (snd (UpdateRunHeartbeat flt now runID s))"
  unfolding SetRunnerPodName_def SetRunTarget_def UpdateRunHeartbeat_def
  by (rule tx_calm; use runs_wf_name [unfolded SetRunnerPodName_def SetRunTarget_def UpdateRunHeartbeat_def] in
      \<open>auto simp: pending_count_def intro!: pending_update\<close>)+

lemma calm_other:
  "calm s (snd (CreateWorkflowVersion flt wv s))" "calm s (snd (InsertWorkflowResult flt wr s))"
  "calm s (snd (TimeoutPendingWorkflowResults flt now runID msg s))"
  "calm s (snd (AppendActionResult flt now runID slug action s))"
  "calm s (snd (UpdateWorkflowResultBySlug flt now runID slug st m io ar d s))"
  unfolding CreateWorkflowVersion_def InsertWorkflowResult_def TimeoutPendingWorkflowResults_def AppendActionResult_def
    UpdateWorkflowResultBySlug_def
  by (rule tx_calm; use runs_wf_other [unfolded CreateWorkflowVersion_def InsertWorkflowResult_def TimeoutPendingWorkflowResults_def
      AppendActionResult_def UpdateWorkflowResultBySlug_def] in \<open>auto simp: pending_count_def split: if_splits\<close>)+

lemma calm_status:
  assumes "terminal_run st \<or> st = RunStatusRunning"
  shows "calm s (snd (UpdateRunStatus flt flt2 now runID st msg s))"
proof -
  have np: "st \<noteq> RunStatusPending" using assms by (auto simp: terminal_run_def)
  have "runs_wf (set_run_status now runID st msg s)" if "runs_wf s"
    using runs_wf_status [OF that, of st None "Some e" now runID msg] assms
    by (cases "terminal_run st") (simp_all add: UpdateRunStatus_def ReleaseRunnerLease_def)
  moreover have "pending_count (set_run_status now runID st msg s) \<le> pending_count s"
  proof -
    let ?f = "\<lambda>r. r\<lparr>rn_Status := st, rn_ErrorMessage := msg, rn_CompletedAt := (if terminal_run st then Some now else None), rn_UpdatedAt := now\<rparr>"
    have "rs_runs (set_run_status now runID st msg s) = sql_update (\<lambda>r. rn_ID r = runID) ?f (rs_runs s)"
      by (simp add: set_run_status_def)
    then show ?thesis unfolding pending_count_def by (simp only:) (rule pending_update, simp add: np)
  qed
  ultimately have one: "calm s (set_run_status now runID st msg s)" by (simp add: calm_def set_run_status_def)
  from calm_trans [OF one calm_release [of _ flt2 now runID]] one show ?thesis
    by (cases flt) (simp_all add: UpdateRunStatus_def run_tx_def)
qed

lemma calm_status_eq:
  "UpdateRunStatus flt flt2 now runID st msg s = (r, s') \<Longrightarrow> terminal_run st \<or> st = RunStatusRunning \<Longrightarrow> calm s s'"
  using calm_status [of st s flt flt2 now runID msg] by simp

interpretation calms: run_relation calm
proof
  show "calm s s''" if "calm s s'" "calm s' s''" for s s' s'' using that by (rule calm_trans)
qed (simp_all add: calm_counts calm_name calm_other)

lemma calm_finalize: "calm s (snd (finalizeRunFromCounts env run s))"
proof -
  let ?s = "snd (UpdateRunCounts (ee_flt env ''UpdateRunCounts'' 2) (ee_now env) (rn_ID run) s)"
  obtain r s' where u: "UpdateRunStatus (ee_flt env ''UpdateRunStatus'' 1) (ee_flt env ''ReleaseRunnerLease'' 1) (ee_now env)
      (rn_ID run) RunStatusCompleted None ?s = (r, s')" by force
  have "calm s s'" by (rule calm_trans [OF calm_counts calm_status_eq [OF u]]) (simp add: terminal_run_def)
  then show ?thesis unfolding finalizeRunFromCounts_def u by (cases r) simp_all
qed

lemma calm_dispatch_all: "calm s (snd (dispatch_all env run vmID ws s))"
proof -
  have "calm s (if g = [] then s else snd (dispatchVMwareTools env run vmID g s))" for g
    by (simp add: calms.rel_dispatchVMwareTools)
  then show ?thesis unfolding dispatch_all_def
    using calm_trans [OF _ calm_finalize] calm_trans [OF _ calms.rel_start_runner] by (simp add: Let_def)
qed

lemma calm_begin_run: "calm s (snd (begin_run env run vmID ws s))"
proof -
  obtain r s1 where p: "prepare_workflows env (rn_ID run) (numbered ws) s = (r, s1)" by force
  have c1: "calm s s1" using calms.rel_prepare [of s env "rn_ID run" "numbered ws"] p by simp
  let ?s2 = "snd (UpdateRunCounts (ee_flt env ''UpdateRunCounts'' 0) (ee_now env) (rn_ID run) s1)"
  obtain r2 s3 where u: "UpdateRunStatus (ee_flt env ''UpdateRunStatus'' 0) None (ee_now env) (rn_ID run) RunStatusRunning None ?s2 = (r2, s3)"
    by force
  have c3: "calm s s3" using calm_trans [OF calm_trans [OF c1 calm_counts] calm_status_eq [OF u]] by simp
  show ?thesis unfolding begin_run_def p using u c1 c3 calm_trans [OF c3 calm_dispatch_all]
    by (cases r; cases r2) simp_all
qed

lemma calm_executeRun: "calm s (snd (executeRun env run s))"
  unfolding executeRun_def by (auto simp: calm_begin_run split: option.splits sum.splits)

lemma calm_fail_run: "calm s (fail_run env runID e s)"
  unfolding fail_run_def by (rule calm_status) (simp add: terminal_run_def)

section \<open>The loop over the pending runs\<close>

lemma claim_pending:
  assumes "ClaimPendingRun flt now locked s = (Inr (Some run), s')"
  obtains r where "r \<in> set (rs_runs s)" "rn_Status r = RunStatusPending" "rn_ID r \<notin> set locked" "run = claimed_run now r"
    "s' = s\<lparr>rs_runs := sql_update (\<lambda>x. rn_ID x = rn_ID r) (claimed_run now) (rs_runs s)\<rparr>"
    "\<And>x. x \<in> set (rs_runs s) \<Longrightarrow> rn_Status x = RunStatusPending \<Longrightarrow> rn_ID x \<notin> set locked \<Longrightarrow> rn_CreatedAt r \<le> rn_CreatedAt x"
proof -
  let ?f = "filter (\<lambda>r. rn_Status r = RunStatusPending \<and> rn_ID r \<notin> set locked) (rs_runs s)"
  from assms obtain r rs where srt: "sort_key rn_CreatedAt ?f = r # rs" and res: "run = claimed_run now r"
      "s' = s\<lparr>rs_runs := sql_update (\<lambda>x. rn_ID x = rn_ID r) (claimed_run now) (rs_runs s)\<rparr>"
    unfolding ClaimPendingRun_def by (auto dest!: run_tx_InrD split: list.splits)
  have set: "set (r # rs) = set ?f" unfolding srt [symmetric] by simp
  have "sorted (map rn_CreatedAt (r # rs))" unfolding srt [symmetric] by (rule sorted_sort_key)
  then have le: "rn_CreatedAt r \<le> rn_CreatedAt x" if "x \<in> set (r # rs)" for x using that by auto
  have "r \<in> set ?f" unfolding set [symmetric] by simp
  then have r: "r \<in> set (rs_runs s)" "rn_Status r = RunStatusPending" "rn_ID r \<notin> set locked" by simp_all
  have oldest: "rn_CreatedAt r \<le> rn_CreatedAt x"
    if "x \<in> set (rs_runs s)" "rn_Status x = RunStatusPending" "rn_ID x \<notin> set locked" for x
    by (rule le) (unfold set, simp add: that)
  show ?thesis by (rule that [OF r res oldest])
qed

lemma claim_decreases:
  assumes "ClaimPendingRun flt now locked s = (Inr (Some run), s')"
  shows "pending_count s' < pending_count s"
proof -
  from assms obtain r where r: "r \<in> set (rs_runs s)" "rn_Status r = RunStatusPending"
    "s' = s\<lparr>rs_runs := sql_update (\<lambda>x. rn_ID x = rn_ID r) (claimed_run now) (rs_runs s)\<rparr>" by (rule claim_pending)
  let ?p = "\<lambda>r. rn_Status r = RunStatusPending" and ?u = "sql_update (\<lambda>x. rn_ID x = rn_ID r) (claimed_run now)"
  have le: "sql_count ?p (?u rs) \<le> sql_count ?p rs" for rs
    by (rule pending_update) (simp add: claimed_run_def)
  have "sql_count ?p (?u rs) < sql_count ?p rs" if "r \<in> set rs" for rs
    using that
  proof (induction rs)
    case (Cons x rs)
    have "\<not> ?p (claimed_run now r)" by (simp add: claimed_run_def)
    then show ?case using Cons r(2) le [of rs] claimed_run_def [of now x] by (cases "x = r") auto
  qed simp
  then show ?thesis using r(1,3) by (simp add: pending_count_def)
qed

lemma attempt_decreases:
  assumes "(Inr (Some run), s1) = ClaimPendingRun flt now locked s" "(r, s2) = executeRun env run s1"
  shows "pending_count s2 < pending_count s" "pending_count (fail_run env runID e s2) < pending_count s"
proof -
  have "calm s1 s2" using calm_executeRun [of s1 env run] assms(2) by (metis snd_conv)
  moreover have "pending_count s1 < pending_count s" using claim_decreases assms(1) by metis
  ultimately show "pending_count s2 < pending_count s" by (simp add: calm_def)
  then show "pending_count (fail_run env runID e s2) < pending_count s"
    using calm_fail_run [of s2 env runID e] by (simp add: calm_def)
qed

text \<open>
  \<open>ProcessPendingRuns\<close>: \<open>envs k\<close> is the environment of the \<open>k\<close>-th iteration, \<open>stop k\<close> whether the
  context has ended before it, \<open>locked k\<close> the rows other engines hold. Every iteration takes a run
  out of the queue, so the loop ends.
\<close>

function ProcessPendingRuns ::
  "(nat \<Rightarrow> engine_env) \<Rightarrow> (nat \<Rightarrow> bool) \<Rightarrow> (nat \<Rightarrow> uuid list) \<Rightarrow> nat \<Rightarrow> run_store \<Rightarrow> run_store" where
  "ProcessPendingRuns envs stop locked k s =
     (if stop k then s
      else
        let env = envs k in
        (case ClaimPendingRun (ee_flt env ''ClaimPendingRun'' 0) (ee_now env) (locked k) s of
           (Inl _, s1) \<Rightarrow> s1
         | (Inr None, s1) \<Rightarrow> s1
         | (Inr (Some run), s1) \<Rightarrow>
             (case executeRun env run s1 of
                (Inr _, s2) \<Rightarrow> ProcessPendingRuns envs stop locked (k + 1) s2
              | (Inl e, s2) \<Rightarrow>
                  if errorsIs e ErrRunnerAtCapacity
                  then (case RequeueClaimedRun (ee_flt env ''RequeueClaimedRun'' 0) (ee_now env) (rn_ID run) s2 of
                          (Inl _, s3) \<Rightarrow> fail_run env (rn_ID run) e s3
                        | (Inr _, s3) \<Rightarrow> s3)
                  else ProcessPendingRuns envs stop locked (k + 1) (fail_run env (rn_ID run) e s2))))"
  by pat_completeness auto
termination
  by (relation "measure (\<lambda>(envs, stop, locked, k, s). pending_count s)")
     (simp_all only: in_measure prod.case wf_measure attempt_decreases)

declare ProcessPendingRuns.simps [simp del]

text \<open>
  C33. The loop over the queue ends and drains it. As long as the context lives, no other engine holds
  a row, the claims get through and no attempt finds the runners at capacity, no pending run is left
  when \<open>ProcessPendingRuns\<close> returns, whatever else fails in the attempts.
\<close>

theorem queue_drained:
  assumes "\<And>k. \<not> stop k" "\<And>k. ee_flt (envs k) ''ClaimPendingRun'' 0 = None" "\<And>k. locked k = []"
    and "\<And>k run s e s'. executeRun (envs k) run s = (Inl e, s') \<Longrightarrow> \<not> errorsIs e ErrRunnerAtCapacity"
  shows "pending_count (ProcessPendingRuns envs stop locked k s) = 0"
  using assms
proof (induction envs stop locked k s rule: ProcessPendingRuns.induct)
  case (1 envs stop locked k s)
  obtain c s1 where claim: "ClaimPendingRun (ee_flt (envs k) ''ClaimPendingRun'' 0) (ee_now (envs k)) (locked k) s = (c, s1)"
    by force
  show ?case
  proof (cases c)
    case (Inl e)
    have "c \<noteq> Inl e" using claim 1(4,5) by (auto simp: ClaimPendingRun_def run_tx_def split: list.splits)
    with Inl show ?thesis by simp
  next
    case (Inr m)
    show ?thesis
    proof (cases m)
      case None
      have "sort_key rn_CreatedAt (filter (\<lambda>r. rn_Status r = RunStatusPending) (rs_runs s)) = [] \<and> s1 = s"
        using claim Inr None 1(4,5) by (auto simp: ClaimPendingRun_def run_tx_def split: list.splits)
      then have "filter (\<lambda>r. rn_Status r = RunStatusPending) (rs_runs s) = []" "s1 = s"
        by (metis set_empty set_sort, simp)
      then have "pending_count s1 = 0" by (simp add: pending_count_def sql_count_0_iff filter_empty_conv)
      then show ?thesis using claim Inr None 1(3) by (subst ProcessPendingRuns.simps) (simp add: Let_def)
    next
      case (Some run)
      obtain r s2 where ex: "executeRun (envs k) run s1 = (r, s2)" by force
      show ?thesis
      proof (cases r)
        case (Inl e)
        have ne: "\<not> errorsIs e ErrRunnerAtCapacity" using 1(6) ex Inl by blast
        have "pending_count (ProcessPendingRuns envs stop locked (k + 1) (fail_run (envs k) (rn_ID run) e s2)) = 0"
          by (rule 1(1) [OF 1(3) refl claim [symmetric] \<open>c = Inr m\<close> Some ex [symmetric] Inl ne 1(3-6)])
        then show ?thesis using claim Inr Some ex Inl ne 1(3) by (subst ProcessPendingRuns.simps) (simp add: Let_def)
      next
        case (Inr u)
        have "pending_count (ProcessPendingRuns envs stop locked (k + 1) s2) = 0"
          by (rule 1(2) [OF 1(3) refl claim [symmetric] \<open>c = Inr m\<close> Some ex [symmetric] Inr 1(3-6)])
        then show ?thesis using claim \<open>c = Inr m\<close> Some ex Inr 1(3) by (subst ProcessPendingRuns.simps) (simp add: Let_def)
      qed
    qed
  qed
qed

section \<open>The watchdog\<close>

text \<open>What the watchdog leaves of a run it times out.\<close>

definition run_closed :: "go_time \<Rightarrow> uuid \<Rightarrow> run_store \<Rightarrow> bool" where
  "run_closed now runID s \<longleftrightarrow>
     (\<forall>r \<in> set (rs_runs s). rn_ID r = runID \<longrightarrow> rn_Status r = RunStatusTimeout \<and> rn_CompletedAt r = Some now) \<and>
     (\<forall>w \<in> set (rs_results s). \<not> unfinished runID w) \<and>
     (\<forall>l \<in> set (rs_leases s). rl_RunID l = runID \<longrightarrow> rl_ReleasedAt l \<noteq> None)"

definition counted :: "go_time \<Rightarrow> run_store \<Rightarrow> uuid \<Rightarrow> run_row \<Rightarrow> run_row" where
  "counted now s runID r =
     r\<lparr>rn_TotalWorkflows := result_count runID (\<lambda>_. True) s, rn_PassedWorkflows := result_count runID (\<lambda>st. st = ResultStatusPass) s,
        rn_FailedWorkflows := result_count runID failed_status s, rn_UpdatedAt := now\<rparr>"

lemma timeout_run_rows:
  assumes flt: "\<And>q i. ee_flt env q i = None" and s': "s' = timeout_run env diag run s"
  shows "rs_leases s' = sql_update (\<lambda>l. rl_RunID l = rn_ID run \<and> rl_ReleasedAt l = None)
      (\<lambda>l. l\<lparr>rl_ReleasedAt := Some (ee_now env)\<rparr>) (rs_leases s)"
    "\<exists>msg. rs_results s' = sql_update (unfinished (rn_ID run)) (timed_out_result (ee_now env) msg) (rs_results s)"
    "\<exists>g. rs_runs s' = sql_update (\<lambda>r. rn_ID r = rn_ID run) g (rs_runs s) \<and>
       (\<forall>r. rn_ID (g r) = rn_ID r \<and> rn_Status (g r) = RunStatusTimeout \<and> rn_CompletedAt (g r) = Some (ee_now env))"
proof -
  let ?P = "\<lambda>r :: run_row. rn_ID r = rn_ID run" and ?now = "ee_now env"
  define msg where "msg = ''Run timed out after 10 minutes'' @
    (if diag (rn_ID run) \<noteq> [] then ''. Runner state at timeout: '' @ diag (rn_ID run) else [])"
  define f where "f = (\<lambda>r :: run_row. r\<lparr>rn_Status := RunStatusTimeout, rn_ErrorMessage := Some msg, rn_CompletedAt := Some ?now, rn_UpdatedAt := ?now\<rparr>)"
  define s2 where "s2 = snd (TimeoutPendingWorkflowResults None ?now (rn_ID run) msg
    (snd (UpdateRunStatus None None ?now (rn_ID run) RunStatusTimeout (Some msg) s)))"
  have "terminal_run RunStatusTimeout" by (simp add: terminal_run_def)
  then have s2: "rs_runs s2 = sql_update ?P f (rs_runs s)"
      "rs_leases s2 = sql_update (\<lambda>l. rl_RunID l = rn_ID run \<and> rl_ReleasedAt l = None) (\<lambda>l. l\<lparr>rl_ReleasedAt := Some ?now\<rparr>) (rs_leases s)"
      "rs_results s2 = sql_update (unfinished (rn_ID run)) (timed_out_result ?now msg) (rs_results s)"
    by (simp_all add: s2_def f_def TimeoutPendingWorkflowResults_def UpdateRunStatus_def ReleaseRunnerLease_def set_run_status_def run_tx_def)
  have "s' = s2 \<or> s' = snd (UpdateRunCounts None ?now (rn_ID run) s2)"
    unfolding s' timeout_run_def Let_def flt msg_def [symmetric] s2_def by (auto split: prod.splits sum.splits)
  then have cases: "s' = s2 \<or> s' = s2\<lparr>rs_runs := sql_update ?P (counted ?now s2 (rn_ID run)) (rs_runs s2)\<rparr>"
    unfolding counted_def UpdateRunCounts_def run_tx_def by simp
  show "rs_leases s' = sql_update (\<lambda>l. rl_RunID l = rn_ID run \<and> rl_ReleasedAt l = None) (\<lambda>l. l\<lparr>rl_ReleasedAt := Some ?now\<rparr>) (rs_leases s)"
    "\<exists>msg. rs_results s' = sql_update (unfinished (rn_ID run)) (timed_out_result ?now msg) (rs_results s)"
    using cases s2(2,3) by auto
  have twice: "sql_update ?P h (sql_update ?P f rs) = sql_update ?P (h \<circ> f) rs" for h rs
    by (induction rs) (auto simp: f_def)
  from cases show "\<exists>g. rs_runs s' = sql_update ?P g (rs_runs s) \<and>
       (\<forall>r. rn_ID (g r) = rn_ID r \<and> rn_Status (g r) = RunStatusTimeout \<and> rn_CompletedAt (g r) = Some ?now)"
  proof
    assume "s' = s2"
    then show ?thesis using s2(1) by (intro exI [of _ f]) (simp add: f_def)
  next
    assume "s' = s2\<lparr>rs_runs := sql_update ?P (counted ?now s2 (rn_ID run)) (rs_runs s2)\<rparr>"
    then show ?thesis
      by (intro exI [of _ "counted ?now s2 (rn_ID run) \<circ> f"]) (simp add: s2(1) twice, simp add: counted_def f_def)
  qed
qed

lemma timed_out_finished [simp]: "\<not> unfinished k (timed_out_result now msg w)"
  by (simp add: unfinished_def timed_out_result_def)

lemma ball_sql_update: "(\<forall>x \<in> set (sql_update P f xs). Q x) \<longleftrightarrow> (\<forall>x \<in> set xs. if P x then Q (f x) else Q x)"
  by (induction xs) auto

lemma timeout_run_closes:
  assumes "\<And>q i. ee_flt env q i = None"
  shows "run_closed (ee_now env) (rn_ID run) (timeout_run env diag run s)"
    "run_closed (ee_now env) k s \<Longrightarrow> run_closed (ee_now env) k (timeout_run env diag run s)"
    "rn_ID ` set (rs_runs (timeout_run env diag run s)) = rn_ID ` set (rs_runs s)"
    "r \<in> set (rs_runs (timeout_run env diag run s)) \<Longrightarrow> r \<in> set (rs_runs s) \<or> rn_ID r = rn_ID run"
proof -
  note rows = timeout_run_rows [OF assms refl, of diag run s]
  obtain msg where res: "rs_results (timeout_run env diag run s) = sql_update (unfinished (rn_ID run)) (timed_out_result (ee_now env) msg) (rs_results s)"
    using rows(2) by blast
  obtain g where runs: "rs_runs (timeout_run env diag run s) = sql_update (\<lambda>r. rn_ID r = rn_ID run) g (rs_runs s)"
    and g: "\<And>r. rn_ID (g r) = rn_ID r" "\<And>r. rn_Status (g r) = RunStatusTimeout" "\<And>r. rn_CompletedAt (g r) = Some (ee_now env)"
    using rows(3) by blast
  show "run_closed (ee_now env) (rn_ID run) (timeout_run env diag run s)"
    unfolding run_closed_def runs res rows(1) ball_sql_update using g by simp
  show "run_closed (ee_now env) k (timeout_run env diag run s)" if "run_closed (ee_now env) k s"
    using that unfolding run_closed_def runs res rows(1) ball_sql_update using g by simp
  have "map rn_ID (sql_update (\<lambda>r. rn_ID r = rn_ID run) g (rs_runs s)) = map rn_ID (rs_runs s)"
    by (rule map_key_sql_update) (rule g(1))
  then show "rn_ID ` set (rs_runs (timeout_run env diag run s)) = rn_ID ` set (rs_runs s)"
    unfolding runs by (metis set_map)
  show "r \<in> set (rs_runs s) \<or> rn_ID r = rn_ID run" if "r \<in> set (rs_runs (timeout_run env diag run s))"
    using that g(1) unfolding runs by (auto simp: sql_update_in)
qed

lemma watchdog_closes:
  assumes "\<And>q i. ee_flt env q i = None"
  shows "\<And>r. r \<in> set stale \<Longrightarrow> run_closed (ee_now env) (rn_ID r) (fold (timeout_run env diag) stale s)"
    "\<And>k. run_closed (ee_now env) k s \<Longrightarrow> run_closed (ee_now env) k (fold (timeout_run env diag) stale s)"
    "rn_ID ` set (rs_runs (fold (timeout_run env diag) stale s)) = rn_ID ` set (rs_runs s)"
    "\<And>r. r \<in> set (rs_runs (fold (timeout_run env diag) stale s)) \<Longrightarrow> r \<in> set (rs_runs s) \<or> rn_ID r \<in> rn_ID ` set stale"
proof (induction stale arbitrary: s)
  case (Cons run stale)
  note step = timeout_run_closes [OF assms, where run = run and diag = diag]
  {
    case (1 r)
    show ?case
    proof (cases "r = run")
      case True
      show ?thesis unfolding True using Cons(2) [OF step(1)] by simp
    next
      case False
      with 1 show ?thesis using Cons(1) [of r "timeout_run env diag run s"] by simp
    qed
  next
    case (2 k)
    then show ?case using Cons(2) [OF step(2)] by simp
  next
    case 3
    then show ?case using Cons(3) step(3) by simp
  next
    case (4 r)
    then show ?case using Cons(4) [of r "timeout_run env diag run s"] step(4) [of r s] by auto
  }
qed simp_all

text \<open>
  C34. A pass of the watchdog whose queries get through closes every run that has been provisioning or
  running for more than ten minutes: the run is timed out with an end time, none of its results is
  left pending or running, its runner address is free again, and nothing stale is left.
\<close>

theorem timeouts_close:
  assumes "\<And>q i. ee_flt env q i = None" "run \<in> set (rs_runs s)" "stale_run (ee_now env) (seconds 600) run"
  shows "run_closed (ee_now env) (rn_ID run) (checkForTimeouts env diag s) \<and>
    rn_ID run \<in> rn_ID ` set (rs_runs (checkForTimeouts env diag s)) \<and>
    FindStaleRuns None (ee_now env) (seconds 600) (checkForTimeouts env diag s) = Inr []"
proof -
  let ?stale = "filter (stale_run (ee_now env) (seconds 600)) (rs_runs s)"
  let ?s = "fold (timeout_run env diag) ?stale s"
  have eq: "checkForTimeouts env diag s = ?s" by (simp add: checkForTimeouts_def FindStaleRuns_def assms(1))
  note w = watchdog_closes [OF assms(1), where stale = ?stale and diag = diag and s = s]
  have "\<not> stale_run (ee_now env) (seconds 600) r" if r: "r \<in> set (rs_runs ?s)" for r
  proof
    assume st: "stale_run (ee_now env) (seconds 600) r"
    with w(4) [OF r] have "rn_ID r \<in> rn_ID ` set ?stale" by auto
    then obtain x where "x \<in> set ?stale" "rn_ID x = rn_ID r" by auto
    then have "rn_Status r = RunStatusTimeout" using w(1) [of x] r by (simp add: run_closed_def)
    with st show False by (simp add: stale_run_def)
  qed
  then have "filter (stale_run (ee_now env) (seconds 600)) (rs_runs ?s) = []" unfolding filter_empty_conv by (intro ballI)
  then have none: "FindStaleRuns None (ee_now env) (seconds 600) ?s = Inr []"
    unfolding FindStaleRuns_def by (simp only: option.case)
  have "run \<in> set ?stale" using assms(2,3) by simp
  from w(1) [OF this] have closed: "run_closed (ee_now env) (rn_ID run) ?s" .
  have "rn_ID run \<in> rn_ID ` set (rs_runs ?s)" unfolding w(3) using assms(2) by (rule imageI)
  with none closed show ?thesis unfolding eq by (intro conjI)
qed

section \<open>The table of runs\<close>

lemma calm_timeout_run: "calm s (timeout_run env diag run s)"
proof -
  define msg where "msg = ''Run timed out after 10 minutes'' @
    (if diag (rn_ID run) \<noteq> [] then ''. Runner state at timeout: '' @ diag (rn_ID run) else [])"
  define s1 where "s1 = snd (UpdateRunStatus (ee_flt env ''UpdateRunStatus'' 0) (ee_flt env ''ReleaseRunnerLease'' 0) (ee_now env)
    (rn_ID run) RunStatusTimeout (Some msg) s)"
  obtain r s2 where t: "TimeoutPendingWorkflowResults (ee_flt env ''TimeoutPendingWorkflowResults'' 0) (ee_now env) (rn_ID run) msg s1 = (r, s2)"
    by force
  have "calm s s1" unfolding s1_def by (rule calm_status) (simp add: terminal_run_def)
  moreover have "calm s1 s2"
    using calm_other(3) [of s1 "ee_flt env ''TimeoutPendingWorkflowResults'' 0" "ee_now env" "rn_ID run" msg] t by simp
  ultimately have c2: "calm s s2" by (rule calm_trans)
  show ?thesis unfolding timeout_run_def Let_def msg_def [symmetric] s1_def [symmetric] t
    using c2 calm_trans [OF c2 calm_counts] by (cases r) simp_all
qed

lemma calm_checkForTimeouts: "calm s (checkForTimeouts env diag s)"
  unfolding checkForTimeouts_def by (auto intro: calms.rel_fold calm_timeout_run split: sum.splits)

lemma calm_RecoverStaleRuns: "calm s (snd (RecoverStaleRuns env s))"
proof -
  have "calm s (fold (\<lambda>run. snd \<circ> UpdateRunStatus f g now (rn_ID run) RunStatusFailed msg) stale s)" for f g now msg and stale :: "run_row list"
    by (rule calms.rel_fold) (simp add: calm_status terminal_run_def)
  then show ?thesis unfolding RecoverStaleRuns_def by (simp split: sum.splits)
qed

lemma calm_with_token:
  assumes "\<And>run s. calm s (snd (handler run s))"
  shows "calm s (snd (with_token env token handler s))"
  unfolding with_token_def using assms by (auto split: sum.splits)

lemma calm_callbacks:
  "calm s (snd (handleAction env token p s))" "calm s (snd (handleWorkflow env token q s))"
  "calm s (snd (handleComplete env token c s))" "calm s (snd (handleHeartbeat env token h s))"
proof -
  have after: "calm s (snd (case r of (Inl e, s') \<Rightarrow> (500, s') | (Inr x, s') \<Rightarrow> (200, snd (UpdateRunCounts f now i s'))))"
    if "calm s (snd r)" for s f now i and r :: "'a result \<times> run_store"
    using that calm_trans [OF that calm_counts] by (cases r; cases "fst r") auto
  have plain: "calm s (snd (case r of (Inl e, s') \<Rightarrow> (500, s') | (Inr x, s') \<Rightarrow> (200, s')))"
    if "calm s (snd r)" for s and r :: "'a result \<times> run_store"
    using that by (cases r; cases "fst r") auto
  show "calm s (snd (handleAction env token p s))" unfolding handleAction_def
    by (rule calm_with_token) (auto intro!: plain calm_other(4) split: option.split)
  show "calm s (snd (handleWorkflow env token q s))" unfolding handleWorkflow_def
    by (rule calm_with_token) (auto intro!: after calm_other(5) split: option.split)
  show "calm s (snd (handleComplete env token c s))" unfolding handleComplete_def
    by (rule calm_with_token) (auto intro!: after calm_status simp: terminal_run_def split: option.split)
  show "calm s (snd (handleHeartbeat env token h s))" unfolding handleHeartbeat_def
    by (rule calm_with_token) (auto intro!: calm_name(3) split: option.split)
qed

lemma wf_calm: "calm s s' \<Longrightarrow> runs_wf s \<Longrightarrow> runs_wf s'"
  by (simp add: calm_def)

lemma ProcessPendingRuns_wf: "runs_wf s \<Longrightarrow> runs_wf (ProcessPendingRuns envs stop locked k s)"
proof (induction envs stop locked k s rule: ProcessPendingRuns.induct)
  case (1 envs stop locked k s)
  define env where "env = envs k"
  obtain c s1 where claim: "ClaimPendingRun (ee_flt env ''ClaimPendingRun'' 0) (ee_now env) (locked k) s = (c, s1)" by force
  have w1: "runs_wf s1" using runs_wf_claim [OF 1(3)] claim by (metis snd_conv)
  note unfold = ProcessPendingRuns.simps [of envs stop locked k s, folded env_def, unfolded Let_def claim prod.case]
  show ?case
  proof (cases "stop k")
    case True
    then show ?thesis unfolding unfold using 1(3) by (simp only: if_True)
  next
    case go: False
    show ?thesis
    proof (cases c)
      case (Inl e)
      then show ?thesis unfolding unfold using go w1 by simp
    next
      case m: (Inr m)
      show ?thesis
      proof (cases m)
        case None
        then show ?thesis unfolding unfold using go m w1 by simp
      next
        case (Some run)
        obtain r s2 where ex: "executeRun env run s1 = (r, s2)" by force
        have w2: "runs_wf s2" using wf_calm [OF calm_executeRun w1] ex by (metis snd_conv)
        have w3: "runs_wf (fail_run env i e s)" if "runs_wf s" for i e s by (rule wf_calm [OF calm_fail_run that])
        show ?thesis
        proof (cases r)
          case (Inl e)
          obtain q s3 where rq: "RequeueClaimedRun (ee_flt env ''RequeueClaimedRun'' 0) (ee_now env) (rn_ID run) s2 = (q, s3)" by force
          have "runs_wf s3" using runs_wf_requeue [OF w2] rq by (metis snd_conv)
          moreover have "runs_wf (ProcessPendingRuns envs stop locked (k + 1) (fail_run env (rn_ID run) e s2))" if "\<not> errorsIs e ErrRunnerAtCapacity"
            by (rule 1(1) [OF go env_def claim [symmetric] m Some ex [symmetric] Inl that w3 [OF w2]])
          ultimately show ?thesis unfolding unfold using go m Some ex Inl rq w3 by (cases q) simp_all
        next
          case (Inr u)
          have "runs_wf (ProcessPendingRuns envs stop locked (k + 1) s2)"
            by (rule 1(2) [OF go env_def claim [symmetric] m Some ex [symmetric] Inr w2])
          then show ?thesis unfolding unfold using go m Some ex Inr by simp
        qed
      qed
    qed
  qed
qed

lemma runs_wf_reserve:
  assumes "runs_wf s" "reserve_runner env pod runID s = Some (c, s')"
  shows "runs_wf s'"
proof -
  have fail: "runs_wf (snd (UpdateRunStatus f g now runID RunStatusFailed m t))" if "runs_wf t" for f g now m t
    by (rule runs_wf_status [OF that]) (simp add: terminal_run_def)
  show ?thesis
  proof (cases "pd_network_mode pod = ''shared''")
    case True
    show ?thesis
    proof (cases "pd_shared_network_id pod")
      case None
      then show ?thesis using assms(2) True fail [OF assms(1)] by (auto simp: reserve_runner_def)
    next
      case (Some n)
      from assms(2) True Some obtain r t where l: "LeaseRunnerIP (rv_lease_flt env) n runID s = Some (r, t)"
        by (auto simp: reserve_runner_def split: option.splits)
      have "runs_wf t" by (rule runs_wf_lease [OF assms(1) l])
      then show ?thesis using assms(2) True Some l fail [of t] by (cases r) (auto simp: reserve_runner_def)
    qed
  qed (use assms in \<open>simp add: reserve_runner_def\<close>)
qed

lemma runs_wf_CreateTestingRun:
  assumes "runs_wf s" "CreateTestingRun env podID userID role req s = Some (c, s')"
  shows "runs_wf s'"
proof -
  have row: "run_row_wf (new_run env podID userID p v)" for p v
    by (simp add: run_row_wf_def new_run_def terminal_run_def active_run_def)
  have "s' = s \<or> (\<exists>p v r t. CreateRun (rv_flt env ''CreateRun'') (new_run env podID userID p v) s = (r, t) \<and>
      (s' = t \<or> (\<exists>pod. reserve_runner env pod (rv_newID env) t = Some (c, s'))))"
    using assms(2) unfolding CreateTestingRun_def
    by (simp split: if_split_asm option.split_asm sum.split_asm prod.split_asm) blast+
  then show ?thesis
  proof (elim disjE exE conjE)
    fix p v r t
    assume c: "CreateRun (rv_flt env ''CreateRun'') (new_run env podID userID p v) s = (r, t)"
    have t: "runs_wf t" using runs_wf_create [OF assms(1) row] c by (metis snd_conv)
    { assume "s' = t" with t show "runs_wf s'" by simp }
    { fix pod assume "reserve_runner env pod (rv_newID env) t = Some (c, s')" then show "runs_wf s'" by (rule runs_wf_reserve [OF t]) }
  qed (use assms(1) in simp)
qed

lemma runs_wf_CancelTestingRun:
  assumes "runs_wf s"
  shows "runs_wf (snd (CancelTestingRun env podID runID userID role username s))"
proof -
  obtain r t where u: "UpdateRunStatus (rv_flt env ''UpdateRunStatus'') (rv_flt env ''ReleaseRunnerLease'') (rv_now env) runID
      RunStatusCancelled (Some (''Cancelled by '' @ username)) s = (r, t)" by force
  have "runs_wf t" using runs_wf_status [OF assms, of RunStatusCancelled] u by (metis snd_conv terminal_run_def)
  then show ?thesis unfolding CancelTestingRun_def u using assms by (cases r) (auto split: option.split)
qed

text \<open>
  What happens to the tables: the handlers, the engine's own loops and the callbacks as a whole, and
  every single statement of them, so that any interleaving of several requests, engines and runners
  is a sequence of steps.
\<close>

inductive run_step :: "run_store \<Rightarrow> unit \<Rightarrow> run_store \<Rightarrow> bool" where
  request: "CreateTestingRun env podID userID role req s = Some (c, s') \<Longrightarrow> run_step s u s'"
| cancel: "run_step s u (snd (CancelTestingRun env podID runID userID role username s))"
| process: "run_step s u (ProcessPendingRuns envs stop locked k s)"
| watchdog: "run_step s u (checkForTimeouts eenv diag s)"
| recover: "run_step s u (snd (RecoverStaleRuns eenv s))"
| action: "run_step s u (snd (handleAction eenv token p s))"
| workflow: "run_step s u (snd (handleWorkflow eenv token q s))"
| complete: "run_step s u (snd (handleComplete eenv token st s))"
| beat: "run_step s u (snd (handleHeartbeat eenv token h s))"
| insert: "run_step s u (snd (CreateRun flt (new_run env podID userID p v) s))"
| reserve: "reserve_runner env pod runID s = Some (c, s') \<Longrightarrow> run_step s u s'"
| claim: "run_step s u (snd (ClaimPendingRun flt now rows s))"
| attempt: "run_step s u (snd (executeRun eenv run s))"
| requeue: "run_step s u (snd (RequeueClaimedRun flt now runID s))"
| status: "terminal_run new \<or> new = RunStatusRunning \<Longrightarrow> run_step s u (snd (UpdateRunStatus flt flt2 now runID new m s))"
| counts: "run_step s u (snd (UpdateRunCounts flt now runID s))"
| target: "run_step s u (snd (SetRunTarget flt now runID vm s))"
| name: "run_step s u (snd (SetRunnerPodName flt now runID job s))"
| snapshot: "run_step s u (snd (CreateWorkflowVersion flt wv s))"
| result: "run_step s u (snd (InsertWorkflowResult flt wr s))"
| report: "run_step s u (snd (UpdateWorkflowResultBySlug flt now runID slug rst m io ar d s))"
| expire: "run_step s u (snd (TimeoutPendingWorkflowResults flt now runID m2 s))"
| elsewhere: "rs_runs s' = rs_runs s \<Longrightarrow> rs_leases s' = rs_leases s \<Longrightarrow> run_step s u s'"

lemma run_step_wf: "run_step s u s' \<Longrightarrow> runs_wf s \<Longrightarrow> runs_wf s'"
proof (induction rule: run_step.induct)
  case (insert s u flt env podID userID p v)
  then show ?case
    by (auto intro!: runs_wf_create simp: run_row_wf_def new_run_def terminal_run_def active_run_def)
next
  case (status new s u flt flt2 now runID m)
  then show ?case using wf_calm [OF calm_status] by blast
qed (auto intro: runs_wf_CreateTestingRun runs_wf_CancelTestingRun ProcessPendingRuns_wf runs_wf_reserve runs_wf_claim runs_wf_requeue
    wf_calm [OF calm_checkForTimeouts] wf_calm [OF calm_RecoverStaleRuns] wf_calm [OF calm_callbacks(1)] wf_calm [OF calm_callbacks(2)]
    wf_calm [OF calm_callbacks(3)] wf_calm [OF calm_callbacks(4)] wf_calm [OF calm_executeRun] wf_calm [OF calm_counts]
    wf_calm [OF calm_name(1)] wf_calm [OF calm_name(2)] wf_calm [OF calm_other(1)] wf_calm [OF calm_other(2)] wf_calm [OF calm_other(3)]
    wf_calm [OF calm_other(5)] runs_wf_cong)

interpretation runs: state_machine "\<lambda>s. rs_runs s = [] \<and> rs_leases s = []" run_step runs_wf
proof
  show "runs_wf s" if "rs_runs s = [] \<and> rs_leases s = []" for s using that by (simp add: runs_wf_def active_leases_def)
qed (use run_step_wf in blast)

text \<open>
  C32. Whatever requests, engines, runners and the watchdog do to the assessment tables, in whatever
  order their statements interleave and fail: no two active leases share a runner address, a callback
  token belongs to one run, a run is in one of the seven states and has an end time exactly in the
  four final ones, and its passed and failed workflows never add up to more than all of them.
\<close>

theorem runs_invariant:
  assumes "runs.reach s" "r \<in> set (rs_runs s)"
  shows "distinct (active_leases (rs_leases s)) \<and>
    (terminal_run (rn_Status r) \<or> rn_Status r \<in> {RunStatusPending, RunStatusProvisioning, RunStatusRunning}) \<and>
    (terminal_run (rn_Status r) \<longleftrightarrow> rn_CompletedAt r \<noteq> None) \<and>
    0 \<le> rn_PassedWorkflows r \<and> 0 \<le> rn_FailedWorkflows r \<and> rn_PassedWorkflows r + rn_FailedWorkflows r \<le> rn_TotalWorkflows r \<and>
    GetRunByCallbackToken (rn_CallbackToken r) s = Inr r"
proof -
  have wf: "runs_wf s" using assms(1) by (rule runs.reach_inv)
  then have "run_row_wf r" using assms(2) by (simp add: runs_wf_def)
  moreover have "find (\<lambda>x. rn_CallbackToken x = rn_CallbackToken r) (rs_runs s) = Some r"
  proof (cases "find (\<lambda>x. rn_CallbackToken x = rn_CallbackToken r) (rs_runs s)")
    case None
    with assms(2) show ?thesis by (auto simp: find_None_iff)
  next
    case (Some x)
    with find_SomeD [OF Some] distinct_key_eq [of rn_CallbackToken "rs_runs s" x r] wf assms(2) show ?thesis by (simp add: runs_wf_def)
  qed
  moreover have "distinct (active_leases (rs_leases s))" using wf by (simp add: runs_wf_def)
  ultimately show ?thesis by (auto simp: run_row_wf_def active_run_def GetRunByCallbackToken_def)
qed

section \<open>What an attempt leaves\<close>

text \<open>The states of the runs are the same.\<close>

definition same_states :: "run_store \<Rightarrow> run_store \<Rightarrow> bool" where
  "same_states s s' \<longleftrightarrow> map (\<lambda>r. (rn_ID r, rn_Status r)) (rs_runs s') = map (\<lambda>r. (rn_ID r, rn_Status r)) (rs_runs s)"

lemma same_states_tx:
  assumes "\<And>x s'. body s = Inr (x, s') \<Longrightarrow> same_states s s'"
  shows "same_states s (snd (run_tx flt body s))"
  by (rule run_tx_preserves [of "same_states s"]) (use assms in \<open>auto simp: same_states_def\<close>)

interpretation states: run_relation same_states
proof
  show "same_states s (snd (UpdateRunCounts flt now runID s))" "same_states s (snd (SetRunTarget flt now runID vm s))"
    "same_states s (snd (SetRunnerPodName flt now runID jobName s))" for s flt now runID vm jobName
    unfolding UpdateRunCounts_def SetRunTarget_def SetRunnerPodName_def
    by (rule same_states_tx; auto simp: same_states_def map_key_sql_update)+
  show "same_states s (snd (CreateWorkflowVersion flt wv s))" "same_states s (snd (InsertWorkflowResult flt wr s))"
    "same_states s (snd (UpdateWorkflowResultBySlug flt now runID slug st m io ar d s))" for s flt wv wr now runID slug st m io ar d
    unfolding CreateWorkflowVersion_def InsertWorkflowResult_def UpdateWorkflowResultBySlug_def
    by (rule same_states_tx; auto simp: same_states_def split: if_splits)+
qed (simp_all add: same_states_def)

definition in_state :: "string set \<Rightarrow> uuid \<Rightarrow> run_store \<Rightarrow> bool" where
  "in_state sts runID s \<longleftrightarrow> (\<forall>r \<in> set (rs_runs s). rn_ID r = runID \<longrightarrow> rn_Status r \<in> sts)"

lemma in_state_pairs:
  "in_state sts runID s \<longleftrightarrow> list_all (\<lambda>(i, st). i = runID \<longrightarrow> st \<in> sts) (map (\<lambda>r. (rn_ID r, rn_Status r)) (rs_runs s))"
  by (auto simp: in_state_def list_all_iff)

lemma in_state_same: "same_states s s' \<Longrightarrow> in_state sts runID s \<Longrightarrow> in_state sts runID s'"
  unfolding same_states_def in_state_pairs by (simp only:)

lemma ids_same: "same_states s s' \<Longrightarrow> map rn_ID (rs_runs s') = map rn_ID (rs_runs s)"
  unfolding same_states_def by (drule arg_cong [where f = "map fst"]) (simp add: comp_def)

lemma UpdateRunStatus_in_state:
  assumes "UpdateRunStatus flt flt2 now runID st msg s = (Inr u, s')"
  shows "in_state {st} runID s'" "map rn_ID (rs_runs s') = map rn_ID (rs_runs s)"
proof -
  have "rs_runs s' = rs_runs (set_run_status now runID st msg s)"
    using assms unfolding UpdateRunStatus_def ReleaseRunnerLease_def
    by (auto dest!: run_tx_InrD split: prod.splits sum.splits if_splits)
  then show "in_state {st} runID s'" "map rn_ID (rs_runs s') = map rn_ID (rs_runs s)"
    by (simp_all add: set_run_status_def in_state_def ball_sql_update map_key_sql_update)
qed

lemma finalize_in_state:
  assumes "finalizeRunFromCounts env run s = (Inr u, s')"
  shows "in_state {RunStatusCompleted} (rn_ID run) s'" "map rn_ID (rs_runs s') = map rn_ID (rs_runs s)"
proof -
  let ?s = "snd (UpdateRunCounts (ee_flt env ''UpdateRunCounts'' 2) (ee_now env) (rn_ID run) s)"
  have "UpdateRunStatus (ee_flt env ''UpdateRunStatus'' 1) (ee_flt env ''ReleaseRunnerLease'' 1) (ee_now env) (rn_ID run)
      RunStatusCompleted None ?s = (Inr (), s')"
    using assms unfolding finalizeRunFromCounts_def by (auto split: prod.splits sum.splits)
  then show "in_state {RunStatusCompleted} (rn_ID run) s'" "map rn_ID (rs_runs s') = map rn_ID (rs_runs s)"
    using UpdateRunStatus_in_state ids_same [OF states.rel_counts, of "ee_flt env ''UpdateRunCounts'' 2" "ee_now env" "rn_ID run" s]
    by simp_all
qed

lemma dispatch_all_in_state:
  assumes "dispatch_all env run vm ws s = (Inr u, s')" "in_state {RunStatusRunning} (rn_ID run) s"
  shows "in_state {if \<forall>w \<in> set ws. wf_ExecutionMode w = ''vmware_tools'' then RunStatusCompleted else RunStatusRunning} (rn_ID run) s' \<and>
    map rn_ID (rs_runs s') = map rn_ID (rs_runs s)"
proof -
  let ?g = "filter (\<lambda>w. wf_ExecutionMode w = ''vmware_tools'') ws" and ?k = "filter (\<lambda>w. wf_ExecutionMode w \<noteq> ''vmware_tools'') ws"
  define s1 where "s1 = (if ?g = [] then s else snd (dispatchVMwareTools env run vm ?g s))"
  have s1: "same_states s s1" by (simp add: s1_def states.rel_dispatchVMwareTools)
  have k: "?k = [] \<longleftrightarrow> (\<forall>w \<in> set ws. wf_ExecutionMode w = ''vmware_tools'')" by (simp add: filter_empty_conv)
  show ?thesis
  proof (cases "?k = []")
    case True
    with assms(1) have "finalizeRunFromCounts env run s1 = (Inr u, s')" by (simp add: dispatch_all_def Let_def s1_def)
    from finalize_in_state [OF this] show ?thesis using True k ids_same [OF s1] by simp
  next
    case False
    with assms(1) have "s' = s1 \<or> start_runner env run vm s1 = (Inr u, s')"
      by (auto simp: dispatch_all_def Let_def s1_def split: if_splits)
    then have "same_states s1 s'" using states.rel_start_runner [of s1 env run vm] by auto
    from states.rel_trans [OF s1 this] show ?thesis using False k in_state_same assms(2) ids_same by auto
  qed
qed


text \<open>
  A target that cannot be resolved records nothing: a run of guest scripts alone is completed with all its
  results still pending.
\<close>

lemma unresolved_target_completes:
  assumes "\<forall>w \<in> set ws. wf_ExecutionMode w = ''vmware_tools''" "ee_dispatcher env"
    "GetVMwareToolsTarget env (rn_PodID run) vm s = Inl e" "dispatch_all env run vm ws s = (Inr u, s')"
  shows "rs_results s' = rs_results s \<and> in_state {RunStatusCompleted} (rn_ID run) s'"
proof -
  have k: "filter (\<lambda>w. wf_ExecutionMode w \<noteq> ''vmware_tools'') ws = []" using assms(1) by (simp add: filter_empty_conv)
  have "snd (dispatchVMwareTools env run vm g s) = s" for g using assms(2,3) by (simp add: dispatchVMwareTools_def)
  then have f: "finalizeRunFromCounts env run s = (Inr u, s')" using assms(4) k by (auto simp: dispatch_all_def Let_def split: if_splits)
  then have "rs_results s' = rs_results s"
    unfolding finalizeRunFromCounts_def UpdateRunStatus_def ReleaseRunnerLease_def UpdateRunCounts_def set_run_status_def run_tx_def
    by (auto split: prod.splits sum.splits option.splits if_splits)
  then show ?thesis using finalize_in_state(1) [OF f] by simp
qed

section \<open>Examples\<close>

text \<open>
  A pod with one machine, two playlists' worth of guest scripts and two queued runs: one is complete,
  one has lost its playlist.
\<close>

definition quiet_env :: "go_time \<Rightarrow> engine_env" where
  "quiet_env now =
     \<lparr>ee_now = now, ee_flt = (\<lambda>_ _. None), ee_ids = (\<lambda>i. 100 + i), ee_actions = (\<lambda>_. JArr []),
      ee_template = (\<lambda>_. None), ee_k8s = False, ee_capacity = None, ee_dispatcher = True, ee_ctx = (\<lambda>_. None),
      ee_guest = (\<lambda>_. (Inr None, 0)), ee_library = None, ee_provision = Inr ''runner''\<rparr>"

definition queued_run :: "uuid \<Rightarrow> uuid option \<Rightarrow> run_row" where
  "queued_run i playlist =
     \<lparr>rn_ID = i, rn_PodID = 2, rn_PlaylistID = playlist, rn_TriggeredBy = 3, rn_RunnerVMName = None,
      rn_TargetPodVMID = Some 6, rn_TargetVMName = ''web'', rn_TargetVMIP = ''10.100.1.10'', rn_CallbackToken = dec i,
      rn_Status = RunStatusPending, rn_TotalWorkflows = 0, rn_PassedWorkflows = 0, rn_FailedWorkflows = 0,
      rn_ErrorMessage = None, rn_StartedAt = None, rn_CompletedAt = None, rn_CreatedAt = int i, rn_UpdatedAt = int i\<rparr>"

definition queue_store :: run_store where
  "queue_store = lease_store
     \<lparr>rs_runs := [queued_run 7 (Some 4), queued_run 8 None],
      rs_playlist_workflows := [(4, 11, 0)],
      rs_workflows := [\<lparr>wf_ID = 11, wf_Name = ''w'', wf_Slug = ''w'', wf_ExecutionMode = ''vmware_tools'', wf_Script = ''exit 0'',
        wf_SetupScript = None, wf_TimeoutSeconds = 60, wf_TargetVM = None, wf_GuestInterpreter = None, wf_Status = ''active'',
        wf_CreatedBy = 3, wf_IsActive = True\<rparr>],
      rs_leases := []\<rparr>"

lemma quiet_prepare:
  "prepare_workflows (quiet_env now) runID ws s = (Inl e, s') \<Longrightarrow> \<not> errorsIs e ErrRunnerAtCapacity"
proof (induction ws arbitrary: s)
  case (Cons x ws)
  obtain i w where x: "x = (i, w)" by force
  from Cons show ?case unfolding x
    by (auto simp: quiet_env_def createVersionSnapshot_def CreateWorkflowVersion_def InsertWorkflowResult_def run_tx_def split: if_splits)
qed simp

lemma quiet_status: "UpdateRunStatus None None now runID st msg s = (r, s') \<Longrightarrow> r = Inr ()"
  by (auto simp: UpdateRunStatus_def ReleaseRunnerLease_def run_tx_def split: if_splits)

lemma quiet_execute:
  assumes "executeRun (quiet_env now) run s = (Inl e, s')"
  shows "\<not> errorsIs e ErrRunnerAtCapacity"
proof -
  let ?env = "quiet_env now"
  have fld: "ee_flt ?env q i = None" "\<not> ee_k8s ?env" for q i by (simp_all add: quiet_env_def)
  have "fst (finalizeRunFromCounts ?env run t) = Inr ()" for t
  proof -
    obtain r t' where u: "UpdateRunStatus None None (ee_now ?env) (rn_ID run) RunStatusCompleted None
        (snd (UpdateRunCounts None (ee_now ?env) (rn_ID run) t)) = (r, t')" by force
    have "r = Inr ()" by (rule quiet_status [OF u])
    then show ?thesis unfolding finalizeRunFromCounts_def fld u by simp
  qed
  then have d: "fst (dispatch_all ?env run vm ws t) = Inr ()" for vm ws t by (simp add: dispatch_all_def Let_def fld)
  have "\<not> errorsIs e ErrRunnerAtCapacity" if b: "begin_run ?env run vm ws s = (Inl e, s')" for vm ws
  proof (cases "prepare_workflows ?env (rn_ID run) (numbered ws) s")
    case (Pair r s1)
    show ?thesis
    proof (cases r)
      case (Inl e1)
      with b Pair have "e = e1" by (simp add: begin_run_def)
      with Pair Inl show ?thesis using quiet_prepare by blast
    next
      case (Inr u)
      let ?s2 = "snd (UpdateRunCounts None (ee_now ?env) (rn_ID run) s1)"
      obtain r2 s3 where u: "UpdateRunStatus None None (ee_now ?env) (rn_ID run) RunStatusRunning None ?s2 = (r2, s3)" by force
      have "r2 = Inr ()" by (rule quiet_status [OF u])
      then have "fst (begin_run ?env run vm ws s) = Inr ()" using Pair Inr u d by (simp add: begin_run_def fld)
      with b show ?thesis by simp
    qed
  qed
  with assms show ?thesis unfolding executeRun_def fld GetWorkflowsForPlaylist_def
    by (auto simp: fld split: option.splits if_splits)
qed

theorem queue_drained_witness:
  "pending_count (ProcessPendingRuns (\<lambda>_. quiet_env 50) (\<lambda>_. False) (\<lambda>_. []) 0 queue_store) = 0 \<and> pending_count queue_store = 2"
proof -
  have "pending_count (ProcessPendingRuns (\<lambda>_. quiet_env 50) (\<lambda>_. False) (\<lambda>_. []) 0 queue_store) = 0"
    by (rule queue_drained [OF _ _ _ quiet_execute]) (simp_all add: quiet_env_def)
  moreover have "pending_count queue_store = 2" by (simp add: pending_count_def queue_store_def queued_run_def)
  ultimately show ?thesis by simp
qed

definition stale_store :: run_store where
  "stale_store = queue_store\<lparr>rs_runs := [(queued_run 7 (Some 4))\<lparr>rn_Status := RunStatusRunning, rn_StartedAt := Some 0\<rparr>],
     rs_leases := [\<lparr>rl_SharedNetworkID = 5, rl_IP = host_text 2, rl_RunID = 7, rl_ReleasedAt = None\<rparr>]\<rparr>"

theorem timeouts_close_witness:
  "run_closed (seconds 700) 7 (checkForTimeouts (quiet_env (seconds 700)) (\<lambda>_. []) stale_store) \<and>
   7 \<in> rn_ID ` set (rs_runs (checkForTimeouts (quiet_env (seconds 700)) (\<lambda>_. []) stale_store))"
proof -
  let ?r = "(queued_run 7 (Some 4))\<lparr>rn_Status := RunStatusRunning, rn_StartedAt := Some 0\<rparr>"
  have r: "?r \<in> set (rs_runs stale_store)" "rn_ID ?r = 7" by (simp_all add: stale_store_def queued_run_def)
  have now: "ee_now (quiet_env (seconds 700)) = seconds 700" by (simp add: quiet_env_def)
  have st: "stale_run (ee_now (quiet_env (seconds 700))) (seconds 600) ?r" unfolding now by (simp add: stale_run_def seconds_def)
  have flt: "ee_flt (quiet_env (seconds 700)) q i = None" for q i by (simp add: quiet_env_def)
  show ?thesis using timeouts_close [OF flt r(1) st, of "\<lambda>_. []"] unfolding r(2) now by simp
qed

definition student_env :: run_env where
  "student_env = \<lparr>rv_now = 1, rv_newID = 7, rv_token = ''t'', rv_flt = (\<lambda>_. None), rv_lease_flt = (\<lambda>_. None), rv_offered = Inr True\<rparr>"

definition graded_vm :: pod_vm where
  "graded_vm = \<lparr>pv_ID = 6, pv_PodID = 2, pv_TemplateID = 9, pv_DisplayName = ''web'', pv_Status = ''running'', pv_CreatedAt = 0,
     pv_LastActivityAt = None, pv_SuspendedAt = None, pv_SuspendReason = None, pv_VCenterVMID = None, pv_VCenterVMName = None,
     pv_IPAddress = Some ''10.110.1.20'', pv_VCPUs = 1, pv_RAMMB = 1024, pv_GeneratedUsername = [], pv_GeneratedPassword = [],
     pv_GuestCredentialsVerifiedAt = None, pv_GuestCredentialsVerifiedVMID = None\<rparr>"

theorem runs_invariant_witness:
  "GetRunByCallbackToken ''t'' (snd (CreateRun None (new_run student_env 2 3 None graded_vm) (queue_store\<lparr>rs_runs := []\<rparr>))) =
     Inr (new_run student_env 2 3 None graded_vm)"
proof -
  let ?r = "new_run student_env 2 3 None graded_vm" and ?s = "queue_store\<lparr>rs_runs := []\<rparr>"
  have "runs.reach ?s" by (rule runs.reach_start) (simp add: queue_store_def)
  then have r: "runs.reach (snd (CreateRun None ?r ?s))" by (rule runs.reach_step [OF _ run_step.insert])
  have "rn_CallbackToken ?r = ''t''" by (simp add: new_run_def student_env_def)
  then show ?thesis using runs_invariant [OF r, of ?r] by (simp add: CreateRun_def run_tx_def)
qed

definition cancelled_store :: run_store where
  "cancelled_store = queue_store\<lparr>rs_runs := [(queued_run 7 (Some 4))\<lparr>rn_Status := RunStatusCancelled\<rparr>]\<rparr>"


end
