(* ===== verification/Leader.thy ===== *)
theory Leader
  imports Prelude
begin

text \<open>
  The election of the worker that runs the periodic reconcilers: the elector
  (\<open>internal/leader/leader.go\<close>) and its advisory lock in PostgreSQL
  (\<open>internal/leader/pgx_backend.go\<close>), run by a fleet of replicas that lose connections and crash.
\<close>

section \<open>The elector\<close>

text \<open>
  A context is a number, \<open>el_contexts\<close> the number of contexts made so far. The channel of the changes
  has one place. Neither counter comes near the width of its type.
\<close>

record elector =
  el_newBackend :: bool
  el_isLeader :: bool
  el_transitions :: int
  el_changeCh :: "bool option"
  el_leaderContext :: "nat option"
  el_generation :: int
  el_contexts :: nat
  el_cancelled :: "nat list"

record leadership_state =
  lst_IsLeader :: bool
  lst_Generation :: int
  lst_Context :: "nat option"

definition New_elector :: elector where
  "New_elector =
     \<lparr>el_newBackend = True, el_isLeader = False, el_transitions = 0, el_changeCh = None, el_leaderContext = None,
      el_generation = 0, el_contexts = 0, el_cancelled = []\<rparr>"

definition NewAlwaysLeader :: elector where
  "NewAlwaysLeader =
     \<lparr>el_newBackend = False, el_isLeader = True, el_transitions = 1, el_changeCh = None, el_leaderContext = Some 0,
      el_generation = 1, el_contexts = 1, el_cancelled = []\<rparr>"

definition CurrentLeadership :: "elector \<Rightarrow> leadership_state" where
  "CurrentLeadership e = \<lparr>lst_IsLeader = el_isLeader e, lst_Generation = el_generation e, lst_Context = el_leaderContext e\<rparr>"

text \<open>A send that does not block: a full channel keeps what it has.\<close>

definition offer :: "bool \<Rightarrow> bool option \<Rightarrow> bool option" where
  "offer b ch = (case ch of None \<Rightarrow> Some b | Some x \<Rightarrow> Some x)"

definition becomeLeader :: "elector \<Rightarrow> elector" where
  "becomeLeader e =
     (if el_isLeader e then e
      else e\<lparr>el_leaderContext := Some (el_contexts e), el_contexts := el_contexts e + 1,
             el_generation := el_generation e + 1, el_isLeader := True, el_transitions := el_transitions e + 1,
             el_changeCh := offer True (el_changeCh e)\<rparr>)"

definition loseLeadership :: "elector \<Rightarrow> elector" where
  "loseLeadership e =
     (if \<not> el_isLeader e then e
      else e\<lparr>el_isLeader := False,
             el_cancelled := (case el_leaderContext e of None \<Rightarrow> el_cancelled e | Some c \<Rightarrow> c # el_cancelled e),
             el_leaderContext := None, el_transitions := el_transitions e + 1,
             el_changeCh := offer False (el_changeCh e)\<rparr>)"

section \<open>The lock\<close>

text \<open>
  What PostgreSQL knows: its sessions and the one that holds the lock. A session-scoped advisory lock
  belongs to its session and ends with it. A failing statement may have taken effect before the reply
  was lost (\<open>took\<close>).
\<close>

record lock_server =
  ls_sessions :: "nat list"
  ls_next :: nat
  ls_holder :: "nat option"

definition end_session :: "nat \<Rightarrow> lock_server \<Rightarrow> lock_server" where
  "end_session sid srv =
     srv\<lparr>ls_sessions := filter (\<lambda>s. s \<noteq> sid) (ls_sessions srv),
         ls_holder := (if ls_holder srv = Some sid then None else ls_holder srv)\<rparr>"

definition connection_lost :: go_error where
  "connection_lost = errorsNew ''conn closed''"

definition newPgxBackend :: "go_error option \<Rightarrow> lock_server \<Rightarrow> nat result \<times> lock_server" where
  "newPgxBackend flt srv =
     (case flt of
        Some e \<Rightarrow> (Inl (Errorf ''leader backend: open dedicated connection'' [e]), srv)
      | None \<Rightarrow> (Inr (ls_next srv), srv\<lparr>ls_sessions := ls_next srv # ls_sessions srv, ls_next := ls_next srv + 1\<rparr>))"

definition TryAcquire :: "(go_error \<times> bool) option \<Rightarrow> nat \<Rightarrow> lock_server \<Rightarrow> bool result \<times> lock_server" where
  "TryAcquire flt sid srv =
     (if sid \<notin> set (ls_sessions srv) then (Inl (Errorf ''leader backend: pg_try_advisory_lock'' [connection_lost]), srv)
      else
        let ok = (ls_holder srv = None \<or> ls_holder srv = Some sid);
            srv' = (if ok then srv\<lparr>ls_holder := Some sid\<rparr> else srv)
        in case flt of
             None \<Rightarrow> (Inr ok, srv')
           | Some (e, took) \<Rightarrow> (Inl (Errorf ''leader backend: pg_try_advisory_lock'' [e]), if took then srv' else srv))"

definition Keepalive :: "go_error option \<Rightarrow> nat \<Rightarrow> lock_server \<Rightarrow> unit result" where
  "Keepalive flt sid srv =
     (if sid \<notin> set (ls_sessions srv) then Inl (Errorf ''leader backend: keepalive'' [connection_lost])
      else case flt of Some e \<Rightarrow> Inl (Errorf ''leader backend: keepalive'' [e]) | None \<Rightarrow> Inr ())"

definition Release_lock :: "(go_error \<times> bool) option \<Rightarrow> nat \<Rightarrow> lock_server \<Rightarrow> unit result \<times> lock_server" where
  "Release_lock flt sid srv =
     (if sid \<notin> set (ls_sessions srv) then (Inl (Errorf ''leader backend: pg_advisory_unlock'' [connection_lost]), srv)
      else
        let srv' = (if ls_holder srv = Some sid then srv\<lparr>ls_holder := None\<rparr> else srv)
        in case flt of
             None \<Rightarrow> (Inr (), srv')
           | Some (e, took) \<Rightarrow> (Inl (Errorf ''leader backend: pg_advisory_unlock'' [e]), if took then srv' else srv))"

text \<open>\<open>Close\<close> ends the session when its message arrives; the server ends it later otherwise.\<close>

definition Close_session :: "bool \<Rightarrow> nat \<Rightarrow> lock_server \<Rightarrow> lock_server" where
  "Close_session arrives sid srv = (if arrives then end_session sid srv else srv)"

section \<open>An attempt\<close>

text \<open>
  Where \<open>Run\<close> and \<open>attemptLeadership\<close> are. The deferred calls run in reverse order:
  \<open>loseLeadership\<close>, \<open>Release\<close>, \<open>Close\<close>.
\<close>

datatype attempt_pc =
    Waiting | Opened nat | Acquired nat | Leading nat | Returning nat | Releasing nat | Closing nat | Stopped

text \<open>\<open>ae_done\<close> is whether the context has ended, \<open>ae_tick\<close> whether the ticker has fired.\<close>

record attempt_env =
  ae_done :: bool
  ae_tick :: bool
  ae_open :: "go_error option"
  ae_try :: "(go_error \<times> bool) option"
  ae_alive :: "go_error option"
  ae_release :: "(go_error \<times> bool) option"
  ae_close :: bool

record replica_state =
  rp_elector :: elector
  rp_pc :: attempt_pc

definition attempt_step :: "attempt_env \<Rightarrow> replica_state \<Rightarrow> lock_server \<Rightarrow> replica_state \<times> lock_server" where
  "attempt_step env r srv =
     (case rp_pc r of
        Waiting \<Rightarrow>
          if ae_done env then (r\<lparr>rp_pc := Stopped\<rparr>, srv)
          else (case newPgxBackend (ae_open env) srv of
                  (Inl _, srv') \<Rightarrow> (r, srv')
                | (Inr sid, srv') \<Rightarrow> (r\<lparr>rp_pc := Opened sid\<rparr>, srv'))
      | Opened sid \<Rightarrow>
          (case TryAcquire (ae_try env) sid srv of
             (Inr True, srv') \<Rightarrow> (r\<lparr>rp_pc := Acquired sid\<rparr>, srv')
           | (_, srv') \<Rightarrow> (r\<lparr>rp_pc := Releasing sid\<rparr>, srv'))
      | Acquired sid \<Rightarrow> (r\<lparr>rp_elector := becomeLeader (rp_elector r), rp_pc := Leading sid\<rparr>, srv)
      | Leading sid \<Rightarrow>
          if ae_done env then (r\<lparr>rp_pc := Returning sid\<rparr>, srv)
          else if ae_tick env
          then (case Keepalive (ae_alive env) sid srv of
                  Inl _ \<Rightarrow> (r\<lparr>rp_pc := Returning sid\<rparr>, srv) | Inr _ \<Rightarrow> (r, srv))
          else (r, srv)
      | Returning sid \<Rightarrow> (r\<lparr>rp_elector := loseLeadership (rp_elector r), rp_pc := Releasing sid\<rparr>, srv)
      | Releasing sid \<Rightarrow> (r\<lparr>rp_pc := Closing sid\<rparr>, snd (Release_lock (ae_release env) sid srv))
      | Closing sid \<Rightarrow> (r\<lparr>rp_pc := Waiting\<rparr>, Close_session (ae_close env) sid srv)
      | Stopped \<Rightarrow> (r, srv))"

section \<open>The fleet\<close>

record fleet =
  fl_replicas :: "replica_state list"
  fl_server :: lock_server

definition fresh_replica :: replica_state where
  "fresh_replica = \<lparr>rp_elector = New_elector, rp_pc = Waiting\<rparr>"

definition fleet_start :: "fleet \<Rightarrow> bool" where
  "fleet_start w \<longleftrightarrow> fl_server w = \<lparr>ls_sessions = [], ls_next = 0, ls_holder = None\<rparr> \<and>
     (\<forall>r \<in> set (fl_replicas w). r = fresh_replica)"

definition replica_runs :: "attempt_env \<Rightarrow> nat \<Rightarrow> fleet \<Rightarrow> fleet" where
  "replica_runs env i w =
     (let (r, srv) = attempt_step env (fl_replicas w ! i) (fl_server w)
      in w\<lparr>fl_replicas := (fl_replicas w)[i := r], fl_server := srv\<rparr>)"

text \<open>
  Any replica makes a step, the server ends a session (a broken connection, a restart), a replica
  crashes and starts again, or somebody reads the channel of the changes.
\<close>

inductive fleet_step :: "fleet \<Rightarrow> unit \<Rightarrow> fleet \<Rightarrow> bool" where
  run: "i < length (fl_replicas w) \<Longrightarrow> fleet_step w u (replica_runs env i w)"
| drop: "fleet_step w u (w\<lparr>fl_server := end_session sid (fl_server w)\<rparr>)"
| crash: "i < length (fl_replicas w) \<Longrightarrow> fleet_step w u (w\<lparr>fl_replicas := (fl_replicas w)[i := fresh_replica]\<rparr>)"
| receive: "i < length (fl_replicas w) \<Longrightarrow> fleet_step w u
    (w\<lparr>fl_replicas := (fl_replicas w)[i := (fl_replicas w ! i)\<lparr>rp_elector := (rp_elector (fl_replicas w ! i))\<lparr>el_changeCh := None\<rparr>\<rparr>]\<rparr>)"

fun session_of :: "attempt_pc \<Rightarrow> nat option" where
  "session_of Waiting = None"
| "session_of Stopped = None"
| "session_of (Opened s) = Some s"
| "session_of (Acquired s) = Some s"
| "session_of (Leading s) = Some s"
| "session_of (Returning s) = Some s"
| "session_of (Releasing s) = Some s"
| "session_of (Closing s) = Some s"

fun holding :: "attempt_pc \<Rightarrow> bool" where
  "holding (Acquired _) = True"
| "holding (Leading _) = True"
| "holding (Returning _) = True"
| "holding _ = False"

fun leading :: "attempt_pc \<Rightarrow> bool" where
  "leading (Leading _) = True"
| "leading (Returning _) = True"
| "leading _ = False"

lemma leading_holding: "leading pc \<Longrightarrow> holding pc"
  by (cases pc) auto

text \<open>The counters count, and every context but the current one is cancelled.\<close>

definition elector_wf :: "elector \<Rightarrow> bool" where
  "elector_wf e \<longleftrightarrow>
     el_transitions e = 2 * el_generation e - (if el_isLeader e then 1 else 0) \<and> el_generation e = int (el_contexts e) \<and>
     el_leaderContext e = (if el_isLeader e then Some (el_contexts e - 1) else None) \<and>
     (el_isLeader e \<longrightarrow> 0 < el_contexts e) \<and>
     set (el_cancelled e) = {..<(if el_isLeader e then el_contexts e - 1 else el_contexts e)}"

lemma elector_wf_New: "elector_wf New_elector"
  by (simp add: elector_wf_def New_elector_def)

lemma elector_wf_ops: "elector_wf e \<Longrightarrow> elector_wf (becomeLeader e)" "elector_wf e \<Longrightarrow> elector_wf (loseLeadership e)"
proof -
  show "elector_wf (becomeLeader e)" if "elector_wf e"
    using that by (cases "el_isLeader e") (simp_all add: elector_wf_def becomeLeader_def)
  show "elector_wf (loseLeadership e)" if wf: "elector_wf e"
  proof (cases "el_isLeader e")
    case True
    then obtain n where "el_contexts e = Suc n" "el_leaderContext e = Some n" "set (el_cancelled e) = {..<n}"
      using wf by (cases "el_contexts e") (simp_all add: elector_wf_def)
    then show ?thesis using True wf by (simp add: elector_wf_def loseLeadership_def lessThan_Suc)
  qed (use wf in \<open>simp add: loseLeadership_def\<close>)
qed

lemma leadership_flags [simp]: "el_isLeader (becomeLeader e)" "\<not> el_isLeader (loseLeadership e)"
  by (simp_all add: becomeLeader_def loseLeadership_def)

definition replica_wf :: "lock_server \<Rightarrow> replica_state \<Rightarrow> bool" where
  "replica_wf srv r \<longleftrightarrow> elector_wf (rp_elector r) \<and> (el_isLeader (rp_elector r) \<longleftrightarrow> leading (rp_pc r)) \<and>
     (\<forall>s. session_of (rp_pc r) = Some s \<longrightarrow> s < ls_next srv \<and>
        (holding (rp_pc r) \<and> s \<in> set (ls_sessions srv) \<longrightarrow> ls_holder srv = Some s))"

definition server_wf :: "lock_server \<Rightarrow> bool" where
  "server_wf srv \<longleftrightarrow> (\<forall>s \<in> set (ls_sessions srv). s < ls_next srv) \<and> (\<forall>s. ls_holder srv = Some s \<longrightarrow> s \<in> set (ls_sessions srv))"

definition apart :: "replica_state list \<Rightarrow> bool" where
  "apart rs \<longleftrightarrow> (\<forall>i < length rs. \<forall>j < length rs. i \<noteq> j \<longrightarrow>
     session_of (rp_pc (rs ! i)) = None \<or> session_of (rp_pc (rs ! i)) \<noteq> session_of (rp_pc (rs ! j)))"

lemma apartD:
  "apart rs \<Longrightarrow> i < length rs \<Longrightarrow> j < length rs \<Longrightarrow> i \<noteq> j \<Longrightarrow>
     session_of (rp_pc (rs ! i)) = None \<or> session_of (rp_pc (rs ! i)) \<noteq> session_of (rp_pc (rs ! j))"
  unfolding apart_def by blast

definition fleet_wf :: "fleet \<Rightarrow> bool" where
  "fleet_wf w \<longleftrightarrow> server_wf (fl_server w) \<and> apart (fl_replicas w) \<and> (\<forall>r \<in> set (fl_replicas w). replica_wf (fl_server w) r)"

text \<open>
  What a step of one replica does to the server, seen by the others: sessions of others stay as they are,
  and the lock changes hands only between its own session and nobody.
\<close>

definition others_kept :: "nat option \<Rightarrow> lock_server \<Rightarrow> lock_server \<Rightarrow> bool" where
  "others_kept own srv srv' \<longleftrightarrow> ls_next srv \<le> ls_next srv' \<and>
     (\<forall>s. s < ls_next srv \<and> Some s \<noteq> own \<longrightarrow> (s \<in> set (ls_sessions srv') \<longrightarrow> s \<in> set (ls_sessions srv)) \<and>
        (ls_holder srv = Some s \<longrightarrow> ls_holder srv' = Some s))"

lemma attempt_step_wf:
  assumes "server_wf srv" "replica_wf srv r" "attempt_step env r srv = (r', srv')"
  shows "server_wf srv' \<and> replica_wf srv' r' \<and> others_kept (session_of (rp_pc r)) srv srv' \<and>
    (session_of (rp_pc r') = None \<or> session_of (rp_pc r') = session_of (rp_pc r) \<or> session_of (rp_pc r') = Some (ls_next srv))"
proof (cases "rp_pc r")
  case Waiting
  then show ?thesis using assms
    by (auto simp: attempt_step_def newPgxBackend_def server_wf_def replica_wf_def others_kept_def less_Suc_eq split: if_splits option.splits)
next
  case (Opened s)
  then show ?thesis using assms
    by (auto simp: attempt_step_def TryAcquire_def Let_def server_wf_def replica_wf_def others_kept_def
        split: if_splits option.splits bool.splits)
next
  case (Acquired s)
  then show ?thesis using assms elector_wf_ops(1)
    by (auto simp: attempt_step_def server_wf_def replica_wf_def others_kept_def)
next
  case (Leading s)
  then show ?thesis using assms
    by (auto simp: attempt_step_def server_wf_def replica_wf_def others_kept_def split: if_splits sum.splits)
next
  case (Returning s)
  then show ?thesis using assms elector_wf_ops(2)
    by (auto simp: attempt_step_def server_wf_def replica_wf_def others_kept_def)
next
  case (Releasing s)
  then show ?thesis using assms
    by (auto simp: attempt_step_def Release_lock_def Let_def server_wf_def replica_wf_def others_kept_def split: if_splits option.splits)
next
  case (Closing s)
  then show ?thesis using assms
    by (auto simp: attempt_step_def Close_session_def end_session_def server_wf_def replica_wf_def others_kept_def split: if_splits)
next
  case Stopped
  then show ?thesis using assms by (auto simp: attempt_step_def others_kept_def)
qed

lemma others_replica_wf:
  assumes "others_kept own srv srv'" "replica_wf srv r" "session_of (rp_pc r) = None \<or> session_of (rp_pc r) \<noteq> own"
  shows "replica_wf srv' r"
  using assms unfolding others_kept_def replica_wf_def by (cases "session_of (rp_pc r)") auto

lemma replica_runs_wf:
  assumes "fleet_wf w" "i < length (fl_replicas w)"
  shows "fleet_wf (replica_runs env i w)"
proof -
  let ?rs = "fl_replicas w" and ?srv = "fl_server w"
  obtain r srv where st: "attempt_step env (?rs ! i) ?srv = (r, srv)" by force
  have i: "replica_wf ?srv (?rs ! i)" using assms by (simp add: fleet_wf_def)
  have "server_wf ?srv" using assms(1) by (simp add: fleet_wf_def)
  from attempt_step_wf [OF this i st] have s: "server_wf srv" "replica_wf srv r" "others_kept (session_of (rp_pc (?rs ! i))) ?srv srv"
    and own: "session_of (rp_pc r) = None \<or> session_of (rp_pc r) = session_of (rp_pc (?rs ! i)) \<or> session_of (rp_pc r) = Some (ls_next ?srv)"
    by auto
  have j: "replica_wf ?srv (?rs ! j)" if "j < length ?rs" for j using assms(1) that by (simp add: fleet_wf_def)
  have ap: "session_of (rp_pc (?rs ! k)) = None \<or> session_of (rp_pc (?rs ! k)) \<noteq> session_of (rp_pc (?rs ! l))"
    if "k < length ?rs" "l < length ?rs" "k \<noteq> l" for k l using assms(1) that by (simp add: fleet_wf_def apart_def)
  have others: "replica_wf srv (?rs ! j)" if "j < length ?rs" "j \<noteq> i" for j
    using others_replica_wf [OF s(3) j [OF that(1)]] ap [OF that(1) assms(2) that(2)] by blast
  have old: "session_of (rp_pc (?rs ! j)) \<noteq> Some (ls_next ?srv)" if "j < length ?rs" for j
    using j [OF that] unfolding replica_wf_def by auto
  have new: "session_of (rp_pc r) = None \<or> session_of (rp_pc r) \<noteq> session_of (rp_pc (?rs ! j))" if "j < length ?rs" "j \<noteq> i" for j
    using own old [OF that(1)] ap [OF assms(2) that(1)] that(2) by metis
  have "apart (?rs[i := r])" unfolding apart_def
  proof (intro allI impI)
    fix k l assume kl: "k < length (?rs[i := r])" "l < length (?rs[i := r])" "k \<noteq> l"
    show "session_of (rp_pc (?rs[i := r] ! k)) = None \<or> session_of (rp_pc (?rs[i := r] ! k)) \<noteq> session_of (rp_pc (?rs[i := r] ! l))"
      using kl ap [of k l] new [of k] new [of l] by (cases "k = i"; cases "l = i") (auto simp: nth_list_update)
  qed
  moreover have "replica_wf srv x" if x: "x \<in> set (?rs[i := r])" for x
  proof -
    from x obtain k where k: "k < length (?rs[i := r])" "x = ?rs[i := r] ! k" by (auto simp: in_set_conv_nth)
    then show ?thesis using s(2) others [of k] by (cases "k = i") auto
  qed
  ultimately show ?thesis using s(1) by (simp add: replica_runs_def st fleet_wf_def)
qed

lemma fleet_wf_replace:
  assumes "fleet_wf w" "i < length (fl_replicas w)" "replica_wf (fl_server w) r"
    and "session_of (rp_pc r) = None \<or> session_of (rp_pc r) = session_of (rp_pc (fl_replicas w ! i))"
  shows "fleet_wf (w\<lparr>fl_replicas := (fl_replicas w)[i := r]\<rparr>)"
proof -
  have "apart ((fl_replicas w)[i := r])"
    unfolding apart_def
  proof (intro allI impI)
    fix k l assume kl: "k < length ((fl_replicas w)[i := r])" "l < length ((fl_replicas w)[i := r])" "k \<noteq> l"
    have ap: "session_of (rp_pc (fl_replicas w ! m)) = None \<or> session_of (rp_pc (fl_replicas w ! m)) \<noteq> session_of (rp_pc (fl_replicas w ! n))"
      if "m < length (fl_replicas w)" "n < length (fl_replicas w)" "m \<noteq> n" for m n using assms(1) that by (simp add: fleet_wf_def apart_def)
    show "session_of (rp_pc ((fl_replicas w)[i := r] ! k)) = None \<or>
        session_of (rp_pc ((fl_replicas w)[i := r] ! k)) \<noteq> session_of (rp_pc ((fl_replicas w)[i := r] ! l))"
      using kl assms(4) ap [of k l] by (cases "k = i"; cases "l = i") auto
  qed
  moreover have "replica_wf (fl_server w) x" if "x \<in> set ((fl_replicas w)[i := r])" for x
    using set_update_subset_insert [of "fl_replicas w" i r] that assms(1,3) by (auto simp: fleet_wf_def)
  ultimately show ?thesis using assms(1) by (simp add: fleet_wf_def)
qed

lemma end_session_wf:
  "server_wf srv \<Longrightarrow> server_wf (end_session sid srv)" "replica_wf srv r \<Longrightarrow> replica_wf (end_session sid srv) r"
  by (auto simp: server_wf_def replica_wf_def end_session_def)

lemma fleet_step_wf: "fleet_step w u w' \<Longrightarrow> fleet_wf w \<Longrightarrow> fleet_wf w'"
proof (induction rule: fleet_step.induct)
  case (drop w u sid)
  then show ?case using end_session_wf by (simp add: fleet_wf_def)
next
  case (crash i w u)
  have "replica_wf (fl_server w) fresh_replica"
    by (auto simp: replica_wf_def fresh_replica_def elector_wf_New) (simp add: New_elector_def)
  then show ?case by (rule fleet_wf_replace [OF crash(2,1)]) (simp add: fresh_replica_def)
next
  case (receive i w u)
  have "replica_wf (fl_server w) (fl_replicas w ! i)" using receive by (simp add: fleet_wf_def)
  then show ?case by (intro fleet_wf_replace [OF receive(2,1)]) (auto simp: replica_wf_def elector_wf_def)
qed (rule replica_runs_wf)

interpretation fleet: state_machine fleet_start fleet_step fleet_wf
proof
  show "fleet_wf w" if "fleet_start w" for w
  proof -
    have "replica_wf srv fresh_replica" for srv
      by (auto simp: replica_wf_def fresh_replica_def elector_wf_New) (simp add: New_elector_def)
    moreover have "session_of (rp_pc (fl_replicas w ! i)) = None" if "i < length (fl_replicas w)" for i
    proof -
      have "fl_replicas w ! i = fresh_replica" using \<open>fleet_start w\<close> nth_mem [OF that] unfolding fleet_start_def by blast
      then show ?thesis by (simp add: fresh_replica_def)
    qed
    then have "apart (fl_replicas w)" by (simp add: apart_def)
    ultimately show ?thesis using that by (auto simp: fleet_start_def fleet_wf_def server_wf_def)
  qed
qed (use fleet_step_wf in blast)


text \<open>A follower takes over in three steps once nobody holds the lock.\<close>

definition good_env :: attempt_env where
  "good_env = \<lparr>ae_done = False, ae_tick = True, ae_open = None, ae_try = None, ae_alive = None, ae_release = None, ae_close = True\<rparr>"

definition two_replicas :: fleet where
  "two_replicas = \<lparr>fl_replicas = [fresh_replica, fresh_replica], fl_server = \<lparr>ls_sessions = [], ls_next = 0, ls_holder = None\<rparr>\<rparr>"

definition elect :: "nat \<Rightarrow> fleet \<Rightarrow> fleet" where
  "elect i w = replica_runs good_env i (replica_runs good_env i (replica_runs good_env i w))"

lemma elect_reach: "fleet.reach w \<Longrightarrow> i < length (fl_replicas w) \<Longrightarrow> fleet.reach (elect i w)"
proof -
  have len: "length (fl_replicas (replica_runs env i w)) = length (fl_replicas w)" for env i w
    by (simp add: replica_runs_def split: prod.split)
  show "fleet.reach w \<Longrightarrow> i < length (fl_replicas w) \<Longrightarrow> fleet.reach (elect i w)"
    unfolding elect_def by (intro fleet.reach_step [OF _ fleet_step.run]) (simp_all add: len)
qed

lemma two_replicas_reach: "fleet.reach two_replicas"
  by (rule fleet.reach_start) (simp add: fleet_start_def two_replicas_def)


text \<open>
  Between the end of a session on the server and the next keepalive both the old and the new leader
  report themselves: the lock alone does not make the reconcilers exclusive.
\<close>

definition split_fleet :: fleet where
  "split_fleet = elect 1 ((elect 0 two_replicas)\<lparr>fl_server := end_session 0 (fl_server (elect 0 two_replicas))\<rparr>)"

theorem two_leaders_after_drop:
  "fleet.reach split_fleet \<and> el_isLeader (rp_elector (fl_replicas split_fleet ! 0)) \<and> el_isLeader (rp_elector (fl_replicas split_fleet ! 1))"
proof -
  have "fleet.reach (elect 0 two_replicas)" using elect_reach [OF two_replicas_reach, of 0] by (simp add: two_replicas_def)
  then have d: "fleet.reach ((elect 0 two_replicas)\<lparr>fl_server := end_session 0 (fl_server (elect 0 two_replicas))\<rparr>)"
    by (rule fleet.reach_step [OF _ fleet_step.drop])
  have "1 < length (fl_replicas ((elect 0 two_replicas)\<lparr>fl_server := end_session 0 (fl_server (elect 0 two_replicas))\<rparr>))" by code_simp
  with elect_reach [OF d] have "fleet.reach split_fleet" by (simp add: split_fleet_def)
  moreover have "el_isLeader (rp_elector (fl_replicas split_fleet ! 0))" "el_isLeader (rp_elector (fl_replicas split_fleet ! 1))"
    by code_simp+
  ultimately show ?thesis by blast
qed

end
