(* ===== verification/Idle.thy ===== *)
theory Idle
  imports Runs Worker Drs PlacementStore
begin

text \<open>
  Idle machines: the evaluator that suspends them (\<open>internal/provisioner/idle_eval.go\<close>), the job that
  suspends one (\<open>internal/provisioner/suspend.go\<close>), the power operations
  (\<open>internal/provisioner/power.go\<close>), the expiry of pods (\<open>internal/provisioner/expiration.go\<close>) and their
  queries (\<open>internal/database/reconcile.go\<close>, \<open>internal/database/queries.go\<close>).
\<close>

section \<open>Dry run\<close>

datatype dry_run_outcome = DryRunOnDefault | DryRunOffExplicit | DryRunOnUnrecognised

record dry_run_result =
  dr_DryRun :: bool
  dr_Outcome :: dry_run_outcome
  dr_Raw :: string

text \<open>
  \<open>strings.EqualFold\<close> against an ASCII text without the letter k: upper case letters fold to lower
  case, and so does the long s (U+017F, two bytes) to s.
\<close>

definition lower_case :: "char \<Rightarrow> char" where
  "lower_case c = (let n = (of_char c :: nat) in if 65 \<le> n \<and> n \<le> 90 then char_of (n + 32) else c)"

fun fold_case :: "string \<Rightarrow> string" where
  "fold_case [] = []"
| "fold_case [c] = [lower_case c]"
| "fold_case (c # d # cs) = (if c = CHR 0xC5 \<and> d = CHR 0xBF then CHR ''s'' # fold_case cs else lower_case c # fold_case (d # cs))"

definition ParseDryRunEnv :: "string \<Rightarrow> dry_run_result" where
  "ParseDryRunEnv v =
     (if v = [] then \<lparr>dr_DryRun = True, dr_Outcome = DryRunOnDefault, dr_Raw = v\<rparr>
      else if fold_case v = ''false'' then \<lparr>dr_DryRun = False, dr_Outcome = DryRunOffExplicit, dr_Raw = v\<rparr>
      else \<lparr>dr_DryRun = True, dr_Outcome = DryRunOnUnrecognised, dr_Raw = v\<rparr>)"

section \<open>Queries\<close>

text \<open>
  The tables, the rows of \<open>suspend_settings\<close> (a pod, or none for the global one, and its seconds) and
  the calls vCenter has carried out.
\<close>

record idle_world =
  iw_store :: run_store
  iw_settings :: "(uuid option \<times> int) list"
  iw_calls :: "(string \<times> moref) list"

abbreviation iw_db :: "idle_world \<Rightarrow> database" where "iw_db w \<equiv> rs_db (iw_store w)"

definition on_vms :: "(pod_vm list \<Rightarrow> pod_vm list) \<Rightarrow> idle_world \<Rightarrow> idle_world" where
  "on_vms f w = w\<lparr>iw_store := (iw_store w)\<lparr>rs_db := (iw_db w)\<lparr>db_pod_vms := f (db_pod_vms (iw_db w))\<rparr>\<rparr>\<rparr>"

definition called :: "string \<Rightarrow> moref \<Rightarrow> idle_world \<Rightarrow> idle_world" where
  "called op m w = w\<lparr>iw_calls := (op, m) # iw_calls w\<rparr>"

record idle_candidate =
  ic_PodVMID :: uuid
  ic_PodID :: uuid
  ic_PodStatus :: string
  ic_VCenterVMID :: string
  ic_DisplayName :: string
  ic_LastActivityAt :: "go_time option"

definition ListRunningPodVMsForIdleEval :: "go_error option \<Rightarrow> idle_world \<Rightarrow> idle_candidate list result" where
  "ListRunningPodVMsForIdleEval flt w =
     (case flt of
        Some e \<Rightarrow> Inl e
      | None \<Rightarrow>
          Inr [\<lparr>ic_PodVMID = pv_ID v, ic_PodID = pv_PodID v, ic_PodStatus = pd_status p,
                ic_VCenterVMID = (case pv_VCenterVMID v of None \<Rightarrow> [] | Some m \<Rightarrow> m), ic_DisplayName = pv_DisplayName v,
                ic_LastActivityAt = Some (case pv_LastActivityAt v of None \<Rightarrow> pv_CreatedAt v | Some t \<Rightarrow> t)\<rparr>.
               v \<leftarrow> db_pod_vms (iw_db w), p \<leftarrow> db_pods (iw_db w),
               pv_PodID v = pd_id p \<and> pv_Status v = ''running'' \<and> pd_status p = ''active'' \<and>
               pv_VCenterVMID v \<noteq> None \<and> pv_VCenterVMID v \<noteq> Some []])"

definition IdleSuspendCandidateStillEligible :: "uuid \<Rightarrow> idle_world \<Rightarrow> bool" where
  "IdleSuspendCandidateStillEligible podVMID w \<longleftrightarrow>
     (\<exists>v \<in> set (db_pod_vms (iw_db w)). \<exists>p \<in> set (db_pods (iw_db w)).
        pd_id p = pv_PodID v \<and> pv_ID v = podVMID \<and> pv_Status v = ''running'' \<and> pd_status p = ''active'')"

text \<open>The single-statement updates of a machine's row.\<close>

definition vm_update :: "go_error option \<Rightarrow> uuid \<Rightarrow> (pod_vm \<Rightarrow> pod_vm) \<Rightarrow> idle_world \<Rightarrow> unit result \<times> idle_world" where
  "vm_update flt i f = run_tx flt (\<lambda>w. Inr ((), on_vms (sql_update (\<lambda>v. pv_ID v = i) f) w))"

definition TouchVMActivityAt :: "go_error option \<Rightarrow> uuid \<Rightarrow> go_time \<Rightarrow> idle_world \<Rightarrow> unit result \<times> idle_world" where
  "TouchVMActivityAt flt i t = vm_update flt i (\<lambda>v. v\<lparr>pv_LastActivityAt := Some t\<rparr>)"

definition SetVMSuspended :: "go_error option \<Rightarrow> uuid \<Rightarrow> go_time \<Rightarrow> string \<Rightarrow> idle_world \<Rightarrow> unit result \<times> idle_world" where
  "SetVMSuspended flt i t reason =
     vm_update flt i (\<lambda>v. v\<lparr>pv_Status := ''suspended'', pv_SuspendedAt := Some t, pv_SuspendReason := Some reason\<rparr>)"

definition ClearVMSuspendedAt :: "go_error option \<Rightarrow> uuid \<Rightarrow> idle_world \<Rightarrow> unit result \<times> idle_world" where
  "ClearVMSuspendedAt flt i = vm_update flt i (\<lambda>v. v\<lparr>pv_SuspendedAt := None, pv_SuspendReason := None\<rparr>)"

definition UpdatePodVMStatus :: "go_error option \<Rightarrow> uuid \<Rightarrow> string \<Rightarrow> idle_world \<Rightarrow> unit result \<times> idle_world" where
  "UpdatePodVMStatus flt i status = vm_update flt i (\<lambda>v. v\<lparr>pv_Status := status\<rparr>)"

definition UpdatePodVMStatusFrom ::
  "go_error option \<Rightarrow> uuid \<Rightarrow> string list \<Rightarrow> string \<Rightarrow> idle_world \<Rightarrow> bool result \<times> idle_world" where
  "UpdatePodVMStatusFrom flt i fromStatuses status =
     run_tx flt (\<lambda>w.
       let P = (\<lambda>v. pv_ID v = i \<and> pv_Status v \<in> set fromStatuses) in
       Inr (sql_count P (db_pod_vms (iw_db w)) > 0, on_vms (sql_update P (\<lambda>v. v\<lparr>pv_Status := status\<rparr>)) w))"

definition HasActiveJobForVM :: "(uuid \<Rightarrow> string) \<Rightarrow> uuid \<Rightarrow> idle_world \<Rightarrow> bool" where
  "HasActiveJobForVM ustr podVMID w \<longleftrightarrow>
     (\<exists>j \<in> set (db_jobs (iw_db w)). pget (j_Payload j) ''pod_vm_id'' = Some (JStr (ustr podVMID)) \<and>
        j_Status j \<noteq> JobStatusCompleted \<and> j_Status j \<noteq> JobStatusFailed)"

definition HasInFlightRunForVM :: "uuid \<Rightarrow> idle_world \<Rightarrow> bool" where
  "HasInFlightRunForVM podVMID w \<longleftrightarrow>
     (\<exists>r \<in> set (rs_runs (iw_store w)). rn_TargetPodVMID r = Some podVMID \<and> \<not> terminal_run (rn_Status r))"

abbreviation DefaultIdleTimeoutSeconds :: int where "DefaultIdleTimeoutSeconds \<equiv> 7200"

definition GetIdleTimeoutSeconds :: "go_error option \<Rightarrow> uuid \<Rightarrow> idle_world \<Rightarrow> int result" where
  "GetIdleTimeoutSeconds flt podID w =
     (case flt of
        Some e \<Rightarrow> Inl e
      | None \<Rightarrow>
          (case map_of (iw_settings w) (Some podID) of
             Some n \<Rightarrow> Inr n
           | None \<Rightarrow>
               (case map_of (iw_settings w) None of Some n \<Rightarrow> Inr n | None \<Rightarrow> Inr DefaultIdleTimeoutSeconds)))"

section \<open>The evaluator\<close>

abbreviation cpuIdleThreshold :: int where "cpuIdleThreshold \<equiv> 500"
abbreviation netIdleThreshold :: int where "netIdleThreshold \<equiv> 10"

record perf_sample =
  ps_CPUUsage :: int
  ps_NetUsage :: int
  ps_Valid :: bool

record vm_idle_state =
  vi_ToolsRunning :: bool
  vi_PowerState :: string

text \<open>
  \<open>ie_flt q i\<close> is the failure of query \<open>q\<close> for machine \<open>i\<close>; \<open>ie_between i\<close> what other processes do to the
  tables before machine \<open>i\<close> is looked at; \<open>ie_suspend\<close> the answer of vCenter to a suspension.
\<close>

record idle_env =
  ie_now :: go_time
  ie_DryRun :: bool
  ie_ustr :: "uuid \<Rightarrow> string"
  ie_list :: "go_error option"
  ie_flt :: "string \<Rightarrow> uuid \<Rightarrow> go_error option"
  ie_states :: "(moref \<Rightarrow> vm_idle_state option) result"
  ie_perf :: "(moref \<Rightarrow> perf_sample option) result"
  ie_suspend :: "moref \<Rightarrow> go_error option"
  ie_between :: "uuid \<Rightarrow> idle_world \<Rightarrow> idle_world"

record idle_counts =
  cn_Candidates :: nat
  cn_Skipped :: nat
  cn_ToolsMissing :: nat
  cn_PerfMissing :: nat
  cn_ActivityFresh :: nat
  cn_ActivityUnknown :: nat
  cn_RefusedJob :: nat
  cn_RefusedPod :: nat
  cn_RefusedRun :: nat
  cn_Suspended :: nat
  cn_PowerSynced :: nat
  cn_Errors :: nat

definition no_counts :: idle_counts where
  "no_counts = \<lparr>cn_Candidates = 0, cn_Skipped = 0, cn_ToolsMissing = 0, cn_PerfMissing = 0, cn_ActivityFresh = 0,
     cn_ActivityUnknown = 0, cn_RefusedJob = 0, cn_RefusedPod = 0, cn_RefusedRun = 0, cn_Suspended = 0, cn_PowerSynced = 0,
     cn_Errors = 0\<rparr>"

abbreviation add_error :: "idle_counts \<Rightarrow> idle_counts" where "add_error k \<equiv> k\<lparr>cn_Errors := cn_Errors k + 1\<rparr>"

definition syncedVMStatus :: "string \<Rightarrow> string option" where
  "syncedVMStatus ps =
     (if ps = ''poweredOff'' then Some ''stopped'' else if ps = ''suspended'' then Some ''suspended'' else None)"

definition syncPowerState :: "idle_env \<Rightarrow> uuid \<Rightarrow> string \<Rightarrow> idle_counts \<times> idle_world \<Rightarrow> idle_counts \<times> idle_world" where
  "syncPowerState env podVMID status kw =
     (case kw of (k, w) \<Rightarrow>
        if ie_flt env ''HasActiveJobForVM'' podVMID \<noteq> None then (add_error k, w)
        else if HasActiveJobForVM (ie_ustr env) podVMID w then (k\<lparr>cn_RefusedJob := cn_RefusedJob k + 1\<rparr>, w)
        else if ie_DryRun env then (k\<lparr>cn_PowerSynced := cn_PowerSynced k + 1\<rparr>, w)
        else
          (case UpdatePodVMStatusFrom (ie_flt env ''UpdatePodVMStatusFrom'' podVMID) podVMID [''running''] status w of
             (Inl _, w') \<Rightarrow> (add_error k, w')
           | (Inr changed, w') \<Rightarrow> (if changed then k\<lparr>cn_PowerSynced := cn_PowerSynced k + 1\<rparr> else k, w')))"

text \<open>The reason that is stored; the durations in it are left out.\<close>

definition suspend_reason :: "bool \<Rightarrow> string" where
  "suspend_reason toolsUp =
     (if toolsUp then ''idle: no console activity and low CPU/net''
      else ''idle: no console activity and VMware Tools is not running'')"

text \<open>The guards, once the clock has run out, and the suspension.\<close>

definition suspend_idle :: "idle_env \<Rightarrow> idle_candidate \<Rightarrow> bool \<Rightarrow> idle_counts \<times> idle_world \<Rightarrow> idle_counts \<times> idle_world" where
  "suspend_idle env c toolsUp kw =
     (case kw of (k, w) \<Rightarrow>
        if ic_PodStatus c \<noteq> ''active'' then (k\<lparr>cn_RefusedPod := cn_RefusedPod k + 1\<rparr>, w)
        else if ie_flt env ''HasActiveJobForVM'' (ic_PodVMID c) \<noteq> None then (add_error k, w)
        else if HasActiveJobForVM (ie_ustr env) (ic_PodVMID c) w then (k\<lparr>cn_RefusedJob := cn_RefusedJob k + 1\<rparr>, w)
        else if ie_flt env ''HasInFlightRunForVM'' (ic_PodVMID c) \<noteq> None then (add_error k, w)
        else if HasInFlightRunForVM (ic_PodVMID c) w then (k\<lparr>cn_RefusedRun := cn_RefusedRun k + 1\<rparr>, w)
        else if ie_DryRun env then (k\<lparr>cn_Suspended := cn_Suspended k + 1\<rparr>, w)
        else if ie_flt env ''IdleSuspendCandidateStillEligible'' (ic_PodVMID c) \<noteq> None \<or>
                \<not> IdleSuspendCandidateStillEligible (ic_PodVMID c) w then (add_error k, w)
        else if ie_suspend env (ic_VCenterVMID c) \<noteq> None then (add_error k, w)
        else
          (case SetVMSuspended (ie_flt env ''SetVMSuspended'' (ic_PodVMID c)) (ic_PodVMID c) (ie_now env) (suspend_reason toolsUp)
                  (called ''suspend'' (ic_VCenterVMID c) w) of
             (Inl _, w') \<Rightarrow> (k\<lparr>cn_Errors := cn_Errors k + 1, cn_Suspended := cn_Suspended k + 1\<rparr>, w')
           | (Inr _, w') \<Rightarrow> (k\<lparr>cn_Suspended := cn_Suspended k + 1\<rparr>, w')))"

text \<open>The clock of a machine whose latest sample does not show it at work.\<close>

definition check_clock :: "idle_env \<Rightarrow> idle_candidate \<Rightarrow> bool \<Rightarrow> idle_counts \<times> idle_world \<Rightarrow> idle_counts \<times> idle_world" where
  "check_clock env c toolsUp kw =
     (case kw of (k, w) \<Rightarrow>
        let timeoutSecs = (case GetIdleTimeoutSeconds (ie_flt env ''GetIdleTimeoutSeconds'' (ic_PodVMID c)) (ic_PodID c) w of
                             Inl _ \<Rightarrow> DefaultIdleTimeoutSeconds | Inr n \<Rightarrow> n) in
        (case ic_LastActivityAt c of
           None \<Rightarrow> (k\<lparr>cn_ActivityUnknown := cn_ActivityUnknown k + 1\<rparr>, w)
         | Some t \<Rightarrow>
             if ie_now env - t < seconds timeoutSecs
             then (if \<not> toolsUp then k\<lparr>cn_ToolsMissing := cn_ToolsMissing k + 1\<rparr>
                   else k\<lparr>cn_ActivityFresh := cn_ActivityFresh k + 1\<rparr>, w)
             else suspend_idle env c toolsUp (k, w)))"

definition eval_candidate ::
  "idle_env \<Rightarrow> (moref \<Rightarrow> vm_idle_state option) \<Rightarrow> (moref \<Rightarrow> perf_sample option) \<Rightarrow> idle_candidate
     \<Rightarrow> idle_counts \<times> idle_world \<Rightarrow> idle_counts \<times> idle_world" where
  "eval_candidate env states perfs c kw =
     (case kw of (k, w0) \<Rightarrow>
        if ic_VCenterVMID c = [] then (k, w0)
        else
          let w = ie_between env (ic_PodVMID c) w0 in
          (case states (ic_VCenterVMID c) of
             None \<Rightarrow> (k\<lparr>cn_ToolsMissing := cn_ToolsMissing k + 1\<rparr>, w)
           | Some state \<Rightarrow>
               (case syncedVMStatus (vi_PowerState state) of
                  Some synced \<Rightarrow> syncPowerState env (ic_PodVMID c) synced (k, w)
                | None \<Rightarrow>
                    if \<not> vi_ToolsRunning state then check_clock env c False (k, w)
                    else
                      (case perfs (ic_VCenterVMID c) of
                         None \<Rightarrow> (k\<lparr>cn_PerfMissing := cn_PerfMissing k + 1\<rparr>, w)
                       | Some perf \<Rightarrow>
                           if \<not> ps_Valid perf then (k\<lparr>cn_PerfMissing := cn_PerfMissing k + 1\<rparr>, w)
                           else if cpuIdleThreshold \<le> ps_CPUUsage perf \<or> netIdleThreshold \<le> ps_NetUsage perf
                           then
                             (case TouchVMActivityAt (ie_flt env ''TouchVMActivityAt'' (ic_PodVMID c)) (ic_PodVMID c) (ie_now env) w of
                                (Inl _, w') \<Rightarrow> (k\<lparr>cn_Errors := cn_Errors k + 1, cn_ActivityFresh := cn_ActivityFresh k + 1\<rparr>, w')
                              | (Inr _, w') \<Rightarrow> (k\<lparr>cn_ActivityFresh := cn_ActivityFresh k + 1\<rparr>, w'))
                           else check_clock env c True (k, w)))))"

definition evaluateIdleVMs :: "idle_env \<Rightarrow> idle_world \<Rightarrow> (go_error option \<times> idle_counts) \<times> idle_world" where
  "evaluateIdleVMs env w =
     (case ListRunningPodVMsForIdleEval (ie_list env) w of
        Inl e \<Rightarrow> ((Some (Errorf ''list idle candidates'' [e]), no_counts), w)
      | Inr candidates \<Rightarrow>
          let k0 = no_counts\<lparr>cn_Candidates := length candidates\<rparr>;
              morefs = filter (\<lambda>m. m \<noteq> []) (map ic_VCenterVMID candidates);
              k = k0\<lparr>cn_Skipped := length candidates - length morefs\<rparr>;
              skip_all = k\<lparr>cn_Skipped := cn_Skipped k + length morefs\<rparr>
          in if candidates = [] then ((None, k0), w)
             else if morefs = [] then ((None, k), w)
             else
               (case ie_states env of
                  Inl e \<Rightarrow> ((Some e, skip_all), w)
                | Inr states \<Rightarrow>
                    (case ie_perf env of
                       Inl e \<Rightarrow> ((Some e, skip_all), w)
                     | Inr perfs \<Rightarrow>
                         (case fold (eval_candidate env states perfs) candidates (k, w) of (k', w') \<Rightarrow> ((None, k'), w')))))"

section \<open>Suspending and power operations as jobs\<close>

text \<open>\<open>pe_call op m\<close> is the answer of vCenter to a power operation on machine \<open>m\<close>.\<close>

record power_env =
  pe_now :: go_time
  pe_uparse :: "string \<Rightarrow> uuid option"
  pe_flt :: "string \<Rightarrow> go_error option"
  pe_vc :: vcenter
  pe_client :: client
  pe_call :: "string \<Rightarrow> moref \<Rightarrow> go_error option"

definition validatePersistedVMPlacement :: "power_env \<Rightarrow> uuid \<Rightarrow> moref \<Rightarrow> database \<Rightarrow> go_error option" where
  "validatePersistedVMPlacement env podVMID mref db =
     (case pe_flt env ''GetVMPlacement'' of
        Some e \<Rightarrow> Some (Errorf ''load durable VM placement'' [e])
      | None \<Rightarrow>
          classifyPlacementValidationFailure
            (case GetVMPlacement podVMID db of
               None \<Rightarrow> ValidateVMPlacement (pe_vc env) (pe_client env) mref []
             | Some p \<Rightarrow> ValidateVMPlacementControl (pe_vc env) (pe_client env) mref (vp_HostMoref p) (vp_ComputeResourceType p)
                          (vp_ComputeResourceMoref p) (vp_DRSControl p)))"

definition ignoreMissingVMPlacementForPowerOff :: "string \<Rightarrow> go_error \<Rightarrow> bool" where
  "ignoreMissingVMPlacementForPowerOff action e \<longleftrightarrow> action = ''stop'' \<and> IsVMNotFoundError (Some e)"

text \<open>The machine of a job: its payload, its row and its reference.\<close>

definition job_vm :: "power_env \<Rightarrow> payload \<Rightarrow> string list \<Rightarrow> string \<Rightarrow> idle_world \<Rightarrow> (pod_vm \<times> moref) result" where
  "job_vm env payload keys parse_msg w =
     (case find isl (map (payload_text payload) keys) of
        Some (Inl e) \<Rightarrow> Inl (Errorf parse_msg [e])
      | _ \<Rightarrow>
          (case payload_text payload ''pod_vm_id'' of
             Inl e \<Rightarrow> Inl (Errorf parse_msg [e])
           | Inr text \<Rightarrow>
               (case pe_uparse env text of
                  None \<Rightarrow> Inl (errorsNew ''invalid pod_vm_id'')
                | Some podVMID \<Rightarrow>
                    (case pe_flt env ''GetPodVM'' of
                       Some e \<Rightarrow> Inl (Errorf ''get VM'' [e])
                     | None \<Rightarrow>
                         (case find (\<lambda>v. pv_ID v = podVMID) (db_pod_vms (iw_db w)) of
                            None \<Rightarrow> Inl (Errorf ''get VM'' [Sentinel pgx_ErrNoRows])
                          | Some v \<Rightarrow>
                              (case pv_VCenterVMID v of
                                 None \<Rightarrow> Inl (errorsNew ''VM has no vCenter reference'')
                               | Some m \<Rightarrow> if m = [] then Inl (errorsNew ''VM has no vCenter reference'') else Inr (v, m)))))))"

definition SuspendVM_job :: "power_env \<Rightarrow> payload \<Rightarrow> idle_world \<Rightarrow> go_error option \<times> idle_world" where
  "SuspendVM_job env payload w =
     (case job_vm env payload [''pod_id'', ''pod_vm_id'', ''reason''] ''parse vm_suspend payload'' w of
        Inl e \<Rightarrow> (Some e, w)
      | Inr (v, moref) \<Rightarrow>
          (case find (\<lambda>p. pd_id p = pv_PodID v) (db_pods (iw_db w)) of
             None \<Rightarrow> (Some (errorsNew ''vm_suspend: pod owner unavailable''), w)
           | Some pod \<Rightarrow>
               if pe_flt env ''GetPodByID'' \<noteq> None \<or> \<not> list_ex (\<lambda>u. us_ID u = pd_user_id pod) (db_users (iw_db w))
               then (Some (errorsNew ''vm_suspend: pod owner unavailable''), w)
               else if pd_status pod \<noteq> ''active'' \<or> pv_Status v \<noteq> ''running''
               then (Some (errorsNew ''vm_suspend: idle suspension no longer applies''), w)
               else
                 (case validatePersistedVMPlacement env (pv_ID v) moref (iw_db w) of
                    Some e \<Rightarrow> (Some (Errorf ''refuse suspend for VM after placement validation failed'' [e]), w)
                  | None \<Rightarrow>
                      let reason = (case payload_text payload ''reason'' of Inr r \<Rightarrow> if r = [] then ''manual suspend'' else r | Inl _ \<Rightarrow> [])
                      in (case pe_call env ''suspend'' moref of
                            Some e \<Rightarrow> (Some (Errorf ''failed to suspend'' [e]), w)
                          | None \<Rightarrow>
                              (case SetVMSuspended (pe_flt env ''SetVMSuspended'') (pv_ID v) (pe_now env) reason (called ''suspend'' moref w) of
                                 (Inl e, w') \<Rightarrow> (Some (Errorf ''record suspend'' [e]), w')
                               | (Inr _, w') \<Rightarrow> (None, w'))))))"

text \<open>A power operation: vCenter first; the errors of the rows are dropped.\<close>

definition power_call :: "power_env \<Rightarrow> string \<Rightarrow> string \<Rightarrow> uuid \<Rightarrow> moref \<Rightarrow> string \<Rightarrow> idle_world \<Rightarrow> go_error option \<times> idle_world" where
  "power_call env action msg i moref status w =
     (case pe_call env action moref of
        Some e \<Rightarrow> (Some (Errorf msg [e]), w)
      | None \<Rightarrow> (None, snd (UpdatePodVMStatus (pe_flt env ''UpdatePodVMStatus'') i status (called action moref w))))"

definition PowerVM :: "power_env \<Rightarrow> payload \<Rightarrow> string \<Rightarrow> idle_world \<Rightarrow> go_error option \<times> idle_world" where
  "PowerVM env payload action w =
     (case job_vm env payload [''pod_id'', ''pod_vm_id''] ''parse power payload'' w of
        Inl e \<Rightarrow> (Some e, w)
      | Inr (v, moref) \<Rightarrow>
          (case validatePersistedVMPlacement env (pv_ID v) moref (iw_db w) of
             Some e \<Rightarrow>
               if \<not> ignoreMissingVMPlacementForPowerOff action e
               then (Some (Errorf ''refuse power operation after placement validation failed'' [e]), w)
               else power_call env action ''failed to stop'' (pv_ID v) moref ''stopped'' w
           | None \<Rightarrow>
               if action = ''start''
               then (case power_call env action ''failed to start'' (pv_ID v) moref ''running'' w of
                       (Some e, w') \<Rightarrow> (Some e, w')
                     | (None, w') \<Rightarrow> (None, snd (ClearVMSuspendedAt (pe_flt env ''ClearVMSuspendedAt'') (pv_ID v) w')))
               else if action = ''stop'' then power_call env action ''failed to stop'' (pv_ID v) moref ''stopped'' w
               else if action = ''restart'' then power_call env action ''failed to restart'' (pv_ID v) moref ''running'' w
               else if action = ''reset'' then power_call env action ''failed to reset'' (pv_ID v) moref ''running'' w
               else (Some (errorsNew ''unknown power action''), w)))"

section \<open>Expiry\<close>

definition ListExpiredPods :: "go_error option \<Rightarrow> go_time \<Rightarrow> database \<Rightarrow> uuid list result" where
  "ListExpiredPods flt now db =
     (case flt of
        Some e \<Rightarrow> Inl e
      | None \<Rightarrow> Inr [pd_id p. p \<leftarrow> db_pods db, pd_status p = ''active'' \<and> (case pd_expires_at p of None \<Rightarrow> False | Some t \<Rightarrow> t < now)])"

definition ListSuspendedPodsPastRetention :: "go_error option \<Rightarrow> go_time \<Rightarrow> database \<Rightarrow> uuid list result" where
  "ListSuspendedPodsPastRetention flt now db =
     (case flt of
        Some e \<Rightarrow> Inl e
      | None \<Rightarrow> Inr [pd_id p. p \<leftarrow> db_pods db, pd_status p = ''active'' \<and> suspended_too_long now (pd_id p) db = Inr True])"

text \<open>One pass: a destroy job for every listed pod. Its errors are logged and the next pod follows.\<close>

definition expire_one ::
  "(uuid \<Rightarrow> go_error option \<Rightarrow> uuid \<Rightarrow> payload \<Rightarrow> database \<Rightarrow> (job \<times> bool) result \<times> database) \<Rightarrow> (uuid \<Rightarrow> string)
     \<Rightarrow> (uuid \<Rightarrow> go_error option) \<Rightarrow> (uuid \<Rightarrow> uuid) \<Rightarrow> string \<Rightarrow> uuid \<Rightarrow> database \<Rightarrow> database" where
  "expire_one create ustr flt newID reason podID db =
     snd (create podID (flt podID) (newID podID) [(''pod_id'', JStr (ustr podID)), (''reason'', JStr reason)] db)"

definition expireStale ::
  "(uuid \<Rightarrow> string) \<Rightarrow> go_error option \<Rightarrow> go_error option \<Rightarrow> (uuid \<Rightarrow> go_error option) \<Rightarrow> (string \<Rightarrow> uuid \<Rightarrow> uuid) \<Rightarrow> go_time \<Rightarrow> database \<Rightarrow> database" where
  "expireStale ustr lflt sflt flt newID now db =
     (case ListExpiredPods lflt now db of
        Inl _ \<Rightarrow> db
      | Inr ids \<Rightarrow>
          let db1 = fold (expire_one (\<lambda>i f n. CreateExpiredPodDestroyJob ustr f n now i) ustr flt (newID ''expired'') ''expired'') ids db in
          (case ListSuspendedPodsPastRetention sflt now db1 of
             Inl _ \<Rightarrow> db1
           | Inr sids \<Rightarrow>
               fold (expire_one (\<lambda>i f n. CreateSuspendedPodDestroyJob ustr f n now i) ustr flt (newID ''suspended'') ''suspended_too_long'') sids db1))"

section \<open>What a suspension needs\<close>

text \<open>
  Everything the evaluator has to know of a machine before it suspends it, on the tables as they are at
  that moment.
\<close>

definition idle_at ::
  "idle_env \<Rightarrow> (moref \<Rightarrow> vm_idle_state option) \<Rightarrow> (moref \<Rightarrow> perf_sample option) \<Rightarrow> idle_candidate \<Rightarrow> idle_world \<Rightarrow> bool" where
  "idle_at env states perfs c w \<longleftrightarrow>
     (\<exists>st t. states (ic_VCenterVMID c) = Some st \<and> syncedVMStatus (vi_PowerState st) = None \<and>
        (vi_ToolsRunning st \<longrightarrow> (\<exists>p. perfs (ic_VCenterVMID c) = Some p \<and> ps_Valid p \<and>
           ps_CPUUsage p < cpuIdleThreshold \<and> ps_NetUsage p < netIdleThreshold)) \<and>
        ic_LastActivityAt c = Some t \<and>
        seconds (case GetIdleTimeoutSeconds (ie_flt env ''GetIdleTimeoutSeconds'' (ic_PodVMID c)) (ic_PodID c) w of
                   Inl _ \<Rightarrow> DefaultIdleTimeoutSeconds | Inr n \<Rightarrow> n) \<le> ie_now env - t) \<and>
     ic_PodStatus c = ''active'' \<and> \<not> HasActiveJobForVM (ie_ustr env) (ic_PodVMID c) w \<and>
     \<not> HasInFlightRunForVM (ic_PodVMID c) w \<and> IdleSuspendCandidateStillEligible (ic_PodVMID c) w"

lemma vm_update_calls [simp]: "iw_calls (snd (vm_update flt i f w)) = iw_calls w"
  by (cases flt) (simp_all add: vm_update_def run_tx_def on_vms_def)

lemma status_from_calls [simp]: "iw_calls (snd (UpdatePodVMStatusFrom flt i fs st w)) = iw_calls w"
  by (cases flt) (simp_all add: UpdatePodVMStatusFrom_def run_tx_def on_vms_def Let_def)

lemma sync_calls [simp]: "iw_calls (snd (syncPowerState env i st (k, w))) = iw_calls w"
proof -
  obtain r w' where u: "UpdatePodVMStatusFrom (ie_flt env ''UpdatePodVMStatusFrom'' i) i [''running''] st w = (r, w')" by force
  have "iw_calls w' = iw_calls w" using status_from_calls [of "ie_flt env ''UpdatePodVMStatusFrom'' i" i "[''running'']" st w] u by simp
  then show ?thesis unfolding syncPowerState_def prod.case u by (cases r) simp_all
qed

lemma suspend_idle_calls:
  "iw_calls (snd (suspend_idle env c up (k, w))) = iw_calls w \<or>
   iw_calls (snd (suspend_idle env c up (k, w))) = (''suspend'', ic_VCenterVMID c) # iw_calls w \<and> \<not> ie_DryRun env \<and>
     ic_PodStatus c = ''active'' \<and> \<not> HasActiveJobForVM (ie_ustr env) (ic_PodVMID c) w \<and>
     \<not> HasInFlightRunForVM (ic_PodVMID c) w \<and> IdleSuspendCandidateStillEligible (ic_PodVMID c) w"
proof -
  obtain r w' where s: "SetVMSuspended (ie_flt env ''SetVMSuspended'' (ic_PodVMID c)) (ic_PodVMID c) (ie_now env) (suspend_reason up)
      (called ''suspend'' (ic_VCenterVMID c) w) = (r, w')" by force
  have "iw_calls (snd (SetVMSuspended f i t m (called ''suspend'' (ic_VCenterVMID c) w))) = (''suspend'', ic_VCenterVMID c) # iw_calls w" for f i t m
    unfolding SetVMSuspended_def vm_update_calls by (simp add: called_def)
  from this [of "ie_flt env ''SetVMSuspended'' (ic_PodVMID c)" "ic_PodVMID c" "ie_now env" "suspend_reason up"]
  have "iw_calls w' = (''suspend'', ic_VCenterVMID c) # iw_calls w" unfolding s by simp
  then show ?thesis unfolding suspend_idle_def prod.case s by (cases r) simp_all
qed

lemma check_clock_calls:
  "iw_calls (snd (check_clock env c up (k, w))) = iw_calls w \<or>
   iw_calls (snd (check_clock env c up (k, w))) = (''suspend'', ic_VCenterVMID c) # iw_calls w \<and> \<not> ie_DryRun env \<and>
     (\<exists>t. ic_LastActivityAt c = Some t \<and>
        seconds (case GetIdleTimeoutSeconds (ie_flt env ''GetIdleTimeoutSeconds'' (ic_PodVMID c)) (ic_PodID c) w of
                   Inl _ \<Rightarrow> DefaultIdleTimeoutSeconds | Inr n \<Rightarrow> n) \<le> ie_now env - t) \<and>
     ic_PodStatus c = ''active'' \<and> \<not> HasActiveJobForVM (ie_ustr env) (ic_PodVMID c) w \<and>
     \<not> HasInFlightRunForVM (ic_PodVMID c) w \<and> IdleSuspendCandidateStillEligible (ic_PodVMID c) w"
proof (cases "ic_LastActivityAt c")
  case None
  then show ?thesis by (simp add: check_clock_def Let_def)
next
  case (Some t)
  then show ?thesis using suspend_idle_calls [of env c up k w] by (auto simp: check_clock_def Let_def)
qed

lemma eval_candidate_calls:
  assumes "\<And>i w. iw_calls (ie_between env i w) = iw_calls w"
  shows "iw_calls (snd (eval_candidate env states perfs c (k, w))) = iw_calls w \<or>
    iw_calls (snd (eval_candidate env states perfs c (k, w))) = (''suspend'', ic_VCenterVMID c) # iw_calls w \<and>
      \<not> ie_DryRun env \<and> (\<exists>u. idle_at env states perfs c u)"
proof -
  let ?u = "ie_between env (ic_PodVMID c) w"
  note clock = check_clock_calls [of env c _ k ?u, unfolded assms]
  have touch: "iw_calls (snd (TouchVMActivityAt f i t ?u)) = iw_calls w" for f i t by (simp add: TouchVMActivityAt_def assms)
  show ?thesis
  proof (cases "ic_VCenterVMID c = []")
    case True
    then show ?thesis by (simp add: eval_candidate_def)
  next
    case m: False
    show ?thesis
    proof (cases "states (ic_VCenterVMID c)")
      case None
      then show ?thesis using m assms by (simp add: eval_candidate_def Let_def)
    next
      case st: (Some st)
      show ?thesis
      proof (cases "syncedVMStatus (vi_PowerState st)")
        case (Some sy)
        then show ?thesis using m st assms by (simp add: eval_candidate_def Let_def)
      next
        case sy: None
        show ?thesis
        proof (cases "vi_ToolsRunning st")
          case False
          have "eval_candidate env states perfs c (k, w) = check_clock env c False (k, ?u)"
            using m st sy False by (simp add: eval_candidate_def Let_def)
          moreover have "idle_at env states perfs c ?u" if "\<not> iw_calls (snd (check_clock env c False (k, ?u))) = iw_calls w"
            using clock [of False] that st sy False unfolding idle_at_def by blast
          ultimately show ?thesis using clock [of False] by auto
        next
          case True
          show ?thesis
          proof (cases "perfs (ic_VCenterVMID c)")
            case None
            then show ?thesis using m st sy True assms by (simp add: eval_candidate_def Let_def)
          next
            case p: (Some p)
            show ?thesis
            proof (cases "ps_Valid p \<and> ps_CPUUsage p < cpuIdleThreshold \<and> ps_NetUsage p < netIdleThreshold")
              case v: True
              have "eval_candidate env states perfs c (k, w) = check_clock env c True (k, ?u)"
                using m st sy True p v by (simp add: eval_candidate_def Let_def)
              moreover have "idle_at env states perfs c ?u" if "\<not> iw_calls (snd (check_clock env c True (k, ?u))) = iw_calls w"
                using clock [of True] that st sy p v unfolding idle_at_def by blast
              ultimately show ?thesis using clock [of True] by auto
            next
              case False
              obtain r w' where t: "TouchVMActivityAt (ie_flt env ''TouchVMActivityAt'' (ic_PodVMID c)) (ic_PodVMID c) (ie_now env) ?u = (r, w')"
                by force
              have "iw_calls w' = iw_calls w"
                using touch [of "ie_flt env ''TouchVMActivityAt'' (ic_PodVMID c)" "ic_PodVMID c" "ie_now env"] unfolding t by simp
              then have "iw_calls (snd (eval_candidate env states perfs c (k, w))) = iw_calls w"
                using m st sy True p t assms False by (cases r) (simp_all add: eval_candidate_def Let_def not_less)
              then show ?thesis by simp
            qed
          qed
        qed
      qed
    qed
  qed
qed

lemma eval_fold_calls:
  assumes "\<And>i w. iw_calls (ie_between env i w) = iw_calls w"
  shows "\<exists>new. iw_calls (snd (fold (eval_candidate env states perfs) cs kw)) = new @ iw_calls (snd kw) \<and>
    (ie_DryRun env \<longrightarrow> new = []) \<and>
    (\<forall>x \<in> set new. \<exists>c \<in> set cs. x = (''suspend'', ic_VCenterVMID c) \<and> (\<exists>u. idle_at env states perfs c u))"
proof (induction cs arbitrary: kw)
  case (Cons c cs)
  obtain k w where kw: "kw = (k, w)" by force
  obtain new where new: "iw_calls (snd (fold (eval_candidate env states perfs) cs (eval_candidate env states perfs c (k, w)))) =
      new @ iw_calls (snd (eval_candidate env states perfs c (k, w)))" "ie_DryRun env \<longrightarrow> new = []"
    "\<forall>x \<in> set new. \<exists>c \<in> set cs. x = (''suspend'', ic_VCenterVMID c) \<and> (\<exists>u. idle_at env states perfs c u)"
    using Cons.IH by blast
  from eval_candidate_calls [OF assms, of states perfs c k w] show ?case
  proof (elim disjE conjE)
    assume "iw_calls (snd (eval_candidate env states perfs c (k, w))) = iw_calls w"
    then show ?thesis using new unfolding kw by (intro exI [of _ new]) auto
  next
    assume e: "iw_calls (snd (eval_candidate env states perfs c (k, w))) = (''suspend'', ic_VCenterVMID c) # iw_calls w"
      "\<not> ie_DryRun env" "\<exists>u. idle_at env states perfs c u"
    then show ?thesis using new unfolding kw by (intro exI [of _ "new @ [(''suspend'', ic_VCenterVMID c)]"]) auto
  qed
qed simp


section \<open>Examples\<close>

text \<open>A pod with one machine that has been quiet for three hours.\<close>

definition quiet_vm :: pod_vm where
  "quiet_vm =
     \<lparr>pv_ID = 6, pv_PodID = 2, pv_TemplateID = 9, pv_DisplayName = ''web'', pv_Status = ''running'', pv_CreatedAt = 0,
      pv_LastActivityAt = None, pv_SuspendedAt = None, pv_SuspendReason = None, pv_VCenterVMID = Some ''vm-6'',
      pv_VCenterVMName = None, pv_IPAddress = None, pv_VCPUs = 1, pv_RAMMB = 1024, pv_GeneratedUsername = [],
      pv_GeneratedPassword = [], pv_GuestCredentialsVerifiedAt = None, pv_GuestCredentialsVerifiedVMID = None\<rparr>"

definition idle_store :: "pod_vm \<Rightarrow> idle_world" where
  "idle_store v =
     \<lparr>iw_store = \<lparr>rs_db = empty_db\<lparr>db_pods := [\<lparr>pd_id = 2, pd_status = ''active'', pd_user_id = 3, pd_vlan_id = 347, pd_subnet = [],
           pd_network_mode = ''isolated'', pd_shared_network_id = None, pd_expires_at = None, pd_error_message = None, pd_updated_at = 0\<rparr>],
         db_pod_vms := [v]\<rparr>,
        rs_runs = [], rs_workflows = [], rs_playlist_workflows = [], rs_versions = [], rs_results = [], rs_leases = []\<rparr>,
      iw_settings = [], iw_calls = []\<rparr>"

definition pass_env :: "string \<Rightarrow> idle_env" where
  "pass_env state =
     \<lparr>ie_now = seconds 10800, ie_DryRun = False, ie_ustr = (\<lambda>_. ''vm''), ie_list = None, ie_flt = (\<lambda>_ _. None),
      ie_states = Inr (\<lambda>_. Some \<lparr>vi_ToolsRunning = False, vi_PowerState = state\<rparr>), ie_perf = Inr (\<lambda>_. None),
      ie_suspend = (\<lambda>_. None), ie_between = (\<lambda>_ w. w)\<rparr>"


text \<open>
  The power state sync knows no time of suspension. A machine resumed while the clearing of its old
  suspension fails (an error \<open>PowerVM\<close> drops) and suspended again in vCenter counts as suspended
  since the old time: its pod is due for destruction at once.
\<close>

lemma stale_suspension_clock:
  assumes "pv_SuspendedAt v = Some t" "pv_Status v = ''running''" "pv_PodID v = podID" "db_pod_vms (iw_db w) = [v]"
    and "\<not> HasActiveJobForVM (ie_ustr env) (pv_ID v) w" "\<not> ie_DryRun env" "\<And>q i. ie_flt env q i = None"
    and "t \<le> now - SuspendedDestroyAfter"
  shows "suspended_too_long now podID (iw_db (snd (syncPowerState env (pv_ID v) ''suspended'' (k, w)))) = Inr True"
  using assms by (simp add: syncPowerState_def UpdatePodVMStatusFrom_def run_tx_def on_vms_def Let_def suspended_too_long_def List.map_filter_simps)

lemma start_keeps_clock:
  assumes "pe_flt env ''ClearVMSuspendedAt'' = Some e" "job_vm env payload [''pod_id'', ''pod_vm_id''] ''parse power payload'' w = Inr (v, m)"
    and "validatePersistedVMPlacement env (pv_ID v) m (iw_db w) = None" "pe_call env ''start'' m = None" "pe_flt env ''UpdatePodVMStatus'' = None"
  shows "PowerVM env payload ''start'' w =
    (None, on_vms (sql_update (\<lambda>x. pv_ID x = pv_ID v) (\<lambda>x. x\<lparr>pv_Status := ''running''\<rparr>)) (called ''start'' m w))"
  using assms by (simp add: PowerVM_def power_call_def UpdatePodVMStatus_def ClearVMSuspendedAt_def vm_update_def run_tx_def)

end
