(* ===== verification/ReplicaBuilds.thy ===== *)
theory ReplicaBuilds
  imports PlacementStore
begin

text \<open>
  The rows of template replica builds (\<open>database/template_replica_builds.go\<close>,
  \<open>models/template_replica_build.go\<close>): a build copies the source machine of a template to another
  compute resource and ends in a ready source replica, or is cleaned up. Every change of a row by a
  worker is fenced by the claim of its job and compares the phase it read.
\<close>

section \<open>Phases\<close>

definition IsTemplateReplicaBuildForwardPhase :: "build_phase \<Rightarrow> bool" where
  "IsTemplateReplicaBuildForwardPhase phase \<longleftrightarrow> phase \<in>
     {PhasePending, PhaseCloneSubmitting, PhaseCloneSubmitted, PhaseValidating, PhaseSnapshotSubmitting,
      PhaseSnapshotSubmitted, PhaseCanaryPrepared, PhaseCanarySubmitting, PhaseCanarySubmitted,
      PhaseCleanupPrepared, PhaseCleanupSubmitting, PhaseCleanupSubmitted, PhaseFinalizing}"

lemma forward_simps [simp]:
  "IsTemplateReplicaBuildForwardPhase PhasePending" "IsTemplateReplicaBuildForwardPhase PhaseCloneSubmitting"
  "IsTemplateReplicaBuildForwardPhase PhaseCloneSubmitted" "IsTemplateReplicaBuildForwardPhase PhaseValidating"
  "IsTemplateReplicaBuildForwardPhase PhaseSnapshotSubmitting" "IsTemplateReplicaBuildForwardPhase PhaseSnapshotSubmitted"
  "IsTemplateReplicaBuildForwardPhase PhaseCanaryPrepared" "IsTemplateReplicaBuildForwardPhase PhaseCanarySubmitting"
  "IsTemplateReplicaBuildForwardPhase PhaseCanarySubmitted" "IsTemplateReplicaBuildForwardPhase PhaseCleanupPrepared"
  "IsTemplateReplicaBuildForwardPhase PhaseCleanupSubmitting" "IsTemplateReplicaBuildForwardPhase PhaseCleanupSubmitted"
  "IsTemplateReplicaBuildForwardPhase PhaseFinalizing"
  "\<not> IsTemplateReplicaBuildForwardPhase PhaseResiduePrepared" "\<not> IsTemplateReplicaBuildForwardPhase PhaseResidueSubmitting"
  "\<not> IsTemplateReplicaBuildForwardPhase PhaseResidueSubmitted" "\<not> IsTemplateReplicaBuildForwardPhase PhaseResidueCleaned"
  "\<not> IsTemplateReplicaBuildForwardPhase PhaseReady" "\<not> IsTemplateReplicaBuildForwardPhase PhaseFailed"
  "\<not> IsTemplateReplicaBuildForwardPhase PhaseCleanupRequired" "\<not> IsTemplateReplicaBuildForwardPhase PhaseRetired"
  by (simp_all add: IsTemplateReplicaBuildForwardPhase_def)

section \<open>Statements on the table\<close>

text \<open>
  The constraints of the table: \<open>build_typed\<close> on the columns that never change, \<open>build_checks\<close> on the
  others, the two unique indexes and the active build per compute resource.
\<close>

definition build_typed :: "replica_build \<Rightarrow> bool" where
  "build_typed b \<longleftrightarrow> rbd_IdempotencyKey b \<noteq> [] \<and> vmMoref (rbd_SourceVMMoref b) \<and> rbd_SourceSnapshotName b \<noteq> [] \<and>
     rbd_DestinationName b \<noteq> [] \<and> rbd_ComputeResourceType b \<in> set computeTypes \<and>
     rbd_ComputeResourceMoref b \<noteq> [] \<and> rbd_ComputeResourcePath b \<noteq> [] \<and> (\<forall>s \<in> set (rbd_Target b). s \<noteq> [])"

definition build_checks :: "replica_build \<Rightarrow> bool" where
  "build_checks b \<longleftrightarrow> IsTemplateReplicaBuildForwardPhase (rbd_ResumePhase b) \<and>
     (rbd_SourceReplicaID b \<noteq> None \<or> build_settled b) \<and>
     (rbd_Status b = BuildReady \<longrightarrow> rbd_Phase b = PhaseReady \<and> rbd_ResultReplicaID b \<noteq> None \<and>
        rbd_CleanupCompletedAt b \<noteq> None \<and> rbd_DestinationSnapshot b \<noteq> [] \<and> rbd_CanaryVMMoref b \<noteq> []) \<and>
     (rbd_Status b = BuildRetired \<longrightarrow> rbd_Phase b = PhaseRetired \<and> rbd_ResultReplicaID b = None \<and>
        rbd_ResidueCleanedAt b \<noteq> None)"

definition build_active :: "replica_build \<Rightarrow> bool" where
  "build_active b \<longleftrightarrow> rbd_Status b \<in> {BuildPending, BuildRunning, BuildCleanupRequired, BuildRetiring}"

definition builds_unique :: "replica_build list \<Rightarrow> bool" where
  "builds_unique bs \<longleftrightarrow> distinct (List.map_filter rbd_JobID bs) \<and>
     distinct (map (\<lambda>b. (rbd_TemplateID b, rbd_ComputeResourceType b, rbd_ComputeResourceMoref b)) (filter build_active bs))"

definition update_builds ::
  "(replica_build \<Rightarrow> bool) \<Rightarrow> (replica_build \<Rightarrow> replica_build) \<Rightarrow> database \<Rightarrow> (nat \<times> database) result" where
  "update_builds P f db =
     (let bs = sql_update P f (db_replica_builds db) in
      if (\<exists>b \<in> set (db_replica_builds db). P b \<and> \<not> build_checks (f b)) \<or> \<not> builds_unique bs
      then Inl (errorsNew ''constraint violation'')
      else Inr (sql_count P (db_replica_builds db), db\<lparr>db_replica_builds := bs\<rparr>))"

text \<open>
  A transaction whose driver fails: the error may come before the commit or after it (\<open>took\<close>), and the
  caller cannot tell which.
\<close>

definition lossy_tx ::
  "(go_error \<times> bool) option \<Rightarrow> ('db \<Rightarrow> ('a \<times> 'db) result) \<Rightarrow> 'db \<Rightarrow> 'a result \<times> 'db" where
  "lossy_tx flt body db =
     (case flt of
        None \<Rightarrow> run_tx None body db
      | Some (e, took) \<Rightarrow> (Inl e, if took then snd (run_tx None body db) else db))"

definition lockTemplateReplicaBuildJob :: "uuid \<Rightarrow> string \<Rightarrow> database \<Rightarrow> unit result" where
  "lockTemplateReplicaBuildJob jobID workerID db =
     (if \<exists>j \<in> set (db_jobs db). ownedBy jobID workerID j then Inr () else Inl (Sentinel ErrTemplateReplicaBuildLeaseLost))"

section \<open>Creating a build\<close>

definition sameTemplateReplicaBuildRequest :: "replica_build \<Rightarrow> replica_build \<Rightarrow> bool" where
  "sameTemplateReplicaBuildRequest a b \<longleftrightarrow>
     rbd_TemplateID a = rbd_TemplateID b \<and> rbd_SourceReplicaID a = rbd_SourceReplicaID b \<and>
     rbd_IdempotencyKey a = rbd_IdempotencyKey b \<and> rbd_SourceVMMoref a = rbd_SourceVMMoref b \<and>
     rbd_SourceSnapshotName a = rbd_SourceSnapshotName b \<and> rbd_DestinationName a = rbd_DestinationName b \<and>
     rbd_ComputeResourceType a = rbd_ComputeResourceType b \<and> rbd_ComputeResourceMoref a = rbd_ComputeResourceMoref b \<and>
     rbd_ComputeResourcePath a = rbd_ComputeResourcePath b \<and> rbd_Target a = rbd_Target b"

definition GetTemplateReplicaBuildByIdempotencyKey :: "uuid \<Rightarrow> string \<Rightarrow> database \<Rightarrow> replica_build option" where
  "GetTemplateReplicaBuildByIdempotencyKey templateID key db =
     find (\<lambda>b. rbd_TemplateID b = templateID \<and> rbd_IdempotencyKey b = key) (db_replica_builds db)"

definition HasUnsafeTemplateReplicaBuildForDeletion :: "uuid \<Rightarrow> database \<Rightarrow> bool" where
  "HasUnsafeTemplateReplicaBuildForDeletion templateID db \<longleftrightarrow>
     (\<exists>b \<in> set (db_replica_builds db). rbd_TemplateID b = templateID \<and>
        (rbd_Status b \<in> {BuildPending, BuildRunning, BuildCleanupRequired, BuildReady, BuildRetiring} \<or>
         rbd_DestinationVMMoref b \<noteq> [] \<and> rbd_ResidueCleanedAt b = None \<or> rbd_ResultReplicaID b \<noteq> None))"

text \<open>The row of an \<open>INSERT\<close>: the listed columns, defaults for the rest.\<close>

definition inserted_build :: "uuid \<Rightarrow> replica_build \<Rightarrow> replica_build" where
  "inserted_build jobID b =
     b\<lparr>rbd_ResultReplicaID := None, rbd_JobID := Some jobID, rbd_SourceSnapshotMoref := [],
       rbd_ResumePhase := PhasePending, rbd_CloneTaskRef := [], rbd_DestinationVMMoref := [],
       rbd_SnapshotTaskRef := [], rbd_DestinationSnapshot := [], rbd_CanaryTaskRef := [], rbd_CanaryVMMoref := [],
       rbd_CleanupTaskRef := [], rbd_CleanupCompletedAt := None, rbd_ResidueCleanupTaskRef := [],
       rbd_ResidueCleanedAt := None, rbd_LastErrorCode := [], rbd_LastError := [], rbd_StartedAt := None,
       rbd_SubmissionStartedAt := None, rbd_CompletedAt := None\<rparr>"

definition build_clash :: "replica_build \<Rightarrow> replica_build \<Rightarrow> bool" where
  "build_clash b b' \<longleftrightarrow> rbd_ID b = rbd_ID b' \<or> rbd_OperationID b = rbd_OperationID b' \<or>
     rbd_CanaryOperationID b = rbd_CanaryOperationID b'"

text \<open>A job of a build is tried twenty times.\<close>

definition insert_build_job :: "uuid \<Rightarrow> go_time \<Rightarrow> payload \<Rightarrow> database \<Rightarrow> database result" where
  "insert_build_job jobID now payload db =
     (if jobID \<in> j_ID ` set (db_jobs db) then Inl (errorsNew ''duplicate key value'')
      else Inr (db\<lparr>db_jobs := db_jobs db @ [(new_job jobID now ''template_replica_build'' payload)\<lparr>j_MaxRetries := 20\<rparr>]\<rparr>))"

text \<open>
  \<open>CreateTemplateReplicaBuild\<close>. The caller gives status and phase. The advisory lock of the template is
  held, so the key that was not found is still free at the \<open>INSERT\<close>.
\<close>

definition insert_build ::
  "(uuid \<Rightarrow> string) \<Rightarrow> uuid \<Rightarrow> go_time \<Rightarrow> uuid \<Rightarrow> replica_build \<Rightarrow> database \<Rightarrow> ((replica_build \<times> bool) \<times> database) result" where
  "insert_build ustr jobID now userID b db =
     (let row = inserted_build jobID b in
      if rbd_TemplateID b \<notin> tr_id ` set (db_templates db) \<or> \<not> build_typed row \<or> \<not> build_checks row \<or>
         (\<exists>b' \<in> set (db_replica_builds db). build_clash row b') \<or> \<not> builds_unique (db_replica_builds db @ [row])
      then Inl (Errorf ''insert template replica build'' [errorsNew ''constraint violation''])
      else
        (case insert_build_job jobID now
                [(''build_id'', JStr (ustr (rbd_ID b))), (''template_id'', JStr (ustr (rbd_TemplateID b))),
                 (''user_id'', JStr (ustr userID))] db of
           Inl e \<Rightarrow> Inl (Errorf ''enqueue template replica build'' [e])
         | Inr db' \<Rightarrow> Inr ((b\<lparr>rbd_JobID := Some jobID\<rparr>, True), db'\<lparr>db_replica_builds := db_replica_builds db' @ [row]\<rparr>)))"

definition create_build ::
  "(uuid \<Rightarrow> string) \<Rightarrow> uuid \<Rightarrow> go_time \<Rightarrow> uuid \<Rightarrow> uuid \<Rightarrow> replica_build \<Rightarrow> database
     \<Rightarrow> ((replica_build \<times> bool) \<times> database) result" where
  "create_build ustr jobID now userID anchorID b db =
     (case GetTemplateReplicaBuildByIdempotencyKey (rbd_TemplateID b) (rbd_IdempotencyKey b) db of
        Some existing \<Rightarrow>
          if sameTemplateReplicaBuildRequest existing b then Inr ((existing, False), db)
          else Inl (Sentinel ErrTemplateReplicaBuildConflict)
      | None \<Rightarrow>
          (case GetTemplateSourceReplica (rbd_TemplateID b) anchorID db of
             None \<Rightarrow> Inl (Sentinel ErrTemplateNotFound)
           | Some anchor \<Rightarrow>
               if sr_Status anchor \<noteq> TemplateSourceReplicaReady \<or> sr_SourceVMMoref anchor \<noteq> rbd_SourceVMMoref b
               then Inl (Errorf ''source replica anchor is not ready or no longer matches'' [Sentinel ErrTemplateReplicaBuildConflict])
               else if \<exists>r \<in> set (db_replicas db). sr_TemplateID r = rbd_TemplateID b \<and>
                         sr_ComputeResourceType r = rbd_ComputeResourceType b \<and> sr_ComputeResourceMoref r = rbd_ComputeResourceMoref b
               then Inl (Errorf ''destination compute resource already has a source replica'' [Sentinel ErrTemplateReplicaBuildConflict])
               else insert_build ustr jobID now userID b db))"

definition CreateTemplateReplicaBuild ::
  "go_error option \<Rightarrow> (uuid \<Rightarrow> string) \<Rightarrow> uuid \<Rightarrow> uuid \<Rightarrow> go_time \<Rightarrow> replica_build option \<Rightarrow> uuid \<Rightarrow> database
     \<Rightarrow> (replica_build \<times> bool) result \<times> database" where
  "CreateTemplateReplicaBuild flt ustr newID jobID now build userID db =
     (case build of
        None \<Rightarrow> (Inl (errorsNew ''template replica build identity is incomplete''), db)
      | Some b0 \<Rightarrow>
          (case rbd_SourceReplicaID b0 of
             None \<Rightarrow> (Inl (errorsNew ''template replica build identity is incomplete''), db)
           | Some anchorID \<Rightarrow>
               if rbd_TemplateID b0 = uuid_Nil \<or> anchorID = uuid_Nil \<or> rbd_IdempotencyKey b0 = [] \<or>
                  rbd_OperationID b0 = [] \<or> rbd_CanaryOperationID b0 = []
               then (Inl (errorsNew ''template replica build identity is incomplete''), db)
               else
                 let b = (if rbd_ID b0 = uuid_Nil then b0\<lparr>rbd_ID := newID\<rparr> else b0)
                 in run_tx flt (create_build ustr jobID now userID anchorID b) db))"

definition GetTemplateReplicaBuild :: "uuid \<Rightarrow> uuid \<Rightarrow> database \<Rightarrow> replica_build option" where
  "GetTemplateReplicaBuild templateID buildID db =
     find (\<lambda>b. rbd_ID b = buildID \<and> rbd_TemplateID b = templateID) (db_replica_builds db)"

text \<open>\<open>flt\<close> are the driver errors of its two statements.\<close>

definition GetTemplateReplicaBuildForJob ::
  "go_error option \<Rightarrow> go_error option \<Rightarrow> uuid \<Rightarrow> string \<Rightarrow> database \<Rightarrow> replica_build result" where
  "GetTemplateReplicaBuildForJob flt flt' jobID workerID db =
     (case flt of
        Some e \<Rightarrow> Inl (Errorf (''load template replica build job: '' @ errorText e) [e])
      | None \<Rightarrow>
          let owned = (\<exists>j \<in> set (db_jobs db). ownedBy jobID workerID j) in
          (case find (\<lambda>b. rbd_JobID b = Some jobID \<and> owned) (db_replica_builds db) of
             Some b \<Rightarrow> Inr b
           | None \<Rightarrow>
               (case flt' of
                  Some e \<Rightarrow> Inl (Errorf (''check obsolete template replica build job: '' @ errorText e) [e])
                | None \<Rightarrow>
                    if owned then Inl (Errorf ''template replica build job is no longer linked to its operation: job''
                                        [Sentinel ErrTemplateReplicaBuildJobObsolete])
                    else Inl (Errorf ''template replica build worker lease lost: job'' [Sentinel ErrTemplateReplicaBuildLeaseLost]))))"

section \<open>Writes of the worker\<close>

text \<open>The columns a worker may change.\<close>

definition save_columns :: "replica_build \<Rightarrow> replica_build \<Rightarrow> replica_build" where
  "save_columns build b =
     b\<lparr>rbd_Status := rbd_Status build, rbd_Phase := rbd_Phase build, rbd_ResumePhase := rbd_ResumePhase build,
       rbd_SourceSnapshotMoref := rbd_SourceSnapshotMoref build, rbd_CloneTaskRef := rbd_CloneTaskRef build,
       rbd_DestinationVMMoref := rbd_DestinationVMMoref build, rbd_SnapshotTaskRef := rbd_SnapshotTaskRef build,
       rbd_DestinationSnapshot := rbd_DestinationSnapshot build, rbd_CanaryTaskRef := rbd_CanaryTaskRef build,
       rbd_CanaryVMMoref := rbd_CanaryVMMoref build, rbd_CleanupTaskRef := rbd_CleanupTaskRef build,
       rbd_CleanupCompletedAt := rbd_CleanupCompletedAt build, rbd_ResidueCleanupTaskRef := rbd_ResidueCleanupTaskRef build,
       rbd_ResidueCleanedAt := rbd_ResidueCleanedAt build, rbd_LastErrorCode := rbd_LastErrorCode build,
       rbd_LastError := rbd_LastError build, rbd_StartedAt := rbd_StartedAt build,
       rbd_SubmissionStartedAt := rbd_SubmissionStartedAt build, rbd_CompletedAt := rbd_CompletedAt build\<rparr>"

definition save_build :: "replica_build \<Rightarrow> uuid \<Rightarrow> build_phase \<Rightarrow> string \<Rightarrow> database \<Rightarrow> (unit \<times> database) result" where
  "save_build build jobID expectedPhase workerID db =
     (case lockTemplateReplicaBuildJob jobID workerID db of
        Inl e \<Rightarrow> Inl e
      | Inr _ \<Rightarrow>
          (case update_builds (\<lambda>b. rbd_ID b = rbd_ID build \<and> rbd_JobID b = Some jobID \<and> rbd_Phase b = expectedPhase)
                  (save_columns build) db of
             Inl e \<Rightarrow> Inl e
           | Inr (n, db') \<Rightarrow>
               if n \<noteq> 1 then Inl (Errorf ''template replica build worker lease lost: build'' [Sentinel ErrTemplateReplicaBuildLeaseLost])
               else Inr ((), db')))"

definition SaveTemplateReplicaBuildState ::
  "(go_error \<times> bool) option \<Rightarrow> replica_build \<Rightarrow> build_phase \<Rightarrow> string \<Rightarrow> database \<Rightarrow> unit result \<times> database" where
  "SaveTemplateReplicaBuildState flt build expectedPhase workerID db =
     (case rbd_JobID build of
        None \<Rightarrow> (Inl (errorsNew ''template replica build has no job identity''), db)
      | Some jobID \<Rightarrow> lossy_tx flt (save_build build jobID expectedPhase workerID) db)"

text \<open>
  \<open>EnsurePendingReplicaForBuild\<close>; the row that is read back is the one just inserted, so its machine is
  the one of the build.
\<close>

definition pending_replica :: "uuid \<Rightarrow> replica_build \<Rightarrow> replica" where
  "pending_replica newID b =
     \<lparr>sr_ID = newID, sr_TemplateID = rbd_TemplateID b, sr_SourceVMMoref = rbd_DestinationVMMoref b,
      sr_ComputeResourceType = rbd_ComputeResourceType b, sr_ComputeResourceMoref = rbd_ComputeResourceMoref b,
      sr_ComputeResourcePath = rbd_ComputeResourcePath b, sr_Status = TemplateSourceReplicaPending,
      sr_LastValidatedAt = None, sr_LastValidationError = None\<rparr>"

definition reserve_replica :: "uuid \<Rightarrow> replica_build \<Rightarrow> uuid \<Rightarrow> string \<Rightarrow> database \<Rightarrow> (replica_build \<times> database) result" where
  "reserve_replica newID build jobID workerID db =
     (case lockTemplateReplicaBuildJob jobID workerID db of
        Inl e \<Rightarrow> Inl e
      | Inr _ \<Rightarrow>
          if rbd_ResultReplicaID build \<noteq> None then Inr (build, db)
          else
            let r = pending_replica newID build in
            if rbd_TemplateID build \<notin> tr_id ` set (db_templates db) \<or> \<not> replica_checks r \<or>
               (\<exists>r' \<in> set (db_replicas db). replica_clash r r')
            then Inl (Errorf ''reserve pending source replica'' [errorsNew ''constraint violation''])
            else
              (case update_builds (\<lambda>b. rbd_ID b = rbd_ID build \<and> rbd_ResultReplicaID b = None)
                      (\<lambda>b. b\<lparr>rbd_ResultReplicaID := Some newID\<rparr>) (db\<lparr>db_replicas := db_replicas db @ [r]\<rparr>) of
                 Inl e \<Rightarrow> Inl e
               | Inr (_, db') \<Rightarrow> Inr (build\<lparr>rbd_ResultReplicaID := Some newID\<rparr>, db')))"

definition EnsurePendingReplicaForBuild ::
  "(go_error \<times> bool) option \<Rightarrow> uuid \<Rightarrow> replica_build \<Rightarrow> string \<Rightarrow> database \<Rightarrow> replica_build result \<times> database" where
  "EnsurePendingReplicaForBuild flt newID build workerID db =
     (case rbd_JobID build of
        None \<Rightarrow> (Inl (errorsNew ''pending replica build identity is incomplete''), db)
      | Some jobID \<Rightarrow>
          if rbd_DestinationVMMoref build = [] then (Inl (errorsNew ''pending replica build identity is incomplete''), db)
          else lossy_tx flt (reserve_replica newID build jobID workerID) db)"


definition finalize_build ::
  "go_time \<Rightarrow> replica_build \<Rightarrow> uuid \<Rightarrow> uuid \<Rightarrow> uuid \<Rightarrow> string \<Rightarrow> database \<Rightarrow> (unit \<times> database) result" where
  "finalize_build now build jobID anchorID resultID workerID db =
     (case lockTemplateReplicaBuildJob jobID workerID db of
        Inl e \<Rightarrow> Inl e
      | Inr _ \<Rightarrow>
          (case GetTemplateSourceReplica (rbd_TemplateID build) anchorID db of
             None \<Rightarrow> Inl (Errorf ''recheck source anchor'' [Sentinel pgx_ErrNoRows])
           | Some anchor \<Rightarrow>
               if sr_Status anchor \<noteq> TemplateSourceReplicaReady \<or> sr_SourceVMMoref anchor \<noteq> rbd_SourceVMMoref build
               then Inl (Errorf ''source anchor drifted before finalization'' [Sentinel ErrTemplateReplicaBuildConflict])
               else
                 let P = (\<lambda>r. sr_ID r = resultID \<and> sr_TemplateID r = rbd_TemplateID build \<and>
                               sr_SourceVMMoref r = rbd_DestinationVMMoref build \<and> sr_Status r = TemplateSourceReplicaPending);
                     db1 = db\<lparr>db_replicas := sql_update P (\<lambda>r. r\<lparr>sr_Status := TemplateSourceReplicaReady,
                                  sr_LastValidatedAt := Some now, sr_LastValidationError := None\<rparr>) (db_replicas db),
                              db_replica_policies := (if rbd_TemplateID build \<in> set (db_replica_policies db)
                                  then db_replica_policies db else db_replica_policies db @ [rbd_TemplateID build])\<rparr> in
                 if sql_count P (db_replicas db) \<noteq> 1 then Inl (Sentinel ErrTemplateReplicaBuildLeaseLost)
                 else
                   (case update_builds (\<lambda>b. rbd_ID b = rbd_ID build \<and> rbd_JobID b = Some jobID \<and> rbd_Phase b = PhaseFinalizing)
                           (\<lambda>b. b\<lparr>rbd_Status := BuildReady, rbd_Phase := PhaseReady, rbd_CompletedAt := Some now,
                                   rbd_LastErrorCode := [], rbd_LastError := []\<rparr>) db1 of
                      Inl e \<Rightarrow> Inl e
                    | Inr (n, db') \<Rightarrow> if n \<noteq> 1 then Inl (Sentinel ErrTemplateReplicaBuildLeaseLost) else Inr ((), db'))))"

definition FinalizeTemplateReplicaBuild ::
  "(go_error \<times> bool) option \<Rightarrow> go_time \<Rightarrow> replica_build \<Rightarrow> string \<Rightarrow> database \<Rightarrow> unit result \<times> database" where
  "FinalizeTemplateReplicaBuild flt now build workerID db =
     (case (rbd_JobID build, rbd_SourceReplicaID build, rbd_ResultReplicaID build) of
        (Some jobID, Some anchorID, Some resultID) \<Rightarrow>
          if rbd_CleanupCompletedAt build = None \<or> rbd_DestinationSnapshot build = []
          then (Inl (errorsNew ''template replica build is not acceptance-complete''), db)
          else lossy_tx flt (finalize_build now build jobID anchorID resultID workerID) db
      | _ \<Rightarrow> (Inl (errorsNew ''template replica build is not acceptance-complete''), db))"

text \<open>
  \<open>FailTemplateReplicaBuild\<close>: a build that fails while it is pending or running remembers the phase to
  resume; the replica it has reserved becomes unhealthy.
\<close>

definition failed_columns :: "go_time \<Rightarrow> build_status \<Rightarrow> build_phase \<Rightarrow> string \<Rightarrow> string \<Rightarrow> build_phase \<Rightarrow> replica_build \<Rightarrow> replica_build" where
  "failed_columns now status phase code message seen b =
     b\<lparr>rbd_Status := status, rbd_Phase := phase, rbd_LastErrorCode := code,
       rbd_ResumePhase := (if rbd_Status b \<in> {BuildPending, BuildRunning} \<and> IsTemplateReplicaBuildForwardPhase seen
                           then seen else rbd_ResumePhase b),
       rbd_LastError := message, rbd_CompletedAt := Some now\<rparr>"

definition fail_build ::
  "go_time \<Rightarrow> replica_build \<Rightarrow> uuid \<Rightarrow> string \<Rightarrow> build_status \<Rightarrow> build_phase \<Rightarrow> string \<Rightarrow> string \<Rightarrow> database
     \<Rightarrow> (unit \<times> database) result" where
  "fail_build now build jobID workerID status phase code message db =
     (case lockTemplateReplicaBuildJob jobID workerID db of
        Inl e \<Rightarrow> Inl e
      | Inr _ \<Rightarrow>
          let db1 = db\<lparr>db_replicas := sql_update
                (\<lambda>r. sr_Status r \<noteq> TemplateSourceReplicaReady \<and>
                      (\<exists>b \<in> set (db_replica_builds db). rbd_ID b = rbd_ID build \<and> rbd_JobID b = Some jobID \<and>
                         rbd_ResultReplicaID b = Some (sr_ID r) \<and> rbd_Status b \<noteq> BuildRetiring))
                (\<lambda>r. r\<lparr>sr_Status := TemplateSourceReplicaUnhealthy, sr_LastValidatedAt := Some now,
                        sr_LastValidationError := Some message\<rparr>) (db_replicas db)\<rparr> in
          (case update_builds (\<lambda>b. rbd_ID b = rbd_ID build \<and> rbd_JobID b = Some jobID \<and>
                                 rbd_Status b \<notin> {BuildReady, BuildRetired})
                  (failed_columns now status phase code message (rbd_Phase build)) db1 of
             Inl e \<Rightarrow> Inl e
           | Inr (n, db') \<Rightarrow> if n \<noteq> 1 then Inl (Sentinel ErrTemplateReplicaBuildLeaseLost) else Inr ((), db')))"

definition FailTemplateReplicaBuild ::
  "(go_error \<times> bool) option \<Rightarrow> go_time \<Rightarrow> replica_build \<Rightarrow> string \<Rightarrow> build_status \<Rightarrow> build_phase \<Rightarrow> string \<Rightarrow> string
     \<Rightarrow> database \<Rightarrow> unit result \<times> database" where
  "FailTemplateReplicaBuild flt now build workerID status phase code message db =
     (case rbd_JobID build of
        None \<Rightarrow> (Inl (errorsNew ''template replica build has no job identity''), db)
      | Some jobID \<Rightarrow> lossy_tx flt (fail_build now build jobID workerID status phase code message) db)"

section \<open>Removing the replica of a build\<close>

text \<open>What the retirement of a ready replica asks for, at its request and at its end.\<close>

definition anchor_ready :: "replica_build \<Rightarrow> database \<Rightarrow> bool" where
  "anchor_ready build db \<longleftrightarrow> (\<exists>r \<in> set (db_replicas db). Some (sr_ID r) = rbd_SourceReplicaID build \<and>
     sr_TemplateID r = rbd_TemplateID build \<and> sr_SourceVMMoref r = rbd_SourceVMMoref build \<and>
     sr_Status r = TemplateSourceReplicaReady)"

definition replica_referenced :: "uuid \<Rightarrow> database \<Rightarrow> bool" where
  "replica_referenced replicaID db \<longleftrightarrow> (\<exists>p \<in> set (db_placements db). vp_SourceReplicaID p = Some replicaID)"

definition dependent_build :: "replica_build \<Rightarrow> uuid \<Rightarrow> database \<Rightarrow> bool" where
  "dependent_build build replicaID db \<longleftrightarrow>
     (\<exists>b \<in> set (db_replica_builds db). rbd_ID b \<noteq> rbd_ID build \<and> rbd_SourceReplicaID b = Some replicaID \<and> \<not> build_settled b)"

definition build_result_row :: "replica_build \<Rightarrow> uuid \<Rightarrow> replica \<Rightarrow> bool" where
  "build_result_row build replicaID r \<longleftrightarrow> sr_ID r = replicaID \<and> sr_TemplateID r = rbd_TemplateID build \<and>
     sr_SourceVMMoref r = rbd_DestinationVMMoref build \<and> sr_ComputeResourceType r = rbd_ComputeResourceType build \<and>
     sr_ComputeResourceMoref r = rbd_ComputeResourceMoref build"

text \<open>The checks of \<open>CompleteTemplateReplicaBuildCleanup\<close> on the replica it removes.\<close>

definition removal_check :: "replica_build \<Rightarrow> bool \<Rightarrow> uuid \<Rightarrow> string \<Rightarrow> database \<Rightarrow> go_error option" where
  "removal_check build retiring replicaID resultStatus db =
     (if retiring then
        if resultStatus \<noteq> TemplateSourceReplicaDisabled
        then Some (Errorf ''retiring result replica has another status'' [Sentinel ErrTemplateReplicaBuildConflict])
        else if rbd_SourceReplicaID build = None \<or> rbd_SourceReplicaID build = Some replicaID
        then Some (Errorf ''retirement has no distinct source anchor'' [Sentinel ErrTemplateReplicaBuildConflict])
        else if \<not> anchor_ready build db
        then Some (Errorf ''retirement would leave no compatible ready source anchor'' [Sentinel ErrTemplateReplicaBuildConflict])
        else if replica_referenced replicaID db
        then Some (Errorf ''retiring result replica is referenced by a VM placement'' [Sentinel ErrTemplateReplicaBuildConflict])
        else if dependent_build build replicaID db
        then Some (Errorf ''retiring result replica is the source anchor for build'' [Sentinel ErrTemplateReplicaBuildConflict])
        else None
      else if resultStatus = TemplateSourceReplicaReady
      then Some (Errorf ''non-retirement cleanup cannot remove ready result replica'' [Sentinel ErrTemplateReplicaBuildConflict])
      else None)"

text \<open>
  The removal itself: settled builds of a retired replica lose their reference, then the build, then the
  replica goes; the foreign keys of placements and builds are checked at the end.
\<close>

definition remove_result ::
  "replica_build \<Rightarrow> uuid \<Rightarrow> bool \<Rightarrow> uuid \<Rightarrow> string \<Rightarrow> database \<Rightarrow> database result" where
  "remove_result build jobID retiring replicaID resultStatus db =
     (case removal_check build retiring replicaID resultStatus db of
        Some e \<Rightarrow> Inl e
      | None \<Rightarrow>
          (case (if retiring
                 then update_builds (\<lambda>b. rbd_ID b \<noteq> rbd_ID build \<and> rbd_SourceReplicaID b = Some replicaID \<and> build_settled b)
                        (\<lambda>b. b\<lparr>rbd_SourceReplicaID := None\<rparr>) db
                 else Inr (0, db)) of
             Inl e \<Rightarrow> Inl (Errorf ''release terminal downstream build source references'' [e])
           | Inr (_, db1) \<Rightarrow>
               (case update_builds (\<lambda>b. rbd_ID b = rbd_ID build \<and> rbd_JobID b = Some jobID \<and> rbd_ResultReplicaID b = Some replicaID)
                       (\<lambda>b. b\<lparr>rbd_ResultReplicaID := None\<rparr>) db1 of
                  Inl e \<Rightarrow> Inl e
                | Inr (n, db2) \<Rightarrow>
                    if n \<noteq> 1 then Inl (Sentinel ErrTemplateReplicaBuildLeaseLost)
                    else
                      let P = (\<lambda>r. build_result_row build replicaID r \<and> sr_Status r = resultStatus) in
                      if sql_count P (db_replicas db2) \<noteq> 1
                      then Inl (Errorf ''cleanup result replica no longer matches immutable build identity'' [Sentinel ErrTemplateReplicaBuildConflict])
                      else if replica_referenced replicaID db2 \<or>
                              (\<exists>b \<in> set (db_replica_builds db2). rbd_SourceReplicaID b = Some replicaID \<or> rbd_ResultReplicaID b = Some replicaID)
                      then Inl (errorsNew ''foreign key violation'')
                      else Inr (db2\<lparr>db_replicas := sql_delete P (db_replicas db2)\<rparr>))))"

definition release_result :: "replica_build \<Rightarrow> uuid \<Rightarrow> bool \<Rightarrow> uuid option \<Rightarrow> database \<Rightarrow> database result" where
  "release_result build jobID retiring resultReplicaID db =
     (case resultReplicaID of
        None \<Rightarrow> if retiring then Inl (Errorf ''retiring build has no result replica'' [Sentinel ErrTemplateReplicaBuildConflict])
                else Inr db
      | Some replicaID \<Rightarrow>
          (case find (build_result_row build replicaID) (db_replicas db) of
             None \<Rightarrow> Inl (Errorf ''cleanup result replica identity does not match the persisted build''
                            [Sentinel ErrTemplateReplicaBuildConflict])
           | Some r \<Rightarrow> remove_result build jobID retiring replicaID (sr_Status r) db))"

definition cleaned_columns :: "go_time \<Rightarrow> replica_build \<Rightarrow> string \<Rightarrow> bool \<Rightarrow> replica_build \<Rightarrow> replica_build" where
  "cleaned_columns now build message retiring b =
     b\<lparr>rbd_Status := (if retiring then BuildRetired else BuildFailed),
       rbd_Phase := (if retiring then PhaseRetired else PhaseResidueCleaned),
       rbd_ResultReplicaID := None, rbd_ResidueCleanedAt := rbd_ResidueCleanedAt build,
       rbd_LastErrorCode := (if retiring then ''retirement_complete'' else ''cleanup_complete''),
       rbd_LastError := message, rbd_CompletedAt := Some now\<rparr>"

definition complete_cleanup ::
  "go_time \<Rightarrow> replica_build \<Rightarrow> uuid \<Rightarrow> string \<Rightarrow> string \<Rightarrow> database \<Rightarrow> (unit \<times> database) result" where
  "complete_cleanup now build jobID workerID message db =
     (case lockTemplateReplicaBuildJob jobID workerID db of
        Inl e \<Rightarrow> Inl e
      | Inr _ \<Rightarrow>
          (case find (\<lambda>b. rbd_ID b = rbd_ID build \<and> rbd_JobID b = Some jobID) (db_replica_builds db) of
             None \<Rightarrow> Inl (Errorf ''lock replica build cleanup result'' [Sentinel pgx_ErrNoRows])
           | Some row \<Rightarrow>
               let retiring = (rbd_Status row = BuildRetiring) in
               (case release_result build jobID retiring (rbd_ResultReplicaID row) db of
                  Inl e \<Rightarrow> Inl e
                | Inr db1 \<Rightarrow>
                    (case update_builds (\<lambda>b. rbd_ID b = rbd_ID build \<and> rbd_JobID b = Some jobID \<and> rbd_Status b = rbd_Status row)
                            (cleaned_columns now build message retiring) db1 of
                       Inl e \<Rightarrow> Inl e
                     | Inr (n, db2) \<Rightarrow> if n \<noteq> 1 then Inl (Sentinel ErrTemplateReplicaBuildLeaseLost) else Inr ((), db2)))))"

definition CompleteTemplateReplicaBuildCleanup ::
  "(go_error \<times> bool) option \<Rightarrow> go_time \<Rightarrow> replica_build \<Rightarrow> string \<Rightarrow> string \<Rightarrow> database \<Rightarrow> unit result \<times> database" where
  "CompleteTemplateReplicaBuildCleanup flt now build workerID message db =
     (case rbd_JobID build of
        None \<Rightarrow> (Inl (errorsNew ''template replica cleanup proof is incomplete''), db)
      | Some jobID \<Rightarrow>
          if rbd_ResidueCleanedAt build = None then (Inl (errorsNew ''template replica cleanup proof is incomplete''), db)
          else lossy_tx flt (complete_cleanup now build jobID workerID message) db)"

section \<open>Restarting a build\<close>

text \<open>The checks on a ready build that is to be retired.\<close>

definition retirement_check :: "replica_build \<Rightarrow> database \<Rightarrow> go_error option" where
  "retirement_check build db =
     (case rbd_ResultReplicaID build of
        None \<Rightarrow> Some (Errorf ''ready build retirement identity is incomplete'' [Sentinel ErrTemplateReplicaBuildConflict])
      | Some resultID \<Rightarrow>
          if rbd_SourceReplicaID build = None \<or> rbd_SourceReplicaID build = Some resultID \<or> rbd_DestinationVMMoref build = []
          then Some (Errorf ''ready build retirement identity is incomplete'' [Sentinel ErrTemplateReplicaBuildConflict])
          else if \<not> anchor_ready build db
          then Some (Errorf ''retirement would leave no compatible ready source anchor'' [Sentinel ErrTemplateReplicaBuildConflict])
          else
            (case find (build_result_row build resultID) (db_replicas db) of
               None \<Rightarrow> Some (Errorf ''lock ready retirement result'' [Sentinel pgx_ErrNoRows])
             | Some r \<Rightarrow>
                 if sr_Status r \<noteq> (if rbd_Status build = BuildRetiring then TemplateSourceReplicaDisabled else TemplateSourceReplicaReady)
                 then Some (Errorf ''retirement result replica status'' [Sentinel ErrTemplateReplicaBuildConflict])
                 else if replica_referenced resultID db
                 then Some (Errorf ''ready result replica is referenced by a VM placement'' [Sentinel ErrTemplateReplicaBuildConflict])
                 else if dependent_build build resultID db
                 then Some (Errorf ''ready result replica is the source anchor for build'' [Sentinel ErrTemplateReplicaBuildConflict])
                 else None))"

text \<open>The checks before the retirement: the anchor reference, the source of a retry, and the present job.\<close>

definition restart_check :: "replica_build \<Rightarrow> bool \<Rightarrow> database \<Rightarrow> go_error option" where
  "restart_check build cleanupOnly db =
     (if rbd_SourceReplicaID build = None
      then Some (Errorf ''terminal build source reference has been released'' [Sentinel ErrTemplateReplicaBuildConflict])
      else if \<not> cleanupOnly \<and> \<not> anchor_ready build db
      then Some (Errorf ''source replica is no longer ready'' [Sentinel ErrTemplateReplicaBuildConflict])
      else if \<exists>j \<in> set (db_jobs db). rbd_JobID build = Some (j_ID j) \<and>
                j_Status j \<in> {JobStatusPending, JobStatusClaimed, JobStatusInProgress, JobStatusRollback}
      then Some (Errorf ''linked job is still live'' [Sentinel ErrTemplateReplicaBuildConflict])
      else if cleanupOnly \<and> rbd_Status build \<in> {BuildReady, BuildRetiring} then retirement_check build db
      else if rbd_Status build \<notin> {BuildFailed, BuildCleanupRequired} then Some (Sentinel ErrTemplateReplicaBuildConflict)
      else if \<not> IsTemplateReplicaBuildForwardPhase (rbd_ResumePhase build)
      then Some (Errorf ''invalid forward resume phase'' [Sentinel ErrTemplateReplicaBuildConflict])
      else if \<not> cleanupOnly \<and> (rbd_Status build = BuildCleanupRequired \<or> rbd_LastErrorCode build = ''task_failed'' \<or>
                rbd_ResidueCleanedAt build \<noteq> None)
      then Some (Sentinel ErrTemplateReplicaBuildConflict)
      else None)"

definition restarted :: "uuid \<Rightarrow> bool \<Rightarrow> bool \<Rightarrow> replica_build \<Rightarrow> replica_build" where
  "restarted jobID cleanupOnly retireReady b =
     (let b1 = b\<lparr>rbd_JobID := Some jobID, rbd_CompletedAt := None, rbd_LastError := []\<rparr> in
      if retireReady
      then b1\<lparr>rbd_Status := BuildRetiring, rbd_Phase := PhaseResiduePrepared, rbd_ResidueCleanupTaskRef := [],
              rbd_ResidueCleanedAt := None, rbd_LastErrorCode := ''retirement_requested''\<rparr>
      else b1\<lparr>rbd_Status := (if cleanupOnly then BuildCleanupRequired else BuildRunning),
              rbd_Phase := rbd_ResumePhase b, rbd_LastErrorCode := []\<rparr>)"

text \<open>A replica that is to be retired is disabled first.\<close>

definition disable_result :: "replica_build \<Rightarrow> bool \<Rightarrow> database \<Rightarrow> database result" where
  "disable_result build retireReady db =
     (let P = (\<lambda>r. Some (sr_ID r) = rbd_ResultReplicaID build \<and> sr_Status r = TemplateSourceReplicaReady) in
      if retireReady \<and> rbd_Status build = BuildReady
      then (if sql_count P (db_replicas db) \<noteq> 1 then Inl (Sentinel ErrTemplateReplicaBuildConflict)
            else Inr (db\<lparr>db_replicas := sql_update P (\<lambda>r. r\<lparr>sr_Status := TemplateSourceReplicaDisabled,
                   sr_LastValidationError := Some ''retirement requested''\<rparr>) (db_replicas db)\<rparr>))
      else Inr db)"

text \<open>
  The row of a build whose job is gone cannot be locked;
  jobs of builds are never deleted.
\<close>

definition restart_build ::
  "(uuid \<Rightarrow> string) \<Rightarrow> uuid \<Rightarrow> go_time \<Rightarrow> uuid \<Rightarrow> uuid \<Rightarrow> bool \<Rightarrow> database \<Rightarrow> (replica_build \<times> database) result" where
  "restart_build ustr jobID now templateID buildID cleanupOnly db =
     (case GetTemplateReplicaBuild templateID buildID db of
        None \<Rightarrow> Inl (Sentinel pgx_ErrNoRows)
      | Some build \<Rightarrow>
          if (case rbd_JobID build of None \<Rightarrow> False | Some i \<Rightarrow> i \<notin> j_ID ` set (db_jobs db))
          then Inl (Errorf ''lock current replica build job'' [Sentinel pgx_ErrNoRows])
          else
            (case restart_check build cleanupOnly db of
               Some e \<Rightarrow> Inl e
             | None \<Rightarrow>
                 let retireReady = (cleanupOnly \<and> rbd_Status build \<in> {BuildReady, BuildRetiring}) in
                 (case disable_result build retireReady db of
                    Inl e \<Rightarrow> Inl e
                  | Inr db1 \<Rightarrow>
                   (case insert_build_job jobID now
                           [(''build_id'', JStr (ustr (rbd_ID build))), (''cleanup_only'', JBool cleanupOnly),
                            (''retire_ready'', JBool retireReady), (''template_id'', JStr (ustr (rbd_TemplateID build)))] db1 of
                      Inl e \<Rightarrow> Inl e
                    | Inr db2 \<Rightarrow>
                        (case update_builds (\<lambda>b. rbd_ID b = rbd_ID build) (restarted jobID cleanupOnly retireReady) db2 of
                           Inl e \<Rightarrow> Inl e
                         | Inr (_, db3) \<Rightarrow> Inr (restarted jobID cleanupOnly retireReady build, db3))))))"

definition RestartTemplateReplicaBuild ::
  "(go_error \<times> bool) option \<Rightarrow> (uuid \<Rightarrow> string) \<Rightarrow> uuid \<Rightarrow> go_time \<Rightarrow> uuid \<Rightarrow> uuid \<Rightarrow> bool \<Rightarrow> database
     \<Rightarrow> replica_build result \<times> database" where
  "RestartTemplateReplicaBuild flt ustr jobID now templateID buildID cleanupOnly =
     lossy_tx flt (restart_build ustr jobID now templateID buildID cleanupOnly)"


section \<open>What a cleanup removes\<close>

lemma lossy_cases:
  "lossy_tx flt body db = (r, db') \<Longrightarrow> (db' = db \<and> isl r) \<or> (\<exists>x. body db = Inr (x, db') \<and> (r = Inr x \<or> isl r))"
  unfolding lossy_tx_def run_tx_def by (auto split: option.splits sum.splits prod.splits if_splits)

lemma update_builds_ok:
  "update_builds P f db = Inr (n, db') \<Longrightarrow>
     n = sql_count P (db_replica_builds db) \<and> db' = db\<lparr>db_replica_builds := sql_update P f (db_replica_builds db)\<rparr>"
  unfolding update_builds_def Let_def by (auto split: if_splits)

lemma remove_result_effect:
  assumes "remove_result build jobID retiring i st db = Inr db'"
  shows "removal_check build retiring i st db = None \<and>
    db_replicas db' = sql_delete (\<lambda>r. build_result_row build i r \<and> sr_Status r = st) (db_replicas db) \<and>
    db_placements db' = db_placements db \<and> \<not> replica_referenced i db \<and>
    (\<forall>b \<in> set (db_replica_builds db'). rbd_SourceReplicaID b \<noteq> Some i \<and> rbd_ResultReplicaID b \<noteq> Some i)"
proof -
  have ok: "removal_check build retiring i st db = None"
    using assms by (auto simp: remove_result_def split: option.splits)
  obtain n1 db1 where 1: "(if retiring then update_builds (\<lambda>b. rbd_ID b \<noteq> rbd_ID build \<and> rbd_SourceReplicaID b = Some i \<and> build_settled b)
        (\<lambda>b. b\<lparr>rbd_SourceReplicaID := None\<rparr>) db else Inr (0, db)) = Inr (n1, db1)"
    using assms unfolding remove_result_def by (auto split: option.splits sum.splits prod.splits if_splits)
  then have d1: "db_replicas db1 = db_replicas db" "db_placements db1 = db_placements db"
    by (auto split: if_splits dest!: update_builds_ok)
  obtain n2 db2 where 2: "update_builds (\<lambda>b. rbd_ID b = rbd_ID build \<and> rbd_JobID b = Some jobID \<and> rbd_ResultReplicaID b = Some i)
        (\<lambda>b. b\<lparr>rbd_ResultReplicaID := None\<rparr>) db1 = Inr (n2, db2)"
    and d: "db' = db2\<lparr>db_replicas := sql_delete (\<lambda>r. build_result_row build i r \<and> sr_Status r = st) (db_replicas db2)\<rparr>"
      "\<not> replica_referenced i db2" "\<forall>b \<in> set (db_replica_builds db2). rbd_SourceReplicaID b \<noteq> Some i \<and> rbd_ResultReplicaID b \<noteq> Some i"
    using assms unfolding remove_result_def 1 ok option.case Let_def by (auto split: sum.splits prod.splits if_splits)
  have d2: "db_replicas db2 = db_replicas db1" "db_placements db2 = db_placements db1" using update_builds_ok [OF 2] by simp_all
  show ?thesis using ok d d1 d2 by (simp add: replica_referenced_def)
qed

text \<open>
  C40. The end of a cleanup never takes away a replica somebody needs, even if the answer of the commit is
  lost: a replica that is gone afterwards was the result of this very build, it was not ready, no placement
  refers to it, no build has it as its source or its result any more, and if it was a ready replica that is being retired, it had been disabled and
  the ready replica it was built from is another one and is still there.
\<close>

theorem cleanup_removes_unused:
  assumes "CompleteTemplateReplicaBuildCleanup flt now build wk msg db = (r, db')" "x \<in> set (db_replicas db)" "x \<notin> set (db_replicas db')"
  shows "\<exists>row \<in> set (db_replica_builds db). rbd_ID row = rbd_ID build \<and> rbd_ResultReplicaID row = Some (sr_ID x) \<and>
    sr_Status x \<noteq> TemplateSourceReplicaReady \<and> \<not> replica_referenced (sr_ID x) db' \<and>
    (\<forall>b \<in> set (db_replica_builds db'). rbd_SourceReplicaID b \<noteq> Some (sr_ID x) \<and> rbd_ResultReplicaID b \<noteq> Some (sr_ID x)) \<and>
    (rbd_Status row = BuildRetiring \<longrightarrow> sr_Status x = TemplateSourceReplicaDisabled \<and>
       rbd_SourceReplicaID build \<noteq> Some (sr_ID x) \<and> anchor_ready build db')"
proof -
  have "db' \<noteq> db" using assms(2,3) by auto
  then obtain i where "rbd_JobID build = Some i" and t: "lossy_tx flt (complete_cleanup now build i wk msg) db = (r, db')"
    using assms(1) by (auto simp: CompleteTemplateReplicaBuildCleanup_def split: option.splits if_splits)
  from lossy_cases [OF t] \<open>db' \<noteq> db\<close> obtain y where c: "complete_cleanup now build i wk msg db = Inr (y, db')" by blast
  obtain row where row: "find (\<lambda>b. rbd_ID b = rbd_ID build \<and> rbd_JobID b = Some i) (db_replica_builds db) = Some row"
    using c unfolding complete_cleanup_def by (auto split: sum.splits option.splits)
  let ?ret = "rbd_Status row = BuildRetiring"
  obtain db1 where rr: "release_result build i ?ret (rbd_ResultReplicaID row) db = Inr db1"
    and u: "db_replicas db' = db_replicas db1" "db_placements db' = db_placements db1"
      "db_replica_builds db' = sql_update (\<lambda>b. rbd_ID b = rbd_ID build \<and> rbd_JobID b = Some i \<and> rbd_Status b = rbd_Status row)
        (cleaned_columns now build msg ?ret) (db_replica_builds db1)"
    using c unfolding complete_cleanup_def row option.case Let_def
    by (auto split: sum.splits prod.splits if_splits dest!: update_builds_ok)
  have "db_replicas db1 \<noteq> db_replicas db" using assms(2,3) u by auto
  with rr obtain i' q where i': "rbd_ResultReplicaID row = Some i'" "find (build_result_row build i') (db_replicas db) = Some q"
    and rm: "remove_result build i ?ret i' (sr_Status q) db = Inr db1"
    by (auto simp: release_result_def split: option.splits if_splits)
  note e = remove_result_effect [OF rm]
  have x: "build_result_row build i' x" "sr_Status x = sr_Status q" using assms(2,3) u(1) e by (auto simp: sql_delete_def)
  then have ix: "sr_ID x = i'" by (simp add: build_result_row_def)
  have ok: "removal_check build ?ret i' (sr_Status q) db = None" using e by simp
  have nr: "sr_Status x \<noteq> TemplateSourceReplicaReady"
    using ok x(2) by (auto simp: removal_check_def replica_status_defs split: if_splits)
  have ret: "sr_Status x = TemplateSourceReplicaDisabled \<and> rbd_SourceReplicaID build \<noteq> Some i' \<and> anchor_ready build db" if ?ret
    using ok x(2) that by (auto simp: removal_check_def split: if_splits)
  have "anchor_ready build db'" if "rbd_SourceReplicaID build \<noteq> Some i'" "anchor_ready build db"
    using that u(1) e unfolding anchor_ready_def by (auto simp: sql_delete_def build_result_row_def)
  moreover have "\<forall>b \<in> set (db_replica_builds db'). rbd_SourceReplicaID b \<noteq> Some i' \<and> rbd_ResultReplicaID b \<noteq> Some i'"
    using e u(3) by (auto simp: sql_update_def cleaned_columns_def)
  ultimately show ?thesis using find_SomeD [OF row] i'(1) ix nr ret e u(2) by (intro bexI [of _ row]) (auto simp: replica_referenced_def)
qed

definition retired_build :: replica_build where
  "retired_build = \<lparr>rbd_ID = 4, rbd_TemplateID = 2, rbd_SourceReplicaID = Some 3, rbd_ResultReplicaID = Some 6, rbd_JobID = Some 5,
     rbd_IdempotencyKey = ''k'', rbd_OperationID = ''o'', rbd_CanaryOperationID = ''c'', rbd_SourceVMMoref = ''vm-1'',
     rbd_SourceSnapshotName = ''s'', rbd_SourceSnapshotMoref = [], rbd_DestinationName = ''d'',
     rbd_ComputeResourceType = ''ComputeResource'', rbd_ComputeResourceMoref = ''m'', rbd_ComputeResourcePath = ''p'', rbd_Target = [],
     rbd_Status = BuildRetiring, rbd_Phase = PhaseResiduePrepared, rbd_ResumePhase = PhaseFinalizing, rbd_CloneTaskRef = [],
     rbd_DestinationVMMoref = ''vm-9'', rbd_SnapshotTaskRef = [], rbd_DestinationSnapshot = [], rbd_CanaryTaskRef = [], rbd_CanaryVMMoref = [],
     rbd_CleanupTaskRef = [], rbd_CleanupCompletedAt = Some 0, rbd_ResidueCleanupTaskRef = [], rbd_ResidueCleanedAt = Some 0,
     rbd_LastErrorCode = [], rbd_LastError = [], rbd_StartedAt = None, rbd_SubmissionStartedAt = None, rbd_CompletedAt = None\<rparr>"

definition anchor_replica :: replica where
  "anchor_replica = \<lparr>sr_ID = 3, sr_TemplateID = 2, sr_SourceVMMoref = ''vm-1'', sr_ComputeResourceType = ''ComputeResource'',
     sr_ComputeResourceMoref = ''a'', sr_ComputeResourcePath = ''a'', sr_Status = TemplateSourceReplicaReady, sr_LastValidatedAt = Some 0,
     sr_LastValidationError = None\<rparr>"

definition disabled_replica :: replica where
  "disabled_replica = anchor_replica\<lparr>sr_ID := 6, sr_SourceVMMoref := ''vm-9'', sr_ComputeResourceMoref := ''m'',
     sr_Status := TemplateSourceReplicaDisabled\<rparr>"

definition retiring_db :: database where
  "retiring_db = empty_db\<lparr>db_replicas := [anchor_replica, disabled_replica], db_replica_builds := [retired_build],
     db_jobs := [(new_job 5 0 ''template_replica_build'' [])\<lparr>j_Status := JobStatusClaimed, j_ClaimedBy := Some ''w''\<rparr>]\<rparr>"

definition retired_db :: database where
  "retired_db = snd (CompleteTemplateReplicaBuildCleanup None 7 retired_build ''w'' ''done'' retiring_db)"

theorem cleanup_removes_unused_witness:
  "map sr_ID (db_replicas retired_db) = [3] \<and> map rbd_Status (db_replica_builds retired_db) = [BuildRetired] \<and>
   \<not> replica_referenced (sr_ID disabled_replica) retired_db \<and> anchor_ready retired_build retired_db"
proof -
  have c: "CompleteTemplateReplicaBuildCleanup None 7 retired_build ''w'' ''done'' retiring_db =
      (fst (CompleteTemplateReplicaBuildCleanup None 7 retired_build ''w'' ''done'' retiring_db), retired_db)"
    by (simp add: retired_db_def)
  have ids: "map sr_ID (db_replicas retired_db) = [3]" "map rbd_Status (db_replica_builds retired_db) = [BuildRetired]"
    by code_simp+
  have i: "disabled_replica \<in> set (db_replicas retiring_db)" by (simp add: retiring_db_def)
  have "sr_ID disabled_replica \<notin> set (map sr_ID (db_replicas retired_db))" unfolding ids by (simp add: disabled_replica_def)
  then have o: "disabled_replica \<notin> set (db_replicas retired_db)" by auto
  have "db_replica_builds retiring_db = [retired_build]" "rbd_Status retired_build = BuildRetiring"
    by (simp_all add: retiring_db_def retired_build_def)
  with cleanup_removes_unused [OF c i o] ids show ?thesis by auto
qed

end
