(* ===== verification/ReplicaWork.thy ===== *)
theory ReplicaWork
  imports ReplicaBuilds Worker
begin

text \<open>
  The worker of template replica builds (\<open>provisioner/template_replica_build.go\<close>) with the submissions of
  \<open>vcenter/template_replica_build.go\<close>: a build is taken through its phases, each vCenter task is armed in the
  database before it is submitted, and an interrupted attempt continues where the row says.
\<close>

section \<open>World, environment and operations\<close>

datatype submission = SubmitClone | SubmitSnapshot | SubmitCanary | SubmitCanaryCleanup | SubmitResidueCleanup

text \<open>The database, and the tasks that were handed to vCenter, with the build they are for.\<close>

record rb_world =
  rw_db :: database
  rw_subs :: "(submission \<times> uuid) list"

text \<open>\<open>vcenter.ReplicaBuildCloneParams\<close>.\<close>

record build_params =
  cp_BuildID :: uuid
  cp_OperationID :: string
  cp_Kind :: string
  cp_TemplateID :: uuid
  cp_SourceReplicaID :: "uuid option"
  cp_SourceVMMoref :: moref
  cp_SourceSnapshotName :: string
  cp_SourceSnapshotMoref :: moref
  cp_DestinationName :: string
  cp_DestinationVMMoref :: moref
  cp_DestinationSnapshot :: moref
  cp_Target :: "string list"
  cp_SourceOperationID :: string
  cp_UseProvisionDatastore :: bool

text \<open>An object in the folder of a build: its name and the three markers in its configuration.\<close>

record folder_child =
  fc_isVM :: bool
  fc_Moref :: moref
  fc_Props :: "(string \<times> (string \<times> string \<times> string) option) result"

text \<open>
  What the attempt gets from outside; the first argument names the call. \<open>rn_flt\<close> and \<open>rn_read\<close> are the
  errors of the driver, \<open>rn_between\<close> is what other processes did to the database before the call,
  \<open>rn_check\<close> is the answer of the vCenter checks (the identity of a machine, its power state, its
  datastore), \<open>rn_find\<close> of a search for a snapshot or a name, \<open>rn_children\<close> the content of the folder,
  \<open>rn_wait\<close> of waiting for a task, \<open>rn_marker\<close> whether the exact machine is still there, \<open>rn_submit\<close> the
  answer to a submission (\<open>rn_duplicate\<close> is \<open>isDuplicateNameErr\<close>) and \<open>rn_destroy\<close> to a destruction (no task
  if the machine was already gone).
\<close>

record build_env =
  rn_now :: "string \<Rightarrow> go_time"
  rn_newID :: uuid
  rn_uparse :: "string \<Rightarrow> uuid option"
  rn_ustr :: "uuid \<Rightarrow> string"
  rn_flt :: "string \<Rightarrow> (go_error \<times> bool) option"
  rn_read :: "string \<Rightarrow> go_error option"
  rn_between :: "string \<Rightarrow> database \<Rightarrow> database"
  rn_check :: "string \<Rightarrow> build_params \<Rightarrow> go_error option"
  rn_find :: "string \<Rightarrow> build_params \<Rightarrow> moref result"
  rn_children :: "string \<Rightarrow> folder_child list result"
  rn_wait :: "string \<Rightarrow> string \<Rightarrow> moref result"
  rn_marker :: "string \<Rightarrow> moref \<Rightarrow> bool result"
  rn_submit :: "string \<Rightarrow> string result"
  rn_duplicate :: "go_error \<Rightarrow> bool"
  rn_destroy :: "string \<Rightarrow> string option result"
  rn_done :: bool

text \<open>
  The code changes the build it has loaded in place and returns at the first error. An operation takes the
  build and the world, and gives an error or a value and both after it.
\<close>

type_synonym build_state = "replica_build \<times> rb_world"
type_synonym 'a build_op = "build_state \<Rightarrow> 'a result \<times> build_state"

definition yields :: "'a \<Rightarrow> 'a build_op" where
  "yields x s = (Inr x, s)"

definition fails :: "go_error \<Rightarrow> 'a build_op" where
  "fails e s = (Inl e, s)"

definition andThen :: "'a build_op \<Rightarrow> ('a \<Rightarrow> 'b build_op) \<Rightarrow> 'b build_op" where
  "andThen m k s = (case m s of (Inl e, s') \<Rightarrow> (Inl e, s') | (Inr x, s') \<Rightarrow> k x s')"

text \<open>The error as a value, for code that looks at it.\<close>

definition caught :: "'a build_op \<Rightarrow> 'a result build_op" where
  "caught m s = (case m s of (r, s') \<Rightarrow> (Inr r, s'))"

definition answer :: "'a result \<Rightarrow> 'a build_op" where
  "answer r s = (r, s)"

definition the_build :: "replica_build build_op" where
  "the_build s = (Inr (fst s), s)"

definition wrapf :: "string \<Rightarrow> go_error \<Rightarrow> go_error" where
  "wrapf text e = Errorf (text @ '': '' @ errorText e) [e]"

definition errorsJoin :: "go_error \<Rightarrow> go_error \<Rightarrow> go_error" where
  "errorsJoin a b = Errorf (errorText a @ [CHR 0x0A] @ errorText b) [a, b]"

section \<open>Parameters and the store\<close>

abbreviation ReplicaBuildDestinationKind :: string where "ReplicaBuildDestinationKind \<equiv> ''retained''"
abbreviation ReplicaBuildCanaryKind :: string where "ReplicaBuildCanaryKind \<equiv> ''acceptance_canary''"

definition ambiguous_build :: "string \<Rightarrow> go_error" where
  "ambiguous_build text = Errorf (sentinelText ErrReplicaBuildAmbiguous @ '': '' @ text) [Sentinel ErrReplicaBuildAmbiguous]"

definition terminalReplicaBuildTaskError :: "go_error \<Rightarrow> go_error" where
  "terminalReplicaBuildTaskError e =
     (if errorsIs e ErrCloneTaskFailed
      then Errorf (''template replica build vCenter task failed: '' @ errorText e) [Sentinel errTemplateReplicaBuildTaskFailed, e]
      else e)"

definition replicaBuildTarget :: "replica_build \<Rightarrow> string list" where
  "replicaBuildTarget b = [rbd_ComputeResourceType b, rbd_ComputeResourceMoref b, rbd_ComputeResourcePath b] @ rbd_Target b"

definition retainedReplicaBuildParams :: "replica_build \<Rightarrow> build_params" where
  "retainedReplicaBuildParams b =
     \<lparr>cp_BuildID = rbd_ID b, cp_OperationID = rbd_OperationID b, cp_Kind = ReplicaBuildDestinationKind, cp_TemplateID = rbd_TemplateID b,
      cp_SourceReplicaID = rbd_SourceReplicaID b, cp_SourceVMMoref = rbd_SourceVMMoref b,
      cp_SourceSnapshotName = rbd_SourceSnapshotName b, cp_SourceSnapshotMoref = rbd_SourceSnapshotMoref b,
      cp_DestinationName = rbd_DestinationName b, cp_DestinationVMMoref = rbd_DestinationVMMoref b,
      cp_DestinationSnapshot = rbd_DestinationSnapshot b, cp_Target = replicaBuildTarget b,
      cp_SourceOperationID = [], cp_UseProvisionDatastore = False\<rparr>"

definition canaryReplicaBuildParams :: "replica_build \<Rightarrow> build_params" where
  "canaryReplicaBuildParams b =
     (retainedReplicaBuildParams b)\<lparr>cp_SourceOperationID := rbd_OperationID b, cp_OperationID := rbd_CanaryOperationID b,
       cp_Kind := ReplicaBuildCanaryKind, cp_SourceVMMoref := rbd_DestinationVMMoref b, cp_SourceSnapshotMoref := rbd_DestinationSnapshot b,
       cp_DestinationName := rbd_DestinationName b @ ''-canary'', cp_DestinationVMMoref := rbd_CanaryVMMoref b,
       cp_UseProvisionDatastore := True\<rparr>"

definition isReplicaBuildSubmittingPhase :: "build_phase \<Rightarrow> bool" where
  "isReplicaBuildSubmittingPhase phase \<longleftrightarrow> phase \<in>
     {PhaseCloneSubmitting, PhaseSnapshotSubmitting, PhaseCanarySubmitting, PhaseCleanupSubmitting, PhaseResidueSubmitting}"

definition replicaBuildReconcileWait :: "build_phase \<Rightarrow> go_error" where
  "replicaBuildReconcileWait phase =
     errorsNew ''resource temporarily unavailable: replica build is awaiting ambiguous vCenter submission reconciliation''"

abbreviation replicaBuildAmbiguousSubmissionDeadline :: go_time where
  "replicaBuildAmbiguousSubmissionDeadline \<equiv> seconds 1800"

definition replicaBuildSubmissionExpired :: "go_time \<Rightarrow> replica_build \<Rightarrow> bool" where
  "replicaBuildSubmissionExpired now b \<longleftrightarrow>
     (case rbd_SubmissionStartedAt b of None \<Rightarrow> False | Some t \<Rightarrow> replicaBuildAmbiguousSubmissionDeadline < now - t)"

text \<open>A query of the store, after what the other processes did.\<close>

definition store_query :: "build_env \<Rightarrow> string \<Rightarrow> (database \<Rightarrow> 'a result \<times> database) \<Rightarrow> 'a build_op" where
  "store_query env t q s =
     (case q (rn_between env t (rw_db (snd s))) of (r, db) \<Rightarrow> (r, (fst s, (snd s)\<lparr>rw_db := db\<rparr>)))"

definition saveReplicaBuildState :: "build_env \<Rightarrow> string \<Rightarrow> string \<Rightarrow> (replica_build \<Rightarrow> replica_build) \<Rightarrow> unit build_op" where
  "saveReplicaBuildState env t workerID mutate s =
     (let expected = rbd_Phase (fst s);
          b1 = mutate (fst s);
          b2 = (if expected \<noteq> rbd_Phase b1 \<and> isReplicaBuildSubmittingPhase (rbd_Phase b1)
                then b1\<lparr>rbd_SubmissionStartedAt := Some (rn_now env t)\<rparr> else b1) in
      (case store_query env t (SaveTemplateReplicaBuildState (rn_flt env t) b2 expected workerID) (b2, snd s) of
         (Inl e, s') \<Rightarrow> (Inl (wrapf ''persist replica build phase'' e), s')
       | (Inr _, s') \<Rightarrow> (Inr (), s')))"

definition ensurePending :: "build_env \<Rightarrow> string \<Rightarrow> string \<Rightarrow> unit build_op" where
  "ensurePending env t workerID s =
     (case store_query env t (EnsurePendingReplicaForBuild (rn_flt env t) (rn_newID env) (fst s) workerID) s of
        (Inl e, s') \<Rightarrow> (Inl e, s')
      | (Inr b, s') \<Rightarrow> (Inr (), (b, snd s')))"

section \<open>Submissions\<close>

text \<open>A task is handed to vCenter; the answer may be lost although it runs.\<close>

definition handed_over :: "submission \<Rightarrow> 'a result \<Rightarrow> 'a build_op" where
  "handed_over k r s = (r, (fst s, (snd s)\<lparr>rw_subs := (k, rbd_ID (fst s)) # rw_subs (snd s)\<rparr>))"

text \<open>
  \<open>rn_check\<close> stands for what is read before: the connection, the target, the power state of the source.
  \<open>ambiguous\<close> is what the caller makes of an error once its flag says that arming succeeded.
\<close>

definition submit_task :: "submission \<Rightarrow> 'a result \<Rightarrow> (go_error \<Rightarrow> go_error) \<Rightarrow> unit build_op \<Rightarrow> 'a build_op" where
  "submit_task k reply ambiguous arm =
     andThen arm (\<lambda>_. andThen (caught (handed_over k reply)) (\<lambda>r. case r of Inl e \<Rightarrow> fails (ambiguous e) | Inr x \<Rightarrow> yields x))"

definition clone_ready :: "build_env \<Rightarrow> build_params \<Rightarrow> go_error option" where
  "clone_ready env p =
     (case rn_check env ''clone connection'' p of
        Some e \<Rightarrow> Some e
      | None \<Rightarrow>
          if cp_OperationID p = [] \<or> cp_SourceVMMoref p = [] \<or> cp_SourceSnapshotName p = [] \<or>
             cp_SourceSnapshotMoref p = [] \<or> cp_DestinationName p = []
          then Some (errorsNew ''replica build clone identity is incomplete'')
          else
            (case rn_check env ''clone target and source'' p of
               Some e \<Rightarrow> Some e
             | None \<Rightarrow>
                 (case rn_find env ''clone snapshot'' p of
                    Inl e \<Rightarrow> Some e
                  | Inr ref \<Rightarrow>
                      if ref \<noteq> cp_SourceSnapshotMoref p
                      then Some (errorsNew ''source snapshot drifted before clone submission'')
                      else
                        (case rn_find env ''clone name'' p of
                           Inl e \<Rightarrow> Some e
                         | Inr existing \<Rightarrow>
                             if existing \<noteq> [] then Some (ambiguous_build ''destination name already exists'')
                             else rn_check env ''clone vTPM'' p))))"

definition StartReplicaBuildClone ::
  "build_env \<Rightarrow> build_params \<Rightarrow> (go_error \<Rightarrow> go_error) \<Rightarrow> unit build_op \<Rightarrow> (string \<times> moref) build_op" where
  "StartReplicaBuildClone env p ambiguous arm =
     (case clone_ready env p of
        Some e \<Rightarrow> fails e
      | None \<Rightarrow>
          andThen (submit_task SubmitClone (rn_submit env ''clone'')
                     (\<lambda>e. ambiguous (if rn_duplicate env e then ambiguous_build (errorText e)
                                      else wrapf ''submit replica build clone'' e))
                     (andThen (caught arm) (\<lambda>r. case r of Inl e \<Rightarrow> fails (wrapf ''arm replica build clone'' e) | Inr _ \<Rightarrow> yields ())))
            (\<lambda>task. yields (task, cp_SourceSnapshotMoref p)))"

definition StartReplicaBuildSnapshot ::
  "build_env \<Rightarrow> build_params \<Rightarrow> (go_error \<Rightarrow> go_error) \<Rightarrow> unit build_op \<Rightarrow> string build_op" where
  "StartReplicaBuildSnapshot env p ambiguous arm =
     (case rn_check env ''snapshot marker and power'' p of
        Some e \<Rightarrow> fails e
      | None \<Rightarrow> submit_task SubmitSnapshot (rn_submit env ''snapshot'') (\<lambda>e. ambiguous (wrapf ''submit replica snapshot'' e)) arm)"

definition canary_ready :: "build_env \<Rightarrow> build_params \<Rightarrow> go_error option" where
  "canary_ready env p =
     (case rn_check env ''canary connection and target'' p of
        Some e \<Rightarrow> Some e
      | None \<Rightarrow>
          if cp_SourceVMMoref p = [] \<or> cp_DestinationSnapshot p = []
          then Some (errorsNew ''accepted replica and snapshot identities are required'')
          else if cp_SourceOperationID p = [] then Some (errorsNew ''retained replica operation identity is required'')
          else
            (case rn_check env ''canary marker'' p of
               Some e \<Rightarrow> Some e
             | None \<Rightarrow>
                 (case rn_find env ''canary name'' p of
                    Inl e \<Rightarrow> Some e
                  | Inr existing \<Rightarrow>
                      if existing \<noteq> [] then Some (ambiguous_build ''canary name already exists'')
                      else rn_check env ''canary datastore and vTPM'' p)))"

definition StartReplicaBuildCanary ::
  "build_env \<Rightarrow> build_params \<Rightarrow> (go_error \<Rightarrow> go_error) \<Rightarrow> unit build_op \<Rightarrow> string build_op" where
  "StartReplicaBuildCanary env p ambiguous arm =
     (case canary_ready env p of
        Some e \<Rightarrow> fails e
      | None \<Rightarrow> submit_task SubmitCanary (rn_submit env ''canary'')
                  (\<lambda>e. ambiguous (wrapf ''submit replica acceptance canary'' e)) arm)"

text \<open>\<open>startReplicaBuildVMCleanup\<close>: the task, or none if the machine is gone.\<close>

definition startReplicaBuildVMCleanup ::
  "build_env \<Rightarrow> submission \<Rightarrow> string \<Rightarrow> moref \<Rightarrow> (go_error \<Rightarrow> go_error) \<Rightarrow> unit build_op \<Rightarrow> string option build_op" where
  "startReplicaBuildVMCleanup env k t mref ambiguous arm =
     andThen (answer (rn_marker env (t @ '' marker'') mref)) (\<lambda>present.
       if \<not> present then yields None
       else submit_task k (rn_destroy env t) (\<lambda>e. ambiguous (wrapf ''submit acceptance canary cleanup'' e)) arm)"

text \<open>\<open>findReplicaBuildVM\<close>: the one machine of the name of the build, which must carry its markers.\<close>

fun findReplicaBuildVM :: "(string \<times> string \<times> string) \<Rightarrow> string \<Rightarrow> moref \<Rightarrow> folder_child list \<Rightarrow> moref result" where
  "findReplicaBuildVM markers name matching [] = Inr matching"
| "findReplicaBuildVM markers name matching (c # cs) =
     (if \<not> fc_isVM c then findReplicaBuildVM markers name matching cs
      else
        (case fc_Props c of
           Inl e \<Rightarrow> Inl e
         | Inr (n, config) \<Rightarrow>
             if n \<noteq> name then findReplicaBuildVM markers name matching cs
             else if config \<noteq> Some markers then Inl (ambiguous_build ''VM exists without the exact build marker'')
             else if matching \<noteq> [] then Inl (ambiguous_build ''multiple VMs match build'')
             else findReplicaBuildVM markers name (fc_Moref c) cs))"

definition FindReplicaBuildVM :: "build_env \<Rightarrow> string \<Rightarrow> build_params \<Rightarrow> moref build_op" where
  "FindReplicaBuildVM env t p =
     answer (case rn_children env t of
               Inl e \<Rightarrow> Inl e
             | Inr cs \<Rightarrow> findReplicaBuildVM (rn_ustr env (cp_BuildID p), cp_OperationID p, cp_Kind p) (cp_DestinationName p) [] cs)"

text \<open>
  \<open>waitTaskResult\<close> refuses an empty reference, and a result that is not an object of the expected type;
  a destruction has no result.
\<close>

definition waitTaskResult :: "build_env \<Rightarrow> string \<Rightarrow> string \<Rightarrow> string \<Rightarrow> moref result" where
  "waitTaskResult env t taskRef resultType =
     (if taskRef = [] then Inl (errorsNew ''vCenter task reference is empty'')
      else
        (case rn_wait env t taskRef of
           Inl e \<Rightarrow> Inl e
         | Inr ref \<Rightarrow> if resultType = [] then Inr []
                      else if ref = [] then Inl (errorsNew ''task returned unexpected result'') else Inr ref))"

definition wait_task :: "build_env \<Rightarrow> string \<Rightarrow> string \<Rightarrow> string \<Rightarrow> moref build_op" where
  "wait_task env t taskRef resultType = answer (waitTaskResult env t taskRef resultType)"

definition exact_exists :: "build_env \<Rightarrow> string \<Rightarrow> moref \<Rightarrow> bool build_op" where
  "exact_exists env t mref = (if mref = [] then fails (errorsNew ''exact MoRef is required'') else answer (rn_marker env t mref))"


section \<open>The phases of a build\<close>

text \<open>
  \<open>executeTemplateReplicaBuild\<close>, one definition per phase; the value says whether the loop goes on.
\<close>

definition phase_pending :: "build_env \<Rightarrow> string \<Rightarrow> bool build_op" where
  "phase_pending env workerID =
     andThen the_build (\<lambda>b.
     andThen (if rbd_SourceSnapshotMoref b \<noteq> [] then yields ()
              else andThen (answer (rn_find env ''source snapshot'' (retainedReplicaBuildParams b))) (\<lambda>ref.
                   if ref = [] then fails (errorsNew ''source snapshot was not found'')
                   else saveReplicaBuildState env ''save source snapshot'' workerID (\<lambda>b. b\<lparr>rbd_SourceSnapshotMoref := ref\<rparr>))) (\<lambda>_.
     andThen the_build (\<lambda>b.
     andThen (StartReplicaBuildClone env (retainedReplicaBuildParams b)
                (wrapf ''replica build clone submission outcome is ambiguous'')
                (saveReplicaBuildState env ''arm clone'' workerID
                   (\<lambda>b. b\<lparr>rbd_Status := BuildRunning, rbd_Phase := PhaseCloneSubmitting,
                          rbd_StartedAt := Some (rn_now env ''start clone'')\<rparr>))) (\<lambda>(taskRef, ref).
     andThen (saveReplicaBuildState env ''save clone task'' workerID
                (\<lambda>b. b\<lparr>rbd_CloneTaskRef := taskRef, rbd_SourceSnapshotMoref := ref, rbd_Phase := PhaseCloneSubmitted\<rparr>)) (\<lambda>_.
     yields True)))))"

definition phase_clone_submitting :: "build_env \<Rightarrow> string \<Rightarrow> bool build_op" where
  "phase_clone_submitting env workerID =
     andThen the_build (\<lambda>b.
     andThen (FindReplicaBuildVM env ''find clone'' (retainedReplicaBuildParams b)) (\<lambda>mref.
     if mref = [] then
       fails (if replicaBuildSubmissionExpired (rn_now env ''clone expired'') b
              then ambiguous_build ''clone submission did not produce a marked VM''
              else replicaBuildReconcileWait (rbd_Phase b))
     else
     andThen (answer (rn_find env ''source snapshot again'' (retainedReplicaBuildParams b))) (\<lambda>ref.
     if ref = [] \<or> ref \<noteq> rbd_SourceSnapshotMoref b
     then fails (ambiguous_build ''source snapshot changed during clone reconciliation'')
     else
     andThen (saveReplicaBuildState env ''save clone'' workerID
                (\<lambda>b. b\<lparr>rbd_DestinationVMMoref := mref, rbd_Phase := PhaseValidating\<rparr>)) (\<lambda>_.
     andThen (ensurePending env ''reserve replica'' workerID) (\<lambda>_.
     yields True)))))"

text \<open>The task failed with \<open>e\<close>, but a machine with the markers of the build is there.\<close>

definition adopt_clone :: "build_env \<Rightarrow> string \<Rightarrow> go_error \<Rightarrow> moref \<Rightarrow> bool build_op" where
  "adopt_clone env workerID e mref =
     andThen (caught (saveReplicaBuildState env ''save clone'' workerID
                (\<lambda>b. b\<lparr>rbd_DestinationVMMoref := mref,
                       rbd_Phase := (if errorsIs e ErrCloneTaskFailed then rbd_Phase b else PhaseValidating)\<rparr>))) (\<lambda>saved.
     case saved of
       Inl e' \<Rightarrow> fails (errorsJoin e e')
     | Inr _ \<Rightarrow>
         andThen (caught (ensurePending env ''reserve replica'' workerID)) (\<lambda>reserved.
         case reserved of
           Inl e' \<Rightarrow> fails (errorsJoin e e')
         | Inr _ \<Rightarrow> if errorsIs e ErrCloneTaskFailed then fails (terminalReplicaBuildTaskError e) else yields True))"

definition phase_clone_submitted :: "build_env \<Rightarrow> string \<Rightarrow> bool build_op" where
  "phase_clone_submitted env workerID =
     andThen the_build (\<lambda>b.
     andThen (caught (wait_task env ''wait clone'' (rbd_CloneTaskRef b) ''VirtualMachine'')) (\<lambda>waited.
     case waited of
       Inr mref \<Rightarrow>
         andThen (saveReplicaBuildState env ''save clone'' workerID
                    (\<lambda>b. b\<lparr>rbd_DestinationVMMoref := mref, rbd_Phase := PhaseValidating\<rparr>)) (\<lambda>_.
         andThen (ensurePending env ''reserve replica'' workerID) (\<lambda>_.
         yields True))
     | Inl e \<Rightarrow>
         andThen (caught (FindReplicaBuildVM env ''find clone'' (retainedReplicaBuildParams b))) (\<lambda>found.
         case found of
           Inl e' \<Rightarrow> fails (terminalReplicaBuildTaskError (errorsJoin e e'))
         | Inr mref \<Rightarrow>
             if mref = [] then fails (terminalReplicaBuildTaskError e)
             else adopt_clone env workerID e mref)))"

definition phase_validating :: "build_env \<Rightarrow> string \<Rightarrow> bool build_op" where
  "phase_validating env workerID =
     andThen the_build (\<lambda>b.
     andThen (if rbd_ResultReplicaID b = None then ensurePending env ''reserve replica again'' workerID else yields ()) (\<lambda>_.
     andThen the_build (\<lambda>b.
     case rn_check env ''validate clone'' (retainedReplicaBuildParams b) of
       Some e \<Rightarrow> fails (wrapf ''validate retained replica clone'' e)
     | None \<Rightarrow>
         andThen (StartReplicaBuildSnapshot env (retainedReplicaBuildParams b)
                    (wrapf ''replica build snapshot submission outcome is ambiguous'')
                    (saveReplicaBuildState env ''arm snapshot'' workerID (\<lambda>b. b\<lparr>rbd_Phase := PhaseSnapshotSubmitting\<rparr>))) (\<lambda>taskRef.
         andThen (saveReplicaBuildState env ''save snapshot task'' workerID
                    (\<lambda>b. b\<lparr>rbd_SnapshotTaskRef := taskRef, rbd_Phase := PhaseSnapshotSubmitted\<rparr>)) (\<lambda>_.
         yields True)))))"

definition phase_snapshot_submitting :: "build_env \<Rightarrow> string \<Rightarrow> bool build_op" where
  "phase_snapshot_submitting env workerID =
     andThen the_build (\<lambda>b.
     andThen (answer (rn_find env ''find snapshot'' (retainedReplicaBuildParams b))) (\<lambda>ref.
     if ref = [] then
       fails (if replicaBuildSubmissionExpired (rn_now env ''snapshot expired'') b
              then ambiguous_build ''snapshot submission did not produce a snapshot''
              else replicaBuildReconcileWait (rbd_Phase b))
     else
     andThen (saveReplicaBuildState env ''save snapshot'' workerID
                (\<lambda>b. b\<lparr>rbd_DestinationSnapshot := ref, rbd_Phase := PhaseCanaryPrepared\<rparr>)) (\<lambda>_.
     yields True)))"

definition phase_snapshot_submitted :: "build_env \<Rightarrow> string \<Rightarrow> bool build_op" where
  "phase_snapshot_submitted env workerID =
     andThen the_build (\<lambda>b.
     andThen (caught (wait_task env ''wait snapshot'' (rbd_SnapshotTaskRef b) ''VirtualMachineSnapshot'')) (\<lambda>waited.
     andThen (case waited of
                Inr ref \<Rightarrow> yields ref
              | Inl e \<Rightarrow>
                  andThen (caught (answer (rn_find env ''find snapshot'' (retainedReplicaBuildParams b)))) (\<lambda>found.
                  case found of
                    Inl e' \<Rightarrow> fails (terminalReplicaBuildTaskError (errorsJoin e e'))
                  | Inr ref \<Rightarrow> if ref = [] then fails (terminalReplicaBuildTaskError e) else yields ref)) (\<lambda>ref.
     andThen (saveReplicaBuildState env ''save snapshot'' workerID
                (\<lambda>b. b\<lparr>rbd_DestinationSnapshot := ref, rbd_Phase := PhaseCanaryPrepared\<rparr>)) (\<lambda>_.
     yields True))))"

definition phase_canary_prepared :: "build_env \<Rightarrow> string \<Rightarrow> bool build_op" where
  "phase_canary_prepared env workerID =
     andThen the_build (\<lambda>b.
     andThen (StartReplicaBuildCanary env (canaryReplicaBuildParams b)
                (wrapf ''replica acceptance canary submission outcome is ambiguous'')
                (saveReplicaBuildState env ''arm canary'' workerID (\<lambda>b. b\<lparr>rbd_Phase := PhaseCanarySubmitting\<rparr>))) (\<lambda>taskRef.
     andThen (saveReplicaBuildState env ''save canary task'' workerID
                (\<lambda>b. b\<lparr>rbd_CanaryTaskRef := taskRef, rbd_Phase := PhaseCanarySubmitted\<rparr>)) (\<lambda>_.
     yields True)))"

definition phase_canary_submitting :: "build_env \<Rightarrow> string \<Rightarrow> bool build_op" where
  "phase_canary_submitting env workerID =
     andThen the_build (\<lambda>b.
     andThen (FindReplicaBuildVM env ''find canary'' (canaryReplicaBuildParams b)) (\<lambda>mref.
     if mref = [] then
       fails (if replicaBuildSubmissionExpired (rn_now env ''canary expired'') b
              then ambiguous_build ''canary submission did not produce a marked VM''
              else replicaBuildReconcileWait (rbd_Phase b))
     else
     andThen (saveReplicaBuildState env ''save canary'' workerID
                (\<lambda>b. b\<lparr>rbd_CanaryVMMoref := mref, rbd_Phase := PhaseCleanupPrepared\<rparr>)) (\<lambda>_.
     yields True)))"

definition phase_canary_submitted :: "build_env \<Rightarrow> string \<Rightarrow> bool build_op" where
  "phase_canary_submitted env workerID =
     andThen the_build (\<lambda>b.
     andThen (caught (wait_task env ''wait canary'' (rbd_CanaryTaskRef b) ''VirtualMachine'')) (\<lambda>waited.
     andThen (case waited of
                Inr mref \<Rightarrow> yields mref
              | Inl e \<Rightarrow>
                  andThen (caught (FindReplicaBuildVM env ''find canary'' (canaryReplicaBuildParams b))) (\<lambda>found.
                  case found of
                    Inl e' \<Rightarrow> fails (terminalReplicaBuildTaskError (errorsJoin e e'))
                  | Inr mref \<Rightarrow> if mref = [] then fails (terminalReplicaBuildTaskError e) else yields mref)) (\<lambda>mref.
     andThen (saveReplicaBuildState env ''save canary'' workerID
                (\<lambda>b. b\<lparr>rbd_CanaryVMMoref := mref, rbd_Phase := PhaseCleanupPrepared\<rparr>)) (\<lambda>_.
     yields True))))"

text \<open>The submission time is set even when the phase stays \<open>cleanup_submitting\<close>.\<close>

definition arm_canary_cleanup :: "build_env \<Rightarrow> string \<Rightarrow> unit build_op" where
  "arm_canary_cleanup env workerID =
     saveReplicaBuildState env ''arm canary cleanup'' workerID
       (\<lambda>b. b\<lparr>rbd_SubmissionStartedAt := Some (rn_now env ''canary cleanup''), rbd_CleanupTaskRef := [],
              rbd_Phase := PhaseCleanupSubmitting\<rparr>)"

definition phase_cleanup_prepared :: "build_env \<Rightarrow> string \<Rightarrow> bool build_op" where
  "phase_cleanup_prepared env workerID =
     andThen the_build (\<lambda>b.
     case (if rbd_Phase b = PhaseCleanupPrepared then rn_check env ''validate canary'' (canaryReplicaBuildParams b) else None) of
       Some e \<Rightarrow> fails (wrapf ''validate linked-clone acceptance canary'' e)
     | None \<Rightarrow>
         andThen (startReplicaBuildVMCleanup env SubmitCanaryCleanup ''canary cleanup'' (rbd_CanaryVMMoref b)
                    (wrapf ''acceptance canary cleanup submission requires reconciliation'')
                    (arm_canary_cleanup env workerID)) (\<lambda>task.
         case task of
           None \<Rightarrow>
             andThen (saveReplicaBuildState env ''canary gone'' workerID
                        (\<lambda>b. b\<lparr>rbd_CleanupCompletedAt := Some (rn_now env ''canary gone''), rbd_Phase := PhaseFinalizing\<rparr>)) (\<lambda>_.
             yields True)
         | Some taskRef \<Rightarrow>
             andThen (saveReplicaBuildState env ''save canary cleanup task'' workerID
                        (\<lambda>b. b\<lparr>rbd_CleanupTaskRef := taskRef, rbd_Phase := PhaseCleanupSubmitted\<rparr>)) (\<lambda>_.
             yields True)))"

text \<open>
  The end of the cleanup of the canary, in both jobs: the task, whose failure only counts if the canary is
  still there, then the exact absence. \<open>still\<close> is the error when it is not absent.
\<close>

definition canary_absent :: "build_env \<Rightarrow> string \<Rightarrow> string \<Rightarrow> unit build_op" where
  "canary_absent env still workerID =
     andThen the_build (\<lambda>b.
     andThen (caught (wait_task env ''wait canary cleanup'' (rbd_CleanupTaskRef b) '''')) (\<lambda>waited.
     andThen (case waited of
                Inr _ \<Rightarrow> yields ()
              | Inl e \<Rightarrow>
                  andThen (caught (exact_exists env ''canary exists'' (rbd_CanaryVMMoref b))) (\<lambda>there.
                  case there of
                    Inl e' \<Rightarrow> fails (errorsJoin e e')
                  | Inr True \<Rightarrow>
                      if errorsIs e ErrCloneTaskFailed
                      then
                        andThen (caught (saveReplicaBuildState env ''canary cleanup again'' workerID
                                   (\<lambda>b. b\<lparr>rbd_CleanupTaskRef := [], rbd_Phase := PhaseCleanupPrepared\<rparr>))) (\<lambda>saved.
                        case saved of
                          Inl e' \<Rightarrow> fails (errorsJoin e e')
                        | Inr _ \<Rightarrow> fails (replicaBuildReconcileWait PhaseCleanupPrepared))
                      else fails e
                  | Inr False \<Rightarrow> yields ())) (\<lambda>_.
     andThen (exact_exists env ''canary exists afterwards'' (rbd_CanaryVMMoref b)) (\<lambda>there.
     if there then fails (errorsNew still) else yields ()))))"

definition phase_cleanup_submitted :: "build_env \<Rightarrow> string \<Rightarrow> bool build_op" where
  "phase_cleanup_submitted env workerID =
     andThen (canary_absent env ''acceptance canary still exists after successful destroy task'' workerID) (\<lambda>_.
     andThen (saveReplicaBuildState env ''canary cleaned'' workerID
                (\<lambda>b. b\<lparr>rbd_CleanupCompletedAt := Some (rn_now env ''canary cleaned''), rbd_Phase := PhaseFinalizing\<rparr>)) (\<lambda>_.
     yields True))"

definition phase_finalizing :: "build_env \<Rightarrow> string \<Rightarrow> bool build_op" where
  "phase_finalizing env workerID =
     andThen the_build (\<lambda>b.
     andThen (store_query env ''finalize'' (FinalizeTemplateReplicaBuild (rn_flt env ''finalize'') (rn_now env ''finalize'') b workerID)) (\<lambda>_.
     yields False))"

definition phase_step :: "build_env \<Rightarrow> string \<Rightarrow> bool build_op" where
  "phase_step env workerID s =
     (case rbd_Phase (fst s) of
        PhasePending \<Rightarrow> phase_pending env workerID s
      | PhaseCloneSubmitting \<Rightarrow> phase_clone_submitting env workerID s
      | PhaseCloneSubmitted \<Rightarrow> phase_clone_submitted env workerID s
      | PhaseValidating \<Rightarrow> phase_validating env workerID s
      | PhaseSnapshotSubmitting \<Rightarrow> phase_snapshot_submitting env workerID s
      | PhaseSnapshotSubmitted \<Rightarrow> phase_snapshot_submitted env workerID s
      | PhaseCanaryPrepared \<Rightarrow> phase_canary_prepared env workerID s
      | PhaseCanarySubmitting \<Rightarrow> phase_canary_submitting env workerID s
      | PhaseCanarySubmitted \<Rightarrow> phase_canary_submitted env workerID s
      | PhaseCleanupPrepared \<Rightarrow> phase_cleanup_prepared env workerID s
      | PhaseCleanupSubmitting \<Rightarrow> phase_cleanup_prepared env workerID s
      | PhaseCleanupSubmitted \<Rightarrow> phase_cleanup_submitted env workerID s
      | PhaseFinalizing \<Rightarrow> phase_finalizing env workerID s
      | PhaseReady \<Rightarrow> yields False s
      | _ \<Rightarrow> fails (errorsNew ''unsupported template replica build phase'') s)"


section \<open>Assertions about operations\<close>

text \<open>
  \<open>valid P m Q E\<close>: from a state with \<open>P\<close> the operation ends with a value in \<open>Q\<close> or with an error in \<open>E\<close>.
\<close>

definition valid ::
  "(build_state \<Rightarrow> bool) \<Rightarrow> 'a build_op \<Rightarrow> ('a \<Rightarrow> build_state \<Rightarrow> bool) \<Rightarrow> (build_state \<Rightarrow> bool) \<Rightarrow> bool" where
  "valid P m Q E \<longleftrightarrow> (\<forall>s. P s \<longrightarrow> (case m s of (Inl _, s') \<Rightarrow> E s' | (Inr x, s') \<Rightarrow> Q x s'))"

lemma validI:
  "(\<And>s e s'. P s \<Longrightarrow> m s = (Inl e, s') \<Longrightarrow> E s') \<Longrightarrow> (\<And>s x s'. P s \<Longrightarrow> m s = (Inr x, s') \<Longrightarrow> Q x s') \<Longrightarrow> valid P m Q E"
  unfolding valid_def by (auto split: prod.splits sum.splits)

lemma validD_ok: "valid P m Q E \<Longrightarrow> P s \<Longrightarrow> m s = (Inr x, s') \<Longrightarrow> Q x s'"
  unfolding valid_def by fastforce

lemma validD_err: "valid P m Q E \<Longrightarrow> P s \<Longrightarrow> m s = (Inl e, s') \<Longrightarrow> E s'"
  unfolding valid_def by fastforce

lemma andThen_cases:
  "andThen m k s = (r, s') \<Longrightarrow> (\<exists>e. m s = (Inl e, s') \<and> r = Inl e) \<or> (\<exists>x t. m s = (Inr x, t) \<and> k x t = (r, s'))"
  by (auto simp: andThen_def split: prod.splits sum.splits)

lemma valid_andThen:
  assumes "valid P m R E" "\<And>x. valid (R x) (k x) Q E"
  shows "valid P (andThen m k) Q E"
proof (rule validI)
  show "E s'" if "P s" "andThen m k s = (Inl e, s')" for s e s'
    using andThen_cases [OF that(2)] validD_err [OF assms(1) that(1)] validD_ok [OF assms(1) that(1)] validD_err [OF assms(2)] by blast
  show "Q x s'" if "P s" "andThen m k s = (Inr x, s')" for s x s'
    using andThen_cases [OF that(2)] validD_ok [OF assms(1) that(1)] validD_ok [OF assms(2)] by blast
qed

lemma valid_caught: "valid P m (\<lambda>x. Q (Inr x)) F \<Longrightarrow> (\<And>e s. F s \<Longrightarrow> Q (Inl e) s) \<Longrightarrow> valid P (caught m) Q E"
proof (rule validI)
  assume v: "valid P m (\<lambda>x. Q (Inr x)) F" "\<And>e s. F s \<Longrightarrow> Q (Inl e) s"
  show "Q x s'" if "P s" "caught m s = (Inr x, s')" for s x s'
    using that validD_ok [OF v(1) that(1)] v(2) [OF validD_err [OF v(1) that(1)]]
    by (cases x) (auto simp: caught_def split: prod.splits)
qed (simp add: caught_def split: prod.splits)

lemma valid_yields: "(\<And>s. P s \<Longrightarrow> Q x s) \<Longrightarrow> valid P (yields x) Q E"
  by (simp add: valid_def yields_def)

lemma valid_fails: "(\<And>s. P s \<Longrightarrow> E s) \<Longrightarrow> valid P (fails e) Q E"
  by (simp add: valid_def fails_def)

lemma valid_answer: "(\<And>s. P s \<Longrightarrow> E s) \<Longrightarrow> valid P (answer r) (\<lambda>_. P) E"
  by (auto simp: valid_def answer_def split: sum.splits)

lemma valid_the_build: "valid P the_build (\<lambda>b s. P s \<and> b = fst s) E"
  by (simp add: valid_def the_build_def)

lemma valid_pre: "valid P m Q E \<Longrightarrow> (\<And>s. P' s \<Longrightarrow> P s) \<Longrightarrow> valid P' m Q E"
  by (simp add: valid_def)

lemma valid_post: "valid P m Q E \<Longrightarrow> (\<And>x s. Q x s \<Longrightarrow> Q' x s) \<Longrightarrow> (\<And>s. E s \<Longrightarrow> E' s) \<Longrightarrow> valid P m Q' E'"
  by (rule validI) (blast dest: validD_ok validD_err)+

lemma valid_if: "(c \<Longrightarrow> valid P m Q E) \<Longrightarrow> (\<not> c \<Longrightarrow> valid P m' Q E) \<Longrightarrow> valid P (if c then m else m') Q E"
  by simp

lemma valid_sum:
  "(\<And>e. r = Inl e \<Longrightarrow> valid P (f e) Q E) \<Longrightarrow> (\<And>x. r = Inr x \<Longrightarrow> valid P (g x) Q E) \<Longrightarrow>
   valid P (case r of Inl e \<Rightarrow> f e | Inr x \<Rightarrow> g x) Q E"
  by (cases r) simp_all

lemma valid_option:
  "(r = None \<Longrightarrow> valid P f Q E) \<Longrightarrow> (\<And>x. r = Some x \<Longrightarrow> valid P (g x) Q E) \<Longrightarrow>
   valid P (case r of None \<Rightarrow> f | Some x \<Rightarrow> g x) Q E"
  by (cases r) simp_all

lemma valid_bool: "(r \<Longrightarrow> valid P f Q E) \<Longrightarrow> (\<not> r \<Longrightarrow> valid P g Q E) \<Longrightarrow> valid P (case r of True \<Rightarrow> f | False \<Rightarrow> g) Q E"
  by (cases r) simp_all

lemma valid_prod: "(\<And>a b. r = (a, b) \<Longrightarrow> valid P (f a b) Q E) \<Longrightarrow> valid P (case r of (a, b) \<Rightarrow> f a b) Q E"
  by (cases r) simp

lemmas valid_splits = valid_if valid_sum valid_option valid_bool valid_prod

text \<open>Operations that only look: they keep every assertion.\<close>

lemma valid_wait: "(\<And>s. P s \<Longrightarrow> E s) \<Longrightarrow> valid P (wait_task env t ref ty) (\<lambda>_. P) E"
  unfolding wait_task_def by (intro valid_answer) auto

lemma valid_exists: "(\<And>s. P s \<Longrightarrow> E s) \<Longrightarrow> valid P (exact_exists env t ref) (\<lambda>_. P) E"
  unfolding exact_exists_def by (intro valid_if valid_fails valid_answer) auto

lemma valid_find: "(\<And>s. P s \<Longrightarrow> E s) \<Longrightarrow> valid P (FindReplicaBuildVM env t p) (\<lambda>_. P) E"
  unfolding FindReplicaBuildVM_def by (intro valid_answer) auto

lemma valid_caught_same: "valid P m (\<lambda>_. P) P \<Longrightarrow> valid P (caught m) (\<lambda>_. P) E"
  by (rule valid_caught) auto

lemmas valid_looks = valid_answer valid_wait valid_exists valid_find

section \<open>The loop ends\<close>

definition phase_rank :: "build_phase \<Rightarrow> nat" where
  "phase_rank p =
     (case p of PhasePending \<Rightarrow> 0 | PhaseCloneSubmitting \<Rightarrow> 1 | PhaseCloneSubmitted \<Rightarrow> 2 | PhaseValidating \<Rightarrow> 3
      | PhaseSnapshotSubmitting \<Rightarrow> 4 | PhaseSnapshotSubmitted \<Rightarrow> 5 | PhaseCanaryPrepared \<Rightarrow> 6 | PhaseCanarySubmitting \<Rightarrow> 7
      | PhaseCanarySubmitted \<Rightarrow> 8 | PhaseCleanupPrepared \<Rightarrow> 9 | PhaseCleanupSubmitting \<Rightarrow> 10 | PhaseCleanupSubmitted \<Rightarrow> 11
      | _ \<Rightarrow> 12)"

lemma save_phase:
  "saveReplicaBuildState env t w m s = (Inr x, s') \<Longrightarrow> rbd_Phase (fst s') = rbd_Phase (m (fst s))"
  unfolding saveReplicaBuildState_def store_query_def Let_def by (auto split: prod.splits sum.splits if_splits)

lemma valid_save_phase:
  "(\<And>b. rbd_Phase (m b) \<in> S) \<Longrightarrow> valid P (saveReplicaBuildState env t w m) (\<lambda>_ s. rbd_Phase (fst s) \<in> S) (\<lambda>_. True)"
  by (rule validI) (simp_all add: save_phase)

lemma Ensure_phase:
  "EnsurePendingReplicaForBuild flt i b w db = (Inr b', db') \<Longrightarrow> rbd_Phase b' = rbd_Phase b"
  unfolding EnsurePendingReplicaForBuild_def lossy_tx_def reserve_replica_def Let_def
  by (auto dest!: run_tx_InrD split: option.splits if_splits sum.splits prod.splits)

lemma valid_ensure_phase:
  "valid (\<lambda>s. rbd_Phase (fst s) \<in> S) (ensurePending env t w) (\<lambda>_ s. rbd_Phase (fst s) \<in> S) (\<lambda>_. True)"
proof (rule validI)
  fix s :: build_state and x s'
  assume p: "rbd_Phase (fst s) \<in> S" and e: "ensurePending env t w s = (Inr x, s')"
  obtain r db' where q: "EnsurePendingReplicaForBuild (rn_flt env t) (rn_newID env) (fst s) w (rn_between env t (rw_db (snd s))) = (r, db')"
    by (rule prod.exhaust)
  from e q obtain b where "r = Inr b" "s' = (b, (snd s)\<lparr>rw_db := db'\<rparr>)"
    unfolding ensurePending_def store_query_def by (cases r) auto
  with q p show "rbd_Phase (fst s') \<in> S" by (auto dest: Ensure_phase)
qed simp


lemma valid_triv: "valid P m (\<lambda>_ _. True) (\<lambda>_. True)"
  by (rule validI) simp_all

abbreviation goes_to :: "bool build_op \<Rightarrow> build_phase set \<Rightarrow> bool" where
  "goes_to m S \<equiv> valid (\<lambda>_. True) m (\<lambda>c s. c \<longrightarrow> rbd_Phase (fst s) \<in> S) (\<lambda>_. True)"

lemma goes_save:
  assumes "\<And>b. rbd_Phase (m b) \<in> S"
  shows "goes_to (andThen (saveReplicaBuildState env t w m) (\<lambda>_. yields True)) S"
  by (rule valid_andThen [OF valid_save_phase [OF assms]], rule valid_yields, simp)

lemma goes_save_ensure:
  assumes "\<And>b. rbd_Phase (m b) \<in> S"
  shows "goes_to (andThen (saveReplicaBuildState env t w m) (\<lambda>_. andThen (ensurePending env t' w) (\<lambda>_. yields True))) S"
  by (rule valid_andThen [OF valid_save_phase [OF assms]], rule valid_andThen [OF valid_ensure_phase], rule valid_yields, simp)

lemma goes_fails: "goes_to (fails e) S"
  by (rule valid_fails) simp

lemma goes_then: "(\<And>x. goes_to (k x) S) \<Longrightarrow> goes_to (andThen m k) S"
  by (rule valid_andThen [OF valid_triv])

lemma adopt_clone_goes: "goes_to (adopt_clone env w e mref) {PhaseValidating}"
proof (cases "errorsIs e ErrCloneTaskFailed")
  case True
  show ?thesis unfolding adopt_clone_def
    by (rule goes_then, rule valid_sum, rule goes_fails, rule goes_then, rule valid_sum, rule goes_fails, subst if_P [OF True], rule goes_fails)
next
  case False
  let ?Q = "\<lambda>r s. isl r \<or> rbd_Phase (fst s) \<in> {PhaseValidating}"
  have 1: "valid P (caught (saveReplicaBuildState env t w (\<lambda>b. b\<lparr>rbd_DestinationVMMoref := mref, rbd_Phase := PhaseValidating\<rparr>))) ?Q (\<lambda>_. True)"
    for P t by (rule valid_caught [OF valid_post [OF valid_save_phase [where S = "{PhaseValidating}"]]]) auto
  have 2: "valid (\<lambda>s. rbd_Phase (fst s) \<in> {PhaseValidating}) (caught (ensurePending env t w)) ?Q (\<lambda>_. True)" for t
    by (rule valid_caught [OF valid_post [OF valid_ensure_phase]]) auto
  show ?thesis unfolding adopt_clone_def using False
    apply (simp only: if_False)
    apply (rule valid_andThen [OF 1])
    apply (rule valid_sum)
     apply (rule valid_pre [OF goes_fails], simp)
    apply (rule valid_pre [where P = "\<lambda>s. rbd_Phase (fst s) \<in> {PhaseValidating}"])
     apply (rule valid_andThen [OF 2])
     apply (rule valid_sum)
      apply (rule valid_pre [OF goes_fails], simp)
     apply (rule valid_yields, simp)
    apply simp
    done
qed

lemmas goes_rules = goes_save goes_save_ensure goes_fails adopt_clone_goes valid_splits goes_then

lemma phase_pending_goes: "goes_to (phase_pending env w) {PhaseCloneSubmitted}"
  unfolding phase_pending_def by (rule goes_rules | simp)+

lemma phase_clone_submitting_goes: "goes_to (phase_clone_submitting env w) {PhaseValidating}"
  unfolding phase_clone_submitting_def by (rule goes_rules | simp)+

lemma phase_validating_goes: "goes_to (phase_validating env w) {PhaseSnapshotSubmitted}"
  unfolding phase_validating_def by (rule goes_rules | simp)+

lemma phase_snapshot_submitting_goes: "goes_to (phase_snapshot_submitting env w) {PhaseCanaryPrepared}"
  unfolding phase_snapshot_submitting_def by (rule goes_rules | simp)+

lemma phase_snapshot_submitted_goes: "goes_to (phase_snapshot_submitted env w) {PhaseCanaryPrepared}"
  unfolding phase_snapshot_submitted_def by (rule goes_rules | simp)+

lemma phase_canary_prepared_goes: "goes_to (phase_canary_prepared env w) {PhaseCanarySubmitted}"
  unfolding phase_canary_prepared_def by (rule goes_rules | simp)+

lemma phase_canary_submitting_goes: "goes_to (phase_canary_submitting env w) {PhaseCleanupPrepared}"
  unfolding phase_canary_submitting_def by (rule goes_rules | simp)+

lemma phase_canary_submitted_goes: "goes_to (phase_canary_submitted env w) {PhaseCleanupPrepared}"
  unfolding phase_canary_submitted_def by (rule goes_rules | simp)+

lemma phase_cleanup_submitted_goes: "goes_to (phase_cleanup_submitted env w) {PhaseFinalizing}"
  unfolding phase_cleanup_submitted_def by (rule goes_rules | simp)+


lemma phase_clone_submitted_goes: "goes_to (phase_clone_submitted env w) {PhaseValidating}"
  unfolding phase_clone_submitted_def by (rule goes_rules | simp)+

lemma phase_cleanup_prepared_goes: "goes_to (phase_cleanup_prepared env w) {PhaseCleanupSubmitted, PhaseFinalizing}"
  unfolding phase_cleanup_prepared_def by (rule goes_rules | simp)+

lemma phase_finalizing_goes: "goes_to (phase_finalizing env w) {}"
  unfolding phase_finalizing_def by (rule goes_rules valid_yields | simp)+

lemmas phase_goes = phase_pending_goes phase_clone_submitting_goes phase_clone_submitted_goes phase_validating_goes
  phase_snapshot_submitting_goes phase_snapshot_submitted_goes phase_canary_prepared_goes phase_canary_submitting_goes
  phase_canary_submitted_goes phase_cleanup_prepared_goes phase_cleanup_submitted_goes phase_finalizing_goes

lemmas phase_goesD = phase_goes [THEN validD_ok, OF TrueI]

lemma phase_step_rank:
  assumes "phase_step env w s = (Inr True, s')"
  shows "phase_rank (rbd_Phase (fst s)) < phase_rank (rbd_Phase (fst s'))"
  using assms
  by (cases "rbd_Phase (fst s)")
    (simp_all add: phase_step_def yields_def fails_def, (drule phase_goesD, auto simp: phase_rank_def)+)

text \<open>The loop; \<open>None\<close> is the return without an error.\<close>

function execute_loop :: "build_env \<Rightarrow> string \<Rightarrow> build_state \<Rightarrow> go_error option \<times> build_state" where
  "execute_loop env workerID s =
     (case phase_step env workerID s of
        (Inl e, s') \<Rightarrow> (Some e, s')
      | (Inr True, s') \<Rightarrow> execute_loop env workerID s'
      | (Inr False, s') \<Rightarrow> (None, s'))"
  by auto

termination
proof (relation "measure (\<lambda>(env, w, s). 12 - phase_rank (rbd_Phase (fst s)))")
  fix env workerID and s y :: build_state and x :: "bool result" and b
  assume "(x, y) = phase_step env workerID s" "x = Inr b" "b = True"
  then have "phase_step env workerID s = (Inr True, y)" by simp
  from phase_step_rank [OF this] have less: "phase_rank (rbd_Phase (fst s)) < phase_rank (rbd_Phase (fst y))" .
  have "phase_rank p \<le> 12" for p by (cases p) (simp_all add: phase_rank_def)
  with less have "phase_rank (rbd_Phase (fst s)) < 12" using less_le_trans by blast
  with less show "((env, workerID, y), env, workerID, s) \<in> measure (\<lambda>(env, w, s). 12 - phase_rank (rbd_Phase (fst s)))"
    by (simp add: diff_less_mono2)
qed simp

declare execute_loop.simps [simp del]

text \<open>\<open>executeTemplateReplicaBuild\<close>; the build is read again at its start.\<close>

definition load_build :: "build_env \<Rightarrow> string \<Rightarrow> uuid \<Rightarrow> string \<Rightarrow> rb_world \<Rightarrow> replica_build result \<times> rb_world" where
  "load_build env t jobID workerID w =
     (let db = rn_between env t (rw_db w) in
      (GetTemplateReplicaBuildForJob (rn_read env t) (rn_read env (t @ '' ownership'')) jobID workerID db, w\<lparr>rw_db := db\<rparr>))"

definition executeTemplateReplicaBuild :: "build_env \<Rightarrow> job \<Rightarrow> string \<Rightarrow> rb_world \<Rightarrow> go_error option \<times> rb_world" where
  "executeTemplateReplicaBuild env job workerID w =
     (case load_build env ''load for execution'' (j_ID job) workerID w of
        (Inl e, w') \<Rightarrow> (Some (terminalReplicaBuildTaskError e), w')
      | (Inr b, w') \<Rightarrow>
          if rbd_Status b = BuildReady then (None, w')
          else (case execute_loop env workerID (b, w') of (r, s) \<Rightarrow> (r, snd s)))"

section \<open>Cleaning up\<close>

text \<open>\<open>cleanupTemplateReplicaBuild\<close>: the canary is looked for, \<dots>\<close>

definition canary_done :: "build_env \<Rightarrow> string \<Rightarrow> (build_phase \<Rightarrow> build_phase) \<Rightarrow> string \<Rightarrow> unit build_op" where
  "canary_done env t phase workerID =
     saveReplicaBuildState env t workerID
       (\<lambda>b. b\<lparr>rbd_CleanupCompletedAt := Some (rn_now env t), rbd_Phase := phase (rbd_Phase b)\<rparr>)"

definition locate_canary :: "build_env \<Rightarrow> string \<Rightarrow> unit build_op" where
  "locate_canary env workerID =
     andThen the_build (\<lambda>b.
     if rbd_CanaryVMMoref b \<noteq> [] \<or> rbd_CleanupCompletedAt b \<noteq> None then yields ()
     else if rbd_Phase b = PhaseCanarySubmitting then
       andThen (FindReplicaBuildVM env ''find canary'' (canaryReplicaBuildParams b)) (\<lambda>mref.
       if mref = [] then
         fails (if replicaBuildSubmissionExpired (rn_now env ''canary expired'') b
                then ambiguous_build ''armed canary has no persisted task or marked VM''
                else replicaBuildReconcileWait (rbd_Phase b))
       else saveReplicaBuildState env ''save canary'' workerID (\<lambda>b. b\<lparr>rbd_CanaryVMMoref := mref\<rparr>))
     else if rbd_Phase b = PhaseCanarySubmitted then
       andThen (FindReplicaBuildVM env ''find canary'' (canaryReplicaBuildParams b)) (\<lambda>found.
       andThen (if found \<noteq> [] \<or> rbd_CanaryTaskRef b = [] then yields found
                else andThen (caught (wait_task env ''wait canary'' (rbd_CanaryTaskRef b) ''VirtualMachine'')) (\<lambda>waited.
                     case waited of
                       Inr mref \<Rightarrow> yields mref
                     | Inl e \<Rightarrow> if errorsIs e ErrCloneTaskFailed then yields [] else fails e)) (\<lambda>mref.
       if mref \<noteq> [] then saveReplicaBuildState env ''save canary'' workerID (\<lambda>b. b\<lparr>rbd_CanaryVMMoref := mref\<rparr>)
       else canary_done env ''no canary'' (\<lambda>_. PhaseResiduePrepared) workerID))
     else if rbd_Phase b \<in> {PhaseCleanupSubmitting, PhaseCleanupSubmitted} then
       fails (ambiguous_build ''canary cleanup phase lost its exact VM identity'')
     else
       canary_done env ''no canary'' (\<lambda>p. if p \<in> {PhaseResiduePrepared, PhaseResidueSubmitting, PhaseResidueSubmitted, PhaseResidueCleaned}
                                          then p else PhaseResiduePrepared) workerID)"

text \<open>\<dots> removed, \<dots>\<close>

definition remove_canary :: "build_env \<Rightarrow> string \<Rightarrow> unit build_op" where
  "remove_canary env workerID =
     andThen the_build (\<lambda>b.
     if rbd_CanaryVMMoref b = [] \<or> rbd_CleanupCompletedAt b \<noteq> None then yields ()
     else if rbd_Phase b = PhaseCleanupSubmitted then
       andThen (canary_absent env ''acceptance canary still exists after cleanup task'' workerID) (\<lambda>_.
       canary_done env ''canary cleaned'' (\<lambda>_. PhaseResiduePrepared) workerID)
     else
       andThen (startReplicaBuildVMCleanup env SubmitCanaryCleanup ''canary cleanup'' (rbd_CanaryVMMoref b) id
                  (arm_canary_cleanup env workerID)) (\<lambda>task.
       case task of
         Some taskRef \<Rightarrow>
           andThen (saveReplicaBuildState env ''save canary cleanup task'' workerID
                      (\<lambda>b. b\<lparr>rbd_CleanupTaskRef := taskRef, rbd_Phase := PhaseCleanupSubmitted\<rparr>)) (\<lambda>_.
           fails (replicaBuildReconcileWait PhaseCleanupSubmitted))
       | None \<Rightarrow> canary_done env ''canary gone'' (\<lambda>_. PhaseResiduePrepared) workerID))"

text \<open>\<dots> then the retained machine is looked for, \<dots>\<close>

definition locate_residue :: "build_env \<Rightarrow> string \<Rightarrow> unit build_op" where
  "locate_residue env workerID =
     andThen the_build (\<lambda>b.
     if rbd_DestinationVMMoref b \<noteq> [] then yields ()
     else
       andThen (FindReplicaBuildVM env ''find clone'' (retainedReplicaBuildParams b)) (\<lambda>mref.
       if mref \<noteq> [] then saveReplicaBuildState env ''save clone'' workerID (\<lambda>b. b\<lparr>rbd_DestinationVMMoref := mref\<rparr>)
       else if rbd_ResumePhase b = PhasePending then yields ()
       else if rbd_ResumePhase b = PhaseCloneSubmitting then
         fails (if replicaBuildSubmissionExpired (rn_now env ''clone expired'') b
                then ambiguous_build ''armed clone has no persisted task or marked VM''
                else replicaBuildReconcileWait (rbd_ResumePhase b))
       else if rbd_ResumePhase b = PhaseCloneSubmitted then
         if rbd_CloneTaskRef b = [] then fails (ambiguous_build ''submitted clone has no task reference'')
         else
           andThen (caught (wait_task env ''wait clone'' (rbd_CloneTaskRef b) ''VirtualMachine'')) (\<lambda>waited.
           case waited of
             Inr m \<Rightarrow> saveReplicaBuildState env ''save clone'' workerID (\<lambda>b. b\<lparr>rbd_DestinationVMMoref := m\<rparr>)
           | Inl e \<Rightarrow> if errorsIs e ErrCloneTaskFailed then yields () else fails e)
       else fails (ambiguous_build ''phase lost the retained replica identity'')))"

definition complete_query :: "build_env \<Rightarrow> string \<Rightarrow> string \<Rightarrow> unit build_op" where
  "complete_query env message workerID =
     andThen the_build (\<lambda>b.
     store_query env ''complete cleanup''
       (CompleteTemplateReplicaBuildCleanup (rn_flt env ''complete cleanup'') (rn_now env ''complete cleanup'') b workerID message))"

definition stamp_residue :: "build_env \<Rightarrow> bool \<Rightarrow> unit build_op" where
  "stamp_residue env again s =
     (Inr (), ((if again \<or> rbd_ResidueCleanedAt (fst s) = None
                then (fst s)\<lparr>rbd_ResidueCleanedAt := Some (rn_now env ''residue cleaned'')\<rparr> else fst s), snd s))"

definition completeTemplateReplicaBuildCleanup :: "build_env \<Rightarrow> string \<Rightarrow> string \<Rightarrow> unit build_op" where
  "completeTemplateReplicaBuildCleanup env message workerID =
     andThen (stamp_residue env False) (\<lambda>_. complete_query env message workerID)"

text \<open>\<dots> and removed.\<close>

definition residue_absent :: "build_env \<Rightarrow> string \<Rightarrow> unit build_op" where
  "residue_absent env workerID =
     andThen the_build (\<lambda>b.
     andThen (caught (wait_task env ''wait residue cleanup'' (rbd_ResidueCleanupTaskRef b) '''')) (\<lambda>waited.
     andThen (case waited of
                Inr _ \<Rightarrow> yields ()
              | Inl e \<Rightarrow>
                  andThen (caught (exact_exists env ''residue exists'' (rbd_DestinationVMMoref b))) (\<lambda>there.
                  case there of
                    Inl e' \<Rightarrow> fails (errorsJoin e e')
                  | Inr True \<Rightarrow>
                      if errorsIs e ErrCloneTaskFailed
                      then
                        andThen (caught (saveReplicaBuildState env ''residue cleanup again'' workerID
                                   (\<lambda>b. b\<lparr>rbd_ResidueCleanupTaskRef := [], rbd_Phase := PhaseResiduePrepared\<rparr>))) (\<lambda>saved.
                        case saved of
                          Inl e' \<Rightarrow> fails (errorsJoin e e')
                        | Inr _ \<Rightarrow> fails (replicaBuildReconcileWait PhaseResiduePrepared))
                      else fails e
                  | Inr False \<Rightarrow> yields ())) (\<lambda>_.
     andThen (exact_exists env ''residue exists afterwards'' (rbd_DestinationVMMoref b)) (\<lambda>there.
     if there then fails (errorsNew ''retained replica still exists after cleanup task'')
     else andThen (stamp_residue env True) (\<lambda>_.
          complete_query env ''replica build residue was destroyed by operator request'' workerID)))))"

definition remove_residue :: "build_env \<Rightarrow> string \<Rightarrow> unit build_op" where
  "remove_residue env workerID =
     andThen the_build (\<lambda>b.
     if rbd_DestinationVMMoref b = []
     then completeTemplateReplicaBuildCleanup env ''replica build cleanup completed without a retained VM'' workerID
     else if rbd_Phase b = PhaseResidueSubmitted then residue_absent env workerID
     else
       andThen (startReplicaBuildVMCleanup env SubmitResidueCleanup ''residue cleanup'' (rbd_DestinationVMMoref b) id
                  (saveReplicaBuildState env ''arm residue cleanup'' workerID
                     (\<lambda>b. b\<lparr>rbd_SubmissionStartedAt := Some (rn_now env ''residue cleanup''), rbd_ResidueCleanupTaskRef := [],
                            rbd_Phase := PhaseResidueSubmitting\<rparr>))) (\<lambda>task.
       case task of
         None \<Rightarrow> completeTemplateReplicaBuildCleanup env ''replica build residue was already absent'' workerID
       | Some taskRef \<Rightarrow>
           andThen (saveReplicaBuildState env ''save residue cleanup task'' workerID
                      (\<lambda>b. b\<lparr>rbd_ResidueCleanupTaskRef := taskRef, rbd_Phase := PhaseResidueSubmitted\<rparr>)) (\<lambda>_.
           fails (replicaBuildReconcileWait PhaseResidueSubmitted))))"

definition cleanupTemplateReplicaBuild :: "build_env \<Rightarrow> string \<Rightarrow> unit build_op" where
  "cleanupTemplateReplicaBuild env workerID =
     andThen (locate_canary env workerID) (\<lambda>_.
     andThen (remove_canary env workerID) (\<lambda>_.
     andThen (locate_residue env workerID) (\<lambda>_.
     remove_residue env workerID)))"

section \<open>The job\<close>

record replica_payload =
  rp_BuildID :: uuid
  rp_TemplateID :: uuid
  rp_CleanupOnly :: bool
  rp_RetireReady :: bool

definition build_payload_uuid :: "(string \<Rightarrow> uuid option) \<Rightarrow> payload \<Rightarrow> string \<Rightarrow> uuid option" where
  "build_payload_uuid uparse p k = (case pget p k of None \<Rightarrow> Some uuid_Nil | Some (JStr s) \<Rightarrow> uparse s | Some JNull \<Rightarrow> Some uuid_Nil | _ \<Rightarrow> None)"

definition payload_bool :: "payload \<Rightarrow> string \<Rightarrow> bool option" where
  "payload_bool p k = (case pget p k of None \<Rightarrow> Some False | Some (JBool x) \<Rightarrow> Some x | Some JNull \<Rightarrow> Some False | _ \<Rightarrow> None)"

definition decode_payload :: "(string \<Rightarrow> uuid option) \<Rightarrow> payload \<Rightarrow> replica_payload option" where
  "decode_payload uparse p =
     (case (build_payload_uuid uparse p ''build_id'', build_payload_uuid uparse p ''template_id'', payload_bool p ''cleanup_only'', payload_bool p ''retire_ready'') of
        (Some b, Some t, Some c, Some r) \<Rightarrow> Some \<lparr>rp_BuildID = b, rp_TemplateID = t, rp_CleanupOnly = c, rp_RetireReady = r\<rparr>
      | _ \<Rightarrow> None)"

definition runTemplateReplicaBuild :: "build_env \<Rightarrow> job \<Rightarrow> string \<Rightarrow> rb_world \<Rightarrow> go_error option \<times> rb_world" where
  "runTemplateReplicaBuild env job workerID w =
     (case decode_payload (rn_uparse env) (j_Payload job) of
        None \<Rightarrow> (Some (errorsNew ''parse template replica build payload''), w)
      | Some p \<Rightarrow>
          if rp_BuildID p = uuid_Nil \<or> rp_TemplateID p = uuid_Nil
          then (Some (errorsNew ''template replica build_id and template_id are required''), w)
          else if rp_RetireReady p \<and> \<not> rp_CleanupOnly p
          then (Some (errorsNew ''template replica retirement must be cleanup-only''), w)
          else
            (case load_build env ''load for job'' (j_ID job) workerID w of
               (Inl e, w') \<Rightarrow> (Some e, w')
             | (Inr b, w') \<Rightarrow>
                 if rbd_ID b \<noteq> rp_BuildID p \<or> rbd_TemplateID b \<noteq> rp_TemplateID p
                 then (Some (errorsNew ''template replica build payload does not match persisted operation''), w')
                 else if rp_RetireReady p \<and> rbd_Status b = BuildRetired then (None, w')
                 else if rbd_SourceReplicaID b = None
                 then (Some (errorsNew ''template replica build no longer has a source anchor identity''), w')
                 else if rp_RetireReady p \<noteq> (rbd_Status b = BuildRetiring)
                 then (Some (errorsNew ''template replica retirement payload does not match persisted operation state''), w')
                 else if rp_CleanupOnly p
                 then (case cleanupTemplateReplicaBuild env workerID (b, w') of
                         (Inl e, s) \<Rightarrow> (Some e, snd s) | (Inr _, s) \<Rightarrow> (None, snd s))
                 else executeTemplateReplicaBuild env job workerID w'))"

text \<open>The columns of a failed build, from the error and the row.\<close>

definition failure_of :: "go_error \<Rightarrow> replica_build \<Rightarrow> build_status \<times> build_phase \<times> string" where
  "failure_of err b =
     (let cleanup = (errorsIs err ErrReplicaBuildAmbiguous \<or> rbd_DestinationVMMoref b \<noteq> [] \<and> rbd_ResidueCleanedAt b = None);
          phase = (if cleanup then PhaseCleanupRequired else PhaseFailed);
          code = (if cleanup then ''manual_cleanup_required''
                  else if errorsIs err errTemplateReplicaBuildTaskFailed then ''task_failed'' else ''validation_failed'') in
      if rbd_Status b = BuildRetiring then (BuildRetiring, phase, ''retirement_cleanup_required'')
      else (if cleanup then BuildCleanupRequired else BuildFailed, phase, code))"

definition record_failure :: "build_env \<Rightarrow> job \<Rightarrow> string \<Rightarrow> go_error \<Rightarrow> rb_world \<Rightarrow> go_error option \<times> rb_world" where
  "record_failure env job workerID err w =
     (case load_build env ''load for failure'' (j_ID job) workerID w of
        (Inl e, w') \<Rightarrow> (Some (errorsJoin err e), w')
      | (Inr b, w') \<Rightarrow>
          (case failure_of err b of
             (status, phase, code) \<Rightarrow>
               (case store_query env ''fail'' (FailTemplateReplicaBuild (rn_flt env ''fail'') (rn_now env ''fail'') b workerID
                                                 status phase code (errorText err)) (b, w') of
                  (Inl e, s) \<Rightarrow> (Some (errorsJoin err e), snd s)
                | (Inr _, s) \<Rightarrow> (Some err, snd s))))"

definition BuildTemplateSourceReplica :: "build_env \<Rightarrow> job \<Rightarrow> rb_world \<Rightarrow> go_error option \<times> rb_world" where
  "BuildTemplateSourceReplica env job w =
     (case claimedJobLease (Some job) of
        Inl e \<Rightarrow> (Some e, w)
      | Inr (workerID, _) \<Rightarrow>
          (case runTemplateReplicaBuild env job workerID w of
             (None, w') \<Rightarrow> (None, w')
           | (Some err, w') \<Rightarrow>
               if rn_done env \<or> errorsIs err ErrTemplateReplicaBuildLeaseLost \<or> errorsIs err ErrTemplateReplicaBuildJobObsolete
               then (Some err, w')
               else if ClassifyError (Some err) (j_Type job) \<noteq> None \<and> \<not> errorsIs err errTemplateReplicaBuildTaskFailed \<and>
                       j_RetryCount job < j_MaxRetries job
               then (Some err, w')
               else record_failure env job workerID err w'))"

end
