(* ===== verification/ReplicaTasks.thy ===== *)
theory ReplicaTasks
  imports ReplicaWork
begin

text \<open>
  No clone, snapshot or canary of a replica build is submitted twice: over any sequence of attempts, failures and
  restarts a build is cloned, snapshotted and given a canary at most once. The argument is an invariant of
  the build rows, the payloads of their jobs and the submissions so far.
\<close>

section \<open>The invariant\<close>

definition payload_of :: "database \<Rightarrow> uuid \<Rightarrow> payload option" where
  "payload_of db = map_of (map (\<lambda>j. (j_ID j, j_Payload j)) (db_jobs db))"

definition cleanup_job :: "payload \<Rightarrow> bool" where
  "cleanup_job p \<longleftrightarrow> pget p ''cleanup_only'' = Some (JBool True)"

definition retire_job :: "payload \<Rightarrow> bool" where
  "retire_job p \<longleftrightarrow> pget p ''retire_ready'' = Some (JBool True)"

definition open_build :: "replica_build \<Rightarrow> bool" where
  "open_build b \<longleftrightarrow> rbd_Status b \<in> {BuildPending, BuildRunning}"

definition broken_build :: "replica_build \<Rightarrow> bool" where
  "broken_build b \<longleftrightarrow> rbd_Status b \<in> {BuildFailed, BuildCleanupRequired}"

text \<open>How many of the three tasks a phase has behind it or may have armed, and which one a task is.\<close>

definition tier :: "build_phase \<Rightarrow> nat" where
  "tier p =
     (case p of PhasePending \<Rightarrow> 0
      | PhaseCloneSubmitting \<Rightarrow> 1 | PhaseCloneSubmitted \<Rightarrow> 1 | PhaseValidating \<Rightarrow> 1
      | PhaseSnapshotSubmitting \<Rightarrow> 2 | PhaseSnapshotSubmitted \<Rightarrow> 2 | PhaseCanaryPrepared \<Rightarrow> 2
      | _ \<Rightarrow> 3)"

fun needs :: "submission \<Rightarrow> nat" where
  "needs SubmitClone = 1"
| "needs SubmitSnapshot = 2"
| "needs SubmitCanary = 3"
| "needs _ = 0"

text \<open>The phase an open build is in, or a broken one would be resumed in.\<close>

definition governing :: "replica_build \<Rightarrow> build_phase" where
  "governing b = (if open_build b then rbd_Phase b else rbd_ResumePhase b)"

definition may_have :: "submission \<Rightarrow> replica_build \<Rightarrow> nat" where
  "may_have k b = (if open_build b \<or> broken_build b then (if needs k \<le> tier (governing b) then 1 else 0) else 1)"

text \<open>The job a build is linked to fits its state.\<close>

definition fits :: "payload \<Rightarrow> replica_build \<Rightarrow> bool" where
  "fits p b \<longleftrightarrow>
     (if cleanup_job p
      then (if retire_job p then rbd_Status b \<in> {BuildRetiring, BuildRetired} else broken_build b)
      else rbd_Status b \<notin> {BuildRetiring, BuildRetired} \<and> (open_build b \<or> \<not> IsTemplateReplicaBuildForwardPhase (rbd_Phase b)))"

definition row_ok :: "(submission \<times> uuid) list \<Rightarrow> (uuid \<Rightarrow> payload option) \<Rightarrow> replica_build \<Rightarrow> bool" where
  "row_ok subs pay b \<longleftrightarrow>
     (\<forall>k. 0 < needs k \<longrightarrow> count_list subs (k, rbd_ID b) \<le> may_have k b) \<and>
     (open_build b \<longrightarrow> IsTemplateReplicaBuildForwardPhase (rbd_Phase b)) \<and>
     (\<forall>i. rbd_JobID b = Some i \<longrightarrow> (\<exists>p. pay i = Some p \<and> fits p b))"

definition world_ok :: "rb_world \<Rightarrow> bool" where
  "world_ok w \<longleftrightarrow>
     distinct (map rbd_ID (db_replica_builds (rw_db w))) \<and>
     (\<forall>b \<in> set (db_replica_builds (rw_db w)). row_ok (rw_subs w) (payload_of (rw_db w)) b) \<and>
     (\<forall>x \<in> set (rw_subs w). snd x \<in> rbd_ID ` set (db_replica_builds (rw_db w)))"

lemma may_have_le: "may_have k b \<le> 1"
  by (simp add: may_have_def)

lemma row_ok_mono: "row_ok subs pay b \<Longrightarrow> pay \<subseteq>\<^sub>m pay' \<Longrightarrow> row_ok subs pay' b"
  unfolding row_ok_def map_le_def by (metis domI)

lemma row_ok_irrelevant [simp]:
  "row_ok subs pay (b\<lparr>rbd_SubmissionStartedAt := x\<rparr>) = row_ok subs pay b"
  "row_ok subs pay (b\<lparr>rbd_ResultReplicaID := y\<rparr>) = row_ok subs pay b"
  "row_ok subs pay (b\<lparr>rbd_SourceReplicaID := y\<rparr>) = row_ok subs pay b"
  unfolding row_ok_def may_have_def governing_def fits_def open_build_def broken_build_def by simp_all

text \<open>One statement on the builds, and a change of everything else.\<close>

definition builds_frame :: "database \<Rightarrow> database \<Rightarrow> bool" where
  "builds_frame db db' \<longleftrightarrow> db_replica_builds db' = db_replica_builds db \<and> payload_of db \<subseteq>\<^sub>m payload_of db'"

lemma world_frame:
  assumes "world_ok w" "builds_frame (rw_db w) db'"
  shows "world_ok (w\<lparr>rw_db := db'\<rparr>)"
proof -
  have "row_ok (rw_subs w) (payload_of db') b" if "b \<in> set (db_replica_builds (rw_db w))" for b
    by (rule row_ok_mono [of _ "payload_of (rw_db w)"]) (use assms that in \<open>auto simp: world_ok_def builds_frame_def\<close>)
  then show ?thesis using assms by (simp add: world_ok_def builds_frame_def)
qed

lemma world_update:
  assumes w: "world_ok w" and b: "db_replica_builds db' = sql_update P f (db_replica_builds (rw_db w))"
    and p: "payload_of (rw_db w) \<subseteq>\<^sub>m payload_of db'"
    and f: "\<And>b. b \<in> set (db_replica_builds (rw_db w)) \<Longrightarrow> P b \<Longrightarrow> rbd_ID (f b) = rbd_ID b \<and> row_ok (rw_subs w) (payload_of db') (f b)"
  shows "world_ok (w\<lparr>rw_db := db'\<rparr>)"
proof -
  let ?bs = "db_replica_builds (rw_db w)"
  have ids: "map rbd_ID (sql_update P f ?bs) = map rbd_ID ?bs"
    using f unfolding sql_update_def by (simp add: comp_def)
  have "row_ok (rw_subs w) (payload_of db') b" if "b \<in> set (sql_update P f ?bs)" for b
  proof -
    from that obtain r where r: "r \<in> set ?bs" "b = (if P r then f r else r)" by (auto simp: sql_update_in)
    have "row_ok (rw_subs w) (payload_of db') r"
      by (rule row_ok_mono [OF _ p]) (use w r(1) in \<open>simp add: world_ok_def\<close>)
    with f r show ?thesis by simp
  qed
  moreover have "rbd_ID ` set (sql_update P f ?bs) = rbd_ID ` set ?bs" using ids by (metis set_map)
  ultimately show ?thesis using w ids by (simp add: world_ok_def b)
qed

section \<open>What the queries do to the rows\<close>

lemma payload_of_builds [simp]: "payload_of (db\<lparr>db_replica_builds := x\<rparr>) = payload_of db"
  "payload_of (db\<lparr>db_replicas := y\<rparr>) = payload_of db" "payload_of (db\<lparr>db_replica_policies := z\<rparr>) = payload_of db"
  by (simp_all add: payload_of_def)

lemma save_effect:
  assumes "SaveTemplateReplicaBuildState flt b ph wk db = (r, db')"
  shows "(db' = db \<and> isl r) \<or>
    (\<exists>i. sql_count (\<lambda>x. rbd_ID x = rbd_ID b \<and> rbd_JobID x = Some i \<and> rbd_Phase x = ph) (db_replica_builds db) = 1 \<and>
         db' = db\<lparr>db_replica_builds := sql_update (\<lambda>x. rbd_ID x = rbd_ID b \<and> rbd_JobID x = Some i \<and> rbd_Phase x = ph)
                    (save_columns b) (db_replica_builds db)\<rparr>)"
proof (cases "rbd_JobID b")
  case None
  then show ?thesis using assms by (auto simp: SaveTemplateReplicaBuildState_def)
next
  case (Some i)
  with assms have "lossy_tx flt (save_build b i ph wk) db = (r, db')" by (simp add: SaveTemplateReplicaBuildState_def)
  from lossy_cases [OF this] show ?thesis
    by (auto simp: save_build_def split: sum.splits prod.splits if_splits dest!: update_builds_ok)
qed

lemma ensure_effect:
  assumes "EnsurePendingReplicaForBuild flt newID b wk db = (r, db')"
  shows "(db' = db \<and> (isl r \<or> r = Inr b)) \<or>
    (rbd_ResultReplicaID b = None \<and> (isl r \<or> r = Inr (b\<lparr>rbd_ResultReplicaID := Some newID\<rparr>)) \<and>
     db_replica_builds db' = sql_update (\<lambda>x. rbd_ID x = rbd_ID b \<and> rbd_ResultReplicaID x = None)
                    (\<lambda>x. x\<lparr>rbd_ResultReplicaID := Some newID\<rparr>) (db_replica_builds db) \<and> payload_of db' = payload_of db)"
proof (cases "rbd_JobID b")
  case None
  then show ?thesis using assms by (auto simp: EnsurePendingReplicaForBuild_def)
next
  case (Some i)
  show ?thesis
  proof (cases "rbd_DestinationVMMoref b = []")
    case True
    then show ?thesis using assms Some by (auto simp: EnsurePendingReplicaForBuild_def)
  next
    case False
    with assms Some have "lossy_tx flt (reserve_replica newID b i wk) db = (r, db')" by (simp add: EnsurePendingReplicaForBuild_def)
    from lossy_cases [OF this] show ?thesis
      by (auto simp: reserve_replica_def Let_def split: sum.splits prod.splits if_splits dest!: update_builds_ok)
  qed
qed


section \<open>Assertions of an attempt\<close>

text \<open>
  The worker holds the row as it is in the table, and \<open>A\<close> is true of it, of the payloads and of the
  submissions. After an error only the invariant is left.
\<close>

type_synonym row_assertion = "replica_build \<Rightarrow> (uuid \<Rightarrow> payload option) \<Rightarrow> (submission \<times> uuid) list \<Rightarrow> bool"

definition keeping :: "row_assertion \<Rightarrow> build_state \<Rightarrow> bool" where
  "keeping A s \<longleftrightarrow> world_ok (snd s) \<and> fst s \<in> set (db_replica_builds (rw_db (snd s))) \<and>
     A (fst s) (payload_of (rw_db (snd s))) (rw_subs (snd s))"

definition safe :: "build_state \<Rightarrow> bool" where
  "safe s \<longleftrightarrow> world_ok (snd s)"

definition env_ok :: "build_env \<Rightarrow> bool" where
  "env_ok env \<longleftrightarrow> (\<forall>t db. builds_frame db (rn_between env t db))"

definition mono_assertion :: "row_assertion \<Rightarrow> bool" where
  "mono_assertion A \<longleftrightarrow> (\<forall>b pay pay' subs. A b pay subs \<longrightarrow> pay \<subseteq>\<^sub>m pay' \<longrightarrow> A b pay' subs)"

lemma keeping_safe: "keeping A s \<Longrightarrow> safe s"
  by (simp add: keeping_def safe_def)

lemma keeping_row: "keeping A (b, w) \<Longrightarrow> row_ok (rw_subs w) (payload_of (rw_db w)) b"
  by (simp add: keeping_def world_ok_def)

lemma keeping_frame:
  assumes "keeping A (b, w)" "builds_frame (rw_db w) db'" "mono_assertion A"
  shows "keeping A (b, w\<lparr>rw_db := db'\<rparr>)"
  using assms world_frame [of w db'] unfolding keeping_def builds_frame_def mono_assertion_def by auto

lemma save_columns_ID [simp]: "rbd_ID (save_columns c b) = rbd_ID b"
  by (simp add: save_columns_def)

lemma save_columns_stamp: "save_columns (c\<lparr>rbd_SubmissionStartedAt := x\<rparr>) b = (save_columns c b)\<lparr>rbd_SubmissionStartedAt := x\<rparr>"
  by (simp add: save_columns_def)

text \<open>Writing the row back: the new row replaces the one that is held.\<close>

lemma held_update:
  assumes h: "keeping A (b, w)" and P: "\<And>x. P x \<Longrightarrow> rbd_ID x = rbd_ID b"
    and f: "P b \<Longrightarrow> f b = b'" and i: "rbd_ID b' = rbd_ID b"
    and ok: "row_ok (rw_subs w) (payload_of (rw_db w)) b'"
    and db: "db_replica_builds db' = sql_update P f (db_replica_builds (rw_db w))" "payload_of db' = payload_of (rw_db w)"
  shows "world_ok (w\<lparr>rw_db := db'\<rparr>)" "P b \<Longrightarrow> b' \<in> set (db_replica_builds db')"
proof -
  from h have w: "world_ok w" and b: "b \<in> set (db_replica_builds (rw_db w))" by (simp_all add: keeping_def)
  have uniq: "x = b" if "x \<in> set (db_replica_builds (rw_db w))" "P x" for x
  proof (rule distinct_key_eq [where key = rbd_ID and rs = "db_replica_builds (rw_db w)"])
    show "distinct (map rbd_ID (db_replica_builds (rw_db w)))" using w by (simp add: world_ok_def)
  qed (rule that(1), rule b, rule P [OF that(2)])
  show "world_ok (w\<lparr>rw_db := db'\<rparr>)"
    by (rule world_update [OF w db(1)]) (use uniq f i ok db(2) in \<open>auto simp: map_le_def\<close>)
  show "b' \<in> set (db_replica_builds db')" if "P b"
    using b f that unfolding db(1) sql_update_in by auto
qed

lemma save_rule:
  assumes env: "env_ok env" and cols: "\<And>b. save_columns (m b) b = m b" and mono: "mono_assertion A"
    and step: "\<And>b subs pay. row_ok subs pay b \<Longrightarrow> A b pay subs \<Longrightarrow> row_ok subs pay (m b) \<and> B (m b) pay subs"
    and stamp: "\<And>b x pay subs. B (b\<lparr>rbd_SubmissionStartedAt := x\<rparr>) pay subs = B b pay subs"
  shows "valid (keeping A) (saveReplicaBuildState env t wk m) (\<lambda>_. keeping B) safe"
proof -
  have *: "world_ok (snd s') \<and> (\<not> isl r \<longrightarrow> keeping B s')"
    if h: "keeping A s" and e: "saveReplicaBuildState env t wk m s = (r, s')" for s r s'
  proof -
    obtain b w where s: "s = (b, w)" by (rule prod.exhaust)
    let ?db = "rn_between env t (rw_db w)" and ?w = "w\<lparr>rw_db := rn_between env t (rw_db w)\<rparr>"
    from env have fr: "builds_frame (rw_db w) ?db" by (simp add: env_ok_def)
    have h': "keeping A (b, ?w)" using keeping_frame [OF _ fr mono] h s by simp
    define b1 where "b1 = m b"
    define b2 where "b2 = (if rbd_Phase b \<noteq> rbd_Phase b1 \<and> isReplicaBuildSubmittingPhase (rbd_Phase b1)
        then b1\<lparr>rbd_SubmissionStartedAt := Some (rn_now env t)\<rparr> else b1)"
    obtain q db' where q: "SaveTemplateReplicaBuildState (rn_flt env t) b2 (rbd_Phase b) wk ?db = (q, db')" by (rule prod.exhaust)
    have s': "s' = (b2, w\<lparr>rw_db := db'\<rparr>)" "isl r = isl q"
      using e q unfolding s saveReplicaBuildState_def store_query_def Let_def b1_def [symmetric] fst_conv snd_conv b2_def [symmetric]
      by (auto split: sum.splits)
    have b1: "row_ok (rw_subs w) (payload_of ?db) b1" "B b1 (payload_of ?db) (rw_subs w)"
      using step [OF keeping_row [OF h']] h' unfolding keeping_def b1_def by simp_all
    have b2: "row_ok (rw_subs w) (payload_of ?db) b2" "B b2 (payload_of ?db) (rw_subs w)"
      using b1 by (simp_all add: b2_def stamp)
    have c1: "save_columns b1 b = b1" unfolding b1_def by (rule cols)
    then have c2: "save_columns b2 b = b2" unfolding b2_def by (simp only: save_columns_stamp if_distrib [of "\<lambda>c. save_columns c b"])
    then have id: "rbd_ID b2 = rbd_ID b" using save_columns_ID [of b2 b] by simp
    from save_effect [OF q] show ?thesis
    proof
      assume "db' = ?db \<and> isl q"
      then show ?thesis using h' s' by (simp add: keeping_def)
    next
      assume "\<exists>i. sql_count (\<lambda>x. rbd_ID x = rbd_ID b2 \<and> rbd_JobID x = Some i \<and> rbd_Phase x = rbd_Phase b) (db_replica_builds ?db) = 1 \<and>
         db' = ?db\<lparr>db_replica_builds := sql_update (\<lambda>x. rbd_ID x = rbd_ID b2 \<and> rbd_JobID x = Some i \<and> rbd_Phase x = rbd_Phase b)
                    (save_columns b2) (db_replica_builds ?db)\<rparr>"
      then obtain i where n: "sql_count (\<lambda>x. rbd_ID x = rbd_ID b2 \<and> rbd_JobID x = Some i \<and> rbd_Phase x = rbd_Phase b) (db_replica_builds ?db) = 1"
        and d: "db' = ?db\<lparr>db_replica_builds := sql_update (\<lambda>x. rbd_ID x = rbd_ID b2 \<and> rbd_JobID x = Some i \<and> rbd_Phase x = rbd_Phase b)
                    (save_columns b2) (db_replica_builds ?db)\<rparr>" by blast
      let ?P = "\<lambda>x. rbd_ID x = rbd_ID b2 \<and> rbd_JobID x = Some i \<and> rbd_Phase x = rbd_Phase b"
      have P: "\<And>x. ?P x \<Longrightarrow> rbd_ID x = rbd_ID b" using id by simp
      obtain x where x: "x \<in> set (db_replica_builds ?db)" "?P x" using sql_count_oneD [OF n] by blast
      have "b \<in> set (db_replica_builds ?db)" "distinct (map rbd_ID (db_replica_builds ?db))"
        using h' by (simp_all add: keeping_def world_ok_def)
      from distinct_key_eq [OF this(2) x(1) this(1)] P [OF x(2)] have "x = b" by simp
      with x(2) have Pb: "?P b" by simp
      have d1: "db_replica_builds db' = sql_update ?P (save_columns b2) (db_replica_builds (rw_db ?w))" unfolding d by simp
      have d2: "payload_of db' = payload_of (rw_db ?w)" unfolding d by simp
      have r: "row_ok (rw_subs ?w) (payload_of (rw_db ?w)) b2" using b2(1) by simp
      have "world_ok (?w\<lparr>rw_db := db'\<rparr>)" by (rule held_update(1) [OF h' P c2 id r d1 d2])
      moreover have "b2 \<in> set (db_replica_builds db')" by (rule held_update(2) [OF h' P c2 id r d1 d2 Pb])
      ultimately show ?thesis using b2(2) d2 unfolding s'(1) by (simp add: keeping_def)
    qed
  qed
  show ?thesis by (rule validI) (use * in \<open>fastforce simp: safe_def\<close>)+
qed


lemma ensure_rule:
  assumes env: "env_ok env" and mono: "mono_assertion A"
    and res: "\<And>b x pay subs. A (b\<lparr>rbd_ResultReplicaID := x\<rparr>) pay subs = A b pay subs"
  shows "valid (keeping A) (ensurePending env t wk) (\<lambda>_. keeping A) safe"
proof -
  have *: "world_ok (snd s') \<and> (\<not> isl r \<longrightarrow> keeping A s')"
    if h: "keeping A s" and e: "ensurePending env t wk s = (r, s')" for s r s'
  proof -
    obtain b w where s: "s = (b, w)" by (rule prod.exhaust)
    let ?db = "rn_between env t (rw_db w)" and ?w = "w\<lparr>rw_db := rn_between env t (rw_db w)\<rparr>"
    from env have fr: "builds_frame (rw_db w) ?db" by (simp add: env_ok_def)
    have h': "keeping A (b, ?w)" using keeping_frame [OF _ fr mono] h s by simp
    obtain q db' where q: "EnsurePendingReplicaForBuild (rn_flt env t) (rn_newID env) b wk ?db = (q, db')" by (rule prod.exhaust)
    have s': "snd s' = w\<lparr>rw_db := db'\<rparr>" "isl r = isl q" "\<not> isl q \<longrightarrow> fst s' = projr q"
      using e q unfolding s ensurePending_def store_query_def by (auto split: sum.splits)
    let ?b = "b\<lparr>rbd_ResultReplicaID := Some (rn_newID env)\<rparr>"
    from ensure_effect [OF q] show ?thesis
    proof
      assume "db' = ?db \<and> (isl q \<or> q = Inr b)"
      then show ?thesis using h' s' by (auto simp: keeping_def)
    next
      assume a: "rbd_ResultReplicaID b = None \<and> (isl q \<or> q = Inr ?b) \<and>
        db_replica_builds db' = sql_update (\<lambda>x. rbd_ID x = rbd_ID b \<and> rbd_ResultReplicaID x = None)
          (\<lambda>x. x\<lparr>rbd_ResultReplicaID := Some (rn_newID env)\<rparr>) (db_replica_builds ?db) \<and> payload_of db' = payload_of ?db"
      let ?P = "\<lambda>x. rbd_ID x = rbd_ID b \<and> rbd_ResultReplicaID x = None"
      let ?f = "\<lambda>x. x\<lparr>rbd_ResultReplicaID := Some (rn_newID env)\<rparr>"
      have d1: "db_replica_builds db' = sql_update ?P ?f (db_replica_builds (rw_db ?w))" using a by simp
      have d2: "payload_of db' = payload_of (rw_db ?w)" using a by simp
      have r: "row_ok (rw_subs ?w) (payload_of (rw_db ?w)) ?b" using keeping_row [OF h'] by simp
      have id: "rbd_ID ?b = rbd_ID b" by simp
      have P: "\<And>x. ?P x \<Longrightarrow> rbd_ID x = rbd_ID b" by simp
      have Pb: "?P b" using a by simp
      have "world_ok (?w\<lparr>rw_db := db'\<rparr>)" by (rule held_update(1) [OF h' P refl id r d1 d2])
      moreover have "?b \<in> set (db_replica_builds db')" by (rule held_update(2) [OF h' P refl id r d1 d2 Pb])
      moreover have "A ?b (payload_of db') (rw_subs w)" using h' res d2 by (simp add: keeping_def)
      ultimately show ?thesis using a s' by (auto simp: keeping_def)
    qed
  qed
  show ?thesis by (rule validI) (use * in \<open>fastforce simp: safe_def\<close>)+
qed

section \<open>The way forward\<close>

definition at_phase :: "build_phase \<Rightarrow> row_assertion" where
  "at_phase p b pay subs \<longleftrightarrow> open_build b \<and> rbd_Phase b = p"

definition armed :: "submission \<Rightarrow> build_phase \<Rightarrow> row_assertion" where
  "armed k p b pay subs \<longleftrightarrow> open_build b \<and> rbd_Phase b = p \<and> count_list subs (k, rbd_ID b) = 0"

lemma mono_at [simp]: "mono_assertion (at_phase p)" "mono_assertion (armed k p)"
  by (simp_all add: mono_assertion_def at_phase_def armed_def)

lemma open_irrelevant [simp]:
  "open_build (b\<lparr>rbd_SubmissionStartedAt := x\<rparr>) = open_build b" "open_build (b\<lparr>rbd_ResultReplicaID := y\<rparr>) = open_build b"
  by (simp_all add: open_build_def)

lemma row_ok_forward:
  assumes "row_ok subs pay b" "open_build b" "open_build b'" "rbd_ID b' = rbd_ID b" "rbd_JobID b' = rbd_JobID b"
    and "IsTemplateReplicaBuildForwardPhase (rbd_Phase b')" "tier (rbd_Phase b) \<le> tier (rbd_Phase b')"
  shows "row_ok subs pay b'"
proof -
  have "may_have k b \<le> may_have k b'" for k
    using assms(2,3,7) by (simp add: may_have_def governing_def)
  moreover have "fits p b'" if "fits p b" for p
    using that assms(2,3) by (auto simp: fits_def open_build_def broken_build_def split: if_splits)
  ultimately show ?thesis using assms unfolding row_ok_def by (metis le_trans)
qed

lemma save_forward:
  assumes "env_ok env" "\<And>b. save_columns (m b) b = m b" "\<And>b. rbd_Phase b = p \<Longrightarrow> rbd_Phase (m b) = q"
    and "\<And>b. open_build b \<Longrightarrow> open_build (m b)" "\<And>b. rbd_JobID (m b) = rbd_JobID b"
    and "IsTemplateReplicaBuildForwardPhase q" "tier p \<le> tier q"
  shows "valid (keeping (at_phase p)) (saveReplicaBuildState env t wk m) (\<lambda>_. keeping (at_phase q)) safe"
proof (rule save_rule [OF assms(1,2)])
  fix b subs pay
  assume r: "row_ok subs pay b" and a: "at_phase p b pay subs"
  have "rbd_ID (m b) = rbd_ID b" using save_columns_ID [of "m b" b] assms(2) by simp
  then have "row_ok subs pay (m b)" using row_ok_forward [OF r] a assms by (simp add: at_phase_def)
  then show "row_ok subs pay (m b) \<and> at_phase q (m b) pay subs" using a assms by (simp add: at_phase_def)
qed (simp_all add: at_phase_def)

lemma arm_forward:
  assumes "env_ok env" "\<And>b. save_columns (m b) b = m b" "\<And>b. rbd_Phase b = p \<Longrightarrow> rbd_Phase (m b) = q"
    and "\<And>b. open_build b \<Longrightarrow> open_build (m b)" "\<And>b. rbd_JobID (m b) = rbd_JobID b"
    and "IsTemplateReplicaBuildForwardPhase q" "tier p \<le> tier q" "tier p < needs k"
  shows "valid (keeping (at_phase p)) (saveReplicaBuildState env t wk m) (\<lambda>_. keeping (armed k q)) safe"
proof (rule save_rule [OF assms(1,2)])
  fix b subs pay
  assume r: "row_ok subs pay b" and a: "at_phase p b pay subs"
  have i: "rbd_ID (m b) = rbd_ID b" using save_columns_ID [of "m b" b] assms(2) by simp
  then have "row_ok subs pay (m b)" using row_ok_forward [OF r] a assms by (simp add: at_phase_def)
  moreover have "may_have k b = 0" using a assms(8) by (simp add: may_have_def governing_def at_phase_def)
  then have "count_list subs (k, rbd_ID b) = 0" using r assms(8) unfolding row_ok_def by (metis gr0I le_zero_eq not_less_zero)
  ultimately show "row_ok subs pay (m b) \<and> armed k q (m b) pay subs" using a assms i by (simp add: at_phase_def armed_def)
qed (simp_all add: armed_def)

text \<open>A submission counts for the build whose row is held.\<close>

lemma world_submit:
  assumes w: "world_ok w" and b: "b \<in> set (db_replica_builds (rw_db w))"
    and k: "0 < needs k \<Longrightarrow> count_list (rw_subs w) (k, rbd_ID b) = 0 \<and> may_have k b = 1"
  shows "world_ok (w\<lparr>rw_subs := (k, rbd_ID b) # rw_subs w\<rparr>)"
proof -
  have "row_ok ((k, rbd_ID b) # rw_subs w) (payload_of (rw_db w)) x" if x: "x \<in> set (db_replica_builds (rw_db w))" for x
  proof -
    have r: "row_ok (rw_subs w) (payload_of (rw_db w)) x" using w x by (simp add: world_ok_def)
    have eq: "x = b" if "rbd_ID x = rbd_ID b"
      by (rule distinct_key_eq [where key = rbd_ID and rs = "db_replica_builds (rw_db w)"])
        (use w x b that in \<open>simp_all add: world_ok_def\<close>)
    have "count_list ((k, rbd_ID b) # rw_subs w) (l, rbd_ID x) \<le> may_have l x" if l: "0 < needs l" for l
    proof (cases "(k, rbd_ID b) = (l, rbd_ID x)")
      case True
      then have "l = k" "x = b" using eq by simp_all
      with k l show ?thesis by simp
    next
      case False
      then have "count_list ((k, rbd_ID b) # rw_subs w) (l, rbd_ID x) = count_list (rw_subs w) (l, rbd_ID x)" by (simp only: count_list.simps if_False)
      with r l show ?thesis by (simp add: row_ok_def)
    qed
    then show ?thesis using r unfolding row_ok_def by blast
  qed
  then show ?thesis using w b by (simp add: world_ok_def)
qed

lemma valid_handed:
  assumes "needs k \<le> tier q"
  shows "valid (keeping (armed k q)) (caught (handed_over k r)) (\<lambda>_. keeping (at_phase q)) E"
proof (rule validI)
  fix s x s'
  assume h: "keeping (armed k q) s" and e: "caught (handed_over k r) s = (Inr x, s')"
  obtain b w where s: "s = (b, w)" by (rule prod.exhaust)
  have s': "s' = (b, w\<lparr>rw_subs := (k, rbd_ID b) # rw_subs w\<rparr>)" using e by (simp add: s caught_def handed_over_def)
  have "world_ok (w\<lparr>rw_subs := (k, rbd_ID b) # rw_subs w\<rparr>)"
    by (rule world_submit) (use h assms s in \<open>auto simp: keeping_def armed_def may_have_def governing_def\<close>)
  then show "keeping (at_phase q) s'" using h unfolding s s' by (simp add: keeping_def armed_def at_phase_def)
qed (simp add: caught_def handed_over_def)

lemma valid_handed_other:
  assumes "needs k = 0" "\<And>b pay subs x. A b pay subs \<Longrightarrow> A b pay (x # subs)"
  shows "valid (keeping A) (caught (handed_over k r)) (\<lambda>_. keeping A) E"
proof (rule validI)
  fix s x s'
  assume h: "keeping A s" and e: "caught (handed_over k r) s = (Inr x, s')"
  obtain b w where s: "s = (b, w)" by (rule prod.exhaust)
  have s': "s' = (b, w\<lparr>rw_subs := (k, rbd_ID b) # rw_subs w\<rparr>)" using e by (simp add: s caught_def handed_over_def)
  have "world_ok (w\<lparr>rw_subs := (k, rbd_ID b) # rw_subs w\<rparr>)"
    by (rule world_submit) (use h assms(1) s in \<open>auto simp: keeping_def\<close>)
  then show "keeping A s'" using h assms(2) unfolding s s' by (simp add: keeping_def)
qed (simp add: caught_def handed_over_def)

lemma valid_submit:
  assumes "valid P arm (\<lambda>_. keeping (armed k q)) safe" "needs k \<le> tier q"
  shows "valid P (submit_task k r amb arm) (\<lambda>_. keeping (at_phase q)) safe"
  unfolding submit_task_def
  by (rule valid_andThen [OF assms(1)], rule valid_andThen [OF valid_handed [OF assms(2)]])
    (auto intro!: valid_sum valid_fails valid_yields intro: keeping_safe)

lemma valid_submit_other:
  assumes "valid P arm (\<lambda>_. keeping A) safe" "needs k = 0" "\<And>b pay subs x. A b pay subs \<Longrightarrow> A b pay (x # subs)"
  shows "valid P (submit_task k r amb arm) (\<lambda>_. keeping A) safe"
  unfolding submit_task_def
  by (rule valid_andThen [OF assms(1)], rule valid_andThen [OF valid_handed_other [where A = A, OF assms(2,3)]])
    (auto intro!: valid_sum valid_fails valid_yields intro: keeping_safe)


definition still_open :: row_assertion where
  "still_open b pay subs \<longleftrightarrow> open_build b"

definition goes_on :: "bool \<Rightarrow> build_state \<Rightarrow> bool" where
  "goes_on c s \<longleftrightarrow> (c \<longrightarrow> keeping still_open s) \<and> safe s"

lemma then_look: "valid P m (\<lambda>_. P) E \<Longrightarrow> (\<And>x. valid P (k x) Q E) \<Longrightarrow> valid P (andThen m k) Q E"
  by (rule valid_andThen)

lemma then_build: "(\<And>b. valid P (k b) Q E) \<Longrightarrow> valid P (andThen the_build k) Q E"
  by (rule then_look [OF valid_post [OF valid_the_build]]) auto

lemma then_answer: "(\<And>x. valid (keeping A) (k x) Q safe) \<Longrightarrow> valid (keeping A) (andThen (answer r) k) Q safe"
  by (rule then_look [OF valid_answer]) (rule keeping_safe)

lemma then_find: "(\<And>x. valid (keeping A) (k x) Q safe) \<Longrightarrow> valid (keeping A) (andThen (FindReplicaBuildVM env t p) k) Q safe"
  by (rule then_look [OF valid_find]) (rule keeping_safe)

lemma then_exists: "(\<And>x. valid (keeping A) (k x) Q safe) \<Longrightarrow> valid (keeping A) (andThen (exact_exists env t p) k) Q safe"
  by (rule then_look [OF valid_exists]) (rule keeping_safe)

lemma then_caught_answer: "(\<And>x. valid P (k x) Q E) \<Longrightarrow> valid P (andThen (caught (answer r)) k) Q E"
  by (rule then_look [OF valid_caught_same [OF valid_answer]])

lemma then_caught_find: "(\<And>x. valid P (k x) Q E) \<Longrightarrow> valid P (andThen (caught (FindReplicaBuildVM env t p)) k) Q E"
  by (rule then_look [OF valid_caught_same [OF valid_find]])

lemma then_caught_wait: "(\<And>x. valid P (k x) Q E) \<Longrightarrow> valid P (andThen (caught (wait_task env t p ty)) k) Q E"
  by (rule then_look [OF valid_caught_same [OF valid_wait]])

lemma then_caught_exists: "(\<And>x. valid P (k x) Q E) \<Longrightarrow> valid P (andThen (caught (exact_exists env t p)) k) Q E"
  by (rule then_look [OF valid_caught_same [OF valid_exists]])

lemma keeping_fails: "valid (keeping A) (fails e) Q safe"
  by (rule valid_fails) (rule keeping_safe)

lemma goes_on_yields: "valid (keeping (at_phase q)) (yields True) goes_on safe"
  by (rule valid_yields) (simp add: goes_on_def keeping_def safe_def at_phase_def still_open_def)

lemmas look_rules = then_build then_answer then_find then_exists then_caught_answer then_caught_find then_caught_wait
  then_caught_exists keeping_fails valid_splits

lemma then_save:
  assumes "env_ok env" "\<And>b. rbd_Phase b = p \<Longrightarrow> rbd_Phase (m b) = q" "\<And>b. save_columns (m b) b = m b"
    and "\<And>b. open_build b \<Longrightarrow> open_build (m b)" "\<And>b. rbd_JobID (m b) = rbd_JobID b"
    and "IsTemplateReplicaBuildForwardPhase q" "tier p \<le> tier q"
    and "valid (keeping (at_phase q)) (k ()) Q safe"
  shows "valid (keeping (at_phase p)) (andThen (saveReplicaBuildState env t wk m) k) Q safe"
  by (rule valid_andThen [OF save_forward [OF assms(1,3,2,4,5,6,7)]]) (use assms(8) in auto)

lemma then_ensure:
  assumes "env_ok env" "\<And>x. valid (keeping (at_phase p)) (k x) Q safe"
  shows "valid (keeping (at_phase p)) (andThen (ensurePending env t wk) k) Q safe"
  by (rule valid_andThen [OF ensure_rule [OF assms(1)]]) (simp_all add: assms(2) at_phase_def)

lemma forward_snapshot_submitting:
  "env_ok env \<Longrightarrow> valid (keeping (at_phase PhaseSnapshotSubmitting)) (phase_snapshot_submitting env wk) goes_on safe"
  unfolding phase_snapshot_submitting_def
  by (rule look_rules then_save goes_on_yields then_ensure | simp add: save_columns_def open_build_def tier_def)+


lemmas save_side = save_columns_def open_build_def tier_def

lemma forward_clone_submitting:
  "env_ok env \<Longrightarrow> valid (keeping (at_phase PhaseCloneSubmitting)) (phase_clone_submitting env wk) goes_on safe"
  unfolding phase_clone_submitting_def
  by (rule look_rules then_save goes_on_yields then_ensure | simp add: save_side)+

lemma forward_snapshot_submitted:
  "env_ok env \<Longrightarrow> valid (keeping (at_phase PhaseSnapshotSubmitted)) (phase_snapshot_submitted env wk) goes_on safe"
  unfolding phase_snapshot_submitted_def
  apply (rule then_build)
  apply (rule then_caught_wait)
  apply (rule valid_andThen [where R = "\<lambda>_. keeping (at_phase PhaseSnapshotSubmitted)"])
   apply (rule look_rules valid_yields | assumption)+
  by (rule then_save goes_on_yields | simp add: save_side)+

lemma forward_canary_submitting:
  "env_ok env \<Longrightarrow> valid (keeping (at_phase PhaseCanarySubmitting)) (phase_canary_submitting env wk) goes_on safe"
  unfolding phase_canary_submitting_def
  by (rule look_rules then_save goes_on_yields then_ensure | simp add: save_side)+

lemma forward_canary_submitted:
  "env_ok env \<Longrightarrow> valid (keeping (at_phase PhaseCanarySubmitted)) (phase_canary_submitted env wk) goes_on safe"
  unfolding phase_canary_submitted_def
  apply (rule then_build)
  apply (rule then_caught_wait)
  apply (rule valid_andThen [where R = "\<lambda>_. keeping (at_phase PhaseCanarySubmitted)"])
   apply (rule look_rules valid_yields | assumption)+
  by (rule then_save goes_on_yields | simp add: save_side)+

lemma start_clone:
  assumes "valid (keeping (at_phase PhasePending)) arm (\<lambda>_. keeping (armed SubmitClone PhaseCloneSubmitting)) safe"
  shows "valid (keeping (at_phase PhasePending)) (StartReplicaBuildClone env p amb arm) (\<lambda>_. keeping (at_phase PhaseCloneSubmitting)) safe"
proof -
  let ?arm = "andThen (caught arm) (\<lambda>r. case r of Inl e \<Rightarrow> fails (wrapf ''arm replica build clone'' e) | Inr _ \<Rightarrow> yields ())"
  have "valid (keeping (at_phase PhasePending)) ?arm (\<lambda>_. keeping (armed SubmitClone PhaseCloneSubmitting)) safe"
  proof (rule validI)
    fix s e s'
    assume h: "keeping (at_phase PhasePending) s" and e: "?arm s = (Inl e, s')"
    from e have "\<exists>e'. arm s = (Inl e', s')"
      by (auto simp: andThen_def caught_def fails_def yields_def split: prod.splits sum.splits)
    with validD_err [OF assms h] show "safe s'" by blast
  next
    fix s x s'
    assume h: "keeping (at_phase PhasePending) s" and e: "?arm s = (Inr x, s')"
    from e have "\<exists>y. arm s = (Inr y, s')"
      by (auto simp: andThen_def caught_def fails_def yields_def split: prod.splits sum.splits)
    with validD_ok [OF assms h] show "keeping (armed SubmitClone PhaseCloneSubmitting) s'" by blast
  qed
  then have 1: "valid (keeping (at_phase PhasePending)) (submit_task SubmitClone r amb' ?arm) (\<lambda>_. keeping (at_phase PhaseCloneSubmitting)) safe"
    for r and amb' :: "go_error \<Rightarrow> go_error"
    by (rule valid_submit) (simp add: tier_def)
  show ?thesis unfolding StartReplicaBuildClone_def
    by (rule valid_option, rule valid_andThen [OF 1], rule valid_yields, assumption, rule keeping_fails)
qed

lemma forward_pending:
  "env_ok env \<Longrightarrow> valid (keeping (at_phase PhasePending)) (phase_pending env wk) goes_on safe"
  unfolding phase_pending_def
  apply (rule then_build)
  apply (rule valid_andThen [where R = "\<lambda>_. keeping (at_phase PhasePending)"])
   apply (rule valid_if)
    apply (rule valid_yields, assumption)
   apply (rule then_answer)
   apply (rule valid_if, rule keeping_fails)
   apply (rule save_forward, assumption, simp_all add: save_side) [1]
  apply (rule then_build)
  apply (rule valid_andThen [OF start_clone [OF arm_forward]])
          apply (simp_all add: save_side)
  apply (rule valid_splits)
  by (rule then_save goes_on_yields | simp add: save_side)+


lemma safe_fails: "valid safe (fails e) Q safe"
  by (rule valid_fails)

lemma then_caught:
  assumes "valid P m (\<lambda>_. keeping A) safe" "\<And>e. valid safe (f e) Q safe" "\<And>x. valid (keeping A) (g x) Q safe"
  shows "valid P (andThen (caught m) (\<lambda>r. case r of Inl e \<Rightarrow> f e | Inr x \<Rightarrow> g x)) Q safe"
proof (rule valid_andThen [where R = "\<lambda>r s. case r of Inl _ \<Rightarrow> safe s | Inr _ \<Rightarrow> keeping A s"])
  show "valid P (caught m) (\<lambda>r s. case r of Inl _ \<Rightarrow> safe s | Inr _ \<Rightarrow> keeping A s) safe"
    by (rule valid_caught [where F = safe]) (use assms(1) in simp_all)
  show "valid (\<lambda>s. case r of Inl _ \<Rightarrow> safe s | Inr _ \<Rightarrow> keeping A s) (case r of Inl e \<Rightarrow> f e | Inr x \<Rightarrow> g x) Q safe" for r
    by (cases r) (simp_all add: assms(2,3))
qed

lemma forward_adopt:
  assumes env: "env_ok env"
  shows "valid (keeping (at_phase PhaseCloneSubmitted)) (adopt_clone env wk e mref) goes_on safe"
proof (cases "errorsIs e ErrCloneTaskFailed")
  case True
  show ?thesis unfolding adopt_clone_def if_P [OF True]
    by (rule then_caught, rule save_forward [OF env, where q = PhaseCloneSubmitted], simp_all add: save_side safe_fails,
        rule then_caught, rule ensure_rule [OF env], simp_all add: at_phase_def safe_fails keeping_fails)
next
  case False
  show ?thesis unfolding adopt_clone_def if_not_P [OF False]
    by (rule then_caught, rule save_forward [OF env, where q = PhaseValidating], simp_all add: save_side safe_fails,
        rule then_caught, rule ensure_rule [OF env], simp_all add: at_phase_def safe_fails goes_on_yields)
qed

lemma forward_clone_submitted:
  "env_ok env \<Longrightarrow> valid (keeping (at_phase PhaseCloneSubmitted)) (phase_clone_submitted env wk) goes_on safe"
  unfolding phase_clone_submitted_def
  by (rule look_rules then_save goes_on_yields then_ensure forward_adopt | simp add: save_side)+

lemma forward_validating:
  "env_ok env \<Longrightarrow> valid (keeping (at_phase PhaseValidating)) (phase_validating env wk) goes_on safe"
  unfolding phase_validating_def StartReplicaBuildSnapshot_def
  apply (rule then_build)
  apply (rule valid_andThen [where R = "\<lambda>_. keeping (at_phase PhaseValidating)"])
   apply (rule valid_if)
    apply (rule ensure_rule, assumption, simp_all add: at_phase_def) [1]
   apply (rule valid_yields, assumption)
  apply (rule then_build)
  apply (rule valid_option)
   apply (rule valid_andThen [where R = "\<lambda>_. keeping (at_phase PhaseSnapshotSubmitting)"])
    apply (rule valid_option)
     apply (rule valid_submit [OF arm_forward])
             apply (simp_all add: save_side keeping_fails)
  by (rule then_save goes_on_yields | simp add: save_side)+

lemma forward_canary_prepared:
  "env_ok env \<Longrightarrow> valid (keeping (at_phase PhaseCanaryPrepared)) (phase_canary_prepared env wk) goes_on safe"
  unfolding phase_canary_prepared_def StartReplicaBuildCanary_def
  apply (rule then_build)
  apply (rule valid_andThen [where R = "\<lambda>_. keeping (at_phase PhaseCanarySubmitting)"])
   apply (rule valid_option)
    apply (rule valid_submit [OF arm_forward])
            apply (simp_all add: save_side keeping_fails)
  by (rule then_save goes_on_yields | simp add: save_side)+


text \<open>In the end, the cleanup of the canary: nothing it submits is counted.\<close>

lemma start_cleanup:
  assumes "valid (keeping A) arm (\<lambda>_. keeping A) safe" "needs k = 0" "\<And>b pay subs x. A b pay subs \<Longrightarrow> A b pay (x # subs)"
  shows "valid (keeping A) (startReplicaBuildVMCleanup env k t mref amb arm) (\<lambda>_. keeping A) safe"
  unfolding startReplicaBuildVMCleanup_def
  by (rule then_answer, rule valid_if, rule valid_yields, assumption, rule valid_submit_other [where A = A, OF assms])

lemma canary_absent_rule:
  assumes "valid (keeping A) (saveReplicaBuildState env ''canary cleanup again'' wk
             (\<lambda>b. b\<lparr>rbd_CleanupTaskRef := [], rbd_Phase := PhaseCleanupPrepared\<rparr>)) (\<lambda>_. keeping A) safe"
  shows "valid (keeping A) (canary_absent env still wk) (\<lambda>_. keeping A) safe"
  unfolding canary_absent_def
  apply (rule then_build)
  apply (rule then_caught_wait)
  apply (rule valid_andThen [where R = "\<lambda>_. keeping A"])
   apply (rule valid_sum)
    apply (rule then_caught_exists)
    apply (rule valid_sum, rule keeping_fails)
    apply (rule valid_bool)
     apply (rule valid_if)
      apply (rule then_caught [OF assms], rule safe_fails, rule keeping_fails)
     apply (rule keeping_fails)
    apply (rule valid_yields, assumption)
   apply (rule valid_yields, assumption)
  apply (rule then_exists)
  apply (rule valid_if, rule keeping_fails)
  apply (rule valid_yields, assumption)
  done

definition late :: row_assertion where
  "late b pay subs \<longleftrightarrow> open_build b \<and> tier (rbd_Phase b) = 3"

lemma save_late:
  assumes "env_ok env" "\<And>b. save_columns (m b) b = m b" "\<And>b. IsTemplateReplicaBuildForwardPhase (rbd_Phase (m b)) \<and> tier (rbd_Phase (m b)) = 3"
    and "\<And>b. open_build b \<Longrightarrow> open_build (m b)" "\<And>b. rbd_JobID (m b) = rbd_JobID b"
  shows "valid (keeping late) (saveReplicaBuildState env t wk m) (\<lambda>_. keeping late) safe"
proof (rule save_rule [OF assms(1,2)])
  fix b subs pay
  assume r: "row_ok subs pay b" and a: "late b pay subs"
  have "rbd_ID (m b) = rbd_ID b" using save_columns_ID [of "m b" b] assms(2) by simp
  then have "row_ok subs pay (m b)" using row_ok_forward [OF r] a assms by (simp add: late_def)
  then show "row_ok subs pay (m b) \<and> late (m b) pay subs" using a assms by (simp add: late_def)
qed (simp_all add: late_def mono_assertion_def)

lemma late_yields: "valid (keeping late) (yields True) goes_on safe"
  by (rule valid_yields) (simp add: goes_on_def keeping_def safe_def late_def still_open_def)

lemma at_late: "tier p = 3 \<Longrightarrow> keeping (at_phase p) s \<Longrightarrow> keeping late s"
  by (simp add: keeping_def at_phase_def late_def)

lemma forward_cleanup_prepared:
  assumes "env_ok env"
  shows "valid (keeping late) (phase_cleanup_prepared env wk) goes_on safe"
  unfolding phase_cleanup_prepared_def arm_canary_cleanup_def
  apply (rule then_build)
  apply (rule valid_option)
   apply (rule valid_andThen [where R = "\<lambda>_. keeping late"])
    apply (rule start_cleanup)
      apply (rule save_late [OF assms]; simp add: save_side)
     apply (simp_all add: late_def) [2]
   apply (rule valid_option)
    apply (rule valid_andThen [OF save_late [OF assms]], simp_all add: save_side late_yields) [1]
   apply (rule valid_andThen [OF save_late [OF assms]], simp_all add: save_side late_yields) [1]
  apply (rule keeping_fails)
  done

lemma forward_cleanup_submitted:
  assumes "env_ok env"
  shows "valid (keeping late) (phase_cleanup_submitted env wk) goes_on safe"
  unfolding phase_cleanup_submitted_def
  apply (rule valid_andThen [OF canary_absent_rule])
   apply (rule save_late [OF assms]; simp add: save_side)
  apply (rule valid_andThen [OF save_late [OF assms]], simp_all add: save_side late_yields)
  done

section \<open>Finalizing\<close>

lemma query_rule:
  assumes env: "env_ok env" and mono: "mono_assertion A"
    and eff: "\<And>w r db'. keeping A (b, w) \<Longrightarrow> q (rw_db w) = (r, db') \<Longrightarrow> world_ok (w\<lparr>rw_db := db'\<rparr>)"
  shows "valid (\<lambda>s. keeping A s \<and> b = fst s) (store_query env t q) (\<lambda>_. safe) safe"
proof -
  have *: "safe s'" if h: "keeping A s" "b = fst s" and e: "store_query env t q s = (r, s')" for s r s'
  proof -
    obtain w where s: "s = (b, w)" using h(2) by (cases s) simp
    let ?w = "w\<lparr>rw_db := rn_between env t (rw_db w)\<rparr>"
    have "keeping A (b, ?w)" using keeping_frame [OF _ _ mono] h(1) s env by (simp add: env_ok_def)
    moreover obtain db' where d: "q (rn_between env t (rw_db w)) = (r, db')" "s' = (b, w\<lparr>rw_db := db'\<rparr>)"
      using e unfolding s store_query_def by (auto split: prod.splits)
    ultimately show ?thesis using eff [of ?w r db'] by (simp add: safe_def)
  qed
  show ?thesis by (rule validI) (use * in blast)+
qed

lemma finalize_effect:
  assumes "FinalizeTemplateReplicaBuild flt now b wk db = (r, db')"
  shows "db' = db \<or> (\<exists>i. db_replica_builds db' =
      sql_update (\<lambda>x. rbd_ID x = rbd_ID b \<and> rbd_JobID x = Some i \<and> rbd_Phase x = PhaseFinalizing)
        (\<lambda>x. x\<lparr>rbd_Status := BuildReady, rbd_Phase := PhaseReady, rbd_CompletedAt := Some now,
               rbd_LastErrorCode := [], rbd_LastError := []\<rparr>) (db_replica_builds db) \<and> payload_of db' = payload_of db)"
proof (cases "\<exists>i a x. rbd_JobID b = Some i \<and> rbd_SourceReplicaID b = Some a \<and> rbd_ResultReplicaID b = Some x \<and>
    rbd_CleanupCompletedAt b \<noteq> None \<and> rbd_DestinationSnapshot b \<noteq> []")
  case True
  then obtain i a x where "lossy_tx flt (finalize_build now b i a x wk) db = (r, db')"
    using assms by (auto simp: FinalizeTemplateReplicaBuild_def)
  from lossy_cases [OF this] show ?thesis
    by (auto simp: finalize_build_def Let_def split: sum.splits prod.splits if_splits option.splits dest!: update_builds_ok)
next
  case False
  then show ?thesis using assms by (auto simp: FinalizeTemplateReplicaBuild_def split: option.splits if_splits)
qed

lemma forward_finalizing:
  assumes env: "env_ok env"
  shows "valid (keeping (at_phase PhaseFinalizing)) (phase_finalizing env wk) goes_on safe"
proof -
  have "world_ok (w\<lparr>rw_db := db'\<rparr>)"
    if h: "keeping (at_phase PhaseFinalizing) (b, w)" and e: "FinalizeTemplateReplicaBuild flt now b wk (rw_db w) = (r, db')" for b w flt now r db'
    using finalize_effect [OF e]
  proof
    assume "db' = rw_db w"
    then show ?thesis using h by (simp add: keeping_def)
  next
    let ?f = "\<lambda>x. x\<lparr>rbd_Status := BuildReady, rbd_Phase := PhaseReady, rbd_CompletedAt := Some now, rbd_LastErrorCode := [], rbd_LastError := []\<rparr>"
    assume "\<exists>i. db_replica_builds db' =
      sql_update (\<lambda>x. rbd_ID x = rbd_ID b \<and> rbd_JobID x = Some i \<and> rbd_Phase x = PhaseFinalizing) ?f (db_replica_builds (rw_db w)) \<and>
      payload_of db' = payload_of (rw_db w)"
    then obtain i where d1: "db_replica_builds db' = sql_update (\<lambda>x. rbd_ID x = rbd_ID b \<and> rbd_JobID x = Some i \<and> rbd_Phase x = PhaseFinalizing)
        ?f (db_replica_builds (rw_db w))" and d2: "payload_of db' = payload_of (rw_db w)" by blast
    have r: "row_ok (rw_subs w) (payload_of (rw_db w)) (?f b)"
    proof -
      have "may_have k b \<le> may_have k (?f b)" for k using may_have_le [of k b] by (simp add: may_have_def open_build_def broken_build_def)
      moreover have "fits p (?f b)" if "fits p b" for p
        using that h by (auto simp: fits_def open_build_def broken_build_def keeping_def at_phase_def split: if_splits)
      ultimately show ?thesis using keeping_row [OF h] unfolding row_ok_def
        by (auto simp: open_build_def intro: le_trans)
    qed
    show ?thesis by (rule held_update(1) [OF h _ refl _ r d1 d2]) simp_all
  qed
  then show ?thesis unfolding phase_finalizing_def
    by (intro valid_andThen [OF valid_the_build] valid_andThen [OF query_rule [OF env mono_at(1)]] valid_yields) (auto simp: goes_on_def)
qed


section \<open>The whole way forward\<close>

definition on_track :: row_assertion where
  "on_track b pay subs \<longleftrightarrow> open_build b \<or> \<not> IsTemplateReplicaBuildForwardPhase (rbd_Phase b)"

definition outcome_ok :: "bool result \<times> build_state \<Rightarrow> bool" where
  "outcome_ok x \<longleftrightarrow> (case x of (Inl _, s') \<Rightarrow> safe s' | (Inr c, s') \<Rightarrow> goes_on c s')"

lemma step_case:
  assumes "rbd_Phase (fst s) = p" "keeping on_track s" "valid (keeping (at_phase p)) m goes_on safe" "IsTemplateReplicaBuildForwardPhase p"
  shows "outcome_ok (m s)"
proof -
  have "keeping (at_phase p) s" using assms(1,2,4) by (simp add: keeping_def on_track_def at_phase_def)
  then show ?thesis unfolding outcome_ok_def by (rule assms(3) [unfolded valid_def, rule_format])
qed

lemma late_case:
  "valid (keeping late) m goes_on safe \<Longrightarrow> tier p = 3 \<Longrightarrow> valid (keeping (at_phase p)) m goes_on safe"
  by (erule valid_pre) (erule at_late)

lemma phase_step_valid:
  assumes env: "env_ok env"
  shows "valid (keeping on_track) (phase_step env wk) goes_on safe"
proof -
  note forward = forward_pending [OF env] forward_clone_submitting [OF env] forward_clone_submitted [OF env] forward_validating [OF env]
    forward_snapshot_submitting [OF env] forward_snapshot_submitted [OF env] forward_canary_prepared [OF env]
    forward_canary_submitting [OF env] forward_canary_submitted [OF env] forward_finalizing [OF env]
    late_case [OF forward_cleanup_prepared [OF env]] late_case [OF forward_cleanup_submitted [OF env]]
  have "outcome_ok (phase_step env wk s)" if h: "keeping on_track s" for s
  proof (cases "IsTemplateReplicaBuildForwardPhase (rbd_Phase (fst s))")
    case False
    then show ?thesis using keeping_safe [OF h]
      by (cases "rbd_Phase (fst s)") (simp_all add: phase_step_def fails_def yields_def goes_on_def outcome_ok_def)
  next
    case True
    then show ?thesis
      by (cases "rbd_Phase (fst s)")
        (simp_all add: phase_step_def, (erule step_case [OF _ h], rule forward, (simp add: tier_def)+)+)
  qed
  then show ?thesis unfolding valid_def outcome_ok_def [symmetric] by (intro allI impI)
qed

lemma execute_loop_safe:
  "env_ok env \<Longrightarrow> keeping on_track s \<Longrightarrow> safe (snd (execute_loop env wk s))"
proof (induction env wk s rule: execute_loop.induct)
  case (1 env wk s)
  obtain r s' where r: "phase_step env wk s = (r, s')" by (rule prod.exhaust)
  note v = phase_step_valid [OF 1(2), of wk]
  show ?case
  proof (cases r)
    case (Inl e)
    then show ?thesis using validD_err [OF v 1(3)] r by (simp add: execute_loop.simps [of env wk s])
  next
    case (Inr c)
    have g: "goes_on c s'" using validD_ok [OF v 1(3)] r Inr by blast
    show ?thesis
    proof (cases c)
      case False
      then show ?thesis using g r Inr by (simp add: execute_loop.simps [of env wk s] goes_on_def)
    next
      case True
      from g True have "keeping on_track s'" by (simp add: goes_on_def keeping_def still_open_def on_track_def)
      moreover have "c = True" using True by simp
      ultimately show ?thesis using 1(1) [OF r [symmetric] Inr _ 1(2)] r Inr by (simp add: execute_loop.simps [of env wk s])
    qed
  qed
qed

section \<open>Cleaning up\<close>

definition cleaning :: row_assertion where
  "cleaning b pay subs \<longleftrightarrow> rbd_Status b \<noteq> BuildRetired \<and> (\<exists>i p. rbd_JobID b = Some i \<and> pay i = Some p \<and> cleanup_job p)"

lemma mono_cleaning: "mono_assertion cleaning"
  unfolding mono_assertion_def cleaning_def map_le_def by (metis domI)

lemma cleaning_status:
  assumes "row_ok subs pay b" "cleaning b pay subs"
  shows "rbd_Status b = BuildRetiring \<and> (\<forall>i p. rbd_JobID b = Some i \<longrightarrow> pay i = Some p \<longrightarrow> cleanup_job p \<and> retire_job p) \<or>
    broken_build b \<and> (\<forall>i p. rbd_JobID b = Some i \<longrightarrow> pay i = Some p \<longrightarrow> cleanup_job p \<and> \<not> retire_job p)"
proof -
  from assms(2) obtain i p where p: "rbd_JobID b = Some i" "pay i = Some p" "cleanup_job p" "rbd_Status b \<noteq> BuildRetired"
    by (auto simp: cleaning_def)
  with assms(1) have "fits p b" by (auto simp: row_ok_def)
  with p show ?thesis by (cases "retire_job p") (auto simp: fits_def)
qed

lemma row_ok_cleaning:
  assumes r: "row_ok subs pay b" and c: "cleaning b pay subs"
    and same: "rbd_Status b' = rbd_Status b" "rbd_ResumePhase b' = rbd_ResumePhase b" "rbd_ID b' = rbd_ID b" "rbd_JobID b' = rbd_JobID b"
  shows "row_ok subs pay b' \<and> cleaning b' pay subs"
proof -
  have no: "\<not> open_build b" using cleaning_status [OF r c] by (auto simp: open_build_def broken_build_def)
  have "\<not> open_build b'" "broken_build b' = broken_build b" using no same by (simp_all add: open_build_def broken_build_def)
  then have m: "may_have k b' = may_have k b" for k using no same by (simp add: may_have_def governing_def)
  have "fits p b'" if "rbd_JobID b = Some i" "pay i = Some p" for i p
    using cleaning_status [OF r c] that same by (auto simp: fits_def broken_build_def)
  then show ?thesis using r c m \<open>\<not> open_build b'\<close> same unfolding row_ok_def cleaning_def by (metis (no_types, lifting))
qed

lemma save_cleaning:
  assumes "env_ok env" "\<And>b. save_columns (m b) b = m b" "\<And>b. rbd_Status (m b) = rbd_Status b"
    "\<And>b. rbd_ResumePhase (m b) = rbd_ResumePhase b" "\<And>b. rbd_JobID (m b) = rbd_JobID b"
  shows "valid (keeping cleaning) (saveReplicaBuildState env t wk m) (\<lambda>_. keeping cleaning) safe"
proof (rule save_rule [OF assms(1,2) mono_cleaning])
  fix b subs pay
  assume r: "row_ok subs pay b" and a: "cleaning b pay subs"
  have "rbd_ID (m b) = rbd_ID b" using save_columns_ID [of "m b" b] assms(2) by simp
  then show "row_ok subs pay (m b) \<and> cleaning (m b) pay subs" using row_ok_cleaning [OF r a] assms by simp
qed (simp add: cleaning_def)

lemma keep_cleaning: "valid (keeping cleaning) (yields x) (\<lambda>_. keeping cleaning) safe"
  by (rule valid_yields)

lemma clean_locate_canary:
  assumes "env_ok env" shows "valid (keeping cleaning) (locate_canary env wk) (\<lambda>_. keeping cleaning) safe"
proof -
  have s: "valid (keeping cleaning) (saveReplicaBuildState env t wk (\<lambda>b. b\<lparr>rbd_CanaryVMMoref := m\<rparr>)) (\<lambda>_. keeping cleaning) safe" for t m
    by (rule save_cleaning [OF assms]) (simp_all add: save_columns_def)
  have d: "valid (keeping cleaning) (canary_done env t f wk) (\<lambda>_. keeping cleaning) safe" for t f
    unfolding canary_done_def by (rule save_cleaning [OF assms]) (simp_all add: save_columns_def)
  have a: "valid (keeping cleaning)
      (if c then yields x else andThen (caught (wait_task env t r ty)) (\<lambda>waited. case waited of
          Inr mref \<Rightarrow> yields mref | Inl e \<Rightarrow> if errorsIs e ErrCloneTaskFailed then yields y else fails e)) (\<lambda>_. keeping cleaning) safe"
    for c x y t r ty by (rule valid_if look_rules keep_cleaning)+
  show ?thesis unfolding locate_canary_def
    by (rule look_rules s d keep_cleaning valid_andThen [OF a])+
qed


lemma clean_remove_canary:
  assumes "env_ok env" shows "valid (keeping cleaning) (remove_canary env wk) (\<lambda>_. keeping cleaning) safe"
proof -
  have d: "valid (keeping cleaning) (canary_done env t f wk) (\<lambda>_. keeping cleaning) safe" for t f
    unfolding canary_done_def by (rule save_cleaning [OF assms]) (simp_all add: save_columns_def)
  have a: "valid (keeping cleaning) (canary_absent env still wk) (\<lambda>_. keeping cleaning) safe" for still
    by (rule canary_absent_rule, rule save_cleaning [OF assms]) (simp_all add: save_columns_def)
  have arm: "valid (keeping cleaning) (arm_canary_cleanup env wk) (\<lambda>_. keeping cleaning) safe"
    unfolding arm_canary_cleanup_def by (rule save_cleaning [OF assms]) (simp_all add: save_columns_def)
  have c: "valid (keeping cleaning) (startReplicaBuildVMCleanup env SubmitCanaryCleanup t m amb (arm_canary_cleanup env wk))
      (\<lambda>_. keeping cleaning) safe" for t m amb
    by (rule start_cleanup [OF arm]) (simp_all add: cleaning_def)
  have s: "valid (keeping cleaning) (saveReplicaBuildState env t wk (\<lambda>b. b\<lparr>rbd_CleanupTaskRef := r, rbd_Phase := PhaseCleanupSubmitted\<rparr>))
      (\<lambda>_. keeping cleaning) safe" for t r
    by (rule save_cleaning [OF assms]) (simp_all add: save_columns_def)
  show ?thesis unfolding remove_canary_def
    by (rule then_build d valid_andThen [OF a] valid_andThen [OF c] valid_andThen [OF s] keeping_fails keep_cleaning valid_splits)+
qed

lemma clean_locate_residue:
  assumes "env_ok env" shows "valid (keeping cleaning) (locate_residue env wk) (\<lambda>_. keeping cleaning) safe"
proof -
  have s: "valid (keeping cleaning) (saveReplicaBuildState env t wk (\<lambda>b. b\<lparr>rbd_DestinationVMMoref := m\<rparr>)) (\<lambda>_. keeping cleaning) safe" for t m
    by (rule save_cleaning [OF assms]) (simp_all add: save_columns_def)
  show ?thesis unfolding locate_residue_def by (rule look_rules s keep_cleaning)+
qed

subsection \<open>The end of a cleanup\<close>

text \<open>Rows that differ in their references to replicas only.\<close>

definition refs_only :: "(replica_build \<Rightarrow> replica_build) \<Rightarrow> bool" where
  "refs_only g \<longleftrightarrow> (\<forall>b. \<exists>x y. g b = b\<lparr>rbd_SourceReplicaID := x, rbd_ResultReplicaID := y\<rparr>)"

definition rows_like :: "replica_build list \<Rightarrow> replica_build list \<Rightarrow> bool" where
  "rows_like bs bs' \<longleftrightarrow> (\<exists>g. refs_only g \<and> bs' = map g bs)"

lemma refs_same: "\<exists>x y. b = b\<lparr>rbd_SourceReplicaID := x, rbd_ResultReplicaID := y\<rparr>" for b :: replica_build
proof (intro exI)
  show "b = b\<lparr>rbd_SourceReplicaID := rbd_SourceReplicaID b, rbd_ResultReplicaID := rbd_ResultReplicaID b\<rparr>" by simp
qed

lemma rows_like_refl: "rows_like bs bs"
proof -
  have "refs_only (\<lambda>b. b)" unfolding refs_only_def using refs_same by blast
  then show ?thesis unfolding rows_like_def by (metis map_ident)
qed

lemma rows_like_trans: "rows_like bs bs' \<Longrightarrow> rows_like bs' bs'' \<Longrightarrow> rows_like bs bs''"
proof -
  assume "rows_like bs bs'" "rows_like bs' bs''"
  then obtain g h where g: "refs_only g" "bs' = map g bs" and h: "refs_only h" "bs'' = map h bs'" by (auto simp: rows_like_def)
  have "refs_only (h \<circ> g)" unfolding refs_only_def
  proof
    fix b
    obtain x y where 1: "g b = b\<lparr>rbd_SourceReplicaID := x, rbd_ResultReplicaID := y\<rparr>" using g(1) unfolding refs_only_def by blast
    obtain x' y' where "h (g b) = (g b)\<lparr>rbd_SourceReplicaID := x', rbd_ResultReplicaID := y'\<rparr>" using h(1) unfolding refs_only_def by blast
    then have "(h \<circ> g) b = b\<lparr>rbd_SourceReplicaID := x', rbd_ResultReplicaID := y'\<rparr>" by (simp add: 1)
    then show "\<exists>x y. (h \<circ> g) b = b\<lparr>rbd_SourceReplicaID := x, rbd_ResultReplicaID := y\<rparr>" by blast
  qed
  with g h show ?thesis unfolding rows_like_def by (metis map_map)
qed

lemma rows_like_update:
  assumes "\<And>b. \<exists>x y. f b = b\<lparr>rbd_SourceReplicaID := x, rbd_ResultReplicaID := y\<rparr>"
  shows "rows_like bs (sql_update P f bs)"
proof -
  have "refs_only (\<lambda>r. if P r then f r else r)" unfolding refs_only_def using assms refs_same by (auto simp only: if_True if_False split: if_splits)
  then show ?thesis unfolding rows_like_def sql_update_def by blast
qed

lemma world_like:
  assumes w: "world_ok w" and l: "rows_like (db_replica_builds (rw_db w)) (db_replica_builds db')" and p: "payload_of (rw_db w) \<subseteq>\<^sub>m payload_of db'"
  shows "world_ok (w\<lparr>rw_db := db'\<rparr>)"
    "b \<in> set (db_replica_builds (rw_db w)) \<Longrightarrow> \<exists>x y. b\<lparr>rbd_SourceReplicaID := x, rbd_ResultReplicaID := y\<rparr> \<in> set (db_replica_builds db')"
proof -
  from l obtain g where g: "refs_only g" "db_replica_builds db' = map g (db_replica_builds (rw_db w))" by (auto simp: rows_like_def)
  have id: "rbd_ID (g b) = rbd_ID b" "row_ok subs pay (g b) = row_ok subs pay b" for b subs pay
  proof -
    obtain x y where e: "g b = b\<lparr>rbd_SourceReplicaID := x, rbd_ResultReplicaID := y\<rparr>" using g(1) unfolding refs_only_def by blast
    show "rbd_ID (g b) = rbd_ID b" "row_ok subs pay (g b) = row_ok subs pay b" unfolding e by simp_all
  qed
  have "db_replica_builds db' = sql_update (\<lambda>_. True) g (db_replica_builds (rw_db w))" by (simp add: g sql_update_def)
  then show "world_ok (w\<lparr>rw_db := db'\<rparr>)"
    by (rule world_update [OF w _ p]) (use id row_ok_mono [OF _ p] w in \<open>auto simp: world_ok_def\<close>)
  assume "b \<in> set (db_replica_builds (rw_db w))"
  then have "g b \<in> set (db_replica_builds db')" by (simp add: g)
  moreover obtain x y where "g b = b\<lparr>rbd_SourceReplicaID := x, rbd_ResultReplicaID := y\<rparr>" using g(1) unfolding refs_only_def by blast
  ultimately show "\<exists>x y. b\<lparr>rbd_SourceReplicaID := x, rbd_ResultReplicaID := y\<rparr> \<in> set (db_replica_builds db')" by metis
qed


lemma remove_result_like:
  assumes "remove_result build jobID retiring replicaID st db = Inr db'"
  shows "rows_like (db_replica_builds db) (db_replica_builds db') \<and> payload_of db' = payload_of db"
proof -
  obtain n1 db1 where 1: "(if retiring then update_builds (\<lambda>b. rbd_ID b \<noteq> rbd_ID build \<and> rbd_SourceReplicaID b = Some replicaID \<and> build_settled b)
        (\<lambda>b. b\<lparr>rbd_SourceReplicaID := None\<rparr>) db else Inr (0, db)) = Inr (n1, db1)"
    and a: "remove_result build jobID retiring replicaID st db = Inr db'"
    using assms unfolding remove_result_def by (auto split: option.splits sum.splits prod.splits if_splits)
  have l1: "rows_like (db_replica_builds db) (db_replica_builds db1) \<and> payload_of db1 = payload_of db"
  proof (cases retiring)
    case True
    with 1 have "db1 = db\<lparr>db_replica_builds := sql_update (\<lambda>b. rbd_ID b \<noteq> rbd_ID build \<and> rbd_SourceReplicaID b = Some replicaID \<and> build_settled b)
        (\<lambda>b. b\<lparr>rbd_SourceReplicaID := None\<rparr>) (db_replica_builds db)\<rparr>" by (auto dest: update_builds_ok)
    moreover have "\<exists>x y. b\<lparr>rbd_SourceReplicaID := None\<rparr> = b\<lparr>rbd_SourceReplicaID := x, rbd_ResultReplicaID := y\<rparr>" for b :: replica_build
    proof (intro exI)
      show "b\<lparr>rbd_SourceReplicaID := None\<rparr> = b\<lparr>rbd_SourceReplicaID := None, rbd_ResultReplicaID := rbd_ResultReplicaID b\<rparr>" by simp
    qed
    ultimately show ?thesis using rows_like_update by simp
  next
    case False
    with 1 show ?thesis by (simp add: rows_like_refl)
  qed
  obtain n2 db2 where 2: "update_builds (\<lambda>b. rbd_ID b = rbd_ID build \<and> rbd_JobID b = Some jobID \<and> rbd_ResultReplicaID b = Some replicaID)
        (\<lambda>b. b\<lparr>rbd_ResultReplicaID := None\<rparr>) db1 = Inr (n2, db2)"
    and d: "db_replica_builds db' = db_replica_builds db2" "payload_of db' = payload_of db2"
    using a unfolding remove_result_def 1 Let_def by (auto split: option.splits sum.splits prod.splits if_splits)
  have "\<exists>x y. b\<lparr>rbd_ResultReplicaID := None\<rparr> = b\<lparr>rbd_SourceReplicaID := x, rbd_ResultReplicaID := y\<rparr>" for b :: replica_build
  proof (intro exI)
    show "b\<lparr>rbd_ResultReplicaID := None\<rparr> = b\<lparr>rbd_SourceReplicaID := rbd_SourceReplicaID b, rbd_ResultReplicaID := None\<rparr>" by simp
  qed
  then have "rows_like (db_replica_builds db1) (db_replica_builds db2)" "payload_of db2 = payload_of db1"
    using update_builds_ok [OF 2] rows_like_update by simp_all
  with rows_like_trans [of "db_replica_builds db" "db_replica_builds db1" "db_replica_builds db2"] l1 d show ?thesis by simp
qed

lemma release_result_like:
  "release_result build jobID retiring x db = Inr db' \<Longrightarrow> rows_like (db_replica_builds db) (db_replica_builds db') \<and> payload_of db' = payload_of db"
  unfolding release_result_def by (auto split: option.splits if_splits simp: rows_like_refl dest: remove_result_like)

lemma complete_effect:
  assumes "CompleteTemplateReplicaBuildCleanup flt now c wk msg db = (r, db')"
  shows "db' = db \<or> (\<exists>i row db1. row \<in> set (db_replica_builds db) \<and> rbd_ID row = rbd_ID c \<and>
     rows_like (db_replica_builds db) (db_replica_builds db1) \<and> payload_of db1 = payload_of db \<and>
     db' = db1\<lparr>db_replica_builds := sql_update (\<lambda>b. rbd_ID b = rbd_ID c \<and> rbd_JobID b = Some i \<and> rbd_Status b = rbd_Status row)
       (cleaned_columns now c msg (rbd_Status row = BuildRetiring)) (db_replica_builds db1)\<rparr>)"
proof (cases "rbd_JobID c = None \<or> rbd_ResidueCleanedAt c = None")
  case True
  then show ?thesis using assms by (auto simp: CompleteTemplateReplicaBuildCleanup_def split: option.splits)
next
  case False
  then obtain i where "rbd_JobID c = Some i" "lossy_tx flt (complete_cleanup now c i wk msg) db = (r, db')"
    using assms by (auto simp: CompleteTemplateReplicaBuildCleanup_def)
  from lossy_cases [OF this(2)] consider "db' = db" | x where "complete_cleanup now c i wk msg db = Inr (x, db')" by blast
  then show ?thesis
  proof cases
    case 2
    then obtain row where row: "find (\<lambda>b. rbd_ID b = rbd_ID c \<and> rbd_JobID b = Some i) (db_replica_builds db) = Some row"
      unfolding complete_cleanup_def by (auto split: sum.splits option.splits)
    obtain db1 where l: "rows_like (db_replica_builds db) (db_replica_builds db1)" "payload_of db1 = payload_of db"
      and u: "db' = db1\<lparr>db_replica_builds := sql_update (\<lambda>b. rbd_ID b = rbd_ID c \<and> rbd_JobID b = Some i \<and> rbd_Status b = rbd_Status row)
       (cleaned_columns now c msg (rbd_Status row = BuildRetiring)) (db_replica_builds db1)\<rparr>"
      using 2 unfolding complete_cleanup_def row option.case Let_def
      by (auto split: sum.splits prod.splits if_splits dest!: update_builds_ok release_result_like)
    show ?thesis using find_SomeD [OF row] l u by blast
  qed simp
qed


lemma row_ok_cleaned:
  assumes r: "row_ok subs pay b" and c: "cleaning b pay subs"
  shows "row_ok subs pay (cleaned_columns now build msg (rbd_Status b = BuildRetiring) b)"
proof -
  let ?b = "cleaned_columns now build msg (rbd_Status b = BuildRetiring) b"
  have same: "rbd_ID ?b = rbd_ID b" "rbd_JobID ?b = rbd_JobID b" "rbd_ResumePhase ?b = rbd_ResumePhase b"
    by (simp_all add: cleaned_columns_def)
  have st: "rbd_Status ?b = (if rbd_Status b = BuildRetiring then BuildRetired else BuildFailed)" by (simp add: cleaned_columns_def)
  have no: "\<not> open_build ?b" using st by (simp add: open_build_def)
  have "\<not> open_build b" using cleaning_status [OF r c] by (auto simp: open_build_def broken_build_def)
  then have m: "may_have k b \<le> may_have k ?b" for k
    using cleaning_status [OF r c] st same may_have_le [of k b] no
    by (auto simp: may_have_def governing_def broken_build_def split: if_splits)
  have f: "fits p ?b" if "rbd_JobID b = Some i" "pay i = Some p" for i p
    using cleaning_status [OF r c] that st by (auto simp: fits_def broken_build_def)
  show ?thesis using r m f no same unfolding row_ok_def by (metis le_trans)
qed

lemma complete_world:
  assumes h: "keeping cleaning (b, w)" and c: "rbd_ID c = rbd_ID b"
    and e: "CompleteTemplateReplicaBuildCleanup flt now c wk msg (rw_db w) = (r, db')"
  shows "world_ok (w\<lparr>rw_db := db'\<rparr>)"
  using complete_effect [OF e]
proof
  assume "db' = rw_db w"
  then show ?thesis using h by (simp add: keeping_def)
next
  assume "\<exists>i row db1. row \<in> set (db_replica_builds (rw_db w)) \<and> rbd_ID row = rbd_ID c \<and>
     rows_like (db_replica_builds (rw_db w)) (db_replica_builds db1) \<and> payload_of db1 = payload_of (rw_db w) \<and>
     db' = db1\<lparr>db_replica_builds := sql_update (\<lambda>b. rbd_ID b = rbd_ID c \<and> rbd_JobID b = Some i \<and> rbd_Status b = rbd_Status row)
       (cleaned_columns now c msg (rbd_Status row = BuildRetiring)) (db_replica_builds db1)\<rparr>"
  then obtain i row db1 where row: "row \<in> set (db_replica_builds (rw_db w))" "rbd_ID row = rbd_ID c"
    and l: "rows_like (db_replica_builds (rw_db w)) (db_replica_builds db1)" and p: "payload_of db1 = payload_of (rw_db w)"
    and d: "db' = db1\<lparr>db_replica_builds := sql_update (\<lambda>b. rbd_ID b = rbd_ID c \<and> rbd_JobID b = Some i \<and> rbd_Status b = rbd_Status row)
       (cleaned_columns now c msg (rbd_Status row = BuildRetiring)) (db_replica_builds db1)\<rparr>" by blast
  have w: "world_ok w" and b: "b \<in> set (db_replica_builds (rw_db w))" using h by (simp_all add: keeping_def)
  have rb: "row = b"
    by (rule distinct_key_eq [where key = rbd_ID and rs = "db_replica_builds (rw_db w)"]) (use w row b c in \<open>simp_all add: world_ok_def\<close>)
  have pl: "payload_of (rw_db w) \<subseteq>\<^sub>m payload_of db1" using p by simp
  obtain x y where b': "b\<lparr>rbd_SourceReplicaID := x, rbd_ResultReplicaID := y\<rparr> \<in> set (db_replica_builds db1)"
    using world_like(2) [OF w l pl b] by blast
  define v where "v = b\<lparr>rbd_SourceReplicaID := x, rbd_ResultReplicaID := y\<rparr>"
  let ?w = "w\<lparr>rw_db := db1\<rparr>"
  have hv: "keeping cleaning (v, ?w)" using h b' world_like(1) [OF w l pl] p by (simp add: keeping_def v_def cleaning_def)
  have sv: "rbd_Status v = rbd_Status row" "rbd_ID v = rbd_ID c" using rb c by (simp_all add: v_def)
  let ?P = "\<lambda>b. rbd_ID b = rbd_ID c \<and> rbd_JobID b = Some i \<and> rbd_Status b = rbd_Status row"
  let ?f = "cleaned_columns now c msg (rbd_Status row = BuildRetiring)"
  have P: "\<And>z. ?P z \<Longrightarrow> rbd_ID z = rbd_ID v" using sv by simp
  have id: "rbd_ID (?f v) = rbd_ID v" by (simp add: cleaned_columns_def)
  have rok: "row_ok (rw_subs ?w) (payload_of (rw_db ?w)) (?f v)"
    using row_ok_cleaned [OF keeping_row [OF hv]] hv sv(1) by (simp add: keeping_def)
  have d1: "db_replica_builds db' = sql_update ?P ?f (db_replica_builds (rw_db ?w))" unfolding d by simp
  have d2: "payload_of db' = payload_of (rw_db ?w)" unfolding d by simp
  have "world_ok (?w\<lparr>rw_db := db'\<rparr>)" by (rule held_update(1) [OF hv P refl id rok d1 d2])
  then show ?thesis by simp
qed

text \<open>The build that is handed to the last query differs from its row in the time of the proof.\<close>

definition stamped :: "build_state \<Rightarrow> bool" where
  "stamped s \<longleftrightarrow> (\<exists>b. keeping cleaning (b, snd s) \<and> rbd_ID (fst s) = rbd_ID b)"

lemma stamp_stamped: "valid (keeping cleaning) (stamp_residue env again) (\<lambda>_. stamped) safe"
  unfolding valid_def stamp_residue_def stamped_def by (auto intro!: exI simp: keeping_def)

lemma clean_complete:
  assumes env: "env_ok env"
  shows "valid stamped (complete_query env msg wk) (\<lambda>_. safe) safe"
proof -
  have *: "safe s'" if st: "stamped s" and e: "complete_query env msg wk s = (r, s')" for s r s'
  proof -
    obtain c w where s: "s = (c, w)" by (rule prod.exhaust)
    from st s obtain b where h: "keeping cleaning (b, w)" and c: "rbd_ID c = rbd_ID b" by (auto simp: stamped_def)
    let ?w = "w\<lparr>rw_db := rn_between env ''complete cleanup'' (rw_db w)\<rparr>"
    have h': "keeping cleaning (b, ?w)" using keeping_frame [OF h _ mono_cleaning] env by (simp add: env_ok_def)
    obtain q db' where q: "CompleteTemplateReplicaBuildCleanup (rn_flt env ''complete cleanup'') (rn_now env ''complete cleanup'') c wk msg
        (rw_db ?w) = (q, db')" by (rule prod.exhaust)
    have "snd s' = w\<lparr>rw_db := db'\<rparr>" using e q unfolding s complete_query_def andThen_def the_build_def store_query_def by auto
    with complete_world [OF h' c q] show ?thesis by (simp add: safe_def)
  qed
  show ?thesis by (rule validI) (use * in blast)+
qed

lemma clean_completed:
  "env_ok env \<Longrightarrow> valid (keeping cleaning) (completeTemplateReplicaBuildCleanup env msg wk) (\<lambda>_. safe) safe"
  unfolding completeTemplateReplicaBuildCleanup_def by (rule valid_andThen [OF stamp_stamped], rule clean_complete)

lemma clean_residue_absent:
  assumes env: "env_ok env"
  shows "valid (keeping cleaning) (residue_absent env wk) (\<lambda>_. safe) safe"
proof -
  have s: "valid (keeping cleaning) (saveReplicaBuildState env t wk (\<lambda>b. b\<lparr>rbd_ResidueCleanupTaskRef := [], rbd_Phase := PhaseResiduePrepared\<rparr>))
      (\<lambda>_. keeping cleaning) safe" for t
    by (rule save_cleaning [OF env]) (simp_all add: save_columns_def)
  show ?thesis unfolding residue_absent_def
    apply (rule then_build)
    apply (rule then_caught_wait)
    apply (rule valid_andThen [where R = "\<lambda>_. keeping cleaning"])
     apply (rule then_caught [OF s] safe_fails look_rules keep_cleaning)+
    apply (rule valid_andThen [OF stamp_stamped], rule clean_complete [OF env])
    done
qed

lemma clean_remove_residue:
  assumes env: "env_ok env"
  shows "valid (keeping cleaning) (remove_residue env wk) (\<lambda>_. safe) safe"
proof -
  have arm: "valid (keeping cleaning) (saveReplicaBuildState env t wk (\<lambda>b. b\<lparr>rbd_SubmissionStartedAt := x, rbd_ResidueCleanupTaskRef := [],
      rbd_Phase := PhaseResidueSubmitting\<rparr>)) (\<lambda>_. keeping cleaning) safe" for t x
    by (rule save_cleaning [OF env]) (simp_all add: save_columns_def)
  have c: "valid (keeping cleaning) (startReplicaBuildVMCleanup env SubmitResidueCleanup t m amb
      (saveReplicaBuildState env t' wk (\<lambda>b. b\<lparr>rbd_SubmissionStartedAt := x, rbd_ResidueCleanupTaskRef := [],
        rbd_Phase := PhaseResidueSubmitting\<rparr>))) (\<lambda>_. keeping cleaning) safe" for t m amb t' x
    by (rule start_cleanup [OF arm]) (simp_all add: cleaning_def)
  have s: "valid (keeping cleaning) (saveReplicaBuildState env t wk (\<lambda>b. b\<lparr>rbd_ResidueCleanupTaskRef := r, rbd_Phase := PhaseResidueSubmitted\<rparr>))
      (\<lambda>_. keeping cleaning) safe" for t r
    by (rule save_cleaning [OF env]) (simp_all add: save_columns_def)
  show ?thesis unfolding remove_residue_def
    by (rule then_build valid_andThen [OF c] valid_andThen [OF s] clean_completed [OF env] clean_residue_absent [OF env] keeping_fails valid_splits)+
qed

lemma cleanup_safe:
  assumes env: "env_ok env"
  shows "valid (keeping cleaning) (cleanupTemplateReplicaBuild env wk) (\<lambda>_. safe) safe"
  unfolding cleanupTemplateReplicaBuild_def
  by (rule valid_andThen [OF clean_locate_canary [OF env]], rule valid_andThen [OF clean_remove_canary [OF env]],
      rule valid_andThen [OF clean_locate_residue [OF env]], rule clean_remove_residue [OF env])


section \<open>The job\<close>

lemma load_effect:
  assumes env: "env_ok env" and w: "world_ok w" and l: "load_build env t i wk w = (r, w')"
  shows "world_ok w'" "rw_subs w' = rw_subs w" "payload_of (rw_db w) \<subseteq>\<^sub>m payload_of (rw_db w')"
    "r = Inr b \<Longrightarrow> b \<in> set (db_replica_builds (rw_db w')) \<and> rbd_JobID b = Some i"
proof -
  have fr: "builds_frame (rw_db w) (rn_between env t (rw_db w))" using env by (simp add: env_ok_def)
  have w': "w' = w\<lparr>rw_db := rn_between env t (rw_db w)\<rparr>" using l by (simp add: load_build_def Let_def)
  show "world_ok w'" unfolding w' by (rule world_frame [OF w fr])
  show "rw_subs w' = rw_subs w" "payload_of (rw_db w) \<subseteq>\<^sub>m payload_of (rw_db w')" using fr unfolding w' by (simp_all add: builds_frame_def)
  assume "r = Inr b"
  then show "b \<in> set (db_replica_builds (rw_db w')) \<and> rbd_JobID b = Some i"
    using l unfolding load_build_def GetTemplateReplicaBuildForJob_def Let_def
    by (auto split: option.splits if_splits dest!: find_SomeD)
qed

lemma decode_flags:
  "decode_payload u p = Some x \<Longrightarrow> rp_CleanupOnly x = cleanup_job p \<and> rp_RetireReady x = retire_job p"
  unfolding decode_payload_def payload_bool_def cleanup_job_def retire_job_def
  by (auto split: option.splits json.splits)

lemma execute_safe:
  assumes env: "env_ok env" and w: "world_ok w" and p: "payload_of (rw_db w) (j_ID job) = Some (j_Payload job)" "\<not> cleanup_job (j_Payload job)"
  shows "world_ok (snd (executeTemplateReplicaBuild env job wk w))"
proof -
  obtain r w' where l: "load_build env ''load for execution'' (j_ID job) wk w = (r, w')" by (rule prod.exhaust)
  note le = load_effect [OF env w l]
  show ?thesis
  proof (cases r)
    case (Inl e)
    then show ?thesis using l le(1) by (simp add: executeTemplateReplicaBuild_def)
  next
    case (Inr b)
    have b: "b \<in> set (db_replica_builds (rw_db w'))" "rbd_JobID b = Some (j_ID job)" using le(4) [OF Inr] by simp_all
    have "payload_of (rw_db w') (j_ID job) = Some (j_Payload job)" using le(3) p(1) by (metis domI map_le_def)
    moreover have "row_ok (rw_subs w') (payload_of (rw_db w')) b" using le(1) b(1) by (simp add: world_ok_def)
    ultimately have "fits (j_Payload job) b" using b(2) by (simp add: row_ok_def)
    then have h: "keeping on_track (b, w')" using p(2) b(1) le(1) by (simp add: keeping_def on_track_def fits_def)
    show ?thesis
      using execute_loop_safe [OF env h, of wk] le(1) l Inr
      by (cases "execute_loop env wk (b, w')") (simp add: executeTemplateReplicaBuild_def safe_def)
  qed
qed

lemma run_safe:
  assumes env: "env_ok env" and w: "world_ok w" and p: "payload_of (rw_db w) (j_ID job) = Some (j_Payload job)"
  shows "world_ok (snd (runTemplateReplicaBuild env job wk w))"
proof (cases "decode_payload (rn_uparse env) (j_Payload job)")
  case None
  then show ?thesis using w by (simp add: runTemplateReplicaBuild_def)
next
  case (Some x)
  note flags = decode_flags [OF Some]
  obtain r w' where l: "load_build env ''load for job'' (j_ID job) wk w = (r, w')" by (rule prod.exhaust)
  note le = load_effect [OF env w l]
  have p': "payload_of (rw_db w') (j_ID job) = Some (j_Payload job)" using le(3) p by (metis domI map_le_def)
  show ?thesis
  proof (cases r)
    case (Inl e)
    then show ?thesis using Some l w le(1) by (simp add: runTemplateReplicaBuild_def)
  next
    case (Inr b)
    have b: "b \<in> set (db_replica_builds (rw_db w'))" "rbd_JobID b = Some (j_ID job)" using le(4) [OF Inr] by simp_all
    have "row_ok (rw_subs w') (payload_of (rw_db w')) b" using le(1) b(1) by (simp add: world_ok_def)
    with p' b(2) have fb: "fits (j_Payload job) b" by (simp add: row_ok_def)
    have clean: "world_ok (snd (case cleanupTemplateReplicaBuild env wk (b, w') of (Inl e, s) \<Rightarrow> (Some e, snd s) | (Inr _, s) \<Rightarrow> (None, snd s)))"
      if "cleanup_job (j_Payload job)" "retire_job (j_Payload job) \<longleftrightarrow> rbd_Status b = BuildRetiring"
    proof -
      have "rbd_Status b \<noteq> BuildRetired" using fb that by (auto simp: fits_def broken_build_def)
      then have h: "keeping cleaning (b, w')" using that(1) b p' le(1) by (simp add: keeping_def cleaning_def)
      show ?thesis using validD_ok [OF cleanup_safe [OF env] h] validD_err [OF cleanup_safe [OF env] h]
        by (auto simp: safe_def split: prod.split sum.split)
    qed
    have exec: "world_ok (snd (executeTemplateReplicaBuild env job wk w'))" if "\<not> cleanup_job (j_Payload job)"
      by (rule execute_safe [OF env le(1) p' that])
    show ?thesis unfolding runTemplateReplicaBuild_def Some option.case l Inr prod.case sum.case
      using w le(1) flags clean exec by (simp only: split: if_split) (simp split: if_splits)
  qed
qed

lemma row_ok_failed:
  assumes r: "row_ok subs pay b" and j: "rbd_JobID b = Some i" and st: "rbd_Status b \<notin> {BuildReady, BuildRetired}"
    and fo: "failure_of err b = (status, phase, code)"
  shows "row_ok subs pay (failed_columns now status phase code msg (rbd_Phase b) b)"
proof -
  let ?b = "failed_columns now status phase code msg (rbd_Phase b) b"
  obtain p where p: "pay i = Some p" "fits p b" using r j by (auto simp: row_ok_def)
  have same: "rbd_ID ?b = rbd_ID b" "rbd_JobID ?b = rbd_JobID b" "rbd_Status ?b = status" "rbd_Phase ?b = phase"
    by (simp_all add: failed_columns_def)
  have ph: "\<not> IsTemplateReplicaBuildForwardPhase phase" using fo by (auto simp: failure_of_def Let_def split: if_splits)
  have st': "if rbd_Status b = BuildRetiring then status = BuildRetiring else status \<in> {BuildFailed, BuildCleanupRequired}"
    using fo by (auto simp: failure_of_def Let_def split: if_splits)
  have no: "\<not> open_build ?b" using st' same by (auto simp: open_build_def split: if_splits)
  have res: "rbd_ResumePhase ?b = governing b" if "rbd_Status b \<noteq> BuildRetiring"
  proof (cases "open_build b")
    case True
    then have "IsTemplateReplicaBuildForwardPhase (rbd_Phase b)" using r by (simp add: row_ok_def)
    with True show ?thesis by (simp add: failed_columns_def open_build_def governing_def)
  next
    case False
    then show ?thesis by (simp add: failed_columns_def open_build_def governing_def)
  qed
  have m: "may_have k b \<le> may_have k ?b" for k
  proof (cases "rbd_Status b = BuildRetiring")
    case True
    then have "may_have k ?b = 1" using st' same by (simp add: may_have_def open_build_def broken_build_def)
    then show ?thesis using may_have_le by simp
  next
    case False
    then have "broken_build ?b" "open_build b \<or> broken_build b"
      using st st' same by (auto simp: broken_build_def open_build_def intro: build_status.exhaust)
    then show ?thesis using no res [OF False] by (simp add: may_have_def governing_def)
  qed
  have "fits p ?b" using p(2) st' same ph st by (auto simp: fits_def broken_build_def open_build_def split: if_splits)
  then show ?thesis using r m no same j p unfolding row_ok_def by (metis le_trans option.inject)
qed

lemma fail_effect:
  assumes "FailTemplateReplicaBuild flt now b wk status phase code msg db = (r, db')"
  shows "db' = db \<or> (\<exists>i. db_replica_builds db' =
      sql_update (\<lambda>x. rbd_ID x = rbd_ID b \<and> rbd_JobID x = Some i \<and> rbd_Status x \<notin> {BuildReady, BuildRetired})
        (failed_columns now status phase code msg (rbd_Phase b)) (db_replica_builds db) \<and> payload_of db' = payload_of db)"
proof (cases "rbd_JobID b")
  case None
  then show ?thesis using assms by (simp add: FailTemplateReplicaBuild_def)
next
  case (Some i)
  with assms have "lossy_tx flt (fail_build now b i wk status phase code msg) db = (r, db')" by (simp add: FailTemplateReplicaBuild_def)
  from lossy_cases [OF this] show ?thesis
    by (auto simp: fail_build_def Let_def split: sum.splits prod.splits if_splits dest!: update_builds_ok)
qed

definition loaded :: row_assertion where
  "loaded b pay subs \<longleftrightarrow> rbd_JobID b \<noteq> None"

lemma failure_safe:
  assumes env: "env_ok env" and w: "world_ok w"
  shows "world_ok (snd (record_failure env job wk err w))"
proof -
  obtain r w1 where l: "load_build env ''load for failure'' (j_ID job) wk w = (r, w1)" by (rule prod.exhaust)
  note le = load_effect [OF env w l]
  show ?thesis
  proof (cases r)
    case (Inl e)
    then show ?thesis using l le(1) by (simp add: record_failure_def)
  next
    case (Inr b)
    obtain status phase code where fo: "failure_of err b = (status, phase, code)" by (rule prod_cases3)
    have h: "keeping loaded (b, w1)" using le(4) [OF Inr] le(1) by (simp add: keeping_def loaded_def)
    let ?q = "FailTemplateReplicaBuild (rn_flt env ''fail'') (rn_now env ''fail'') b wk status phase code (errorText err)"
    have mono: "mono_assertion loaded" by (simp add: mono_assertion_def loaded_def)
    have "valid (\<lambda>s. keeping loaded s \<and> b = fst s) (store_query env ''fail'' ?q) (\<lambda>_. safe) safe"
    proof (rule query_rule [OF env mono])
      fix w :: rb_world and r db'
      assume h: "keeping loaded (b, w)" and e: "?q (rw_db w) = (r, db')"
      let ?f = "failed_columns (rn_now env ''fail'') status phase code (errorText err) (rbd_Phase b)"
      from fail_effect [OF e] show "world_ok (w\<lparr>rw_db := db'\<rparr>)"
      proof
        assume "db' = rw_db w"
        then show ?thesis using h by (simp add: keeping_def)
      next
        assume "\<exists>i. db_replica_builds db' = sql_update (\<lambda>x. rbd_ID x = rbd_ID b \<and> rbd_JobID x = Some i \<and> rbd_Status x \<notin> {BuildReady, BuildRetired})
          ?f (db_replica_builds (rw_db w)) \<and> payload_of db' = payload_of (rw_db w)"
        then obtain i where d1: "db_replica_builds db' = sql_update (\<lambda>x. rbd_ID x = rbd_ID b \<and> rbd_JobID x = Some i \<and> rbd_Status x \<notin> {BuildReady, BuildRetired})
          ?f (db_replica_builds (rw_db w))" and d2: "payload_of db' = payload_of (rw_db w)" by blast
        from h obtain k where k: "rbd_JobID b = Some k" by (auto simp: keeping_def loaded_def)
        show ?thesis
        proof (rule world_update [OF _ d1])
          fix x assume x: "x \<in> set (db_replica_builds (rw_db w))" "rbd_ID x = rbd_ID b \<and> rbd_JobID x = Some i \<and> rbd_Status x \<notin> {BuildReady, BuildRetired}"
          have "x = b" by (rule distinct_key_eq [where key = rbd_ID and rs = "db_replica_builds (rw_db w)"])
              (use h x in \<open>simp_all add: keeping_def world_ok_def\<close>)
          then show "rbd_ID (?f x) = rbd_ID x \<and> row_ok (rw_subs w) (payload_of db') (?f x)"
            using row_ok_failed [OF keeping_row [OF h] k _ fo] x(2) d2 by (simp add: failed_columns_def)
        qed (use h d2 in \<open>simp_all add: keeping_def\<close>)
      qed
    qed
    note v = this
    obtain x s' where x: "store_query env ''fail'' ?q (b, w1) = (x, s')" by (rule prod.exhaust)
    have "safe s'" using validD_ok [OF v, of "(b, w1)"] validD_err [OF v, of "(b, w1)"] h x by (cases x) auto
    then show ?thesis using l Inr fo x unfolding record_failure_def by (cases x) (simp_all add: safe_def)
  qed
qed

lemma attempt_safe:
  assumes env: "env_ok env" and w: "world_ok w" and p: "payload_of (rw_db w) (j_ID job) = Some (j_Payload job)"
  shows "world_ok (snd (BuildTemplateSourceReplica env job w))"
proof -
  have "world_ok (snd (case runTemplateReplicaBuild env job wk w of (None, w') \<Rightarrow> (None, w')
      | (Some err, w') \<Rightarrow> if c err then (Some err, w') else if d err then (Some err, w') else record_failure env job wk err w'))" for wk c d
    using run_safe [OF env w p, of wk] failure_safe [OF env] by (auto split: prod.split option.split)
  then show ?thesis using w unfolding BuildTemplateSourceReplica_def by (simp split: sum.split prod.split)
qed


section \<open>Requests\<close>

lemma payload_of_append:
  assumes "j_ID j \<notin> j_ID ` set (db_jobs db)"
  shows "payload_of (db\<lparr>db_jobs := db_jobs db @ [j]\<rparr>) = (payload_of db)(j_ID j \<mapsto> j_Payload j)"
proof -
  let ?xs = "map (\<lambda>j. (j_ID j, j_Payload j)) (db_jobs db)"
  have n: "map_of ?xs (j_ID j) = None" using assms by (auto simp: map_of_eq_None_iff image_iff)
  show ?thesis
  proof
    fix x
    show "payload_of (db\<lparr>db_jobs := db_jobs db @ [j]\<rparr>) x = ((payload_of db)(j_ID j \<mapsto> j_Payload j)) x"
      using n by (cases "x = j_ID j") (simp_all add: payload_of_def map_add_def split: option.split)
  qed
qed

lemma insert_job_effect:
  assumes "insert_build_job i now p db = Inr db'"
  shows "db_replica_builds db' = db_replica_builds db" "payload_of db' i = Some p" "payload_of db \<subseteq>\<^sub>m payload_of db'"
proof -
  let ?j = "(new_job i now ''template_replica_build'' p)\<lparr>j_MaxRetries := 20\<rparr>"
  have f: "i \<notin> j_ID ` set (db_jobs db)" and d: "db' = db\<lparr>db_jobs := db_jobs db @ [?j]\<rparr>"
    using assms by (auto simp: insert_build_job_def split: if_splits)
  have j: "j_ID ?j = i" "j_Payload ?j = p" by (simp_all add: new_job_def)
  have u: "payload_of db' = (payload_of db)(i \<mapsto> p)" using payload_of_append [of ?j db] f unfolding d j by simp
  have n: "payload_of db i = None" using f by (auto simp: payload_of_def map_of_eq_None_iff image_iff)
  show "db_replica_builds db' = db_replica_builds db" by (simp add: d)
  show "payload_of db' i = Some p" by (simp add: u)
  show "payload_of db \<subseteq>\<^sub>m payload_of db'" using n by (auto simp: u map_le_def)
qed

lemma row_ok_restarted:
  assumes r: "row_ok subs pay b" and i: "pay i = Some p" and c: "cleanup_job p = cl" and t: "retire_job p = rt"
    and rt: "rt = (cl \<and> rbd_Status b \<in> {BuildReady, BuildRetiring})" and ok: "restart_check b cl db = None"
  shows "row_ok subs pay (restarted i cl rt b)"
proof -
  let ?b = "restarted i cl rt b"
  have same: "rbd_ID ?b = rbd_ID b" "rbd_JobID ?b = Some i" by (simp_all add: restarted_def Let_def)
  show ?thesis
  proof (cases rt)
    case True
    then have st: "rbd_Status ?b = BuildRetiring" by (simp add: restarted_def Let_def)
    then have "may_have k ?b = 1" "\<not> open_build ?b" for k by (simp_all add: may_have_def open_build_def broken_build_def)
    moreover have "fits p ?b" using True c t rt st by (simp add: fits_def)
    ultimately show ?thesis using r i same may_have_le unfolding row_ok_def by (metis le_trans option.inject)
  next
    case False
    have br: "broken_build b" "IsTemplateReplicaBuildForwardPhase (rbd_ResumePhase b)" "\<not> cl \<longrightarrow> rbd_Status b = BuildFailed"
      using ok rt False by (auto simp: restart_check_def broken_build_def split: if_splits)
    have st: "rbd_Status ?b = (if cl then BuildCleanupRequired else BuildRunning)" "rbd_Phase ?b = rbd_ResumePhase b" "rbd_ResumePhase ?b = rbd_ResumePhase b"
      using False by (simp_all add: restarted_def Let_def)
    have nb: "\<not> open_build b" using br(1) by (auto simp: broken_build_def open_build_def)
    have "may_have k ?b = may_have k b" for k
      using st br(1) nb by (auto simp: may_have_def governing_def open_build_def broken_build_def)
    moreover have "fits p ?b" using False c t st br by (auto simp: fits_def broken_build_def open_build_def)
    moreover have "open_build ?b \<longrightarrow> IsTemplateReplicaBuildForwardPhase (rbd_Phase ?b)" using st br by simp
    ultimately show ?thesis using r i same unfolding row_ok_def by (metis option.inject)
  qed
qed

lemma restart_effect:
  assumes e: "restart_build ustr jobID now templateID buildID cl db = Inr (x, db')"
  shows "\<exists>b rt. b \<in> set (db_replica_builds db) \<and> restart_check b cl db = None \<and> rt = (cl \<and> rbd_Status b \<in> {BuildReady, BuildRetiring}) \<and>
    db_replica_builds db' = sql_update (\<lambda>y. rbd_ID y = rbd_ID b) (restarted jobID cl rt) (db_replica_builds db) \<and>
    payload_of db \<subseteq>\<^sub>m payload_of db' \<and>
    (\<exists>p. payload_of db' jobID = Some p \<and> cleanup_job p = cl \<and> retire_job p = rt)"
proof -
  from e obtain b where g: "GetTemplateReplicaBuild templateID buildID db = Some b" and ok: "restart_check b cl db = None"
    unfolding restart_build_def by (auto split: option.splits if_splits)
  let ?rt = "cl \<and> rbd_Status b \<in> {BuildReady, BuildRetiring}"
  let ?p = "[(''build_id'', JStr (ustr (rbd_ID b))), (''cleanup_only'', JBool cl), (''retire_ready'', JBool ?rt),
             (''template_id'', JStr (ustr (rbd_TemplateID b)))]"
  obtain db1 db2 n where dr: "disable_result b ?rt db = Inr db1" and j: "insert_build_job jobID now ?p db1 = Inr db2"
    and u: "update_builds (\<lambda>y. rbd_ID y = rbd_ID b) (restarted jobID cl ?rt) db2 = Inr (n, db')"
    using e unfolding restart_build_def g option.case ok Let_def
    by (auto split: if_splits sum.splits prod.splits)
  note je = insert_job_effect [OF j]
  have d: "db_replica_builds db1 = db_replica_builds db" "payload_of db1 = payload_of db"
    using dr by (auto simp: disable_result_def Let_def split: if_splits)
  have "db_replica_builds db' = sql_update (\<lambda>y. rbd_ID y = rbd_ID b) (restarted jobID cl ?rt) (db_replica_builds db)"
    "payload_of db' = payload_of db2" using update_builds_ok [OF u] je(1) d by simp_all
  moreover have "b \<in> set (db_replica_builds db)" using g by (auto simp: GetTemplateReplicaBuild_def dest: find_SomeD)
  moreover have "cleanup_job ?p = cl" "retire_job ?p = ?rt" by (simp_all add: cleanup_job_def retire_job_def pget_def)
  ultimately show ?thesis using ok je(2,3) d by (intro exI [of _ b] exI [of _ ?rt]) auto
qed

lemma restart_safe:
  assumes w: "world_ok w"
  shows "world_ok (w\<lparr>rw_db := snd (RestartTemplateReplicaBuild flt ustr jobID now templateID buildID cl (rw_db w))\<rparr>)"
proof -
  obtain r db' where e: "RestartTemplateReplicaBuild flt ustr jobID now templateID buildID cl (rw_db w) = (r, db')" by (rule prod.exhaust)
  from lossy_cases [OF e [unfolded RestartTemplateReplicaBuild_def]] consider "db' = rw_db w"
    | x where "restart_build ustr jobID now templateID buildID cl (rw_db w) = Inr (x, db')" by blast
  then have "world_ok (w\<lparr>rw_db := db'\<rparr>)"
  proof cases
    case 1
    then show ?thesis using w by simp
  next
    case 2
    from restart_effect [OF 2] obtain b rt p where b: "b \<in> set (db_replica_builds (rw_db w))" "restart_check b cl (rw_db w) = None"
      and rt: "rt = (cl \<and> rbd_Status b \<in> {BuildReady, BuildRetiring})"
      and d: "db_replica_builds db' = sql_update (\<lambda>y. rbd_ID y = rbd_ID b) (restarted jobID cl rt) (db_replica_builds (rw_db w))"
      and p: "payload_of (rw_db w) \<subseteq>\<^sub>m payload_of db'" "payload_of db' jobID = Some p" "cleanup_job p = cl" "retire_job p = rt" by blast
    show ?thesis
    proof (rule world_update [OF w d p(1)])
      fix x assume x: "x \<in> set (db_replica_builds (rw_db w))" "rbd_ID x = rbd_ID b"
      have "x = b" by (rule distinct_key_eq [where key = rbd_ID and rs = "db_replica_builds (rw_db w)"])
          (use w x b in \<open>simp_all add: world_ok_def\<close>)
      moreover have "row_ok (rw_subs w) (payload_of db') b" by (rule row_ok_mono [OF _ p(1)]) (use w b in \<open>simp add: world_ok_def\<close>)
      ultimately show "rbd_ID (restarted jobID cl rt x) = rbd_ID x \<and> row_ok (rw_subs w) (payload_of db') (restarted jobID cl rt x)"
        using row_ok_restarted [where subs = "rw_subs w" and pay = "payload_of db'" and b = b and i = jobID, OF _ p(2,3,4) rt b(2)] by (simp add: restarted_def Let_def)
    qed
  qed
  then show ?thesis using e by simp
qed


lemma create_effect:
  assumes "CreateTemplateReplicaBuild flt ustr newID jobID now (Some b0) userID db = (r, db')"
  shows "db' = db \<or> (\<exists>b p. rbd_Status b = rbd_Status b0 \<and> rbd_Phase b = rbd_Phase b0 \<and>
     db_replica_builds db' = db_replica_builds db @ [inserted_build jobID b] \<and>
     (\<forall>b' \<in> set (db_replica_builds db). rbd_ID b' \<noteq> rbd_ID b) \<and>
     payload_of db \<subseteq>\<^sub>m payload_of db' \<and> payload_of db' jobID = Some p \<and> \<not> cleanup_job p)"
proof (cases "db' = db")
  case False
  define b where "b = (if rbd_ID b0 = uuid_Nil then b0\<lparr>rbd_ID := newID\<rparr> else b0)"
  from assms False obtain a where t: "run_tx flt (create_build ustr jobID now userID a b) db = (r, db')"
    by (auto simp: CreateTemplateReplicaBuild_def b_def Let_def split: option.splits if_splits)
  have i: "insert_build ustr jobID now userID b db = Inr (x, db')" if "create_build ustr jobID now userID a b db = Inr (x, db')" for x
    using that False unfolding create_build_def by (auto split: option.splits if_splits)
  from t False obtain x where "insert_build ustr jobID now userID b db = Inr (x, db')"
    using i run_tx_snd_cases [of flt "create_build ustr jobID now userID a b" db] by auto
  then obtain db1 where j: "insert_build_job jobID now [(''build_id'', JStr (ustr (rbd_ID b))), (''template_id'', JStr (ustr (rbd_TemplateID b))),
        (''user_id'', JStr (ustr userID))] db = Inr db1" (is "insert_build_job _ _ ?p _ = _")
    and d: "db' = db1\<lparr>db_replica_builds := db_replica_builds db1 @ [inserted_build jobID b]\<rparr>"
    and n: "\<forall>b' \<in> set (db_replica_builds db). \<not> build_clash (inserted_build jobID b) b'"
    unfolding insert_build_def Let_def by (auto split: if_splits sum.splits)
  have "rbd_ID (inserted_build jobID b) = rbd_ID b" by (simp add: inserted_build_def)
  then have "\<forall>b' \<in> set (db_replica_builds db). rbd_ID b' \<noteq> rbd_ID b" using n by (auto simp: build_clash_def)
  moreover have "\<not> cleanup_job ?p" by (simp add: cleanup_job_def pget_def)
  moreover have "rbd_Status b = rbd_Status b0" "rbd_Phase b = rbd_Phase b0" by (simp_all add: b_def)
  ultimately show ?thesis using insert_job_effect [OF j] unfolding d by (intro disjI2 exI [of _ b] exI [of _ ?p]) simp
qed simp

lemma create_safe:
  assumes w: "world_ok w" and s0: "rbd_Status b0 = BuildPending" "rbd_Phase b0 = PhasePending"
  shows "world_ok (w\<lparr>rw_db := snd (CreateTemplateReplicaBuild flt ustr newID jobID now (Some b0) userID (rw_db w))\<rparr>)"
proof -
  obtain r db' where e: "CreateTemplateReplicaBuild flt ustr newID jobID now (Some b0) userID (rw_db w) = (r, db')" by (rule prod.exhaust)
  from create_effect [OF e] have "world_ok (w\<lparr>rw_db := db'\<rparr>)"
  proof
    assume "db' = rw_db w"
    then show ?thesis using w by simp
  next
    assume "\<exists>b p. rbd_Status b = rbd_Status b0 \<and> rbd_Phase b = rbd_Phase b0 \<and>
     db_replica_builds db' = db_replica_builds (rw_db w) @ [inserted_build jobID b] \<and>
     (\<forall>b' \<in> set (db_replica_builds (rw_db w)). rbd_ID b' \<noteq> rbd_ID b) \<and>
     payload_of (rw_db w) \<subseteq>\<^sub>m payload_of db' \<and> payload_of db' jobID = Some p \<and> \<not> cleanup_job p"
    then obtain b p where b: "rbd_Status b = BuildPending" "rbd_Phase b = PhasePending"
      and d: "db_replica_builds db' = db_replica_builds (rw_db w) @ [inserted_build jobID b]"
      and n: "\<forall>b' \<in> set (db_replica_builds (rw_db w)). rbd_ID b' \<noteq> rbd_ID b"
      and p: "payload_of (rw_db w) \<subseteq>\<^sub>m payload_of db'" "payload_of db' jobID = Some p" "\<not> cleanup_job p" using s0 by auto
    let ?b = "inserted_build jobID b"
    have i: "rbd_ID ?b = rbd_ID b" "rbd_Status ?b = BuildPending" "rbd_Phase ?b = PhasePending" "rbd_JobID ?b = Some jobID"
      using b by (simp_all add: inserted_build_def)
    have "(k, rbd_ID b) \<notin> set (rw_subs w)" for k using w n unfolding world_ok_def by fastforce
    then have "row_ok (rw_subs w) (payload_of db') ?b"
      using i p by (simp add: row_ok_def open_build_def fits_def count_list_0_iff)
    moreover have "row_ok (rw_subs w) (payload_of db') x" if "x \<in> set (db_replica_builds (rw_db w))" for x
      by (rule row_ok_mono [OF _ p(1)]) (use w that in \<open>simp add: world_ok_def\<close>)
    ultimately show ?thesis using w n i(1) unfolding world_ok_def d by (auto simp: d image_iff)
  qed
  then show ?thesis using e by simp
qed

lemma payload_of_credentials [simp]: "payload_of (invalidate_credentials now t db) = payload_of db"
  "db_replica_builds (invalidate_credentials now t db) = db_replica_builds db"
  by (simp_all add: payload_of_def invalidate_credentials_def)

lemma delete_safe:
  assumes w: "world_ok w"
  shows "world_ok (w\<lparr>rw_db := snd (DeleteTemplateSourceReplica flt now t i (rw_db w))\<rparr>)"
proof -
  have l: "rows_like (db_replica_builds (rw_db w)) (db_replica_builds (snd (DeleteTemplateSourceReplica flt now t i (rw_db w)))) \<and>
    payload_of (snd (DeleteTemplateSourceReplica flt now t i (rw_db w))) = payload_of (rw_db w)"
  proof -
    have src: "\<exists>x y. b\<lparr>rbd_SourceReplicaID := None\<rparr> = b\<lparr>rbd_SourceReplicaID := x, rbd_ResultReplicaID := y\<rparr>" for b :: replica_build
    proof (intro exI)
      show "b\<lparr>rbd_SourceReplicaID := None\<rparr> = b\<lparr>rbd_SourceReplicaID := None, rbd_ResultReplicaID := rbd_ResultReplicaID b\<rparr>" by simp
    qed
    show ?thesis unfolding DeleteTemplateSourceReplica_def
      by (rule run_tx_preserves) (auto simp: rows_like_refl Let_def intro: rows_like_update [OF src] split: if_splits)
  qed
  show ?thesis by (rule world_like(1) [OF w]) (use l in simp_all)
qed

section \<open>All histories\<close>

text \<open>
  A worker makes an attempt at a job, with any answers, failures and lost claims; a build is requested,
  restarted or cleaned up; a replica is deleted; and anything else happens that leaves the builds and the
  payloads of the jobs alone. A worker that has lost its claim gets only errors from its fenced queries, so
  that its attempt is one whose queries fail from then on, and attempts can be taken one after the other;
  handing over a task right after arming it is part of the step that armed it.
\<close>

inductive build_step :: "rb_world \<Rightarrow> unit \<Rightarrow> rb_world \<Rightarrow> bool" where
  attempt: "env_ok env \<Longrightarrow> payload_of (rw_db w) (j_ID job) = Some (j_Payload job) \<Longrightarrow>
    build_step w u (snd (BuildTemplateSourceReplica env job w))"
| create: "rbd_Status b = BuildPending \<Longrightarrow> rbd_Phase b = PhasePending \<Longrightarrow>
    build_step w u (w\<lparr>rw_db := snd (CreateTemplateReplicaBuild flt ustr newID jobID now (Some b) userID (rw_db w))\<rparr>)"
| restart: "build_step w u (w\<lparr>rw_db := snd (RestartTemplateReplicaBuild lossy ustr jobID now t i cleanupOnly (rw_db w))\<rparr>)"
| delete: "build_step w u (w\<lparr>rw_db := snd (DeleteTemplateSourceReplica flt now t i (rw_db w))\<rparr>)"
| other: "builds_frame (rw_db w) db' \<Longrightarrow> build_step w u (w\<lparr>rw_db := db'\<rparr>)"

definition build_start :: "rb_world \<Rightarrow> bool" where
  "build_start w \<longleftrightarrow> db_replica_builds (rw_db w) = [] \<and> rw_subs w = []"

interpretation builds: state_machine build_start build_step world_ok
proof
  show "build_start w \<Longrightarrow> world_ok w" for w by (simp add: build_start_def world_ok_def)
  show "world_ok w \<Longrightarrow> build_step w u w' \<Longrightarrow> world_ok w'" for w u w'
    by (erule build_step.cases) (auto intro: attempt_safe create_safe restart_safe delete_safe world_frame)
qed



definition demo_build :: replica_build where
  "demo_build = \<lparr>rbd_ID = 4, rbd_TemplateID = 2, rbd_SourceReplicaID = Some 3, rbd_ResultReplicaID = None, rbd_JobID = None,
     rbd_IdempotencyKey = ''k'', rbd_OperationID = ''o'', rbd_CanaryOperationID = ''c'', rbd_SourceVMMoref = ''vm-1'',
     rbd_SourceSnapshotName = ''s'', rbd_SourceSnapshotMoref = [], rbd_DestinationName = ''d'',
     rbd_ComputeResourceType = ''ComputeResource'', rbd_ComputeResourceMoref = ''m'', rbd_ComputeResourcePath = ''p'', rbd_Target = [],
     rbd_Status = BuildPending, rbd_Phase = PhasePending, rbd_ResumePhase = PhasePending, rbd_CloneTaskRef = [],
     rbd_DestinationVMMoref = [], rbd_SnapshotTaskRef = [], rbd_DestinationSnapshot = [], rbd_CanaryTaskRef = [], rbd_CanaryVMMoref = [],
     rbd_CleanupTaskRef = [], rbd_CleanupCompletedAt = None, rbd_ResidueCleanupTaskRef = [], rbd_ResidueCleanedAt = None,
     rbd_LastErrorCode = [], rbd_LastError = [], rbd_StartedAt = None, rbd_SubmissionStartedAt = None, rbd_CompletedAt = None\<rparr>"

definition demo_job :: job where
  "demo_job = (new_job 5 0 ''template_replica_build''
     [(''build_id'', JStr ''xxxx''), (''template_id'', JStr ''xx''), (''user_id'', JStr ''x'')])
       \<lparr>j_MaxRetries := 20, j_Status := JobStatusClaimed, j_ClaimedBy := Some ''w'', j_ClaimedAt := Some 0\<rparr>"

definition demo_db :: database where
  "demo_db = empty_db\<lparr>db_replicas := [\<lparr>sr_ID = 3, sr_TemplateID = 2, sr_SourceVMMoref = ''vm-1'', sr_ComputeResourceType = ''ComputeResource'',
       sr_ComputeResourceMoref = ''a'', sr_ComputeResourcePath = ''a'', sr_Status = ''ready'', sr_LastValidatedAt = Some 0,
       sr_LastValidationError = None\<rparr>],
     db_templates := [\<lparr>tr_id = 2, tr_template_state = ''active'', tr_is_active = True, tr_vcenter_vm_id = [], tr_vcenter_template = [],
       tr_guest_credentials_verified_at = None, tr_updated_at = 0\<rparr>]\<rparr>"

text \<open>
  The worker is stopped and the answer to the clone submission lost; the next attempt does not find the machine yet.
\<close>

definition demo_env :: build_env where
  "demo_env = \<lparr>rn_now = (\<lambda>_. 0), rn_newID = 6, rn_uparse = (\<lambda>s. Some (length s)), rn_ustr = (\<lambda>i. replicate i (CHR ''x'')),
     rn_flt = (\<lambda>_. None), rn_read = (\<lambda>_. None), rn_between = (\<lambda>_ db. db), rn_check = (\<lambda>_ _. None),
     rn_find = (\<lambda>t _. Inr (if t = ''clone name'' then [] else ''snap'')), rn_children = (\<lambda>_. Inr []), rn_wait = (\<lambda>_ _. Inr ''vm-9''),
     rn_marker = (\<lambda>_ _. Inr True), rn_submit = (\<lambda>_. Inl (errorsNew ''connection reset by peer'')), rn_duplicate = (\<lambda>_. False),
     rn_destroy = (\<lambda>_. Inr None), rn_done = True\<rparr>"

definition demo_start :: rb_world where
  "demo_start = \<lparr>rw_db = demo_db, rw_subs = []\<rparr>"

definition demo_created :: rb_world where
  "demo_created = demo_start\<lparr>rw_db := snd (CreateTemplateReplicaBuild None (rn_ustr demo_env) 4 5 0 (Some demo_build) 1 (rw_db demo_start))\<rparr>"

definition demo_claimed :: rb_world where
  "demo_claimed = demo_created\<lparr>rw_db := (rw_db demo_created)\<lparr>db_jobs := [demo_job]\<rparr>\<rparr>"

definition demo_tried :: rb_world where
  "demo_tried = snd (BuildTemplateSourceReplica demo_env demo_job demo_claimed)"

definition demo_retried :: rb_world where
  "demo_retried = snd (BuildTemplateSourceReplica demo_env demo_job demo_tried)"

lemma demo_env_ok: "env_ok demo_env"
  by (simp add: env_ok_def demo_env_def builds_frame_def)

lemma demo_reach: "builds.reach demo_retried"
proof -
  have "builds.reach demo_start" by (rule builds.reach_start) (simp add: build_start_def demo_start_def demo_db_def empty_db_def)
  then have c: "builds.reach demo_created" unfolding demo_created_def
    by (rule builds.reach_step [OF _ build_step.create]) (simp_all add: demo_build_def)
  have "map (\<lambda>j. (j_ID j, j_Payload j)) (db_jobs (rw_db demo_created)) = map (\<lambda>j. (j_ID j, j_Payload j)) [demo_job]" by code_simp
  then have "builds_frame (rw_db demo_created) ((rw_db demo_created)\<lparr>db_jobs := [demo_job]\<rparr>)" by (simp add: builds_frame_def payload_of_def)
  then have "builds.reach demo_claimed" unfolding demo_claimed_def by (rule builds.reach_step [OF c build_step.other])
  moreover have "payload_of (rw_db demo_claimed) (j_ID demo_job) = Some (j_Payload demo_job)" by code_simp
  ultimately have t: "builds.reach demo_tried" unfolding demo_tried_def
    by (intro builds.reach_step [OF _ build_step.attempt] demo_env_ok)
  have "payload_of (rw_db demo_tried) (j_ID demo_job) = Some (j_Payload demo_job)" by code_simp
  then show ?thesis unfolding demo_retried_def by (intro builds.reach_step [OF t build_step.attempt] demo_env_ok)
qed



text \<open>One attempt with good answers takes the same build from its request to a ready replica.\<close>

definition answering_env :: build_env where
  "answering_env = demo_env\<lparr>rn_submit := (\<lambda>t. Inr t), rn_find := (\<lambda>t _. Inr (if t = ''clone name'' \<or> t = ''canary name'' then [] else ''snap'')),
     rn_marker := (\<lambda>t _. Inr (t = ''canary cleanup marker'')),
     rn_destroy := (\<lambda>_. Inr (Some ''t'')), rn_done := False\<rparr>"

lemma good_attempt_ready:
  "let (e, w) = BuildTemplateSourceReplica answering_env demo_job demo_claimed in
   e = None \<and> map rbd_Status (db_replica_builds (rw_db w)) = [BuildReady] \<and>
   map sr_Status (db_replicas (rw_db w)) = [TemplateSourceReplicaReady, TemplateSourceReplicaReady] \<and>
   map fst (rw_subs w) = [SubmitCanaryCleanup, SubmitCanary, SubmitSnapshot, SubmitClone]"
proof -
  have "case BuildTemplateSourceReplica answering_env demo_job demo_claimed of (e, w) \<Rightarrow>
    (case e of None \<Rightarrow> True | Some _ \<Rightarrow> False) \<and> map rbd_Status (db_replica_builds (rw_db w)) = [BuildReady] \<and>
    map sr_Status (db_replicas (rw_db w)) = [TemplateSourceReplicaReady, TemplateSourceReplicaReady] \<and>
    map fst (rw_subs w) = [SubmitCanaryCleanup, SubmitCanary, SubmitSnapshot, SubmitClone]" by code_simp
  then show ?thesis by (cases "BuildTemplateSourceReplica answering_env demo_job demo_claimed") (simp split: option.splits)
qed

text \<open>
  A failed task blocks a retry of the build (\<open>task_failed\<close>). If the worker stops after it has recorded the
  failure and before it has settled the job, the job runs again, finds a build without a supported phase and
  records that instead: the block is gone.
\<close>

lemma rerun_forgets_task_failure:
  assumes "rbd_Phase b = PhaseFailed" "rbd_DestinationVMMoref b = []" "rbd_Status b = BuildFailed"
  shows "execute_loop env wk (b, w) = (Some (errorsNew ''unsupported template replica build phase''), (b, w)) \<and>
    failure_of (errorsNew ''unsupported template replica build phase'') b = (BuildFailed, PhaseFailed, ''validation_failed'')"
  using assms by (simp add: execute_loop.simps [of env wk "(b, w)"] phase_step_def fails_def failure_of_def)

end
