(* ===== verification/Spec2Isabelle.thy ===== *)
theory Spec2Isabelle
  imports Worker PlacementStore Drs DurableClone Engine Leader Idle ReplicaTasks
begin

text \<open>
  A verification library for the self-service lab API (\<open>src/\<close>): the database, the provisioning worker
  and the assessment engine of a system that lets students create pods of virtual machines on vCenter,
  build templates and run graded assessments. File names below are relative to \<open>src/internal/\<close>.

  \<^bold>\<open>The program.\<close> API handlers insert rows and enqueue jobs in PostgreSQL. Workers claim jobs under a
  token, drive vCenter and OPNsense, record what they create as rollback steps or receipts, and settle
  the job. Any worker may die at any point, lose its claim, or get an error from any of the services it
  calls; several workers and handlers run at the same time. The hard part of the code,
  and of this development, is therefore what the rows say at every moment: who owns a job, which
  virtual machine, port group or VLAN belongs to whom, and that nothing is created twice or forgotten.

  \<^bold>\<open>How the model is built.\<close> A table is a list of rows (\<open>Store\<close>), a row a \<^theory_text>\<open>record\<close> with the columns the
  modelled queries use. A query is a function from the database to an error or a value and the database
  after it; \<open>run_tx\<close> (\<open>Prelude\<close>) is a transaction: its body changes nothing unless it ends with a
  commit, and the argument \<open>flt\<close> is the error of the driver, if any. Go errors are trees
  (\<open>go_error\<close>) with the wrapping that \<open>errors.Is\<close> and \<open>errors.As\<close> see. Code outside the repository
  (PostgreSQL, vCenter, Kubernetes, the clock, random identifiers) is an argument: a value, or an
  environment record of functions that give the answer to each call. Text of log lines, metrics and
  published events has no influence on the modelled state and is left out. Steps of different
  processes are interleaved by \<^theory_text>\<open>inductive\<close> step relations whose steps are single transactions, so a
  theorem over reachable states covers every schedule and every driver failure.

  \<^bold>\<open>The theories.\<close>
  \<^item> \<open>Prelude\<close>: identifiers, time, JSON payloads, errors, SQL statements on lists, transactions; the
    interfaces \<open>state_machine\<close> (an invariant of a step relation) and \<open>simulation\<close> (a refinement), which
    the component theories interpret on their own operations.
  \<^item> \<open>Lifecycle\<close> (\<open>templates/lifecycle.go\<close>, the lifecycle queries of \<open>database/queries.go\<close>, the transition
    wrappers of \<open>provisioner/template_jobs.go\<close>): the states of a template; a template becomes active
    only out of \<open>verifying\<close>.
  \<^item> \<open>Rollback\<close> (\<open>rollback/engine.go\<close>): recorded steps, their hand-over when a claim is lost, and the
    compensating loop; \<open>receipt_store\<close> and \<open>receipt_handoff\<close> are what it asks of the job table.
  \<^item> \<open>Store\<close>: the rows. \<open>Jobs\<close> (\<open>database/queries.go\<close>): the queue; claims, fenced writes, recovery of stale
    claims, receipts, the interpretation of the rollback interfaces on the job table.
  \<^item> \<open>Leases\<close> (\<open>worklease/lease.go\<close>, \<open>provisioner/job_lease.go\<close>): one
    holder per lease; the interface \<open>heartbeat\<close> with two interpretations.
  \<^item> \<open>Worker\<close> (\<open>provisioner/retryable.go\<close>, \<open>provisioner/create.go\<close>): which errors are retried, the
    backoffs, and that a worker that keeps its claim settles every job.
  \<^item> \<open>PlacementStore\<close> (\<open>database/placements.go\<close>): source replicas and the capacity admission of placement
    plans. \<open>Placement\<close> and \<open>Drs\<close> (\<open>vcenter/placement.go\<close>, \<open>vcenter/drs.go\<close>): the host allowlist, the
    choice of a host, and the control that pins a machine to it.
  \<^item> \<open>PodJobs\<close> (\<open>database/pod_jobs.go\<close>): the serialized producers of pod and machine jobs; destroying a pod
    excludes everything else. \<open>PortGroups\<close> (\<open>database/portgroup_receipts.go\<close>): the receipts of port groups
    as a refinement of their abstract life. \<open>SharedStripes\<close> (\<open>models/shared_stripes.go\<close>, \<open>database/single_vm_stripes.go\<close>):
    the address arithmetic of the shared networks. \<open>Pods\<close> (\<open>api/handlers/\<close>, \<open>database/pod_delete.go\<close>,
    \<open>database/queries.go\<close>): creating, cancelling and destroying pods; VLAN ownership.
  \<^item> \<open>CloneOps\<close> (\<open>database/clone_operations.go\<close>) and \<open>DurableClone\<close> (\<open>provisioner/clone_operation.go\<close>): the
    durable identity of a clone and the protocol over it; no clone is submitted twice.
  \<^item> \<open>Runs\<close> (\<open>engine/queries.go\<close>, \<open>engine/callback.go\<close>, \<open>database/testing_queries.go\<close>,
    \<open>database/runner_lease.go\<close>, \<open>api/handlers/testing.go\<close>) and \<open>Engine\<close> (\<open>engine/engine.go\<close>,
    \<open>engine/vmwaretools_dispatcher.go\<close>, \<open>engine/callback.go\<close>): assessment runs, their runner addresses, the
    loop over the queue, the watchdog and the callbacks. The interface \<open>run_relation\<close> lifts a property
    of single statements to a whole dispatch and is interpreted twice.
  \<^item> \<open>ReplicaBuilds\<close> (\<open>database/template_replica_builds.go\<close>), \<open>ReplicaWork\<close> (\<open>provisioner/template_replica_build.go\<close>
    and the submissions of \<open>vcenter/template_replica_build.go\<close>) and \<open>ReplicaTasks\<close>: the copies of a template on other
    compute resources; the rows of a build, the worker that takes it through its phases and its clean-up, and
    that no clone, snapshot or acceptance canary of a build is submitted twice. \<open>ReplicaWork\<close> has Hoare triples over
    the operations of an attempt (\<open>valid\<close>), \<open>ReplicaTasks\<close> the invariant and its proof phase by phase.
  \<^item> \<open>Leader\<close> (\<open>leader/leader.go\<close>, \<open>leader/pgx_backend.go\<close>): the elector and a fleet of replicas that race
    for the advisory lock; of the replicas the server is connected to, at most one is leader.
  \<^item> \<open>Idle\<close> (\<open>provisioner/idle_eval.go\<close>, \<open>provisioner/suspend.go\<close>, \<open>provisioner/power.go\<close>,
    \<open>provisioner/expiration.go\<close>, \<open>database/reconcile.go\<close>): the idle evaluator and its guards, suspend and power
    jobs, and the expiry of pods.

  \<^bold>\<open>What is shown.\<close> Each theory ends in the properties of its component: invariants over all reachable
  states (the queue, pod exclusion, VLAN ownership, receipts, replicas, replica builds, runs), refinements of abstract
  machines (clone operations, clean-up targets, port group receipts), that no clone of an operation and no clone,
  snapshot or canary of a replica build is submitted twice, the exact behaviour of single operations on
  every branch, round trips, bounds, and that loops end. A theorem that needs assumptions is followed by its application to a concrete state.

  \<^bold>\<open>Termination.\<close> All definitions are total. Loops that need an argument carry it: the runner loop
  decreases the number of pending runs, the loop of a replica build raises the rank of its phase,
  the scan for a line decreases the length of the rest; the listing of runner addresses, which runs over
  32-bit values, is a \<^theory_text>\<open>partial_function\<close> with a proof that it returns on the nine stripes. No definition uses fuel.

  \<^bold>\<open>Not modelled.\<close> The calls to govmomi, OPNsense, Kubernetes and NATS themselves; text templates for
  unattended installation; static checks of scripts; authentication; metrics; the wiring of the
  programs. The handlers that only compose modelled queries with such calls (template builds,
  teardown and snapshots, network reconciliation) are left out as well. Of the replica builds, the
  comparison of two machines in vCenter (hardware, encryption, disks, the target) is a parameter.
\<close>

end
